(* ===== verification/Prelude.thy ===== *)
theory Prelude
  imports Main "HOL-Library.AList" "HOL-Library.List_Lexorder" "HOL-Library.Char_ord"
begin

section \<open>Shared vocabulary: Python values, errors, dictionaries and worklists\<close>

text \<open>
  Everything the components share. Runtime data of the program (aggregate payloads, action payloads,
  effect payloads) are JSON values held in Python dictionaries; \<^theory_text>\<open>pyval\<close> is that data, and
  the functions below are the built-ins the program applies to it (truth value, \<open>or\<close>, \<open>str\<close>,
  \<open>int\<close>, \<open>dict\<close>, \<open>list\<close>, \<open>==\<close>). A raised exception is the left value of a sum.

  Conventions. A Python \<open>str\<close> is a list of characters with codes 0 to 255, so the text of the model is
  Latin-1. A dictionary is an association list with string keys; no operation of the program observes
  the order of the keys, because it serialises with sorted keys and compares dictionaries as maps. JSON
  floats do not occur in the modelled decisions and are left out. A built-in that would build a
  dictionary with a non-string key is an error of the model.
\<close>

named_theorems dict_simps \<open>lookup after update, deletion and merging of dictionaries\<close>
named_theorems guard_defs \<open>the guards of the transition tables\<close>
named_theorems reducer_defs \<open>the payload reducers of the transition tables\<close>
named_theorems effect_defs \<open>the effect builders of the transition tables\<close>
named_theorems table_defs \<open>the transition tables and their parts\<close>

subsection \<open>Errors as values\<close>

datatype err =
    ValueError string
  | TypeError string
  | KeyError string
  | RuntimeError string
  | TransitionGuardError string
  | UnknownTransitionError string
  | AggregateVersionConflict string
  | LeaseConflict string
  | StaleFencingToken string
  | CycleTransitionError string
  | GraphCompilationError string
  | DependencyRepairDeferred string
  | AgentSessionCheckpointError string
  | DeferredEffectError string
  | SubmissionInvariantError string

type_synonym 'a res = "err + 'a"

definition rbind :: "'a res \<Rightarrow> ('a \<Rightarrow> 'b res) \<Rightarrow> 'b res" where
  "rbind m f = (case m of Inl e \<Rightarrow> Inl e | Inr x \<Rightarrow> f x)"

lemma rbind_simps [simp]:
  "rbind (Inl e) f = Inl e"
  "rbind (Inr x) f = f x"
  by (simp_all add: rbind_def)

lemma rbind_eq_Inr [simp]: "rbind m f = Inr y \<longleftrightarrow> (\<exists>x. m = Inr x \<and> f x = Inr y)"
  by (cases m) auto

lemma rbind_eq_Inl: "rbind m f = Inl e \<longleftrightarrow> m = Inl e \<or> (\<exists>x. m = Inr x \<and> f x = Inl e)"
  by (cases m) auto

lemma rbind_cong [fundef_cong]:
  "m = n \<Longrightarrow> (\<And>x. n = Inr x \<Longrightarrow> f x = g x) \<Longrightarrow> rbind m f = rbind n g"
  by (cases n) auto

text \<open>The statement \<open>if bad: raise e\<close> in front of the rest of a block.\<close>

definition raise_if :: "bool \<Rightarrow> err \<Rightarrow> unit res" where
  "raise_if b e = (if b then Inl e else Inr ())"

lemma raise_if_eq_Inr [simp]: "raise_if b e = Inr u \<longleftrightarrow> \<not> b"
  by (simp add: raise_if_def)

lemma raise_if_simps [simp]:
  "raise_if True e = Inl e"
  "raise_if False e = Inr ()"
  by (simp_all add: raise_if_def)

lemma rbind_check: "rbind c (\<lambda>_. k) = Inr y \<longleftrightarrow> c = Inr () \<and> k = Inr y" for c :: "unit res"
  by (cases c) auto

text \<open>Sequencing of checks, and of a fallible function over a list.\<close>

fun first_error :: "unit res list \<Rightarrow> unit res" where
  "first_error [] = Inr ()"
| "first_error (c # cs) = rbind c (\<lambda>_. first_error cs)"

lemma first_error_Inr [simp]: "first_error cs = Inr u \<longleftrightarrow> (\<forall>c \<in> set cs. c = Inr ())"
  by (induction cs) auto

fun map_res :: "('a \<Rightarrow> 'b res) \<Rightarrow> 'a list \<Rightarrow> 'b list res" where
  "map_res f [] = Inr []"
| "map_res f (x # xs) = rbind (f x) (\<lambda>y. rbind (map_res f xs) (\<lambda>ys. Inr (y # ys)))"

lemma map_res_length: "map_res f xs = Inr ys \<Longrightarrow> length ys = length xs"
  by (induction xs arbitrary: ys) auto

lemma map_res_total: "(\<And>x. x \<in> set xs \<Longrightarrow> f x = Inr (g x)) \<Longrightarrow> map_res f xs = Inr (map g xs)"
  by (induction xs) auto

subsection \<open>Python values\<close>

datatype pyval =
    PNone
  | PBool bool
  | PInt int
  | PStr string
  | PList "pyval list"
  | PDict "(string \<times> pyval) list"

type_synonym pydict = "(string \<times> pyval) list"

fun truthy :: "pyval \<Rightarrow> bool" where
  "truthy PNone = False"
| "truthy (PBool b) = b"
| "truthy (PInt i) = (i \<noteq> 0)"
| "truthy (PStr s) = (s \<noteq> [])"
| "truthy (PList xs) = (xs \<noteq> [])"
| "truthy (PDict d) = (d \<noteq> [])"

definition py_or :: "pyval \<Rightarrow> pyval \<Rightarrow> pyval" where
  "py_or a b = (if truthy a then a else b)"

text \<open>Membership in the tuple \<open>(None, "", [], {})\<close>.\<close>

definition is_blank :: "pyval \<Rightarrow> bool" where
  "is_blank v = (v = PNone \<or> v = PStr [] \<or> v = PList [] \<or> v = PDict [])"

lemma truthy_not_blank: "truthy v \<Longrightarrow> \<not> is_blank v"
  by (auto simp: is_blank_def)

text \<open>Set union on lists of state names.\<close>

definition list_union :: "'a list \<Rightarrow> 'a list \<Rightarrow> 'a list" where
  "list_union xs ys = xs @ filter (\<lambda>y. y \<notin> set xs) ys"

lemma set_list_union [simp]: "set (list_union xs ys) = set xs \<union> set ys"
  by (auto simp: list_union_def)

lemma distinct_list_union [simp]: "distinct (list_union xs ys) \<longleftrightarrow> distinct xs \<and> distinct (filter (\<lambda>y. y \<notin> set xs) ys)"
  by (auto simp: list_union_def)

subsection \<open>Strings\<close>

fun join :: "string \<Rightarrow> string list \<Rightarrow> string" where
  "join sep [] = []"
| "join sep [x] = x"
| "join sep (x # y # zs) = x @ sep @ join sep (y # zs)"

definition is_space :: "char \<Rightarrow> bool" where
  "is_space c = (let n = (of_char c :: nat) in (9 \<le> n \<and> n \<le> 13) \<or> (28 \<le> n \<and> n \<le> 32) \<or> n = 133 \<or> n = 160)"

definition strip :: "string \<Rightarrow> string" where
  "strip s = rev (dropWhile is_space (rev (dropWhile is_space s)))"

lemma strip_Nil [simp]: "strip [] = []"
  by (simp add: strip_def)

fun digits :: "nat \<Rightarrow> string" where
  "digits n = (if n < 10 then [''0123456789'' ! n] else digits (n div 10) @ [''0123456789'' ! (n mod 10)])"

declare digits.simps [simp del]

definition int_str :: "int \<Rightarrow> string" where
  "int_str i = (if i < 0 then CHR ''-'' # digits (nat (- i)) else digits (nat i))"

lemma digits_nonempty [simp]: "digits n \<noteq> []"
  by (subst digits.simps) simp

lemma int_str_nonempty [simp]: "int_str i \<noteq> []"
  by (simp add: int_str_def)

text \<open>\<open>repr\<close> of a string: the quote is \<open>'\<close> unless the text holds one and no double quote.\<close>

definition hex_digit :: "nat \<Rightarrow> char" where
  "hex_digit n = ''0123456789abcdef'' ! n"

definition repr_char :: "char \<Rightarrow> char \<Rightarrow> string" where
  "repr_char q c = (let n = (of_char c :: nat) in
     if c = q \<or> n = 92 then [CHR 0x5C, c]
     else if n = 9 then [CHR 0x5C, CHR ''t'']
     else if n = 10 then [CHR 0x5C, CHR ''n'']
     else if n = 13 then [CHR 0x5C, CHR ''r'']
     else if n < 32 \<or> (127 \<le> n \<and> n \<le> 160) \<or> n = 173
       then [CHR 0x5C, CHR ''x'', hex_digit (n div 16), hex_digit (n mod 16)]
     else [c])"

definition repr_str :: "string \<Rightarrow> string" where
  "repr_str s = (let q = (if CHR 0x27 \<in> set s \<and> CHR 0x22 \<notin> set s then CHR 0x22 else CHR 0x27)
     in q # concat (map (repr_char q) s) @ [q])"

fun py_repr :: "pyval \<Rightarrow> string" where
  "py_repr PNone = ''None''"
| "py_repr (PBool b) = (if b then ''True'' else ''False'')"
| "py_repr (PInt i) = int_str i"
| "py_repr (PStr s) = repr_str s"
| "py_repr (PList xs) = ''['' @ join '', '' (map py_repr xs) @ '']''"
| "py_repr (PDict d) = ''{'' @ join '', '' (map (\<lambda>(k, v). repr_str k @ '': '' @ py_repr v) d) @ ''}''"

definition py_str :: "pyval \<Rightarrow> string" where
  "py_str v = (case v of PStr s \<Rightarrow> s | _ \<Rightarrow> py_repr v)"

lemma py_str_PStr [simp]: "py_str (PStr s) = s"
  by (simp add: py_str_def)

text \<open>The ubiquitous \<open>str(value or "")\<close>.\<close>

definition str_or_empty :: "pyval \<Rightarrow> string" where
  "str_or_empty v = py_str (py_or v (PStr []))"

lemma str_or_empty_simps [simp]:
  "str_or_empty PNone = []"
  "str_or_empty (PStr s) = s"
  by (simp_all add: str_or_empty_def py_or_def)

lemma str_or_empty_truthy: "str_or_empty v \<noteq> [] \<Longrightarrow> truthy v"
  by (auto simp: str_or_empty_def py_or_def split: if_splits)

subsection \<open>Conversions \<open>int\<close>, \<open>dict\<close>, \<open>list\<close>\<close>

fun parse_digits :: "nat \<Rightarrow> bool \<Rightarrow> string \<Rightarrow> nat option" where
  "parse_digits acc seen [] = (if seen then Some acc else None)"
| "parse_digits acc seen (c # cs) =
     (let n = (of_char c :: nat) in
      if 48 \<le> n \<and> n \<le> 57 then parse_digits (10 * acc + (n - 48)) True cs
      else if c = CHR ''_'' \<and> seen then parse_digits acc False cs
      else None)"

definition parse_int :: "string \<Rightarrow> int option" where
  "parse_int s = (case strip s of
       [] \<Rightarrow> None
     | c # cs \<Rightarrow> (if c = CHR ''-'' then map_option (\<lambda>n. - int n) (parse_digits 0 False cs)
                 else if c = CHR ''+'' then map_option int (parse_digits 0 False cs)
                 else map_option int (parse_digits 0 False (c # cs))))"

fun py_int :: "pyval \<Rightarrow> int res" where
  "py_int (PInt i) = Inr i"
| "py_int (PBool b) = Inr (if b then 1 else 0)"
| "py_int (PStr s) = (case parse_int s of None \<Rightarrow> Inl (ValueError ''invalid literal for int()'') | Some i \<Rightarrow> Inr i)"
| "py_int _ = Inl (TypeError ''int() argument'')"

fun dict_item :: "pyval \<Rightarrow> (string \<times> pyval) res" where
  "dict_item (PList [PStr k, v]) = Inr (k, v)"
| "dict_item (PList [_, _]) = Inl (TypeError ''dictionary key'')"
| "dict_item (PList _) = Inl (ValueError ''dictionary update sequence element'')"
| "dict_item (PStr [a, b]) = Inr ([a], PStr [b])"
| "dict_item (PStr _) = Inl (ValueError ''dictionary update sequence element'')"
| "dict_item (PDict [(k, _), (k', _)]) = Inr (k, PStr k')"
| "dict_item (PDict _) = Inl (ValueError ''dictionary update sequence element'')"
| "dict_item _ = Inl (TypeError ''cannot convert dictionary update sequence element'')"

definition dset :: "string \<Rightarrow> pyval \<Rightarrow> pydict \<Rightarrow> pydict" where
  "dset k v d = AList.update k v d"

definition dpop :: "string \<Rightarrow> pydict \<Rightarrow> pydict" where
  "dpop k d = AList.delete k d"

definition dpops :: "string list \<Rightarrow> pydict \<Rightarrow> pydict" where
  "dpops ks d = fold dpop ks d"

definition dupdate :: "pydict \<Rightarrow> pydict \<Rightarrow> pydict" where
  "dupdate d u = foldr (\<lambda>(k, v). dset k v) u d"

definition dget :: "pydict \<Rightarrow> string \<Rightarrow> pyval" where
  "dget d k = (case map_of d k of None \<Rightarrow> PNone | Some v \<Rightarrow> v)"

definition dget_or :: "pydict \<Rightarrow> string \<Rightarrow> pyval \<Rightarrow> pyval" where
  "dget_or d k v = (case map_of d k of None \<Rightarrow> v | Some w \<Rightarrow> w)"

fun py_dict :: "pyval \<Rightarrow> pydict res" where
  "py_dict (PDict d) = Inr d"
| "py_dict (PList xs) = rbind (map_res dict_item xs) (\<lambda>ps. Inr (fold (\<lambda>(k, v). dset k v) ps []))"
| "py_dict (PStr s) = (if s = [] then Inr [] else Inl (ValueError ''dictionary update sequence element''))"
| "py_dict _ = Inl (TypeError ''object is not iterable'')"

fun py_list :: "pyval \<Rightarrow> pyval list res" where
  "py_list (PList xs) = Inr xs"
| "py_list (PStr s) = Inr (map (\<lambda>c. PStr [c]) s)"
| "py_list (PDict d) = Inr (map (\<lambda>(k, _). PStr k) d)"
| "py_list _ = Inl (TypeError ''object is not iterable'')"

text \<open>The idioms \<open>dict(value or {})\<close>, \<open>list(value or [])\<close> and \<open>int(value or 0)\<close>.\<close>

definition dict_or_empty :: "pyval \<Rightarrow> pydict res" where
  "dict_or_empty v = py_dict (py_or v (PDict []))"

definition list_or_empty :: "pyval \<Rightarrow> pyval list res" where
  "list_or_empty v = py_list (py_or v (PList []))"

definition int_or_zero :: "pyval \<Rightarrow> int res" where
  "int_or_zero v = py_int (py_or v (PInt 0))"

lemma conversions_of_None [simp]:
  "dict_or_empty PNone = Inr []"
  "list_or_empty PNone = Inr []"
  "int_or_zero PNone = Inr 0"
  by (simp_all add: dict_or_empty_def list_or_empty_def int_or_zero_def py_or_def)

lemma conversions_of_own_type [simp]:
  "dict_or_empty (PDict d) = Inr d"
  "list_or_empty (PList xs) = Inr xs"
  "int_or_zero (PInt i) = Inr i"
  by (simp_all add: dict_or_empty_def list_or_empty_def int_or_zero_def py_or_def)

text \<open>\<open>==\<close> on JSON values: dictionaries compare as maps, and \<open>True == 1\<close>.\<close>

fun py_eq :: "pyval \<Rightarrow> pyval \<Rightarrow> bool" where
  "py_eq PNone w = (w = PNone)"
| "py_eq (PBool b) w = (w = PBool b \<or> w = PInt (if b then 1 else 0))"
| "py_eq (PInt i) w = (w = PInt i \<or> (i = 0 \<and> w = PBool False) \<or> (i = 1 \<and> w = PBool True))"
| "py_eq (PStr s) w = (w = PStr s)"
| "py_eq (PList xs) w = (case w of PList ys \<Rightarrow> list_all2 py_eq xs ys | _ \<Rightarrow> False)"
| "py_eq (PDict d) w = (case w of
       PDict e \<Rightarrow> length d = length e
         \<and> list_all (\<lambda>(k, v). case map_of e k of None \<Rightarrow> False | Some u \<Rightarrow> py_eq v u) d
     | _ \<Rightarrow> False)"

subsection \<open>Laws of dictionaries\<close>

lemma map_of_dset [simp, dict_simps]: "map_of (dset k v d) = (map_of d)(k \<mapsto> v)"
  by (simp add: dset_def update_conv')

lemma map_of_dpop [simp, dict_simps]: "map_of (dpop k d) = (map_of d)(k := None)"
  by (simp add: dpop_def delete_conv')

lemma map_of_dpops [dict_simps]: "map_of (dpops ks d) x = (if x \<in> set ks then None else map_of d x)"
  by (induction ks arbitrary: d) (auto simp: dpops_def)

lemma map_of_dupdate [simp, dict_simps]: "map_of (dupdate d u) = map_of d ++ map_of u"
  by (induction u) (auto simp: dupdate_def fun_eq_iff map_add_def)

lemma dget_dset [simp]: "dget (dset k v d) x = (if x = k then v else dget d x)"
  by (simp add: dget_def)

lemma dget_dpop [simp]: "dget (dpop k d) x = (if x = k then PNone else dget d x)"
  by (simp add: dget_def)

lemma dget_dpops: "dget (dpops ks d) x = (if x \<in> set ks then PNone else dget d x)"
  by (simp add: dget_def map_of_dpops)

lemma dget_dupdate: "dget (dupdate d u) x = (case map_of u x of None \<Rightarrow> dget d x | Some v \<Rightarrow> v)"
  by (auto simp: dget_def map_add_def split: option.splits)

lemma dget_Nil [simp]: "dget [] x = PNone"
  by (simp add: dget_def)

lemma dget_blank_or_Some: "\<not> is_blank (dget d k) \<Longrightarrow> \<exists>v. map_of d k = Some v \<and> v = dget d k"
  by (auto simp: dget_def is_blank_def split: option.splits)

lemma dget_dupdate_nonblank: "\<not> is_blank (dget u x) \<Longrightarrow> dget (dupdate d u) x = dget u x"
  by (auto simp: dget_def is_blank_def map_add_def split: option.splits)

subsection \<open>Worklists\<close>

text \<open>
  Three loops of the program compute a reachable set with a stack: pop the last element, add every
  successor not yet seen to the seen set and to the stack. The fuel of the model counts iterations;
  the locale below shows that the number of elements that can ever be pushed, plus one, is enough,
  and that the result is exactly the reachable set.
\<close>

fun visit :: "'a list \<Rightarrow> 'a list \<Rightarrow> 'a list \<Rightarrow> 'a list \<times> 'a list" where
  "visit [] seen pending = (seen, pending)"
| "visit (t # ts) seen pending =
     (if t \<in> set seen then visit ts seen pending
      else visit ts (t # seen) (pending @ [t]))"

fun worklist :: "nat \<Rightarrow> ('a \<Rightarrow> 'a list) \<Rightarrow> 'a list \<Rightarrow> 'a list \<Rightarrow> 'a list option" where
  "worklist 0 succs seen pending = None"
| "worklist (Suc fuel) succs seen pending =
     (if pending = [] then Some seen
      else case visit (succs (last pending)) seen (butlast pending) of
        (seen', pending') \<Rightarrow> worklist fuel succs seen' pending')"

definition succ_rel :: "('a \<Rightarrow> 'a list) \<Rightarrow> ('a \<times> 'a) set" where
  "succ_rel succs = {(x, y). y \<in> set (succs x)}"

lemma visit_sets:
  "visit ts seen pending = (seen', pending') \<Longrightarrow>
     set seen' = set seen \<union> set ts
   \<and> set pending \<subseteq> set pending'
   \<and> set pending' = set pending \<union> (set ts - set seen)"
  by (induction ts arbitrary: seen pending) (auto split: if_splits)

lemma visit_measure:
  assumes "finite U" and "set ts \<subseteq> U" and "visit ts seen pending = (seen', pending')"
  shows "card (U - set seen') + length pending' = card (U - set seen) + length pending"
  using assms(2,3)
proof (induction ts arbitrary: seen pending)
  case (Cons t ts)
  show ?case
  proof (cases "t \<in> set seen")
    case False
    with Cons.prems(1) have eq: "U - set seen = insert t (U - set (t # seen))" by auto
    have "card (insert t (U - set (t # seen))) = Suc (card (U - set (t # seen)))"
      using assms(1) by (intro card_insert_disjoint) auto
    then have "card (U - set seen) = Suc (card (U - set (t # seen)))" by (simp only: eq)
    moreover have "card (U - set seen') + length pending' =
        card (U - set (t # seen)) + length (pending @ [t])"
      using Cons.prems False by (intro Cons.IH) auto
    ultimately show ?thesis by simp
  qed (use Cons in simp)
qed simp

lemma worklist_sound:
  "worklist fuel succs seen pending = Some r \<Longrightarrow>
     set r \<subseteq> set seen \<union> {y. \<exists>p \<in> set pending. (p, y) \<in> (succ_rel succs)\<^sup>+}"
proof (induction fuel arbitrary: seen pending)
  case (Suc fuel)
  show ?case
  proof (cases "pending = []")
    case False
    obtain s' p' where v: "visit (succs (last pending)) seen (butlast pending) = (s', p')"
      by fastforce
    have sets: "set s' = set seen \<union> set (succs (last pending))"
      "set p' \<subseteq> set (butlast pending) \<union> set (succs (last pending))"
      using visit_sets [OF v] by auto
    from Suc.prems False v have "worklist fuel succs s' p' = Some r" by simp
    then have *: "set r \<subseteq> set s' \<union> {y. \<exists>p \<in> set p'. (p, y) \<in> (succ_rel succs)\<^sup>+}" by (rule Suc.IH)
    have step: "\<And>y. y \<in> set (succs (last pending)) \<Longrightarrow> (last pending, y) \<in> succ_rel succs"
      by (simp add: succ_rel_def)
    have "\<And>p. p \<in> set p' \<Longrightarrow> p \<in> set pending \<or> (last pending, p) \<in> succ_rel succs"
      using sets(2) step by (auto dest: in_set_butlastD)
    then have p': "\<And>p y. p \<in> set p' \<Longrightarrow> (p, y) \<in> (succ_rel succs)\<^sup>+ \<Longrightarrow>
        \<exists>q \<in> set pending. (q, y) \<in> (succ_rel succs)\<^sup>+"
      using False by (meson last_in_set trancl_into_trancl2)
    have first: "\<And>y. y \<in> set (succs (last pending)) \<Longrightarrow> \<exists>q \<in> set pending. (q, y) \<in> (succ_rel succs)\<^sup>+"
      using False step by (meson last_in_set r_into_trancl)
    show ?thesis
    proof
      fix x assume "x \<in> set r"
      with * sets(1) consider "x \<in> set seen" | "x \<in> set (succs (last pending))"
        | p where "p \<in> set p'" "(p, x) \<in> (succ_rel succs)\<^sup>+"
        by blast
      then show "x \<in> set seen \<union> {y. \<exists>p \<in> set pending. (p, y) \<in> (succ_rel succs)\<^sup>+}"
        by cases (use first p' in blast)+
    qed
  qed (use Suc.prems in auto)
qed simp

lemma worklist_closed:
  assumes "worklist fuel succs seen pending = Some r"
    and "\<forall>x \<in> set seen. x \<in> set pending \<or> set (succs x) \<subseteq> set seen"
  shows "set seen \<subseteq> set r \<and> (\<forall>x \<in> set pending \<union> set r. set (succs x) \<subseteq> set r)"
  using assms
proof (induction fuel arbitrary: seen pending)
  case (Suc fuel)
  show ?case
  proof (cases "pending = []")
    case False
    obtain s' p' where v: "visit (succs (last pending)) seen (butlast pending) = (s', p')"
      by fastforce
    have sets: "set s' = set seen \<union> set (succs (last pending))"
      "set p' = set (butlast pending) \<union> (set (succs (last pending)) - set seen)"
      using visit_sets [OF v] by auto
    have split: "set pending = insert (last pending) (set (butlast pending))"
      using False by (metis append_butlast_last_id list.set(1,2) set_append sup_bot.right_neutral Un_insert_right)
    have "\<forall>x \<in> set s'. x \<in> set p' \<or> set (succs x) \<subseteq> set s'"
      using Suc.prems(2) sets split by auto
    moreover from Suc.prems(1) False v have "worklist fuel succs s' p' = Some r" by simp
    ultimately have "set s' \<subseteq> set r \<and> (\<forall>x \<in> set p' \<union> set r. set (succs x) \<subseteq> set r)"
      using Suc.IH by blast
    with sets split show ?thesis by auto
  qed (use Suc.prems in auto)
qed simp

locale finite_successors =
  fixes succs :: "'a \<Rightarrow> 'a list" and univ :: "'a list"
  assumes successors_in_universe: "set (succs x) \<subseteq> set univ"
begin

lemma worklist_returns:
  "card (set univ - set seen) + length pending < fuel \<Longrightarrow> \<exists>r. worklist fuel succs seen pending = Some r"
proof (induction fuel arbitrary: seen pending)
  case (Suc fuel)
  show ?case
  proof (cases "pending = []")
    case False
    obtain s' p' where v: "visit (succs (last pending)) seen (butlast pending) = (s', p')"
      by fastforce
    have "card (set univ - set s') + length p' = card (set univ - set seen) + length (butlast pending)"
      by (rule visit_measure [OF _ successors_in_universe v]) simp
    then have "card (set univ - set s') + length p' < fuel"
      using Suc.prems False by (cases pending rule: rev_cases) auto
    from Suc.IH [OF this] v False show ?thesis by simp
  qed simp
qed simp

lemma worklist_reaches:
  assumes "length univ + length pending < fuel"
    and inv: "\<forall>x \<in> set seen. x \<in> set pending \<or> set (succs x) \<subseteq> set seen"
  shows "\<exists>r. worklist fuel succs seen pending = Some r
    \<and> set r = set seen \<union> {y. \<exists>p \<in> set pending. (p, y) \<in> (succ_rel succs)\<^sup>+}"
proof -
  have "card (set univ - set seen) \<le> card (set univ)"
    by (rule card_mono) auto
  also have "\<dots> \<le> length univ" by (rule card_length)
  finally obtain r where r: "worklist fuel succs seen pending = Some r"
    using worklist_returns [of seen pending fuel] assms(1) by fastforce
  have closed: "set seen \<subseteq> set r" "\<And>x. x \<in> set pending \<union> set r \<Longrightarrow> set (succs x) \<subseteq> set r"
    using worklist_closed [OF r inv] by auto
  have "y \<in> set r" if "p \<in> set pending" "(p, y) \<in> (succ_rel succs)\<^sup>+" for p y
    using that(2,1) by (induction rule: trancl_induct) (use closed in \<open>auto simp: succ_rel_def\<close>)
  with closed(1) worklist_sound [OF r] r show ?thesis by blast
qed

end

end
