(* ===== verification/Operations.thy ===== *)
theory Operations
  imports Prelude
begin

section \<open>Sequences of store operations\<close>

text \<open>
  A store is a state with operations that either succeed and change it, or raise and leave it alone (every
  operation of the stores runs in one write transaction, rolled back when it raises). The locales say what
  a client may conclude about any sequence of operations from laws about one: an invariant that every
  operation keeps, and a measure that none decreases.
\<close>

definition run_ops :: "('s \<Rightarrow> 'op \<Rightarrow> 's) \<Rightarrow> 's \<Rightarrow> 'op list \<Rightarrow> 's" where
  "run_ops step s ops = foldl step s ops"

lemma run_ops_simps [simp]:
  "run_ops step s [] = s"
  "run_ops step s (op # ops) = run_ops step (step s op) ops"
  by (simp_all add: run_ops_def)

lemma run_ops_append: "run_ops step s (ops @ ops') = run_ops step (run_ops step s ops) ops'"
  by (simp add: run_ops_def)

text \<open>The state after an operation: the new one, or the old one when the operation raised.\<close>

definition after :: "'s \<Rightarrow> ('r \<times> 's) res \<Rightarrow> 's" where
  "after s r = (case r of Inl e \<Rightarrow> s | Inr (x, s') \<Rightarrow> s')"

lemma after_simps [simp]:
  "after s (Inl e) = s"
  "after s (Inr (x, s')) = s'"
  by (simp_all add: after_def)

locale store =
  fixes step :: "'s \<Rightarrow> 'op \<Rightarrow> 's" and inv :: "'s \<Rightarrow> bool"
  assumes step_inv: "inv s \<Longrightarrow> inv (step s op)"
begin

lemma run_inv: "inv s \<Longrightarrow> inv (run_ops step s ops)"
  by (induction ops arbitrary: s) (auto intro: step_inv)

end

locale monotone_store = store +
  fixes rank :: "'s \<Rightarrow> int"
  assumes step_rank: "inv s \<Longrightarrow> rank s \<le> rank (step s op)"
begin

lemma run_rank: "inv s \<Longrightarrow> rank s \<le> rank (run_ops step s ops)"
proof (induction ops arbitrary: s)
  case (Cons op ops)
  have "rank s \<le> rank (step s op)" by (rule step_rank [OF Cons.prems])
  also have "\<dots> \<le> rank (run_ops step (step s op) ops)" by (rule Cons.IH [OF step_inv [OF Cons.prems]])
  finally show ?case by simp
qed simp

text \<open>What is true from one rank on stays false below it.\<close>

lemma run_rank_above: "inv s \<Longrightarrow> n < rank s \<Longrightarrow> n < rank (run_ops step s ops)"
  using run_rank less_le_trans by blast

end

text \<open>
  Refinement: each operation is, seen through an abstraction, a move of an abstract specification (or none).
  Then every history is a sequence of abstract moves.
\<close>

locale refined_store = store +
  fixes abst :: "'s \<Rightarrow> 'a" and move :: "'a \<Rightarrow> 'a \<Rightarrow> bool"
  assumes step_move: "inv s \<Longrightarrow> move (abst s) (abst (step s op))"
begin

lemma run_moves: "inv s \<Longrightarrow> move\<^sup>*\<^sup>* (abst s) (abst (run_ops step s ops))"
proof (induction ops arbitrary: s)
  case (Cons op ops)
  from step_move [OF Cons.prems] Cons.IH [OF step_inv [OF Cons.prems]]
  show ?case unfolding run_ops_simps by (rule converse_rtranclp_into_rtranclp)
qed simp

text \<open>What no move destroys holds at the end of a history if it held at its start.\<close>

lemma run_stable:
  assumes "inv s" and "P (abst s)" and stable: "\<And>x y. P x \<Longrightarrow> move x y \<Longrightarrow> P y"
  shows "P (abst (run_ops step s ops))"
proof -
  have "P y" if "move\<^sup>*\<^sup>* x y" "P x" for x y
    using that by (induction rule: rtranclp_induct) (auto intro: stable)
  with run_moves [OF assms(1)] assms(2) show ?thesis by blast
qed

end

end
