(* ===== verification/Leases.thy ===== *)
theory Leases
  imports Operations
begin

section \<open>Leases with fencing tokens\<close>

text \<open>
  \<open>bunshin/storage/leases.py\<close>. A lease row belongs to a resource key; claiming it takes the next fencing
  token, and every later use must show the owner and the token of the row. Instants are integers (the
  source's ISO texts in UTC order as instants do), passed where the source reads the clock; a row whose
  expiry does not parse cannot occur, since only these operations write it. The metadata is the dictionary
  that is stored as JSON. The table is an association list keyed by resource key, so at most one row per key.
\<close>

subsection \<open>The table\<close>

record LeaseRow =
  lease_owner :: string
  lease_token :: int
  lease_acquired :: int
  lease_renewed :: int
  lease_expires :: int
  lease_metadata :: pydict

type_synonym leases = "(string \<times> LeaseRow) list"

record LeaseGrant =
  grant_resource :: string
  grant_owner :: string
  grant_token :: int
  grant_acquired :: int
  grant_expires :: int

definition put_lease :: "string \<Rightarrow> LeaseRow \<Rightarrow> leases \<Rightarrow> leases" where
  "put_lease key row tbl = AList.update key row tbl"

lemma map_of_put_lease [simp]: "map_of (put_lease key row tbl) = (map_of tbl)(key \<mapsto> row)"
  by (simp add: put_lease_def update_conv')

subsection \<open>Operations\<close>

definition assert_lease_row :: "LeaseRow option \<Rightarrow> string \<Rightarrow> int \<Rightarrow> int option \<Rightarrow> LeaseRow res" where
  "assert_lease_row row owner_id fencing_token now = (case row of
       None \<Rightarrow> Inl (StaleFencingToken ''lease does not exist'')
     | Some r \<Rightarrow>
         if lease_owner r \<noteq> owner_id \<or> lease_token r \<noteq> fencing_token then
           Inl (StaleFencingToken ''worker fencing token is stale'')
         else if (case now of None \<Rightarrow> False | Some t \<Rightarrow> lease_expires r \<le> t) then
           Inl (StaleFencingToken ''worker lease has expired'')
         else Inr r)"

definition claim_lease ::
  "leases \<Rightarrow> string \<Rightarrow> string \<Rightarrow> int \<Rightarrow> pydict \<Rightarrow> int \<Rightarrow> (LeaseGrant \<times> leases) res" where
  "claim_lease tbl resource_key owner_id ttl_seconds metadata now =
     (if strip resource_key = [] \<or> strip owner_id = [] then
        Inl (ValueError ''resource_key and owner_id are required'')
      else
        let expires_at = now + max 1 ttl_seconds; row = map_of tbl resource_key in
        if (case row of None \<Rightarrow> False | Some r \<Rightarrow> lease_owner r \<noteq> [] \<and> now < lease_expires r) then
          Inl (LeaseConflict (''resource already leased by '' @ (case row of None \<Rightarrow> [] | Some r \<Rightarrow> lease_owner r)))
        else
          let fencing_token = (case row of None \<Rightarrow> 0 | Some r \<Rightarrow> lease_token r) + 1 in
          Inr (\<lparr>grant_resource = resource_key, grant_owner = owner_id, grant_token = fencing_token,
                grant_acquired = now, grant_expires = expires_at\<rparr>,
               put_lease resource_key \<lparr>lease_owner = owner_id, lease_token = fencing_token,
                 lease_acquired = now, lease_renewed = now, lease_expires = expires_at,
                 lease_metadata = metadata\<rparr> tbl))"

definition renew_lease :: "leases \<Rightarrow> string \<Rightarrow> string \<Rightarrow> int \<Rightarrow> int \<Rightarrow> int \<Rightarrow> (LeaseGrant \<times> leases) res" where
  "renew_lease tbl resource_key owner_id fencing_token ttl_seconds now =
     (let expires_at = now + max 1 ttl_seconds in
      rbind (assert_lease_row (map_of tbl resource_key) owner_id fencing_token (Some now)) (\<lambda>r.
      Inr (\<lparr>grant_resource = resource_key, grant_owner = owner_id, grant_token = fencing_token,
            grant_acquired = lease_acquired r, grant_expires = expires_at\<rparr>,
           put_lease resource_key (r\<lparr>lease_renewed := now, lease_expires := expires_at\<rparr>) tbl)))"

definition assert_fencing_token :: "leases \<Rightarrow> string \<Rightarrow> string \<Rightarrow> int \<Rightarrow> int \<Rightarrow> unit res" where
  "assert_fencing_token tbl resource_key owner_id fencing_token now =
     rbind (assert_lease_row (map_of tbl resource_key) owner_id fencing_token (Some now)) (\<lambda>_. Inr ())"

definition release_lease :: "leases \<Rightarrow> string \<Rightarrow> string \<Rightarrow> int \<Rightarrow> int \<Rightarrow> int \<Rightarrow> (unit \<times> leases) res" where
  "release_lease tbl resource_key owner_id fencing_token now now' =
     rbind (assert_lease_row (map_of tbl resource_key) owner_id fencing_token None) (\<lambda>r.
     Inr ((), put_lease resource_key (r\<lparr>lease_owner := [], lease_renewed := now, lease_expires := now'\<rparr>) tbl))"

definition expired_leases :: "leases \<Rightarrow> int \<Rightarrow> (string \<times> LeaseRow) list" where
  "expired_leases tbl now =
     sort_key (\<lambda>(key, r). lease_expires r) (filter (\<lambda>(key, r). lease_owner r \<noteq> [] \<and> lease_expires r \<le> now) tbl)"

definition read_lease :: "leases \<Rightarrow> string \<Rightarrow> LeaseRow option" where
  "read_lease tbl resource_key = map_of tbl resource_key"

definition update_lease_metadata ::
  "leases \<Rightarrow> string \<Rightarrow> string \<Rightarrow> int \<Rightarrow> pydict \<Rightarrow> int \<Rightarrow> int \<Rightarrow> (unit \<times> leases) res" where
  "update_lease_metadata tbl resource_key owner_id fencing_token metadata now now' =
     rbind (assert_lease_row (map_of tbl resource_key) owner_id fencing_token (Some now)) (\<lambda>r.
     Inr ((), put_lease resource_key (r\<lparr>lease_metadata := metadata, lease_renewed := now'\<rparr>) tbl))"

definition clear_expired_lease :: "leases \<Rightarrow> string \<Rightarrow> int \<Rightarrow> int \<Rightarrow> int \<Rightarrow> int \<Rightarrow> (bool \<times> leases) res" where
  "clear_expired_lease tbl resource_key fencing_token now now' now'' = (case map_of tbl resource_key of
       None \<Rightarrow> Inr (False, tbl)
     | Some r \<Rightarrow>
         if lease_token r = fencing_token \<and> lease_expires r \<le> now'' then
           Inr (True, put_lease resource_key (r\<lparr>lease_owner := [], lease_renewed := now, lease_expires := now'\<rparr>) tbl)
         else Inr (False, tbl))"

subsection \<open>Any sequence of operations\<close>

datatype lease_op =
    Claim string string int pydict int
  | Renew string string int int int
  | Release string string int int int
  | UpdateMetadata string string int pydict int int
  | ClearExpired string int int int int

fun lease_step :: "leases \<Rightarrow> lease_op \<Rightarrow> leases" where
  "lease_step tbl (Claim k owner ttl meta t) = after tbl (claim_lease tbl k owner ttl meta t)"
| "lease_step tbl (Renew k owner token ttl t) = after tbl (renew_lease tbl k owner token ttl t)"
| "lease_step tbl (Release k owner token t t') = after tbl (release_lease tbl k owner token t t')"
| "lease_step tbl (UpdateMetadata k owner token meta t t') =
     after tbl (update_lease_metadata tbl k owner token meta t t')"
| "lease_step tbl (ClearExpired k token t t' t'') = after tbl (clear_expired_lease tbl k token t t' t'')"

definition token_of :: "leases \<Rightarrow> string \<Rightarrow> int" where
  "token_of tbl key = (case map_of tbl key of None \<Rightarrow> 0 | Some r \<Rightarrow> lease_token r)"

text \<open>No two rows for one key, and every token is positive.\<close>

definition leases_ok :: "leases \<Rightarrow> bool" where
  "leases_ok tbl \<longleftrightarrow> distinct (map fst tbl) \<and> (\<forall>k r. map_of tbl k = Some r \<longrightarrow> 0 < lease_token r)"

lemma assert_lease_row_Inr:
  "assert_lease_row row owner token now = Inr r \<longleftrightarrow>
     row = Some r \<and> lease_owner r = owner \<and> lease_token r = token \<and> (\<forall>t. now = Some t \<longrightarrow> t < lease_expires r)"
  by (auto simp: assert_lease_row_def split: option.splits)

lemma leases_ok_put: "leases_ok tbl \<Longrightarrow> 0 < lease_token row \<Longrightarrow> leases_ok (put_lease key row tbl)"
  by (auto simp: leases_ok_def) (simp add: put_lease_def distinct_update)

lemma leases_ok_token: "leases_ok tbl \<Longrightarrow> map_of tbl k = Some r \<Longrightarrow> 0 < lease_token r"
  by (simp add: leases_ok_def)

text \<open>How one operation changes the row of one key.\<close>

lemma lease_step_row:
  assumes "leases_ok tbl"
  shows "leases_ok (lease_step tbl op)"
    and "token_of tbl key \<le> token_of (lease_step tbl op) key"
proof -
  show "leases_ok (lease_step tbl op)"
    using assms leases_ok_token [OF assms]
    by (cases op)
       (auto simp: claim_lease_def renew_lease_def release_lease_def update_lease_metadata_def
          clear_expired_lease_def after_def Let_def assert_lease_row_Inr less_imp_le
          intro!: leases_ok_put add_pos_pos split: sum.splits prod.splits option.splits if_splits)
  show "token_of tbl key \<le> token_of (lease_step tbl op) key"
    by (cases op)
       (auto simp: claim_lease_def renew_lease_def release_lease_def update_lease_metadata_def token_of_def
          clear_expired_lease_def after_def Let_def assert_lease_row_Inr
          split: sum.splits prod.splits option.splits if_splits)
qed

interpretation lease_tokens: monotone_store lease_step leases_ok "\<lambda>tbl. token_of tbl key" for key
  by unfold_locales (auto intro: lease_step_row)

subsection \<open>Properties\<close>

lemma claim_lease_Inr:
  "claim_lease tbl k owner ttl meta t = Inr (g, tbl') \<Longrightarrow>
     grant_token g = token_of tbl k + 1 \<and> token_of tbl' k = token_of tbl k + 1"
  by (auto simp: claim_lease_def Let_def token_of_def split: if_splits option.splits)

lemma claim_lease_owner: "claim_lease tbl k owner ttl meta t = Inr (g, tbl') \<Longrightarrow> \<exists>r. map_of tbl' k = Some r \<and> lease_owner r = owner"
  by (auto simp: claim_lease_def Let_def split: if_splits)

lemma stale_row:
  "token \<noteq> token_of tbl k \<Longrightarrow> \<exists>m. assert_lease_row (map_of tbl k) owner token now = Inl (StaleFencingToken m)"
  by (auto simp: assert_lease_row_def token_of_def split: option.splits)

text \<open>The clock readings of an operation, and whether it is the holder's own.\<close>

fun op_instants :: "lease_op \<Rightarrow> int list" where
  "op_instants (Claim k owner ttl meta t) = [t]"
| "op_instants (Renew k owner token ttl t) = [t]"
| "op_instants (Release k owner token t t') = [t, t']"
| "op_instants (UpdateMetadata k owner token meta t t') = [t, t']"
| "op_instants (ClearExpired k token t t' t'') = [t, t', t'']"

fun own_op :: "string \<Rightarrow> string \<Rightarrow> int \<Rightarrow> lease_op \<Rightarrow> bool" where
  "own_op k owner token (Renew k' owner' token' ttl t) \<longleftrightarrow> k' = k \<and> owner' = owner \<and> token' = token"
| "own_op k owner token (Release k' owner' token' t t') \<longleftrightarrow> k' = k \<and> owner' = owner \<and> token' = token"
| "own_op k owner token (UpdateMetadata k' owner' token' meta t t') \<longleftrightarrow> k' = k \<and> owner' = owner \<and> token' = token"
| "own_op k owner token op \<longleftrightarrow> False"

lemma foreign_step:
  assumes "map_of tbl k = Some r" and "lease_owner r \<noteq> []" and "\<not> own_op k (lease_owner r) (lease_token r) op"
    and "\<forall>t \<in> set (op_instants op). t < lease_expires r"
  shows "map_of (lease_step tbl op) k = Some r"
  using assms
  by (cases op)
     (auto simp: claim_lease_def renew_lease_def release_lease_def update_lease_metadata_def
        clear_expired_lease_def after_def Let_def assert_lease_row_Inr
        split: sum.splits prod.splits option.splits if_splits)

text \<open>
  A live lease is exclusive: until it expires nobody but its holder can disturb it. Whatever others do
  before the expiry instant, with any owner and any token, the row is unchanged: the holder still passes the
  fencing check, and a claim by anyone raises \<open>LeaseConflict\<close>.\<close>

theorem live_lease_is_exclusive:
  assumes "map_of tbl k = Some r" and "lease_owner r \<noteq> []"
    and "\<forall>op \<in> set ops. \<not> own_op k (lease_owner r) (lease_token r) op \<and> (\<forall>t \<in> set (op_instants op). t < lease_expires r)"
    and "now < lease_expires r"
    and later: "later = run_ops lease_step tbl ops"
  shows "map_of later k = Some r
    \<and> assert_fencing_token later k (lease_owner r) (lease_token r) now = Inr ()
    \<and> (strip k \<noteq> [] \<and> strip owner \<noteq> [] \<longrightarrow> (\<exists>m. claim_lease later k owner ttl meta now = Inl (LeaseConflict m)))"
proof (intro conjI)
  have row: "map_of (run_ops lease_step s ops) k = Some r" if "map_of s k = Some r" for s
    using that assms(3) by (induction ops arbitrary: s) (simp_all add: foreign_step [OF _ assms(2)])
  then show kept: "map_of later k = Some r" using assms(1) by (simp add: later)
  show "assert_fencing_token later k (lease_owner r) (lease_token r) now = Inr ()"
    using kept assms(4) by (simp add: assert_fencing_token_def assert_lease_row_def)
  show "strip k \<noteq> [] \<and> strip owner \<noteq> [] \<longrightarrow> (\<exists>m. claim_lease later k owner ttl meta now = Inl (LeaseConflict m))"
    using kept assms(2,4) by (simp add: claim_lease_def Let_def)
qed

text \<open>
  A dead lease can always be taken over: when the row is absent, released or expired, a claim with
  non-blank names succeeds, with the next token and a lifetime of at least one unit, and the new holder
  immediately passes the fencing check.\<close>

theorem dead_lease_can_be_claimed:
  assumes "strip k \<noteq> []" and "strip owner \<noteq> []"
    and "\<forall>r. map_of tbl k = Some r \<longrightarrow> lease_owner r = [] \<or> lease_expires r \<le> now"
  shows "\<exists>g tbl'. claim_lease tbl k owner ttl meta now = Inr (g, tbl')
    \<and> grant_token g = token_of tbl k + 1 \<and> now < grant_expires g
    \<and> assert_fencing_token tbl' k owner (grant_token g) now = Inr ()"
  using assms
  by (cases "map_of tbl k")
     (auto simp: claim_lease_def Let_def token_of_def assert_fencing_token_def assert_lease_row_def)

subsection \<open>Settled attempts delete their lease\<close>

text \<open>
  Settling, retrying or cancelling a role attempt deletes the attempt's own lease row, so the next claim of
  that resource starts again at token 1. Tokens alone no longer order such claims; the pair of owner and
  token still protects, because an attempt identifier is not reused.
\<close>

definition delete_attempt_lease :: "leases \<Rightarrow> string \<Rightarrow> string \<Rightarrow> int \<Rightarrow> leases" where
  "delete_attempt_lease tbl lease_resource attempt_id fencing_token =
     (if lease_resource \<noteq> [] \<and> fencing_token \<noteq> 0 then
        filter (\<lambda>(k, r). \<not> (k = lease_resource \<and> lease_owner r = attempt_id \<and> lease_token r = fencing_token)) tbl
      else tbl)"

datatype lease_event = Operation lease_op | DeleteAttempt string string int

fun lease_event_step :: "leases \<Rightarrow> lease_event \<Rightarrow> leases" where
  "lease_event_step tbl (Operation op) = lease_step tbl op"
| "lease_event_step tbl (DeleteAttempt k owner token) = delete_attempt_lease tbl k owner token"

fun claims_for :: "string \<Rightarrow> string \<Rightarrow> lease_event \<Rightarrow> bool" where
  "claims_for k owner (Operation (Claim k' owner' ttl meta t)) \<longleftrightarrow> k' = k \<and> owner' = owner"
| "claims_for k owner _ \<longleftrightarrow> False"

definition not_held_by :: "string \<Rightarrow> string \<Rightarrow> leases \<Rightarrow> bool" where
  "not_held_by k owner tbl \<longleftrightarrow> distinct (map fst tbl) \<and> (\<forall>r. map_of tbl k = Some r \<longrightarrow> lease_owner r \<noteq> owner)"

lemma lease_step_distinct: "distinct (map fst tbl) \<Longrightarrow> distinct (map fst (lease_step tbl op))"
  by (cases op)
     (auto simp: claim_lease_def renew_lease_def release_lease_def update_lease_metadata_def put_lease_def
        clear_expired_lease_def after_def Let_def distinct_update
        split: sum.splits prod.splits option.splits if_splits)

lemma map_of_filter_distinct:
  "distinct (map fst xs) \<Longrightarrow> map_of (filter P xs) k = Some r \<Longrightarrow> map_of xs k = Some r"
  by (auto dest: map_of_SomeD)

lemma lease_step_owner:
  assumes "\<forall>r. map_of tbl k = Some r \<longrightarrow> lease_owner r \<noteq> owner" and "\<not> claims_for k owner (Operation op)"
    and "owner \<noteq> []" and "map_of (lease_step tbl op) k = Some r"
  shows "lease_owner r \<noteq> owner"
  using assms
  by (cases op)
     (auto simp: claim_lease_def renew_lease_def release_lease_def update_lease_metadata_def
        clear_expired_lease_def after_def Let_def assert_lease_row_Inr
        split: sum.splits prod.splits option.splits if_splits)

lemma not_held_step:
  assumes "not_held_by k owner tbl" and "\<not> claims_for k owner e" and "owner \<noteq> []"
  shows "not_held_by k owner (lease_event_step tbl e)"
proof (cases e)
  case (Operation op)
  have "\<forall>r. map_of tbl k = Some r \<longrightarrow> lease_owner r \<noteq> owner" using assms(1) unfolding not_held_by_def by blast
  then have "\<forall>r. map_of (lease_step tbl op) k = Some r \<longrightarrow> lease_owner r \<noteq> owner"
    using lease_step_owner assms(2,3) Operation by blast
  moreover have "distinct (map fst (lease_step tbl op))"
    using assms(1) by (intro lease_step_distinct) (simp add: not_held_by_def)
  ultimately show ?thesis unfolding Operation lease_event_step.simps not_held_by_def by (rule conjI [rotated])
next
  case (DeleteAttempt k' owner' token')
  then show ?thesis
    using assms(1) map_of_filter_distinct
    by (auto simp: not_held_by_def delete_attempt_lease_def distinct_map_filter)
qed

text \<open>
  An owner that does not hold a lease stays out until it claims again: whatever follows, settlements that
  delete lease rows included, every check with its name and any token raises \<open>StaleFencingToken\<close>, even
  though token numbers restart after a deletion.\<close>

theorem lost_lease_stays_lost:
  assumes "not_held_by k owner tbl" and "owner \<noteq> []" and "\<forall>e \<in> set events. \<not> claims_for k owner e"
  shows "\<exists>m. assert_fencing_token (run_ops lease_event_step tbl events) k owner token now = Inl (StaleFencingToken m)"
proof -
  have "not_held_by k owner (run_ops lease_event_step tbl events)"
    using assms(1,3) by (induction events arbitrary: tbl) (simp_all add: not_held_step assms(2))
  then show ?thesis
    by (auto simp: assert_fencing_token_def assert_lease_row_def not_held_by_def split: option.splits)
qed

text \<open>Without a deletion of its row the token of a resource only grows.\<close>

fun deletes_row :: "string \<Rightarrow> lease_event \<Rightarrow> bool" where
  "deletes_row k (DeleteAttempt k' owner token) \<longleftrightarrow> k' = k"
| "deletes_row k (Operation op) \<longleftrightarrow> False"

lemma deleted_elsewhere: "k \<noteq> k' \<Longrightarrow> map_of (delete_attempt_lease tbl k' owner token) k = map_of tbl k"
proof -
  assume k: "k \<noteq> k'"
  have "map_of (filter (\<lambda>(j, r). \<not> (j = k' \<and> lease_owner r = owner \<and> lease_token r = token)) tbl) k = map_of tbl k"
    using k by (induction tbl) auto
  then show ?thesis unfolding delete_attempt_lease_def by simp
qed

lemma lease_event_row:
  assumes "leases_ok tbl" and "\<not> deletes_row k e"
  shows "leases_ok (lease_event_step tbl e) \<and> token_of tbl k \<le> token_of (lease_event_step tbl e) k"
proof (cases e)
  case (Operation op)
  with lease_step_row [OF assms(1)] show ?thesis by simp
next
  case (DeleteAttempt k' owner token)
  with assms(2) have "map_of (lease_event_step tbl e) k = map_of tbl k" by (simp add: deleted_elsewhere)
  moreover have "leases_ok (lease_event_step tbl e)"
    using assms(1) map_of_filter_distinct unfolding DeleteAttempt lease_event_step.simps delete_attempt_lease_def leases_ok_def
    by (auto simp: distinct_map_filter)
  ultimately show ?thesis by (simp add: token_of_def)
qed

lemma lease_events_token:
  "leases_ok tbl \<Longrightarrow> \<forall>e \<in> set events. \<not> deletes_row k e \<Longrightarrow> token_of tbl k \<le> token_of (run_ops lease_event_step tbl events) k"
proof (induction events arbitrary: tbl)
  case (Cons e events)
  then have "leases_ok (lease_event_step tbl e)" "token_of tbl k \<le> token_of (lease_event_step tbl e) k"
    using lease_event_row [of tbl k e] by simp_all
  with Cons show ?case by fastforce
qed simp

lemma not_held_run:
  "not_held_by k owner tbl \<Longrightarrow> owner \<noteq> [] \<Longrightarrow> \<forall>e \<in> set events. \<not> claims_for k owner e
     \<Longrightarrow> not_held_by k owner (run_ops lease_event_step tbl events)"
  by (induction events arbitrary: tbl) (simp_all add: not_held_step)

text \<open>C17: Fencing: once a resource has been claimed again, a holder of an earlier token is shut out: every check,
  renewal, release or metadata update it tries raises \<open>StaleFencingToken\<close>. This holds after any events as long as
  none of them deletes the row of the resource. It also holds when settled attempts delete the row and the tokens
  start again, provided the resource went to another owner and the superseded one does not claim it again.
\<close>

theorem superseded_holder_is_fenced_off:
  assumes "leases_ok tbl" and "claim_lease tbl k owner' ttl meta t = Inr (g, tbl')" and "token \<le> token_of tbl k"
    and later: "later = run_ops lease_event_step tbl' events"
    and away: "(\<forall>e \<in> set events. \<not> deletes_row k e)
      \<or> owner \<noteq> owner' \<and> owner \<noteq> [] \<and> (\<forall>e \<in> set events. \<not> claims_for k owner e)"
  shows "token < grant_token g
    \<and> (\<exists>m. assert_fencing_token later k owner token now = Inl (StaleFencingToken m))
    \<and> (\<exists>m. renew_lease later k owner token ttl' now = Inl (StaleFencingToken m))
    \<and> (\<exists>m. release_lease later k owner token now now' = Inl (StaleFencingToken m))
    \<and> (\<exists>m. update_lease_metadata later k owner token meta' now now' = Inl (StaleFencingToken m))"
proof (intro conjI)
  have tbl': "tbl' = lease_step tbl (Claim k owner' ttl meta t)" using assms(2) by simp
  have ok: "leases_ok tbl'" unfolding tbl' by (rule lease_step_row(1) [OF assms(1)])
  show "token < grant_token g" using claim_lease_Inr [OF assms(2)] assms(3) by simp
  have smaller: "token < token_of tbl' k" using claim_lease_Inr [OF assms(2)] assms(3) by simp
  have stale: "\<exists>m. assert_lease_row (map_of later k) owner token at = Inl (StaleFencingToken m)" for at
    using away
  proof
    assume "\<forall>e \<in> set events. \<not> deletes_row k e"
    from lease_events_token [OF ok this] smaller have "token \<noteq> token_of later k" unfolding later by simp
    then show ?thesis by (rule stale_row)
  next
    assume o: "owner \<noteq> owner' \<and> owner \<noteq> [] \<and> (\<forall>e \<in> set events. \<not> claims_for k owner e)"
    obtain r where r: "map_of tbl' k = Some r" "lease_owner r = owner'" using claim_lease_owner [OF assms(2)] by blast
    have "\<forall>r'. map_of tbl' k = Some r' \<longrightarrow> lease_owner r' \<noteq> owner" using o r(2) unfolding r(1) by auto
    moreover have "distinct (map fst tbl')" using ok unfolding leases_ok_def by blast
    ultimately have "not_held_by k owner tbl'" unfolding not_held_by_def by blast
    with o have "not_held_by k owner later" unfolding later by (intro not_held_run) simp_all
    then show ?thesis by (auto simp: assert_lease_row_def not_held_by_def split: option.splits)
  qed
  from stale [of "Some now"] stale [of None]
  show "\<exists>m. assert_fencing_token later k owner token now = Inl (StaleFencingToken m)"
    "\<exists>m. renew_lease later k owner token ttl' now = Inl (StaleFencingToken m)"
    "\<exists>m. release_lease later k owner token now now' = Inl (StaleFencingToken m)"
    "\<exists>m. update_lease_metadata later k owner token meta' now now' = Inl (StaleFencingToken m)"
    by (auto simp: assert_fencing_token_def renew_lease_def release_lease_def update_lease_metadata_def Let_def)
qed

subsection \<open>Instances\<close>

text \<open>The properties at a concrete table: a worktree leased by one worker until instant 10.\<close>

definition sample_leases :: leases where
  "sample_leases = [(''worktree'', \<lparr>lease_owner = ''w1'', lease_token = 3, lease_acquired = 0, lease_renewed = 0,
     lease_expires = 10, lease_metadata = []\<rparr>)]"

theorem superseded_holder_is_fenced_off_witness:
  "\<exists>g tbl' m. claim_lease sample_leases ''worktree'' ''w2'' 60 [] 20 = Inr (g, tbl') \<and> grant_token g = 4
    \<and> renew_lease (run_ops lease_event_step tbl' [DeleteAttempt ''worktree'' ''w2'' 4, Operation (Claim ''worktree'' ''w3'' 60 [] 30)])
        ''worktree'' ''w1'' 3 60 50 = Inl (StaleFencingToken m)"
proof -
  have ok: "leases_ok sample_leases" by (simp add: leases_ok_def sample_leases_def)
  have token: "3 \<le> token_of sample_leases ''worktree''" by (simp add: token_of_def sample_leases_def)
  obtain g tbl' where claim: "claim_lease sample_leases ''worktree'' ''w2'' 60 [] 20 = Inr (g, tbl')"
    by (simp add: claim_lease_def sample_leases_def strip_def is_space_def)
  have "grant_token g = 4"
    using claim_lease_Inr [OF claim] by (simp add: token_of_def sample_leases_def)
  moreover have "\<exists>m. renew_lease (run_ops lease_event_step tbl' [DeleteAttempt ''worktree'' ''w2'' 4,
      Operation (Claim ''worktree'' ''w3'' 60 [] 30)]) ''worktree'' ''w1'' 3 60 50 = Inl (StaleFencingToken m)"
    using superseded_holder_is_fenced_off [OF ok claim token refl, where owner = "''w1''" and
      events = "[DeleteAttempt ''worktree'' ''w2'' 4, Operation (Claim ''worktree'' ''w3'' 60 [] 30)]"] by auto
  ultimately show ?thesis using claim by blast
qed

theorem live_lease_is_exclusive_witness:
  "\<exists>m. claim_lease (run_ops lease_step sample_leases [Claim ''worktree'' ''w2'' 60 [] 5, ClearExpired ''worktree'' 3 6 6 6])
     ''worktree'' ''w2'' 60 [] 9 = Inl (LeaseConflict m)"
proof -
  obtain r where r: "map_of sample_leases ''worktree'' = Some r" "lease_owner r = ''w1''" "lease_expires r = 10" "lease_token r = 3"
    by (simp add: sample_leases_def)
  have "\<forall>op \<in> set [Claim ''worktree'' ''w2'' 60 [] 5, ClearExpired ''worktree'' 3 6 6 6].
      \<not> own_op ''worktree'' (lease_owner r) (lease_token r) op \<and> (\<forall>t \<in> set (op_instants op). t < lease_expires r)"
    using r by simp
  from live_lease_is_exclusive [OF r(1) _ this _ refl, of 9 "''w2''" 60 "[]"] r show ?thesis
    by (simp add: strip_def is_space_def)
qed

theorem dead_lease_can_be_claimed_witness:
  "\<exists>g tbl'. claim_lease sample_leases ''worktree'' ''w2'' 60 [] 10 = Inr (g, tbl') \<and> grant_token g = 4
     \<and> assert_fencing_token tbl' ''worktree'' ''w2'' 4 10 = Inr ()"
  using dead_lease_can_be_claimed [of "''worktree''" "''w2''" sample_leases 10 60 "[]"]
  by (auto simp: strip_def is_space_def sample_leases_def token_of_def)

theorem lost_lease_stays_lost_witness:
  "\<exists>m. assert_fencing_token (run_ops lease_event_step sample_leases
      [DeleteAttempt ''worktree'' ''w1'' 3, Operation (Claim ''worktree'' ''w2'' 60 [] 5)]) ''worktree'' ''w0'' 3 9
    = Inl (StaleFencingToken m)"
  by (rule lost_lease_stays_lost) (simp_all add: not_held_by_def sample_leases_def)

end
