(* ===== verification/Contracts.thy ===== *)
theory Contracts
  imports Prelude
begin

section \<open>Durable contracts of the Bunshin kernel\<close>

text \<open>
  The data of \<open>bunshin/contracts.py\<close>: the aggregate kinds and their state names, the action envelope
  with the validation its constructor performs, snapshots, domain events, effects and the transition
  specification. A \<open>StrEnum\<close> whose members are compared and stored as text (the state enumerations) is
  the list of its member strings; an enumeration used for its identity (the aggregate type) is a
  datatype with its text as a function.
\<close>

subsection \<open>Aggregates and their states\<close>

datatype AggregateType =
    TASK | WORKFLOW | ARCHITECTURE_REVISION | EXECUTION_EPOCH | DAG_NODE_RUN | STANDALONE_REVIEW

fun aggregate_value :: "AggregateType \<Rightarrow> string" where
  "aggregate_value TASK = ''task''"
| "aggregate_value WORKFLOW = ''workflow''"
| "aggregate_value ARCHITECTURE_REVISION = ''architecture_revision''"
| "aggregate_value EXECUTION_EPOCH = ''execution_epoch''"
| "aggregate_value DAG_NODE_RUN = ''dag_node_run''"
| "aggregate_value STANDALONE_REVIEW = ''standalone_review''"

lemma aggregate_value_inject [simp]: "aggregate_value a = aggregate_value b \<longleftrightarrow> a = b"
  by (cases a; cases b) auto

text \<open>A \<open>StrEnum\<close> member compares as its text.\<close>

instantiation AggregateType :: linorder
begin

definition less_eq_AggregateType :: "AggregateType \<Rightarrow> AggregateType \<Rightarrow> bool" where
  "a \<le> b \<longleftrightarrow> aggregate_value a \<le> aggregate_value b"

definition less_AggregateType :: "AggregateType \<Rightarrow> AggregateType \<Rightarrow> bool" where
  "a < b \<longleftrightarrow> aggregate_value a < aggregate_value b"

instance
proof
  fix x y z :: AggregateType
  show "x < y \<longleftrightarrow> x \<le> y \<and> \<not> y \<le> x"
    by (simp add: less_eq_AggregateType_def less_AggregateType_def less_le_not_le)
  show "x \<le> x" by (simp add: less_eq_AggregateType_def)
  show "x \<le> y \<Longrightarrow> y \<le> z \<Longrightarrow> x \<le> z" unfolding less_eq_AggregateType_def by (rule order_trans)
  show "x \<le> y \<Longrightarrow> y \<le> x \<Longrightarrow> x = y"
    unfolding less_eq_AggregateType_def by (metis antisym aggregate_value_inject)
  show "x \<le> y \<or> y \<le> x" unfolding less_eq_AggregateType_def by (rule linear)
qed

end

definition TaskState :: "string list" where
  "TaskState = [''ACTIVE'', ''ARCHIVED'']"

definition WorkflowState :: "string list" where
  "WorkflowState = [''CREATED'', ''ACTIVE'', ''PAUSE_REQUESTED'', ''PAUSED'', ''CANCEL_REQUESTED'',
     ''RESTARTING'', ''COMPLETED'', ''REJECTED'', ''CANCELLED'', ''TRIAGE_REQUIRED'']"

definition ArchitectureRevisionState :: "string list" where
  "ArchitectureRevisionState = [''ARCHITECT_QUEUED'', ''ARCHITECT_RUNNING'', ''ARCHITECT_QUIESCING'',
     ''ARCHITECT_SNAPSHOTTING'', ''REVIEW_QUEUED'', ''REVIEWING'', ''HUMAN_REVIEW'', ''SUPERSEDED'',
     ''ACCEPTED'', ''REJECTED'', ''PAUSE_REQUESTED'', ''PAUSED'', ''CANCEL_REQUESTED'', ''CANCELLED'',
     ''TRIAGE_REQUIRED'']"

definition ExecutionEpochState :: "string list" where
  "ExecutionEpochState = [''NOT_STARTED'', ''STARTING'', ''RUNNING'', ''REPLAN_COLLECTING'',
     ''PAUSE_REQUESTED'', ''PAUSED'', ''REPLAN_REQUIRED'', ''SUPERSEDED'', ''FINALIZING'', ''COMPLETED'',
     ''CANCEL_REQUESTED'', ''CANCELLED'', ''TRIAGE_REQUIRED'']"

definition DagNodeRunState :: "string list" where
  "DagNodeRunState = [''BLOCKED_BY_DEPS'', ''QUEUED'', ''PRODUCING'', ''QUIESCING'', ''SNAPSHOTTING'',
     ''REVIEW_BLOCKED_BY_DEPS'', ''REVIEW_QUEUED'', ''REVIEWING'', ''REVIEW_QUIESCING'',
     ''REVIEW_SNAPSHOTTING'', ''REPAIR_QUEUED'', ''REPAIRING'', ''ACCEPTED'', ''STALE'',
     ''PAUSE_REQUESTED'', ''PAUSED'', ''CANCEL_REQUESTED'', ''CANCELLED'', ''TRIAGE_REQUIRED'']"

definition StandaloneReviewState :: "string list" where
  "StandaloneReviewState = [''RECEIVED'', ''REVIEW_QUEUED'', ''REVIEWING'', ''REPORT_READY'',
     ''PAUSE_REQUESTED'', ''PAUSED'', ''CANCEL_REQUESTED'', ''CANCELLED'', ''COMPLETED'',
     ''TRIAGE_REQUIRED'']"

lemmas state_enum_defs = TaskState_def WorkflowState_def ArchitectureRevisionState_def
  ExecutionEpochState_def DagNodeRunState_def StandaloneReviewState_def

subsection \<open>Action envelopes\<close>

record ActionEnvelope =
  action_type :: string
  workflow_id :: string
  aggregate_type :: AggregateType
  aggregate_id :: string
  actor :: string
  payload :: pydict
  source_channel :: string
  expected_version :: "int option"
  idempotency_key :: string
  correlation_id :: string
  causation_id :: string
  action_id :: string
  created_at :: string

text \<open>The constructor's checks; \<open>action_id\<close> and \<open>created_at\<close> carry the generated defaults.\<close>

definition action_envelope_required :: "ActionEnvelope \<Rightarrow> (string \<times> string) list" where
  "action_envelope_required a =
     [(''action_type'', action_type a), (''aggregate_id'', aggregate_id a), (''actor'', actor a)]
     @ (if aggregate_type a \<noteq> TASK then [(''workflow_id'', workflow_id a)] else [])"

definition action_envelope_post_init :: "ActionEnvelope \<Rightarrow> unit res" where
  "action_envelope_post_init a =
     (let missing = map fst (filter (\<lambda>(name, value). strip value = []) (action_envelope_required a)) in
      if missing \<noteq> [] then Inl (ValueError (''action envelope missing required fields: '' @ join '', '' missing))
      else case expected_version a of
        Some v \<Rightarrow> raise_if (v < 0) (ValueError ''expected_version must be non-negative'')
      | None \<Rightarrow> Inr ())"

definition dedup_key :: "ActionEnvelope \<Rightarrow> string" where
  "dedup_key a = (if idempotency_key a \<noteq> [] then idempotency_key a else action_id a)"

lemma action_envelope_valid:
  "action_envelope_post_init a = Inr () \<Longrightarrow>
     strip (action_type a) \<noteq> [] \<and> strip (aggregate_id a) \<noteq> [] \<and> strip (actor a) \<noteq> []
   \<and> (aggregate_type a = TASK \<or> strip (workflow_id a) \<noteq> [])
   \<and> (\<forall>v. expected_version a = Some v \<longrightarrow> 0 \<le> v)"
  by (auto simp: action_envelope_post_init_def action_envelope_required_def Let_def
      split: if_splits option.splits)

subsection \<open>Snapshots, events, effects\<close>

record AggregateSnapshot =
  snap_type :: AggregateType
  snap_id :: string
  snap_workflow_id :: string
  snap_state :: string
  snap_version :: int
  snap_payload :: pydict
  snap_created_at :: string
  snap_updated_at :: string

record DomainEventDraft =
  event_type :: string
  event_payload :: pydict

record EffectDraft =
  effect_type :: string
  effect_payload :: pydict
  max_attempts :: int

definition effect_draft :: "string \<Rightarrow> pydict \<Rightarrow> EffectDraft" where
  "effect_draft t p = \<lparr>effect_type = t, effect_payload = p, max_attempts = 8\<rparr>"

subsection \<open>Transition specifications\<close>

type_synonym guard = "pydict \<Rightarrow> ActionEnvelope \<Rightarrow> unit res"
type_synonym reducer = "pydict \<Rightarrow> ActionEnvelope \<Rightarrow> pydict res"
type_synonym resolver = "pydict \<Rightarrow> ActionEnvelope \<Rightarrow> string res"
type_synonym event_builder = "pydict \<Rightarrow> ActionEnvelope \<Rightarrow> string \<Rightarrow> DomainEventDraft list"
type_synonym effect_builder = "pydict \<Rightarrow> ActionEnvelope \<Rightarrow> string \<Rightarrow> EffectDraft list res"

text \<open>A target is a state name or a resolver with the finite set of states it declares.\<close>

datatype target =
    To string
  | DynamicTarget string "string list" resolver

record TransitionSpec =
  ts_aggregate_type :: AggregateType
  ts_source_state :: "string option"
  ts_action_type :: string
  ts_target_state :: target
  ts_reducer :: reducer
  ts_guard :: guard
  ts_event_builder :: event_builder
  ts_effect_builder :: effect_builder

record TransitionOutcome =
  out_snapshot :: AggregateSnapshot
  out_events :: "DomainEventDraft list"
  out_effects :: "EffectDraft list"

text \<open>\<open>str\<close> of an optional state.\<close>

definition state_str :: "string option \<Rightarrow> string" where
  "state_str s = (case s of None \<Rightarrow> ''None'' | Some x \<Rightarrow> x)"

lemma state_str_simps [simp]: "state_str (Some x) = x" "state_str None = ''None''"
  by (simp_all add: state_str_def)

end
