(* ===== verification/Role_Contracts.thy ===== *)
theory Role_Contracts
  imports Prelude
begin

section \<open>Orchestration roles\<close>

text \<open>
  The roles and playbook modes of \<open>bunshin/role_contracts.py\<close>, the validity of a role activation and
  the identity key of one role coroutine.
\<close>

datatype OrchestrationRole = ARCHITECT | REVIEWER | IMPLEMENTATION | VERIFIER

datatype RoleMode = AUTHOR | REVISION | ARCHITECTURE | STANDALONE | PRODUCE | REPAIR | MODULE

fun role_value :: "OrchestrationRole \<Rightarrow> string" where
  "role_value ARCHITECT = ''architect''"
| "role_value REVIEWER = ''reviewer''"
| "role_value IMPLEMENTATION = ''implementation''"
| "role_value VERIFIER = ''verifier''"

fun mode_value :: "RoleMode \<Rightarrow> string" where
  "mode_value AUTHOR = ''author''"
| "mode_value REVISION = ''revision''"
| "mode_value ARCHITECTURE = ''architecture''"
| "mode_value STANDALONE = ''standalone''"
| "mode_value PRODUCE = ''produce''"
| "mode_value REPAIR = ''repair''"
| "mode_value MODULE = ''module''"

fun ROLE_MODES :: "OrchestrationRole \<Rightarrow> RoleMode list" where
  "ROLE_MODES ARCHITECT = [AUTHOR, REVISION]"
| "ROLE_MODES REVIEWER = [ARCHITECTURE, STANDALONE]"
| "ROLE_MODES IMPLEMENTATION = [PRODUCE, REPAIR]"
| "ROLE_MODES VERIFIER = [MODULE]"

text \<open>The enumeration called on text: the member, or \<open>ValueError\<close>.\<close>

definition role_of :: "string \<Rightarrow> OrchestrationRole res" where
  "role_of s = (case filter (\<lambda>r. role_value r = s) [ARCHITECT, REVIEWER, IMPLEMENTATION, VERIFIER] of
       [] \<Rightarrow> Inl (ValueError (repr_str s @ '' is not a valid OrchestrationRole''))
     | r # _ \<Rightarrow> Inr r)"

definition mode_of :: "string \<Rightarrow> RoleMode res" where
  "mode_of s = (case filter (\<lambda>m. mode_value m = s)
         [AUTHOR, REVISION, ARCHITECTURE, STANDALONE, PRODUCE, REPAIR, MODULE] of
       [] \<Rightarrow> Inl (ValueError (repr_str s @ '' is not a valid RoleMode''))
     | m # _ \<Rightarrow> Inr m)"

lemma role_of_value [simp]: "role_of (role_value r) = Inr r"
  by (cases r) (simp_all add: role_of_def)

lemma mode_of_value [simp]: "mode_of (mode_value m) = Inr m"
  by (cases m) (simp_all add: mode_of_def)

subsection \<open>Role activations\<close>

record RoleActivation =
  ra_role :: OrchestrationRole
  ra_mode :: RoleMode

definition role_activation_post_init :: "RoleActivation \<Rightarrow> unit res" where
  "role_activation_post_init a = raise_if (ra_mode a \<notin> set (ROLE_MODES (ra_role a)))
     (ValueError (''invalid orchestration role activation: '' @ role_value (ra_role a) @ ''/'' @ mode_value (ra_mode a)))"

definition role_activation :: "OrchestrationRole \<Rightarrow> RoleMode \<Rightarrow> RoleActivation res" where
  "role_activation r m = (let a = \<lparr>ra_role = r, ra_mode = m\<rparr> in
     rbind (role_activation_post_init a) (\<lambda>_. Inr a))"

definition activation_from_values :: "string \<Rightarrow> string \<Rightarrow> RoleActivation res" where
  "activation_from_values r m = rbind (role_of r) (\<lambda>r'. rbind (mode_of m) (\<lambda>m'. role_activation r' m'))"

definition activation_from_mapping :: "pydict \<Rightarrow> RoleActivation res" where
  "activation_from_mapping v =
     activation_from_values (str_or_empty (dget v ''role'')) (str_or_empty (dget v ''mode''))"

definition activation_to_dict :: "RoleActivation \<Rightarrow> pydict" where
  "activation_to_dict a = [(''role'', PStr (role_value (ra_role a))), (''mode'', PStr (mode_value (ra_mode a)))]"

lemma activation_roundtrip:
  assumes "role_activation r m = Inr a"
  shows "activation_from_mapping (activation_to_dict a) = Inr a"
  using assms
  by (auto simp: role_activation_def Let_def activation_from_mapping_def activation_to_dict_def
      activation_from_values_def dget_def)

text \<open>A mode belongs to exactly one role, so the mode determines the role of a valid activation.\<close>

lemma mode_determines_role:
  "m \<in> set (ROLE_MODES r) \<Longrightarrow> m \<in> set (ROLE_MODES r') \<Longrightarrow> r = r'"
  by (cases r; cases r') auto

subsection \<open>The coroutine identity key\<close>

definition role_session_stage_key :: "string \<Rightarrow> string \<Rightarrow> string \<Rightarrow> string res" where
  "role_session_stage_key scope_kind subject_key role =
     rbind (role_of role) (\<lambda>r.
       let parts = [strip scope_kind, strip subject_key, role_value r] in
       if \<exists>p \<in> set parts. p = [] then Inl (ValueError ''role session stage identity is incomplete'')
       else Inr (join '':'' parts))"

end
