(* ===== verification/Machine_Dsl.thy ===== *)
theory Machine_Dsl
  imports Contracts Role_Contracts
begin

section \<open>The state-machine description language\<close>

text \<open>
  \<open>bunshin/machine_dsl.py\<close>: a \<open>MachineSpec\<close> lists the states of one aggregate with their class, its
  transitions, the control policies (pause, cancel) and the runtime ownership of states. Its constructor
  validates the description; \<open>machine_spec_post_init\<close> is that validation and \<open>machine_spec_wf\<close> the
  declarative property it decides.
\<close>

subsection \<open>Classification data\<close>

datatype StateClass =
    CATALOG | TERMINAL | WORKER_LIVENESS | HUMAN_WAIT | OPERATOR_WAIT | PAUSED_CLASS
  | DEPENDENCY_WAIT | CHILD_WAIT | OUTBOX_WAIT

datatype ControlIntent = PAUSE | CANCEL

fun intent_value :: "ControlIntent \<Rightarrow> string" where
  "intent_value PAUSE = ''pause''"
| "intent_value CANCEL = ''cancel''"

datatype ControlDisposition = REQUEST | WAIT | SETTLED

datatype ReconciliationKind = ADMIT_ROLE | RESUME_ROLE | RECONCILE_STATE | CONTROL_ROLE

record StateRuntimeSpec =
  activations :: "RoleActivation list"
  reconciliation :: ReconciliationKind

definition state_runtime_spec_post_init :: "StateRuntimeSpec \<Rightarrow> unit res" where
  "state_runtime_spec_post_init s = raise_if (activations s = [])
     (ValueError ''a runtime state must declare at least one role activation'')"

subsection \<open>Targets\<close>

definition target_resolver :: "string list \<Rightarrow> string \<Rightarrow> resolver \<Rightarrow> target res" where
  "target_resolver target_states name f =
     (if target_states = []
      then Inl (ValueError ''a dynamic target resolver must declare at least one target state'')
      else Inr (DynamicTarget name (remdups target_states) f))"

fun target_states_of :: "target \<Rightarrow> string list" where
  "target_states_of (To s) = [s]"
| "target_states_of (DynamicTarget name states f) = states"

definition transition_target_states :: "TransitionSpec \<Rightarrow> string list" where
  "transition_target_states t = target_states_of (ts_target_state t)"

fun resolve_target :: "target \<Rightarrow> pydict \<Rightarrow> ActionEnvelope \<Rightarrow> string res" where
  "resolve_target (To s) p a = Inr s"
| "resolve_target (DynamicTarget name states f) p a = f p a"

fun is_dynamic :: "target \<Rightarrow> bool" where
  "is_dynamic (To s) = False"
| "is_dynamic (DynamicTarget name states f) = True"

subsection \<open>Machine specifications\<close>

record ControlPolicy =
  request_action :: string
  settled_states :: "string list"

record MachineSpec =
  ms_aggregate_type :: AggregateType
  ms_state_classes :: "(string \<times> StateClass) list"
  ms_transitions :: "TransitionSpec list"
  ms_control_policies :: "(ControlIntent \<times> ControlPolicy) list"
  ms_runtime_states :: "(string \<times> StateRuntimeSpec) list"

definition ms_states :: "MachineSpec \<Rightarrow> string list" where
  "ms_states m = map fst (ms_state_classes m)"

definition initial_states :: "MachineSpec \<Rightarrow> string list" where
  "initial_states m = remdups (concat (map transition_target_states
     (filter (\<lambda>t. ts_source_state t = None) (ms_transitions m))))"

definition ms_legal_actions :: "MachineSpec \<Rightarrow> string option \<Rightarrow> string list" where
  "ms_legal_actions m s = remdups (map ts_action_type (filter (\<lambda>t. ts_source_state t = s) (ms_transitions m)))"

definition control_request_states :: "MachineSpec \<Rightarrow> ControlIntent \<Rightarrow> string list" where
  "control_request_states m i = (case map_of (ms_control_policies m) i of
       None \<Rightarrow> []
     | Some policy \<Rightarrow> remdups (map (state_str \<circ> ts_source_state)
         (filter (\<lambda>t. ts_source_state t \<noteq> None \<and> ts_action_type t = request_action policy) (ms_transitions m))))"

definition control_disposition :: "MachineSpec \<Rightarrow> ControlIntent \<Rightarrow> string \<Rightarrow> ControlDisposition res" where
  "control_disposition m i s = (case map_of (ms_control_policies m) i of
       None \<Rightarrow> Inl (ValueError (aggregate_value (ms_aggregate_type m) @ '' does not participate in ''
                 @ intent_value i @ '' control''))
     | Some policy \<Rightarrow>
         if s \<in> set (settled_states policy) then Inr SETTLED
         else if request_action policy \<in> set (ms_legal_actions m (Some s)) then Inr REQUEST
         else Inr WAIT)"

definition control_states :: "MachineSpec \<Rightarrow> ControlIntent \<Rightarrow> ControlDisposition \<Rightarrow> string list res" where
  "control_states m i d = rbind (map_res (\<lambda>s. rbind (control_disposition m i s) (\<lambda>d'. Inr (s, d'))) (ms_states m))
     (\<lambda>ps. Inr (map fst (filter (\<lambda>(s, d'). d' = d) ps)))"

definition states_for_activation :: "MachineSpec \<Rightarrow> RoleActivation \<Rightarrow> string list" where
  "states_for_activation m a = map fst (filter (\<lambda>(s, r). a \<in> set (activations r)) (ms_runtime_states m))"

subsection \<open>Reachability from creation\<close>

definition successor_states :: "MachineSpec \<Rightarrow> string \<Rightarrow> string list" where
  "successor_states m source = concat (map transition_target_states
     (filter (\<lambda>t. state_str (ts_source_state t) = source) (ms_transitions m)))"

definition all_target_states :: "MachineSpec \<Rightarrow> string list" where
  "all_target_states m = concat (map transition_target_states (ms_transitions m))"

definition reachable_states :: "MachineSpec \<Rightarrow> string list option" where
  "reachable_states m = worklist (Suc (length (all_target_states m) + length (initial_states m)))
     (successor_states m) (initial_states m) (initial_states m)"

interpretation machine_graph: finite_successors "successor_states m" "all_target_states m" for m
  by unfold_locales (auto simp: successor_states_def all_target_states_def)

text \<open>What the worklist computes: the states some chain of transitions leads to from a creation target.\<close>

inductive reachable_from_creation :: "MachineSpec \<Rightarrow> string \<Rightarrow> bool" for m where
  created: "s \<in> set (initial_states m) \<Longrightarrow> reachable_from_creation m s"
| stepped: "reachable_from_creation m s \<Longrightarrow> t \<in> set (ms_transitions m) \<Longrightarrow>
    state_str (ts_source_state t) = s \<Longrightarrow> s' \<in> set (transition_target_states t) \<Longrightarrow>
    reachable_from_creation m s'"

lemma reachable_from_creation_trancl:
  "reachable_from_creation m s \<longleftrightarrow>
     s \<in> set (initial_states m) \<or> (\<exists>i \<in> set (initial_states m). (i, s) \<in> (succ_rel (successor_states m))\<^sup>+)"
proof
  show "reachable_from_creation m s \<Longrightarrow>
      s \<in> set (initial_states m) \<or> (\<exists>i \<in> set (initial_states m). (i, s) \<in> (succ_rel (successor_states m))\<^sup>+)"
  proof (induction rule: reachable_from_creation.induct)
    case (stepped s t s')
    then have "(s, s') \<in> succ_rel (successor_states m)"
      by (auto simp: succ_rel_def successor_states_def)
    with stepped.IH show ?case by (meson r_into_trancl trancl_into_trancl)
  qed simp
next
  have step: "reachable_from_creation m x \<Longrightarrow> (x, y) \<in> succ_rel (successor_states m) \<Longrightarrow>
      reachable_from_creation m y" for x y
    by (auto simp: succ_rel_def successor_states_def intro: reachable_from_creation.stepped)
  have "(i, s) \<in> (succ_rel (successor_states m))\<^sup>+ \<Longrightarrow> reachable_from_creation m i \<Longrightarrow>
      reachable_from_creation m s" for i
    by (induction rule: trancl_induct) (auto intro: step)
  then show "s \<in> set (initial_states m) \<or> (\<exists>i \<in> set (initial_states m). (i, s) \<in> (succ_rel (successor_states m))\<^sup>+)
      \<Longrightarrow> reachable_from_creation m s"
    by (auto intro: reachable_from_creation.created)
qed

lemma reachable_states_exact:
  "\<exists>r. reachable_states m = Some r \<and> set r = {s. reachable_from_creation m s}"
proof -
  obtain r where "reachable_states m = Some r"
    and "set r = set (initial_states m) \<union>
      {y. \<exists>i \<in> set (initial_states m). (i, y) \<in> (succ_rel (successor_states m))\<^sup>+}"
    using machine_graph.worklist_reaches [of m "initial_states m"
        "Suc (length (all_target_states m) + length (initial_states m))" "initial_states m"]
    unfolding reachable_states_def by auto
  then show ?thesis by (auto simp: reachable_from_creation_trancl)
qed

subsection \<open>Validation performed by the constructor\<close>

definition spec_key :: "TransitionSpec \<Rightarrow> string option \<times> string" where
  "spec_key t = (ts_source_state t, ts_action_type t)"

definition check_transition :: "MachineSpec \<Rightarrow> (string option \<times> string) list \<Rightarrow> TransitionSpec \<Rightarrow> unit res" where
  "check_transition m keys t =
     (let name = aggregate_value (ms_aggregate_type m); states = ms_states m;
          targets = transition_target_states t;
          unknown_targets = filter (\<lambda>s. s \<notin> set states) targets in
      if ts_aggregate_type t \<noteq> ms_aggregate_type m then
        Inl (ValueError (name @ '' machine contains a transition for '' @ aggregate_value (ts_aggregate_type t)))
      else if spec_key t \<in> set keys then Inl (ValueError (''duplicate transition in '' @ name))
      else if ts_source_state t \<noteq> None \<and> state_str (ts_source_state t) \<notin> set states then
        Inl (ValueError (''unknown source state in '' @ name @ '': '' @ state_str (ts_source_state t)))
      else if is_dynamic (ts_target_state t) \<and> targets = [] then
        Inl (ValueError (''dynamic transition in '' @ name @ '' has no formal targets: ''
          @ state_str (ts_source_state t) @ '' + '' @ ts_action_type t))
      else raise_if (unknown_targets \<noteq> [])
        (ValueError (''unknown target states in '' @ name @ '': '' @ join '', '' (sort unknown_targets))))"

fun check_transitions :: "MachineSpec \<Rightarrow> (string option \<times> string) list \<Rightarrow> TransitionSpec list \<Rightarrow> unit res" where
  "check_transitions m keys [] = Inr ()"
| "check_transitions m keys (t # ts) =
     rbind (check_transition m keys t) (\<lambda>_. check_transitions m (spec_key t # keys) ts)"

definition check_runtime_states :: "MachineSpec \<Rightarrow> unit res" where
  "check_runtime_states m =
     (let states = ms_states m; runtime = map fst (ms_runtime_states m);
          unknown = filter (\<lambda>s. s \<notin> set states) runtime;
          required = map fst (filter (\<lambda>(s, c). c = WORKER_LIVENESS) (ms_state_classes m));
          missing = filter (\<lambda>s. s \<notin> set runtime) required;
          extra = filter (\<lambda>s. s \<notin> set required) runtime;
          name = aggregate_value (ms_aggregate_type m) in
      if unknown \<noteq> [] then
        Inl (ValueError (name @ '' runtime metadata references unknown states: '' @ join '', '' (sort unknown)))
      else raise_if (missing \<noteq> [] \<or> extra \<noteq> [])
        (ValueError (name @ '' runtime state metadata must exactly cover worker-liveness states: ''
          @ join ''; '' ((if missing \<noteq> [] then [''missing '' @ join '', '' (sort missing)] else [])
              @ (if extra \<noteq> [] then [''non-liveness '' @ join '', '' (sort extra)] else [])))))"

definition check_policy :: "MachineSpec \<Rightarrow> ControlIntent \<times> ControlPolicy \<Rightarrow> unit res" where
  "check_policy m ip = (case ip of (i, policy) \<Rightarrow>
     let states = ms_states m; name = aggregate_value (ms_aggregate_type m);
         unknown = filter (\<lambda>s. s \<notin> set states) (settled_states policy);
         overlap = filter (\<lambda>s. s \<in> set (settled_states policy)) (control_request_states m i) in
     if unknown \<noteq> [] then
       Inl (ValueError (name @ '' '' @ intent_value i @ '' policy references unknown states: '' @ join '', '' (sort unknown)))
     else raise_if (overlap \<noteq> [])
       (ValueError (name @ '' '' @ intent_value i @ '' states cannot both request and settle: '' @ join '', '' (sort overlap))))"

definition check_reachability :: "MachineSpec \<Rightarrow> unit res" where
  "check_reachability m =
     (let name = aggregate_value (ms_aggregate_type m) in
      if initial_states m = [] then Inl (ValueError (name @ '' machine has no creation transition''))
      else case reachable_states m of
        None \<Rightarrow> Inl (RuntimeError ''worklist'')
      | Some reachable \<Rightarrow>
          let unreachable = filter (\<lambda>s. s \<notin> set reachable) (ms_states m) in
          raise_if (unreachable \<noteq> [])
            (ValueError (name @ '' machine contains unreachable states: '' @ join '', '' (sort unreachable))))"

definition machine_spec_post_init :: "MachineSpec \<Rightarrow> unit res" where
  "machine_spec_post_init m =
     rbind (check_runtime_states m) (\<lambda>_.
     rbind (check_transitions m [] (ms_transitions m)) (\<lambda>_.
     rbind (first_error (map (check_policy m) (ms_control_policies m))) (\<lambda>_.
     check_reachability m)))"

subsection \<open>What the validation guarantees\<close>

definition transition_wf :: "MachineSpec \<Rightarrow> TransitionSpec \<Rightarrow> bool" where
  "transition_wf m t \<longleftrightarrow>
     ts_aggregate_type t = ms_aggregate_type m
   \<and> (\<forall>s. ts_source_state t = Some s \<longrightarrow> s \<in> set (ms_states m))
   \<and> transition_target_states t \<noteq> []
   \<and> set (transition_target_states t) \<subseteq> set (ms_states m)"

definition machine_spec_wf :: "MachineSpec \<Rightarrow> bool" where
  "machine_spec_wf m \<longleftrightarrow>
     fst ` set (ms_runtime_states m) = {s. (s, WORKER_LIVENESS) \<in> set (ms_state_classes m)}
   \<and> distinct (map spec_key (ms_transitions m))
   \<and> (\<forall>t \<in> set (ms_transitions m). transition_wf m t)
   \<and> (\<forall>(i, policy) \<in> set (ms_control_policies m).
        set (settled_states policy) \<subseteq> set (ms_states m)
      \<and> set (control_request_states m i) \<inter> set (settled_states policy) = {})
   \<and> initial_states m \<noteq> []
   \<and> (\<forall>s \<in> set (ms_states m). reachable_from_creation m s)"

lemma check_transition_iff:
  "check_transition m keys t = Inr () \<longleftrightarrow> transition_wf m t \<and> spec_key t \<notin> set keys"
  by (cases "ts_target_state t")
     (auto simp: check_transition_def transition_wf_def Let_def filter_empty_conv
       transition_target_states_def state_str_def split: option.splits)

lemma check_transitions_iff:
  "check_transitions m keys ts = Inr () \<longleftrightarrow>
     (\<forall>t \<in> set ts. transition_wf m t) \<and> distinct (map spec_key ts)
   \<and> set (map spec_key ts) \<inter> set keys = {}"
  by (induction ts arbitrary: keys) (auto simp: check_transition_iff)

lemma check_runtime_states_iff:
  "check_runtime_states m = Inr () \<longleftrightarrow>
     fst ` set (ms_runtime_states m) = {s. (s, WORKER_LIVENESS) \<in> set (ms_state_classes m)}"
proof -
  let ?runtime = "set (map fst (ms_runtime_states m))"
  let ?required = "set (map fst (filter (\<lambda>(s, c). c = WORKER_LIVENESS) (ms_state_classes m)))"
  have required: "?required = {s. (s, WORKER_LIVENESS) \<in> set (ms_state_classes m)}"
    by force
  have "?required \<subseteq> set (ms_states m)" by (force simp: ms_states_def)
  moreover have "check_runtime_states m = Inr () \<longleftrightarrow>
      ?runtime \<subseteq> set (ms_states m) \<and> ?required \<subseteq> ?runtime \<and> ?runtime \<subseteq> ?required"
    by (auto simp: check_runtime_states_def Let_def filter_empty_conv simp del: set_map set_filter)
  ultimately have "check_runtime_states m = Inr () \<longleftrightarrow> ?runtime = ?required" by blast
  then show ?thesis by (simp add: required del: set_map flip: set_map)
qed

lemma check_policy_iff:
  "check_policy m (i, policy) = Inr () \<longleftrightarrow>
     set (settled_states policy) \<subseteq> set (ms_states m)
   \<and> set (control_request_states m i) \<inter> set (settled_states policy) = {}"
  by (auto simp: check_policy_def Let_def filter_empty_conv)

lemma check_reachability_iff:
  "check_reachability m = Inr () \<longleftrightarrow>
     initial_states m \<noteq> [] \<and> (\<forall>s \<in> set (ms_states m). reachable_from_creation m s)"
proof -
  obtain r where "reachable_states m = Some r" "set r = {s. reachable_from_creation m s}"
    using reachable_states_exact by blast
  then show ?thesis by (auto simp: check_reachability_def Let_def filter_empty_conv)
qed

lemma check_policies_iff:
  "first_error (map (check_policy m) ips) = Inr () \<longleftrightarrow>
     (\<forall>(i, policy) \<in> set ips. set (settled_states policy) \<subseteq> set (ms_states m)
        \<and> set (control_request_states m i) \<inter> set (settled_states policy) = {})"
proof -
  have "check_policy m ip = Inr () \<longleftrightarrow> (case ip of (i, policy) \<Rightarrow>
      set (settled_states policy) \<subseteq> set (ms_states m)
    \<and> set (control_request_states m i) \<inter> set (settled_states policy) = {})" for ip
    by (cases ip) (simp add: check_policy_iff)
  then show ?thesis by simp
qed

lemma post_init_iff_wf: "machine_spec_post_init m = Inr () \<longleftrightarrow> machine_spec_wf m"
  unfolding machine_spec_post_init_def machine_spec_wf_def rbind_check check_runtime_states_iff
    check_transitions_iff check_policies_iff check_reachability_iff
  by auto

end
