(* ===== verification/Engine.thy ===== *)
theory Engine
  imports Machine_Dsl
begin

section \<open>The transition engine\<close>

text \<open>
  \<open>bunshin/engine.py\<close>: a table from (aggregate type, source state, action type) to a specification.
  \<open>transition\<close> looks the specification up, checks identity and the expected version, runs the guard and
  the reducer, resolves the target, checks it against the declaration and builds the next snapshot with
  its events and effects. It never writes: persistence is the caller's.
\<close>

type_synonym engine_key = "AggregateType \<times> string option \<times> string"
type_synonym engine_table = "(engine_key \<times> TransitionSpec) list"

definition engine_key :: "TransitionSpec \<Rightarrow> engine_key" where
  "engine_key t = (ts_aggregate_type t, ts_source_state t, ts_action_type t)"

definition register :: "engine_table \<Rightarrow> TransitionSpec \<Rightarrow> engine_table res" where
  "register tbl t =
     (if map_of tbl (engine_key t) \<noteq> None then Inl (ValueError ''duplicate transition registration'')
      else Inr (tbl @ [(engine_key t, t)]))"

fun register_all :: "engine_table \<Rightarrow> TransitionSpec list \<Rightarrow> engine_table res" where
  "register_all tbl [] = Inr tbl"
| "register_all tbl (t # ts) = rbind (register tbl t) (\<lambda>tbl'. register_all tbl' ts)"

definition transition_engine :: "TransitionSpec list \<Rightarrow> engine_table res" where
  "transition_engine ts = register_all [] ts"

definition check_identity :: "AggregateSnapshot option \<Rightarrow> ActionEnvelope \<Rightarrow> unit res" where
  "check_identity snapshot a = (case snapshot of
       None \<Rightarrow> Inr ()
     | Some s \<Rightarrow>
         if snap_type s \<noteq> aggregate_type a \<or> snap_id s \<noteq> aggregate_id a
           then Inl (UnknownTransitionError ''action aggregate identity does not match snapshot'')
         else raise_if (snap_workflow_id s \<noteq> workflow_id a)
           (UnknownTransitionError ''action workflow identity does not match snapshot''))"

definition current_version :: "AggregateSnapshot option \<Rightarrow> int" where
  "current_version snapshot = (case snapshot of None \<Rightarrow> 0 | Some s \<Rightarrow> snap_version s)"

definition check_version :: "AggregateSnapshot option \<Rightarrow> ActionEnvelope \<Rightarrow> unit res" where
  "check_version snapshot a = (case expected_version a of
       None \<Rightarrow> Inr ()
     | Some v \<Rightarrow> raise_if (v \<noteq> current_version snapshot)
         (AggregateVersionConflict (''expected aggregate version '' @ int_str v @ '', found ''
            @ int_str (current_version snapshot))))"

definition next_snapshot ::
  "AggregateSnapshot option \<Rightarrow> ActionEnvelope \<Rightarrow> string \<Rightarrow> pydict \<Rightarrow> AggregateSnapshot" where
  "next_snapshot snapshot a target_state next_payload =
     \<lparr>snap_type = aggregate_type a, snap_id = aggregate_id a, snap_workflow_id = workflow_id a,
      snap_state = target_state, snap_version = current_version snapshot + 1,
      snap_payload = next_payload,
      snap_created_at = (case snapshot of None \<Rightarrow> created_at a | Some s \<Rightarrow> snap_created_at s),
      snap_updated_at = created_at a\<rparr>"

definition transition ::
  "engine_table \<Rightarrow> AggregateSnapshot option \<Rightarrow> ActionEnvelope \<Rightarrow> TransitionOutcome res" where
  "transition tbl snapshot a =
     (let current_state = map_option snap_state snapshot;
          transition_name = aggregate_value (aggregate_type a) @ '':'' @ state_str current_state
            @ '' + '' @ action_type a in
      case map_of tbl (aggregate_type a, current_state, action_type a) of
        None \<Rightarrow> Inl (UnknownTransitionError (''invalid transition: '' @ transition_name))
      | Some spec \<Rightarrow>
          rbind (check_identity snapshot a) (\<lambda>_.
          rbind (check_version snapshot a) (\<lambda>_.
          let current_payload = (case snapshot of None \<Rightarrow> [] | Some s \<Rightarrow> snap_payload s) in
          rbind (ts_guard spec current_payload a) (\<lambda>_.
          rbind (ts_reducer spec current_payload a) (\<lambda>next_payload.
          rbind (resolve_target (ts_target_state spec) next_payload a) (\<lambda>target_state.
          let declared_targets = transition_target_states spec in
          if declared_targets \<noteq> [] \<and> target_state \<notin> set declared_targets then
            Inl (UnknownTransitionError (''dynamic target escaped its MachineSpec declaration: ''
              @ transition_name @ '' resolved '' @ target_state))
          else
            let events = ts_event_builder spec next_payload a target_state in
            rbind (ts_effect_builder spec next_payload a target_state) (\<lambda>effects.
            Inr \<lparr>out_snapshot = next_snapshot snapshot a target_state next_payload,
                 out_events = events, out_effects = effects\<rparr>)))))))"

definition engine_legal_actions :: "engine_table \<Rightarrow> AggregateType \<Rightarrow> string option \<Rightarrow> string list" where
  "engine_legal_actions tbl ty s =
     sort (map (\<lambda>((ty', s', act), _). act) (filter (\<lambda>((ty', s', act), _). ty' = ty \<and> s' = s) tbl))"

subsection \<open>The table\<close>

lemma register_all_Inr:
  "register_all tbl ts = Inr tbl' \<longleftrightarrow>
     distinct (map engine_key ts) \<and> set (map engine_key ts) \<inter> fst ` set tbl = {}
   \<and> tbl' = tbl @ map (\<lambda>t. (engine_key t, t)) ts"
  by (induction ts arbitrary: tbl) (auto simp: register_def map_of_eq_None_iff split: if_splits)

lemma transition_engine_Inr:
  "transition_engine ts = Inr tbl \<longleftrightarrow>
     distinct (map engine_key ts) \<and> tbl = map (\<lambda>t. (engine_key t, t)) ts"
  by (simp add: transition_engine_def register_all_Inr)

lemma engine_lookup:
  assumes "transition_engine ts = Inr tbl"
  shows "map_of tbl k = Some t \<longleftrightarrow> t \<in> set ts \<and> engine_key t = k"
proof -
  from assms have d: "distinct (map fst tbl)" and tbl: "tbl = map (\<lambda>t. (engine_key t, t)) ts"
    by (auto simp: transition_engine_Inr comp_def)
  have "map_of tbl k = Some t \<longleftrightarrow> (k, t) \<in> set tbl"
    using d by (metis map_of_eq_Some_iff)
  then show ?thesis by (auto simp: tbl)
qed

lemma engine_legal_actions_set:
  assumes "transition_engine ts = Inr tbl"
  shows "act \<in> set (engine_legal_actions tbl ty s) \<longleftrightarrow> map_of tbl (ty, s, act) \<noteq> None"
proof -
  have "(\<exists>t. map_of tbl (ty, s, act) = Some t) \<longleftrightarrow> (\<exists>t \<in> set ts. engine_key t = (ty, s, act))"
    by (simp add: engine_lookup [OF assms] Bex_def)
  with assms show ?thesis
    by (force simp: engine_legal_actions_def transition_engine_Inr engine_key_def)
qed

subsection \<open>What a successful transition establishes\<close>

lemma transition_Inr:
  "transition tbl snapshot a = Inr out \<longleftrightarrow>
    (\<exists>spec p s effs.
        map_of tbl (aggregate_type a, map_option snap_state snapshot, action_type a) = Some spec
      \<and> check_identity snapshot a = Inr () \<and> check_version snapshot a = Inr ()
      \<and> ts_guard spec (case snapshot of None \<Rightarrow> [] | Some s \<Rightarrow> snap_payload s) a = Inr ()
      \<and> ts_reducer spec (case snapshot of None \<Rightarrow> [] | Some s \<Rightarrow> snap_payload s) a = Inr p
      \<and> resolve_target (ts_target_state spec) p a = Inr s
      \<and> (transition_target_states spec = [] \<or> s \<in> set (transition_target_states spec))
      \<and> ts_effect_builder spec p a s = Inr effs
      \<and> out = \<lparr>out_snapshot = next_snapshot snapshot a s p, out_events = ts_event_builder spec p a s,
               out_effects = effs\<rparr>)"
  by (auto simp: transition_def Let_def split: option.splits if_splits)

lemma check_identity_Inr:
  "check_identity snapshot a = Inr () \<longleftrightarrow>
     (case snapshot of None \<Rightarrow> True
      | Some s \<Rightarrow> snap_type s = aggregate_type a \<and> snap_id s = aggregate_id a \<and> snap_workflow_id s = workflow_id a)"
  by (auto simp: check_identity_def split: option.splits)

lemma check_version_Inr:
  "check_version snapshot a = Inr () \<longleftrightarrow>
     (expected_version a = None \<or> expected_version a = Some (current_version snapshot))"
  by (auto simp: check_version_def split: option.splits)

subsection \<open>Histories of one aggregate\<close>

text \<open>
  The callers of the engine load the current snapshot, ask for a step and store the outcome. A history is
  the sequence of such steps: \<open>replay\<close> demands that every step succeeds, \<open>attempt\<close> lets the refused
  actions pass without effect and lists the accepted ones. The locale holds what a store may assume of a
  step function; the engine provides it for every table.
\<close>

type_synonym step_fn = "AggregateSnapshot option \<Rightarrow> ActionEnvelope \<Rightarrow> TransitionOutcome res"

fun replay :: "step_fn \<Rightarrow> AggregateSnapshot option \<Rightarrow> ActionEnvelope list \<Rightarrow> AggregateSnapshot option res" where
  "replay step snapshot [] = Inr snapshot"
| "replay step snapshot (a # as) = rbind (step snapshot a) (\<lambda>out. replay step (Some (out_snapshot out)) as)"

fun attempt :: "step_fn \<Rightarrow> AggregateSnapshot option \<Rightarrow> ActionEnvelope list
    \<Rightarrow> ActionEnvelope list \<times> AggregateSnapshot option" where
  "attempt step snapshot [] = ([], snapshot)"
| "attempt step snapshot (a # as) = (case step snapshot a of
       Inl e \<Rightarrow> attempt step snapshot as
     | Inr out \<Rightarrow> (case attempt step (Some (out_snapshot out)) as of (accepted, s) \<Rightarrow> (a # accepted, s)))"

definition expected_versions :: "ActionEnvelope list \<Rightarrow> int list" where
  "expected_versions as = List.map_filter expected_version as"

lemma expected_versions_simps [simp]:
  "expected_versions [] = []"
  "expected_versions (a # as) = (case expected_version a of None \<Rightarrow> [] | Some v \<Rightarrow> [v]) @ expected_versions as"
  by (auto simp: expected_versions_def List.map_filter_simps split: option.splits)

definition same_subject :: "AggregateSnapshot \<Rightarrow> AggregateSnapshot \<Rightarrow> bool" where
  "same_subject s s' \<longleftrightarrow> snap_type s = snap_type s' \<and> snap_id s = snap_id s'
     \<and> snap_workflow_id s = snap_workflow_id s' \<and> snap_created_at s = snap_created_at s'"

locale versioned_step =
  fixes step :: step_fn
  assumes step_version: "step snapshot a = Inr out \<Longrightarrow>
      snap_version (out_snapshot out) = current_version snapshot + 1"
    and step_subject: "step (Some s) a = Inr out \<Longrightarrow> same_subject s (out_snapshot out)"
    and step_expected: "step snapshot a = Inr out \<Longrightarrow>
      expected_version a = None \<or> expected_version a = Some (current_version snapshot)"
begin

lemma replay_version:
  "replay step snapshot as = Inr snapshot' \<Longrightarrow>
     current_version snapshot' = current_version snapshot + int (length as)"
proof (induction as arbitrary: snapshot)
  case (Cons a as)
  then obtain out where out: "step snapshot a = Inr out" "replay step (Some (out_snapshot out)) as = Inr snapshot'"
    by auto
  with Cons.IH have "current_version snapshot' = current_version (Some (out_snapshot out)) + int (length as)"
    by blast
  with step_version [OF out(1)] show ?case by (simp add: current_version_def)
qed simp

lemma replay_subject:
  "replay step (Some s) as = Inr snapshot' \<Longrightarrow> \<exists>s'. snapshot' = Some s' \<and> same_subject s s'"
proof (induction as arbitrary: s)
  case (Cons a as)
  then obtain out where out: "step (Some s) a = Inr out" "replay step (Some (out_snapshot out)) as = Inr snapshot'"
    by auto
  with Cons.IH obtain s' where "snapshot' = Some s'" "same_subject (out_snapshot out) s'" by blast
  with step_subject [OF out(1)] show ?case by (simp add: same_subject_def)
qed (auto simp: same_subject_def)

lemma attempt_version:
  "attempt step snapshot as = (accepted, snapshot') \<Longrightarrow>
     current_version snapshot' = current_version snapshot + int (length accepted)"
proof (induction as arbitrary: snapshot accepted)
  case (Cons a as)
  then show ?case
    using step_version [of snapshot a]
    by (fastforce simp: current_version_def split: sum.splits prod.splits)
qed simp

lemma attempt_expected:
  "attempt step snapshot as = (accepted, snapshot') \<Longrightarrow>
     sorted_wrt (<) (expected_versions accepted) \<and> (\<forall>v \<in> set (expected_versions accepted). current_version snapshot \<le> v)"
proof (induction as arbitrary: snapshot accepted)
  case (Cons a as)
  show ?case
  proof (cases "step snapshot a")
    case (Inr out)
    with Cons.prems obtain accepted' where accepted': "accepted = a # accepted'"
      "attempt step (Some (out_snapshot out)) as = (accepted', snapshot')"
      by (auto split: prod.splits)
    with Cons.IH have IH: "sorted_wrt (<) (expected_versions accepted')"
      "\<forall>v \<in> set (expected_versions accepted'). current_version (Some (out_snapshot out)) \<le> v"
      by blast+
    from step_version [OF Inr] have "current_version (Some (out_snapshot out)) = current_version snapshot + 1"
      by (simp add: current_version_def)
    with IH(2) have later: "\<And>v. v \<in> set (expected_versions accepted') \<Longrightarrow> current_version snapshot < v" by fastforce
    from step_expected [OF Inr] IH(1) later show ?thesis
      by (force simp: accepted'(1) less_imp_le split: option.splits)
  qed (use Cons in auto)
qed simp

end

locale declared_step = versioned_step +
  fixes declared :: "AggregateType \<Rightarrow> string list"
  assumes step_declared: "step snapshot a = Inr out \<Longrightarrow>
      snap_type (out_snapshot out) = aggregate_type a
    \<and> snap_state (out_snapshot out) \<in> set (declared (aggregate_type a))"
begin

lemma replay_declared:
  "replay step snapshot as = Inr (Some s) \<Longrightarrow> as \<noteq> [] \<Longrightarrow> snap_state s \<in> set (declared (snap_type s))"
proof (induction as arbitrary: snapshot)
  case (Cons a as)
  then obtain out where out: "step snapshot a = Inr out" "replay step (Some (out_snapshot out)) as = Inr (Some s)"
    by auto
  show ?case
  proof (cases "as = []")
    case True
    with out step_declared [OF out(1)] show ?thesis by simp
  qed (use Cons.IH out in blast)
qed simp

end

text \<open>Every table gives a versioned step.\<close>

lemma transition_laws:
  assumes "transition tbl snapshot a = Inr out"
  shows "snap_version (out_snapshot out) = current_version snapshot + 1"
    and "snapshot = Some s \<Longrightarrow> same_subject s (out_snapshot out)"
    and "expected_version a = None \<or> expected_version a = Some (current_version snapshot)"
    and "snap_type (out_snapshot out) = aggregate_type a"
  using assms
  by (auto simp: transition_Inr check_identity_Inr check_version_Inr next_snapshot_def same_subject_def)

interpretation engine: versioned_step "transition tbl" for tbl
  by unfold_locales (auto dest: transition_laws)

end
