(* ===== verification/Database.thy ===== *)
theory Database
  imports Contracts Operations
begin

section \<open>The tables of the durable store\<close>

text \<open>
  The rows of \<open>bunshin/schema.py\<close> that the modelled operations read or write. A table with a primary key is
  an association list from the key to the row; an \<open>INSERT\<close> of a key that exists raises \<open>IntegrityError\<close>. JSON
  columns hold the value that was serialised. Instants are integers where the code compares them (retry and
  lock times); \<open>None\<close> is the empty text of an unlocked row, which sorts before every instant. The columns of
  the tables that belong to other stores (role assignments, projections) are the type parameter of the record.
\<close>

record DomainEvent =
  ev_id :: string
  ev_workflow_id :: string
  ev_aggregate_type :: AggregateType
  ev_aggregate_id :: string
  ev_version :: int
  ev_type :: string
  ev_payload :: pydict
  ev_action_id :: string
  ev_correlation_id :: string
  ev_causation_id :: string
  ev_created_at :: string

record DispatchResult =
  res_snapshot :: AggregateSnapshot
  res_events :: "DomainEvent list"
  res_effect_ids :: "string list"
  res_duplicate :: bool

text \<open>The immutable part of an outbox row: where the effect comes from and what it asks for.\<close>

record EffectRequest =
  rq_effect_key :: string
  rq_workflow_id :: string
  rq_aggregate_type :: AggregateType
  rq_aggregate_id :: string
  rq_event_id :: string
  rq_effect_index :: nat
  rq_effect_type :: string
  rq_hash :: string
  rq_payload :: pydict
  rq_created_at :: int

datatype OutboxStatus = PENDING | INFLIGHT | COMPLETED | FAILED

record OutboxRow =
  ob_request :: EffectRequest
  ob_status :: OutboxStatus
  ob_attempts :: int
  ob_max_attempts :: int
  ob_provider_request_id :: string
  ob_result_ref :: pydict
  ob_next_retry_at :: int
  ob_locked_by :: string
  ob_locked_until :: "int option"
  ob_last_error :: string
  ob_updated_at :: int

record EffectReceipt =
  rc_effect_id :: string
  rc_hash :: string
  rc_provider_request_id :: string
  rc_result_ref :: pydict
  rc_completed_at :: int

record EffectAttempt =
  at_effect_id :: string
  at_index :: nat
  at_worker :: string
  at_status :: string
  at_error_kind :: string
  at_error_text :: string
  at_provider_request_id :: string
  at_result_ref :: pydict
  at_started :: int
  at_finished :: "int option"

record DedupRow =
  dd_action_id :: string
  dd_hash :: string
  dd_result :: DispatchResult
  dd_created_at :: string

record HumanDecision =
  hd_workflow_id :: string
  hd_revision_id :: string
  hd_manifest :: string
  hd_actor :: string
  hd_status :: string
  hd_decision :: string
  hd_action_id :: string
  hd_issued_at :: int
  hd_consumed_at :: string

record ArtifactRow =
  ar_durable :: bool
  ar_storage_path :: string

type_synonym aggregate_key = "AggregateType \<times> string"

record 'r Database =
  db_snapshots :: "(aggregate_key \<times> AggregateSnapshot) list"
  db_events :: "DomainEvent list"
  db_dedup :: "((AggregateType \<times> string \<times> string) \<times> DedupRow) list"
  db_outbox :: "(string \<times> OutboxRow) list"
  db_receipts :: "(string \<times> EffectReceipt) list"
  db_attempts :: "EffectAttempt list"
  db_decisions :: "(string \<times> HumanDecision) list"
  db_artifacts :: "(string \<times> ArtifactRow) list"
  db_rest :: 'r

definition IntegrityError :: err where
  "IntegrityError = RuntimeError ''IntegrityError''"

text \<open>\<open>INSERT\<close> into a table with a primary key.\<close>

definition insert_row :: "'k \<Rightarrow> 'v \<Rightarrow> ('k \<times> 'v) list \<Rightarrow> ('k \<times> 'v) list res" where
  "insert_row k v tbl = (if map_of tbl k \<noteq> None then Inl IntegrityError else Inr (tbl @ [(k, v)]))"

lemma insert_row_Inr [simp]: "insert_row k v tbl = Inr tbl' \<longleftrightarrow> map_of tbl k = None \<and> tbl' = tbl @ [(k, v)]"
  by (auto simp: insert_row_def)

lemma map_of_append_new: "map_of tbl k = None \<Longrightarrow> map_of (tbl @ [(k, v)]) = (map_of tbl)(k \<mapsto> v)"
  by (auto simp: fun_eq_iff map_add_def split: option.splits)

end
