(* ===== verification/Human_Decisions.thy ===== *)
theory Human_Decisions
  imports Database
begin

section \<open>Human decision tokens\<close>

text \<open>
  \<open>bunshin/storage/human_decisions.py\<close>: a person decides on an architecture revision with a token that was
  issued for exactly one workflow, revision, manifest and actor. The hash of a token (SHA-256) and the random
  token itself are arguments. Also the two readers of action payloads that the check uses
  (\<open>_artifact_digests\<close>, \<open>_manifest_sha_from_action\<close> in \<open>bunshin/storage/serialization.py\<close>) and the durability
  check of \<open>bunshin/storage/artifacts.py\<close>; whether a stored file exists is an argument.
\<close>

definition removeprefix_sha :: "string \<Rightarrow> string" where
  "removeprefix_sha s = (if take 7 s = ''sha256:'' then drop 7 s else s)"

fun artifact_digests :: "pyval \<Rightarrow> string list" where
  "artifact_digests (PDict d) =
     (case dget d ''sha256'' of
        PStr raw \<Rightarrow> if length (removeprefix_sha raw) = 64 then [removeprefix_sha raw] else []
      | _ \<Rightarrow> []) @ concat (map (\<lambda>(k, v). artifact_digests v) d)"
| "artifact_digests (PList xs) = concat (map artifact_digests xs)"
| "artifact_digests (PStr s) = (if take 7 s = ''sha256:'' \<and> length s = 71 then [drop 7 s] else [])"
| "artifact_digests _ = []"

definition assert_artifact_refs_durable ::
  "(string \<Rightarrow> bool) \<Rightarrow> (string \<times> ArtifactRow) list \<Rightarrow> pyval \<Rightarrow> unit res" where
  "assert_artifact_refs_durable is_file artifacts v =
     first_error (map (\<lambda>digest.
       case map_of artifacts digest of
         None \<Rightarrow> Inl (ValueError (''action references a missing or non-durable artifact: '' @ digest))
       | Some row \<Rightarrow>
           if \<not> ar_durable row then
             Inl (ValueError (''action references a missing or non-durable artifact: '' @ digest))
           else raise_if (\<not> is_file (ar_storage_path row))
             (ValueError (''action references an artifact with missing storage: '' @ digest)))
       (remdups (artifact_digests v)))"

definition manifest_sha_from_action :: "ActionEnvelope \<Rightarrow> string" where
  "manifest_sha_from_action a =
     (let v = py_or (dget (payload a) ''architecture_manifest_ref'') (dget (payload a) ''clarification_ref'') in
      case v of
        PDict d \<Rightarrow> removeprefix_sha (str_or_empty (dget d ''sha256''))
      | _ \<Rightarrow> removeprefix_sha (str_or_empty (py_or v (dget (payload a) ''manifest_sha''))))"

type_synonym decisions = "(string \<times> HumanDecision) list"

text \<open>The \<open>UPDATE\<close> that expires the issued decisions a condition selects.\<close>

definition expire_issued :: "(HumanDecision \<Rightarrow> bool) \<Rightarrow> decisions \<Rightarrow> decisions" where
  "expire_issued sel ds =
     map (\<lambda>(h, d). (h, if sel d \<and> hd_status d = ''issued'' then d\<lparr>hd_status := ''expired''\<rparr> else d)) ds"

definition new_decision :: "string \<Rightarrow> string \<Rightarrow> string \<Rightarrow> string \<Rightarrow> int \<Rightarrow> HumanDecision" where
  "new_decision flow revision_id manifest_sha actor_id now =
     \<lparr>hd_workflow_id = flow, hd_revision_id = revision_id, hd_manifest = manifest_sha, hd_actor = actor_id,
      hd_status = ''issued'', hd_decision = [], hd_action_id = [], hd_issued_at = now, hd_consumed_at = []\<rparr>"

definition missing_fields :: "(string \<times> string) list \<Rightarrow> string list" where
  "missing_fields required = map fst (filter (\<lambda>(k, v). strip v = []) required)"

definition issue_human_decision_token ::
  "(string \<Rightarrow> string) \<Rightarrow> string \<Rightarrow> int \<Rightarrow> (string \<times> ArtifactRow) list \<Rightarrow> string \<Rightarrow> string \<Rightarrow> string \<Rightarrow> string
     \<Rightarrow> decisions \<Rightarrow> (string \<times> decisions) res" where
  "issue_human_decision_token hash token now artifacts flow revision_id manifest_sha actor_id ds =
     (let missing = missing_fields [(''workflow_id'', flow), (''architecture_revision_id'', revision_id),
            (''manifest_sha'', manifest_sha), (''actor_id'', actor_id)] in
      if missing \<noteq> [] then
        Inl (ValueError (''human decision token missing fields: '' @ join '', '' missing))
      else if (case map_of artifacts (removeprefix_sha manifest_sha) of None \<Rightarrow> True | Some r \<Rightarrow> \<not> ar_durable r) then
        Inl (ValueError ''human decision token requires a durable architecture manifest'')
      else
        rbind (insert_row (hash token) (new_decision flow revision_id (removeprefix_sha manifest_sha) actor_id now)
          (expire_issued (\<lambda>d. hd_workflow_id d = flow \<and> hd_revision_id d = revision_id) ds))
        (\<lambda>ds'. Inr (token, ds')))"

definition expire_human_decisions_for_revision :: "string \<Rightarrow> string \<Rightarrow> decisions \<Rightarrow> nat \<times> decisions" where
  "expire_human_decisions_for_revision flow revision_id ds =
     (let sel = (\<lambda>d. hd_workflow_id d = flow \<and> hd_revision_id d = revision_id) in
      (length (filter (\<lambda>(h, d). sel d \<and> hd_status d = ''issued'') ds), expire_issued sel ds))"

definition reissue_human_decision_token ::
  "(string \<Rightarrow> string) \<Rightarrow> string \<Rightarrow> int \<Rightarrow> (string \<times> ArtifactRow) list \<Rightarrow> string \<Rightarrow> string
     \<Rightarrow> decisions \<Rightarrow> (string \<times> decisions) res" where
  "reissue_human_decision_token hash token now artifacts flow actor_id ds =
     (let missing = missing_fields [(''workflow_id'', flow), (''actor_id'', actor_id)] in
      if missing \<noteq> [] then
        Inl (ValueError (''human decision binding missing fields: '' @ join '', '' missing))
      else
        case remdups (map (\<lambda>(h, d). (hd_revision_id d, hd_manifest d))
          (filter (\<lambda>(h, d). hd_workflow_id d = flow \<and> hd_actor d = actor_id \<and> hd_status d = ''issued'') ds)) of
          [] \<Rightarrow> Inl (ValueError ''current workflow has no pending human decision'')
        | [(revision_id, manifest_sha)] \<Rightarrow>
            if (case map_of artifacts manifest_sha of None \<Rightarrow> True | Some r \<Rightarrow> \<not> ar_durable r) then
              Inl (ValueError ''pending human decision references a non-durable artifact'')
            else
              rbind (insert_row (hash token) (new_decision flow revision_id manifest_sha actor_id now)
                (expire_issued (\<lambda>d. hd_workflow_id d = flow \<and> hd_revision_id d = revision_id
                    \<and> hd_manifest d = manifest_sha \<and> hd_actor d = actor_id) ds))
              (\<lambda>ds'. Inr (token, ds'))
        | _ \<Rightarrow> Inl (ValueError ''current workflow has multiple pending human decisions''))"

definition decision_mismatches :: "HumanDecision \<Rightarrow> ActionEnvelope \<Rightarrow> string list" where
  "decision_mismatches d a =
     (if hd_workflow_id d \<noteq> workflow_id a then [''workflow_id''] else [])
   @ (if hd_revision_id d \<noteq> aggregate_id a then [''architecture_revision_id''] else [])
   @ (if manifest_sha_from_action a \<noteq> hd_manifest d then [''manifest_sha''] else [])
   @ (if hd_actor d \<noteq> actor a then [''actor_id''] else [])"

definition decision_actions :: "string list" where
  "decision_actions = [''HUMAN_ACCEPT'', ''HUMAN_EDIT'', ''HUMAN_REJECT'']"

definition consume_human_decision :: "(string \<Rightarrow> string) \<Rightarrow> ActionEnvelope \<Rightarrow> decisions \<Rightarrow> decisions res" where
  "consume_human_decision hash a ds =
     (if action_type a \<notin> set decision_actions then Inr ds
      else
        let token = str_or_empty (dget (payload a) ''decision_token'') in
        if token = [] then Inl (ValueError ''human decision action requires decision_token'')
        else case map_of ds (hash token) of
          None \<Rightarrow> Inl (ValueError ''unknown human decision token'')
        | Some d \<Rightarrow>
            if hd_status d \<noteq> ''issued'' then
              Inl (ValueError ''human decision token is stale or already consumed'')
            else if decision_mismatches d a \<noteq> [] then
              Inl (ValueError (''stale human decision binding: '' @ join '', '' (decision_mismatches d a)))
            else Inr (AList.update (hash token)
              (d\<lparr>hd_status := ''consumed'', hd_decision := action_type a, hd_action_id := action_id a,
                 hd_consumed_at := created_at a\<rparr>) ds))"

subsection \<open>A decision is spent once\<close>

datatype decision_op =
    Issue string int "(string \<times> ArtifactRow) list" string string string string
  | Reissue string int "(string \<times> ArtifactRow) list" string string
  | Expire string string
  | Consume ActionEnvelope

fun decision_step :: "(string \<Rightarrow> string) \<Rightarrow> decisions \<Rightarrow> decision_op \<Rightarrow> decisions" where
  "decision_step hash ds (Issue token now arts w r m who) =
     after ds (issue_human_decision_token hash token now arts w r m who ds)"
| "decision_step hash ds (Reissue token now arts w who) =
     after ds (reissue_human_decision_token hash token now arts w who ds)"
| "decision_step hash ds (Expire w r) = snd (expire_human_decisions_for_revision w r ds)"
| "decision_step hash ds (Consume a) = (case consume_human_decision hash a ds of Inl e \<Rightarrow> ds | Inr ds' \<Rightarrow> ds')"

definition spent :: "decisions \<Rightarrow> string \<Rightarrow> bool" where
  "spent ds h \<longleftrightarrow> (\<exists>d. map_of ds h = Some d \<and> hd_status d \<noteq> ''issued'')"

lemma map_of_expire_issued:
  "map_of (expire_issued sel ds) h = map_option
     (\<lambda>d. if sel d \<and> hd_status d = ''issued'' then d\<lparr>hd_status := ''expired''\<rparr> else d) (map_of ds h)"
  unfolding expire_issued_def by (induction ds) auto

lemma spent_expire: "spent ds h \<Longrightarrow> spent (expire_issued sel ds) h"
  by (auto simp: spent_def map_of_expire_issued)

lemma spent_append: "spent ds h \<Longrightarrow> spent (ds @ xs) h"
  by (auto simp: spent_def map_add_def split: option.splits)

lemma consume_Inr:
  "consume_human_decision hash a ds = Inr ds' \<Longrightarrow> action_type a \<in> set decision_actions \<Longrightarrow>
     (\<exists>d. map_of ds (hash (str_or_empty (dget (payload a) ''decision_token''))) = Some d \<and> hd_status d = ''issued''
        \<and> hd_workflow_id d = workflow_id a \<and> hd_revision_id d = aggregate_id a
        \<and> hd_manifest d = manifest_sha_from_action a \<and> hd_actor d = actor a)
   \<and> spent ds' (hash (str_or_empty (dget (payload a) ''decision_token'')))"
  by (auto simp: consume_human_decision_def Let_def decision_mismatches_def spent_def update_conv'
      split: if_splits option.splits)

lemma spent_consume: "spent ds h \<Longrightarrow> consume_human_decision hash a ds = Inr ds' \<Longrightarrow> spent ds' h"
  by (auto simp: consume_human_decision_def Let_def spent_def update_conv' split: if_splits option.splits)

lemma spent_step: "spent ds h \<Longrightarrow> spent (decision_step hash ds op) h"
  by (cases op)
     (auto simp: issue_human_decision_token_def reissue_human_decision_token_def Let_def after_def
        expire_human_decisions_for_revision_def rbind_eq_Inl
        intro: spent_append spent_expire spent_consume split: sum.splits prod.splits list.splits if_splits)

interpretation decision_log: store "decision_step hash" "\<lambda>ds. spent ds h" for hash h
  by unfold_locales (rule spent_step)

text \<open>C31: A human decision is used once and for what it was issued: a decision action is let through only if its
  token is still issued and names the action's workflow, architecture revision, manifest and actor, and
  after that, whatever tokens are issued, reissued, expired or consumed, every further decision action with
  that token is refused.\<close>

theorem decision_token_used_once:
  assumes "consume_human_decision hash a ds = Inr ds'" and "action_type a \<in> set decision_actions"
    and "dget (payload b) ''decision_token'' = dget (payload a) ''decision_token''"
    and "action_type b \<in> set decision_actions"
  shows "(\<exists>d. map_of ds (hash (str_or_empty (dget (payload a) ''decision_token''))) = Some d
      \<and> hd_status d = ''issued'' \<and> hd_workflow_id d = workflow_id a \<and> hd_revision_id d = aggregate_id a
      \<and> hd_manifest d = manifest_sha_from_action a \<and> hd_actor d = actor a)
    \<and> (\<exists>m. consume_human_decision hash b (run_ops (decision_step hash) ds' ops) = Inl (ValueError m))"
proof (rule conjI)
  let ?h = "hash (str_or_empty (dget (payload a) ''decision_token''))"
  from consume_Inr [OF assms(1,2)] show "\<exists>d. map_of ds ?h = Some d
      \<and> hd_status d = ''issued'' \<and> hd_workflow_id d = workflow_id a \<and> hd_revision_id d = aggregate_id a
      \<and> hd_manifest d = manifest_sha_from_action a \<and> hd_actor d = actor a" by blast
  from consume_Inr [OF assms(1,2)] have "spent ds' ?h" by blast
  then have "spent (run_ops (decision_step hash) ds' ops) ?h" by (rule decision_log.run_inv)
  then show "\<exists>m. consume_human_decision hash b (run_ops (decision_step hash) ds' ops) = Inl (ValueError m)"
    using assms(3,4) by (auto simp: consume_human_decision_def Let_def spent_def)
qed

subsection \<open>Instances\<close>

text \<open>One issued token, and the acceptance that consumes it.\<close>

definition sample_decisions :: decisions where
  "sample_decisions = [(''tok'', new_decision ''wf'' ''rev'' ''m'' ''user'' 0)]"

definition sample_accept :: ActionEnvelope where
  "sample_accept = \<lparr>action_type = ''HUMAN_ACCEPT'', workflow_id = ''wf'', aggregate_type = ARCHITECTURE_REVISION,
     aggregate_id = ''rev'', actor = ''user'', payload = [(''decision_token'', PStr ''tok''), (''manifest_sha'', PStr ''m'')],
     source_channel = [], expected_version = None, idempotency_key = [], correlation_id = [], causation_id = [],
     action_id = ''a1'', created_at = ''t''\<rparr>"

theorem decision_token_used_once_witness:
  "\<exists>ds' m. consume_human_decision (\<lambda>t. t) sample_accept sample_decisions = Inr ds'
    \<and> consume_human_decision (\<lambda>t. t) sample_accept (run_ops (decision_step (\<lambda>t. t)) ds'
        [Expire ''wf'' ''rev'', Issue ''tok'' 1 [(''m'', \<lparr>ar_durable = True, ar_storage_path = []\<rparr>)] ''wf'' ''rev'' ''m'' ''user''])
      = Inl (ValueError m)"
proof -
  have "\<exists>ds'. consume_human_decision (\<lambda>t. t) sample_accept sample_decisions = Inr ds'"
    by (simp add: consume_human_decision_def sample_accept_def sample_decisions_def new_decision_def decision_actions_def
        dget_def decision_mismatches_def manifest_sha_from_action_def removeprefix_sha_def py_or_def Let_def)
  then obtain ds' where ds': "consume_human_decision (\<lambda>t. t) sample_accept sample_decisions = Inr ds'" ..
  have act: "action_type sample_accept \<in> set decision_actions"
    by (simp add: sample_accept_def decision_actions_def)
  from decision_token_used_once [OF ds' act refl act] ds' show ?thesis by blast
qed

end
