(* ===== verification/Dispatch.thy ===== *)
theory Dispatch
  imports Engine Human_Decisions
begin

section \<open>Dispatching an action\<close>

text \<open>
  \<open>bunshin/storage/transitions.py\<close> and \<open>snapshots.py\<close>: one write transaction that deduplicates the action,
  spends a human decision, checks artifacts, steps the engine, stores the snapshot with compare-and-swap,
  the domain events and the outbox effects, and records the result under the idempotency key. An error
  rolls the transaction back: the operations return either an error or the result with the new database.

  What lies outside is an argument, the record \<open>Ports\<close>: hashing of canonical JSON and of text, file
  existence, fresh identifiers (\<open>uuid4\<close>), the order of ISO instants as integers, and the collaborators that
  only touch their own tables: settlement of a role assignment and the three projections. The result is kept
  in the dedup row as a value; the source encodes it to JSON and decodes it again.
\<close>

record 'r Ports =
  hash_json :: "pyval \<Rightarrow> string"
  hash_text :: "string \<Rightarrow> string"
  is_file :: "string \<Rightarrow> bool"
  new_id :: "nat \<Rightarrow> string"
  instant :: "string \<Rightarrow> int"
  settle_role :: "'r Database \<Rightarrow> string \<Rightarrow> string \<Rightarrow> ActionEnvelope \<Rightarrow> 'r res"
  project_task :: "'r Database \<Rightarrow> AggregateSnapshot \<Rightarrow> 'r res"
  project_node :: "'r Database \<Rightarrow> AggregateSnapshot \<Rightarrow> 'r res"
  project_workflow :: "'r Database \<Rightarrow> string \<Rightarrow> string \<Rightarrow> 'r res"

definition action_request_payload :: "ActionEnvelope \<Rightarrow> pyval" where
  "action_request_payload a = PDict
     [(''action_type'', PStr (action_type a)), (''workflow_id'', PStr (workflow_id a)),
      (''aggregate_type'', PStr (aggregate_value (aggregate_type a))), (''aggregate_id'', PStr (aggregate_id a)),
      (''actor'', PStr (actor a)),
      (''expected_version'', case expected_version a of None \<Rightarrow> PNone | Some v \<Rightarrow> PInt v),
      (''payload'', PDict (payload a))]"

subsection \<open>Snapshots\<close>

definition read_snapshot :: "'r Database \<Rightarrow> AggregateType \<Rightarrow> string \<Rightarrow> AggregateSnapshot option" where
  "read_snapshot db ty i = map_of (db_snapshots db) (ty, i)"

definition write_snapshot ::
  "AggregateSnapshot option \<Rightarrow> AggregateSnapshot \<Rightarrow> (aggregate_key \<times> AggregateSnapshot) list
     \<Rightarrow> (aggregate_key \<times> AggregateSnapshot) list res" where
  "write_snapshot current s tbl =
     (let key = (snap_type s, snap_id s) in
      case current of
        None \<Rightarrow> (case insert_row key s tbl of
            Inl e \<Rightarrow> Inl (AggregateVersionConflict ''aggregate was concurrently created'')
          | Inr tbl' \<Rightarrow> Inr tbl')
      | Some c \<Rightarrow> (case map_of tbl key of
            None \<Rightarrow> Inl (AggregateVersionConflict ''aggregate snapshot compare-and-swap failed'')
          | Some row \<Rightarrow>
              if snap_version row = snap_version c then
                Inr (AList.update key (row\<lparr>snap_state := snap_state s, snap_version := snap_version s,
                  snap_payload := snap_payload s, snap_updated_at := snap_updated_at s\<rparr>) tbl)
              else Inl (AggregateVersionConflict ''aggregate snapshot compare-and-swap failed'')))"

subsection \<open>Events and effects\<close>

definition domain_event :: "(nat \<Rightarrow> string) \<Rightarrow> ActionEnvelope \<Rightarrow> AggregateSnapshot \<Rightarrow> nat \<Rightarrow> DomainEventDraft \<Rightarrow> DomainEvent" where
  "domain_event ids a s n draft =
     \<lparr>ev_id = ''evt_'' @ ids n, ev_workflow_id = workflow_id a, ev_aggregate_type = aggregate_type a,
      ev_aggregate_id = aggregate_id a, ev_version = snap_version s, ev_type = event_type draft,
      ev_payload = event_payload draft, ev_action_id = action_id a,
      ev_correlation_id = (if correlation_id a \<noteq> [] then correlation_id a else action_id a),
      ev_causation_id = causation_id a, ev_created_at = created_at a\<rparr>"

text \<open>The primary key and the unique constraint of the event table.\<close>

definition event_clash :: "DomainEvent \<Rightarrow> DomainEvent \<Rightarrow> bool" where
  "event_clash e e' \<longleftrightarrow> ev_id e = ev_id e' \<or>
     (ev_aggregate_type e = ev_aggregate_type e' \<and> ev_aggregate_id e = ev_aggregate_id e'
      \<and> ev_version e = ev_version e' \<and> ev_type e = ev_type e')"

fun persist_domain_events ::
  "(nat \<Rightarrow> string) \<Rightarrow> ActionEnvelope \<Rightarrow> AggregateSnapshot \<Rightarrow> nat \<Rightarrow> DomainEventDraft list \<Rightarrow> DomainEvent list
     \<Rightarrow> (DomainEvent list \<times> DomainEvent list) res" where
  "persist_domain_events ids a s n [] tbl = Inr ([], tbl)"
| "persist_domain_events ids a s n (d # ds) tbl =
     (let e = domain_event ids a s n d in
      if list_ex (event_clash e) tbl then Inl IntegrityError
      else rbind (persist_domain_events ids a s (Suc n) ds (tbl @ [e])) (\<lambda>(es, tbl'). Inr (e # es, tbl')))"

definition causal_context :: "string \<Rightarrow> AggregateSnapshot \<Rightarrow> pydict res" where
  "causal_context etype s =
     rbind (int_or_zero (dget (snap_payload s) ''fencing_token'')) (\<lambda>token.
     rbind (if etype \<in> {''quiesce_verifier_role'', ''snapshot_verifier_result''}
            then rbind (dict_or_empty (dget (snap_payload s) ''pending_verification_ref''))
              (\<lambda>r. Inr [(''pending_verification_ref'', PDict r)])
            else Inr []) (\<lambda>extra.
     Inr ([(''aggregate_version'', PInt (snap_version s)), (''target_state'', PStr (snap_state s)),
           (''active_worker_id'', PStr (str_or_empty (dget (snap_payload s) ''active_worker_id''))),
           (''lease_resource_key'', PStr (str_or_empty (dget (snap_payload s) ''lease_resource_key''))),
           (''fencing_token'', PInt token)] @ extra)))"

definition effect_key :: "string \<Rightarrow> nat \<Rightarrow> string" where
  "effect_key event n = event @ '':'' @ digits n"

definition outbox_row ::
  "'r Ports \<Rightarrow> ActionEnvelope \<Rightarrow> AggregateSnapshot \<Rightarrow> string \<Rightarrow> nat \<Rightarrow> EffectDraft \<Rightarrow> OutboxRow res" where
  "outbox_row ports a s event n draft =
     rbind (causal_context (effect_type draft) s) (\<lambda>context.
     let p = dset ''_causal_context'' (PDict context) (effect_payload draft);
         now = instant ports (created_at a) in
     Inr \<lparr>ob_request =
            \<lparr>rq_effect_key = effect_key event n, rq_workflow_id = workflow_id a,
             rq_aggregate_type = aggregate_type a, rq_aggregate_id = aggregate_id a, rq_event_id = event,
             rq_effect_index = n, rq_effect_type = effect_type draft,
             rq_hash = hash_json ports (PDict [(''effect_type'', PStr (effect_type draft)), (''payload'', PDict p)]),
             rq_payload = p, rq_created_at = now\<rparr>,
          ob_status = PENDING, ob_attempts = 0, ob_max_attempts = max 1 (max_attempts draft),
          ob_provider_request_id = [], ob_result_ref = [], ob_next_retry_at = now, ob_locked_by = [],
          ob_locked_until = None, ob_last_error = [], ob_updated_at = now\<rparr>)"

text \<open>\<open>INSERT\<close> into the outbox: the effect id is the primary key, the effect key is unique.\<close>

definition insert_outbox :: "string \<Rightarrow> OutboxRow \<Rightarrow> (string \<times> OutboxRow) list \<Rightarrow> (string \<times> OutboxRow) list res" where
  "insert_outbox i row tbl =
     (if list_ex (\<lambda>(i', row'). rq_effect_key (ob_request row') = rq_effect_key (ob_request row)) tbl
      then Inl IntegrityError else insert_row i row tbl)"

fun persist_effects ::
  "'r Ports \<Rightarrow> ActionEnvelope \<Rightarrow> AggregateSnapshot \<Rightarrow> string \<Rightarrow> nat \<Rightarrow> nat \<Rightarrow> EffectDraft list
     \<Rightarrow> (string \<times> OutboxRow) list \<Rightarrow> (string list \<times> (string \<times> OutboxRow) list) res" where
  "persist_effects ports a s event base n [] tbl = Inr ([], tbl)"
| "persist_effects ports a s event base n (d # ds) tbl =
     (let i = ''eff_'' @ new_id ports (base + n) in
      rbind (outbox_row ports a s event n d) (\<lambda>row.
      rbind (insert_outbox i row tbl) (\<lambda>tbl'.
      rbind (persist_effects ports a s event base (Suc n) ds tbl') (\<lambda>(is, tbl''). Inr (i # is, tbl'')))))"

subsection \<open>The transaction\<close>

definition dedup_table_key :: "ActionEnvelope \<Rightarrow> AggregateType \<times> string \<times> string" where
  "dedup_table_key a = (aggregate_type a, aggregate_id a, dedup_key a)"

definition settle_if ::
  "'r Ports \<Rightarrow> string \<Rightarrow> string \<Rightarrow> ActionEnvelope \<Rightarrow> 'r Database \<Rightarrow> 'r Database res" where
  "settle_if ports assignment hash a db =
     (if assignment \<noteq> [] then rbind (settle_role ports db assignment hash a) (\<lambda>r. Inr (db\<lparr>db_rest := r\<rparr>))
      else Inr db)"

definition project_all ::
  "'r Ports \<Rightarrow> ActionEnvelope \<Rightarrow> AggregateSnapshot \<Rightarrow> string \<Rightarrow> 'r Database \<Rightarrow> 'r Database res" where
  "project_all ports a s event db =
     rbind (project_task ports db s) (\<lambda>r.
     rbind (project_node ports (db\<lparr>db_rest := r\<rparr>) s) (\<lambda>r'.
     if aggregate_type a \<noteq> TASK then
       rbind (project_workflow ports (db\<lparr>db_rest := r'\<rparr>) (workflow_id a) event) (\<lambda>r''. Inr (db\<lparr>db_rest := r''\<rparr>))
     else Inr (db\<lparr>db_rest := r'\<rparr>)))"

definition store_outcome ::
  "'r Ports \<Rightarrow> ActionEnvelope \<Rightarrow> AggregateSnapshot option \<Rightarrow> TransitionOutcome \<Rightarrow> 'r Database
     \<Rightarrow> (DispatchResult \<times> 'r Database) res" where
  "store_outcome ports a current out db =
     rbind (write_snapshot current (out_snapshot out) (db_snapshots db)) (\<lambda>snapshots.
     rbind (persist_domain_events (new_id ports) a (out_snapshot out) 0 (out_events out) (db_events db)) (\<lambda>(events, all_events).
     if out_effects out \<noteq> [] \<and> events = [] then
       Inl (RuntimeError ''outbox effects require a causative domain event'')
     else
       let event = (if events = [] then [] else ev_id (hd events)) in
       rbind (persist_effects ports a (out_snapshot out) event (length events) 0 (out_effects out) (db_outbox db)) (\<lambda>(ids, outbox).
       let result = \<lparr>res_snapshot = out_snapshot out, res_events = events, res_effect_ids = ids, res_duplicate = False\<rparr> in
       rbind (insert_row (dedup_table_key a)
         \<lparr>dd_action_id = action_id a, dd_hash = hash_json ports (action_request_payload a), dd_result = result,
          dd_created_at = created_at a\<rparr> (db_dedup db)) (\<lambda>dedup.
       Inr (result, db\<lparr>db_snapshots := snapshots, db_events := all_events, db_outbox := outbox, db_dedup := dedup\<rparr>)))))"

definition dispatch ::
  "'r Ports \<Rightarrow> engine_table \<Rightarrow> ActionEnvelope \<Rightarrow> string \<Rightarrow> string \<Rightarrow> 'r Database \<Rightarrow> (DispatchResult \<times> 'r Database) res" where
  "dispatch ports tbl a role_assignment_id role_submission_payload_hash db =
     (if (role_assignment_id \<noteq> []) \<noteq> (role_submission_payload_hash \<noteq> []) then
        Inl (ValueError ''role submission settlement requires assignment id and payload hash'')
      else
        case map_of (db_dedup db) (dedup_table_key a) of
          Some row \<Rightarrow>
            if dd_hash row \<noteq> hash_json ports (action_request_payload a) then
              Inl (ValueError ''idempotency key was reused with a different action request'')
            else
              rbind (settle_if ports role_assignment_id role_submission_payload_hash a db) (\<lambda>db'.
              Inr ((dd_result row)\<lparr>res_duplicate := True\<rparr>, db'))
        | None \<Rightarrow>
            rbind (consume_human_decision (hash_text ports) a (db_decisions db)) (\<lambda>decisions.
            rbind (assert_artifact_refs_durable (is_file ports) (db_artifacts db) (PDict (payload a))) (\<lambda>_.
            let current = read_snapshot db (aggregate_type a) (aggregate_id a) in
            rbind (transition tbl current a) (\<lambda>out.
            rbind (store_outcome ports a current out (db\<lparr>db_decisions := decisions\<rparr>)) (\<lambda>(result, db').
            rbind (settle_if ports role_assignment_id role_submission_payload_hash a db') (\<lambda>db''.
            rbind (project_all ports a (out_snapshot out)
              (if res_events result = [] then [] else ev_id (last (res_events result))) db'') (\<lambda>db'''.
            Inr (result, db'''))))))))"

end
