(* ===== verification/Outbox.thy ===== *)
theory Outbox
  imports Dispatch
begin

section \<open>The transactional outbox\<close>

text \<open>
  \<open>bunshin/storage/outbox_claims.py\<close> and \<open>outbox_results.py\<close>: effects are claimed by a worker for a limited
  time, retried until their attempts are used up, and completed exactly once, with a receipt under their
  effect key. Each claim opens an attempt row; settling the effect closes it. Every operation runs in one
  write transaction; an error leaves the database unchanged. The clock reading is an argument.
\<close>

subsection \<open>Claiming\<close>

definition lock_expired :: "int \<Rightarrow> OutboxRow \<Rightarrow> bool" where
  "lock_expired now row = (case ob_locked_until row of None \<Rightarrow> True | Some t \<Rightarrow> t \<le> now)"

definition claimable :: "int \<Rightarrow> OutboxRow \<Rightarrow> bool" where
  "claimable now row \<longleftrightarrow>
     (ob_status row = PENDING \<and> ob_attempts row < ob_max_attempts row)
   \<or> (ob_status row = INFLIGHT \<and> lock_expired now row)"

text \<open>\<open>ORDER BY created_at, effect_id LIMIT n\<close>.\<close>

definition select_ready :: "int \<Rightarrow> int \<Rightarrow> (string \<times> OutboxRow) list \<Rightarrow> (string \<times> OutboxRow) list" where
  "select_ready now limit tbl =
     take (nat (max 1 limit)) (sort_key (\<lambda>(i, row). rq_created_at (ob_request row))
       (sort_key fst (filter (\<lambda>(i, row). ob_next_retry_at row \<le> now \<and> claimable now row) tbl)))"

definition next_attempt_index :: "string \<Rightarrow> EffectAttempt list \<Rightarrow> nat" where
  "next_attempt_index i attempts =
     foldr max (map at_index (filter (\<lambda>a. at_effect_id a = i) attempts)) 0 + 1"

definition lose_running :: "string \<Rightarrow> int \<Rightarrow> EffectAttempt list \<Rightarrow> EffectAttempt list" where
  "lose_running i now attempts = map (\<lambda>a. if at_effect_id a = i \<and> at_status a = ''running''
     then a\<lparr>at_status := ''lost'', at_error_kind := ''lease_expired'',
            at_error_text := ''outbox claim expired before settlement'', at_finished := Some now\<rparr>
     else a) attempts"

definition running_attempt :: "string \<Rightarrow> nat \<Rightarrow> string \<Rightarrow> int \<Rightarrow> EffectAttempt" where
  "running_attempt i n worker now =
     \<lparr>at_effect_id = i, at_index = n, at_worker = worker, at_status = ''running'', at_error_kind = [],
      at_error_text = [], at_provider_request_id = [], at_result_ref = [], at_started = now, at_finished = None\<rparr>"

record ClaimedEffect =
  ce_effect_id :: string
  ce_row :: OutboxRow
  ce_attempt_index :: nat
  ce_incremented :: bool

definition claim_row :: "string \<Rightarrow> int \<Rightarrow> int \<Rightarrow> OutboxRow \<Rightarrow> OutboxRow" where
  "claim_row worker now locked_until row =
     row\<lparr>ob_status := INFLIGHT,
         ob_attempts := (if ob_status row = PENDING then ob_attempts row + 1 else ob_attempts row),
         ob_locked_by := worker, ob_locked_until := Some locked_until, ob_updated_at := now\<rparr>"

fun claim_rows ::
  "string \<Rightarrow> int \<Rightarrow> int \<Rightarrow> (string \<times> OutboxRow) list \<Rightarrow> 'r Database \<Rightarrow> ClaimedEffect list \<times> 'r Database" where
  "claim_rows worker now locked_until [] db = ([], db)"
| "claim_rows worker now locked_until ((i, row) # rows) db =
     (case map_of (db_outbox db) i of
        None \<Rightarrow> claim_rows worker now locked_until rows db
      | Some current \<Rightarrow>
          if \<not> claimable now current then claim_rows worker now locked_until rows db
          else
            let attempts = (if ob_status row = INFLIGHT then lose_running i now (db_attempts db) else db_attempts db);
                n = next_attempt_index i attempts;
                claimed = claim_row worker now locked_until current;
                db' = db\<lparr>db_outbox := AList.update i claimed (db_outbox db),
                         db_attempts := attempts @ [running_attempt i n worker now]\<rparr>;
                item = \<lparr>ce_effect_id = i, ce_row = claim_row worker now locked_until row,
                        ce_attempt_index = n, ce_incremented = (ob_status row = PENDING)\<rparr> in
            case claim_rows worker now locked_until rows db' of (items, db'') \<Rightarrow> (item # items, db''))"

definition claim_outbox ::
  "string \<Rightarrow> int \<Rightarrow> int \<Rightarrow> int \<Rightarrow> 'r Database \<Rightarrow> (ClaimedEffect list \<times> 'r Database) res" where
  "claim_outbox worker limit lease_seconds now db =
     Inr (claim_rows worker now (now + max 1 lease_seconds) (select_ready now limit (db_outbox db)) db)"

definition claimed_by :: "string \<Rightarrow> OutboxRow \<Rightarrow> bool" where
  "claimed_by worker row \<longleftrightarrow> ob_status row = INFLIGHT \<and> ob_locked_by row = worker"

definition not_claimed :: err where
  "not_claimed = LeaseConflict ''outbox effect is not claimed by this worker''"

definition unknown_effect :: "string \<Rightarrow> err" where
  "unknown_effect i = KeyError (''unknown outbox effect: '' @ i)"

definition put_outbox :: "string \<Rightarrow> OutboxRow \<Rightarrow> 'r Database \<Rightarrow> 'r Database" where
  "put_outbox i row db = db\<lparr>db_outbox := AList.update i row (db_outbox db)\<rparr>"

definition renew_outbox_claim :: "string \<Rightarrow> string \<Rightarrow> int \<Rightarrow> int \<Rightarrow> 'r Database \<Rightarrow> (unit \<times> 'r Database) res" where
  "renew_outbox_claim i worker lease_seconds now db = (case map_of (db_outbox db) i of
       None \<Rightarrow> Inl not_claimed
     | Some row \<Rightarrow>
         if claimed_by worker row then
           Inr ((), put_outbox i (row\<lparr>ob_locked_until := Some (now + max 1 lease_seconds), ob_updated_at := now\<rparr>) db)
         else Inl not_claimed)"

definition list_effect_attempts :: "string \<Rightarrow> 'r Database \<Rightarrow> EffectAttempt list" where
  "list_effect_attempts i db = sort_key at_index (filter (\<lambda>a. at_effect_id a = i) (db_attempts db))"

subsection \<open>Settling\<close>

definition is_active_attempt :: "string \<Rightarrow> string \<Rightarrow> EffectAttempt \<Rightarrow> bool" where
  "is_active_attempt i worker a \<longleftrightarrow> at_effect_id a = i \<and> at_worker a = worker \<and> at_status a = ''running''"

definition finish_effect_attempt ::
  "string \<Rightarrow> string \<Rightarrow> string \<Rightarrow> string \<Rightarrow> string \<Rightarrow> string \<Rightarrow> pydict \<Rightarrow> int \<Rightarrow> EffectAttempt list
     \<Rightarrow> EffectAttempt list res" where
  "finish_effect_attempt i worker status error_kind error_text provider ref now attempts =
     (case filter (is_active_attempt i worker) attempts of
        [] \<Rightarrow> Inl (LeaseConflict ''outbox effect has no active attempt for this worker'')
      | as \<Rightarrow> (let n = foldr max (map at_index as) 0 in
          Inr (map (\<lambda>a. if at_effect_id a = i \<and> at_index a = n \<and> at_status a = ''running''
            then a\<lparr>at_status := status, at_error_kind := error_kind, at_error_text := error_text,
                   at_provider_request_id := provider, at_result_ref := ref, at_finished := Some now\<rparr>
            else a) attempts)))"

definition finish_in ::
  "string \<Rightarrow> string \<Rightarrow> string \<Rightarrow> string \<Rightarrow> string \<Rightarrow> string \<Rightarrow> pydict \<Rightarrow> int \<Rightarrow> 'r Database \<Rightarrow> 'r Database res" where
  "finish_in i worker status error_kind error_text provider ref now db =
     rbind (finish_effect_attempt i worker status error_kind error_text provider ref now (db_attempts db))
       (\<lambda>as. Inr (db\<lparr>db_attempts := as\<rparr>))"

definition complete_outbox_effect ::
  "'r Ports \<Rightarrow> string \<Rightarrow> string \<Rightarrow> string \<Rightarrow> pydict \<Rightarrow> int \<Rightarrow> 'r Database \<Rightarrow> (bool \<times> 'r Database) res" where
  "complete_outbox_effect ports i worker provider ref now db =
     rbind (assert_artifact_refs_durable (is_file ports) (db_artifacts db) (PDict ref)) (\<lambda>_.
     case map_of (db_outbox db) i of
       None \<Rightarrow> Inl (unknown_effect i)
     | Some row \<Rightarrow>
         (let request = ob_request row in
          case map_of (db_receipts db) (rq_effect_key request) of
            Some receipt \<Rightarrow>
              if rc_hash receipt \<noteq> rq_hash request then Inl (ValueError ''effect receipt request hash mismatch'')
              else Inr (False, db)
          | None \<Rightarrow>
              if \<not> claimed_by worker row then Inl not_claimed
              else
                rbind (insert_row (rq_effect_key request)
                  \<lparr>rc_effect_id = i, rc_hash = rq_hash request, rc_provider_request_id = provider,
                   rc_result_ref = ref, rc_completed_at = now\<rparr> (db_receipts db)) (\<lambda>receipts.
                rbind (finish_in i worker ''completed'' [] [] provider ref now
                  (put_outbox i (row\<lparr>ob_status := COMPLETED, ob_provider_request_id := provider, ob_result_ref := ref,
                     ob_locked_by := [], ob_locked_until := None, ob_last_error := [], ob_updated_at := now\<rparr>)
                   (db\<lparr>db_receipts := receipts\<rparr>))) (\<lambda>db'. Inr (True, db')))))"

definition dispatch_if ::
  "'r Ports \<Rightarrow> engine_table \<Rightarrow> bool \<Rightarrow> ActionEnvelope option \<Rightarrow> 'r Database
     \<Rightarrow> (DispatchResult option \<times> 'r Database) res" where
  "dispatch_if ports tbl wanted triage_action db = (case triage_action of
       None \<Rightarrow> Inr (None, db)
     | Some a \<Rightarrow> if wanted then rbind (dispatch ports tbl a [] [] db) (\<lambda>(r, db'). Inr (Some r, db')) else Inr (None, db))"

definition retry_outbox_effect ::
  "'r Ports \<Rightarrow> engine_table \<Rightarrow> string \<Rightarrow> string \<Rightarrow> string \<Rightarrow> int \<Rightarrow> ActionEnvelope option \<Rightarrow> int \<Rightarrow> 'r Database
     \<Rightarrow> (OutboxStatus \<times> 'r Database) res" where
  "retry_outbox_effect ports tbl i worker error_text retry_after triage_action now db =
     (case map_of (db_outbox db) i of
        None \<Rightarrow> Inl (unknown_effect i)
      | Some row \<Rightarrow>
          if \<not> claimed_by worker row then Inl not_claimed
          else
            let exhausted = (ob_max_attempts row \<le> ob_attempts row);
                status = (if exhausted then FAILED else PENDING) in
            rbind (finish_in i worker (if exhausted then ''failed'' else ''retryable'')
                (if exhausted then ''effect_failed'' else ''effect_retry'') error_text [] [] now
              (put_outbox i (row\<lparr>ob_status := status, ob_next_retry_at := now + max 0 retry_after,
                 ob_locked_by := [], ob_locked_until := None, ob_last_error := error_text, ob_updated_at := now\<rparr>) db)) (\<lambda>db'.
            rbind (dispatch_if ports tbl exhausted triage_action db') (\<lambda>(r, db''). Inr (status, db''))))"

definition defer_outbox_effect ::
  "string \<Rightarrow> string \<Rightarrow> string \<Rightarrow> bool \<Rightarrow> int \<Rightarrow> 'r Database \<Rightarrow> (unit \<times> 'r Database) res" where
  "defer_outbox_effect i worker reason attempt_was_incremented now db =
     (case map_of (db_outbox db) i of
        None \<Rightarrow> Inl (unknown_effect i)
      | Some row \<Rightarrow>
          if \<not> claimed_by worker row then Inl not_claimed
          else
            rbind (finish_in i worker ''deferred'' ''manager_deferred'' reason [] [] now
              (put_outbox i (row\<lparr>ob_status := PENDING,
                 ob_attempts := max 0 (ob_attempts row - (if attempt_was_incremented then 1 else 0)),
                 ob_next_retry_at := now, ob_locked_by := [], ob_locked_until := None,
                 ob_last_error := reason, ob_updated_at := now\<rparr>) db)) (\<lambda>db'. Inr ((), db')))"

definition fail_outbox_effect ::
  "'r Ports \<Rightarrow> engine_table \<Rightarrow> string \<Rightarrow> string \<Rightarrow> string \<Rightarrow> ActionEnvelope option \<Rightarrow> int \<Rightarrow> 'r Database
     \<Rightarrow> (DispatchResult option \<times> 'r Database) res" where
  "fail_outbox_effect ports tbl i worker error_text triage_action now db =
     (case map_of (db_outbox db) i of
        None \<Rightarrow> Inl (unknown_effect i)
      | Some row \<Rightarrow>
          if \<not> claimed_by worker row then Inl not_claimed
          else
            rbind (finish_in i worker ''failed'' ''effect_failed'' error_text [] [] now
              (put_outbox i (row\<lparr>ob_status := FAILED, ob_next_retry_at := now, ob_locked_by := [],
                 ob_locked_until := None, ob_last_error := error_text, ob_updated_at := now\<rparr>) db)) (\<lambda>db'.
            dispatch_if ports tbl True triage_action db'))"

end
