(* ===== verification/Dispatch_Facts.thy ===== *)
theory Dispatch_Facts
  imports Dispatch
begin

section \<open>What a dispatch changes\<close>

text \<open>
  The cases of \<open>dispatch\<close>: a duplicate, which touches nothing but the role settlement, and a fresh action,
  which steps the engine once and stores the outcome. The lemmas give each table of the new database in terms
  of the old one; all later properties of the store rest on them.
\<close>

lemma settle_if_Inr: "settle_if ports x h a db = Inr db' \<Longrightarrow> \<exists>r. db' = db\<lparr>db_rest := r\<rparr>"
  by (cases db) (auto simp: settle_if_def split: if_splits)

lemma settle_if_none [simp]: "settle_if ports [] h a db = Inr db"
  by (simp add: settle_if_def)

lemma project_all_Inr: "project_all ports a s e db = Inr db' \<Longrightarrow> \<exists>r. db' = db\<lparr>db_rest := r\<rparr>"
  by (cases db) (auto simp: project_all_def split: if_splits)

lemma dispatch_duplicate:
  assumes "map_of (db_dedup db) (dedup_table_key a) = Some row" and "dispatch ports tbl a x h db = Inr (res, db')"
  shows "dd_hash row = hash_json ports (action_request_payload a) \<and> res = (dd_result row)\<lparr>res_duplicate := True\<rparr>
    \<and> (\<exists>r. db' = db\<lparr>db_rest := r\<rparr>)"
  using assms by (auto simp: dispatch_def split: if_splits dest: settle_if_Inr)

lemma dispatch_fresh:
  assumes "map_of (db_dedup db) (dedup_table_key a) = None" and "dispatch ports tbl a x h db = Inr (res, db')"
  shows "\<exists>decisions out mid r.
      consume_human_decision (hash_text ports) a (db_decisions db) = Inr decisions
    \<and> transition tbl (read_snapshot db (aggregate_type a) (aggregate_id a)) a = Inr out
    \<and> store_outcome ports a (read_snapshot db (aggregate_type a) (aggregate_id a)) out (db\<lparr>db_decisions := decisions\<rparr>)
        = Inr (res, mid)
    \<and> db' = mid\<lparr>db_rest := r\<rparr>"
  using assms
  by (fastforce simp: dispatch_def Let_def split: if_splits dest!: settle_if_Inr project_all_Inr)

text \<open>Rows the dispatch adds.\<close>

definition fresh_effect :: "ActionEnvelope \<Rightarrow> string \<Rightarrow> OutboxRow \<Rightarrow> bool" where
  "fresh_effect a event row \<longleftrightarrow> ob_status row = PENDING \<and> ob_attempts row = 0 \<and> 1 \<le> ob_max_attempts row
     \<and> ob_locked_by row = [] \<and> ob_locked_until row = None \<and> rq_event_id (ob_request row) = event
     \<and> rq_workflow_id (ob_request row) = workflow_id a \<and> rq_aggregate_type (ob_request row) = aggregate_type a
     \<and> rq_aggregate_id (ob_request row) = aggregate_id a"

lemma outbox_row_Inr:
  "outbox_row ports a s event n d = Inr row \<Longrightarrow>
     fresh_effect a event row \<and> rq_effect_key (ob_request row) = effect_key event n"
  by (auto simp: outbox_row_def Let_def fresh_effect_def)

definition effect_keys :: "(string \<times> OutboxRow) list \<Rightarrow> string list" where
  "effect_keys tbl = map (\<lambda>(i, row). rq_effect_key (ob_request row)) tbl"

lemma effect_keys_append [simp]: "effect_keys (xs @ ys) = effect_keys xs @ effect_keys ys"
  by (simp add: effect_keys_def)

lemma insert_outbox_Inr:
  "insert_outbox i row tbl = Inr tbl' \<longleftrightarrow>
     rq_effect_key (ob_request row) \<notin> set (effect_keys tbl) \<and> i \<notin> fst ` set tbl \<and> tbl' = tbl @ [(i, row)]"
  by (force simp: insert_outbox_def effect_keys_def list_ex_iff map_of_eq_None_iff)

text \<open>The keys of the outbox: no effect id and no effect key twice.\<close>

definition outbox_keys_ok :: "(string \<times> OutboxRow) list \<Rightarrow> bool" where
  "outbox_keys_ok tbl \<longleftrightarrow> distinct (map fst tbl) \<and> distinct (effect_keys tbl)"

lemma persist_effects_Inr:
  assumes "persist_effects ports a s event base n ds tbl = Inr (ids, tbl')" and "outbox_keys_ok tbl"
  shows "\<exists>new. tbl' = tbl @ new \<and> map fst new = ids \<and> (\<forall>(i, row) \<in> set new. fresh_effect a event row)
    \<and> outbox_keys_ok tbl' \<and> length new = length ds"
  using assms
proof (induction ds arbitrary: n tbl ids)
  case (Cons d ds)
  let ?i = "''eff_'' @ new_id ports (base + n)"
  from Cons.prems(1) obtain row mid ids' where row: "outbox_row ports a s event n d = Inr row"
    and mid: "insert_outbox ?i row tbl = Inr mid"
    and rest: "persist_effects ports a s event base (Suc n) ds mid = Inr (ids', tbl')" and ids: "ids = ?i # ids'"
    by (auto simp: Let_def)
  from mid Cons.prems(2) have mid_eq: "mid = tbl @ [(?i, row)]" and "outbox_keys_ok mid"
    by (auto simp: insert_outbox_Inr outbox_keys_ok_def) (auto simp: effect_keys_def)
  from Cons.IH [OF rest this(2)] obtain new where "tbl' = mid @ new" "map fst new = ids'"
    "\<forall>(i, row) \<in> set new. fresh_effect a event row" "outbox_keys_ok tbl'" "length new = length ds" by blast
  with mid_eq ids outbox_row_Inr [OF row] show ?case by (intro exI [of _ "(?i, row) # new"]) auto
qed simp

lemma persist_domain_events_Inr:
  "persist_domain_events ids a s n ds tbl = Inr (es, tbl') \<Longrightarrow>
     tbl' = tbl @ es \<and> length es = length ds \<and> map ev_type es = map event_type ds
   \<and> (\<forall>e \<in> set es. ev_workflow_id e = workflow_id a \<and> ev_aggregate_type e = aggregate_type a
        \<and> ev_aggregate_id e = aggregate_id a \<and> ev_version e = snap_version s \<and> ev_action_id e = action_id a)
   \<and> (sorted_wrt (\<lambda>e e'. \<not> event_clash e e') tbl \<longrightarrow> sorted_wrt (\<lambda>e e'. \<not> event_clash e e') tbl')"
proof (induction ds arbitrary: n tbl es)
  case (Cons d ds)
  let ?e = "domain_event ids a s n d"
  from Cons.prems obtain es' where no: "\<not> list_ex (event_clash ?e) tbl"
    and rest: "persist_domain_events ids a s (Suc n) ds (tbl @ [?e]) = Inr (es', tbl')" and es: "es = ?e # es'"
    by (auto simp: Let_def split: if_splits)
  have "sorted_wrt (\<lambda>e e'. \<not> event_clash e e') tbl \<longrightarrow> sorted_wrt (\<lambda>e e'. \<not> event_clash e e') (tbl @ [?e])"
    using no by (auto simp: sorted_wrt_append list_ex_iff event_clash_def)
  with Cons.IH [OF rest] es show ?case by (auto simp: domain_event_def)
qed simp

text \<open>
  The compare-and-swap: within the transaction it cannot fail, because the snapshot that was read is still
  there, and the stored row is exactly the engine's next snapshot.
\<close>

definition snapshots_keyed :: "(aggregate_key \<times> AggregateSnapshot) list \<Rightarrow> bool" where
  "snapshots_keyed tbl \<longleftrightarrow> (\<forall>key s. map_of tbl key = Some s \<longrightarrow> key = (snap_type s, snap_id s))"

lemma write_snapshot_transition:
  assumes keyed: "snapshots_keyed tbl" and step: "transition table (map_of tbl (aggregate_type a, aggregate_id a)) a = Inr out"
  shows "\<exists>tbl'. write_snapshot (map_of tbl (aggregate_type a, aggregate_id a)) (out_snapshot out) tbl = Inr tbl'
    \<and> map_of tbl' = (map_of tbl)((aggregate_type a, aggregate_id a) \<mapsto> out_snapshot out)"
proof -
  let ?key = "(aggregate_type a, aggregate_id a)"
  obtain p st where nxt: "out_snapshot out = next_snapshot (map_of tbl ?key) a st p"
    and id: "check_identity (map_of tbl ?key) a = Inr ()" using step by (auto simp: transition_Inr)
  have key: "(snap_type (out_snapshot out), snap_id (out_snapshot out)) = ?key" by (simp add: nxt next_snapshot_def)
  show ?thesis
  proof (cases "map_of tbl ?key")
    case None
    then show ?thesis
      by (auto simp: write_snapshot_def Let_def key insert_row_def map_of_append_new simp del: map_of_append)
  next
    case (Some c)
    with id have "c\<lparr>snap_state := snap_state (out_snapshot out), snap_version := snap_version (out_snapshot out),
        snap_payload := snap_payload (out_snapshot out), snap_updated_at := snap_updated_at (out_snapshot out)\<rparr>
      = out_snapshot out"
      by (cases c) (auto simp: nxt next_snapshot_def check_identity_Inr)
    with Some show ?thesis by (simp add: write_snapshot_def Let_def key update_conv')
  qed
qed

text \<open>The outcome of a fresh action, table by table.\<close>

lemma store_outcome_tables:
  assumes step: "transition tbl (read_snapshot db (aggregate_type a) (aggregate_id a)) a = Inr out"
    and stored: "store_outcome ports a (read_snapshot db (aggregate_type a) (aggregate_id a)) out
      (db\<lparr>db_decisions := decisions\<rparr>) = Inr (res, mid)"
    and keyed: "snapshots_keyed (db_snapshots db)" and keys: "outbox_keys_ok (db_outbox db)"
  shows "map_of (db_snapshots mid) = (map_of (db_snapshots db))((aggregate_type a, aggregate_id a) \<mapsto> out_snapshot out)"
    and "res_snapshot res = out_snapshot out \<and> \<not> res_duplicate res"
    and "db_events mid = db_events db @ res_events res"
    and "\<exists>event new. db_outbox mid = db_outbox db @ new \<and> map fst new = res_effect_ids res
      \<and> (\<forall>(i, row) \<in> set new. fresh_effect a event row) \<and> outbox_keys_ok (db_outbox mid)
      \<and> (new \<noteq> [] \<longrightarrow> (\<exists>e \<in> set (res_events res). ev_id e = event))"
    and "map_of (db_dedup db) (dedup_table_key a) = None"
    and "db_dedup mid = db_dedup db @ [(dedup_table_key a, \<lparr>dd_action_id = action_id a,
      dd_hash = hash_json ports (action_request_payload a), dd_result = res, dd_created_at = created_at a\<rparr>)]"
    and "db_receipts mid = db_receipts db \<and> db_attempts mid = db_attempts db \<and> db_artifacts mid = db_artifacts db
      \<and> db_decisions mid = decisions"
    and "\<forall>e \<in> set (res_events res). ev_workflow_id e = workflow_id a \<and> ev_aggregate_type e = aggregate_type a
        \<and> ev_aggregate_id e = aggregate_id a \<and> ev_version e = snap_version (out_snapshot out) \<and> ev_action_id e = action_id a"
    and "map ev_type (res_events res) = map event_type (out_events out)"
    and "length (res_effect_ids res) = length (out_effects out)"
proof -
  let ?cur = "read_snapshot db (aggregate_type a) (aggregate_id a)"
  obtain snapshots where snaps: "write_snapshot ?cur (out_snapshot out) (db_snapshots db) = Inr snapshots"
    and snaps_map: "map_of snapshots = (map_of (db_snapshots db))((aggregate_type a, aggregate_id a) \<mapsto> out_snapshot out)"
    using write_snapshot_transition [OF keyed, of tbl a out] step unfolding read_snapshot_def by blast
  from stored snaps obtain events all_events ids outbox where
    ev: "persist_domain_events (new_id ports) a (out_snapshot out) 0 (out_events out) (db_events db) = Inr (events, all_events)"
    and cause: "\<not> (out_effects out \<noteq> [] \<and> events = [])"
    and eff: "persist_effects ports a (out_snapshot out) (if events = [] then [] else ev_id (hd events))
      (length events) 0 (out_effects out) (db_outbox db) = Inr (ids, outbox)"
    and new_key: "map_of (db_dedup db) (dedup_table_key a) = None"
    and res: "res = \<lparr>res_snapshot = out_snapshot out, res_events = events, res_effect_ids = ids, res_duplicate = False\<rparr>"
    and mid: "mid = db\<lparr>db_decisions := decisions, db_snapshots := snapshots, db_events := all_events, db_outbox := outbox,
      db_dedup := db_dedup db @ [(dedup_table_key a, \<lparr>dd_action_id = action_id a,
        dd_hash = hash_json ports (action_request_payload a), dd_result = res, dd_created_at = created_at a\<rparr>)]\<rparr>"
    by (auto simp: store_outcome_def Let_def split: if_splits)
  note events = persist_domain_events_Inr [OF ev]
  obtain new where new: "outbox = db_outbox db @ new" "map fst new = ids"
    "\<forall>(i, row) \<in> set new. fresh_effect a (if events = [] then [] else ev_id (hd events)) row"
    "outbox_keys_ok outbox" "length new = length (out_effects out)"
    using persist_effects_Inr [OF eff keys] by blast
  show "\<exists>event new. db_outbox mid = db_outbox db @ new \<and> map fst new = res_effect_ids res
      \<and> (\<forall>(i, row) \<in> set new. fresh_effect a event row) \<and> outbox_keys_ok (db_outbox mid)
      \<and> (new \<noteq> [] \<longrightarrow> (\<exists>e \<in> set (res_events res). ev_id e = event))"
    using new cause mid res by (intro exI [of _ "if events = [] then [] else ev_id (hd events)"] exI [of _ new]) auto
  show "length (res_effect_ids res) = length (out_effects out)" using new(2,5) res by (metis DispatchResult.select_convs(3) length_map)
  show "map_of (db_snapshots mid) = (map_of (db_snapshots db))((aggregate_type a, aggregate_id a) \<mapsto> out_snapshot out)"
    using snaps_map by (simp add: mid)
  show "res_snapshot res = out_snapshot out \<and> \<not> res_duplicate res" by (simp add: res)
  show "db_events mid = db_events db @ res_events res" using events by (simp add: mid res)
  show "map_of (db_dedup db) (dedup_table_key a) = None" by (rule new_key)
  show "db_dedup mid = db_dedup db @ [(dedup_table_key a, \<lparr>dd_action_id = action_id a,
      dd_hash = hash_json ports (action_request_payload a), dd_result = res, dd_created_at = created_at a\<rparr>)]"
    by (simp add: mid)
  show "db_receipts mid = db_receipts db \<and> db_attempts mid = db_attempts db \<and> db_artifacts mid = db_artifacts db
      \<and> db_decisions mid = decisions" by (simp add: mid)
  show "\<forall>e \<in> set (res_events res). ev_workflow_id e = workflow_id a \<and> ev_aggregate_type e = aggregate_type a
        \<and> ev_aggregate_id e = aggregate_id a \<and> ev_version e = snap_version (out_snapshot out) \<and> ev_action_id e = action_id a"
    using events by (simp add: res)
  show "map ev_type (res_events res) = map event_type (out_events out)" using events by (simp add: res)
qed

end
