(* ===== verification/Store_Invariant.thy ===== *)
theory Store_Invariant
  imports Outbox Dispatch_Facts
begin

section \<open>The invariant of the store\<close>

text \<open>
  The operations of the store as one datatype, so that a history is a list of operations, and what every
  history keeps: keys are unique, every effect stems from a recorded event of its aggregate, attempts stay
  within their budget, an effect is in flight exactly while one attempt of it is running, and it is completed
  exactly when its receipt is stored.
\<close>

datatype 'r db_op =
    Dispatch "'r Ports" ActionEnvelope string string
  | ClaimEffects string int int int
  | RenewClaim string string int int
  | CompleteEffect "'r Ports" string string string pydict int
  | RetryEffect "'r Ports" string string string int "ActionEnvelope option" int
  | DeferEffect string string string bool int
  | FailEffect "'r Ports" string string string "ActionEnvelope option" int

fun db_step :: "engine_table \<Rightarrow> 'r Database \<Rightarrow> 'r db_op \<Rightarrow> 'r Database" where
  "db_step tbl db (Dispatch ports a x h) = after db (dispatch ports tbl a x h db)"
| "db_step tbl db (ClaimEffects worker limit lease now) = after db (claim_outbox worker limit lease now db)"
| "db_step tbl db (RenewClaim i worker lease now) = after db (renew_outbox_claim i worker lease now db)"
| "db_step tbl db (CompleteEffect ports i worker provider ref now) =
     after db (complete_outbox_effect ports i worker provider ref now db)"
| "db_step tbl db (RetryEffect ports i worker error_text delay triage now) =
     after db (retry_outbox_effect ports tbl i worker error_text delay triage now db)"
| "db_step tbl db (DeferEffect i worker reason inc now) = after db (defer_outbox_effect i worker reason inc now db)"
| "db_step tbl db (FailEffect ports i worker error_text triage now) =
     after db (fail_outbox_effect ports tbl i worker error_text triage now db)"

subsection \<open>The invariant\<close>

definition effect_of :: "'r Database \<Rightarrow> string \<Rightarrow> OutboxRow option" where
  "effect_of db i = map_of (db_outbox db) i"

definition row_key :: "OutboxRow \<Rightarrow> string" where
  "row_key row = rq_effect_key (ob_request row)"

definition running :: "string \<Rightarrow> EffectAttempt list \<Rightarrow> EffectAttempt list" where
  "running i attempts = filter (\<lambda>a. at_effect_id a = i \<and> at_status a = ''running'') attempts"

definition caused_by :: "DomainEvent \<Rightarrow> EffectRequest \<Rightarrow> bool" where
  "caused_by e rq \<longleftrightarrow> ev_id e = rq_event_id rq \<and> ev_workflow_id e = rq_workflow_id rq
     \<and> ev_aggregate_type e = rq_aggregate_type rq \<and> ev_aggregate_id e = rq_aggregate_id rq"

definition row_ok :: "'r Database \<Rightarrow> string \<Rightarrow> OutboxRow \<Rightarrow> bool" where
  "row_ok db i row \<longleftrightarrow>
     0 \<le> ob_attempts row \<and> ob_attempts row \<le> ob_max_attempts row \<and> 1 \<le> ob_max_attempts row
   \<and> map at_worker (running i (db_attempts db)) = (if ob_status row = INFLIGHT then [ob_locked_by row] else [])
   \<and> (\<exists>e \<in> set (db_events db). caused_by e (ob_request row))
   \<and> (case map_of (db_receipts db) (row_key row) of
        None \<Rightarrow> ob_status row \<noteq> COMPLETED
      | Some rc \<Rightarrow> ob_status row = COMPLETED \<and> rc_effect_id rc = i \<and> rc_hash rc = rq_hash (ob_request row))"

definition outbox_ok :: "'r Database \<Rightarrow> bool" where
  "outbox_ok db \<longleftrightarrow>
     outbox_keys_ok (db_outbox db)
   \<and> (\<forall>i row. effect_of db i = Some row \<longrightarrow> row_ok db i row)
   \<and> (\<forall>i. effect_of db i = None \<longrightarrow> running i (db_attempts db) = [])
   \<and> (\<forall>k. map_of (db_receipts db) k \<noteq> None \<longrightarrow> k \<in> set (effect_keys (db_outbox db)))"

definition snapshots_ok :: "'r Database \<Rightarrow> bool" where
  "snapshots_ok db \<longleftrightarrow> snapshots_keyed (db_snapshots db)
   \<and> (\<forall>key s. map_of (db_snapshots db) key = Some s \<longrightarrow> 1 \<le> snap_version s)
   \<and> (\<forall>e \<in> set (db_events db). \<exists>s. map_of (db_snapshots db) (ev_aggregate_type e, ev_aggregate_id e) = Some s
        \<and> snap_workflow_id s = ev_workflow_id e \<and> 1 \<le> ev_version e \<and> ev_version e \<le> snap_version s)"

definition db_ok :: "'r Database \<Rightarrow> bool" where
  "db_ok db \<longleftrightarrow> outbox_ok db \<and> snapshots_ok db"

subsection \<open>Changing one row\<close>

lemma outbox_keys_update:
  assumes "outbox_keys_ok tbl" and "map_of tbl i = Some row" and "row_key row' = row_key row"
  shows "outbox_keys_ok (AList.update i row' tbl) \<and> effect_keys (AList.update i row' tbl) = effect_keys tbl"
proof -
  have "effect_keys (AList.update i row' tbl) = effect_keys tbl"
    using assms(2) by (induction tbl) (use assms(3) in \<open>auto simp: effect_keys_def row_key_def\<close>)
  moreover have "map fst (AList.update i row' tbl) = map fst tbl"
    using assms(2) by (induction tbl) auto
  ultimately show ?thesis using assms(1) by (simp add: outbox_keys_ok_def)
qed

lemma outbox_key_inject:
  assumes "outbox_keys_ok tbl" and "map_of tbl i = Some row" and "map_of tbl j = Some row'" and "row_key row = row_key row'"
  shows "i = j"
proof -
  from assms(1) have "inj_on (\<lambda>(i, row). rq_effect_key (ob_request row)) (set tbl)"
    by (simp add: outbox_keys_ok_def effect_keys_def distinct_map)
  from inj_onD [OF this, of "(i, row)" "(j, row')"] assms(2-4) show ?thesis
    by (auto simp: row_key_def dest: map_of_SomeD)
qed

lemma effect_key_mem: "effect_of db i = Some row \<Longrightarrow> row_key row \<in> set (effect_keys (db_outbox db))"
  by (auto simp: effect_of_def effect_keys_def row_key_def dest!: map_of_SomeD intro!: image_eqI [of _ _ "(i, row)"])

lemma outbox_ok_change:
  assumes ok: "outbox_ok db" and row: "effect_of db i = Some row" and req: "ob_request row' = ob_request row"
    and outbox: "db_outbox db' = AList.update i row' (db_outbox db)"
    and attempts: "\<And>j. j \<noteq> i \<Longrightarrow> running j (db_attempts db') = running j (db_attempts db)"
    and events: "db_events db' = db_events db"
    and receipts: "\<And>k. k \<noteq> row_key row \<Longrightarrow> map_of (db_receipts db') k = map_of (db_receipts db) k"
    and new: "row_ok db' i row'"
  shows "outbox_ok db'"
proof -
  have keys: "outbox_keys_ok (db_outbox db)" using ok by (simp add: outbox_ok_def)
  have same_key: "row_key row' = row_key row" by (simp add: row_key_def req)
  have effect: "effect_of db' j = (if j = i then Some row' else effect_of db j)" for j
    by (simp add: effect_of_def outbox update_conv')
  have "row_ok db' j r" if r: "effect_of db' j = Some r" for j r
  proof (cases "j = i")
    case False
    with r effect have r': "effect_of db j = Some r" by simp
    then have "row_key r \<noteq> row_key row"
      using outbox_key_inject [OF keys, of j r i row] row False by (auto simp: effect_of_def)
    with r' ok attempts [OF False] receipts show ?thesis by (simp add: outbox_ok_def row_ok_def events)
  qed (use r effect new in simp)
  moreover have "running j (db_attempts db') = []" if "effect_of db' j = None" for j
    using that effect ok attempts [of j] by (cases "j = i") (simp_all add: outbox_ok_def)
  moreover have "outbox_keys_ok (db_outbox db')" "effect_keys (db_outbox db') = effect_keys (db_outbox db)"
    using outbox_keys_update [OF keys _ same_key, of i] row by (simp_all add: outbox effect_of_def)
  moreover have "k \<in> set (effect_keys (db_outbox db'))" if "map_of (db_receipts db') k \<noteq> None" for k
  proof (cases "k = row_key row")
    case True
    then show ?thesis using effect_key_mem [OF row] calculation(4) by simp
  qed (use that receipts ok calculation(4) in \<open>simp add: outbox_ok_def\<close>)
  ultimately show ?thesis by (simp add: outbox_ok_def)
qed

subsection \<open>Closing the running attempt\<close>

lemma running_map:
  assumes "\<And>a. a \<in> set as \<Longrightarrow> at_effect_id (f a) = at_effect_id a"
    and "\<And>a. a \<in> set as \<Longrightarrow> at_effect_id a = j \<Longrightarrow> at_status (f a) = ''running'' \<longleftrightarrow> at_status a = ''running''"
    and "\<And>a. a \<in> set as \<Longrightarrow> at_effect_id a = j \<Longrightarrow> f a = a"
  shows "running j (map f as) = running j as"
  using assms by (induction as) (auto simp: running_def)

lemma running_none:
  "(\<And>a. a \<in> set as \<Longrightarrow> \<not> (at_effect_id (f a) = j \<and> at_status (f a) = ''running'')) \<Longrightarrow> running j (map f as) = []"
  by (induction as) (auto simp: running_def)

lemma finish_in_Inr:
  assumes ok: "row_ok db i row" and held: "claimed_by worker row" and "status \<noteq> ''running''"
  shows "\<exists>as. finish_effect_attempt i worker status kind text provider ref now (db_attempts db) = Inr as
    \<and> running i as = [] \<and> (\<forall>j. j \<noteq> i \<longrightarrow> running j as = running j (db_attempts db))"
proof -
  from ok held have "map at_worker (running i (db_attempts db)) = [worker]"
    by (simp add: row_ok_def claimed_by_def)
  then obtain a where a: "running i (db_attempts db) = [a]" "at_worker a = worker" by (cases "running i (db_attempts db)") auto
  have "filter (is_active_attempt i worker) (db_attempts db) = filter (\<lambda>a. at_worker a = worker) (running i (db_attempts db))"
    unfolding running_def filter_filter by (intro filter_cong) (auto simp: is_active_attempt_def)
  then have active: "filter (is_active_attempt i worker) (db_attempts db) = [a]" using a by simp
  let ?f = "\<lambda>b. if at_effect_id b = i \<and> at_index b = at_index a \<and> at_status b = ''running''
    then b\<lparr>at_status := status, at_error_kind := kind, at_error_text := text,
           at_provider_request_id := provider, at_result_ref := ref, at_finished := Some now\<rparr> else b"
  have eq: "finish_effect_attempt i worker status kind text provider ref now (db_attempts db) = Inr (map ?f (db_attempts db))"
    by (simp add: finish_effect_attempt_def active Let_def)
  have same: "at_index b = at_index a" if "b \<in> set (db_attempts db)" "at_effect_id b = i" "at_status b = ''running''" for b
  proof -
    from that have "b \<in> set (running i (db_attempts db))" by (simp add: running_def)
    with a(1) show ?thesis by simp
  qed
  have "running i (map ?f (db_attempts db)) = []"
  proof (rule running_none)
    fix b assume "b \<in> set (db_attempts db)"
    from same [OF this] assms(3) show "\<not> (at_effect_id (?f b) = i \<and> at_status (?f b) = ''running'')"
      by (cases "at_effect_id b = i \<and> at_status b = ''running''") auto
  qed
  moreover have "running j (map ?f (db_attempts db)) = running j (db_attempts db)" if "j \<noteq> i" for j
    by (rule running_map) (use that in auto)
  ultimately show ?thesis using eq by blast
qed

end
