(* ===== verification/Store_Steps.thy ===== *)
theory Store_Steps
  imports Store_Invariant
begin

section \<open>Every operation keeps the invariant\<close>

subsection \<open>Settling an effect\<close>

lemma outbox_ok_row: "outbox_ok db \<Longrightarrow> effect_of db i = Some row \<Longrightarrow> row_ok db i row"
  by (simp add: outbox_ok_def)

lemma held_row:
  assumes "outbox_ok db" and "effect_of db i = Some row" and "claimed_by worker row"
  shows "map_of (db_receipts db) (row_key row) = None"
  using outbox_ok_row [OF assms(1,2)] assms(3) by (auto simp: row_ok_def claimed_by_def split: option.splits)

text \<open>The database after the row is replaced and its running attempt closed.\<close>

lemma finish_put:
  assumes ok: "outbox_ok db" and row: "effect_of db i = Some row" and held: "claimed_by worker row"
    and "status \<noteq> ''running''"
  shows "\<exists>as. finish_in i worker status kind text provider ref now (put_outbox i row' (db\<lparr>db_receipts := rs\<rparr>))
      = Inr (db\<lparr>db_receipts := rs, db_outbox := AList.update i row' (db_outbox db), db_attempts := as\<rparr>)
    \<and> running i as = [] \<and> (\<forall>j. j \<noteq> i \<longrightarrow> running j as = running j (db_attempts db))"
proof -
  obtain as where "finish_effect_attempt i worker status kind text provider ref now (db_attempts db) = Inr as"
    "running i as = []" "\<forall>j. j \<noteq> i \<longrightarrow> running j as = running j (db_attempts db)"
    using finish_in_Inr [OF outbox_ok_row [OF ok row] held assms(4)] by blast
  then show ?thesis by (intro exI [of _ as]) (simp add: finish_in_def put_outbox_def)
qed

lemma finish_put_plain:
  assumes "outbox_ok db" and "effect_of db i = Some row" and "claimed_by worker row" and "status \<noteq> ''running''"
  shows "\<exists>as. finish_in i worker status kind text provider ref now (put_outbox i row' db)
      = Inr (db\<lparr>db_outbox := AList.update i row' (db_outbox db), db_attempts := as\<rparr>)
    \<and> running i as = [] \<and> (\<forall>j. j \<noteq> i \<longrightarrow> running j as = running j (db_attempts db))"
  using finish_put [OF assms, where rs = "db_receipts db"] by simp

lemma released_ok:
  assumes ok: "outbox_ok db" and row: "effect_of db i = Some row" and held: "claimed_by worker row"
    and row': "ob_request row' = ob_request row" "ob_max_attempts row' = ob_max_attempts row"
      "ob_status row' \<in> {PENDING, FAILED}" "0 \<le> ob_attempts row'" "ob_attempts row' \<le> ob_max_attempts row"
    and as: "running i as = []" "\<forall>j. j \<noteq> i \<longrightarrow> running j as = running j (db_attempts db)"
  shows "outbox_ok (db\<lparr>db_outbox := AList.update i row' (db_outbox db), db_attempts := as\<rparr>)"
proof (rule outbox_ok_change [OF ok row row'(1)])
  show "row_ok (db\<lparr>db_outbox := AList.update i row' (db_outbox db), db_attempts := as\<rparr>) i row'"
    using outbox_ok_row [OF ok row] held_row [OF ok row held] row' as(1)
    by (auto simp: row_ok_def row_key_def)
qed (use as(2) in simp_all)

lemma completed_ok:
  assumes ok: "outbox_ok db" and row: "effect_of db i = Some row" and held: "claimed_by worker row"
    and row': "ob_request row' = ob_request row" "ob_max_attempts row' = ob_max_attempts row"
      "ob_status row' = COMPLETED" "ob_attempts row' = ob_attempts row"
    and rc: "rc_effect_id rc = i" "rc_hash rc = rq_hash (ob_request row)"
    and as: "running i as = []" "\<forall>j. j \<noteq> i \<longrightarrow> running j as = running j (db_attempts db)"
  shows "outbox_ok (db\<lparr>db_receipts := db_receipts db @ [(row_key row, rc)],
    db_outbox := AList.update i row' (db_outbox db), db_attempts := as\<rparr>)"
proof (rule outbox_ok_change [OF ok row row'(1)])
  let ?db = "db\<lparr>db_receipts := db_receipts db @ [(row_key row, rc)],
    db_outbox := AList.update i row' (db_outbox db), db_attempts := as\<rparr>"
  have receipt: "map_of (db_receipts ?db) = (map_of (db_receipts db))(row_key row \<mapsto> rc)"
    using map_of_append_new [OF held_row [OF ok row held]] by simp
  show "row_ok ?db i row'"
    using outbox_ok_row [OF ok row] row' as(1) rc receipt by (simp add: row_ok_def row_key_def)
  show "map_of (db_receipts ?db) k = map_of (db_receipts db) k" if "k \<noteq> row_key row" for k
    using receipt that by simp
qed (use as(2) in simp_all)

subsection \<open>Claiming and renewing\<close>

lemma renew_ok:
  assumes ok: "outbox_ok db" and "renew_outbox_claim i worker lease now db = Inr (u, db')"
  shows "outbox_ok db'"
proof -
  from assms(2) obtain row where row: "effect_of db i = Some row" and held: "claimed_by worker row"
    and db': "db' = put_outbox i (row\<lparr>ob_locked_until := Some (now + max 1 lease), ob_updated_at := now\<rparr>) db"
    by (auto simp: renew_outbox_claim_def effect_of_def split: option.splits if_splits)
  show ?thesis
    by (rule outbox_ok_change [OF ok row,
          where row' = "row\<lparr>ob_locked_until := Some (now + max 1 lease), ob_updated_at := now\<rparr>"])
       (use outbox_ok_row [OF ok row] in \<open>simp_all add: db' put_outbox_def row_ok_def row_key_def split: option.splits\<close>)
qed

definition claimed_db :: "string \<Rightarrow> int \<Rightarrow> int \<Rightarrow> string \<Rightarrow> OutboxRow \<Rightarrow> 'r Database \<Rightarrow> 'r Database" where
  "claimed_db worker now until i row db =
     (let attempts = (if ob_status row = INFLIGHT then lose_running i now (db_attempts db) else db_attempts db) in
      db\<lparr>db_outbox := AList.update i (claim_row worker now until row) (db_outbox db),
         db_attempts := attempts @ [running_attempt i (next_attempt_index i attempts) worker now]\<rparr>)"

lemma running_lose: "running j (lose_running i now as) = (if j = i then [] else running j as)"
proof (cases "j = i")
  case True
  have "running i (lose_running i now as) = []"
    unfolding lose_running_def by (rule running_none) (simp split: if_split)
  with True show ?thesis by simp
next
  case False
  then have "running j (lose_running i now as) = running j as"
    unfolding lose_running_def by (intro running_map) auto
  with False show ?thesis by simp
qed

lemma running_append: "running j (as @ bs) = running j as @ running j bs"
  by (simp add: running_def)

lemma claimed_db_ok:
  assumes ok: "outbox_ok db" and row: "effect_of db i = Some row" and "claimable now row"
  shows "outbox_ok (claimed_db worker now until i row db)"
proof (rule outbox_ok_change [OF ok row, where row' = "claim_row worker now until row"])
  have old: "row_ok db i row" by (rule outbox_ok_row [OF ok row])
  show "row_ok (claimed_db worker now until i row db) i (claim_row worker now until row)"
    using old assms(3)
    by (auto simp: row_ok_def claimed_db_def claim_row_def Let_def running_append running_lose claimable_def row_key_def
        split: option.splits) (simp_all add: running_def running_attempt_def)
  show "running j (db_attempts (claimed_db worker now until i row db)) = running j (db_attempts db)" if "j \<noteq> i" for j
    using that by (simp add: claimed_db_def Let_def running_append running_lose) (simp add: running_def running_attempt_def)
qed (simp_all add: claimed_db_def claim_row_def Let_def)

text \<open>The loop of a claim: the selected rows are current, and each is claimed unless it no longer can be.\<close>

definition current_rows :: "(string \<times> OutboxRow) list \<Rightarrow> 'r Database \<Rightarrow> bool" where
  "current_rows rows db \<longleftrightarrow> distinct (map fst rows) \<and> (\<forall>(i, row) \<in> set rows. effect_of db i = Some row)"

lemma current_rows_claimed:
  "current_rows ((i, row) # rows) db \<Longrightarrow> current_rows rows (claimed_db worker now until i row db)"
  by (force simp: current_rows_def claimed_db_def effect_of_def update_conv' Let_def)

lemma claim_rows_Cons:
  assumes "current_rows ((i, row) # rows) db" and "claimable now row"
  shows "snd (claim_rows worker now until ((i, row) # rows) db) =
    snd (claim_rows worker now until rows (claimed_db worker now until i row db))"
  using assms by (auto simp: current_rows_def effect_of_def claimed_db_def Let_def split: prod.splits)

lemma claim_rows_ok:
  "outbox_ok db \<Longrightarrow> current_rows rows db \<Longrightarrow> \<forall>(i, row) \<in> set rows. claimable now row \<Longrightarrow>
     outbox_ok (snd (claim_rows worker now until rows db))"
proof (induction rows arbitrary: db)
  case (Cons x rows)
  obtain i row where x: "x = (i, row)" by fastforce
  have row: "effect_of db i = Some row" "claimable now row" using Cons.prems(2,3) by (simp_all add: x current_rows_def)
  have cur: "current_rows ((i, row) # rows) db" using Cons.prems(2) by (simp only: x)
  have "outbox_ok (snd (claim_rows worker now until rows (claimed_db worker now until i row db)))"
    by (rule Cons.IH [OF claimed_db_ok [OF Cons.prems(1) row] current_rows_claimed [OF cur]])
       (use Cons.prems(3) in simp)
  then show ?case by (simp only: x claim_rows_Cons [OF cur row(2)])
qed simp

lemma select_ready_rows:
  assumes "outbox_keys_ok (db_outbox db)"
  shows "current_rows (select_ready now limit (db_outbox db)) db
    \<and> (\<forall>(i, row) \<in> set (select_ready now limit (db_outbox db)). claimable now row \<and> ob_next_retry_at row \<le> now)"
proof -
  let ?sel = "filter (\<lambda>(i, row). ob_next_retry_at row \<le> now \<and> claimable now row) (db_outbox db)"
  let ?sorted = "sort_key (\<lambda>(i, row). rq_created_at (ob_request row)) (sort_key fst ?sel)"
  have d: "distinct (map fst (db_outbox db))" using assms by (simp add: outbox_keys_ok_def)
  have "distinct (map fst ?sel)" using d by (rule distinct_map_filter)
  then have "distinct (map fst ?sorted)" by (simp add: distinct_map)
  then have "distinct (map fst (take n ?sorted))" for n
    by (simp only: take_map [symmetric] distinct_take)
  then have "distinct (map fst (select_ready now limit (db_outbox db)))" by (simp only: select_ready_def)
  moreover have member: "(i, row) \<in> set (db_outbox db) \<and> ob_next_retry_at row \<le> now \<and> claimable now row"
    if "(i, row) \<in> set (select_ready now limit (db_outbox db))" for i row
    using in_set_takeD [OF that [unfolded select_ready_def]] by simp
  moreover have "effect_of db i = Some row" if "(i, row) \<in> set (db_outbox db)" for i row
    using that d by (simp add: effect_of_def)
  ultimately show ?thesis unfolding current_rows_def by blast
qed

lemma claim_ok:
  assumes ok: "outbox_ok db" and "claim_outbox worker limit lease now db = Inr (items, db')"
  shows "outbox_ok db'"
proof -
  have "outbox_keys_ok (db_outbox db)" using ok by (simp add: outbox_ok_def)
  note rows = select_ready_rows [OF this, of now limit]
  have "db' = snd (claim_rows worker now (now + max 1 lease) (select_ready now limit (db_outbox db)) db)"
    using assms(2) by (simp add: claim_outbox_def)
  then show ?thesis using claim_rows_ok [OF ok, of _ now worker "now + max 1 lease"] rows by fastforce
qed

end
