(* ===== verification/Store_History.thy ===== *)
theory Store_History
  imports Store_Steps
begin

section \<open>Histories of the store\<close>

subsection \<open>Settling, case by case\<close>

text \<open>What releasing a held effect does: the row goes to a new status without a holder, its running attempt closes.\<close>

definition releases :: "'r Database \<Rightarrow> string \<Rightarrow> string \<Rightarrow> (OutboxRow \<Rightarrow> OutboxRow) \<Rightarrow> 'r Database \<Rightarrow> bool" where
  "releases db i worker f mid \<longleftrightarrow> (\<exists>row as. effect_of db i = Some row \<and> claimed_by worker row
     \<and> mid = db\<lparr>db_outbox := AList.update i (f row) (db_outbox db), db_attempts := as\<rparr>
     \<and> running i as = [] \<and> (\<forall>j. j \<noteq> i \<longrightarrow> running j as = running j (db_attempts db)))"

definition retried_row :: "string \<Rightarrow> int \<Rightarrow> int \<Rightarrow> OutboxRow \<Rightarrow> OutboxRow" where
  "retried_row error_text delay now row =
     row\<lparr>ob_status := (if ob_max_attempts row \<le> ob_attempts row then FAILED else PENDING),
         ob_next_retry_at := now + max 0 delay, ob_locked_by := [], ob_locked_until := None,
         ob_last_error := error_text, ob_updated_at := now\<rparr>"

definition deferred_row :: "string \<Rightarrow> bool \<Rightarrow> int \<Rightarrow> OutboxRow \<Rightarrow> OutboxRow" where
  "deferred_row reason inc now row =
     row\<lparr>ob_status := PENDING, ob_attempts := max 0 (ob_attempts row - (if inc then 1 else 0)),
         ob_next_retry_at := now, ob_locked_by := [], ob_locked_until := None, ob_last_error := reason, ob_updated_at := now\<rparr>"

definition failed_row :: "string \<Rightarrow> int \<Rightarrow> OutboxRow \<Rightarrow> OutboxRow" where
  "failed_row error_text now row =
     row\<lparr>ob_status := FAILED, ob_next_retry_at := now, ob_locked_by := [], ob_locked_until := None,
         ob_last_error := error_text, ob_updated_at := now\<rparr>"

lemmas released_row_defs = retried_row_def deferred_row_def failed_row_def

lemma releases_ok:
  assumes "outbox_ok db" and "releases db i worker f mid"
    and "\<And>row. ob_request (f row) = ob_request row \<and> ob_max_attempts (f row) = ob_max_attempts row
      \<and> ob_status (f row) \<in> {PENDING, FAILED}
      \<and> (0 \<le> ob_attempts row \<longrightarrow> 0 \<le> ob_attempts (f row) \<and> ob_attempts (f row) \<le> ob_attempts row)"
  shows "outbox_ok mid"
proof -
  from assms(2) obtain row as where row: "effect_of db i = Some row" "claimed_by worker row"
    and mid: "mid = db\<lparr>db_outbox := AList.update i (f row) (db_outbox db), db_attempts := as\<rparr>"
    and closed: "running i as = []" "\<forall>j. j \<noteq> i \<longrightarrow> running j as = running j (db_attempts db)"
    by (auto simp: releases_def)
  have "0 \<le> ob_attempts row \<and> ob_attempts row \<le> ob_max_attempts row"
    using outbox_ok_row [OF assms(1) row(1)] by (simp add: row_ok_def)
  with assms(3) [of row] show ?thesis
    unfolding mid by (intro released_ok [OF assms(1) row _ _ _ _ _ closed]) auto
qed

lemma finish_releases:
  assumes "outbox_ok db" and "effect_of db i = Some row" and "claimed_by worker row" and "status \<noteq> ''running''"
  shows "\<exists>mid. finish_in i worker status kind msg provider ref now (put_outbox i (f row) db) = Inr mid
    \<and> releases db i worker f mid"
  using finish_put_plain [OF assms, of kind msg provider ref now "f row"] assms(2,3) unfolding releases_def by blast

lemma retry_cases:
  assumes "outbox_ok db" and "effect_of db i = Some row" and "claimed_by worker row"
  shows "\<exists>mid. releases db i worker (retried_row error_text delay now) mid
    \<and> retry_outbox_effect ports tbl i worker error_text delay triage now db =
        rbind (dispatch_if ports tbl (ob_max_attempts row \<le> ob_attempts row) triage mid)
          (\<lambda>(r, db'). Inr (ob_status (retried_row error_text delay now row), db'))"
proof -
  let ?x = "ob_max_attempts row \<le> ob_attempts row"
  have "(if ?x then ''failed'' else ''retryable'') \<noteq> ''running''" by simp
  from finish_releases [OF assms this, where f = "retried_row error_text delay now"] obtain mid where
    "finish_in i worker (if ?x then ''failed'' else ''retryable'') (if ?x then ''effect_failed'' else ''effect_retry'')
       error_text [] [] now (put_outbox i (retried_row error_text delay now row) db) = Inr mid"
    "releases db i worker (retried_row error_text delay now) mid" by blast
  then show ?thesis
    using assms(2,3) by (intro exI [of _ mid]) (simp add: retry_outbox_effect_def effect_of_def retried_row_def Let_def)
qed

lemma defer_cases:
  assumes "outbox_ok db" and "effect_of db i = Some row" and "claimed_by worker row"
  shows "\<exists>mid. releases db i worker (deferred_row reason inc now) mid
    \<and> defer_outbox_effect i worker reason inc now db = Inr ((), mid)"
proof -
  have "''deferred'' \<noteq> ''running''" by simp
  from finish_releases [OF assms this, where f = "deferred_row reason inc now"] obtain mid where
    "finish_in i worker ''deferred'' ''manager_deferred'' reason [] [] now (put_outbox i (deferred_row reason inc now row) db) = Inr mid"
    "releases db i worker (deferred_row reason inc now) mid" by blast
  then show ?thesis
    using assms(2,3) by (intro exI [of _ mid]) (simp add: defer_outbox_effect_def effect_of_def deferred_row_def)
qed

lemma fail_cases:
  assumes "outbox_ok db" and "effect_of db i = Some row" and "claimed_by worker row"
  shows "\<exists>mid. releases db i worker (failed_row error_text now) mid
    \<and> fail_outbox_effect ports tbl i worker error_text triage now db = dispatch_if ports tbl True triage mid"
proof -
  have "''failed'' \<noteq> ''running''" by simp
  from finish_releases [OF assms this, where f = "failed_row error_text now"] obtain mid where
    "finish_in i worker ''failed'' ''effect_failed'' error_text [] [] now (put_outbox i (failed_row error_text now row) db) = Inr mid"
    "releases db i worker (failed_row error_text now) mid" by blast
  then show ?thesis
    using assms(2,3) by (intro exI [of _ mid]) (simp add: fail_outbox_effect_def effect_of_def failed_row_def)
qed

definition completed_row :: "string \<Rightarrow> pydict \<Rightarrow> int \<Rightarrow> OutboxRow \<Rightarrow> OutboxRow" where
  "completed_row provider ref now row =
     row\<lparr>ob_status := COMPLETED, ob_provider_request_id := provider, ob_result_ref := ref,
         ob_locked_by := [], ob_locked_until := None, ob_last_error := [], ob_updated_at := now\<rparr>"

definition receipt_of :: "string \<Rightarrow> string \<Rightarrow> pydict \<Rightarrow> int \<Rightarrow> OutboxRow \<Rightarrow> EffectReceipt" where
  "receipt_of i provider ref now row = \<lparr>rc_effect_id = i, rc_hash = rq_hash (ob_request row),
     rc_provider_request_id = provider, rc_result_ref = ref, rc_completed_at = now\<rparr>"

text \<open>The holder's completion succeeds, exactly once.\<close>

lemma complete_cases:
  assumes ok: "outbox_ok db" and row: "effect_of db i = Some row" and held: "claimed_by worker row"
    and durable: "assert_artifact_refs_durable (is_file ports) (db_artifacts db) (PDict ref) = Inr ()"
  shows "\<exists>as. complete_outbox_effect ports i worker provider ref now db = Inr (True,
      db\<lparr>db_receipts := db_receipts db @ [(row_key row, receipt_of i provider ref now row)],
         db_outbox := AList.update i (completed_row provider ref now row) (db_outbox db), db_attempts := as\<rparr>)
    \<and> running i as = [] \<and> (\<forall>j. j \<noteq> i \<longrightarrow> running j as = running j (db_attempts db))"
proof -
  let ?rs = "db_receipts db @ [(row_key row, receipt_of i provider ref now row)]"
  have "''completed'' \<noteq> ''running''" by simp
  from finish_put [OF ok row held this, where rs = ?rs and row' = "completed_row provider ref now row"]
  obtain as where "finish_in i worker ''completed'' [] [] provider ref now
      (put_outbox i (completed_row provider ref now row) (db\<lparr>db_receipts := ?rs\<rparr>))
    = Inr (db\<lparr>db_receipts := ?rs, db_outbox := AList.update i (completed_row provider ref now row) (db_outbox db), db_attempts := as\<rparr>)"
    "running i as = []" "\<forall>j. j \<noteq> i \<longrightarrow> running j as = running j (db_attempts db)" by blast
  then show ?thesis
    using row held durable held_row [OF ok row held]
    by (intro exI [of _ as])
       (simp add: complete_outbox_effect_def effect_of_def row_key_def receipt_of_def completed_row_def Let_def insert_row_def)
qed

lemma settle_unheld:
  assumes "\<not> (\<exists>row. effect_of db i = Some row \<and> claimed_by worker row)"
  shows "\<exists>e. retry_outbox_effect ports tbl i worker error_text delay triage now db = Inl e"
    and "\<exists>e. defer_outbox_effect i worker error_text inc now db = Inl e"
    and "\<exists>e. fail_outbox_effect ports tbl i worker error_text triage now db = Inl e"
    and "complete_outbox_effect ports i worker provider ref now db = Inr (b, db') \<Longrightarrow> \<not> b \<and> db' = db"
  using assms
  by (auto simp: retry_outbox_effect_def defer_outbox_effect_def fail_outbox_effect_def complete_outbox_effect_def
      effect_of_def Let_def split: option.splits if_splits)

subsection \<open>A dispatch keeps the invariant\<close>

lemma outbox_ok_rest: "outbox_ok (db\<lparr>db_rest := r\<rparr>) \<longleftrightarrow> outbox_ok db"
  by (simp add: outbox_ok_def effect_of_def row_ok_def cong: option.case_cong)

lemma snapshots_ok_rest: "snapshots_ok (db\<lparr>db_rest := r\<rparr>) \<longleftrightarrow> snapshots_ok db"
  by (simp add: snapshots_ok_def)

lemma dispatched_outbox_ok:
  assumes ok: "outbox_ok db"
    and outbox: "db_outbox mid = db_outbox db @ new" "outbox_keys_ok (db_outbox mid)"
    and fresh: "\<forall>(i, row) \<in> set new. fresh_effect a event row"
    and events: "db_events mid = db_events db @ es" "new \<noteq> [] \<longrightarrow> (\<exists>e \<in> set es. ev_id e = event)"
      "\<forall>e \<in> set es. ev_workflow_id e = workflow_id a \<and> ev_aggregate_type e = aggregate_type a
        \<and> ev_aggregate_id e = aggregate_id a"
    and same: "db_receipts mid = db_receipts db" "db_attempts mid = db_attempts db"
  shows "outbox_ok mid"
proof -
  have effect: "effect_of mid i = (case effect_of db i of None \<Rightarrow> map_of new i | Some row \<Rightarrow> Some row)" for i
    by (simp add: effect_of_def outbox(1) map_add_def)
  have keys: "effect_keys (db_outbox mid) = effect_keys (db_outbox db) @ effect_keys new" by (simp add: outbox(1))
  have "row_ok mid i row" if "effect_of mid i = Some row" for i row
  proof (cases "effect_of db i")
    case None
    with that effect have new: "map_of new i = Some row" by simp
    then have mem: "(i, row) \<in> set new" by (rule map_of_SomeD)
    with fresh have row: "fresh_effect a event row" by auto
    from mem have "row_key row \<in> set (effect_keys new)" by (force simp: effect_keys_def row_key_def)
    then have "row_key row \<notin> set (effect_keys (db_outbox db))"
      using outbox(2) by (auto simp: outbox_keys_ok_def keys)
    then have "map_of (db_receipts db) (row_key row) = None" using ok by (auto simp: outbox_ok_def)
    moreover have "running i (db_attempts db) = []" using ok None by (simp add: outbox_ok_def)
    moreover obtain e where "e \<in> set es" "ev_id e = event" using events(2) mem by auto
    ultimately show ?thesis
      using row events(3) by (auto simp: row_ok_def fresh_effect_def same events(1) caused_by_def)
  next
    case (Some row')
    with that effect have "effect_of db i = Some row" by simp
    with ok have "row_ok db i row" by (simp add: outbox_ok_def)
    then show ?thesis by (auto simp: row_ok_def same events(1) split: option.splits)
  qed
  moreover have "running i (db_attempts mid) = []" if "effect_of mid i = None" for i
    using that ok effect [of i] by (auto simp: outbox_ok_def same split: option.splits)
  ultimately show ?thesis using ok outbox(2) keys by (simp add: outbox_ok_def same)
qed

text \<open>The stored outcome of a fresh action, and the invariant of the new database.\<close>

lemma dispatch_ok:
  assumes ok: "db_ok db" and run: "dispatch ports tbl a x h db = Inr (res, db')"
  shows "db_ok db'"
proof (cases "map_of (db_dedup db) (dedup_table_key a)")
  case (Some row)
  from dispatch_duplicate [OF this run] ok show ?thesis
    by (auto simp: db_ok_def outbox_ok_rest snapshots_ok_rest)
next
  case None
  from dispatch_fresh [OF None run] obtain decisions out mid r where
    step: "transition tbl (read_snapshot db (aggregate_type a) (aggregate_id a)) a = Inr out"
    and stored: "store_outcome ports a (read_snapshot db (aggregate_type a) (aggregate_id a)) out
        (db\<lparr>db_decisions := decisions\<rparr>) = Inr (res, mid)" and db': "db' = mid\<lparr>db_rest := r\<rparr>" by blast
  have keyed: "snapshots_keyed (db_snapshots db)" "outbox_keys_ok (db_outbox db)"
    using ok by (simp_all add: db_ok_def outbox_ok_def snapshots_ok_def)
  note tables = store_outcome_tables [OF step stored keyed]
  obtain event new where new: "db_outbox mid = db_outbox db @ new" "\<forall>(i, row) \<in> set new. fresh_effect a event row"
    "outbox_keys_ok (db_outbox mid)" "new \<noteq> [] \<longrightarrow> (\<exists>e \<in> set (res_events res). ev_id e = event)"
    using tables(4) by blast
  have "outbox_ok mid"
    by (rule dispatched_outbox_ok [OF _ new(1,3,2) tables(3) new(4)])
       (use ok tables(7,8) in \<open>auto simp: db_ok_def\<close>)
  moreover have "snapshots_ok mid"
  proof -
    let ?key = "(aggregate_type a, aggregate_id a)"
    have version: "snap_version (out_snapshot out) = current_version (map_of (db_snapshots db) ?key) + 1"
      using engine.step_version [OF step] by (simp add: read_snapshot_def)
    have subject: "same_subject s (out_snapshot out)" if "map_of (db_snapshots db) ?key = Some s" for s
      using engine.step_subject [of tbl s a out] step that by (simp add: read_snapshot_def)
    have ids: "snap_type (out_snapshot out) = aggregate_type a \<and> snap_id (out_snapshot out) = aggregate_id a
        \<and> snap_workflow_id (out_snapshot out) = workflow_id a"
      using step by (auto simp: transition_Inr next_snapshot_def)
    have pos: "0 \<le> current_version (map_of (db_snapshots db) ?key)"
      using ok by (force simp: db_ok_def snapshots_ok_def current_version_def split: option.splits)
    show ?thesis
      unfolding snapshots_ok_def
    proof (intro conjI)
      show "snapshots_keyed (db_snapshots mid)"
        using keyed(1) ids by (auto simp: snapshots_keyed_def tables(1))
      show "\<forall>key s. map_of (db_snapshots mid) key = Some s \<longrightarrow> 1 \<le> snap_version s"
        using ok version pos by (auto simp: db_ok_def snapshots_ok_def tables(1))
      show "\<forall>e \<in> set (db_events mid). \<exists>s. map_of (db_snapshots mid) (ev_aggregate_type e, ev_aggregate_id e) = Some s
        \<and> snap_workflow_id s = ev_workflow_id e \<and> 1 \<le> ev_version e \<and> ev_version e \<le> snap_version s"
      proof
        fix e assume "e \<in> set (db_events mid)"
        then consider "e \<in> set (db_events db)" | "e \<in> set (res_events res)" by (auto simp: tables(3))
        then show "\<exists>s. map_of (db_snapshots mid) (ev_aggregate_type e, ev_aggregate_id e) = Some s
          \<and> snap_workflow_id s = ev_workflow_id e \<and> 1 \<le> ev_version e \<and> ev_version e \<le> snap_version s"
        proof cases
          case 1
          with ok obtain s where s: "map_of (db_snapshots db) (ev_aggregate_type e, ev_aggregate_id e) = Some s"
            "snap_workflow_id s = ev_workflow_id e" "1 \<le> ev_version e" "ev_version e \<le> snap_version s"
            by (auto simp: db_ok_def snapshots_ok_def)
          then show ?thesis
            using subject [of s] version
            by (cases "(ev_aggregate_type e, ev_aggregate_id e) = ?key")
               (auto simp: tables(1) same_subject_def current_version_def)
        next
          case 2
          with tables(8) ids version pos show ?thesis by (auto simp: tables(1))
        qed
      qed
    qed
  qed
  ultimately show ?thesis by (simp add: db' db_ok_def outbox_ok_rest snapshots_ok_rest)
qed

subsection \<open>Every operation\<close>

lemma dispatch_if_ok:
  assumes "db_ok db" and "dispatch_if ports tbl wanted triage db = Inr (r, db')"
  shows "db_ok db'"
  using assms by (auto simp: dispatch_if_def split: option.splits if_splits intro: dispatch_ok)

lemma snapshots_ok_released: "releases db i worker f mid \<Longrightarrow> snapshots_ok mid \<longleftrightarrow> snapshots_ok db"
  by (auto simp: releases_def snapshots_ok_def)

lemma releases_db_ok:
  assumes "db_ok db" and "releases db i worker f mid"
    and "f \<in> {retried_row t d now, deferred_row t inc now, failed_row t now}"
  shows "db_ok mid"
proof -
  have "outbox_ok mid"
    by (rule releases_ok [OF _ assms(2)])
       (use assms(1,3) in \<open>auto simp: db_ok_def released_row_defs\<close>)
  with assms(1,2) show ?thesis by (simp add: db_ok_def snapshots_ok_released)
qed

end
