(* ===== verification/Store_Properties.thy ===== *)
theory Store_Properties
  imports Store_History
begin

section \<open>What every history of the store keeps\<close>

lemma after_elim: "P s \<Longrightarrow> (\<And>x s'. r = Inr (x, s') \<Longrightarrow> P s') \<Longrightarrow> P (after s r)"
  by (auto simp: after_def split: sum.splits prod.splits)

subsection \<open>The operations as changes of one effect\<close>

text \<open>Only dispatches change the tables of snapshots, events and deduplicated actions.\<close>

lemma claim_rows_frame:
  "db_snapshots (snd (claim_rows worker now until rows db)) = db_snapshots db
   \<and> db_events (snd (claim_rows worker now until rows db)) = db_events db
   \<and> db_dedup (snd (claim_rows worker now until rows db)) = db_dedup db
   \<and> db_receipts (snd (claim_rows worker now until rows db)) = db_receipts db"
proof (induction rows arbitrary: db)
  case (Cons x rows)
  then show ?case by (cases x) (simp add: Let_def case_prod_beta split: option.split)
qed simp

lemma claim_rows_effects:
  "current_rows rows db \<Longrightarrow> \<forall>(i, row) \<in> set rows. claimable now row \<Longrightarrow>
     effect_of (snd (claim_rows worker now until rows db)) j =
       (case map_of rows j of None \<Rightarrow> effect_of db j | Some row \<Rightarrow> Some (claim_row worker now until row))"
proof (induction rows arbitrary: db)
  case (Cons x rows)
  obtain i row where x: "x = (i, row)" by fastforce
  have row: "effect_of db i = Some row" "claimable now row" "i \<notin> fst ` set rows"
    using Cons.prems by (auto simp: x current_rows_def)
  have cur: "current_rows ((i, row) # rows) db" using Cons.prems(1) by (simp only: x)
  have "effect_of (claimed_db worker now until i row db) j =
      (if j = i then Some (claim_row worker now until row) else effect_of db j)"
    by (simp add: claimed_db_def effect_of_def update_conv' Let_def)
  moreover have "map_of rows i = None" using row(3) by (simp add: map_of_eq_None_iff)
  moreover have "\<forall>(i, row) \<in> set rows. claimable now row" using Cons.prems(2) by simp
  ultimately show ?case
    using Cons.IH [OF current_rows_claimed [OF cur]]
    by (simp only: x claim_rows_Cons [OF cur row(2)]) (simp split: option.split)
qed simp

lemma claim_effects:
  assumes ok: "outbox_ok db" and run: "claim_outbox worker limit lease now db = Inr (items, db')"
  shows "effect_of db' i = effect_of db i
    \<or> (\<exists>row. effect_of db i = Some row \<and> claimable now row \<and> ob_next_retry_at row \<le> now
         \<and> effect_of db' i = Some (claim_row worker now (now + max 1 lease) row))"
proof -
  let ?rows = "select_ready now limit (db_outbox db)"
  have "outbox_keys_ok (db_outbox db)" using ok by (simp add: outbox_ok_def)
  note sel = select_ready_rows [OF this, of now limit]
  have db': "db' = snd (claim_rows worker now (now + max 1 lease) ?rows db)"
    using run by (simp add: claim_outbox_def)
  have "effect_of db' i = (case map_of ?rows i of None \<Rightarrow> effect_of db i
      | Some row \<Rightarrow> Some (claim_row worker now (now + max 1 lease) row))"
    unfolding db' by (rule claim_rows_effects) (use sel in auto)
  then show ?thesis
    using sel by (auto simp: current_rows_def split: option.splits dest!: map_of_SomeD)
qed

text \<open>A dispatch leaves the effects there are and adds waiting ones.\<close>

lemma dispatch_effects:
  assumes ok: "db_ok db" and run: "dispatch ports tbl a x h db = Inr (res, db')"
  shows "effect_of db' i = effect_of db i
    \<or> (effect_of db i = None \<and> (\<exists>event row. effect_of db' i = Some row \<and> fresh_effect a event row))"
proof (cases "map_of (db_dedup db) (dedup_table_key a)")
  case (Some row)
  from dispatch_duplicate [OF this run] show ?thesis by (auto simp: effect_of_def)
next
  case None
  from dispatch_fresh [OF None run] obtain decisions out mid r where
    step: "transition tbl (read_snapshot db (aggregate_type a) (aggregate_id a)) a = Inr out"
    and stored: "store_outcome ports a (read_snapshot db (aggregate_type a) (aggregate_id a)) out
        (db\<lparr>db_decisions := decisions\<rparr>) = Inr (res, mid)" and db': "db' = mid\<lparr>db_rest := r\<rparr>" by blast
  have keyed: "snapshots_keyed (db_snapshots db)" "outbox_keys_ok (db_outbox db)"
    using ok by (simp_all add: db_ok_def outbox_ok_def snapshots_ok_def)
  obtain event new where new: "db_outbox mid = db_outbox db @ new" "\<forall>(i, row) \<in> set new. fresh_effect a event row"
    "outbox_keys_ok (db_outbox mid)" using store_outcome_tables(4) [OF step stored keyed] by blast
  show ?thesis
  proof (cases "effect_of db i")
    case None
    then have "effect_of db' i = map_of new i"
      by (simp add: db' effect_of_def new(1) map_add_def split: option.splits)
    with None new(2) show ?thesis
      by (cases "map_of new i") (auto dest: map_of_SomeD)
  next
    case (Some row)
    then have "map_of new i = None"
      using new(1,3) by (force simp: effect_of_def outbox_keys_ok_def map_of_eq_None_iff dest!: map_of_SomeD)
    with Some show ?thesis by (simp add: db' effect_of_def new(1) map_add_def)
  qed
qed

lemma dispatch_if_effects:
  assumes "db_ok db" and "dispatch_if ports tbl wanted triage db = Inr (r, db')"
  shows "effect_of db' i = effect_of db i
    \<or> (effect_of db i = None \<and> (\<exists>a event row. effect_of db' i = Some row \<and> fresh_effect a event row))"
  using assms dispatch_effects [OF assms(1)]
  by (auto simp: dispatch_if_def split: option.splits if_splits) blast+

text \<open>How one operation can change one effect.\<close>

inductive effect_change :: "'r db_op \<Rightarrow> string \<Rightarrow> OutboxRow option \<Rightarrow> OutboxRow option \<Rightarrow> bool"
  for op i where
  kept: "effect_change op i x x"
| added: "fresh_effect a event row \<Longrightarrow> effect_change op i None (Some row)"
| claimed: "op = ClaimEffects worker limit lease now \<Longrightarrow> claimable now row \<Longrightarrow> ob_next_retry_at row \<le> now \<Longrightarrow>
    effect_change op i (Some row) (Some (claim_row worker now (now + max 1 lease) row))"
| renewed: "op = RenewClaim i worker lease now \<Longrightarrow> claimed_by worker row \<Longrightarrow>
    effect_change op i (Some row) (Some (row\<lparr>ob_locked_until := Some (now + max 1 lease), ob_updated_at := now\<rparr>))"
| completed: "op = CompleteEffect ports i worker provider ref now \<Longrightarrow> claimed_by worker row \<Longrightarrow>
    effect_change op i (Some row) (Some (completed_row provider ref now row))"
| retried: "op = RetryEffect ports i worker error_text delay triage now \<Longrightarrow> claimed_by worker row \<Longrightarrow>
    effect_change op i (Some row) (Some (retried_row error_text delay now row))"
| deferred: "op = DeferEffect i worker reason inc now \<Longrightarrow> claimed_by worker row \<Longrightarrow>
    effect_change op i (Some row) (Some (deferred_row reason inc now row))"
| failed: "op = FailEffect ports i worker error_text triage now \<Longrightarrow> claimed_by worker row \<Longrightarrow>
    effect_change op i (Some row) (Some (failed_row error_text now row))"

lemma releases_effects:
  assumes "releases db i worker f mid"
  shows "\<exists>row. effect_of db i = Some row \<and> claimed_by worker row
    \<and> (\<forall>j. effect_of mid j = (if j = i then Some (f row) else effect_of db j))"
  using assms by (auto simp: releases_def effect_of_def update_conv')

text \<open>Releasing an effect and dispatching a triage action, seen from any effect.\<close>

lemma release_then_dispatch:
  assumes ok: "db_ok db" and rel: "releases db i worker f mid"
    and f: "f \<in> {retried_row t d now, deferred_row t inc now, failed_row t now}"
    and run: "dispatch_if ports tbl wanted triage mid = Inr (r, db')"
    and change: "\<And>row. effect_of db i = Some row \<Longrightarrow> claimed_by worker row \<Longrightarrow> effect_change op i (Some row) (Some (f row))"
  shows "db_ok db' \<and> effect_change op j (effect_of db j) (effect_of db' j)"
proof -
  have mid: "db_ok mid" by (rule releases_db_ok [OF ok rel f])
  obtain row where row: "effect_of db i = Some row" "claimed_by worker row"
    "\<forall>j. effect_of mid j = (if j = i then Some (f row) else effect_of db j)"
    using releases_effects [OF rel] by blast
  have "effect_change op j (effect_of db j) (effect_of db' j)"
  proof (cases "j = i")
    case True
    with row dispatch_if_effects [OF mid run, of i] have "effect_of db' i = Some (f row)" by auto
    with True row change show ?thesis by simp
  next
    case False
    with row dispatch_if_effects [OF mid run, of j] show ?thesis
      by (auto intro: effect_change.kept effect_change.added)
  qed
  with dispatch_if_ok [OF mid run] show ?thesis by simp
qed

lemma claim_db_ok:
  assumes "db_ok db" and "claim_outbox worker limit lease now db = Inr (items, db')"
  shows "db_ok db'"
proof -
  have "db' = snd (claim_rows worker now (now + max 1 lease) (select_ready now limit (db_outbox db)) db)"
    using assms(2) by (simp add: claim_outbox_def)
  then have "snapshots_ok db' = snapshots_ok db" by (simp add: snapshots_ok_def claim_rows_frame)
  with assms claim_ok show ?thesis by (auto simp: db_ok_def)
qed

lemma renew_effects:
  assumes "db_ok db" and "renew_outbox_claim i worker lease now db = Inr (u, db')"
  shows "db_ok db' \<and> (\<exists>row. effect_of db i = Some row \<and> claimed_by worker row
    \<and> (\<forall>j. effect_of db' j = (if j = i then Some (row\<lparr>ob_locked_until := Some (now + max 1 lease), ob_updated_at := now\<rparr>)
         else effect_of db j)))"
proof -
  have "outbox_ok db'" using renew_ok assms by (auto simp: db_ok_def)
  moreover have "snapshots_ok db' = snapshots_ok db"
    using assms(2) by (auto simp: renew_outbox_claim_def put_outbox_def snapshots_ok_def split: option.splits if_splits)
  ultimately show ?thesis
    using assms by (auto simp: db_ok_def renew_outbox_claim_def put_outbox_def effect_of_def update_conv'
        split: option.splits if_splits)
qed

lemma complete_effects:
  assumes ok: "db_ok db" and run: "complete_outbox_effect ports i worker provider ref now db = Inr (b, db')"
  shows "if b then db_ok db' \<and> (\<exists>row. effect_of db i = Some row \<and> claimed_by worker row
      \<and> (\<forall>j. effect_of db' j = (if j = i then Some (completed_row provider ref now row) else effect_of db j))
      \<and> db_receipts db' = db_receipts db @ [(row_key row, receipt_of i provider ref now row)]
      \<and> map_of (db_receipts db) (row_key row) = None)
    else db' = db"
proof (cases "\<exists>row. effect_of db i = Some row \<and> claimed_by worker row")
  case True
  then obtain row where row: "effect_of db i = Some row" "claimed_by worker row" by blast
  have out: "outbox_ok db" using ok by (simp add: db_ok_def)
  have durable: "assert_artifact_refs_durable (is_file ports) (db_artifacts db) (PDict ref) = Inr ()"
    using run by (auto simp: complete_outbox_effect_def)
  obtain atts where db': "b" "db' = db\<lparr>db_receipts := db_receipts db @ [(row_key row, receipt_of i provider ref now row)],
      db_outbox := AList.update i (completed_row provider ref now row) (db_outbox db), db_attempts := atts\<rparr>"
    and closed: "running i atts = []" "\<forall>j. j \<noteq> i \<longrightarrow> running j atts = running j (db_attempts db)"
    using complete_cases [OF out row durable, of provider now] run by auto
  have "outbox_ok db'"
    unfolding db' by (rule completed_ok [OF out row _ _ _ _ _ _ closed]) (simp_all add: completed_row_def receipt_of_def)
  with ok row db' held_row [OF out row] show ?thesis
    by (simp add: db_ok_def snapshots_ok_def effect_of_def update_conv')
next
  case False
  from settle_unheld(4) [OF this run] show ?thesis by simp
qed

text \<open>A settlement that went through: the worker held the effect, it was released, and the triage action ran.\<close>

lemma retry_run:
  assumes ok: "db_ok db" and run: "retry_outbox_effect ports tbl i worker error_text delay triage now db = Inr (st, db')"
  shows "\<exists>row mid r. effect_of db i = Some row \<and> claimed_by worker row
    \<and> releases db i worker (retried_row error_text delay now) mid
    \<and> dispatch_if ports tbl (ob_max_attempts row \<le> ob_attempts row) triage mid = Inr (r, db')
    \<and> st = ob_status (retried_row error_text delay now row)"
proof -
  have out: "outbox_ok db" using ok by (simp add: db_ok_def)
  obtain row where row: "effect_of db i = Some row" "claimed_by worker row"
    using run settle_unheld(1) [of db i worker ports tbl error_text delay triage now] by fastforce
  from retry_cases [OF out row, of error_text delay now ports tbl triage]
  obtain mid where mid: "releases db i worker (retried_row error_text delay now) mid"
    and eq: "retry_outbox_effect ports tbl i worker error_text delay triage now db =
      rbind (dispatch_if ports tbl (ob_max_attempts row \<le> ob_attempts row) triage mid)
        (\<lambda>(r, db'). Inr (ob_status (retried_row error_text delay now row), db'))" by blast
  from run [unfolded eq] row mid show ?thesis by auto
qed

lemma fail_run:
  assumes ok: "db_ok db" and run: "fail_outbox_effect ports tbl i worker error_text triage now db = Inr (u, db')"
  shows "\<exists>mid. releases db i worker (failed_row error_text now) mid \<and> dispatch_if ports tbl True triage mid = Inr (u, db')"
proof -
  have out: "outbox_ok db" using ok by (simp add: db_ok_def)
  obtain row where row: "effect_of db i = Some row" "claimed_by worker row"
    using run settle_unheld(3) [of db i worker ports tbl error_text triage now] by fastforce
  from fail_cases [OF out row, of error_text now ports tbl triage] run show ?thesis by auto
qed

lemma defer_run:
  assumes ok: "db_ok db" and run: "defer_outbox_effect i worker reason inc now db = Inr (u, db')"
  shows "releases db i worker (deferred_row reason inc now) db'"
proof -
  have out: "outbox_ok db" using ok by (simp add: db_ok_def)
  obtain row where row: "effect_of db i = Some row" "claimed_by worker row"
    using run settle_unheld(2) [of db i worker reason inc now] by fastforce
  from defer_cases [OF out row, of reason inc now] run show ?thesis by auto
qed

definition lawful :: "'r Database \<Rightarrow> 'r db_op \<Rightarrow> string \<Rightarrow> 'r Database \<Rightarrow> bool" where
  "lawful db op j db' \<longleftrightarrow> db_ok db' \<and> effect_change op j (effect_of db j) (effect_of db' j)"

lemma after_lawful:
  "db_ok db \<Longrightarrow> (\<And>x db'. r = Inr (x, db') \<Longrightarrow> lawful db op j db') \<Longrightarrow> lawful db op j (after db r)"
  by (rule after_elim [where P = "lawful db op j"]) (simp_all add: lawful_def effect_change.kept)

lemma dispatch_lawful:
  assumes ok: "db_ok db" and run: "dispatch ports tbl a x h db = Inr (res, db')"
  shows "lawful db op j db'"
  using dispatch_effects [OF ok run, of j] dispatch_ok [OF ok run]
  unfolding lawful_def by (auto intro: effect_change.kept effect_change.added)

lemma claim_lawful:
  assumes ok: "db_ok db" and run: "claim_outbox worker limit lease now db = Inr (items, db')"
  shows "lawful db (ClaimEffects worker limit lease now) j db'"
proof -
  have "outbox_ok db" using ok by (simp add: db_ok_def)
  from claim_effects [OF this run, of j] claim_db_ok [OF ok run] show ?thesis
    unfolding lawful_def by (auto intro: effect_change.kept effect_change.claimed [OF refl])
qed

lemma renew_lawful:
  assumes ok: "db_ok db" and run: "renew_outbox_claim i worker lease now db = Inr (u, db')"
  shows "lawful db (RenewClaim i worker lease now) j db'"
  using renew_effects [OF ok run] unfolding lawful_def
  by (cases "j = i") (auto intro: effect_change.kept effect_change.renewed [OF refl])

lemma complete_lawful:
  assumes ok: "db_ok db" and run: "complete_outbox_effect ports i worker provider ref now db = Inr (b, db')"
  shows "lawful db (CompleteEffect ports i worker provider ref now) j db'"
proof -
  have change: "effect_of db' j = effect_of db j \<or> (\<exists>row. j = i \<and> effect_of db i = Some row \<and> claimed_by worker row
      \<and> effect_of db' i = Some (completed_row provider ref now row))"
    using complete_effects [OF ok run] by (cases b; cases "j = i") auto
  have "db_ok db'" using complete_effects [OF ok run] ok by (cases b) auto
  with change show ?thesis
    unfolding lawful_def by (auto intro: effect_change.kept effect_change.completed [OF refl])
qed

lemma retry_lawful:
  assumes ok: "db_ok db" and run: "retry_outbox_effect ports tbl i worker error_text delay triage now db = Inr (st, db')"
  shows "lawful db (RetryEffect ports i worker error_text delay triage now) j db'"
proof -
  from retry_run [OF ok run] obtain mid w r where mid: "releases db i worker (retried_row error_text delay now) mid"
    "dispatch_if ports tbl w triage mid = Inr (r, db')" by blast
  then show ?thesis
    unfolding lawful_def using release_then_dispatch [OF ok mid(1)] effect_change.retried [OF refl] by blast
qed

lemma defer_lawful:
  assumes ok: "db_ok db" and run: "defer_outbox_effect i worker reason inc now db = Inr (u, db')"
  shows "lawful db (DeferEffect i worker reason inc now) j db'"
proof -
  have "dispatch_if undefined [] False None db' = Inr (None, db')" by (simp add: dispatch_if_def)
  from release_then_dispatch [OF ok defer_run [OF ok run] _ this] effect_change.deferred [OF refl]
  show ?thesis unfolding lawful_def by blast
qed

lemma fail_lawful:
  assumes ok: "db_ok db" and run: "fail_outbox_effect ports tbl i worker error_text triage now db = Inr (u, db')"
  shows "lawful db (FailEffect ports i worker error_text triage now) j db'"
proof -
  from fail_run [OF ok run] obtain mid where mid: "releases db i worker (failed_row error_text now) mid"
    "dispatch_if ports tbl True triage mid = Inr (u, db')" by blast
  then show ?thesis
    unfolding lawful_def using release_then_dispatch [OF ok mid(1)] effect_change.failed [OF refl] by blast
qed

lemma db_step_lawful:
  assumes ok: "db_ok db"
  shows "lawful db op j (db_step tbl db op)"
  by (cases op) (simp_all, (rule after_lawful [OF ok], erule dispatch_lawful [OF ok] claim_lawful [OF ok]
      renew_lawful [OF ok] complete_lawful [OF ok] retry_lawful [OF ok] defer_lawful [OF ok] fail_lawful [OF ok])+)

interpretation durable_store: store "db_step tbl" db_ok for tbl
  using db_step_lawful by unfold_locales (auto simp: lawful_def)

end
