(* ===== verification/Outbox_Lifecycle.thy ===== *)
theory Outbox_Lifecycle
  imports Store_Properties
begin

section \<open>The life of an effect\<close>

text \<open>
  What the outbox promises, as an abstract machine that forgets workers' clocks, attempts and texts: an effect
  waits, is held by one worker, and ends completed or dead. Every operation of the store is a move of this
  machine or leaves the effect alone, so its histories are histories of the machine; the properties of the
  store about completion, exclusiveness and lost claims follow from the moves.
\<close>

datatype effect_stage = Waiting | Held string | Done | Dead

record effect_view =
  ev_request :: EffectRequest
  ev_budget :: int
  ev_stage :: effect_stage
  ev_spent :: int

definition stage_of :: "OutboxRow \<Rightarrow> effect_stage" where
  "stage_of row = (case ob_status row of
     PENDING \<Rightarrow> Waiting | INFLIGHT \<Rightarrow> Held (ob_locked_by row) | COMPLETED \<Rightarrow> Done | FAILED \<Rightarrow> Dead)"

definition view_row :: "OutboxRow \<Rightarrow> effect_view" where
  "view_row row = \<lparr>ev_request = ob_request row, ev_budget = ob_max_attempts row, ev_stage = stage_of row,
     ev_spent = ob_attempts row\<rparr>"

definition view_of :: "'r Database \<Rightarrow> string \<Rightarrow> effect_view option" where
  "view_of db i = map_option view_row (effect_of db i)"

inductive effect_move :: "effect_view option \<Rightarrow> effect_view option \<Rightarrow> bool" where
  rest: "effect_move v v"
| request: "1 \<le> m \<Longrightarrow> effect_move None (Some \<lparr>ev_request = rq, ev_budget = m, ev_stage = Waiting, ev_spent = 0\<rparr>)"
| claim: "ev_stage v = Waiting \<Longrightarrow> ev_spent v < ev_budget v \<Longrightarrow>
    effect_move (Some v) (Some (v\<lparr>ev_stage := Held w, ev_spent := ev_spent v + 1\<rparr>))"
| take_over: "ev_stage v = Held w \<Longrightarrow> effect_move (Some v) (Some (v\<lparr>ev_stage := Held w'\<rparr>))"
| release: "ev_stage v = Held w \<Longrightarrow> n \<in> {ev_spent v, max 0 (ev_spent v - 1)} \<Longrightarrow>
    effect_move (Some v) (Some (v\<lparr>ev_stage := Waiting, ev_spent := n\<rparr>))"
| complete: "ev_stage v = Held w \<Longrightarrow> effect_move (Some v) (Some (v\<lparr>ev_stage := Done\<rparr>))"
| give_up: "ev_stage v = Held w \<Longrightarrow> effect_move (Some v) (Some (v\<lparr>ev_stage := Dead\<rparr>))"

inductive_cases effect_move_SomeE: "effect_move (Some v) x"

lemma claimed_by_stage: "claimed_by w row \<longleftrightarrow> ev_stage (view_row row) = Held w"
  by (cases "ob_status row") (auto simp: claimed_by_def view_row_def stage_of_def)

lemma claim_row_move:
  assumes "claimable now row"
  shows "effect_move (Some (view_row row)) (Some (view_row (claim_row w now until row)))"
proof (cases "ob_status row = PENDING")
  case True
  then have "view_row (claim_row w now until row)
      = (view_row row)\<lparr>ev_stage := Held w, ev_spent := ev_spent (view_row row) + 1\<rparr>"
    by (simp add: view_row_def claim_row_def stage_of_def)
  moreover have "ev_stage (view_row row) = Waiting" "ev_spent (view_row row) < ev_budget (view_row row)"
    using True assms by (simp_all add: view_row_def stage_of_def claimable_def)
  ultimately show ?thesis using effect_move.claim by metis
next
  case False
  with assms have st: "ob_status row = INFLIGHT" by (auto simp: claimable_def)
  then have "view_row (claim_row w now until row) = (view_row row)\<lparr>ev_stage := Held w\<rparr>"
    by (simp add: view_row_def claim_row_def stage_of_def)
  moreover have "ev_stage (view_row row) = Held (ob_locked_by row)" by (simp add: view_row_def stage_of_def st)
  ultimately show ?thesis using effect_move.take_over by metis
qed

lemma fresh_effect_move:
  "fresh_effect a event row \<Longrightarrow> effect_move None (Some (view_row row))"
  unfolding fresh_effect_def view_row_def stage_of_def by (auto intro: effect_move.request)

lemma settled_moves:
  assumes "claimed_by w row" and "0 \<le> ob_attempts row"
  shows "effect_move (Some (view_row row)) (Some (view_row (completed_row p r now row)))"
    and "effect_move (Some (view_row row)) (Some (view_row (failed_row t now row)))"
    and "effect_move (Some (view_row row)) (Some (view_row (deferred_row t inc now row)))"
    and "effect_move (Some (view_row row)) (Some (view_row (retried_row t d now row)))"
proof -
  let ?v = "view_row row"
  have held: "ev_stage ?v = Held w" using assms by (simp add: claimed_by_stage)
  have "view_row (completed_row p r now row) = ?v\<lparr>ev_stage := Done\<rparr>"
    by (simp add: view_row_def stage_of_def completed_row_def)
  then show "effect_move (Some ?v) (Some (view_row (completed_row p r now row)))"
    using effect_move.complete [OF held] by simp
  have "view_row (failed_row t now row) = ?v\<lparr>ev_stage := Dead\<rparr>"
    by (simp add: view_row_def stage_of_def failed_row_def)
  then show "effect_move (Some ?v) (Some (view_row (failed_row t now row)))"
    using effect_move.give_up [OF held] by simp
  show "effect_move (Some ?v) (Some (view_row (retried_row t d now row)))"
  proof (cases "ob_max_attempts row \<le> ob_attempts row")
    case True
    then have "view_row (retried_row t d now row) = ?v\<lparr>ev_stage := Dead\<rparr>"
      by (simp add: view_row_def stage_of_def retried_row_def)
    then show ?thesis using effect_move.give_up [OF held] by simp
  next
    case False
    then have "view_row (retried_row t d now row) = ?v\<lparr>ev_stage := Waiting, ev_spent := ev_spent ?v\<rparr>"
      by (simp add: view_row_def stage_of_def retried_row_def)
    then show ?thesis using effect_move.release [OF held, of "ev_spent ?v"] by simp
  qed
  let ?n = "max 0 (ob_attempts row - (if inc then 1 else 0))"
  have "view_row (deferred_row t inc now row) = ?v\<lparr>ev_stage := Waiting, ev_spent := ?n\<rparr>"
    by (simp add: view_row_def stage_of_def deferred_row_def)
  moreover have "?n \<in> {ev_spent ?v, max 0 (ev_spent ?v - 1)}" using assms(2) by (simp add: view_row_def)
  ultimately show "effect_move (Some ?v) (Some (view_row (deferred_row t inc now row)))"
    using effect_move.release [OF held] by metis
qed

lemma change_is_move:
  assumes "effect_change op i x y" and spent: "\<And>row. x = Some row \<Longrightarrow> 0 \<le> ob_attempts row"
  shows "effect_move (map_option view_row x) (map_option view_row y)"
  using assms(1)
proof cases
  case (renewed worker lease now row)
  then have "view_row (row\<lparr>ob_locked_until := Some (now + max 1 lease), ob_updated_at := now\<rparr>) = view_row row"
    by (cases "ob_status row") (simp_all add: view_row_def stage_of_def)
  with renewed show ?thesis by (simp add: effect_move.rest)
qed (use spent in \<open>auto intro: effect_move.rest fresh_effect_move claim_row_move settled_moves\<close>)

interpretation outbox: refined_store "db_step tbl" db_ok "\<lambda>db. view_of db i" effect_move for tbl i
proof unfold_locales
  fix db :: "'a Database" and op assume "db_ok db"
  then have "effect_change op i (effect_of db i) (effect_of (db_step tbl db op) i)"
    using db_step_lawful [of db op i tbl] by (simp add: lawful_def)
  moreover have "0 \<le> ob_attempts row" if "effect_of db i = Some row" for row
    using \<open>db_ok db\<close> that by (auto simp: db_ok_def outbox_ok_def row_ok_def)
  ultimately show "effect_move (view_of db i) (view_of (db_step tbl db op) i)"
    unfolding view_of_def by (rule change_is_move)
qed

end
