(* ===== verification/Store_Guarantees.thy ===== *)
theory Store_Guarantees
  imports Outbox_Lifecycle
begin

section \<open>Guarantees of the durable store\<close>

text \<open>
  Properties of the dispatch transaction and of the outbox that hold after any history of operations, by any
  number of workers, on a store that started empty or well formed.
\<close>

subsection \<open>What is only ever appended\<close>

text \<open>Recorded events, deduplication rows and receipts are kept for good.\<close>

definition extends :: "'a list \<Rightarrow> 'a list \<Rightarrow> bool" where
  "extends xs ys \<longleftrightarrow> (\<exists>zs. ys = xs @ zs)"

lemma extends_intros [simp, intro]: "extends xs xs" "extends xs (xs @ ys)"
  by (auto simp: extends_def)

lemma extends_map_of: "extends xs ys \<Longrightarrow> map_of xs k = Some v \<Longrightarrow> map_of ys k = Some v"
  by (auto simp: extends_def map_add_def split: option.splits)

lemma extends_trans: "extends xs ys \<Longrightarrow> extends ys zs \<Longrightarrow> extends xs zs"
  by (auto simp: extends_def)

definition records_kept :: "'r Database \<Rightarrow> 'r Database \<Rightarrow> bool" where
  "records_kept db db' \<longleftrightarrow> extends (db_events db) (db_events db') \<and> extends (db_dedup db) (db_dedup db')
     \<and> extends (db_receipts db) (db_receipts db')"

lemma records_kept_refl [simp]: "records_kept db db"
  by (simp add: records_kept_def)

lemma records_kept_trans: "records_kept db db' \<Longrightarrow> records_kept db' db'' \<Longrightarrow> records_kept db db''"
  unfolding records_kept_def by (blast intro: extends_trans)

lemma dispatch_keeps:
  assumes ok: "db_ok db" and run: "dispatch ports tbl a x h db = Inr (res, db')"
  shows "records_kept db db'"
proof (cases "map_of (db_dedup db) (dedup_table_key a)")
  case (Some row)
  from dispatch_duplicate [OF this run] show ?thesis by (auto simp: records_kept_def)
next
  case None
  from dispatch_fresh [OF None run] obtain decisions out mid r where
    step: "transition tbl (read_snapshot db (aggregate_type a) (aggregate_id a)) a = Inr out"
    and stored: "store_outcome ports a (read_snapshot db (aggregate_type a) (aggregate_id a)) out
        (db\<lparr>db_decisions := decisions\<rparr>) = Inr (res, mid)" and db': "db' = mid\<lparr>db_rest := r\<rparr>" by blast
  have keyed: "snapshots_keyed (db_snapshots db)" "outbox_keys_ok (db_outbox db)"
    using ok by (simp_all add: db_ok_def outbox_ok_def snapshots_ok_def)
  note tables = store_outcome_tables [OF step stored keyed]
  show ?thesis using tables(3,6,7) by (simp add: records_kept_def db')
qed

lemma dispatch_if_keeps:
  assumes "db_ok db" and "dispatch_if ports tbl wanted triage db = Inr (r, db')"
  shows "records_kept db db'"
  using assms dispatch_keeps [OF assms(1)] by (auto simp: dispatch_if_def split: option.splits if_splits)

lemma releases_keep: "releases db i worker f mid \<Longrightarrow> records_kept db mid"
  by (auto simp: releases_def records_kept_def)

lemma released_and_triaged_keep:
  assumes "db_ok db" and "releases db i worker f mid" and "f \<in> {retried_row t d now, deferred_row t inc now, failed_row t now}"
    and "dispatch_if ports tbl wanted triage mid = Inr (r, db')"
  shows "records_kept db db'"
  using records_kept_trans [OF releases_keep [OF assms(2)] dispatch_if_keeps [OF releases_db_ok [OF assms(1-3)] assms(4)]] .

lemma complete_keeps:
  assumes ok: "db_ok db" and run: "complete_outbox_effect ports i worker provider ref now db = Inr (b, db')"
  shows "records_kept db db'"
  using run
  by (fastforce simp: complete_outbox_effect_def finish_in_def put_outbox_def records_kept_def Let_def
      split: option.splits if_splits)

lemma db_step_keeps:
  assumes ok: "db_ok db"
  shows "records_kept db (db_step tbl db op)"
proof (cases op)
  case (Dispatch ports a x h)
  show ?thesis unfolding Dispatch db_step.simps
    by (rule after_elim [where P = "records_kept db"]) (auto intro: dispatch_keeps [OF ok])
next
  case (ClaimEffects worker limit lease now)
  show ?thesis unfolding ClaimEffects db_step.simps
    by (simp add: claim_outbox_def after_def case_prod_beta records_kept_def claim_rows_frame)
next
  case (RenewClaim i worker lease now)
  show ?thesis unfolding RenewClaim db_step.simps
    by (rule after_elim [where P = "records_kept db"])
      (auto simp: renew_outbox_claim_def put_outbox_def records_kept_def split: option.splits if_splits)
next
  case (CompleteEffect ports i worker provider ref now)
  show ?thesis unfolding CompleteEffect db_step.simps
    by (rule after_elim [where P = "records_kept db"]) (auto intro: complete_keeps [OF ok])
next
  case (RetryEffect ports i worker error_text delay triage now)
  show ?thesis unfolding RetryEffect db_step.simps
    by (rule after_elim [where P = "records_kept db"]) (auto dest!: retry_run [OF ok] intro: released_and_triaged_keep [OF ok])
next
  case (DeferEffect i worker reason inc now)
  show ?thesis unfolding DeferEffect db_step.simps
    by (rule after_elim [where P = "records_kept db"]) (auto dest!: defer_run [OF ok] intro: releases_keep)
next
  case (FailEffect ports i worker error_text triage now)
  show ?thesis unfolding FailEffect db_step.simps
    by (rule after_elim [where P = "records_kept db"]) (auto dest!: fail_run [OF ok] intro: released_and_triaged_keep [OF ok])
qed

interpretation journal: refined_store "db_step tbl" db_ok "\<lambda>db. db" records_kept for tbl
  using db_step_keeps by unfold_locales

lemma records_kept_always: "db_ok db \<Longrightarrow> records_kept db (run_ops (db_step tbl) db ops)"
  using journal.run_stable [of db "records_kept db" tbl ops] by (blast intro: records_kept_trans records_kept_refl)

subsection \<open>Every history from an empty store\<close>

definition empty_store :: "(string \<times> HumanDecision) list \<Rightarrow> (string \<times> ArtifactRow) list \<Rightarrow> 'r \<Rightarrow> 'r Database" where
  "empty_store decisions artifacts r =
     \<lparr>db_snapshots = [], db_events = [], db_dedup = [], db_outbox = [], db_receipts = [], db_attempts = [],
      db_decisions = decisions, db_artifacts = artifacts, db_rest = r\<rparr>"

lemma empty_store_ok: "db_ok (empty_store decisions artifacts r)"
  by (simp add: empty_store_def db_ok_def outbox_ok_def snapshots_ok_def effect_of_def outbox_keys_ok_def
      effect_keys_def running_def snapshots_keyed_def)

text \<open>C3: From an empty store, whatever sequence of dispatches, claims, renewals, completions, retries,
  deferrals and failures is executed by any number of workers with any clock readings (operations that raise
  roll back): effect ids and effect keys are unique, every effect stems from a recorded event of its own
  aggregate, attempts stay between 0 and the budget, an effect is in flight exactly while one attempt of its
  current holder is running, it is completed exactly when its receipt with the same request hash is stored,
  and every recorded event belongs to an existing snapshot of at least its version.
\<close>

theorem store_keeps_invariant:
  "db_ok (run_ops (db_step tbl) (empty_store decisions artifacts r) ops)"
  by (rule durable_store.run_inv [OF empty_store_ok])

text \<open>C18: The store refines the life cycle of an effect: between any two points of a history, what happened
  to an effect is a sequence of moves in which it is requested once with a positive budget, claimed while
  attempts are left, taken over, released with at most one attempt given back, completed, or given up. The
  request and the budget never change.
\<close>

theorem outbox_refines_lifecycle:
  "effect_move\<^sup>*\<^sup>* (view_of (run_ops (db_step tbl) (empty_store decisions artifacts r) ops) i)
     (view_of (run_ops (db_step tbl) (empty_store decisions artifacts r) (ops @ ops')) i)"
  unfolding run_ops_append by (rule outbox.run_moves [OF durable_store.run_inv [OF empty_store_ok]])

subsection \<open>One effect through a history\<close>

lemma effect_stable:
  assumes "db_ok db" and "Q (effect_of db i)" and "\<forall>op \<in> set ops. allowed op"
    and stable: "\<And>op x y. allowed op \<Longrightarrow> Q x \<Longrightarrow> effect_change op i x y \<Longrightarrow> Q y"
  shows "Q (effect_of (run_ops (db_step tbl) db ops) i)"
  using assms(1-3)
proof (induction ops arbitrary: db)
  case (Cons op ops)
  have "lawful db op i (db_step tbl db op)" by (rule db_step_lawful [OF Cons.prems(1)])
  with Cons.prems stable [of op "effect_of db i"] show ?case
    by (auto simp: lawful_def intro!: Cons.IH)
qed simp

inductive_cases effect_change_SomeE: "effect_change op i (Some row) y"

lemma settled_change:
  "effect_change op i (Some row) y \<Longrightarrow> ob_status row \<in> {COMPLETED, FAILED} \<Longrightarrow> y = Some row"
  by (auto simp: claimable_def claimed_by_def elim!: effect_change_SomeE)

lemma settled_forever:
  assumes "db_ok db" and "effect_of db i = Some row" and "ob_status row \<in> {COMPLETED, FAILED}"
  shows "effect_of (run_ops (db_step tbl) db ops) i = Some row"
  using effect_stable [of db "\<lambda>x. x = Some row" i ops "\<lambda>_. True" tbl] assms settled_change by blast

lemma claim_rows_ids:
  fixes db :: "'r Database"
  shows "item \<in> set (fst (claim_rows worker now until rows db)) \<Longrightarrow> ce_effect_id item \<in> fst ` set rows"
proof (induction rows arbitrary: db)
  case (Cons x rows)
  obtain i row where x: "x = (i, row)" by fastforce
  show ?case
  proof (cases "map_of (db_outbox db) i")
    case None
    with Cons.prems Cons.IH [of db] show ?thesis by (simp add: x)
  next
    case (Some current)
    show ?thesis
    proof (cases "claimable now current")
      case True
      with Cons.prems Some have "ce_effect_id item = i \<or> (\<exists>db' :: 'r Database. item \<in> set (fst (claim_rows worker now until rows db')))"
        by (simp add: x Let_def case_prod_beta) (erule disjE, simp, blast)
      with Cons.IH show ?thesis by (auto simp: x)
    qed (use Cons.prems Cons.IH [of db] Some in \<open>simp add: x\<close>)
  qed
qed simp

lemma claim_items:
  assumes ok: "db_ok db" and run: "claim_outbox worker limit lease now db = Inr (items, db')"
    and item: "item \<in> set items"
  shows "\<exists>row. effect_of db (ce_effect_id item) = Some row \<and> claimable now row"
proof -
  let ?rows = "select_ready now limit (db_outbox db)"
  have "outbox_keys_ok (db_outbox db)" using ok by (simp add: db_ok_def outbox_ok_def)
  note sel = select_ready_rows [OF this, of now limit]
  have "items = fst (claim_rows worker now (now + max 1 lease) ?rows db)"
    using run by (simp add: claim_outbox_def)
  with item have "ce_effect_id item \<in> fst ` set ?rows" using claim_rows_ids by blast
  then obtain row where "(ce_effect_id item, row) \<in> set ?rows" by force
  with sel show ?thesis by (fastforce simp: current_rows_def)
qed

lemma unclaimable_not_claimed:
  assumes "db_ok db" and "effect_of db i = Some row" and "\<And>now. \<not> claimable now row"
    and "claim_outbox worker limit lease now db = Inr (items, db')"
  shows "i \<notin> ce_effect_id ` set items"
proof
  assume "i \<in> ce_effect_id ` set items"
  then obtain item where "item \<in> set items" "ce_effect_id item = i" by blast
  with claim_items [OF assms(1,4)] assms(2,3) show False by fastforce
qed

subsection \<open>Completion, exclusiveness, lost claims\<close>

lemma completion_run:
  assumes ok: "db_ok db" and run: "complete_outbox_effect ports i worker provider ref now db = Inr (True, db')"
  shows "\<exists>row. effect_of db i = Some row \<and> claimed_by worker row \<and> db_ok db'
    \<and> effect_of db' i = Some (completed_row provider ref now row)
    \<and> map_of (db_receipts db') (row_key row) = Some (receipt_of i provider ref now row)"
  using complete_effects [OF ok run] by (auto simp: map_of_append_new simp del: map_of_append)

text \<open>C6: Completing an effect succeeds at most once. Once a completion has reported success, whatever follows,
  the effect stays completed with that provider request and result, its receipt stays as it was written, no
  claim hands the effect out again, and a further completion, by anyone and with any result, changes nothing:
  it reports the duplicate, or refuses result references that are not durable.
\<close>

theorem effect_completed_once:
  assumes ok: "db_ok db" and run: "complete_outbox_effect ports i worker provider ref now db = Inr (True, db1)"
    and later: "db2 = run_ops (db_step tbl) db1 ops"
  shows "(\<exists>row. effect_of db2 i = Some row \<and> ob_status row = COMPLETED \<and> ob_provider_request_id row = provider
        \<and> ob_result_ref row = ref \<and> map_of (db_receipts db2) (row_key row) = Some (receipt_of i provider ref now row))
    \<and> (\<forall>worker' limit lease now' items db3. claim_outbox worker' limit lease now' db2 = Inr (items, db3)
         \<longrightarrow> i \<notin> ce_effect_id ` set items)
    \<and> (\<forall>ports' worker' provider' ref' now'. complete_outbox_effect ports' i worker' provider' ref' now' db2 =
         rbind (assert_artifact_refs_durable (is_file ports') (db_artifacts db2) (PDict ref')) (\<lambda>_. Inr (False, db2)))"
proof -
  obtain row where row: "db_ok db1" "effect_of db1 i = Some (completed_row provider ref now row)"
    "map_of (db_receipts db1) (row_key row) = Some (receipt_of i provider ref now row)"
    using completion_run [OF ok run] by blast
  let ?row = "completed_row provider ref now row"
  have ok2: "db_ok db2" unfolding later by (rule durable_store.run_inv [OF row(1)])
  have now_row: "effect_of db2 i = Some ?row"
    unfolding later by (rule settled_forever [OF row(1,2)]) (simp add: completed_row_def)
  have receipt: "map_of (db_receipts db2) (row_key row) = Some (receipt_of i provider ref now row)"
    using records_kept_always [OF row(1), of tbl ops] extends_map_of [OF _ row(3)]
    by (simp add: later records_kept_def)
  have same: "row_key ?row = row_key row" "receipt_of i provider ref now ?row = receipt_of i provider ref now row"
    by (simp_all add: row_key_def receipt_of_def completed_row_def)
  have "i \<notin> ce_effect_id ` set items" if "claim_outbox worker' limit lease now' db2 = Inr (items, db3)"
    for worker' limit lease now' items db3
    by (rule unclaimable_not_claimed [OF ok2 now_row _ that]) (simp add: claimable_def completed_row_def)
  moreover have "complete_outbox_effect ports' i worker' provider' ref' now' db2 =
      rbind (assert_artifact_refs_durable (is_file ports') (db_artifacts db2) (PDict ref')) (\<lambda>_. Inr (False, db2))"
    for ports' worker' provider' ref' now'
    using now_row receipt same(1)
    by (simp add: complete_outbox_effect_def effect_of_def Let_def receipt_of_def completed_row_def row_key_def)
  moreover have "ob_status ?row = COMPLETED \<and> ob_provider_request_id ?row = provider \<and> ob_result_ref ?row = ref"
    by (simp add: completed_row_def)
  moreover have "map_of (db_receipts db2) (row_key ?row) = Some (receipt_of i provider ref now ?row)"
    using receipt same by simp
  ultimately show ?thesis using now_row by (intro conjI exI [of _ ?row]) simp_all
qed

text \<open>The operations that leave a claim of a worker alone until its lock expires.\<close>

fun leaves_claim :: "string \<Rightarrow> string \<Rightarrow> int \<Rightarrow> 'r db_op \<Rightarrow> bool" where
  "leaves_claim i w t (ClaimEffects worker limit lease now) = (now < t)"
| "leaves_claim i w t (RenewClaim j worker lease now) = (j \<noteq> i \<or> worker \<noteq> w)"
| "leaves_claim i w t (CompleteEffect ports j worker provider ref now) = (j \<noteq> i \<or> worker \<noteq> w)"
| "leaves_claim i w t (RetryEffect ports j worker error_text delay triage now) = (j \<noteq> i \<or> worker \<noteq> w)"
| "leaves_claim i w t (DeferEffect j worker reason inc now) = (j \<noteq> i \<or> worker \<noteq> w)"
| "leaves_claim i w t (FailEffect ports j worker error_text triage now) = (j \<noteq> i \<or> worker \<noteq> w)"
| "leaves_claim i w t (Dispatch ports a x h) = True"

lemma left_claim:
  assumes "leaves_claim i w t op" and "effect_change op i (Some row) y"
    and "claimed_by w row" and "ob_locked_until row = Some t"
  shows "y = Some row"
  using assms(2,1,3,4) by cases (auto simp: claimable_def claimed_by_def lock_expired_def)

text \<open>C30: Until the lock of a claimed effect expires, nobody but its holder can disturb it: whatever other
  workers claim, renew, complete, retry, defer or fail (even naming this effect), and whatever is dispatched,
  the row stays exactly as it is, and the holder can then still defer it, fail it, and complete it with durable
  result references.
\<close>

theorem live_claim_is_exclusive:
  assumes ok: "db_ok db" and row: "effect_of db i = Some row" and held: "claimed_by w row"
    and lock: "ob_locked_until row = Some t" and others: "\<forall>op \<in> set ops. leaves_claim i w t op"
    and later: "db' = run_ops (db_step tbl) db ops"
  shows "effect_of db' i = Some row
    \<and> (\<exists>db''. defer_outbox_effect i w reason inc now db' = Inr ((), db''))
    \<and> (\<exists>db''. fail_outbox_effect ports tbl i w error_text None now db' = Inr (None, db''))
    \<and> (assert_artifact_refs_durable (is_file ports) (db_artifacts db') (PDict ref) = Inr ()
        \<longrightarrow> (\<exists>db''. complete_outbox_effect ports i w provider ref now db' = Inr (True, db'')))"
proof -
  have row': "effect_of db' i = Some row"
    unfolding later
    by (rule effect_stable [OF ok, where Q = "\<lambda>x. x = Some row" and allowed = "leaves_claim i w t"])
       (use row held lock others left_claim in auto)
  have "outbox_ok db'" using durable_store.run_inv [OF ok, of tbl ops] by (simp add: later db_ok_def)
  note cases = defer_cases [OF this row' held] fail_cases [OF this row' held] complete_cases [OF this row' held]
  have "\<exists>db''. fail_outbox_effect ports tbl i w error_text None now db' = Inr (None, db'')"
    using cases(2) [of error_text now ports tbl None] by (auto simp: dispatch_if_def)
  with row' cases(1) [of reason inc now] cases(3) show ?thesis by blast
qed

text \<open>
  A worker that does not hold an effect cannot settle it: renewing, retrying, deferring and failing it
  raise and a completion never succeeds. It stays so until that worker claims again, whatever happens
  otherwise: a worker whose claim expired and was taken over never gets it back by itself.
\<close>

theorem lost_claim_stays_lost:
  assumes ok: "db_ok db" and lost: "\<forall>row. effect_of db i = Some row \<longrightarrow> \<not> claimed_by w row"
    and others: "\<forall>op \<in> set ops. \<forall>limit lease now. op \<noteq> ClaimEffects w limit lease now"
    and later: "db' = run_ops (db_step tbl) db ops"
  shows "(\<exists>e. renew_outbox_claim i w lease now db' = Inl e)
    \<and> (\<exists>e. retry_outbox_effect ports tbl i w error_text delay triage now db' = Inl e)
    \<and> (\<exists>e. defer_outbox_effect i w error_text inc now db' = Inl e)
    \<and> (\<exists>e. fail_outbox_effect ports tbl i w error_text triage now db' = Inl e)
    \<and> (\<forall>db''. complete_outbox_effect ports i w provider ref now db' \<noteq> Inr (True, db''))"
proof -
  have "\<forall>row. effect_of db' i = Some row \<longrightarrow> \<not> claimed_by w row"
    unfolding later
  proof (rule effect_stable [OF ok, where allowed = "\<lambda>op. \<forall>limit lease now. op \<noteq> ClaimEffects w limit lease now"])
    fix op :: "'a db_op" and x y
    assume "\<forall>limit lease now. op \<noteq> ClaimEffects w limit lease now" "\<forall>row. x = Some row \<longrightarrow> \<not> claimed_by w row"
      "effect_change op i x y"
    then show "\<forall>row. y = Some row \<longrightarrow> \<not> claimed_by w row"
      by (auto elim!: effect_change.cases simp: fresh_effect_def claimed_by_def claim_row_def completed_row_def
          released_row_defs split: if_splits)
  qed (use lost others in auto)
  then have no: "\<not> (\<exists>row. effect_of db' i = Some row \<and> claimed_by w row)" by blast
  have "\<exists>e. renew_outbox_claim i w lease now db' = Inl e"
    using no by (auto simp: renew_outbox_claim_def effect_of_def split: option.split)
  with settle_unheld [OF no] show ?thesis by blast
qed

subsection \<open>A deferral that strands the effect\<close>

lemma stranded_change:
  assumes "effect_change op i (Some row) y" and "ob_status row = PENDING" and "ob_max_attempts row \<le> ob_attempts row"
  shows "y = Some row"
  using assms by cases (auto simp: claimable_def claimed_by_def)

text \<open>C40: Deferring an effect is meant to return it to the queue without spending an attempt. But when the
  worker took the effect over from an expired claim of its last attempt (a takeover does not count as a new
  attempt, so the deferral gives none back), the deferral leaves the effect pending with its attempts used up:
  no claim ever selects it again, nobody can settle it, and whatever happens it stays pending for good, neither
  completed nor failed, with no triage action dispatched.
\<close>

theorem deferred_takeover_is_stranded:
  assumes ok: "db_ok db" and row: "effect_of db i = Some row" and held: "claimed_by w row"
    and last: "ob_attempts row = ob_max_attempts row"
    and later: "rbind (defer_outbox_effect i w reason False now db)
      (\<lambda>(_, db1). Inr (run_ops (db_step tbl) db1 ops)) = Inr db2"
  shows "(\<exists>row'. effect_of db2 i = Some row' \<and> ob_status row' = PENDING \<and> ob_attempts row' = ob_max_attempts row')
    \<and> (\<forall>worker limit lease now' items db3. claim_outbox worker limit lease now' db2 = Inr (items, db3)
         \<longrightarrow> i \<notin> ce_effect_id ` set items)
    \<and> (\<forall>worker. \<not> (\<exists>row'. effect_of db2 i = Some row' \<and> claimed_by worker row'))"
proof -
  let ?row = "deferred_row reason False now row"
  obtain db1 where run: "defer_outbox_effect i w reason False now db = Inr ((), db1)"
    and db2: "db2 = run_ops (db_step tbl) db1 ops"
    using later by auto
  have budget: "0 \<le> ob_attempts row" using ok row by (auto simp: db_ok_def outbox_ok_def row_ok_def)
  from defer_run [OF ok run] row have row1: "effect_of db1 i = Some ?row"
    by (auto simp: releases_def effect_of_def update_conv')
  have ok1: "db_ok db1" using defer_lawful [OF ok run] by (simp add: lawful_def)
  have stuck: "ob_status ?row = PENDING" "ob_attempts ?row = ob_max_attempts ?row"
    using budget last by (simp_all add: deferred_row_def)
  have row2: "effect_of db2 i = Some ?row"
    unfolding db2
    by (rule effect_stable [OF ok1, where Q = "\<lambda>x. x = Some ?row" and allowed = "\<lambda>_. True"])
       (use row1 stuck in \<open>auto intro: stranded_change\<close>)
  have "db_ok db2" unfolding db2 by (rule durable_store.run_inv [OF ok1])
  moreover have "\<not> claimable now' ?row" for now' using stuck by (simp add: claimable_def)
  ultimately have "i \<notin> ce_effect_id ` set items" if "claim_outbox worker limit lease now' db2 = Inr (items, db3)"
    for worker limit lease now' items db3
    using unclaimable_not_claimed [OF _ row2 _ that] by blast
  with row2 stuck show ?thesis by (auto simp: claimed_by_def)
qed

subsection \<open>Dispatching\<close>

text \<open>C19: Dispatching is idempotent for good. Once an action has been dispatched, then after any history
  the same request under the same idempotency key returns the recorded result, marked as a duplicate, and moves
  no aggregate: without a role result it changes nothing at all, and with a role result it does what settling this
  result does to the tables of the other stores, failing if that fails, and changes no table of the dispatch store.
  A different request under that key is refused.
\<close>

theorem dispatch_is_idempotent:
  assumes ok: "db_ok db" and run: "dispatch ports tbl a x h db = Inr (res, db1)"
    and later: "db2 = run_ops (db_step tbl) db1 ops"
    and key: "aggregate_type b = aggregate_type a" "aggregate_id b = aggregate_id a" "dedup_key b = dedup_key a"
  shows "dispatch ports tbl b assignment payload_hash db2 =
    (if (assignment \<noteq> []) \<noteq> (payload_hash \<noteq> [])
     then Inl (ValueError ''role submission settlement requires assignment id and payload hash'')
     else if hash_json ports (action_request_payload b) \<noteq> hash_json ports (action_request_payload a)
     then Inl (ValueError ''idempotency key was reused with a different action request'')
     else if assignment = [] then Inr (res\<lparr>res_duplicate := True\<rparr>, db2)
     else case settle_role ports db2 assignment payload_hash b of
         Inl e \<Rightarrow> Inl e
       | Inr r \<Rightarrow> Inr (res\<lparr>res_duplicate := True\<rparr>, db2\<lparr>db_rest := r\<rparr>))"
proof -
  have ok1: "db_ok db1" using dispatch_ok [OF ok run] .
  have recorded: "\<exists>row. map_of (db_dedup db1) (dedup_table_key a) = Some row
      \<and> dd_hash row = hash_json ports (action_request_payload a) \<and> (dd_result row)\<lparr>res_duplicate := True\<rparr> = res\<lparr>res_duplicate := True\<rparr>"
  proof (cases "map_of (db_dedup db) (dedup_table_key a)")
    case (Some row)
    from dispatch_duplicate [OF this run] Some show ?thesis by auto
  next
    case None
    from dispatch_fresh [OF None run] obtain decisions out mid r where
      step: "transition tbl (read_snapshot db (aggregate_type a) (aggregate_id a)) a = Inr out"
      and stored: "store_outcome ports a (read_snapshot db (aggregate_type a) (aggregate_id a)) out
          (db\<lparr>db_decisions := decisions\<rparr>) = Inr (res, mid)" and db1: "db1 = mid\<lparr>db_rest := r\<rparr>" by blast
    have keyed: "snapshots_keyed (db_snapshots db)" "outbox_keys_ok (db_outbox db)"
      using ok by (simp_all add: db_ok_def outbox_ok_def snapshots_ok_def)
    from store_outcome_tables(6) [OF step stored keyed] None show ?thesis
      by (simp add: db1 map_of_append_new del: map_of_append)
  qed
  then obtain row where row: "map_of (db_dedup db1) (dedup_table_key a) = Some row"
    "dd_hash row = hash_json ports (action_request_payload a)"
    "(dd_result row)\<lparr>res_duplicate := True\<rparr> = res\<lparr>res_duplicate := True\<rparr>" by blast
  have "map_of (db_dedup db2) (dedup_table_key a) = Some row"
    using records_kept_always [OF ok1, of tbl ops] extends_map_of [OF _ row(1)]
    by (simp add: later records_kept_def)
  moreover have "dedup_table_key b = dedup_table_key a" using key by (simp add: dedup_table_key_def)
  ultimately show ?thesis using row(2,3)
    by (simp add: dispatch_def settle_if_def rbind_def split: sum.split)
qed

text \<open>A fresh action that is dispatched successfully moves exactly the addressed aggregate, by one engine
  step and one version; its domain events are appended, all with the new version, and each effect of the step
  becomes one new pending outbox row with fresh ids; no other snapshot, event or effect is touched.
\<close>

theorem dispatch_moves_one_aggregate:
  assumes ok: "db_ok db" and run: "dispatch ports tbl a x h db = Inr (res, db')"
    and new: "map_of (db_dedup db) (dedup_table_key a) = None"
  shows "\<exists>out added. transition tbl (read_snapshot db (aggregate_type a) (aggregate_id a)) a = Inr out
    \<and> map_of (db_snapshots db') = (map_of (db_snapshots db))((aggregate_type a, aggregate_id a) \<mapsto> out_snapshot out)
    \<and> res_snapshot res = out_snapshot out \<and> \<not> res_duplicate res
    \<and> db_events db' = db_events db @ res_events res
    \<and> map ev_type (res_events res) = map event_type (out_events out)
    \<and> (\<forall>e \<in> set (res_events res). ev_version e = snap_version (out_snapshot out) \<and> ev_action_id e = action_id a)
    \<and> db_outbox db' = db_outbox db @ added \<and> map fst added = res_effect_ids res
    \<and> length added = length (out_effects out) \<and> (\<forall>(i, row) \<in> set added. ob_status row = PENDING \<and> ob_attempts row = 0)
    \<and> distinct (map fst (db_outbox db'))"
proof -
  from dispatch_fresh [OF new run] obtain decisions out mid r where
    step: "transition tbl (read_snapshot db (aggregate_type a) (aggregate_id a)) a = Inr out"
    and stored: "store_outcome ports a (read_snapshot db (aggregate_type a) (aggregate_id a)) out
        (db\<lparr>db_decisions := decisions\<rparr>) = Inr (res, mid)" and db': "db' = mid\<lparr>db_rest := r\<rparr>" by blast
  have keyed: "snapshots_keyed (db_snapshots db)" "outbox_keys_ok (db_outbox db)"
    using ok by (simp_all add: db_ok_def outbox_ok_def snapshots_ok_def)
  note tables = store_outcome_tables [OF step stored keyed]
  from tables(4) obtain event added where added: "db_outbox mid = db_outbox db @ added" "map fst added = res_effect_ids res"
    "\<forall>(i, row) \<in> set added. fresh_effect a event row" "outbox_keys_ok (db_outbox mid)" by blast
  have "length added = length (out_effects out)" using added(2) tables(10) by (metis length_map)
  moreover have "\<forall>(i, row) \<in> set added. ob_status row = PENDING \<and> ob_attempts row = 0"
    using added(3) by (auto simp: fresh_effect_def)
  moreover have "distinct (map fst (db_outbox db'))" using added(4) by (simp add: db' outbox_keys_ok_def)
  ultimately show ?thesis
    using step tables(1,2,3,8,9) added(1,2) by (intro exI [of _ out] exI [of _ added]) (simp add: db')
qed

end
