(* ===== verification/Machine_Rules.thy ===== *)
theory Machine_Rules
  imports Engine
begin

section \<open>Guards, reducers, effects and resolvers of the Bunshin machines\<close>

text \<open>
  The building blocks of \<open>bunshin/machines.py\<close>, in the order of the file. A guard is a check that may
  raise \<open>TransitionGuardError\<close>; a reducer computes the next payload; an effect builder lists the outbox
  effects; a resolver picks the target of a dynamic transition from the payload after reduction.
  Conversions of payload fields (\<open>int\<close>, \<open>dict\<close>, \<open>list\<close>) raise as the built-ins do.
\<close>

subsection \<open>Basic guards\<close>

definition no_guard :: guard where
  "no_guard p a = Inr ()"

definition stamp :: "ActionEnvelope \<Rightarrow> pydict \<Rightarrow> pydict" where
  "stamp a p = dset ''last_actor'' (PStr (actor a)) (dset ''last_action_type'' (PStr (action_type a)) p)"

definition merged :: "pydict \<Rightarrow> ActionEnvelope \<Rightarrow> pydict" where
  "merged p a = stamp a (dupdate p (payload a))"

definition merge_payload :: reducer where
  "merge_payload p a = Inr (merged p a)"

definition required :: "string list \<Rightarrow> guard" where
  "required wanted p a =
     (let missing = filter (\<lambda>f. is_blank (dget (payload a) f)) wanted in
      raise_if (missing \<noteq> []) (TransitionGuardError (action_type a @ '' requires: '' @ join '', '' missing)))"

definition dependency_repair_preparation_guard :: guard where
  "dependency_repair_preparation_guard p a =
     raise_if (truthy (dget (payload a) ''source_pending_verification_ref'')
             \<or> truthy (dget (payload a) ''verification_artifact_ref''))
       (TransitionGuardError ''dependency repair preparation cannot publish a final verification settlement'')"

definition dependency_repair_generation_guard :: guard where
  "dependency_repair_generation_guard p a =
     (let generation = dget_or (payload a) ''graph_generation'' (dget p ''graph_generation'') in
      raise_if (case generation of PInt g \<Rightarrow> g < 1 | _ \<Rightarrow> True)
        (TransitionGuardError ''dependency repair registration requires a graph generation''))"

definition all_guards :: "guard list \<Rightarrow> guard" where
  "all_guards gs p a = first_error (map (\<lambda>g. g p a) gs)"

subsection \<open>Events and effects\<close>

definition lower_char :: "char \<Rightarrow> char" where
  "lower_char c = (let n = (of_char c :: nat) in
     if (65 \<le> n \<and> n \<le> 90) \<or> (192 \<le> n \<and> n \<le> 222 \<and> n \<noteq> 215) then char_of (n + 32) else c)"

definition default_events :: event_builder where
  "default_events p a target_state =
     [\<lparr>event_type = aggregate_value (aggregate_type a) @ ''.'' @ map lower_char (action_type a),
       event_payload = [(''target_state'', PStr target_state), (''action_payload'', PDict (payload a))]\<rparr>]"

definition envelope_ids :: "ActionEnvelope \<Rightarrow> pydict" where
  "envelope_ids a = [(''workflow_id'', PStr (workflow_id a)),
     (''aggregate_type'', PStr (aggregate_value (aggregate_type a))), (''aggregate_id'', PStr (aggregate_id a))]"

definition effect :: "string \<Rightarrow> pydict \<Rightarrow> effect_builder" where
  "effect etype fixed_payload p a target_state =
     Inr [effect_draft etype (dupdate fixed_payload (envelope_ids a))]"

definition reconcile_dependency_repairs_effect :: effect_builder where
  "reconcile_dependency_repairs_effect p a target_state =
     rbind (int_or_zero (dget p ''graph_generation'')) (\<lambda>generation.
     rbind (dict_or_empty (dget (payload a) ''dependency_repair_capture_ref'')) (\<lambda>capture.
     rbind (dict_or_empty (dget (payload a) ''dependency_repair_incarnation_ref'')) (\<lambda>incarnation.
     Inr [effect_draft ''reconcile_dependency_repairs''
       (envelope_ids a @ [(''graph_generation'', PInt generation),
          (''dependency_repair_capture_ref'', PDict capture),
          (''dependency_repair_incarnation_ref'', PDict incarnation)])])))"

definition effects :: "string list \<Rightarrow> effect_builder" where
  "effects effect_types p a target_state = Inr (map (\<lambda>t. effect_draft t (envelope_ids a)) effect_types)"

definition combined_effects :: "effect_builder list \<Rightarrow> effect_builder" where
  "combined_effects builders p a target_state =
     rbind (map_res (\<lambda>b. b p a target_state) builders) (\<lambda>ess. Inr (concat ess))"

definition no_effects :: effect_builder where
  "no_effects p a target_state = Inr []"

text \<open>
  \<open>_spec\<close> with its keyword defaults; a keyword argument of the source is a record update of the result.
\<close>

definition spec :: "AggregateType \<Rightarrow> string option \<Rightarrow> string \<Rightarrow> target \<Rightarrow> TransitionSpec" where
  "spec kind source action target =
     \<lparr>ts_aggregate_type = kind, ts_source_state = source, ts_action_type = action, ts_target_state = target,
      ts_reducer = merge_payload, ts_guard = no_guard, ts_event_builder = default_events,
      ts_effect_builder = no_effects\<rparr>"

lemma table_simps [simp]:
  "ts_aggregate_type (spec k src act tgt) = k"
  "ts_source_state (spec k src act tgt) = src"
  "ts_action_type (spec k src act tgt) = act"
  "ts_target_state (spec k src act tgt) = tgt"
  "ts_guard (spec k src act tgt) = no_guard"
  "ts_reducer (spec k src act tgt) = merge_payload"
  "ts_effect_builder (spec k src act tgt) = no_effects"
  "ts_event_builder (spec k src act tgt) = default_events"
  by (simp_all add: spec_def)

subsection \<open>Reducers\<close>

definition pause_reducer :: "string \<Rightarrow> reducer" where
  "pause_reducer resume_state p a = Inr (dset ''resume_state'' (PStr resume_state) (merged p a))"

definition triage_reducer :: "string \<Rightarrow> reducer" where
  "triage_reducer resume_state p a = Inr (dset ''triage_resume_state'' (PStr resume_state) (merged p a))"

definition lease_fields :: "string list" where
  "lease_fields = [''active_worker_id'', ''fencing_token'', ''lease_resource_key'']"

definition resume_cleaned :: "pydict \<Rightarrow> ActionEnvelope \<Rightarrow> pydict" where
  "resume_cleaned p a = dpops (''blocker'' # lease_fields) (merged p a)"

definition resume_cleanup_reducer :: reducer where
  "resume_cleanup_reducer p a = Inr (resume_cleaned p a)"

definition workflow_cancel_reducer :: reducer where
  "workflow_cancel_reducer p a =
     Inr (dpops [''restart_execution_request'', ''restart_cancel_requested''] (merged p a))"

definition restart_cancel_reducer :: reducer where
  "restart_cancel_reducer p a = Inr (dset ''restart_cancel_requested'' (PBool True) (merged p a))"

definition worker_finished :: "pydict \<Rightarrow> ActionEnvelope \<Rightarrow> pydict" where
  "worker_finished p a = dpops lease_fields (merged p a)"

definition worker_finished_reducer :: reducer where
  "worker_finished_reducer p a = Inr (worker_finished p a)"

definition architecture_review_passed_reducer :: reducer where
  "architecture_review_passed_reducer p a =
     Inr (dpops [''finding_artifact_ref'', ''findings''] (worker_finished p a))"

text \<open>The digest by which a pending finding is recognised, and the search for an existing entry.\<close>

definition ref_digest :: "pydict \<Rightarrow> string" where
  "ref_digest ref = str_or_empty (dget ref ''sha256'')"

definition finding_digest :: "pydict \<Rightarrow> string res" where
  "finding_digest item = rbind (dict_or_empty (dget item ''finding_artifact_ref'')) (\<lambda>ref. Inr (ref_digest ref))"

fun find_finding :: "string \<Rightarrow> nat \<Rightarrow> pydict list \<Rightarrow> nat option res" where
  "find_finding digest i [] = Inr None"
| "find_finding digest i (item # items) =
     rbind (finding_digest item) (\<lambda>d. if d = digest then Inr (Some i) else find_finding digest (Suc i) items)"

definition nonblank_items :: "pydict \<Rightarrow> pydict" where
  "nonblank_items d = filter (\<lambda>(k, v). \<not> is_blank v) d"

definition finding_entry :: "ActionEnvelope \<Rightarrow> pydict \<Rightarrow> pydict" where
  "finding_entry a finding_ref =
     [(''finding_artifact_ref'', PDict finding_ref),
      (''finding_fingerprint'', PStr (str_or_empty (dget (payload a) ''finding_fingerprint''))),
      (''source_node'', PStr (str_or_empty (dget (payload a) ''source_node'')))]"

definition merge_finding :: "string \<Rightarrow> pydict \<Rightarrow> pydict list \<Rightarrow> pydict list res" where
  "merge_finding digest entry pending =
     rbind (find_finding digest 0 pending) (\<lambda>i. Inr (case i of
         None \<Rightarrow> pending @ [entry]
       | Some n \<Rightarrow> pending[n := dupdate (pending ! n) (nonblank_items entry)]))"

definition sort_findings :: "pydict list \<Rightarrow> pydict list res" where
  "sort_findings items = rbind (map_res finding_digest items) (\<lambda>ds. Inr (map snd (sort_key fst (zip ds items))))"

definition dicts_of :: "pyval \<Rightarrow> pydict list res" where
  "dicts_of v = rbind (list_or_empty v) (map_res dict_or_empty)"

definition sorted_str_set :: "string list \<Rightarrow> pyval" where
  "sorted_str_set xs = PList (map PStr (sort (remdups xs)))"

definition replan_finding_reducer :: reducer where
  "replan_finding_reducer p a =
     rbind (dict_or_empty (dget (payload a) ''finding_artifact_ref'')) (\<lambda>finding_ref.
     rbind (dicts_of (dget p ''pending_replan_findings'')) (\<lambda>pending.
     rbind (merge_finding (ref_digest finding_ref) (finding_entry a finding_ref) pending) (\<lambda>pending'.
     rbind (sort_findings pending') (\<lambda>sorted.
     let updated = dset ''pending_replan_findings'' (PList (map PDict sorted)) p;
         source_node = str_or_empty (dget (payload a) ''source_node'') in
     if source_node \<noteq> [] then
       rbind (list_or_empty (dget p ''replan_source_nodes'')) (\<lambda>sources.
       Inr (stamp a (dset ''replan_source_nodes'' (sorted_str_set (map py_str sources @ [source_node])) updated)))
     else Inr (stamp a updated)))))"

definition replan_batch_ready_reducer :: reducer where
  "replan_batch_ready_reducer p a =
     rbind (int_or_zero (dget p ''replan_generation'')) (\<lambda>g.
     Inr (dpops [''pending_replan_findings'', ''replan_source_nodes'']
       (dset ''replan_generation'' (PInt (g + 1)) (merged p a))))"

definition successor_epoch_started_reducer :: reducer where
  "successor_epoch_started_reducer p a =
     Inr (dset ''successor_execution_epoch_id''
       (PStr (str_or_empty (dget (payload a) ''successor_execution_epoch_id''))) (merged p a))"

definition reopen_replan_collection_reducer :: reducer where
  "reopen_replan_collection_reducer p a =
     rbind (dicts_of (dget (payload a) ''finding_entries'')) (\<lambda>entries.
     Inr (stamp a (dpops [''replan_finding_batch_ref'', ''replan_finding_fingerprints'',
          ''active_replan_revision_id'', ''failure_artifact_ref'', ''blocker'']
       (dset ''pending_replan_findings'' (PList (map PDict entries)) p))))"

definition architecture_review_reopened_reducer :: reducer where
  "architecture_review_reopened_reducer p a =
     rbind (int_or_zero (dget p ''architecture_review_generation'')) (\<lambda>g.
     Inr (dpops [''review_artifact_ref'', ''human_review_card_ref'']
       (dset ''architecture_review_generation'' (PInt (g + 1)) (worker_finished p a))))"

definition human_review_card_refresh_reducer :: reducer where
  "human_review_card_refresh_reducer p a = Inr (stamp a (dpop ''human_review_card_ref'' p))"

definition human_review_card_refresh_guard :: guard where
  "human_review_card_refresh_guard p a =
     rbind (dict_or_empty (dget p ''architecture_manifest_ref'')) (\<lambda>active.
     rbind (dict_or_empty (dget (payload a) ''architecture_manifest_ref'')) (\<lambda>requested.
     raise_if (active = [] \<or> \<not> py_eq (PDict requested) (PDict active))
       (TransitionGuardError ''REFRESH_HUMAN_REVIEW_CARD must name the active architecture manifest'')))"

definition architecture_submission_reducer :: reducer where
  "architecture_submission_reducer p a =
     rbind (int_or_zero (dget p ''architecture_submission_cycle'')) (\<lambda>g.
     Inr (dset ''architecture_submission_cycle'' (PInt (g + 1)) (merged p a)))"

definition architecture_snapshotted_reducer :: reducer where
  "architecture_snapshotted_reducer p a =
     rbind (architecture_submission_reducer p a) (\<lambda>u. Inr (dpop ''architecture_repair_baseline_ref'' u))"

definition subscript :: "pydict \<Rightarrow> string \<Rightarrow> pyval res" where
  "subscript d k = (case map_of d k of None \<Rightarrow> Inl (KeyError k) | Some v \<Rightarrow> Inr v)"

definition task_revision_appended_reducer :: reducer where
  "task_revision_appended_reducer p a =
     rbind (rbind (subscript (payload a) ''task_revision'') py_dict) (\<lambda>revision.
     rbind (rbind (subscript (payload a) ''requirements_ref'') py_dict) (\<lambda>requirements.
     rbind (subscript (payload a) ''task_revision_digest'') (\<lambda>digest.
     Inr (dset ''last_task_revision_digest'' (PStr (py_str digest))
         (dset ''last_task_revision_ref'' (PDict requirements)
         (dset ''last_task_revision'' (PDict revision) (merged p a)))))))"

definition worker_started :: "pydict \<Rightarrow> ActionEnvelope \<Rightarrow> pydict" where
  "worker_started p a = dpops [''blocker'', ''failure_artifact_ref''] (merged p a)"

definition worker_started_reducer :: reducer where
  "worker_started_reducer p a = Inr (worker_started p a)"

definition workspace_lock_fields :: "string list" where
  "workspace_lock_fields =
     [''process_group_reaped'', ''exclusive_workspace_lock'', ''workspace_fingerprint'', ''workspace_lock_path'']"

definition architecture_worker_started_reducer :: reducer where
  "architecture_worker_started_reducer p a =
     Inr (dpops (workspace_lock_fields @ [''pending_architecture_submission_ref'', ''architect_checklist_ref''])
       (worker_started p a))"

definition architecture_resume_cleanup_reducer :: reducer where
  "architecture_resume_cleanup_reducer p a =
     (let updated = dpop ''failure_artifact_ref'' (resume_cleaned p a);
          source_field = (if action_type a = ''RESOLVE_TRIAGE'' then ''triage_resume_state'' else ''resume_state'');
          source = str_or_empty (dget p source_field) in
      Inr (if source \<noteq> ''ARCHITECT_SNAPSHOTTING'' then dpops workspace_lock_fields updated else updated))"

fun unhashable :: "pyval \<Rightarrow> bool" where
  "unhashable (PList xs) = True"
| "unhashable (PDict d) = True"
| "unhashable _ = False"

definition node_has_terminal_verification_blocker :: "pydict \<Rightarrow> bool res" where
  "node_has_terminal_verification_blocker p =
     (if str_or_empty (dget p ''triage_resume_state'') \<noteq> ''REVIEW_SNAPSHOTTING'' then Inr False
      else rbind (dict_or_empty (dget p ''blocker'')) (\<lambda>blocker.
        let kind = dget blocker ''kind'' in
        if unhashable kind then Inl (TypeError ''unhashable type'')
        else Inr (kind \<in> {PStr ''blocking_unknown'', PStr ''invalid_verifier_submission''}
          \<and> truthy (dget p ''verification_artifact_ref''))))"

definition direct_rebound_fields :: "string list" where
  "direct_rebound_fields =
     [''candidate_ref'', ''candidate_digest'', ''unit_work_view_ref'', ''pending_verification_ref'',
      ''verification_artifact_ref'', ''producer_report_ref'', ''failure_history'',
      ''verification_correction_attempts'', ''finding_artifact_ref'']"

definition node_resume_cleanup_reducer :: reducer where
  "node_resume_cleanup_reducer p a =
     (let updated = dpop ''failure_artifact_ref'' (resume_cleaned p a);
          rebound = truthy (dget (payload a) ''direct_task_rebound'');
          source = (if rebound then ''PRODUCING'' else str_or_empty (dget p ''triage_resume_state'')) in
      rbind (if rebound then
               rbind (int_or_zero (dget p ''candidate_cycle'')) (\<lambda>c.
               rbind (int_or_zero (dget p ''verifier_evaluation_generation'')) (\<lambda>g.
               Inr (dset ''verifier_evaluation_generation'' (PInt (g + 1))
                   (dset ''candidate_cycle'' (PInt (c + 1)) (dpops direct_rebound_fields updated)))))
             else Inr updated) (\<lambda>updated.
      rbind (node_has_terminal_verification_blocker p) (\<lambda>retry_verification.
      rbind (if retry_verification then
               rbind (int_or_zero (dget p ''verifier_evaluation_generation'')) (\<lambda>g.
               Inr (dpops [''pending_verification_ref'', ''unknown_blocking'', ''verification_correction_attempts'']
                   (dset ''triage_resume_state'' (PStr ''REVIEW_QUEUED'')
                   (dset ''verifier_evaluation_generation'' (PInt (g + 1)) updated))))
             else Inr updated) (\<lambda>updated.
      Inr (if retry_verification \<or> source \<notin> {''SNAPSHOTTING'', ''REVIEW_SNAPSHOTTING''}
           then dpops workspace_lock_fields updated else updated)))))"

definition cancel_reducer :: "string \<Rightarrow> reducer" where
  "cancel_reducer cancel_target p a = Inr (dset ''cancel_target'' (PStr cancel_target) (merged p a))"

subsection \<open>Dynamic targets\<close>

definition or_empty_mark :: "string \<Rightarrow> string" where
  "or_empty_mark s = (if s = [] then ''<empty>'' else s)"

definition resume_target :: "string list \<Rightarrow> string \<Rightarrow> target" where
  "resume_target allowed_states field = DynamicTarget (field @ ''_target'') (remdups allowed_states)
     (\<lambda>p a. let target = str_or_empty (dget p field) in
        if target \<notin> set allowed_states
        then Inl (TransitionGuardError (''invalid '' @ field @ '': '' @ or_empty_mark target))
        else Inr target)"

definition mapped_resume_target :: "(string \<times> string) list \<Rightarrow> string \<Rightarrow> target" where
  "mapped_resume_target mapping field = DynamicTarget (''mapped_'' @ field @ ''_target'') (remdups (map snd mapping))
     (\<lambda>p a. let source = str_or_empty (dget p field) in
        case map_of mapping source of
          None \<Rightarrow> Inl (TransitionGuardError (''invalid '' @ field @ '': '' @ or_empty_mark source))
        | Some target \<Rightarrow> Inr target)"

definition mapped_triage_resume_target :: "(string \<times> string) list \<Rightarrow> target" where
  "mapped_triage_resume_target mapping = DynamicTarget ''triage_resume_target'' (remdups (map snd mapping))
     (\<lambda>p a.
        if aggregate_type a = DAG_NODE_RUN \<and> truthy (dget (payload a) ''direct_task_rebound'')
           \<and> dget p ''execution_mode'' = PStr ''direct''
        then Inr ''QUEUED''
        else let source = str_or_empty (dget p ''triage_resume_state'') in
          case map_of mapping source of
            None \<Rightarrow> Inl (TransitionGuardError (''invalid triage resume state: '' @ or_empty_mark source))
          | Some target \<Rightarrow> Inr target)"

definition workflow_cancel_or_restart_target :: target where
  "workflow_cancel_or_restart_target =
     DynamicTarget ''workflow_cancel_or_restart_target'' [''CANCELLED'', ''RESTARTING'']
       (\<lambda>p a. Inr (if truthy (dget p ''restart_execution_request'') then ''RESTARTING'' else ''CANCELLED''))"

definition workflow_cancelled_effects :: effect_builder where
  "workflow_cancelled_effects p a target_state =
     (if target_state = ''RESTARTING'' then effect ''start_replacement_workflow_from_architecture'' [] p a target_state
      else effect ''cleanup_terminal_runtime'' [] p a target_state)"

definition workflow_triage_resume_effects :: effect_builder where
  "workflow_triage_resume_effects p a target_state =
     (if target_state = ''RESTARTING'' then effect ''start_replacement_workflow_from_architecture'' [] p a target_state
      else effect ''reconcile_workflow'' [] p a target_state)"

subsection \<open>Domain guards\<close>

definition str_items :: "pyval \<Rightarrow> string list res" where
  "str_items v = rbind (list_or_empty v) (\<lambda>xs. Inr (map py_str xs))"

definition dependencies_accepted ::
  "string \<Rightarrow> string \<Rightarrow> string \<Rightarrow> guard" where
  "dependencies_accepted dependency_field accepted_field message p a =
     rbind (str_items (dget p dependency_field)) (\<lambda>dependencies.
     rbind (str_items (dget_or (payload a) accepted_field (dget p accepted_field))) (\<lambda>accepted.
     if set dependencies - set accepted \<noteq> {} then Inl (TransitionGuardError message)
     else raise_if (truthy (dget_or (payload a) ''epoch_frozen'' (dget p ''epoch_frozen'')))
       (TransitionGuardError ''execution epoch is frozen'')))"

definition ready_dependencies :: guard where
  "ready_dependencies = dependencies_accepted ''dependency_node_ids'' ''accepted_dependency_node_ids''
     ''node dependencies are not all ACCEPTED''"

definition ready_producer_dependencies :: guard where
  "ready_producer_dependencies = dependencies_accepted ''producer_dependency_node_ids''
     ''accepted_producer_dependency_node_ids'' ''node producer dependencies are not all ACCEPTED''"

definition node_kind :: "string \<Rightarrow> guard" where
  "node_kind expected p a =
     (let actual = py_str (py_or (dget p ''node_kind'') (PStr ''unit'')) in
      raise_if (actual \<noteq> expected)
        (TransitionGuardError (''action requires node_kind='' @ expected @ '', found '' @ actual)))"

definition positive_token :: "pyval \<Rightarrow> bool" where
  "positive_token v = (case v of PInt i \<Rightarrow> 0 < i | PBool b \<Rightarrow> b | _ \<Rightarrow> False)"

definition lease_guard :: guard where
  "lease_guard p a = raise_if (\<not> positive_token (dget (payload a) ''fencing_token''))
     (TransitionGuardError (action_type a @ '' requires a positive fencing_token''))"

fun is_mapping :: "pyval \<Rightarrow> bool" where
  "is_mapping (PDict d) = True"
| "is_mapping _ = False"

definition task_revision_append_guard :: guard where
  "task_revision_append_guard p a =
     rbind (required [''requirements_ref'', ''task_revision'', ''task_revision_digest'', ''task_revision_sequence''] p a) (\<lambda>_.
     raise_if (\<not> is_mapping (dget (payload a) ''task_revision''))
       (TransitionGuardError ''task revision must contain structured communication''))"

definition role_failure_guard :: guard where
  "role_failure_guard p a =
     rbind (required [''failure_artifact_ref'', ''blocker''] p a) (\<lambda>_.
     case dget (payload a) ''blocker'' of
       PDict blocker \<Rightarrow>
         raise_if (strip (str_or_empty (dget blocker ''kind'')) = [] \<or> strip (str_or_empty (dget blocker ''summary'')) = [])
           (TransitionGuardError ''ROLE_FAILED blocker requires kind and summary'')
     | _ \<Rightarrow> Inl (TransitionGuardError ''ROLE_FAILED blocker must be a structured mapping''))"

definition quiesce_guard :: guard where
  "quiesce_guard p a =
     rbind (lease_guard p a) (\<lambda>_.
     rbind (raise_if (dget (payload a) ''process_group_reaped'' \<noteq> PBool True)
       (TransitionGuardError ''worker process owner cleanup is incomplete'')) (\<lambda>_.
     rbind (raise_if (dget (payload a) ''exclusive_workspace_lock'' \<noteq> PBool True)
       (TransitionGuardError ''exclusive worktree lock is required'')) (\<lambda>_.
     raise_if (str_or_empty (dget (payload a) ''workspace_fingerprint'') = [])
       (TransitionGuardError ''worktree fingerprint is required''))))"

definition candidate_guard :: guard where
  "candidate_guard p a =
     rbind (required [''candidate_ref'', ''candidate_digest'', ''workspace_fingerprint''] p a) (\<lambda>_.
     let before = str_or_empty (dget p ''workspace_fingerprint'');
         after = str_or_empty (dget (payload a) ''workspace_fingerprint'') in
     raise_if (before \<noteq> [] \<and> before \<noteq> after)
       (TransitionGuardError ''worktree changed while candidate snapshot was created''))"

definition allowed_unknown_guard :: guard where
  "allowed_unknown_guard p a =
     (if dget (payload a) ''policy_allows_unknown'' \<noteq> PBool True
        then Inl (TransitionGuardError ''UNKNOWN is not allowed by policy'')
      else if dget (payload a) ''assumption_ref'' \<in> {PNone, PStr [], PDict []}
        then Inl (TransitionGuardError ''UNKNOWN requires an Assumption Ledger reference'')
      else raise_if (dget (payload a) ''hard_or_core_semantics'' = PBool True
          \<and> \<not> truthy (dget (payload a) ''human_waiver_ref''))
        (TransitionGuardError ''hard/core UNKNOWN requires a HumanWaiverArtifact''))"

subsection \<open>When the guards pass\<close>

lemma required_Inr [simp]:
  "required wanted p a = Inr u \<longleftrightarrow> (\<forall>f \<in> set wanted. \<not> is_blank (dget (payload a) f))"
  by (auto simp: required_def Let_def filter_empty_conv)

lemma all_guards_Inr [simp]: "all_guards gs p a = Inr u \<longleftrightarrow> (\<forall>g \<in> set gs. g p a = Inr ())"
  by (simp add: all_guards_def)

lemma lease_guard_Inr [simp]: "lease_guard p a = Inr u \<longleftrightarrow> positive_token (dget (payload a) ''fencing_token'')"
  by (simp add: lease_guard_def)

lemma node_kind_Inr [simp]:
  "node_kind k p a = Inr u \<longleftrightarrow> py_str (py_or (dget p ''node_kind'') (PStr ''unit'')) = k"
  by (simp add: node_kind_def Let_def)

lemma quiesce_guard_Inr [simp]:
  "quiesce_guard p a = Inr u \<longleftrightarrow>
     positive_token (dget (payload a) ''fencing_token'')
   \<and> dget (payload a) ''process_group_reaped'' = PBool True
   \<and> dget (payload a) ''exclusive_workspace_lock'' = PBool True
   \<and> str_or_empty (dget (payload a) ''workspace_fingerprint'') \<noteq> []"
  by (auto simp: quiesce_guard_def rbind_check)

lemma candidate_guard_Inr [simp]:
  "candidate_guard p a = Inr u \<longleftrightarrow>
     (\<forall>f \<in> {''candidate_ref'', ''candidate_digest'', ''workspace_fingerprint''}. \<not> is_blank (dget (payload a) f))
   \<and> (str_or_empty (dget p ''workspace_fingerprint'') = []
    \<or> str_or_empty (dget p ''workspace_fingerprint'') = str_or_empty (dget (payload a) ''workspace_fingerprint''))"
  by (auto simp: candidate_guard_def rbind_check Let_def)

lemma role_failure_guard_Inr:
  "role_failure_guard p a = Inr u \<longleftrightarrow>
     \<not> is_blank (dget (payload a) ''failure_artifact_ref'') \<and> \<not> is_blank (dget (payload a) ''blocker'')
   \<and> (\<exists>b. dget (payload a) ''blocker'' = PDict b \<and> strip (str_or_empty (dget b ''kind'')) \<noteq> []
        \<and> strip (str_or_empty (dget b ''summary'')) \<noteq> [])"
  by (auto simp: role_failure_guard_def rbind_check split: pyval.splits)

lemma dependencies_accepted_Inr:
  "dependencies_accepted df af msg p a = Inr u \<longleftrightarrow>
     (\<exists>ds as. str_items (dget p df) = Inr ds \<and> str_items (dget_or (payload a) af (dget p af)) = Inr as
        \<and> set ds \<subseteq> set as \<and> \<not> truthy (dget_or (payload a) ''epoch_frozen'' (dget p ''epoch_frozen'')))"
  by (auto simp: dependencies_accepted_def)

subsection \<open>Payloads after a reducer\<close>

text \<open>A key the engine does not stamp: the action's value where it has one, the old value otherwise.\<close>

lemma map_of_merged:
  "map_of (merged p a) k = (if k = ''last_actor'' then Some (PStr (actor a))
     else if k = ''last_action_type'' then Some (PStr (action_type a))
     else case map_of (payload a) k of None \<Rightarrow> map_of p k | Some v \<Rightarrow> Some v)"
  by (auto simp: merged_def stamp_def map_add_def split: option.splits)

lemma dget_merged:
  "k \<notin> {''last_actor'', ''last_action_type''} \<Longrightarrow>
     dget (merged p a) k = (case map_of (payload a) k of None \<Rightarrow> dget p k | Some v \<Rightarrow> v)"
  by (simp add: dget_def map_of_merged split: option.splits)

lemma dget_merged_given:
  "k \<notin> {''last_actor'', ''last_action_type''} \<Longrightarrow> \<not> is_blank (dget (payload a) k) \<Longrightarrow>
     dget (merged p a) k = dget (payload a) k"
  by (simp add: dget_merged) (auto simp: dget_def is_blank_def split: option.splits)

lemma positive_token_not_blank: "positive_token v \<Longrightarrow> \<not> is_blank v"
  by (auto simp: positive_token_def is_blank_def)

lemma dget_dpops_other: "k \<notin> set ks \<Longrightarrow> dget (dpops ks d) k = dget d k"
  by (simp add: dget_dpops)

lemma worker_finished_drops: "k \<in> set lease_fields \<Longrightarrow> dget (worker_finished p a) k = PNone"
  by (simp add: worker_finished_def dget_dpops)

lemma worker_finished_keeps: "k \<notin> set lease_fields \<Longrightarrow> dget (worker_finished p a) k = dget (merged p a) k"
  by (simp add: worker_finished_def dget_dpops)

lemma resume_cleaned_drops: "k \<in> set (''blocker'' # lease_fields) \<Longrightarrow> dget (resume_cleaned p a) k = PNone"
  unfolding resume_cleaned_def by (simp only: dget_dpops if_True)

lemma resume_cleaned_keeps: "k \<notin> set (''blocker'' # lease_fields) \<Longrightarrow> dget (resume_cleaned p a) k = dget (merged p a) k"
  unfolding resume_cleaned_def by (simp only: dget_dpops if_False)

subsection \<open>Pending replan findings\<close>

lemma dicts_of_dicts [simp]: "dicts_of (PList (map PDict ds)) = Inr ds"
proof -
  have "map_res dict_or_empty (map PDict ds) = Inr ds" by (induction ds) simp_all
  then show ?thesis by (simp add: dicts_of_def)
qed

lemma map_res_append: "map_res f (xs @ ys) = rbind (map_res f xs) (\<lambda>as. rbind (map_res f ys) (\<lambda>bs. Inr (as @ bs)))"
proof (induction xs)
  case (Cons x xs)
  then show ?case by (cases "f x"; cases "map_res f xs"; cases "map_res f ys") auto
qed (cases "map_res f ys"; simp)

lemma map_res_update:
  "map_res f xs = Inr ys \<Longrightarrow> n < length xs \<Longrightarrow> f x = Inr (ys ! n) \<Longrightarrow> map_res f (xs[n := x]) = Inr ys"
  by (induction xs arbitrary: ys n) (auto split: nat.splits)

lemma map_res_of_pairs: "\<forall>(y, x) \<in> set ps. f x = Inr y \<Longrightarrow> map_res f (map snd ps) = Inr (map fst ps)"
  by (induction ps) auto

lemma find_finding_spec:
  assumes "map_res finding_digest items = Inr ds"
  shows "find_finding d i items =
    Inr (if d \<in> set ds then Some (i + length (takeWhile (\<lambda>x. x \<noteq> d) ds)) else None)"
  using assms
proof (induction items arbitrary: ds i)
  case (Cons item items)
  then obtain d' ds' where "finding_digest item = Inr d'" "map_res finding_digest items = Inr ds'" "ds = d' # ds'"
    by auto
  with Cons.IH show ?case by simp
qed simp

lemma finding_digest_entry [simp]: "finding_digest (finding_entry a ref) = Inr (ref_digest ref)"
  by (simp add: finding_digest_def finding_entry_def dget_def)

lemma finding_digest_merged:
  assumes "finding_digest item = Inr (ref_digest ref)"
  shows "finding_digest (dupdate item (nonblank_items (finding_entry a ref))) = Inr (ref_digest ref)"
  using assms
  by (cases "ref = []")
     (auto simp: finding_digest_def finding_entry_def nonblank_items_def dget_dupdate is_blank_def)

lemma merge_finding_digests:
  assumes old: "map_res finding_digest pending = Inr ds"
    and merge: "merge_finding (ref_digest ref) (finding_entry a ref) pending = Inr pending'"
  shows "map_res finding_digest pending' =
    Inr (if ref_digest ref \<in> set ds then ds else ds @ [ref_digest ref])"
proof (cases "ref_digest ref \<in> set ds")
  case True
  define n where "n = length (takeWhile (\<lambda>x. x \<noteq> ref_digest ref) ds)"
  have n: "n < length ds" "ds ! n = ref_digest ref"
    using True unfolding n_def by (induction ds) auto
  have len: "length pending = length ds" using map_res_length [OF old] by simp
  have nth: "finding_digest (pending ! n) = Inr (ds ! n)"
    using old n(1) len
  proof (induction pending arbitrary: ds n)
    case (Cons x xs) then show ?case by (cases n) auto
  qed simp
  from True merge have "pending' = pending[n := dupdate (pending ! n) (nonblank_items (finding_entry a ref))]"
    by (auto simp: merge_finding_def find_finding_spec [OF old] n_def)
  with True map_res_update [OF old] n len nth finding_digest_merged show ?thesis by simp
next
  case False
  with merge have "pending' = pending @ [finding_entry a ref]"
    by (auto simp: merge_finding_def find_finding_spec [OF old])
  with False old show ?thesis by (simp add: map_res_append)
qed

lemma map_res_pairs: "map_res f xs = Inr ys \<Longrightarrow> \<forall>(y, x) \<in> set (zip ys xs). f x = Inr y"
  by (induction xs arbitrary: ys) auto

lemma map_fst_sort_key: "map fst (sort_key fst ps) = sort (map fst ps)"
proof (induction ps)
  case (Cons p ps)
  have "map fst (insort_key fst p qs) = insort (fst p) (map fst qs)" for qs by (induction qs) simp_all
  with Cons show ?case by simp
qed simp

lemma sort_findings_digests:
  assumes "map_res finding_digest items = Inr ds" and "sort_findings items = Inr items'"
  shows "map_res finding_digest items' = Inr (sort ds)"
proof -
  let ?ps = "sort_key fst (zip ds items)"
  have "\<forall>(y, x) \<in> set ?ps. finding_digest x = Inr y" using map_res_pairs [OF assms(1)] by simp
  then have "map_res finding_digest (map snd ?ps) = Inr (map fst ?ps)" by (rule map_res_of_pairs)
  moreover have "map fst ?ps = sort ds"
    using map_res_length [OF assms(1)] by (simp add: map_fst_sort_key map_fst_zip)
  ultimately show ?thesis using assms by (auto simp: sort_findings_def)
qed

end
