(* ===== verification/Machine_Build.thy ===== *)
theory Machine_Build
  imports Machine_Rules
begin

section \<open>Building a machine specification\<close>

text \<open>
  The helpers of \<open>bunshin/machines.py\<close> that assemble a \<open>MachineSpec\<close>: the classification of the states
  (which must cover the state enumeration exactly), the runtime ownership of the liveness states, and the
  constructor call with its validation. Then the lemmas by which a concrete table is checked: a table is
  first reduced to its \<open>skeleton\<close> (keys and declared targets), so that no function is left to evaluate.
\<close>

definition state_class_map :: "string list \<Rightarrow> (StateClass \<times> string list) list \<Rightarrow> (string \<times> StateClass) list res" where
  "state_class_map state_enum groups =
     (let result = fold (\<lambda>(c, states) d. fold (\<lambda>s d. AList.update s c d) states d) groups [];
          missing = filter (\<lambda>s. s \<notin> set (map fst result)) state_enum;
          extra = filter (\<lambda>s. s \<notin> set state_enum) (map fst result) in
      if missing \<noteq> [] \<or> extra \<noteq> [] then
        Inl (ValueError (''state classification mismatch: missing='' @ join '', '' (sort missing)
          @ '', extra='' @ join '', '' (sort extra)))
      else Inr result)"

definition activation_set :: "(OrchestrationRole \<times> RoleMode) list \<Rightarrow> RoleActivation list res" where
  "activation_set pairs = map_res (\<lambda>(r, m). role_activation r m) pairs"

fun add_runtime_states ::
  "StateRuntimeSpec \<Rightarrow> string list \<Rightarrow> (string \<times> StateRuntimeSpec) list \<Rightarrow> (string \<times> StateRuntimeSpec) list res" where
  "add_runtime_states r [] result = Inr result"
| "add_runtime_states r (s # ss) result =
     (if s \<in> set (map fst result) then Inl (ValueError (''duplicate runtime state declaration: '' @ s))
      else add_runtime_states r ss (result @ [(s, r)]))"

type_synonym runtime_entry = "string list \<times> (OrchestrationRole \<times> RoleMode) list \<times> ReconciliationKind"

fun add_runtime_entries ::
  "runtime_entry list \<Rightarrow> (string \<times> StateRuntimeSpec) list \<Rightarrow> (string \<times> StateRuntimeSpec) list res" where
  "add_runtime_entries [] result = Inr result"
| "add_runtime_entries ((states, pairs, kind) # es) result =
     rbind (activation_set pairs) (\<lambda>acts.
     let r = \<lparr>activations = remdups acts, reconciliation = kind\<rparr> in
     rbind (state_runtime_spec_post_init r) (\<lambda>_.
     rbind (add_runtime_states r states result) (\<lambda>result'. add_runtime_entries es result')))"

definition runtime_state_map :: "runtime_entry list \<Rightarrow> (string \<times> StateRuntimeSpec) list res" where
  "runtime_state_map entries = add_runtime_entries entries []"

definition machine_spec ::
  "AggregateType \<Rightarrow> (string \<times> StateClass) list res \<Rightarrow> TransitionSpec list \<Rightarrow> (ControlIntent \<times> ControlPolicy) list
     \<Rightarrow> (string \<times> StateRuntimeSpec) list res \<Rightarrow> MachineSpec res" where
  "machine_spec kind classes transitions policies runtime =
     rbind classes (\<lambda>c. rbind runtime (\<lambda>r.
     let m = \<lparr>ms_aggregate_type = kind, ms_state_classes = c, ms_transitions = transitions,
              ms_control_policies = policies, ms_runtime_states = r\<rparr> in
     rbind (machine_spec_post_init m) (\<lambda>_. Inr m)))"

definition control_policies ::
  "string \<Rightarrow> string list \<Rightarrow> string \<Rightarrow> string list \<Rightarrow> (ControlIntent \<times> ControlPolicy) list" where
  "control_policies pause pause_settled cancel cancel_settled =
     [(PAUSE, \<lparr>request_action = pause, settled_states = pause_settled\<rparr>),
      (CANCEL, \<lparr>request_action = cancel, settled_states = cancel_settled\<rparr>)]"

subsection \<open>Checking a table by its skeleton\<close>

type_synonym skeleton = "AggregateType \<times> (string option \<times> string) \<times> string list"

definition skeleton :: "TransitionSpec \<Rightarrow> skeleton" where
  "skeleton t = (ts_aggregate_type t, spec_key t, transition_target_states t)"

definition skeleton_wf :: "AggregateType \<Rightarrow> string list \<Rightarrow> skeleton \<Rightarrow> bool" where
  "skeleton_wf kind states sk = (case sk of (k, (src, act), targets) \<Rightarrow>
     k = kind \<and> (case src of None \<Rightarrow> True | Some s \<Rightarrow> s \<in> set states)
   \<and> targets \<noteq> [] \<and> list_all (\<lambda>s. s \<in> set states) targets)"

lemma transition_wf_skeleton:
  "transition_wf m t \<longleftrightarrow> skeleton_wf (ms_aggregate_type m) (ms_states m) (skeleton t)"
  by (auto simp: transition_wf_def skeleton_wf_def skeleton_def spec_key_def list_all_iff split: option.splits)

lemma transitions_wf_skeleton:
  "(\<forall>t \<in> set (ms_transitions m). transition_wf m t) \<longleftrightarrow>
     list_all (skeleton_wf (ms_aggregate_type m) (ms_states m)) (map skeleton (ms_transitions m))"
  by (simp add: transition_wf_skeleton list_all_iff)

lemma spec_keys_skeleton:
  "map spec_key ts = map (\<lambda>(k, key, targets). key) (map skeleton ts)"
  by (simp add: skeleton_def)

text \<open>Reachability by a list of states in which each is a creation target or a successor of an earlier one.\<close>

fun reach_chain :: "skeleton list \<Rightarrow> string list \<Rightarrow> string list \<Rightarrow> bool" where
  "reach_chain sks seen [] = True"
| "reach_chain sks seen (s # ss) =
     (list_ex (\<lambda>(k, (src, act), targets). (case src of None \<Rightarrow> True | Some x \<Rightarrow> x \<in> set seen) \<and> s \<in> set targets) sks
    \<and> reach_chain sks (s # seen) ss)"

lemma reach_chain_reachable:
  assumes "reach_chain (map skeleton (ms_transitions m)) seen ss"
    and "\<forall>s \<in> set seen. reachable_from_creation m s" and "s \<in> set ss"
  shows "reachable_from_creation m s"
  using assms
proof (induction ss arbitrary: seen)
  case (Cons s' ss)
  from Cons.prems(1) obtain t where t: "t \<in> set (ms_transitions m)" "s' \<in> set (transition_target_states t)"
    "case ts_source_state t of None \<Rightarrow> True | Some x \<Rightarrow> x \<in> set seen"
    by (auto simp: list_ex_iff skeleton_def spec_key_def)
  have "reachable_from_creation m s'"
  proof (cases "ts_source_state t")
    case None
    with t show ?thesis by (auto simp: initial_states_def intro!: reachable_from_creation.created)
  next
    case (Some x)
    with t Cons.prems(2) show ?thesis by (auto intro: reachable_from_creation.stepped)
  qed
  with Cons show ?case by (cases "s = s'") auto
qed simp

lemma machine_spec_Inr_wf:
  assumes "machine_spec kind classes transitions policies runtime = Inr m"
  shows "machine_spec_wf m \<and> ms_aggregate_type m = kind \<and> ms_transitions m = transitions
    \<and> ms_control_policies m = policies \<and> classes = Inr (ms_state_classes m)"
  using assms by (auto simp: machine_spec_def Let_def post_init_iff_wf)

text \<open>The control request states from the skeleton.\<close>

lemma control_request_states_skeleton:
  "control_request_states m i = (case map_of (ms_control_policies m) i of
       None \<Rightarrow> []
     | Some policy \<Rightarrow> remdups (map (\<lambda>(k, (src, act), targets). state_str src)
         (filter (\<lambda>(k, (src, act), targets). src \<noteq> None \<and> act = request_action policy)
           (map skeleton (ms_transitions m)))))"
  by (auto simp: control_request_states_def filter_map comp_def skeleton_def spec_key_def split: option.splits)

lemma initial_states_skeleton:
  "initial_states m = remdups (concat (map (\<lambda>(k, key, targets). targets)
     (filter (\<lambda>(k, (src, act), targets). src = None) (map skeleton (ms_transitions m)))))"
  by (simp add: initial_states_def filter_map comp_def skeleton_def spec_key_def)

text \<open>The skeleton of a table entry, whatever its guard, reducer and effects.\<close>

lemma skeleton_spec [simp]:
  "skeleton (spec k src act tgt) = (k, (src, act), target_states_of tgt)"
  by (simp add: skeleton_def spec_key_def spec_def transition_target_states_def)

lemma skeleton_update [simp]:
  "skeleton (t\<lparr>ts_guard := g\<rparr>) = skeleton t"
  "skeleton (t\<lparr>ts_reducer := r\<rparr>) = skeleton t"
  "skeleton (t\<lparr>ts_effect_builder := e\<rparr>) = skeleton t"
  by (simp_all add: skeleton_def spec_key_def transition_target_states_def)

lemma target_states_simps [simp]:
  "target_states_of (resume_target allowed field) = remdups allowed"
  "target_states_of (mapped_resume_target mapping field) = remdups (map snd mapping)"
  "target_states_of (mapped_triage_resume_target mapping) = remdups (map snd mapping)"
  "target_states_of workflow_cancel_or_restart_target = [''CANCELLED'', ''RESTARTING'']"
  by (simp_all add: resume_target_def mapped_resume_target_def mapped_triage_resume_target_def
      workflow_cancel_or_restart_target_def)

text \<open>A successful classification covers exactly the state enumeration.\<close>

lemma state_class_map_states:
  assumes "state_class_map state_enum groups = Inr c"
  shows "set (map fst c) = set state_enum"
  using assms by (auto simp: state_class_map_def Let_def filter_empty_conv split: if_splits)

subsection \<open>The specification a table builds\<close>

definition machine_record ::
  "AggregateType \<Rightarrow> (string \<times> StateClass) list res \<Rightarrow> TransitionSpec list \<Rightarrow> (ControlIntent \<times> ControlPolicy) list
     \<Rightarrow> (string \<times> StateRuntimeSpec) list res \<Rightarrow> MachineSpec" where
  "machine_record kind classes transitions policies runtime =
     \<lparr>ms_aggregate_type = kind, ms_state_classes = projr classes, ms_transitions = transitions,
      ms_control_policies = policies, ms_runtime_states = projr runtime\<rparr>"

definition skeleton_request_states :: "skeleton list \<Rightarrow> string \<Rightarrow> string list" where
  "skeleton_request_states sks action = map (\<lambda>(k, (src, act), targets). state_str src)
     (filter (\<lambda>(k, (src, act), targets). src \<noteq> None \<and> act = action) sks)"

lemma skeleton_request_states:
  "skeleton_request_states (map skeleton ts) action =
     map (state_str \<circ> ts_source_state) (filter (\<lambda>t. ts_source_state t \<noteq> None \<and> ts_action_type t = action) ts)"
  by (simp add: skeleton_request_states_def filter_map comp_def skeleton_def spec_key_def)

definition policies_wf :: "string list \<Rightarrow> skeleton list \<Rightarrow> (ControlIntent \<times> ControlPolicy) list \<Rightarrow> bool" where
  "policies_wf states sks policies = list_all (\<lambda>(i, policy).
      list_all (\<lambda>s. s \<in> set states) (settled_states policy)
    \<and> list_all (\<lambda>s. s \<notin> set (settled_states policy)) (skeleton_request_states sks (request_action policy))) policies"

definition runtime_wf :: "(string \<times> StateClass) list \<Rightarrow> (string \<times> StateRuntimeSpec) list \<Rightarrow> bool" where
  "runtime_wf c r \<longleftrightarrow> (let required = map fst (filter (\<lambda>(s, c). c = WORKER_LIVENESS) c) in
      list_all (\<lambda>s. s \<in> set required) (map fst r) \<and> list_all (\<lambda>s. s \<in> set (map fst r)) required)"

lemma machine_spec_ok:
  assumes classes: "classes = state_class_map state_enum groups"
    and oks: "\<not> isl classes" "\<not> isl runtime"
    and runtime: "runtime_wf (projr classes) (projr runtime)"
    and keys: "distinct (map (\<lambda>(k, key, targets). key) (map skeleton transitions))"
    and sks: "list_all (skeleton_wf kind state_enum) (map skeleton transitions)"
    and intents: "distinct (map fst policies)"
    and policies: "policies_wf state_enum (map skeleton transitions) policies"
    and chain: "reach_chain (map skeleton transitions) [] chain"
    and covers: "list_all (\<lambda>s. s \<in> set chain) state_enum"
    and creation: "list_ex (\<lambda>(k, (src, act), targets). src = None) (map skeleton transitions)"
  shows "machine_spec kind classes transitions policies runtime
    = Inr (machine_record kind classes transitions policies runtime)"
proof -
  let ?m = "machine_record kind classes transitions policies runtime"
  have c: "classes = Inr (projr classes)" and r: "runtime = Inr (projr runtime)"
    using oks by (cases classes; cases runtime; simp)+
  have states: "set (ms_states ?m) = set state_enum"
    using state_class_map_states c classes by (metis machine_record_def MachineSpec.select_convs(2) ms_states_def)
  have trans: "ms_transitions ?m = transitions" "ms_aggregate_type ?m = kind" "ms_control_policies ?m = policies"
    "ms_state_classes ?m = projr classes" "ms_runtime_states ?m = projr runtime"
    by (simp_all add: machine_record_def)
  have wf: "transition_wf ?m t" if "t \<in> set transitions" for t
    using sks that states by (auto simp: transition_wf_skeleton trans skeleton_wf_def list_all_iff split: option.splits)
  have rt: "fst ` set (projr runtime) = {s. (s, WORKER_LIVENESS) \<in> set (projr classes)}"
    using runtime by (force simp: runtime_wf_def Let_def list_all_iff)
  have pol: "set (settled_states policy) \<subseteq> set state_enum
      \<and> set (control_request_states ?m i) \<inter> set (settled_states policy) = {}"
    if "(i, policy) \<in> set policies" for i policy
  proof -
    from that intents have "map_of policies i = Some policy" by simp
    then have "set (control_request_states ?m i)
        = set (skeleton_request_states (map skeleton transitions) (request_action policy))"
      by (simp add: control_request_states_def trans skeleton_request_states)
    with policies that show ?thesis by (auto simp: policies_wf_def list_all_iff)
  qed
  have init: "initial_states ?m \<noteq> []"
  proof -
    from creation obtain t where t: "t \<in> set transitions" "ts_source_state t = None"
      by (auto simp: list_ex_iff skeleton_def spec_key_def)
    with wf [OF t(1)] show ?thesis by (fastforce simp: initial_states_def transition_wf_def trans)
  qed
  have reach: "\<forall>s \<in> set state_enum. reachable_from_creation ?m s"
    using reach_chain_reachable [of ?m "[]" chain] chain covers by (auto simp: trans list_all_iff)
  have "machine_spec_wf ?m"
    unfolding machine_spec_wf_def trans states spec_keys_skeleton
    using rt keys wf init reach by (intro conjI ballI) (auto dest: pol)
  then have "machine_spec_post_init ?m = Inr ()" by (simp add: post_init_iff_wf)
  then show ?thesis using c r by (cases classes; cases runtime) (auto simp: machine_spec_def machine_record_def Let_def)
qed

end
