(* ===== verification/Workflow_Machine.thy ===== *)
theory Workflow_Machine
  imports Machine_Build
begin

section \<open>The task and workflow machines\<close>

text \<open>
  A task is the durable request, a workflow one attempt to serve it. The tables are those of
  \<open>_task_transitions\<close> and \<open>_workflow_transitions\<close> in \<open>bunshin/machines.py\<close>; neither owns a role.
\<close>

definition task_static :: "TransitionSpec list" where
  "task_static =
    [(spec TASK None ''CREATE_TASK'' (To ''ACTIVE''))
       \<lparr>ts_guard := required [''primary_profile_id'', ''family_id'', ''family_binding_ref'',
         ''task_revision_ref'']\<rparr>,
     (spec TASK (Some ''ACTIVE'') ''UPDATE_TASK_CONTEXT'' (To ''ACTIVE''))
       \<lparr>ts_guard := required [''task_revision_ref'']\<rparr>,
     spec TASK (Some ''ACTIVE'') ''ARCHIVE_TASK'' (To ''ARCHIVED'')]"

definition task_transitions :: "TransitionSpec list" where
  "task_transitions = task_static"

definition task_classes :: "(string \<times> StateClass) list res" where
  "task_classes = state_class_map TaskState
     [(CATALOG, [''ACTIVE'']),
      (TERMINAL, [''ARCHIVED''])]"

definition task_machine :: "MachineSpec res" where
  "task_machine = machine_spec TASK task_classes task_transitions [] (Inr [])"

definition task_spec :: MachineSpec where
  "task_spec = machine_record TASK task_classes task_transitions [] (Inr [])"

definition workflow_static :: "TransitionSpec list" where
  "workflow_static =
    [(spec WORKFLOW None ''CREATE_WORKFLOW'' (To ''CREATED''))
       \<lparr>ts_effect_builder := effect ''submit_action'' [(''action_type'', PStr ''START_WORKFLOW'')]\<rparr>,
     (spec WORKFLOW (Some ''CREATED'') ''START_WORKFLOW'' (To ''ACTIVE''))
       \<lparr>ts_effect_builder := effect ''route_workflow'' []\<rparr>,
     (spec WORKFLOW (Some ''ACTIVE'') ''LINK_ARCHITECTURE_REVISION'' (To ''ACTIVE''))
       \<lparr>ts_guard := required [''architecture_revision_id'']\<rparr>]
   @ map (\<lambda>state. (spec WORKFLOW (Some state) ''BIND_DIRECT_EXECUTION'' (To state))
       \<lparr>ts_guard := required [''direct_execution_ref'']\<rparr>)
       [''ACTIVE'', ''PAUSE_REQUESTED'', ''PAUSED'', ''TRIAGE_REQUIRED'']
   @ [(spec WORKFLOW (Some ''ACTIVE'') ''LINK_EXECUTION_EPOCH'' (To ''ACTIVE''))
       \<lparr>ts_guard := required [''execution_epoch_id'']\<rparr>,
     (spec WORKFLOW (Some ''ACTIVE'') ''LINK_STANDALONE_REVIEW'' (To ''ACTIVE''))
       \<lparr>ts_guard := required [''standalone_review_id'']\<rparr>,
     (spec WORKFLOW (Some ''ACTIVE'') ''MARK_COMPLETED'' (To ''COMPLETED''))
       \<lparr>ts_guard := required [''result_artifact_ref''],
        ts_effect_builder := effect ''cleanup_terminal_runtime'' []\<rparr>,
     (spec WORKFLOW (Some ''ACTIVE'') ''REJECT_WORKFLOW'' (To ''REJECTED''))
       \<lparr>ts_effect_builder := effect ''cleanup_terminal_runtime'' []\<rparr>,
     spec WORKFLOW (Some ''PAUSE_REQUESTED'') ''CHILDREN_PAUSED'' (To ''PAUSED''),
     (spec WORKFLOW (Some ''PAUSED'') ''RESUME'' (To ''ACTIVE''))
       \<lparr>ts_reducer := resume_cleanup_reducer,
        ts_effect_builder := effect ''propagate_resume'' []\<rparr>,
     (spec WORKFLOW (Some ''CANCEL_REQUESTED'') ''CHILDREN_CANCELLED'' workflow_cancel_or_restart_target)
       \<lparr>ts_effect_builder := workflow_cancelled_effects\<rparr>,
     (spec WORKFLOW (Some ''RESTARTING'') ''REPLACEMENT_WORKFLOW_STARTED'' (To ''CANCELLED''))
       \<lparr>ts_guard := required [''replacement_workflow_id''],
        ts_effect_builder := effect ''cleanup_terminal_runtime'' []\<rparr>,
     (spec WORKFLOW (Some ''RESTARTING'') ''REPLACEMENT_WORKFLOW_ABORTED'' (To ''CANCELLED''))
       \<lparr>ts_effect_builder := effect ''cleanup_terminal_runtime'' []\<rparr>]"

definition workflow_active :: "string list" where
  "workflow_active = [''CREATED'', ''ACTIVE'']"

definition workflow_triage_states :: "string list" where
  "workflow_triage_states = [''CREATED'', ''ACTIVE'', ''PAUSE_REQUESTED'', ''CANCEL_REQUESTED'', ''RESTARTING'']"

definition workflow_controls :: "TransitionSpec list" where
  "workflow_controls =
    map (\<lambda>state. (spec WORKFLOW (Some state) ''REQUEST_PAUSE'' (To ''PAUSE_REQUESTED''))
       \<lparr>ts_reducer := pause_reducer state,
        ts_effect_builder := effect ''propagate_pause'' []\<rparr>)
       workflow_active
   @ map (\<lambda>state. (spec WORKFLOW (Some state) ''REQUEST_CANCEL'' (To ''CANCEL_REQUESTED''))
       \<lparr>ts_reducer := workflow_cancel_reducer,
        ts_effect_builder := effect ''propagate_cancel'' []\<rparr>)
       [''CREATED'', ''ACTIVE'', ''PAUSE_REQUESTED'', ''PAUSED'', ''TRIAGE_REQUIRED'']
   @ [(spec WORKFLOW (Some ''CANCEL_REQUESTED'') ''REQUEST_CANCEL'' (To ''CANCEL_REQUESTED''))
       \<lparr>ts_reducer := workflow_cancel_reducer\<rparr>]
   @ [(spec WORKFLOW (Some ''RESTARTING'') ''REQUEST_CANCEL'' (To ''RESTARTING''))
       \<lparr>ts_reducer := restart_cancel_reducer\<rparr>]
   @ map (\<lambda>state. (spec WORKFLOW (Some state) ''REQUEST_EXECUTION_RESTART'' (To ''CANCEL_REQUESTED''))
       \<lparr>ts_guard := required [''restart_execution_request''],
        ts_effect_builder := effect ''propagate_cancel'' []\<rparr>)
       [''ACTIVE'', ''PAUSE_REQUESTED'', ''PAUSED'', ''TRIAGE_REQUIRED'']
   @ map (\<lambda>state. (spec WORKFLOW (Some state) ''ENTER_TRIAGE'' (To ''TRIAGE_REQUIRED''))
       \<lparr>ts_reducer := triage_reducer state,
        ts_effect_builder := (if state = ''ACTIVE'' then effect ''freeze_workflow_children'' [] else no_effects)\<rparr>)
       workflow_triage_states
   @ [spec WORKFLOW (Some ''TRIAGE_REQUIRED'') ''ENTER_TRIAGE'' (To ''TRIAGE_REQUIRED'')]
   @ [(spec WORKFLOW (Some ''TRIAGE_REQUIRED'') ''RESOLVE_TRIAGE'' (mapped_triage_resume_target [(''CREATED'',
     ''CREATED''), (''ACTIVE'', ''ACTIVE''), (''PAUSE_REQUESTED'', ''PAUSE_REQUESTED''), (''CANCEL_REQUESTED'',
     ''CANCEL_REQUESTED''), (''RESTARTING'', ''RESTARTING'')]))
       \<lparr>ts_reducer := resume_cleanup_reducer,
        ts_effect_builder := workflow_triage_resume_effects\<rparr>]
   @ map (\<lambda>state. (spec WORKFLOW (Some state) ''ARCHIVE'' (To state))
       \<lparr>ts_reducer := merge_payload\<rparr>)
       [''COMPLETED'', ''REJECTED'', ''CANCELLED'']"

definition workflow_transitions :: "TransitionSpec list" where
  "workflow_transitions = workflow_static @ workflow_controls"

definition workflow_classes :: "(string \<times> StateClass) list res" where
  "workflow_classes = state_class_map WorkflowState
     [(OUTBOX_WAIT, [''CREATED'', ''RESTARTING'']),
      (CHILD_WAIT, [''ACTIVE'', ''PAUSE_REQUESTED'', ''CANCEL_REQUESTED'']),
      (PAUSED_CLASS, [''PAUSED'']),
      (TERMINAL, [''COMPLETED'', ''REJECTED'', ''CANCELLED'']),
      (OPERATOR_WAIT, [''TRIAGE_REQUIRED''])]"

definition workflow_policies :: "(ControlIntent \<times> ControlPolicy) list" where
  "workflow_policies = control_policies
     ''REQUEST_PAUSE'' [''PAUSED'', ''COMPLETED'', ''REJECTED'', ''CANCELLED'', ''TRIAGE_REQUIRED'']
     ''REQUEST_CANCEL'' [''COMPLETED'', ''REJECTED'', ''CANCELLED'']"

definition workflow_machine :: "MachineSpec res" where
  "workflow_machine = machine_spec WORKFLOW workflow_classes workflow_transitions workflow_policies (Inr [])"

definition workflow_spec :: MachineSpec where
  "workflow_spec = machine_record WORKFLOW workflow_classes workflow_transitions workflow_policies (Inr [])"

subsection \<open>The task specification validates\<close>

lemmas task_table_defs = task_transitions_def task_static_def

lemma task_classes_ok: "\<not> isl task_classes" and task_runtime_ok: "\<not> isl (Inr [] :: (string \<times> StateRuntimeSpec) list res)"
  by code_simp+

lemma task_runtime_wf: "runtime_wf (projr task_classes) (projr (Inr []))"
  by code_simp

lemma task_keys_distinct: "distinct (map (\<lambda>(k, key, targets). key) (map skeleton task_transitions))"
  unfolding task_table_defs state_enum_defs by (simp add: list_union_def)

lemma task_skeletons_wf: "list_all (skeleton_wf TASK TaskState) (map skeleton task_transitions)"
  unfolding task_table_defs state_enum_defs by (simp add: skeleton_wf_def list_union_def)

lemma task_policies_wf: "policies_wf TaskState (map skeleton task_transitions) []"
  unfolding task_table_defs state_enum_defs policies_wf_def control_policies_def skeleton_request_states_def
  by (simp add: list_union_def)

lemma task_chain: "reach_chain (map skeleton task_transitions) [] TaskState"
  unfolding task_table_defs state_enum_defs by (simp add: list_union_def)

lemma task_machine_eq: "task_machine = Inr task_spec"
  unfolding task_machine_def task_spec_def
  by (rule machine_spec_ok [OF task_classes_def task_classes_ok task_runtime_ok task_runtime_wf
        task_keys_distinct task_skeletons_wf _ task_policies_wf task_chain])
     (simp_all add: task_table_defs state_enum_defs control_policies_def)

subsection \<open>The workflow specification validates\<close>

lemmas workflow_table_defs = workflow_transitions_def workflow_static_def workflow_controls_def
  workflow_active_def workflow_triage_states_def workflow_policies_def

lemma workflow_classes_ok: "\<not> isl workflow_classes" and workflow_runtime_ok: "\<not> isl (Inr [] :: (string \<times> StateRuntimeSpec) list res)"
  by code_simp+

lemma workflow_runtime_wf: "runtime_wf (projr workflow_classes) (projr (Inr []))"
  by code_simp

lemma workflow_keys_distinct: "distinct (map (\<lambda>(k, key, targets). key) (map skeleton workflow_transitions))"
  unfolding workflow_table_defs state_enum_defs by (simp add: list_union_def)

lemma workflow_skeletons_wf: "list_all (skeleton_wf WORKFLOW WorkflowState) (map skeleton workflow_transitions)"
  unfolding workflow_table_defs state_enum_defs by (simp add: skeleton_wf_def list_union_def)

lemma workflow_policies_wf: "policies_wf WorkflowState (map skeleton workflow_transitions) workflow_policies"
  unfolding workflow_table_defs state_enum_defs policies_wf_def control_policies_def skeleton_request_states_def
  by (simp add: list_union_def)

lemma workflow_chain: "reach_chain (map skeleton workflow_transitions) [] [''CREATED'', ''ACTIVE'', ''PAUSE_REQUESTED'', ''PAUSED'', ''CANCEL_REQUESTED'', ''RESTARTING'', ''COMPLETED'', ''REJECTED'', ''CANCELLED'', ''TRIAGE_REQUIRED'']"
  unfolding workflow_table_defs state_enum_defs by (simp add: list_union_def)

lemma workflow_machine_eq: "workflow_machine = Inr workflow_spec"
  unfolding workflow_machine_def workflow_spec_def
  by (rule machine_spec_ok [OF workflow_classes_def workflow_classes_ok workflow_runtime_ok workflow_runtime_wf
        workflow_keys_distinct workflow_skeletons_wf _ workflow_policies_wf workflow_chain])
     (simp_all add: workflow_table_defs state_enum_defs control_policies_def)

end
