(* ===== verification/Architecture_Machine.thy ===== *)
theory Architecture_Machine
  imports Machine_Build
begin

section \<open>The architecture revision machine\<close>

text \<open>
  The planning cycle of a workflow: an architect authors, its workspace is quiesced and snapshotted, a
  reviewer judges, a person accepts, edits or rejects. The table is that of \<open>_architecture_transitions\<close> in
  \<open>bunshin/machines.py\<close>.
\<close>

definition architecture_static_1 :: "TransitionSpec list" where
  "architecture_static_1 =
    [(spec ARCHITECTURE_REVISION None ''CREATE_ARCHITECTURE_REVISION'' (To ''ARCHITECT_QUEUED''))
       \<lparr>ts_effect_builder := effect ''admit_architect_role'' []\<rparr>,
     (spec ARCHITECTURE_REVISION None ''IMPORT_ARCHITECTURE_REVISION'' (To ''REVIEW_QUEUED''))
       \<lparr>ts_guard := required [''architecture_manifest_ref''],
        ts_effect_builder := effect ''run_reviewer_role'' [(''role_mode'', PStr ''architecture'')]\<rparr>,
     (spec ARCHITECTURE_REVISION (Some ''ARCHITECT_QUEUED'') ''START_ARCHITECT'' (To ''ARCHITECT_RUNNING''))
       \<lparr>ts_guard := lease_guard,
        ts_reducer := architecture_worker_started_reducer\<rparr>,
     (spec ARCHITECTURE_REVISION (Some ''ARCHITECT_RUNNING'') ''REBIND_ARCHITECT'' (To ''ARCHITECT_RUNNING''))
       \<lparr>ts_guard := lease_guard,
        ts_reducer := architecture_worker_started_reducer\<rparr>,
     (spec ARCHITECTURE_REVISION (Some ''ARCHITECT_RUNNING'') ''DATA_ARCHITECT_COMPLETED'' (To ''REVIEW_QUEUED''))
       \<lparr>ts_guard := required [''requirements_ref'', ''architecture_manifest_ref''],
        ts_reducer := architecture_submission_reducer,
        ts_effect_builder := effect ''run_reviewer_role'' [(''role_mode'', PStr ''architecture'')]\<rparr>,
     (spec ARCHITECTURE_REVISION (Some ''ARCHITECT_RUNNING'') ''TASK_REVISION_APPENDED'' (To ''ARCHITECT_RUNNING''))
       \<lparr>ts_guard := task_revision_append_guard,
        ts_reducer := task_revision_appended_reducer\<rparr>,
     (spec ARCHITECTURE_REVISION (Some ''ARCHITECT_RUNNING'') ''ARCHITECT_SUBMITTED'' (To ''ARCHITECT_QUIESCING''))
       \<lparr>ts_guard := all_guards [required [''requirements_ref'', ''pending_architecture_submission_ref'',
         ''architecture_workspace_path''], lease_guard],
        ts_effect_builder := effect ''quiesce_architect_role'' []\<rparr>,
     (spec ARCHITECTURE_REVISION (Some ''ARCHITECT_QUIESCING'') ''REBIND_ARCHITECT_QUIESCER'' (To ''ARCHITECT_QUIESCING''))
       \<lparr>ts_guard := lease_guard\<rparr>,
     (spec ARCHITECTURE_REVISION (Some ''ARCHITECT_QUIESCING'') ''ARCHITECT_QUIESCED'' (To ''ARCHITECT_SNAPSHOTTING''))
       \<lparr>ts_guard := quiesce_guard,
        ts_effect_builder := effect ''snapshot_architect_result'' []\<rparr>,
     (spec ARCHITECTURE_REVISION (Some ''ARCHITECT_SNAPSHOTTING'') ''REBIND_ARCHITECT_SNAPSHOTTER'' (To ''ARCHITECT_SNAPSHOTTING''))
       \<lparr>ts_guard := lease_guard\<rparr>,
     (spec ARCHITECTURE_REVISION (Some ''ARCHITECT_SNAPSHOTTING'') ''ARCHITECTURE_SNAPSHOTTED'' (To ''REVIEW_QUEUED''))
       \<lparr>ts_guard := required [''requirements_ref'', ''architecture_manifest_ref''],
        ts_reducer := architecture_snapshotted_reducer,
        ts_effect_builder := effect ''run_reviewer_role'' [(''role_mode'', PStr ''architecture'')]\<rparr>,
     (spec ARCHITECTURE_REVISION (Some ''ARCHITECT_SNAPSHOTTING'') ''ARCHITECTURE_SNAPSHOT_REJECTED'' (To ''ARCHITECT_QUEUED''))
       \<lparr>ts_guard := required [''finding_artifact_ref'', ''architecture_repair_baseline_ref''],
        ts_effect_builder := effect ''admit_architect_role'' []\<rparr>,
     (spec ARCHITECTURE_REVISION (Some ''REVIEW_QUEUED'') ''START_ARCHITECTURE_REVIEW'' (To ''REVIEWING''))
       \<lparr>ts_guard := lease_guard\<rparr>,
     (spec ARCHITECTURE_REVISION (Some ''REVIEWING'') ''REBIND_ARCHITECTURE_REVIEW'' (To ''REVIEWING''))
       \<lparr>ts_guard := lease_guard\<rparr>,
     (spec ARCHITECTURE_REVISION (Some ''REVIEWING'') ''ARCHITECTURE_REVIEW_PASSED'' (To ''HUMAN_REVIEW''))
       \<lparr>ts_guard := required [''review_artifact_ref'', ''architecture_manifest_ref''],
        ts_reducer := architecture_review_passed_reducer,
        ts_effect_builder := effect ''publish_architecture_review_request'' []\<rparr>,
     (spec ARCHITECTURE_REVISION (Some ''HUMAN_REVIEW'') ''HUMAN_REVIEW_PUBLISHED'' (To ''HUMAN_REVIEW''))
       \<lparr>ts_guard := required [''human_review_card_ref'']\<rparr>,
     (spec ARCHITECTURE_REVISION (Some ''HUMAN_REVIEW'') ''REFRESH_HUMAN_REVIEW_CARD'' (To ''HUMAN_REVIEW''))
       \<lparr>ts_guard := human_review_card_refresh_guard,
        ts_reducer := human_review_card_refresh_reducer,
        ts_effect_builder := effect ''publish_architecture_review_request'' []\<rparr>,
     (spec ARCHITECTURE_REVISION (Some ''HUMAN_REVIEW'') ''REOPEN_ARCHITECTURE_REVIEW'' (To ''REVIEW_QUEUED''))
       \<lparr>ts_guard := required [''reason''],
        ts_reducer := architecture_review_reopened_reducer,
        ts_effect_builder := effect ''run_reviewer_role'' [(''role_mode'', PStr ''architecture'')]\<rparr>,
     (spec ARCHITECTURE_REVISION (Some ''REVIEWING'') ''ARCHITECTURE_REVIEW_FAILED'' (To ''ARCHITECT_QUEUED''))
       \<lparr>ts_guard := required [''finding_artifact_ref''],
        ts_reducer := worker_finished_reducer,
        ts_effect_builder := effect ''admit_architect_role'' []\<rparr>,
     (spec ARCHITECTURE_REVISION (Some ''REVIEWING'') ''REQUIREMENTS_DEFECT'' (To ''ARCHITECT_QUEUED''))
       \<lparr>ts_guard := required [''finding_artifact_ref''],
        ts_reducer := worker_finished_reducer,
        ts_effect_builder := effect ''admit_architect_role'' []\<rparr>,
     (spec ARCHITECTURE_REVISION (Some ''REVIEWING'') ''CONTRACT_DEFECT'' (To ''ARCHITECT_QUEUED''))
       \<lparr>ts_guard := required [''finding_artifact_ref''],
        ts_reducer := worker_finished_reducer,
        ts_effect_builder := effect ''admit_architect_role'' []\<rparr>]"

definition architecture_static_2 :: "TransitionSpec list" where
  "architecture_static_2 =
    [(spec ARCHITECTURE_REVISION (Some ''REVIEWING'') ''ARCHITECTURE_DEFECT'' (To ''ARCHITECT_QUEUED''))
       \<lparr>ts_guard := required [''finding_artifact_ref''],
        ts_reducer := worker_finished_reducer,
        ts_effect_builder := effect ''admit_architect_role'' []\<rparr>,
     (spec ARCHITECTURE_REVISION (Some ''HUMAN_REVIEW'') ''HUMAN_ACCEPT'' (To ''ACCEPTED''))
       \<lparr>ts_guard := required [''decision_token'', ''architecture_manifest_ref''],
        ts_reducer := architecture_review_passed_reducer,
        ts_effect_builder := combined_effects [effect ''materialize_plan_revision'' [(''status'', PStr ''accepted'')], effect ''submit_action'' [(''action_type'', PStr ''START_EXECUTION'')]]\<rparr>,
     (spec ARCHITECTURE_REVISION (Some ''HUMAN_REVIEW'') ''HUMAN_EDIT'' (To ''SUPERSEDED''))
       \<lparr>ts_guard := required [''decision_token'', ''edit_instruction_ref''],
        ts_effect_builder := combined_effects [effect ''materialize_plan_revision'' [(''status'', PStr ''revision_requested'')], effect ''create_architecture_revision'' []]\<rparr>,
     (spec ARCHITECTURE_REVISION (Some ''HUMAN_REVIEW'') ''HUMAN_REJECT'' (To ''REJECTED''))
       \<lparr>ts_guard := required [''decision_token''],
        ts_effect_builder := combined_effects [effect ''materialize_plan_revision'' [(''status'', PStr ''rejected'')], effect ''submit_workflow_rejection'' []]\<rparr>,
     spec ARCHITECTURE_REVISION (Some ''PAUSE_REQUESTED'') ''PAUSE_CONFIRMED'' (To ''PAUSED''),
     spec ARCHITECTURE_REVISION (Some ''CANCEL_REQUESTED'') ''CANCEL_CONFIRMED'' (To ''CANCELLED'')]"

definition architecture_pausable :: "string list" where
  "architecture_pausable = [''ARCHITECT_QUEUED'', ''ARCHITECT_RUNNING'', ''ARCHITECT_QUIESCING'',
    ''ARCHITECT_SNAPSHOTTING'', ''REVIEW_QUEUED'', ''REVIEWING'', ''HUMAN_REVIEW'']"

definition architecture_resume :: "(string \<times> string) list" where
  "architecture_resume =
    [(''ARCHITECT_QUEUED'', ''ARCHITECT_QUEUED''),
     (''ARCHITECT_RUNNING'', ''ARCHITECT_QUEUED''),
     (''ARCHITECT_QUIESCING'', ''ARCHITECT_QUIESCING''),
     (''ARCHITECT_SNAPSHOTTING'', ''ARCHITECT_SNAPSHOTTING''),
     (''REVIEW_QUEUED'', ''REVIEW_QUEUED''),
     (''REVIEWING'', ''REVIEW_QUEUED''),
     (''HUMAN_REVIEW'', ''HUMAN_REVIEW''),
     (''PAUSE_REQUESTED'', ''PAUSE_REQUESTED''),
     (''CANCEL_REQUESTED'', ''CANCEL_REQUESTED'')]"

definition architecture_cancellable :: "string list" where
  "architecture_cancellable = list_union architecture_pausable [''PAUSE_REQUESTED'', ''PAUSED'',
    ''TRIAGE_REQUIRED'']"

definition architecture_triageable :: "string list" where
  "architecture_triageable = list_union architecture_pausable [''PAUSE_REQUESTED'', ''CANCEL_REQUESTED'']"

definition architecture_controls :: "TransitionSpec list" where
  "architecture_controls =
    map (\<lambda>state. (spec ARCHITECTURE_REVISION (Some state) ''REQUEST_PAUSE'' (To ''PAUSE_REQUESTED''))
       \<lparr>ts_reducer := pause_reducer state,
        ts_effect_builder := effect ''pause_role'' []\<rparr>)
       architecture_pausable
   @ [(spec ARCHITECTURE_REVISION (Some ''PAUSED'') ''RESUME'' (mapped_resume_target architecture_resume ''resume_state''))
       \<lparr>ts_reducer := architecture_resume_cleanup_reducer,
        ts_effect_builder := effect ''resume_semantic_state'' []\<rparr>]
   @ map (\<lambda>state. (spec ARCHITECTURE_REVISION (Some state) ''REQUEST_CANCEL'' (To ''CANCEL_REQUESTED''))
       \<lparr>ts_effect_builder := effect ''cancel_role'' []\<rparr>)
       architecture_cancellable
   @ map (\<lambda>state. (spec ARCHITECTURE_REVISION (Some state) ''ENTER_TRIAGE'' (To ''TRIAGE_REQUIRED''))
       \<lparr>ts_reducer := triage_reducer state,
        ts_effect_builder := (if state \<notin> {''PAUSE_REQUESTED'',
          ''CANCEL_REQUESTED''} then effect ''quiesce_role_for_triage'' [] else no_effects)\<rparr>)
       architecture_triageable
   @ [spec ARCHITECTURE_REVISION (Some ''TRIAGE_REQUIRED'') ''ENTER_TRIAGE'' (To ''TRIAGE_REQUIRED'')]
   @ map (\<lambda>state. (spec ARCHITECTURE_REVISION (Some state) ''ROLE_FAILED'' (To ''TRIAGE_REQUIRED''))
       \<lparr>ts_guard := role_failure_guard,
        ts_reducer := triage_reducer state,
        ts_effect_builder := effect ''quiesce_role_for_triage'' []\<rparr>)
       [''ARCHITECT_RUNNING'', ''REVIEWING'']
   @ [(spec ARCHITECTURE_REVISION (Some ''TRIAGE_REQUIRED'') ''RESOLVE_TRIAGE'' (mapped_triage_resume_target architecture_resume))
       \<lparr>ts_reducer := architecture_resume_cleanup_reducer,
        ts_effect_builder := effect ''reconcile_semantic_state'' []\<rparr>]"

definition architecture_transitions :: "TransitionSpec list" where
  "architecture_transitions = architecture_static_1 @ architecture_static_2 @ architecture_controls"

definition architecture_classes :: "(string \<times> StateClass) list res" where
  "architecture_classes = state_class_map ArchitectureRevisionState
     [(WORKER_LIVENESS, [''ARCHITECT_QUEUED'', ''ARCHITECT_RUNNING'', ''ARCHITECT_QUIESCING'', ''ARCHITECT_SNAPSHOTTING'', ''REVIEW_QUEUED'', ''REVIEWING'', ''PAUSE_REQUESTED'', ''CANCEL_REQUESTED'']),
      (HUMAN_WAIT, [''HUMAN_REVIEW'']),
      (PAUSED_CLASS, [''PAUSED'']),
      (TERMINAL, [''SUPERSEDED'', ''ACCEPTED'', ''REJECTED'', ''CANCELLED'']),
      (OPERATOR_WAIT, [''TRIAGE_REQUIRED''])]"

definition architecture_runtime :: "(string \<times> StateRuntimeSpec) list res" where
  "architecture_runtime = runtime_state_map
     (let architect_activations = [(ARCHITECT, AUTHOR), (ARCHITECT, REVISION)];
          architecture_review = [(REVIEWER, ARCHITECTURE)] in
      [([''ARCHITECT_QUEUED''], architect_activations, ADMIT_ROLE),
       ([''ARCHITECT_RUNNING''], architect_activations, RESUME_ROLE),
       ([''ARCHITECT_QUIESCING'', ''ARCHITECT_SNAPSHOTTING''], architect_activations, RECONCILE_STATE),
       ([''REVIEW_QUEUED''], architecture_review, ADMIT_ROLE),
       ([''REVIEWING''], architecture_review, RESUME_ROLE),
       ([''PAUSE_REQUESTED'', ''CANCEL_REQUESTED''], architect_activations @ architecture_review, CONTROL_ROLE)])"

definition architecture_policies :: "(ControlIntent \<times> ControlPolicy) list" where
  "architecture_policies = control_policies
     ''REQUEST_PAUSE'' [''PAUSED'', ''ACCEPTED'', ''REJECTED'', ''SUPERSEDED'', ''CANCELLED'', ''TRIAGE_REQUIRED'']
     ''REQUEST_CANCEL'' [''ACCEPTED'', ''REJECTED'', ''SUPERSEDED'', ''CANCELLED'']"

definition architecture_machine :: "MachineSpec res" where
  "architecture_machine = machine_spec ARCHITECTURE_REVISION architecture_classes architecture_transitions architecture_policies architecture_runtime"

definition architecture_spec :: MachineSpec where
  "architecture_spec = machine_record ARCHITECTURE_REVISION architecture_classes architecture_transitions architecture_policies architecture_runtime"

subsection \<open>The specification validates\<close>

lemmas architecture_table_defs = architecture_transitions_def architecture_static_1_def architecture_static_2_def
  architecture_controls_def architecture_pausable_def architecture_resume_def architecture_cancellable_def
  architecture_triageable_def architecture_policies_def

lemma architecture_classes_ok: "\<not> isl architecture_classes" and architecture_runtime_ok: "\<not> isl architecture_runtime"
  by code_simp+

lemma architecture_runtime_wf: "runtime_wf (projr architecture_classes) (projr architecture_runtime)"
  by code_simp

lemma architecture_keys_distinct: "distinct (map (\<lambda>(k, key, targets). key) (map skeleton architecture_transitions))"
  unfolding architecture_table_defs state_enum_defs by (simp add: list_union_def)

lemma architecture_skeletons_wf: "list_all (skeleton_wf ARCHITECTURE_REVISION ArchitectureRevisionState) (map skeleton architecture_transitions)"
  unfolding architecture_table_defs state_enum_defs by (simp add: skeleton_wf_def list_union_def)

lemma architecture_policies_wf: "policies_wf ArchitectureRevisionState (map skeleton architecture_transitions) architecture_policies"
  unfolding architecture_table_defs state_enum_defs policies_wf_def control_policies_def skeleton_request_states_def
  by (simp add: list_union_def)

lemma architecture_chain: "reach_chain (map skeleton architecture_transitions) [] ArchitectureRevisionState"
  unfolding architecture_table_defs state_enum_defs by (simp add: list_union_def)

lemma architecture_machine_eq: "architecture_machine = Inr architecture_spec"
  unfolding architecture_machine_def architecture_spec_def
  by (rule machine_spec_ok [OF architecture_classes_def architecture_classes_ok architecture_runtime_ok architecture_runtime_wf
        architecture_keys_distinct architecture_skeletons_wf _ architecture_policies_wf architecture_chain])
     (simp_all add: architecture_table_defs state_enum_defs control_policies_def)

end
