(* ===== verification/Execution_Machine.thy ===== *)
theory Execution_Machine
  imports Machine_Build
begin

section \<open>The execution epoch machine\<close>

text \<open>
  One run of a compiled graph: nodes are compiled, run, collected for replanning or finalised. The table is
  that of \<open>_execution_transitions\<close> in \<open>bunshin/machines.py\<close>. The epoch owns no role, so its runtime map is
  empty.
\<close>

definition execution_static :: "TransitionSpec list" where
  "execution_static =
    map (\<lambda>state. (spec EXECUTION_EPOCH (Some state) ''REBIND_DIRECT_TASK'' (To state))
       \<lparr>ts_guard := required [''architecture_manifest_ref'', ''graph_generation'']\<rparr>)
       [''RUNNING'', ''PAUSE_REQUESTED'', ''PAUSED'', ''TRIAGE_REQUIRED'']
   @ [(spec EXECUTION_EPOCH None ''CREATE_EXECUTION_EPOCH'' (To ''NOT_STARTED''))
       \<lparr>ts_guard := required [''architecture_manifest_ref'', ''topology_ref'']\<rparr>,
     spec EXECUTION_EPOCH (Some ''NOT_STARTED'') ''START_EXECUTION'' (To ''STARTING''),
     (spec EXECUTION_EPOCH (Some ''STARTING'') ''NODES_COMPILED'' (To ''RUNNING''))
       \<lparr>ts_guard := required [''node_ids''],
        ts_effect_builder := effect ''schedule_ready_nodes'' []\<rparr>,
     (spec EXECUTION_EPOCH (Some ''RUNNING'') ''SCHEDULE_TICK'' (To ''RUNNING''))
       \<lparr>ts_effect_builder := effect ''schedule_ready_nodes'' []\<rparr>,
     (spec EXECUTION_EPOCH (Some ''RUNNING'') ''ALL_REQUIRED_NODES_ACCEPTED'' (To ''FINALIZING''))
       \<lparr>ts_guard := required [''accepted_candidate_refs'', ''verification_artifact_refs''],
        ts_effect_builder := effect ''publish_final_deliverable'' []\<rparr>,
     (spec EXECUTION_EPOCH (Some ''FINALIZING'') ''FINAL_DELIVERABLE_PUBLISHED'' (To ''COMPLETED''))
       \<lparr>ts_guard := required [''published_deliverable_ref''],
        ts_effect_builder := effect ''submit_workflow_completion'' []\<rparr>,
     (spec EXECUTION_EPOCH (Some ''RUNNING'') ''REGISTER_REPLAN_FINDING'' (To ''REPLAN_COLLECTING''))
       \<lparr>ts_guard := required [''finding_artifact_ref''],
        ts_reducer := replan_finding_reducer,
        ts_effect_builder := effect ''freeze_epoch_for_replan'' []\<rparr>,
     (spec EXECUTION_EPOCH (Some ''FINALIZING'') ''REGISTER_REPLAN_FINDING'' (To ''REPLAN_COLLECTING''))
       \<lparr>ts_guard := required [''finding_artifact_ref''],
        ts_reducer := replan_finding_reducer,
        ts_effect_builder := effect ''freeze_epoch_for_replan'' []\<rparr>,
     (spec EXECUTION_EPOCH (Some ''REPLAN_COLLECTING'') ''REGISTER_REPLAN_FINDING'' (To ''REPLAN_COLLECTING''))
       \<lparr>ts_guard := required [''finding_artifact_ref''],
        ts_reducer := replan_finding_reducer,
        ts_effect_builder := effect ''reconcile_execution_epoch'' []\<rparr>,
     (spec EXECUTION_EPOCH (Some ''REPLAN_COLLECTING'') ''RECONCILE_REPLAN_COLLECTION'' (To ''REPLAN_COLLECTING''))
       \<lparr>ts_effect_builder := effect ''reconcile_execution_epoch'' []\<rparr>,
     (spec EXECUTION_EPOCH (Some ''REPLAN_COLLECTING'') ''REPLAN_BATCH_READY'' (To ''REPLAN_REQUIRED''))
       \<lparr>ts_guard := required [''replan_finding_batch_ref'', ''replan_finding_fingerprints''],
        ts_reducer := replan_batch_ready_reducer,
        ts_effect_builder := effect ''create_replan_revision'' []\<rparr>,
     (spec EXECUTION_EPOCH (Some ''REPLAN_REQUIRED'') ''REPLAN_REVISION_LINKED'' (To ''REPLAN_REQUIRED''))
       \<lparr>ts_guard := required [''active_replan_revision_id'']\<rparr>,
     (spec EXECUTION_EPOCH (Some ''REPLAN_REQUIRED'') ''REOPEN_REPLAN_COLLECTION'' (To ''REPLAN_COLLECTING''))
       \<lparr>ts_guard := required [''finding_entries''],
        ts_reducer := reopen_replan_collection_reducer,
        ts_effect_builder := effect ''freeze_epoch_for_replan'' []\<rparr>,
     (spec EXECUTION_EPOCH (Some ''REPLAN_REQUIRED'') ''SUCCESSOR_EPOCH_STARTED'' (To ''SUPERSEDED''))
       \<lparr>ts_guard := required [''successor_execution_epoch_id''],
        ts_reducer := successor_epoch_started_reducer\<rparr>,
     spec EXECUTION_EPOCH (Some ''PAUSE_REQUESTED'') ''NODES_PAUSED'' (To ''PAUSED''),
     (spec EXECUTION_EPOCH (Some ''PAUSED'') ''RESUME'' (mapped_resume_target [(''NOT_STARTED'', ''NOT_STARTED''),
       (''STARTING'', ''STARTING''), (''RUNNING'', ''RUNNING''), (''REPLAN_COLLECTING'', ''REPLAN_COLLECTING''),
       (''REPLAN_REQUIRED'', ''REPLAN_REQUIRED''), (''FINALIZING'', ''FINALIZING''), (''PAUSE_REQUESTED'',
       ''PAUSE_REQUESTED''), (''CANCEL_REQUESTED'', ''CANCEL_REQUESTED'')] ''resume_state''))
       \<lparr>ts_reducer := resume_cleanup_reducer,
        ts_effect_builder := effect ''reconcile_execution_epoch'' []\<rparr>,
     spec EXECUTION_EPOCH (Some ''CANCEL_REQUESTED'') ''NODES_CANCELLED'' (To ''CANCELLED'')]"

definition execution_triage_states :: "string list" where
  "execution_triage_states = [''NOT_STARTED'', ''STARTING'', ''RUNNING'', ''REPLAN_COLLECTING'',
    ''PAUSE_REQUESTED'', ''REPLAN_REQUIRED'', ''FINALIZING'', ''CANCEL_REQUESTED'']"

definition execution_controls :: "TransitionSpec list" where
  "execution_controls =
    map (\<lambda>state. (spec EXECUTION_EPOCH (Some state) ''REQUEST_PAUSE'' (To ''PAUSE_REQUESTED''))
       \<lparr>ts_reducer := pause_reducer state,
        ts_effect_builder := effect ''pause_epoch_nodes'' []\<rparr>)
       [''STARTING'', ''RUNNING'', ''REPLAN_COLLECTING'', ''REPLAN_REQUIRED'', ''FINALIZING'']
   @ map (\<lambda>state. (spec EXECUTION_EPOCH (Some state) ''REQUEST_CANCEL'' (To ''CANCEL_REQUESTED''))
       \<lparr>ts_effect_builder := effect ''cancel_epoch_nodes'' []\<rparr>)
       [''NOT_STARTED'', ''STARTING'', ''RUNNING'', ''REPLAN_COLLECTING'', ''PAUSE_REQUESTED'', ''PAUSED'',
         ''REPLAN_REQUIRED'', ''FINALIZING'', ''TRIAGE_REQUIRED'']
   @ map (\<lambda>state. (spec EXECUTION_EPOCH (Some state) ''ENTER_TRIAGE'' (To ''TRIAGE_REQUIRED''))
       \<lparr>ts_reducer := triage_reducer state,
        ts_effect_builder := (if state \<notin> {''NOT_STARTED'', ''PAUSE_REQUESTED'',
          ''CANCEL_REQUESTED''} then effect ''freeze_epoch_nodes'' [] else no_effects)\<rparr>)
       execution_triage_states
   @ [spec EXECUTION_EPOCH (Some ''TRIAGE_REQUIRED'') ''ENTER_TRIAGE'' (To ''TRIAGE_REQUIRED'')]
   @ [(spec EXECUTION_EPOCH (Some ''TRIAGE_REQUIRED'') ''RESOLVE_TRIAGE'' (mapped_triage_resume_target [(''NOT_STARTED'', ''NOT_STARTED''), (''STARTING'', ''STARTING''), (''RUNNING'', ''RUNNING''), (''REPLAN_COLLECTING'', ''REPLAN_COLLECTING''), (''REPLAN_REQUIRED'', ''REPLAN_REQUIRED''), (''FINALIZING'', ''FINALIZING''), (''PAUSE_REQUESTED'', ''PAUSE_REQUESTED''), (''CANCEL_REQUESTED'', ''CANCEL_REQUESTED'')]))
       \<lparr>ts_reducer := resume_cleanup_reducer,
        ts_effect_builder := effect ''reconcile_execution_epoch'' []\<rparr>]"

definition execution_transitions :: "TransitionSpec list" where
  "execution_transitions = execution_static @ execution_controls"

definition execution_classes :: "(string \<times> StateClass) list res" where
  "execution_classes = state_class_map ExecutionEpochState
     [(OUTBOX_WAIT, [''NOT_STARTED'', ''STARTING'', ''FINALIZING'']),
      (CHILD_WAIT, [''RUNNING'', ''REPLAN_COLLECTING'', ''PAUSE_REQUESTED'', ''REPLAN_REQUIRED'', ''CANCEL_REQUESTED'']),
      (PAUSED_CLASS, [''PAUSED'']),
      (TERMINAL, [''SUPERSEDED'', ''COMPLETED'', ''CANCELLED'']),
      (OPERATOR_WAIT, [''TRIAGE_REQUIRED''])]"

definition execution_policies :: "(ControlIntent \<times> ControlPolicy) list" where
  "execution_policies = control_policies
     ''REQUEST_PAUSE'' [''PAUSED'', ''SUPERSEDED'', ''COMPLETED'', ''CANCELLED'', ''TRIAGE_REQUIRED'']
     ''REQUEST_CANCEL'' [''SUPERSEDED'', ''COMPLETED'', ''CANCELLED'']"

definition execution_machine :: "MachineSpec res" where
  "execution_machine = machine_spec EXECUTION_EPOCH execution_classes execution_transitions execution_policies (Inr [])"

definition execution_spec :: MachineSpec where
  "execution_spec = machine_record EXECUTION_EPOCH execution_classes execution_transitions execution_policies (Inr [])"

subsection \<open>The specification validates\<close>

lemmas execution_table_defs = execution_transitions_def execution_static_def execution_controls_def
  execution_triage_states_def execution_policies_def

lemma execution_classes_ok: "\<not> isl execution_classes" and execution_runtime_ok: "\<not> isl (Inr [] :: (string \<times> StateRuntimeSpec) list res)"
  by code_simp+

lemma execution_runtime_wf: "runtime_wf (projr execution_classes) (projr (Inr []))"
  by code_simp

lemma execution_keys_distinct: "distinct (map (\<lambda>(k, key, targets). key) (map skeleton execution_transitions))"
  unfolding execution_table_defs state_enum_defs by (simp add: list_union_def)

lemma execution_skeletons_wf: "list_all (skeleton_wf EXECUTION_EPOCH ExecutionEpochState) (map skeleton execution_transitions)"
  unfolding execution_table_defs state_enum_defs by (simp add: skeleton_wf_def list_union_def)

lemma execution_policies_wf: "policies_wf ExecutionEpochState (map skeleton execution_transitions) execution_policies"
  unfolding execution_table_defs state_enum_defs policies_wf_def control_policies_def skeleton_request_states_def
  by (simp add: list_union_def)

lemma execution_chain: "reach_chain (map skeleton execution_transitions) [] [''NOT_STARTED'', ''STARTING'', ''RUNNING'', ''REPLAN_COLLECTING'', ''PAUSE_REQUESTED'', ''PAUSED'', ''REPLAN_REQUIRED'', ''SUPERSEDED'', ''FINALIZING'', ''COMPLETED'', ''CANCEL_REQUESTED'', ''CANCELLED'', ''TRIAGE_REQUIRED'']"
  unfolding execution_table_defs state_enum_defs by (simp add: list_union_def)

lemma execution_machine_eq: "execution_machine = Inr execution_spec"
  unfolding execution_machine_def execution_spec_def
  by (rule machine_spec_ok [OF execution_classes_def execution_classes_ok execution_runtime_ok execution_runtime_wf
        execution_keys_distinct execution_skeletons_wf _ execution_policies_wf execution_chain])
     (simp_all add: execution_table_defs state_enum_defs control_policies_def)

end
