(* ===== verification/Node_Machine.thy ===== *)
theory Node_Machine
  imports Machine_Build
begin

section \<open>The DAG node run machine\<close>

text \<open>
  The life cycle of one module of the execution graph: blocked, produced, quiesced, snapshotted, reviewed,
  repaired, accepted or stale, with pause, cancellation, staleness and triage. The table is that of
  \<open>_node_transitions\<close> in \<open>bunshin/machines.py\<close>; classification, ownership and control policies are those of
  \<open>all_machine_specs\<close>.
\<close>

definition node_static_1 :: "TransitionSpec list" where
  "node_static_1 =
    [(spec DAG_NODE_RUN None ''CREATE_NODE_RUN'' (To ''BLOCKED_BY_DEPS''))
       \<lparr>ts_guard := required [''unit_contract_ref'', ''epoch_id'']\<rparr>,
     (spec DAG_NODE_RUN (Some ''BLOCKED_BY_DEPS'') ''CARRY_FORWARD_MODULE'' (To ''ACCEPTED''))
       \<lparr>ts_guard := all_guards [node_kind ''unit'', required [''candidate_ref'', ''candidate_digest'',
         ''verification_artifact_ref'', ''graph_contract_hash''], ready_dependencies],
        ts_effect_builder := effects [''notify_node_accepted'', ''publish_accepted_memory_candidate'']\<rparr>,
     (spec DAG_NODE_RUN (Some ''BLOCKED_BY_DEPS'') ''PRESERVE_MODULE_WORKTREE'' (To ''BLOCKED_BY_DEPS''))
       \<lparr>ts_guard := all_guards [node_kind ''unit'', required [''preserved_from_node_run_id'',
         ''parent_candidate_digest'']]\<rparr>,
     (spec DAG_NODE_RUN (Some ''BLOCKED_BY_DEPS'') ''DEPENDENCIES_ACCEPTED'' (To ''QUEUED''))
       \<lparr>ts_guard := all_guards [node_kind ''unit'', ready_producer_dependencies],
        ts_effect_builder := effect ''admit_implementation_role'' [(''role_mode'', PStr ''produce'')]\<rparr>,
     (spec DAG_NODE_RUN (Some ''QUEUED'') ''ACCEPT_NULL_EXECUTION'' (To ''ACCEPTED''))
       \<lparr>ts_guard := all_guards [node_kind ''unit'', required [''candidate_ref'', ''candidate_digest'',
         ''verification_artifact_ref'', ''graph_contract_hash'']],
        ts_effect_builder := effect ''notify_node_accepted'' [],
        ts_reducer := merge_payload\<rparr>,
     (spec DAG_NODE_RUN (Some ''QUEUED'') ''START_PRODUCING'' (To ''PRODUCING''))
       \<lparr>ts_guard := all_guards [node_kind ''unit'', lease_guard],
        ts_effect_builder := effect ''run_implementation_role'' [(''role_mode'', PStr ''produce'')],
        ts_reducer := worker_started_reducer\<rparr>,
     (spec DAG_NODE_RUN (Some ''PRODUCING'') ''REBIND_PRODUCER'' (To ''PRODUCING''))
       \<lparr>ts_guard := lease_guard,
        ts_reducer := worker_started_reducer\<rparr>,
     (spec DAG_NODE_RUN (Some ''PRODUCING'') ''SUBMIT_CANDIDATE'' (To ''QUIESCING''))
       \<lparr>ts_guard := lease_guard,
        ts_effect_builder := effect ''quiesce_implementation_role'' [(''role_mode'', PStr ''produce'')]\<rparr>,
     (spec DAG_NODE_RUN (Some ''REPAIRING'') ''SUBMIT_CANDIDATE'' (To ''QUIESCING''))
       \<lparr>ts_guard := lease_guard,
        ts_effect_builder := effect ''quiesce_implementation_role'' [(''role_mode'', PStr ''repair'')]\<rparr>,
     (spec DAG_NODE_RUN (Some ''PRODUCING'') ''PRODUCER_ARCHITECTURE_DEFECT'' (To ''STALE''))
       \<lparr>ts_guard := required [''finding_artifact_ref''],
        ts_effect_builder := effect ''request_epoch_replan'' [],
        ts_reducer := worker_finished_reducer\<rparr>,
     (spec DAG_NODE_RUN (Some ''REPAIRING'') ''PRODUCER_ARCHITECTURE_DEFECT'' (To ''STALE''))
       \<lparr>ts_guard := required [''finding_artifact_ref''],
        ts_effect_builder := effect ''request_epoch_replan'' [],
        ts_reducer := worker_finished_reducer\<rparr>,
     (spec DAG_NODE_RUN (Some ''QUIESCING'') ''QUIESCE_COMPLETED'' (To ''SNAPSHOTTING''))
       \<lparr>ts_guard := quiesce_guard,
        ts_effect_builder := effect ''snapshot_implementation_result'' []\<rparr>,
     (spec DAG_NODE_RUN (Some ''QUIESCING'') ''REBIND_QUIESCER'' (To ''QUIESCING''))
       \<lparr>ts_guard := lease_guard,
        ts_reducer := worker_started_reducer\<rparr>,
     (spec DAG_NODE_RUN (Some ''QUIESCING'') ''QUIESCE_FAILED'' (To ''TRIAGE_REQUIRED''))
       \<lparr>ts_guard := required [''failure_artifact_ref''],
        ts_reducer := triage_reducer ''QUIESCING'',
        ts_effect_builder := effect ''quiesce_role_for_triage'' []\<rparr>,
     (spec DAG_NODE_RUN (Some ''SNAPSHOTTING'') ''CANDIDATE_SNAPSHOTTED'' (To ''REVIEW_BLOCKED_BY_DEPS''))
       \<lparr>ts_guard := candidate_guard,
        ts_effect_builder := effect ''schedule_ready_nodes'' []\<rparr>,
     (spec DAG_NODE_RUN (Some ''SNAPSHOTTING'') ''REBIND_SNAPSHOTTER'' (To ''SNAPSHOTTING''))
       \<lparr>ts_guard := lease_guard,
        ts_reducer := worker_started_reducer\<rparr>,
     (spec DAG_NODE_RUN (Some ''SNAPSHOTTING'') ''SNAPSHOT_FAILED'' (To ''TRIAGE_REQUIRED''))
       \<lparr>ts_guard := required [''failure_artifact_ref''],
        ts_reducer := triage_reducer ''SNAPSHOTTING'',
        ts_effect_builder := effect ''quiesce_role_for_triage'' []\<rparr>,
     (spec DAG_NODE_RUN (Some ''REVIEW_BLOCKED_BY_DEPS'') ''VERIFICATION_DEPENDENCIES_ACCEPTED'' (To ''REVIEW_QUEUED''))
       \<lparr>ts_guard := all_guards [node_kind ''unit'', ready_dependencies],
        ts_effect_builder := effect ''admit_verifier_role'' [(''role_mode'', PStr ''module'')],
        ts_reducer := merge_payload\<rparr>,
     (spec DAG_NODE_RUN (Some ''REVIEW_QUEUED'') ''START_REVIEW'' (To ''REVIEWING''))
       \<lparr>ts_guard := lease_guard,
        ts_effect_builder := effect ''run_verifier_role'' [(''role_mode'', PStr ''module'')],
        ts_reducer := worker_started_reducer\<rparr>,
     (spec DAG_NODE_RUN (Some ''REVIEWING'') ''REBIND_REVIEWER'' (To ''REVIEWING''))
       \<lparr>ts_guard := lease_guard,
        ts_reducer := worker_started_reducer\<rparr>,
     (spec DAG_NODE_RUN (Some ''REVIEWING'') ''SUBMIT_SEMANTIC_VERIFICATION'' (To ''REVIEW_QUIESCING''))
       \<lparr>ts_guard := required [''pending_verification_ref''],
        ts_effect_builder := effect ''quiesce_verifier_role'' [(''role_mode'', PStr ''module'')]\<rparr>,
     (spec DAG_NODE_RUN (Some ''REVIEW_QUIESCING'') ''VERIFIER_QUIESCED'' (To ''REVIEW_SNAPSHOTTING''))
       \<lparr>ts_guard := quiesce_guard,
        ts_effect_builder := effect ''snapshot_verifier_result'' [(''role_mode'', PStr ''module'')]\<rparr>,
     (spec DAG_NODE_RUN (Some ''REPAIR_QUEUED'') ''START_REPAIR'' (To ''REPAIRING''))
       \<lparr>ts_guard := lease_guard,
        ts_effect_builder := effect ''run_implementation_role'' [(''role_mode'', PStr ''repair'')],
        ts_reducer := worker_started_reducer\<rparr>,
     (spec DAG_NODE_RUN (Some ''REPAIRING'') ''REBIND_REPAIRER'' (To ''REPAIRING''))
       \<lparr>ts_guard := lease_guard,
        ts_reducer := worker_started_reducer\<rparr>,
     (spec DAG_NODE_RUN (Some ''REVIEW_SNAPSHOTTING'') ''REVIEW_PASSED'' (To ''ACCEPTED''))
       \<lparr>ts_guard := required [''verification_artifact_ref''],
        ts_effect_builder := effects [''notify_node_accepted'', ''publish_accepted_memory_candidate''],
        ts_reducer := worker_finished_reducer\<rparr>,
     (spec DAG_NODE_RUN (Some ''REVIEW_SNAPSHOTTING'') ''REVIEW_UNKNOWN_ALLOWED'' (To ''ACCEPTED''))
       \<lparr>ts_guard := all_guards [required [''verification_artifact_ref''], allowed_unknown_guard],
        ts_effect_builder := effects [''notify_node_accepted'', ''publish_accepted_memory_candidate''],
        ts_reducer := worker_finished_reducer\<rparr>,
     (spec DAG_NODE_RUN (Some ''REVIEW_SNAPSHOTTING'') ''REVIEW_FAILED'' (To ''REPAIR_QUEUED''))
       \<lparr>ts_guard := required [''verification_artifact_ref'', ''repair_bill_ref'', ''finding_fingerprint''],
        ts_effect_builder := effect ''admit_implementation_role'' [(''role_mode'', PStr ''repair'')],
        ts_reducer := worker_finished_reducer\<rparr>,
     (spec DAG_NODE_RUN (Some ''REVIEW_SNAPSHOTTING'') ''VERIFICATION_DEFECT'' (To ''REVIEW_QUEUED''))
       \<lparr>ts_guard := required [''verification_artifact_ref'', ''repair_bill_ref'', ''finding_fingerprint''],
        ts_effect_builder := effect ''admit_verifier_role'' [(''role_mode'', PStr ''module'')],
        ts_reducer := worker_finished_reducer\<rparr>,
     (spec DAG_NODE_RUN (Some ''REVIEW_SNAPSHOTTING'') ''REGISTER_DEPENDENCY_REPAIR'' (To ''REVIEW_SNAPSHOTTING''))
       \<lparr>ts_guard := all_guards [required [''dependency_repair_incarnation_ref'',
         ''dependency_repair_capture_ref''], dependency_repair_preparation_guard, dependency_repair_generation_guard],
        ts_effect_builder := reconcile_dependency_repairs_effect\<rparr>,
     (spec DAG_NODE_RUN (Some ''REVIEW_SNAPSHOTTING'') ''DEPENDENCY_DEFECT'' (To ''STALE''))
       \<lparr>ts_guard := required [''repair_bill_ref'', ''repair_target_node_id''],
        ts_effect_builder := effect ''reopen_dependency_and_stale_descendants'' [],
        ts_reducer := worker_finished_reducer\<rparr>,
     (spec DAG_NODE_RUN (Some ''REVIEW_SNAPSHOTTING'') ''CONTRACT_DEFECT'' (To ''STALE''))
       \<lparr>ts_guard := required [''repair_bill_ref''],
        ts_effect_builder := effect ''request_epoch_replan'' [],
        ts_reducer := worker_finished_reducer\<rparr>,
     (spec DAG_NODE_RUN (Some ''REVIEW_SNAPSHOTTING'') ''ARCHITECTURE_DEFECT'' (To ''STALE''))
       \<lparr>ts_guard := required [''repair_bill_ref''],
        ts_effect_builder := effect ''request_epoch_replan'' [],
        ts_reducer := worker_finished_reducer\<rparr>,
     (spec DAG_NODE_RUN (Some ''REVIEW_SNAPSHOTTING'') ''REQUIREMENTS_DEFECT'' (To ''STALE''))
       \<lparr>ts_guard := required [''repair_bill_ref''],
        ts_effect_builder := effect ''request_epoch_replan'' [],
        ts_reducer := worker_finished_reducer\<rparr>,
     (spec DAG_NODE_RUN (Some ''STALE'') ''REQUEUE_STALE'' (To ''QUEUED''))
       \<lparr>ts_guard := all_guards [node_kind ''unit'', required [''unit_contract_ref'',
         ''dependency_fingerprint''], ready_producer_dependencies],
        ts_effect_builder := effect ''admit_implementation_role'' [(''role_mode'', PStr ''produce'')]\<rparr>,
     spec DAG_NODE_RUN (Some ''PAUSE_REQUESTED'') ''PAUSE_CONFIRMED'' (To ''PAUSED''),
     spec DAG_NODE_RUN (Some ''CANCEL_REQUESTED'') ''CANCEL_CONFIRMED'' (resume_target [''CANCELLED'',
       ''STALE''] ''cancel_target'')]"

definition node_static_2 :: "TransitionSpec list" where
  "node_static_2 =
    [(spec DAG_NODE_RUN (Some ''ACCEPTED'') ''REOPEN_DEPENDENCY'' (To ''REPAIR_QUEUED''))
       \<lparr>ts_guard := required [''repair_bill_ref''],
        ts_effect_builder := effect ''admit_implementation_role'' [(''role_mode'', PStr ''repair'')],
        ts_reducer := merge_payload\<rparr>,
     (spec DAG_NODE_RUN (Some ''ACCEPTED'') ''REOPEN_VERIFICATION'' (To ''REVIEW_QUEUED''))
       \<lparr>ts_guard := required [''repair_bill_ref''],
        ts_effect_builder := effect ''admit_verifier_role'' [(''role_mode'', PStr ''module'')],
        ts_reducer := merge_payload\<rparr>,
     (spec DAG_NODE_RUN (Some ''ACCEPTED'') ''MEMORY_CANDIDATE_PUBLISHED'' (To ''ACCEPTED''))
       \<lparr>ts_guard := required [''memory_candidate_ref'']\<rparr>]"

definition node_pausable :: "string list" where
  "node_pausable = [''BLOCKED_BY_DEPS'', ''QUEUED'', ''PRODUCING'', ''REVIEW_BLOCKED_BY_DEPS'',
    ''REVIEW_QUEUED'', ''REVIEWING'', ''REVIEW_QUIESCING'', ''REVIEW_SNAPSHOTTING'', ''REPAIR_QUEUED'',
    ''REPAIRING'']"

definition node_resume :: "(string \<times> string) list" where
  "node_resume =
    [(''BLOCKED_BY_DEPS'', ''BLOCKED_BY_DEPS''),
     (''QUEUED'', ''QUEUED''),
     (''PRODUCING'', ''QUEUED''),
     (''REVIEW_BLOCKED_BY_DEPS'', ''REVIEW_BLOCKED_BY_DEPS''),
     (''REVIEW_QUEUED'', ''REVIEW_QUEUED''),
     (''REVIEWING'', ''REVIEW_QUEUED''),
     (''REVIEW_QUIESCING'', ''REVIEW_QUIESCING''),
     (''REVIEW_SNAPSHOTTING'', ''REVIEW_SNAPSHOTTING''),
     (''REPAIR_QUEUED'', ''REPAIR_QUEUED''),
     (''REPAIRING'', ''REPAIR_QUEUED''),
     (''QUIESCING'', ''QUIESCING''),
     (''SNAPSHOTTING'', ''SNAPSHOTTING''),
     (''PAUSE_REQUESTED'', ''PAUSE_REQUESTED''),
     (''CANCEL_REQUESTED'', ''CANCEL_REQUESTED'')]"

definition node_cancellable :: "string list" where
  "node_cancellable = list_union node_pausable [''BLOCKED_BY_DEPS'', ''QUIESCING'', ''SNAPSHOTTING'',
    ''REVIEW_QUIESCING'', ''REVIEW_SNAPSHOTTING'', ''STALE'', ''PAUSE_REQUESTED'', ''PAUSED'',
    ''TRIAGE_REQUIRED'']"

definition node_directly_staleable :: "string list" where
  "node_directly_staleable = [''BLOCKED_BY_DEPS'', ''QUEUED'', ''REVIEW_BLOCKED_BY_DEPS'', ''REVIEW_QUEUED'',
    ''REPAIR_QUEUED'', ''ACCEPTED'', ''CANCELLED'']"

definition node_triageable :: "string list" where
  "node_triageable = list_union node_pausable [''QUIESCING'', ''SNAPSHOTTING'', ''REVIEW_QUIESCING'',
    ''REVIEW_SNAPSHOTTING'', ''PAUSE_REQUESTED'', ''CANCEL_REQUESTED'']"

definition node_controls :: "TransitionSpec list" where
  "node_controls =
    map (\<lambda>state. (spec DAG_NODE_RUN (Some state) ''CAPTURE_DEPENDENCY_REPAIR'' (To state))
       \<lparr>ts_guard := all_guards [required [''dependency_repair_capture_ref''], dependency_repair_preparation_guard]\<rparr>)
       [''CANCEL_REQUESTED'', ''REVIEW_SNAPSHOTTING'', ''STALE'']
   @ map (\<lambda>state. (spec DAG_NODE_RUN (Some state) ''SETTLE_DEPENDENCY_REPAIR'' (To ''STALE''))
       \<lparr>ts_guard := required [''dependency_repair_applied_ref''],
        ts_reducer := worker_finished_reducer\<rparr>)
       (filter (\<lambda>s. s \<notin> {''CANCELLED'', ''PAUSED'', ''PAUSE_REQUESTED'', ''TRIAGE_REQUIRED''}) DagNodeRunState)
   @ [(spec DAG_NODE_RUN (Some ''STALE'') ''REOPEN_DEPENDENCY'' (To ''REPAIR_QUEUED''))
       \<lparr>ts_guard := required [''repair_bill_ref'', ''dependency_repair_applied_ref''],
        ts_effect_builder := effect ''admit_implementation_role'' [(''role_mode'', PStr ''repair'')]\<rparr>]
   @ map (\<lambda>state. (spec DAG_NODE_RUN (Some state) ''REQUEST_PAUSE'' (To ''PAUSE_REQUESTED''))
       \<lparr>ts_reducer := pause_reducer state,
        ts_effect_builder := effect ''pause_role'' []\<rparr>)
       node_pausable
   @ [(spec DAG_NODE_RUN (Some ''PAUSED'') ''RESUME'' (mapped_resume_target node_resume ''resume_state''))
       \<lparr>ts_reducer := resume_cleanup_reducer,
        ts_effect_builder := effects [''resume_semantic_state'', ''schedule_ready_nodes'']\<rparr>]
   @ map (\<lambda>state. (spec DAG_NODE_RUN (Some state) ''REQUEST_CANCEL'' (To ''CANCEL_REQUESTED''))
       \<lparr>ts_reducer := cancel_reducer ''CANCELLED'',
        ts_effect_builder := effect ''cancel_role'' []\<rparr>)
       node_cancellable
   @ map (\<lambda>state. (spec DAG_NODE_RUN (Some state) ''MARK_STALE'' (To ''STALE''))
       \<lparr>ts_guard := required [''stale_reason_ref''],
        ts_effect_builder := effect ''suspend_stale_node_assignments'' [],
        ts_reducer := merge_payload\<rparr>)
       node_directly_staleable
   @ map (\<lambda>state. (spec DAG_NODE_RUN (Some state) ''REQUEST_STALE'' (To ''CANCEL_REQUESTED''))
       \<lparr>ts_guard := required [''stale_reason_ref''],
        ts_reducer := cancel_reducer ''STALE'',
        ts_effect_builder := effect ''cancel_role'' []\<rparr>)
       [''PRODUCING'', ''QUIESCING'', ''SNAPSHOTTING'', ''REVIEWING'', ''REVIEW_QUIESCING'',
         ''REVIEW_SNAPSHOTTING'', ''REPAIRING'', ''PAUSE_REQUESTED'', ''PAUSED'']
   @ map (\<lambda>state. (spec DAG_NODE_RUN (Some state) ''ENTER_TRIAGE'' (To ''TRIAGE_REQUIRED''))
       \<lparr>ts_reducer := triage_reducer state,
        ts_effect_builder := (if state \<notin> {''PAUSE_REQUESTED'',
          ''CANCEL_REQUESTED''} then effect ''quiesce_role_for_triage'' [] else no_effects)\<rparr>)
       node_triageable
   @ [spec DAG_NODE_RUN (Some ''TRIAGE_REQUIRED'') ''ENTER_TRIAGE'' (To ''TRIAGE_REQUIRED'')]
   @ map (\<lambda>state. (spec DAG_NODE_RUN (Some state) ''ROLE_FAILED'' (To ''TRIAGE_REQUIRED''))
       \<lparr>ts_guard := role_failure_guard,
        ts_reducer := triage_reducer state,
        ts_effect_builder := effect ''quiesce_role_for_triage'' []\<rparr>)
       [''PRODUCING'', ''REVIEWING'', ''REPAIRING'']
   @ [(spec DAG_NODE_RUN (Some ''TRIAGE_REQUIRED'') ''RESOLVE_TRIAGE'' (mapped_triage_resume_target node_resume))
       \<lparr>ts_reducer := node_resume_cleanup_reducer,
        ts_effect_builder := effects [''reconcile_semantic_state'', ''schedule_ready_nodes'']\<rparr>]"

definition node_transitions :: "TransitionSpec list" where
  "node_transitions = node_static_1 @ node_static_2 @ node_controls"

definition node_classes :: "(string \<times> StateClass) list res" where
  "node_classes = state_class_map DagNodeRunState
     [(DEPENDENCY_WAIT, [''BLOCKED_BY_DEPS'', ''REVIEW_BLOCKED_BY_DEPS'', ''STALE'']),
      (WORKER_LIVENESS, [''QUEUED'', ''PRODUCING'', ''QUIESCING'', ''SNAPSHOTTING'', ''REVIEW_QUEUED'', ''REVIEWING'', ''REVIEW_QUIESCING'', ''REVIEW_SNAPSHOTTING'', ''REPAIR_QUEUED'', ''REPAIRING'', ''PAUSE_REQUESTED'', ''CANCEL_REQUESTED'']),
      (PAUSED_CLASS, [''PAUSED'']),
      (TERMINAL, [''ACCEPTED'', ''CANCELLED'']),
      (OPERATOR_WAIT, [''TRIAGE_REQUIRED''])]"

definition node_runtime :: "(string \<times> StateRuntimeSpec) list res" where
  "node_runtime = runtime_state_map
     (let implementation_produce = [(IMPLEMENTATION, PRODUCE)];
          implementation_repair = [(IMPLEMENTATION, REPAIR)];
          verifier_module = [(VERIFIER, MODULE)];
          all_node_activations = implementation_produce @ implementation_repair @ verifier_module in
      [([''QUEUED''], implementation_produce, ADMIT_ROLE),
       ([''PRODUCING''], implementation_produce, RESUME_ROLE),
       ([''QUIESCING'', ''SNAPSHOTTING''], implementation_produce, RECONCILE_STATE),
       ([''REPAIR_QUEUED''], implementation_repair, ADMIT_ROLE),
       ([''REPAIRING''], implementation_repair, RESUME_ROLE),
       ([''REVIEW_QUEUED''], verifier_module, ADMIT_ROLE),
       ([''REVIEWING''], verifier_module, RESUME_ROLE),
       ([''REVIEW_QUIESCING'', ''REVIEW_SNAPSHOTTING''], verifier_module, RECONCILE_STATE),
       ([''PAUSE_REQUESTED'', ''CANCEL_REQUESTED''], all_node_activations, CONTROL_ROLE)])"

definition node_policies :: "(ControlIntent \<times> ControlPolicy) list" where
  "node_policies = control_policies
     ''REQUEST_PAUSE'' [''PAUSED'', ''ACCEPTED'', ''STALE'', ''CANCELLED'', ''TRIAGE_REQUIRED'']
     ''REQUEST_CANCEL'' [''ACCEPTED'', ''CANCELLED'']"

definition node_machine :: "MachineSpec res" where
  "node_machine = machine_spec DAG_NODE_RUN node_classes node_transitions node_policies node_runtime"

definition node_spec :: MachineSpec where
  "node_spec = machine_record DAG_NODE_RUN node_classes node_transitions node_policies node_runtime"

subsection \<open>The specification validates\<close>

lemmas node_table_defs = node_transitions_def node_static_1_def node_static_2_def node_controls_def
  node_pausable_def node_resume_def node_cancellable_def node_directly_staleable_def node_triageable_def node_policies_def

lemma node_classes_ok: "\<not> isl node_classes" and node_runtime_ok: "\<not> isl node_runtime"
  by code_simp+

lemma node_runtime_wf: "runtime_wf (projr node_classes) (projr node_runtime)"
  by code_simp

lemma node_keys_distinct: "distinct (map (\<lambda>(k, key, targets). key) (map skeleton node_transitions))"
  unfolding node_table_defs state_enum_defs by (simp add: list_union_def)

lemma node_skeletons_wf: "list_all (skeleton_wf DAG_NODE_RUN DagNodeRunState) (map skeleton node_transitions)"
  unfolding node_table_defs state_enum_defs by (simp add: skeleton_wf_def list_union_def)

lemma node_policies_wf: "policies_wf DagNodeRunState (map skeleton node_transitions) node_policies"
  unfolding node_table_defs state_enum_defs policies_wf_def control_policies_def skeleton_request_states_def
  by (simp add: list_union_def)

lemma node_chain: "reach_chain (map skeleton node_transitions) [] DagNodeRunState"
  unfolding node_table_defs state_enum_defs by (simp add: list_union_def)

lemma node_machine_eq: "node_machine = Inr node_spec"
  unfolding node_machine_def node_spec_def
  by (rule machine_spec_ok [OF node_classes_def node_classes_ok node_runtime_ok node_runtime_wf
        node_keys_distinct node_skeletons_wf _ node_policies_wf node_chain])
     (simp_all add: node_table_defs state_enum_defs control_policies_def)

end
