(* ===== verification/Review_Machine.thy ===== *)
theory Review_Machine
  imports Machine_Build
begin

section \<open>The standalone review machine\<close>

text \<open>
  A review requested outside a workflow: received, queued, reviewed, reported and acknowledged or handed
  to repair. The table is that of \<open>_standalone_review_transitions\<close> in \<open>bunshin/machines.py\<close>.
\<close>

definition standalone_static :: "TransitionSpec list" where
  "standalone_static =
    [(spec STANDALONE_REVIEW None ''CREATE_STANDALONE_REVIEW'' (To ''RECEIVED''))
       \<lparr>ts_guard := required [''review_request_ref'']\<rparr>,
     (spec STANDALONE_REVIEW (Some ''RECEIVED'') ''QUEUE_REVIEW'' (To ''REVIEW_QUEUED''))
       \<lparr>ts_effect_builder := effect ''admit_reviewer_role'' [(''role_mode'', PStr ''standalone'')]\<rparr>,
     (spec STANDALONE_REVIEW (Some ''REVIEW_QUEUED'') ''START_REVIEW'' (To ''REVIEWING''))
       \<lparr>ts_guard := lease_guard,
        ts_effect_builder := effect ''run_reviewer_role'' [(''role_mode'', PStr ''standalone'')],
        ts_reducer := worker_started_reducer\<rparr>,
     (spec STANDALONE_REVIEW (Some ''REVIEWING'') ''REBIND_REVIEWER'' (To ''REVIEWING''))
       \<lparr>ts_guard := lease_guard,
        ts_reducer := worker_started_reducer\<rparr>,
     (spec STANDALONE_REVIEW (Some ''REVIEWING'') ''REPORT_PRODUCED'' (To ''REPORT_READY''))
       \<lparr>ts_guard := required [''verification_artifact_ref''],
        ts_effect_builder := effect ''publish_review_report'' [],
        ts_reducer := worker_finished_reducer\<rparr>,
     (spec STANDALONE_REVIEW (Some ''REPORT_READY'') ''ACKNOWLEDGE_REPORT'' (To ''COMPLETED''))
       \<lparr>ts_effect_builder := effect ''submit_standalone_completion'' []\<rparr>,
     (spec STANDALONE_REVIEW (Some ''REPORT_READY'') ''HANDOFF_REPAIR'' (To ''COMPLETED''))
       \<lparr>ts_guard := required [''architecture_manifest_ref''],
        ts_effect_builder := effect ''start_review_repair_execution'' []\<rparr>,
     spec STANDALONE_REVIEW (Some ''PAUSE_REQUESTED'') ''PAUSE_CONFIRMED'' (To ''PAUSED''),
     spec STANDALONE_REVIEW (Some ''CANCEL_REQUESTED'') ''CANCEL_CONFIRMED'' (To ''CANCELLED'')]"

definition standalone_pausable :: "string list" where
  "standalone_pausable = [''RECEIVED'', ''REVIEW_QUEUED'', ''REVIEWING'', ''REPORT_READY'']"

definition standalone_resumable :: "string list" where
  "standalone_resumable = standalone_pausable"

definition standalone_resume :: "(string \<times> string) list" where
  "standalone_resume =
    [(''RECEIVED'', ''RECEIVED''),
     (''REVIEW_QUEUED'', ''REVIEW_QUEUED''),
     (''REVIEWING'', ''REVIEW_QUEUED''),
     (''REPORT_READY'', ''REPORT_READY''),
     (''PAUSE_REQUESTED'', ''PAUSE_REQUESTED''),
     (''CANCEL_REQUESTED'', ''CANCEL_REQUESTED'')]"

definition standalone_controls :: "TransitionSpec list" where
  "standalone_controls =
    map (\<lambda>state. (spec STANDALONE_REVIEW (Some state) ''REQUEST_PAUSE'' (To ''PAUSE_REQUESTED''))
       \<lparr>ts_reducer := pause_reducer state,
        ts_effect_builder := effect ''pause_role'' []\<rparr>)
       standalone_pausable
   @ [(spec STANDALONE_REVIEW (Some ''PAUSED'') ''RESUME'' (resume_target standalone_resumable ''resume_state''))
       \<lparr>ts_reducer := resume_cleanup_reducer,
        ts_effect_builder := effect ''resume_semantic_state'' []\<rparr>]
   @ map (\<lambda>state. (spec STANDALONE_REVIEW (Some state) ''REQUEST_CANCEL'' (To ''CANCEL_REQUESTED''))
       \<lparr>ts_effect_builder := effect ''cancel_role'' []\<rparr>)
       (list_union standalone_pausable [''PAUSE_REQUESTED'', ''PAUSED'', ''TRIAGE_REQUIRED''])
   @ map (\<lambda>state. (spec STANDALONE_REVIEW (Some state) ''ENTER_TRIAGE'' (To ''TRIAGE_REQUIRED''))
       \<lparr>ts_reducer := triage_reducer state,
        ts_effect_builder := (if state \<notin> {''PAUSE_REQUESTED'',
          ''CANCEL_REQUESTED''} then effect ''quiesce_role_for_triage'' [] else no_effects)\<rparr>)
       (list_union standalone_pausable [''PAUSE_REQUESTED'', ''CANCEL_REQUESTED''])
   @ [spec STANDALONE_REVIEW (Some ''TRIAGE_REQUIRED'') ''ENTER_TRIAGE'' (To ''TRIAGE_REQUIRED'')]
   @ [(spec STANDALONE_REVIEW (Some ''REVIEWING'') ''ROLE_FAILED'' (To ''TRIAGE_REQUIRED''))
       \<lparr>ts_guard := role_failure_guard,
        ts_reducer := triage_reducer ''REVIEWING'',
        ts_effect_builder := effect ''quiesce_role_for_triage'' []\<rparr>]
   @ [(spec STANDALONE_REVIEW (Some ''TRIAGE_REQUIRED'') ''RESOLVE_TRIAGE'' (mapped_triage_resume_target standalone_resume))
       \<lparr>ts_reducer := resume_cleanup_reducer,
        ts_effect_builder := effect ''reconcile_semantic_state'' []\<rparr>]"

definition standalone_transitions :: "TransitionSpec list" where
  "standalone_transitions = standalone_static @ standalone_controls"

definition standalone_classes :: "(string \<times> StateClass) list res" where
  "standalone_classes = state_class_map StandaloneReviewState
     [(WORKER_LIVENESS, [''RECEIVED'', ''REVIEW_QUEUED'', ''REVIEWING'', ''REPORT_READY'', ''PAUSE_REQUESTED'', ''CANCEL_REQUESTED'']),
      (PAUSED_CLASS, [''PAUSED'']),
      (TERMINAL, [''CANCELLED'', ''COMPLETED'']),
      (OPERATOR_WAIT, [''TRIAGE_REQUIRED''])]"

definition standalone_runtime :: "(string \<times> StateRuntimeSpec) list res" where
  "standalone_runtime = runtime_state_map
     (let standalone_review = [(REVIEWER, STANDALONE)] in
      [([''RECEIVED'', ''REVIEW_QUEUED''], standalone_review, ADMIT_ROLE),
       ([''REVIEWING''], standalone_review, RESUME_ROLE),
       ([''REPORT_READY''], standalone_review, RECONCILE_STATE),
       ([''PAUSE_REQUESTED'', ''CANCEL_REQUESTED''], standalone_review, CONTROL_ROLE)])"

definition standalone_policies :: "(ControlIntent \<times> ControlPolicy) list" where
  "standalone_policies = control_policies
     ''REQUEST_PAUSE'' [''PAUSED'', ''CANCELLED'', ''COMPLETED'', ''TRIAGE_REQUIRED'']
     ''REQUEST_CANCEL'' [''CANCELLED'', ''COMPLETED'']"

definition standalone_machine :: "MachineSpec res" where
  "standalone_machine = machine_spec STANDALONE_REVIEW standalone_classes standalone_transitions standalone_policies standalone_runtime"

definition standalone_spec :: MachineSpec where
  "standalone_spec = machine_record STANDALONE_REVIEW standalone_classes standalone_transitions standalone_policies standalone_runtime"

subsection \<open>The specification validates\<close>

lemmas standalone_table_defs = standalone_transitions_def standalone_static_def standalone_controls_def
  standalone_pausable_def standalone_resumable_def standalone_resume_def standalone_policies_def

lemma standalone_classes_ok: "\<not> isl standalone_classes" and standalone_runtime_ok: "\<not> isl standalone_runtime"
  by code_simp+

lemma standalone_runtime_wf: "runtime_wf (projr standalone_classes) (projr standalone_runtime)"
  by code_simp

lemma standalone_keys_distinct: "distinct (map (\<lambda>(k, key, targets). key) (map skeleton standalone_transitions))"
  unfolding standalone_table_defs state_enum_defs by (simp add: list_union_def)

lemma standalone_skeletons_wf: "list_all (skeleton_wf STANDALONE_REVIEW StandaloneReviewState) (map skeleton standalone_transitions)"
  unfolding standalone_table_defs state_enum_defs by (simp add: skeleton_wf_def list_union_def)

lemma standalone_policies_wf: "policies_wf StandaloneReviewState (map skeleton standalone_transitions) standalone_policies"
  unfolding standalone_table_defs state_enum_defs policies_wf_def control_policies_def skeleton_request_states_def
  by (simp add: list_union_def)

lemma standalone_chain: "reach_chain (map skeleton standalone_transitions) [] StandaloneReviewState"
  unfolding standalone_table_defs state_enum_defs by (simp add: list_union_def)

lemma standalone_machine_eq: "standalone_machine = Inr standalone_spec"
  unfolding standalone_machine_def standalone_spec_def
  by (rule machine_spec_ok [OF standalone_classes_def standalone_classes_ok standalone_runtime_ok standalone_runtime_wf
        standalone_keys_distinct standalone_skeletons_wf _ standalone_policies_wf standalone_chain])
     (simp_all add: standalone_table_defs state_enum_defs control_policies_def)

end
