(* ===== verification/Machines.thy ===== *)
theory Machines
  imports Workflow_Machine Architecture_Machine Execution_Machine Node_Machine Review_Machine
begin

section \<open>The six machines and the default engine\<close>

text \<open>
  \<open>all_machine_specs\<close> and what \<open>bunshin/machines.py\<close> derives from it: the lookup by aggregate type, the
  flat transition list, the liveness-required states and the default engine. The lemmas show that every
  constructor call succeeds, and reduce a step of the default engine to a step of one validated machine.
\<close>

definition all_machine_specs :: "MachineSpec list res" where
  "all_machine_specs = map_res (\<lambda>m. m) [task_machine, workflow_machine, architecture_machine,
     execution_machine, node_machine, standalone_machine]"

definition machine_spec_for :: "AggregateType \<Rightarrow> MachineSpec res" where
  "machine_spec_for ty = rbind all_machine_specs (\<lambda>ms.
     case filter (\<lambda>m. ms_aggregate_type m = ty) ms of
       [] \<Rightarrow> Inl (RuntimeError ''StopIteration'')
     | m # _ \<Rightarrow> Inr m)"

definition all_transition_specs :: "TransitionSpec list res" where
  "all_transition_specs = rbind all_machine_specs (\<lambda>ms. Inr (concat (map ms_transitions ms)))"

definition liveness_states :: "MachineSpec \<Rightarrow> string list" where
  "liveness_states m = map fst (filter (\<lambda>(s, c). c = WORKER_LIVENESS) (ms_state_classes m))"

definition LIVENESS_REQUIRED_STATES :: "(AggregateType \<times> string list) list res" where
  "LIVENESS_REQUIRED_STATES = rbind all_machine_specs (\<lambda>ms.
     Inr (map (\<lambda>m. (ms_aggregate_type m, liveness_states m))
       (filter (\<lambda>m. WORKER_LIVENESS \<in> set (map snd (ms_state_classes m))) ms)))"

definition build_default_transition_engine :: "engine_table res" where
  "build_default_transition_engine = rbind all_transition_specs transition_engine"

subsection \<open>The specifications exist\<close>

definition default_specs :: "MachineSpec list" where
  "default_specs = [task_spec, workflow_spec, architecture_spec, execution_spec, node_spec, standalone_spec]"

lemmas spec_record_defs = task_spec_def workflow_spec_def architecture_spec_def execution_spec_def
  node_spec_def standalone_spec_def

lemma all_machine_specs_eq: "all_machine_specs = Inr default_specs"
  by (simp add: all_machine_specs_def default_specs_def task_machine_eq workflow_machine_eq
      architecture_machine_eq execution_machine_eq node_machine_eq standalone_machine_eq)

lemma spec_types [simp]:
  "ms_aggregate_type task_spec = TASK"
  "ms_aggregate_type workflow_spec = WORKFLOW"
  "ms_aggregate_type architecture_spec = ARCHITECTURE_REVISION"
  "ms_aggregate_type execution_spec = EXECUTION_EPOCH"
  "ms_aggregate_type node_spec = DAG_NODE_RUN"
  "ms_aggregate_type standalone_spec = STANDALONE_REVIEW"
  by (simp_all add: spec_record_defs machine_record_def)

lemma spec_transitions [simp]:
  "ms_transitions task_spec = task_transitions"
  "ms_transitions workflow_spec = workflow_transitions"
  "ms_transitions architecture_spec = architecture_transitions"
  "ms_transitions execution_spec = execution_transitions"
  "ms_transitions node_spec = node_transitions"
  "ms_transitions standalone_spec = standalone_transitions"
  by (simp_all add: spec_record_defs machine_record_def)

fun machine_of :: "AggregateType \<Rightarrow> MachineSpec" where
  "machine_of TASK = task_spec"
| "machine_of WORKFLOW = workflow_spec"
| "machine_of ARCHITECTURE_REVISION = architecture_spec"
| "machine_of EXECUTION_EPOCH = execution_spec"
| "machine_of DAG_NODE_RUN = node_spec"
| "machine_of STANDALONE_REVIEW = standalone_spec"

lemma machine_spec_for_eq: "machine_spec_for ty = Inr (machine_of ty)"
  by (cases ty) (simp_all add: machine_spec_for_def all_machine_specs_eq default_specs_def)

lemma machine_of_type [simp]: "ms_aggregate_type (machine_of ty) = ty"
  by (cases ty) simp_all

lemma default_specs_set: "set default_specs = range machine_of"
proof -
  have "(UNIV :: AggregateType set) =
      {TASK, WORKFLOW, ARCHITECTURE_REVISION, EXECUTION_EPOCH, DAG_NODE_RUN, STANDALONE_REVIEW}"
    using AggregateType.exhaust by auto
  then have "range machine_of = machine_of `
      {TASK, WORKFLOW, ARCHITECTURE_REVISION, EXECUTION_EPOCH, DAG_NODE_RUN, STANDALONE_REVIEW}"
    by (rule arg_cong)
  then show ?thesis by (simp add: default_specs_def)
qed

lemma machine_of_wf: "machine_spec_wf (machine_of ty)"
proof -
  have "machine_spec_wf task_spec" "machine_spec_wf workflow_spec" "machine_spec_wf architecture_spec"
    "machine_spec_wf execution_spec" "machine_spec_wf node_spec" "machine_spec_wf standalone_spec"
    using task_machine_eq workflow_machine_eq architecture_machine_eq execution_machine_eq
      node_machine_eq standalone_machine_eq
    unfolding task_machine_def workflow_machine_def architecture_machine_def execution_machine_def
      node_machine_def standalone_machine_def
    by (blast dest: machine_spec_Inr_wf)+
  then show ?thesis by (cases ty) simp_all
qed

subsection \<open>The default engine\<close>

definition default_table :: engine_table where
  "default_table = map (\<lambda>t. (engine_key t, t)) (concat (map ms_transitions default_specs))"

lemma engine_keys_distinct:
  assumes "distinct (map ms_aggregate_type ms)" and "\<forall>m \<in> set ms. machine_spec_wf m"
  shows "distinct (map engine_key (concat (map ms_transitions ms)))"
  using assms
proof (induction ms)
  case (Cons m ms)
  have ty: "ts_aggregate_type t = ms_aggregate_type m'" if "m' \<in> set (m # ms)" "t \<in> set (ms_transitions m')" for m' t
    using Cons.prems(2) that by (auto simp: machine_spec_wf_def transition_wf_def)
  have "distinct (map spec_key (ms_transitions m))"
    using Cons.prems(2) by (simp add: machine_spec_wf_def)
  then have "distinct (map engine_key (ms_transitions m))"
    by (auto simp: distinct_map inj_on_def engine_key_def spec_key_def)
  moreover have "set (map engine_key (ms_transitions m)) \<inter> set (map engine_key (concat (map ms_transitions ms))) = {}"
  proof -
    have "engine_key t \<noteq> engine_key t'"
      if "t \<in> set (ms_transitions m)" "m' \<in> set ms" "t' \<in> set (ms_transitions m')" for t t' m'
      using that ty [of m t] ty [of m' t'] Cons.prems(1) by (auto simp: engine_key_def image_iff)
    then show ?thesis by force
  qed
  ultimately show ?case using Cons by simp
qed simp

lemma default_engine_eq: "build_default_transition_engine = Inr default_table"
proof -
  have "distinct (map engine_key (concat (map ms_transitions default_specs)))"
    by (rule engine_keys_distinct)
       (simp_all add: default_specs_set machine_of_wf, simp add: default_specs_def)
  then show ?thesis
    by (simp add: build_default_transition_engine_def all_transition_specs_def all_machine_specs_eq
        transition_engine_Inr default_table_def)
qed

lemma default_table_engine: "transition_engine (concat (map ms_transitions default_specs)) = Inr default_table"
  using default_engine_eq
  by (simp add: build_default_transition_engine_def all_transition_specs_def all_machine_specs_eq)

lemma default_lookup:
  "map_of default_table (ty, s, act) = Some t \<longleftrightarrow>
     t \<in> set (ms_transitions (machine_of ty)) \<and> ts_source_state t = s \<and> ts_action_type t = act"
proof -
  have "map_of default_table (ty, s, act) = Some t \<longleftrightarrow>
      t \<in> set (concat (map ms_transitions default_specs)) \<and> engine_key t = (ty, s, act)"
    by (rule engine_lookup [OF default_table_engine])
  moreover have "ts_aggregate_type t = ty'" if "t \<in> set (ms_transitions (machine_of ty'))" for ty'
    using machine_of_wf [of ty'] that by (auto simp: machine_spec_wf_def transition_wf_def)
  ultimately show ?thesis by (auto simp: engine_key_def default_specs_set)
qed

text \<open>A successful step, read from the machine of its aggregate.\<close>

lemma default_step:
  assumes "transition default_table snapshot a = Inr out"
  obtains t p s effs where
    "t \<in> set (ms_transitions (machine_of (aggregate_type a)))"
    "ts_source_state t = map_option snap_state snapshot" "ts_action_type t = action_type a"
    "check_identity snapshot a = Inr ()" "check_version snapshot a = Inr ()"
    "ts_guard t (case snapshot of None \<Rightarrow> [] | Some s \<Rightarrow> snap_payload s) a = Inr ()"
    "ts_reducer t (case snapshot of None \<Rightarrow> [] | Some s \<Rightarrow> snap_payload s) a = Inr p"
    "resolve_target (ts_target_state t) p a = Inr s"
    "s \<in> set (transition_target_states t)"
    "ts_effect_builder t p a s = Inr effs"
    "out = \<lparr>out_snapshot = next_snapshot snapshot a s p, out_events = ts_event_builder t p a s,
            out_effects = effs\<rparr>"
proof -
  from assms obtain t p s effs where
    t: "map_of default_table (aggregate_type a, map_option snap_state snapshot, action_type a) = Some t"
    and rest: "check_identity snapshot a = Inr ()" "check_version snapshot a = Inr ()"
    "ts_guard t (case snapshot of None \<Rightarrow> [] | Some s \<Rightarrow> snap_payload s) a = Inr ()"
    "ts_reducer t (case snapshot of None \<Rightarrow> [] | Some s \<Rightarrow> snap_payload s) a = Inr p"
    "resolve_target (ts_target_state t) p a = Inr s"
    "transition_target_states t = [] \<or> s \<in> set (transition_target_states t)"
    "ts_effect_builder t p a s = Inr effs"
    "out = \<lparr>out_snapshot = next_snapshot snapshot a s p, out_events = ts_event_builder t p a s,
            out_effects = effs\<rparr>"
    unfolding transition_Inr by blast
  from t have m: "t \<in> set (ms_transitions (machine_of (aggregate_type a)))"
    "ts_source_state t = map_option snap_state snapshot" "ts_action_type t = action_type a"
    by (simp_all add: default_lookup)
  then have "transition_target_states t \<noteq> []"
    using machine_of_wf by (auto simp: machine_spec_wf_def transition_wf_def)
  with rest(6) have "s \<in> set (transition_target_states t)" by simp
  with that m rest show thesis by blast
qed

end
