(* ===== verification/Machine_Facts.thy ===== *)
theory Machine_Facts
  imports Machines
begin

section \<open>Facts about every table entry\<close>

text \<open>
  Which errors the building blocks of a table may raise, and that a resolver stays within its declared
  states. Both are checked once for each building block and then for all entries of the six tables, so that
  a step of the default engine can only fail for one of the reasons the engine documents. The default
  engine is then an instance of the contract \<open>declared_step\<close>.
\<close>

subsection \<open>Errors of the building blocks\<close>

fun domain_error :: "err \<Rightarrow> bool" where
  "domain_error (TransitionGuardError m) = True"
| "domain_error (ValueError m) = True"
| "domain_error (TypeError m) = True"
| "domain_error (KeyError m) = True"
| "domain_error _ = False"

definition safe :: "'a res \<Rightarrow> bool" where
  "safe r \<longleftrightarrow> (\<forall>e. r = Inl e \<longrightarrow> domain_error e)"

definition safe_guard :: "guard \<Rightarrow> bool" where
  "safe_guard g \<longleftrightarrow> (\<forall>p a. safe (g p a))"

definition safe_reducer :: "reducer \<Rightarrow> bool" where
  "safe_reducer r \<longleftrightarrow> (\<forall>p a. safe (r p a))"

definition safe_effects :: "effect_builder \<Rightarrow> bool" where
  "safe_effects b \<longleftrightarrow> (\<forall>p a s. safe (b p a s))"

text \<open>A target that raises only guard errors and stays within its declaration for its own aggregate type.\<close>

definition safe_target :: "AggregateType \<Rightarrow> target \<Rightarrow> bool" where
  "safe_target k tgt \<longleftrightarrow> (\<forall>p a. safe (resolve_target tgt p a)
     \<and> (\<forall>s. aggregate_type a = k \<longrightarrow> resolve_target tgt p a = Inr s \<longrightarrow> s \<in> set (target_states_of tgt)))"

definition safe_spec :: "TransitionSpec \<Rightarrow> bool" where
  "safe_spec t \<longleftrightarrow> safe_guard (ts_guard t) \<and> safe_reducer (ts_reducer t) \<and> safe_effects (ts_effect_builder t)
     \<and> safe_target (ts_aggregate_type t) (ts_target_state t)"

lemma safe_simps [simp]:
  "safe (Inr x)"
  "safe (Inl e) \<longleftrightarrow> domain_error e"
  "safe (raise_if b e) \<longleftrightarrow> (b \<longrightarrow> domain_error e)"
  by (auto simp: safe_def raise_if_def)

lemma safe_rbind [intro]: "safe m \<Longrightarrow> (\<And>x. m = Inr x \<Longrightarrow> safe (f x)) \<Longrightarrow> safe (rbind m f)"
  by (cases m) (auto simp: safe_def)

lemma safe_first_error: "(\<And>c. c \<in> set cs \<Longrightarrow> safe c) \<Longrightarrow> safe (first_error cs)"
  by (induction cs) auto

lemma safe_map_res: "(\<And>x. x \<in> set xs \<Longrightarrow> safe (f x)) \<Longrightarrow> safe (map_res f xs)"
proof (induction xs)
  case (Cons x xs)
  then show ?case by (auto intro!: safe_rbind)
qed simp

lemma safe_dict_item: "safe (dict_item v)"
  by (cases v rule: dict_item.cases) simp_all

lemma safe_py_dict: "safe (py_dict v)"
  by (cases v) (auto intro!: safe_rbind safe_map_res safe_dict_item)

lemma safe_py_list: "safe (py_list v)" and safe_py_int: "safe (py_int v)"
  by (cases v; auto split: option.splits)+

lemma safe_conversions [simp]:
  "safe (dict_or_empty v)" "safe (list_or_empty v)" "safe (int_or_zero v)"
  by (simp_all add: dict_or_empty_def list_or_empty_def int_or_zero_def safe_py_dict safe_py_list safe_py_int)

lemma safe_dicts_of [simp]: "safe (dicts_of v)"
  by (auto simp: dicts_of_def intro!: safe_rbind safe_map_res)

lemma safe_str_items [simp]: "safe (str_items v)"
  by (auto simp: str_items_def)

subsection \<open>Guards, effects, reducers and targets\<close>

lemma safe_dependencies_accepted: "safe (dependencies_accepted df af msg p a)"
  unfolding dependencies_accepted_def by (intro safe_rbind safe_str_items) auto

lemma safe_required: "safe (required ws p a)"
  by (simp add: required_def Let_def)

lemma safe_lease: "safe (lease_guard p a)"
  by (simp add: lease_guard_def)

lemma safe_guards [simp]:
  "safe_guard no_guard"
  "safe_guard (required ws)"
  "safe_guard dependency_repair_preparation_guard"
  "safe_guard dependency_repair_generation_guard"
  "safe_guard human_review_card_refresh_guard"
  "safe_guard ready_dependencies"
  "safe_guard ready_producer_dependencies"
  "safe_guard (node_kind k)"
  "safe_guard lease_guard"
  "safe_guard task_revision_append_guard"
  "safe_guard role_failure_guard"
  "safe_guard quiesce_guard"
  "safe_guard candidate_guard"
  "safe_guard allowed_unknown_guard"
  unfolding safe_guard_def no_guard_def dependency_repair_preparation_guard_def Let_def
    dependency_repair_generation_guard_def human_review_card_refresh_guard_def ready_dependencies_def
    ready_producer_dependencies_def node_kind_def task_revision_append_guard_def role_failure_guard_def
    quiesce_guard_def candidate_guard_def allowed_unknown_guard_def
  by (auto intro!: safe_rbind safe_required safe_lease safe_dependencies_accepted split: pyval.splits)

lemma safe_all_guards [simp]: "\<forall>g \<in> set gs. safe_guard g \<Longrightarrow> safe_guard (all_guards gs)"
  unfolding safe_guard_def all_guards_def by (intro allI safe_first_error) auto

lemma safe_effect_builders [simp]:
  "safe_effects no_effects"
  "safe_effects (effect ty fixed)"
  "safe_effects (effects tys)"
  "safe_effects reconcile_dependency_repairs_effect"
  "safe_effects workflow_cancelled_effects"
  "safe_effects workflow_triage_resume_effects"
  unfolding safe_effects_def no_effects_def effect_def effects_def reconcile_dependency_repairs_effect_def
    workflow_cancelled_effects_def workflow_triage_resume_effects_def
  by (auto intro!: safe_rbind)

lemma safe_combined_effects [simp]: "\<forall>b \<in> set bs. safe_effects b \<Longrightarrow> safe_effects (combined_effects bs)"
  unfolding safe_effects_def combined_effects_def by (auto intro!: safe_rbind safe_map_res)

lemma safe_finding_digest [simp]: "safe (finding_digest item)"
  by (auto simp: finding_digest_def)

lemma safe_find_finding [simp]: "safe (find_finding d i items)"
  by (induction items arbitrary: i) (auto intro!: safe_rbind)

lemma safe_subscript [simp]: "safe (subscript d k)"
  by (simp add: subscript_def split: option.splits)

lemma safe_replan_finding: "safe_reducer replan_finding_reducer"
  unfolding safe_reducer_def replan_finding_reducer_def merge_finding_def sort_findings_def
  by (auto intro!: safe_rbind safe_map_res simp: Let_def)

lemma safe_node_blocker [simp]: "safe (node_has_terminal_verification_blocker p)"
  unfolding node_has_terminal_verification_blocker_def Let_def by (auto intro!: safe_rbind)

lemma safe_reducers [simp]:
  "safe_reducer merge_payload"
  "safe_reducer (pause_reducer s)"
  "safe_reducer (triage_reducer s)"
  "safe_reducer resume_cleanup_reducer"
  "safe_reducer workflow_cancel_reducer"
  "safe_reducer restart_cancel_reducer"
  "safe_reducer worker_finished_reducer"
  "safe_reducer architecture_review_passed_reducer"
  "safe_reducer replan_finding_reducer"
  "safe_reducer replan_batch_ready_reducer"
  "safe_reducer successor_epoch_started_reducer"
  "safe_reducer reopen_replan_collection_reducer"
  "safe_reducer architecture_review_reopened_reducer"
  "safe_reducer human_review_card_refresh_reducer"
  "safe_reducer architecture_submission_reducer"
  "safe_reducer architecture_snapshotted_reducer"
  "safe_reducer task_revision_appended_reducer"
  "safe_reducer worker_started_reducer"
  "safe_reducer architecture_worker_started_reducer"
  "safe_reducer architecture_resume_cleanup_reducer"
  "safe_reducer node_resume_cleanup_reducer"
  "safe_reducer (cancel_reducer c)"
  using safe_replan_finding
  unfolding safe_reducer_def merge_payload_def pause_reducer_def triage_reducer_def resume_cleanup_reducer_def
    workflow_cancel_reducer_def restart_cancel_reducer_def worker_finished_reducer_def
    architecture_review_passed_reducer_def replan_batch_ready_reducer_def successor_epoch_started_reducer_def
    reopen_replan_collection_reducer_def architecture_review_reopened_reducer_def
    human_review_card_refresh_reducer_def architecture_submission_reducer_def
    architecture_snapshotted_reducer_def task_revision_appended_reducer_def worker_started_reducer_def
    architecture_worker_started_reducer_def architecture_resume_cleanup_reducer_def
    node_resume_cleanup_reducer_def cancel_reducer_def Let_def
  by (auto intro!: safe_rbind safe_py_dict)

lemma safe_targets [simp]:
  "safe_target k (To s)"
  "safe_target k (resume_target allowed field)"
  "safe_target k (mapped_resume_target mapping field)"
  "safe_target k workflow_cancel_or_restart_target"
  by (auto simp: safe_target_def resume_target_def mapped_resume_target_def
      workflow_cancel_or_restart_target_def Let_def image_iff split: option.splits intro: map_of_SomeD)
     (metis map_of_SomeD snd_conv)

lemma safe_triage_target [simp]:
  "k \<noteq> DAG_NODE_RUN \<or> ''QUEUED'' \<in> snd ` set mapping \<Longrightarrow> safe_target k (mapped_triage_resume_target mapping)"
  by (auto simp: safe_target_def mapped_triage_resume_target_def Let_def split: option.splits)
     (metis map_of_SomeD image_eqI snd_conv)+

subsection \<open>Every entry of every table\<close>

lemma task_entries_safe: "list_all safe_spec task_transitions"
  unfolding task_table_defs state_enum_defs by (simp add: safe_spec_def list_union_def)

lemma workflow_entries_safe: "list_all safe_spec workflow_transitions"
  unfolding workflow_table_defs state_enum_defs by (simp add: safe_spec_def list_union_def)

lemma architecture_entries_safe: "list_all safe_spec architecture_transitions"
  unfolding architecture_table_defs state_enum_defs by (simp add: safe_spec_def list_union_def)

lemma execution_entries_safe: "list_all safe_spec execution_transitions"
  unfolding execution_table_defs state_enum_defs by (simp add: safe_spec_def list_union_def)

lemma node_entries_safe: "list_all safe_spec node_transitions"
  unfolding node_table_defs state_enum_defs by (simp add: safe_spec_def list_union_def)

lemma standalone_entries_safe: "list_all safe_spec standalone_transitions"
  unfolding standalone_table_defs state_enum_defs by (simp add: safe_spec_def list_union_def)

lemma entries_safe: "t \<in> set (ms_transitions (machine_of ty)) \<Longrightarrow> safe_spec t"
  using task_entries_safe workflow_entries_safe architecture_entries_safe execution_entries_safe
    node_entries_safe standalone_entries_safe
  by (cases ty) (auto simp: list_all_iff)

lemma entries_type: "t \<in> set (ms_transitions (machine_of ty)) \<Longrightarrow> ts_aggregate_type t = ty"
  using machine_of_wf [of ty] by (auto simp: machine_spec_wf_def transition_wf_def)

lemma entries_declared:
  "t \<in> set (ms_transitions (machine_of ty)) \<Longrightarrow> set (transition_target_states t) \<subseteq> set (ms_states (machine_of ty))"
  using machine_of_wf [of ty] by (auto simp: machine_spec_wf_def transition_wf_def)

subsection \<open>The default engine meets the contract\<close>

interpretation default_engine: declared_step "transition default_table" "\<lambda>ty. ms_states (machine_of ty)"
proof unfold_locales
  fix snapshot a out
  assume step: "transition default_table snapshot a = Inr out"
  then obtain t p s where "t \<in> set (ms_transitions (machine_of (aggregate_type a)))"
    "s \<in> set (transition_target_states t)" "out_snapshot out = next_snapshot snapshot a s p"
    by (rule default_step) simp
  then show "snap_type (out_snapshot out) = aggregate_type a
      \<and> snap_state (out_snapshot out) \<in> set (ms_states (machine_of (aggregate_type a)))"
    using entries_declared by (auto simp: next_snapshot_def)
qed

text \<open>A step forward: what a caller has to establish for an action to be accepted.\<close>

definition addressed_to :: "AggregateSnapshot \<Rightarrow> ActionEnvelope \<Rightarrow> bool" where
  "addressed_to s a \<longleftrightarrow> aggregate_type a = snap_type s \<and> aggregate_id a = snap_id s
     \<and> workflow_id a = snap_workflow_id s \<and> expected_version a = None"

lemma default_step_accepted:
  assumes "t \<in> set (ms_transitions (machine_of (snap_type s)))"
    and "ts_source_state t = Some (snap_state s)" and "ts_action_type t = action_type a"
    and "addressed_to s a"
    and "ts_guard t (snap_payload s) a = Inr ()" and "ts_reducer t (snap_payload s) a = Inr p"
    and "resolve_target (ts_target_state t) p a = Inr st" and "ts_effect_builder t p a st = Inr effs"
  shows "transition default_table (Some s) a = Inr \<lparr>out_snapshot = next_snapshot (Some s) a st p,
    out_events = ts_event_builder t p a st, out_effects = effs\<rparr>"
proof -
  have "map_of default_table (aggregate_type a, Some (snap_state s), action_type a) = Some t"
    using assms(1-4) by (simp add: default_lookup addressed_to_def)
  moreover have "st \<in> set (transition_target_states t)"
    using entries_safe [OF assms(1)] entries_type [OF assms(1)] assms(4,7)
    by (auto simp: safe_spec_def safe_target_def addressed_to_def transition_target_states_def)
  ultimately show ?thesis
    using assms by (auto simp: transition_Inr check_identity_Inr check_version_Inr addressed_to_def)
qed

lemma next_snapshot_simps [simp]:
  "snap_type (next_snapshot s a st p) = aggregate_type a"
  "snap_id (next_snapshot s a st p) = aggregate_id a"
  "snap_workflow_id (next_snapshot s a st p) = workflow_id a"
  "snap_state (next_snapshot s a st p) = st"
  "snap_version (next_snapshot s a st p) = current_version s + 1"
  "snap_payload (next_snapshot s a st p) = p"
  by (simp_all add: next_snapshot_def)

lemma addressed_to_next [simp]:
  "addressed_to s a \<Longrightarrow> addressed_to (next_snapshot (Some s) a st p) b \<longleftrightarrow> addressed_to s b"
  by (auto simp: addressed_to_def)

text \<open>A step backward: the table entry behind an accepted action, and what holds of every entry.\<close>

lemma default_entry:
  assumes "transition default_table snapshot a = Inr out"
    and "\<And>t. t \<in> set (ms_transitions (machine_of (aggregate_type a))) \<Longrightarrow> P t"
  obtains t where "P t" and "ts_source_state t = map_option snap_state snapshot"
    and "ts_action_type t = action_type a"
    and "ts_guard t (case snapshot of None \<Rightarrow> [] | Some s \<Rightarrow> snap_payload s) a = Inr ()"
    and "ts_reducer t (case snapshot of None \<Rightarrow> [] | Some s \<Rightarrow> snap_payload s) a = Inr (snap_payload (out_snapshot out))"
    and "snap_state (out_snapshot out) \<in> set (transition_target_states t)"
    and "resolve_target (ts_target_state t) (snap_payload (out_snapshot out)) a = Inr (snap_state (out_snapshot out))"
    and "ts_effect_builder t (snap_payload (out_snapshot out)) a (snap_state (out_snapshot out)) = Inr (out_effects out)"
  using assms(1)
proof (rule default_step)
  fix t p s effs
  assume t: "t \<in> set (ms_transitions (machine_of (aggregate_type a)))"
    "ts_source_state t = map_option snap_state snapshot" "ts_action_type t = action_type a"
    "ts_guard t (case snapshot of None \<Rightarrow> [] | Some s \<Rightarrow> snap_payload s) a = Inr ()"
    "ts_reducer t (case snapshot of None \<Rightarrow> [] | Some s \<Rightarrow> snap_payload s) a = Inr p"
    "resolve_target (ts_target_state t) p a = Inr s" "s \<in> set (transition_target_states t)"
    "ts_effect_builder t p a s = Inr effs"
    and out: "out = \<lparr>out_snapshot = next_snapshot snapshot a s p, out_events = ts_event_builder t p a s,
            out_effects = effs\<rparr>"
  show thesis
    by (rule that [of t]) (use t assms(2) out in simp_all)
qed

lemma default_action_type:
  "transition default_table (Some s) a = Inr out \<Longrightarrow> aggregate_type a = snap_type s"
  by (erule default_step) (simp add: check_identity_Inr)

subsection \<open>The plain reducers\<close>

lemma merge_payload_Inr [simp]: "merge_payload p a = Inr q \<longleftrightarrow> q = merged p a"
  by (auto simp: merge_payload_def)

lemma worker_finished_reducer_Inr [simp]: "worker_finished_reducer p a = Inr q \<longleftrightarrow> q = worker_finished p a"
  by (auto simp: worker_finished_reducer_def)

lemma worker_started_reducer_Inr [simp]: "worker_started_reducer p a = Inr q \<longleftrightarrow> q = worker_started p a"
  by (auto simp: worker_started_reducer_def)

lemma worker_started_keeps:
  "k \<notin> {''blocker'', ''failure_artifact_ref''} \<Longrightarrow> dget (worker_started p a) k = dget (merged p a) k"
  by (simp add: worker_started_def dget_dpops)

end
