(* ===== verification/Machine_Properties.thy ===== *)
theory Machine_Properties
  imports Machine_Facts
begin

section \<open>Properties of the machines\<close>

text \<open>
  What the tables guarantee once they run in the default engine: the entry conditions of the important
  states, the absorbing states, the round trips of pause and triage, and the completion of cancellation.
  The lemmas about one table are checked entry by entry; the properties are steps of the engine.
\<close>

subsection \<open>Creation and validation\<close>

text \<open>C34: The constructor of a machine specification accepts exactly the well-formed specifications: liveness
  states and runtime metadata agree, no duplicate transition, only declared states, no state that both
  requests and settles a control intent, at least one creation transition and no unreachable state.\<close>

theorem constructor_accepts_exactly_wf: "machine_spec_post_init m = Inr () \<longleftrightarrow> machine_spec_wf m"
  by (rule post_init_iff_wf)

text \<open>
  The reachability loop of the constructor always ends, and its result is exactly the set of states
  that some chain of transitions reaches from a creation target.\<close>

theorem reachable_states_terminates_exactly:
  "\<exists>r. reachable_states m = Some r \<and> (\<forall>s. s \<in> set r \<longleftrightarrow> reachable_from_creation m s)"
  using reachable_states_exact [of m] by auto

text \<open>Importing the module raises nothing: the six machine specifications validate, in order, one per
  aggregate type; the default engine builds from their transitions, and its table has one entry for each
  transition and no key twice.\<close>

lemma default_engine_builds:
  "\<exists>ms tbl. all_machine_specs = Inr ms
     \<and> map ms_aggregate_type ms =
         [TASK, WORKFLOW, ARCHITECTURE_REVISION, EXECUTION_EPOCH, DAG_NODE_RUN, STANDALONE_REVIEW]
     \<and> list_all machine_spec_wf ms
     \<and> build_default_transition_engine = Inr tbl
     \<and> distinct (map fst tbl) \<and> map snd tbl = concat (map ms_transitions ms)"
proof -
  have "distinct (map engine_key (concat (map ms_transitions default_specs)))"
    using default_table_engine by (simp add: transition_engine_Inr)
  then have "distinct (map fst default_table)" by (simp add: default_table_def comp_def)
  moreover have "map snd default_table = concat (map ms_transitions default_specs)"
    by (simp add: default_table_def comp_def)
  moreover have "list_all machine_spec_wf default_specs"
    by (auto simp: list_all_iff default_specs_set machine_of_wf)
  ultimately show ?thesis
    using all_machine_specs_eq default_engine_eq
    by (intro exI [of _ default_specs] exI [of _ default_table]) (simp add: default_specs_def)
qed

subsection \<open>Histories\<close>

text \<open>In any history of accepted actions of one aggregate the version counts the actions, the type,
  identity, workflow and creation time never change, and the last state is a declared state of the
  aggregate's machine.\<close>

theorem history_of_an_aggregate:
  assumes "replay (transition default_table) (Some s) as = Inr (Some s')" and "as \<noteq> []"
  shows "snap_version s' = snap_version s + int (length as) \<and> same_subject s s'
    \<and> snap_state s' \<in> set (ms_states (machine_of (snap_type s')))"
  using assms engine.replay_version [of default_table "Some s" as "Some s'"]
    engine.replay_subject [of default_table s as "Some s'"] default_engine.replay_declared [of "Some s" as s']
  by (simp add: current_version_def)

text \<open>C23: Optimistic concurrency: of any sequence of actions submitted to one aggregate, in any order and
  whatever is refused, the accepted ones that name an expected version name strictly increasing versions.
  So of two actions prepared against the same version at most one is ever accepted.\<close>

theorem optimistic_concurrency:
  assumes "attempt (transition tbl) snapshot as = (accepted, snapshot')"
  shows "sorted_wrt (<) (expected_versions accepted)
    \<and> current_version snapshot' = current_version snapshot + int (length accepted)"
  using engine.attempt_expected [OF assms] engine.attempt_version [OF assms] by auto

text \<open>C33: What a refused action means: if the action is in the table for the current state and is addressed
  to this aggregate, the default engine raises only a version conflict or an error of the action's own data
  (guard, missing field, malformed value). In particular the branch for a dynamic target outside its
  declaration is never taken.\<close>

theorem refusals_of_a_legal_action:
  assumes "action_type a \<in> set (engine_legal_actions default_table (aggregate_type a) (map_option snap_state snapshot))"
    and "check_identity snapshot a = Inr ()"
    and "transition default_table snapshot a = Inl e"
  shows "domain_error e \<or> (\<exists>m. e = AggregateVersionConflict m)"
proof -
  let ?p = "case snapshot of None \<Rightarrow> [] | Some s \<Rightarrow> snap_payload s"
  obtain t where t: "map_of default_table (aggregate_type a, map_option snap_state snapshot, action_type a) = Some t"
    using assms(1) by (auto simp: engine_legal_actions_set [OF default_table_engine])
  then have mem: "t \<in> set (ms_transitions (machine_of (aggregate_type a)))" by (simp add: default_lookup)
  have safe: "\<And>e. ts_guard t ?p a = Inl e \<Longrightarrow> domain_error e" "\<And>e. ts_reducer t ?p a = Inl e \<Longrightarrow> domain_error e"
    "\<And>p e. resolve_target (ts_target_state t) p a = Inl e \<Longrightarrow> domain_error e"
    "\<And>p s e. ts_effect_builder t p a s = Inl e \<Longrightarrow> domain_error e"
    "\<And>p s. resolve_target (ts_target_state t) p a = Inr s \<Longrightarrow> s \<in> set (transition_target_states t)"
    using entries_safe [OF mem] entries_type [OF mem]
    by (auto simp: safe_spec_def safe_guard_def safe_reducer_def safe_effects_def safe_target_def safe_def
        transition_target_states_def)
  have version: "check_version snapshot a = Inl e \<Longrightarrow> \<exists>m. e = AggregateVersionConflict m"
    by (auto simp: check_version_def raise_if_def split: option.splits if_splits)
  from assms(2,3) t show ?thesis
    using version by (auto simp: transition_def Let_def rbind_eq_Inl split: if_splits dest: safe)
qed

subsection \<open>Final states\<close>

definition final_entry :: "MachineSpec \<Rightarrow> TransitionSpec \<Rightarrow> bool" where
  "final_entry m t \<longleftrightarrow> (\<forall>s. ts_source_state t = Some s \<longrightarrow> (s, TERMINAL) \<in> set (ms_state_classes m) \<longrightarrow>
     transition_target_states t = [s] \<and> ts_aggregate_type t = WORKFLOW \<and> ts_action_type t = ''ARCHIVE'')"

lemma classes_simps:
  "ms_state_classes task_spec = projr task_classes"
  "ms_state_classes workflow_spec = projr workflow_classes"
  "ms_state_classes architecture_spec = projr architecture_classes"
  "ms_state_classes execution_spec = projr execution_classes"
  "ms_state_classes node_spec = projr node_classes"
  "ms_state_classes standalone_spec = projr standalone_classes"
  by (simp_all add: spec_record_defs machine_record_def)

lemma terminal_classes:
  "map fst (filter (\<lambda>(s, c). c = TERMINAL) (projr task_classes)) = [''ARCHIVED'']"
  "map fst (filter (\<lambda>(s, c). c = TERMINAL) (projr workflow_classes)) = [''COMPLETED'', ''REJECTED'', ''CANCELLED'']"
  "map fst (filter (\<lambda>(s, c). c = TERMINAL) (projr architecture_classes)) =
     [''SUPERSEDED'', ''ACCEPTED'', ''REJECTED'', ''CANCELLED'']"
  "map fst (filter (\<lambda>(s, c). c = TERMINAL) (projr execution_classes)) = [''SUPERSEDED'', ''COMPLETED'', ''CANCELLED'']"
  "map fst (filter (\<lambda>(s, c). c = TERMINAL) (projr node_classes)) = [''ACCEPTED'', ''CANCELLED'']"
  "map fst (filter (\<lambda>(s, c). c = TERMINAL) (projr standalone_classes)) = [''CANCELLED'', ''COMPLETED'']"
  by code_simp+

lemma terminal_mem:
  "(s, TERMINAL) \<in> set c \<longleftrightarrow> s \<in> set (map fst (filter (\<lambda>(s, c). c = TERMINAL) c))"
  by force

lemma final_entries:
  assumes "ty \<noteq> DAG_NODE_RUN" and "t \<in> set (ms_transitions (machine_of ty))"
  shows "final_entry (machine_of ty) t"
proof -
  have "list_all (final_entry task_spec) task_transitions"
    unfolding final_entry_def terminal_mem classes_simps terminal_classes task_table_defs state_enum_defs
    by (simp add: list_union_def)
  moreover have "list_all (final_entry workflow_spec) workflow_transitions"
    unfolding final_entry_def terminal_mem classes_simps terminal_classes workflow_table_defs state_enum_defs
    by (simp add: list_union_def transition_target_states_def)
  moreover have "list_all (final_entry architecture_spec) architecture_transitions"
    unfolding final_entry_def terminal_mem classes_simps terminal_classes architecture_table_defs state_enum_defs
    by (simp add: list_union_def transition_target_states_def)
  moreover have "list_all (final_entry execution_spec) execution_transitions"
    unfolding final_entry_def terminal_mem classes_simps terminal_classes execution_table_defs state_enum_defs
    by (simp add: list_union_def transition_target_states_def)
  moreover have "list_all (final_entry standalone_spec) standalone_transitions"
    unfolding final_entry_def terminal_mem classes_simps terminal_classes standalone_table_defs state_enum_defs
    by (simp add: list_union_def transition_target_states_def)
  ultimately show ?thesis using assms by (cases ty) (auto simp: list_all_iff)
qed

lemma final_step:
  assumes "transition default_table (Some s) a = Inr out" and "snap_type s \<noteq> DAG_NODE_RUN"
    and "(snap_state s, TERMINAL) \<in> set (ms_state_classes (machine_of (snap_type s)))"
  shows "snap_state (out_snapshot out) = snap_state s \<and> snap_type s = WORKFLOW \<and> action_type a = ''ARCHIVE''"
  using assms(1)
proof (rule default_entry [where P = "\<lambda>t. final_entry (machine_of (aggregate_type a)) t \<and> ts_aggregate_type t = aggregate_type a"])
  fix t assume t: "t \<in> set (ms_transitions (machine_of (aggregate_type a)))"
  with assms(2) default_action_type [OF assms(1)] entries_type [OF t]
  show "final_entry (machine_of (aggregate_type a)) t \<and> ts_aggregate_type t = aggregate_type a"
    using final_entries by auto
qed (use assms(3) default_action_type [OF assms(1)] in \<open>auto simp: final_entry_def\<close>)

text \<open>Terminal states are final outside the execution graph: once a task, workflow, architecture revision,
  execution epoch or standalone review is in a state classified as terminal, then of any sequence of
  submitted actions only the archiving of a workflow is ever accepted, and the state never changes. (Nodes
  are excepted: an accepted or cancelled node can become stale, an accepted one can be reopened.)\<close>

theorem terminal_states_are_final:
  assumes "attempt (transition default_table) (Some s) as = (accepted, snapshot')"
    and "snap_type s \<noteq> DAG_NODE_RUN"
    and "(snap_state s, TERMINAL) \<in> set (ms_state_classes (machine_of (snap_type s)))"
  shows "map_option snap_state snapshot' = Some (snap_state s)
    \<and> (\<forall>a \<in> set accepted. snap_type s = WORKFLOW \<and> action_type a = ''ARCHIVE'')"
  using assms
proof (induction as arbitrary: s accepted)
  case (Cons a as)
  show ?case
  proof (cases "transition default_table (Some s) a")
    case (Inr out)
    with Cons.prems(1) obtain accepted' where accepted': "accepted = a # accepted'"
      "attempt (transition default_table) (Some (out_snapshot out)) as = (accepted', snapshot')"
      by (auto split: prod.splits)
    have type: "snap_type (out_snapshot out) = snap_type s"
      using engine.step_subject [OF Inr] by (simp add: same_subject_def)
    with final_step [OF Inr] Cons.IH [OF accepted'(2)] Cons.prems(2,3) accepted'(1) show ?thesis by auto
  qed (use Cons in auto)
qed auto

subsection \<open>Entry conditions of the node machine\<close>

definition evidence_entry :: "TransitionSpec \<Rightarrow> bool" where
  "evidence_entry t \<longleftrightarrow> ''ACCEPTED'' \<in> set (transition_target_states t) \<longrightarrow> ts_source_state t \<noteq> Some ''ACCEPTED'' \<longrightarrow>
     (\<forall>p a. ts_guard t p a = Inr () \<longrightarrow> \<not> is_blank (dget (payload a) ''verification_artifact_ref''))
   \<and> (\<forall>p a q. ts_reducer t p a = Inr q \<longrightarrow>
        dget q ''verification_artifact_ref'' = dget (merged p a) ''verification_artifact_ref'')"

lemma node_evidence_entries: "list_all evidence_entry node_transitions"
  unfolding evidence_entry_def node_table_defs state_enum_defs transition_target_states_def
  by (simp add: list_union_def worker_finished_keeps lease_fields_def)

text \<open>C1: A node is accepted only on verification evidence: every step that takes a node run into ACCEPTED
  carries a non-blank \<open>verification_artifact_ref\<close>, and the accepted node's payload holds exactly that
  reference.\<close>

theorem node_acceptance_needs_evidence:
  assumes "transition default_table snapshot a = Inr out" and "aggregate_type a = DAG_NODE_RUN"
    and "snap_state (out_snapshot out) = ''ACCEPTED''" and "map_option snap_state snapshot \<noteq> Some ''ACCEPTED''"
  shows "\<not> is_blank (dget (payload a) ''verification_artifact_ref'')
    \<and> dget (snap_payload (out_snapshot out)) ''verification_artifact_ref''
      = dget (payload a) ''verification_artifact_ref''"
proof -
  have entries: "evidence_entry t" if "t \<in> set (ms_transitions (machine_of (aggregate_type a)))" for t
    using that node_evidence_entries assms(2) by (simp add: list_all_iff)
  have kept: "\<not> is_blank (dget (payload a) ''verification_artifact_ref'') \<Longrightarrow>
      dget (merged p a) ''verification_artifact_ref'' = dget (payload a) ''verification_artifact_ref''" for p
    by (simp add: dget_merged_given)
  show ?thesis
    using assms(1) entries
  proof (rule default_entry)
    fix t assume "evidence_entry t" and src: "ts_source_state t = map_option snap_state snapshot"
      and rest: "ts_guard t (case snapshot of None \<Rightarrow> [] | Some s \<Rightarrow> snap_payload s) a = Inr ()"
      "ts_reducer t (case snapshot of None \<Rightarrow> [] | Some s \<Rightarrow> snap_payload s) a = Inr (snap_payload (out_snapshot out))"
      "snap_state (out_snapshot out) \<in> set (transition_target_states t)"
    moreover from src assms(4) have "ts_source_state t \<noteq> Some ''ACCEPTED''" by (simp only: not_False_eq_True)
    ultimately show ?thesis using assms(3) kept unfolding evidence_entry_def by (metis (no_types))
  qed
qed

text \<open>The states in which a role coroutine runs, and what every entry into them demands.\<close>

fun role_running :: "AggregateType \<Rightarrow> string list" where
  "role_running DAG_NODE_RUN = [''PRODUCING'', ''REVIEWING'', ''REPAIRING'']"
| "role_running ARCHITECTURE_REVISION = [''ARCHITECT_RUNNING'', ''REVIEWING'']"
| "role_running _ = []"

definition fenced_entry :: "string list \<Rightarrow> TransitionSpec \<Rightarrow> bool" where
  "fenced_entry running t \<longleftrightarrow> ts_action_type t \<noteq> ''TASK_REVISION_APPENDED'' \<longrightarrow> (\<exists>s \<in> set (transition_target_states t). s \<in> set running) \<longrightarrow>
     (\<forall>p a. ts_guard t p a = Inr () \<longrightarrow> positive_token (dget (payload a) ''fencing_token''))
   \<and> (\<forall>p a q. ts_reducer t p a = Inr q \<longrightarrow> dget q ''fencing_token'' = dget (merged p a) ''fencing_token'')"

lemma architecture_worker_started_keeps:
  "architecture_worker_started_reducer p a = Inr q \<Longrightarrow>
     dget q ''fencing_token'' = dget (merged p a) ''fencing_token''"
  by (auto simp: architecture_worker_started_reducer_def dget_dpops workspace_lock_fields_def worker_started_keeps)

lemma node_fenced: "list_all (fenced_entry [''PRODUCING'', ''REVIEWING'', ''REPAIRING'']) node_transitions"
  unfolding fenced_entry_def node_table_defs state_enum_defs transition_target_states_def
  by (simp add: list_union_def worker_started_keeps)

lemma architecture_fenced: "list_all (fenced_entry [''ARCHITECT_RUNNING'', ''REVIEWING'']) architecture_transitions"
  unfolding fenced_entry_def architecture_table_defs state_enum_defs transition_target_states_def
  by (simp add: list_union_def worker_started_keeps architecture_worker_started_keeps)

text \<open>C16: A role only runs under a lease: every accepted action that takes a node run into PRODUCING, REVIEWING
  or REPAIRING, or an architecture revision into ARCHITECT_RUNNING or REVIEWING (rebinding a running role
  included; a user message appended to a running architect is the one exception), carries a positive
  fencing token, and that token is what the new payload records.\<close>

theorem roles_run_under_a_lease:
  assumes "transition default_table snapshot a = Inr out"
    and "snap_state (out_snapshot out) \<in> set (role_running (aggregate_type a))"
    and "action_type a \<noteq> ''TASK_REVISION_APPENDED''"
  shows "positive_token (dget (payload a) ''fencing_token'')
    \<and> dget (snap_payload (out_snapshot out)) ''fencing_token'' = dget (payload a) ''fencing_token''"
proof -
  have entries: "fenced_entry (role_running (aggregate_type a)) t"
    if "t \<in> set (ms_transitions (machine_of (aggregate_type a)))" for t
    using that node_fenced architecture_fenced
    by (cases "aggregate_type a") (auto simp: list_all_iff fenced_entry_def)
  have kept: "positive_token (dget (payload a) ''fencing_token'') \<Longrightarrow>
      dget (merged p a) ''fencing_token'' = dget (payload a) ''fencing_token''" for p
    by (simp add: dget_merged_given positive_token_not_blank)
  show ?thesis
    using assms(1) entries by (rule default_entry) (use assms(2,3) kept in \<open>auto simp: fenced_entry_def\<close>)
qed

definition ready_entry :: "TransitionSpec \<Rightarrow> bool" where
  "ready_entry t \<longleftrightarrow>
     (ts_source_state t \<in> {Some ''BLOCKED_BY_DEPS'', Some ''STALE''} \<longrightarrow> ''QUEUED'' \<in> set (transition_target_states t)
        \<longrightarrow> (\<forall>p a. ts_guard t p a = Inr () \<longrightarrow> ready_producer_dependencies p a = Inr ()))
   \<and> (ts_source_state t = Some ''REVIEW_BLOCKED_BY_DEPS'' \<longrightarrow> ''REVIEW_QUEUED'' \<in> set (transition_target_states t)
        \<longrightarrow> (\<forall>p a. ts_guard t p a = Inr () \<longrightarrow> ready_dependencies p a = Inr ()))"

lemma node_ready: "list_all ready_entry node_transitions"
  unfolding ready_entry_def node_table_defs state_enum_defs transition_target_states_def
  by (simp add: list_union_def)

text \<open>Dependencies before work: a blocked or stale node is queued for production only when every producer
  dependency of its payload is listed as accepted (by the action where it lists them, by the payload
  otherwise) and the epoch is not frozen; likewise all dependencies before its review is queued.\<close>

theorem dependencies_before_work:
  assumes "transition default_table (Some s) a = Inr out" and "snap_type s = DAG_NODE_RUN"
    and "(snap_state s \<in> {''BLOCKED_BY_DEPS'', ''STALE''} \<and> snap_state (out_snapshot out) = ''QUEUED''
            \<and> df = ''producer_dependency_node_ids'' \<and> af = ''accepted_producer_dependency_node_ids'')
       \<or> (snap_state s = ''REVIEW_BLOCKED_BY_DEPS'' \<and> snap_state (out_snapshot out) = ''REVIEW_QUEUED''
            \<and> df = ''dependency_node_ids'' \<and> af = ''accepted_dependency_node_ids'')"
  shows "\<exists>needed ready. str_items (dget (snap_payload s) df) = Inr needed
    \<and> str_items (dget_or (payload a) af (dget (snap_payload s) af)) = Inr ready
    \<and> set needed \<subseteq> set ready
    \<and> \<not> truthy (dget_or (payload a) ''epoch_frozen'' (dget (snap_payload s) ''epoch_frozen''))"
proof -
  have entries: "ready_entry t" if "t \<in> set (ms_transitions (machine_of (aggregate_type a)))" for t
    using that node_ready assms(2) default_action_type [OF assms(1)] by (simp add: list_all_iff)
  from assms(1) entries show ?thesis
    by (rule default_entry)
       (use assms(3) in \<open>auto simp: ready_entry_def ready_producer_dependencies_def ready_dependencies_def
          dependencies_accepted_Inr\<close>)
qed

end
