(* ===== verification/Machine_Scenarios.thy ===== *)
theory Machine_Scenarios
  imports Machine_Facts
begin

section \<open>Scenarios across several actions\<close>

text \<open>
  Round trips and completions: sequences of actions run through the default engine from an arbitrary
  snapshot in a given state. The actions of a scenario are addressed to the snapshot's aggregate and name no
  expected version; they may carry any other payload, within the stated restrictions.
\<close>

definition scenario :: "AggregateSnapshot \<Rightarrow> string list \<Rightarrow> ActionEnvelope list \<Rightarrow> bool" where
  "scenario s names as \<longleftrightarrow> map action_type as = names \<and> list_all (addressed_to s) as"

lemma scenario_simps [simp]:
  "scenario s [] as \<longleftrightarrow> as = []"
  "scenario s (n # ns) as \<longleftrightarrow> (\<exists>a bs. as = a # bs \<and> action_type a = n \<and> addressed_to s a \<and> scenario s ns bs)"
  by (auto simp: scenario_def Cons_eq_map_conv eq_commute [of _ "map _ _"])

lemma scenario_next [simp]:
  "addressed_to s a \<Longrightarrow> scenario (next_snapshot (Some s) a st p) ns as \<longleftrightarrow> scenario s ns as"
  by (simp add: scenario_def cong: list.pred_cong)

lemma addressed_type: "addressed_to s a \<Longrightarrow> aggregate_type a = snap_type s"
  by (simp add: addressed_to_def)

text \<open>One accepted step of a known entry, without its events and effects.\<close>

definition steps_to :: "AggregateSnapshot \<Rightarrow> ActionEnvelope \<Rightarrow> string \<Rightarrow> pydict \<Rightarrow> bool" where
  "steps_to s a st p \<longleftrightarrow> (\<exists>out. transition default_table (Some s) a = Inr out
     \<and> out_snapshot out = next_snapshot (Some s) a st p)"

lemma steps_toI:
  assumes "t \<in> set ts" and "ts = ms_transitions (machine_of (snap_type s))"
    and "ts_source_state t = Some (snap_state s)" and "ts_action_type t = action_type a" and "addressed_to s a"
    and "ts_guard t (snap_payload s) a = Inr ()" and "ts_reducer t (snap_payload s) a = Inr p"
    and "resolve_target (ts_target_state t) p a = Inr st" and "\<exists>effs. ts_effect_builder t p a st = Inr effs"
  shows "steps_to s a st p"
proof -
  from assms(9) obtain effs where "ts_effect_builder t p a st = Inr effs" ..
  with default_step_accepted [of t s a p st effs] assms show ?thesis by (auto simp: steps_to_def)
qed

subsection \<open>Pausing and resuming a node\<close>

lemma node_pause_entry:
  "state \<in> set node_pausable \<Longrightarrow>
     spec DAG_NODE_RUN (Some state) ''REQUEST_PAUSE'' (To ''PAUSE_REQUESTED'')
       \<lparr>ts_reducer := pause_reducer state, ts_effect_builder := effect ''pause_role'' []\<rparr> \<in> set node_transitions"
  by (simp add: node_transitions_def node_controls_def)

lemma node_paused_entry:
  "spec DAG_NODE_RUN (Some ''PAUSE_REQUESTED'') ''PAUSE_CONFIRMED'' (To ''PAUSED'') \<in> set node_transitions"
  by (simp add: node_transitions_def node_static_1_def)

lemma node_resume_entry:
  "spec DAG_NODE_RUN (Some ''PAUSED'') ''RESUME'' (mapped_resume_target node_resume ''resume_state'')
     \<lparr>ts_reducer := resume_cleanup_reducer,
      ts_effect_builder := effects [''resume_semantic_state'', ''schedule_ready_nodes'']\<rparr> \<in> set node_transitions"
  by (simp add: node_transitions_def node_controls_def)

lemma node_request_pause:
  assumes "snap_type s = DAG_NODE_RUN" and "snap_state s \<in> set node_pausable" and "addressed_to s a"
    and "action_type a = ''REQUEST_PAUSE''"
  shows "steps_to s a ''PAUSE_REQUESTED'' (dset ''resume_state'' (PStr (snap_state s)) (merged (snap_payload s) a))"
  by (rule steps_toI [OF node_pause_entry [OF assms(2)]])
     (simp_all add: assms no_guard_def pause_reducer_def effect_def)

lemma node_pause_confirmed:
  assumes "snap_type s = DAG_NODE_RUN" and "snap_state s = ''PAUSE_REQUESTED''" and "addressed_to s a"
    and "action_type a = ''PAUSE_CONFIRMED''"
  shows "steps_to s a ''PAUSED'' (merged (snap_payload s) a)"
  by (rule steps_toI [OF node_paused_entry]) (simp_all add: assms no_guard_def no_effects_def)

lemma node_resumed:
  assumes "snap_type s = DAG_NODE_RUN" and "snap_state s = ''PAUSED''" and "addressed_to s a"
    and "action_type a = ''RESUME''"
    and "map_of node_resume (str_or_empty (dget (resume_cleaned (snap_payload s) a) ''resume_state'')) = Some st"
  shows "steps_to s a st (resume_cleaned (snap_payload s) a)"
  by (rule steps_toI [OF node_resume_entry])
     (simp_all add: assms no_guard_def effects_def resume_cleanup_reducer_def mapped_resume_target_def)

lemma node_resume_total: "s \<in> set node_pausable \<Longrightarrow> \<exists>st. map_of node_resume s = Some st"
  unfolding node_pausable_def node_resume_def by auto

text \<open>
  Pausing a node loses nothing: from every pausable state, the accepted sequence of pause request, pause
  confirmation and resume is legal, ends in the resume point of that state (the queue of the interrupted
  role, or the same state when no role was running) and drops the old lease and any blocker.\<close>

theorem node_pause_resume:
  assumes "snap_type s = DAG_NODE_RUN" and "snap_state s \<in> set node_pausable"
    and "scenario s [''REQUEST_PAUSE'', ''PAUSE_CONFIRMED'', ''RESUME''] [a, b, c]"
    and "map_of (payload b) ''resume_state'' = None" and "map_of (payload c) ''resume_state'' = None"
  shows "\<exists>s'. replay (transition default_table) (Some s) [a, b, c] = Inr (Some s')
    \<and> map_of node_resume (snap_state s) = Some (snap_state s')
    \<and> (\<forall>k \<in> {''blocker'', ''active_worker_id'', ''fencing_token'', ''lease_resource_key''}.
         dget (snap_payload s') k = PNone)"
proof -
  from assms(3) have acts: "action_type a = ''REQUEST_PAUSE''" "action_type b = ''PAUSE_CONFIRMED''"
    "action_type c = ''RESUME''" and addr: "addressed_to s a" "addressed_to s b" "addressed_to s c"
    by auto
  let ?p1 = "dset ''resume_state'' (PStr (snap_state s)) (merged (snap_payload s) a)"
  let ?s1 = "next_snapshot (Some s) a ''PAUSE_REQUESTED'' ?p1"
  let ?s2 = "next_snapshot (Some ?s1) b ''PAUSED'' (merged ?p1 b)"
  obtain st where st: "map_of node_resume (snap_state s) = Some st"
    using node_resume_total [OF assms(2)] by blast
  have resume_state: "dget (resume_cleaned (merged ?p1 b) c) ''resume_state'' = PStr (snap_state s)"
    using assms(4,5) by (simp add: resume_cleaned_keeps lease_fields_def dget_merged)
  let ?s3 = "next_snapshot (Some ?s2) c st (resume_cleaned (merged ?p1 b) c)"
  have "steps_to s a ''PAUSE_REQUESTED'' ?p1" by (rule node_request_pause [OF assms(1,2) addr(1) acts(1)])
  moreover have "steps_to ?s1 b ''PAUSED'' (merged ?p1 b)"
    using node_pause_confirmed [of ?s1 b] addr acts assms(1) by (simp add: addressed_type)
  moreover have "steps_to ?s2 c st (resume_cleaned (merged ?p1 b) c)"
    using node_resumed [of ?s2 c st] st resume_state addr acts assms(1) by (simp add: addressed_type)
  ultimately have "replay (transition default_table) (Some s) [a, b, c] = Inr (Some ?s3)"
    by (auto simp: steps_to_def)
  moreover have "dget (resume_cleaned (merged ?p1 b) c) k = PNone"
    if "k \<in> {''blocker'', ''active_worker_id'', ''fencing_token'', ''lease_resource_key''}" for k
    using that resume_cleaned_drops [of k "merged ?p1 b" c] by (auto simp: lease_fields_def)
  ultimately show ?thesis using st by (intro exI [of _ ?s3]) simp
qed

subsection \<open>Triage and its resolution\<close>

lemma node_triage_entry:
  "state \<in> set node_triageable \<Longrightarrow>
     spec DAG_NODE_RUN (Some state) ''ENTER_TRIAGE'' (To ''TRIAGE_REQUIRED'')
       \<lparr>ts_reducer := triage_reducer state,
        ts_effect_builder := (if state \<notin> {''PAUSE_REQUESTED'', ''CANCEL_REQUESTED''}
          then effect ''quiesce_role_for_triage'' [] else no_effects)\<rparr> \<in> set node_transitions"
  by (simp add: node_transitions_def node_controls_def)

lemma node_resolve_entry:
  "spec DAG_NODE_RUN (Some ''TRIAGE_REQUIRED'') ''RESOLVE_TRIAGE'' (mapped_triage_resume_target node_resume)
     \<lparr>ts_reducer := node_resume_cleanup_reducer,
      ts_effect_builder := effects [''reconcile_semantic_state'', ''schedule_ready_nodes'']\<rparr> \<in> set node_transitions"
  by (simp add: node_transitions_def node_controls_def)

lemma node_enter_triage:
  assumes "snap_type s = DAG_NODE_RUN" and "snap_state s \<in> set node_triageable" and "addressed_to s a"
    and "action_type a = ''ENTER_TRIAGE''"
  shows "steps_to s a ''TRIAGE_REQUIRED''
    (dset ''triage_resume_state'' (PStr (snap_state s)) (merged (snap_payload s) a))"
  by (rule steps_toI [OF node_triage_entry [OF assms(2)]])
     (simp_all add: assms no_guard_def triage_reducer_def effect_def no_effects_def)

lemma node_resume_total_triage: "s \<in> set node_triageable \<Longrightarrow> \<exists>st. map_of node_resume s = Some st"
  unfolding node_triageable_def node_pausable_def node_resume_def by (auto simp: list_union_def)

lemma node_cleanup_resume_state:
  assumes "node_has_terminal_verification_blocker p = Inr blocked"
    and "\<not> truthy (dget (payload a) ''direct_task_rebound'')"
    and "blocked \<longrightarrow> (\<exists>g. int_or_zero (dget p ''verifier_evaluation_generation'') = Inr g)"
    and "map_of (payload a) ''triage_resume_state'' = None"
  shows "\<exists>q. node_resume_cleanup_reducer p a = Inr q \<and> dget q ''triage_resume_state''
    = (if blocked then PStr ''REVIEW_QUEUED'' else dget p ''triage_resume_state'')"
proof -
  have state: "dget (resume_cleaned p a) ''triage_resume_state'' = dget p ''triage_resume_state''"
    using assms(4) by (simp add: resume_cleaned_keeps lease_fields_def dget_merged)
  show ?thesis
    using assms(1-3)
    by (cases blocked)
       (auto simp: node_resume_cleanup_reducer_def Let_def state dget_dpops workspace_lock_fields_def)
qed

text \<open>Resolving triage puts a node back where it was: from every triageable state, entering triage and
  resolving it returns to the resume point of that state. The one exception is a verification result that
  cannot be applied (a blocking unknown or an invalid submission): then the review is queued again.\<close>

lemma node_triage_resolution:
  assumes "snap_type s = DAG_NODE_RUN" and "snap_state s \<in> set node_triageable"
    and "scenario s [''ENTER_TRIAGE'', ''RESOLVE_TRIAGE''] [a, b]"
    and "node_has_terminal_verification_blocker
           (dset ''triage_resume_state'' (PStr (snap_state s)) (merged (snap_payload s) a)) = Inr blocked"
    and "blocked \<longrightarrow> (\<exists>g. int_or_zero (dget (merged (snap_payload s) a) ''verifier_evaluation_generation'') = Inr g)"
    and "map_of (payload b) ''triage_resume_state'' = None"
    and "\<not> truthy (dget (payload b) ''direct_task_rebound'')"
  shows "\<exists>s'. replay (transition default_table) (Some s) [a, b] = Inr (Some s')
    \<and> (if blocked then snap_state s' = ''REVIEW_QUEUED''
       else map_of node_resume (snap_state s) = Some (snap_state s'))"
proof -
  let ?p1 = "dset ''triage_resume_state'' (PStr (snap_state s)) (merged (snap_payload s) a)"
  let ?s1 = "next_snapshot (Some s) a ''TRIAGE_REQUIRED'' ?p1"
  from assms(3) have acts: "action_type a = ''ENTER_TRIAGE''" "action_type b = ''RESOLVE_TRIAGE''"
    and addr: "addressed_to s a" "addressed_to s b" by auto
  obtain st where st: "map_of node_resume (snap_state s) = Some st"
    using node_resume_total_triage [OF assms(2)] by blast
  obtain q where q: "node_resume_cleanup_reducer ?p1 b = Inr q"
    "dget q ''triage_resume_state'' = (if blocked then PStr ''REVIEW_QUEUED'' else PStr (snap_state s))"
    using node_cleanup_resume_state [OF assms(4,7) _ assms(6)] assms(5) by auto
  let ?st = "if blocked then ''REVIEW_QUEUED'' else st"
  have "steps_to s a ''TRIAGE_REQUIRED'' ?p1" by (rule node_enter_triage [OF assms(1,2) addr(1) acts(1)])
  moreover have "steps_to ?s1 b ?st q"
    by (rule steps_toI [OF node_resolve_entry])
       (use q st addr acts assms(1,7) in \<open>auto simp: addressed_type no_guard_def effects_def
          mapped_triage_resume_target_def node_resume_def Let_def\<close>)
  ultimately show ?thesis using st by (cases blocked) (auto simp: steps_to_def)
qed

subsection \<open>Cancellation and staleness of a node\<close>

lemma node_cancel_entry:
  "state \<in> set node_cancellable \<Longrightarrow>
     spec DAG_NODE_RUN (Some state) ''REQUEST_CANCEL'' (To ''CANCEL_REQUESTED'')
       \<lparr>ts_reducer := cancel_reducer ''CANCELLED'', ts_effect_builder := effect ''cancel_role'' []\<rparr> \<in> set node_transitions"
  by (simp add: node_transitions_def node_controls_def)

lemma node_cancel_confirmed_entry:
  "spec DAG_NODE_RUN (Some ''CANCEL_REQUESTED'') ''CANCEL_CONFIRMED''
     (resume_target [''CANCELLED'', ''STALE''] ''cancel_target'') \<in> set node_transitions"
  by (simp add: node_transitions_def node_static_1_def)

text \<open>
  A node can always be cancelled: in every state other than ACCEPTED, CANCELLED and CANCEL_REQUESTED
  the cancel request is accepted, and its confirmation ends the node in CANCELLED.\<close>

theorem node_cancellation_completes:
  assumes "snap_type s = DAG_NODE_RUN"
    and "snap_state s \<in> set DagNodeRunState - {''ACCEPTED'', ''CANCELLED'', ''CANCEL_REQUESTED''}"
    and "scenario s [''REQUEST_CANCEL'', ''CANCEL_CONFIRMED''] [a, b]"
    and "map_of (payload b) ''cancel_target'' = None"
  shows "\<exists>s'. replay (transition default_table) (Some s) [a, b] = Inr (Some s') \<and> snap_state s' = ''CANCELLED''"
proof -
  let ?p1 = "dset ''cancel_target'' (PStr ''CANCELLED'') (merged (snap_payload s) a)"
  let ?s1 = "next_snapshot (Some s) a ''CANCEL_REQUESTED'' ?p1"
  from assms(3) have acts: "action_type a = ''REQUEST_CANCEL''" "action_type b = ''CANCEL_CONFIRMED''"
    and addr: "addressed_to s a" "addressed_to s b" by auto
  have "snap_state s \<in> set node_cancellable"
    using assms(2) unfolding node_cancellable_def node_pausable_def DagNodeRunState_def by auto
  then have "steps_to s a ''CANCEL_REQUESTED'' ?p1"
    by (intro steps_toI [OF node_cancel_entry])
       (simp_all add: assms(1) acts addr no_guard_def cancel_reducer_def effect_def)
  moreover have "steps_to ?s1 b ''CANCELLED'' (merged ?p1 b)"
    by (rule steps_toI [OF node_cancel_confirmed_entry])
       (use addr acts assms(1,4) in \<open>simp_all add: addressed_type no_guard_def no_effects_def resume_target_def dget_merged\<close>)
  ultimately show ?thesis by (auto simp: steps_to_def)
qed

subsection \<open>Cancelling a workflow that was asked to restart\<close>

lemma workflow_entries:
  "state \<in> {''ACTIVE'', ''PAUSE_REQUESTED'', ''PAUSED'', ''TRIAGE_REQUIRED''} \<Longrightarrow>
     spec WORKFLOW (Some state) ''REQUEST_EXECUTION_RESTART'' (To ''CANCEL_REQUESTED'')
       \<lparr>ts_guard := required [''restart_execution_request''], ts_effect_builder := effect ''propagate_cancel'' []\<rparr>
     \<in> set workflow_transitions"
  "spec WORKFLOW (Some ''CANCEL_REQUESTED'') ''REQUEST_CANCEL'' (To ''CANCEL_REQUESTED'')
     \<lparr>ts_reducer := workflow_cancel_reducer\<rparr> \<in> set workflow_transitions"
  "spec WORKFLOW (Some ''CANCEL_REQUESTED'') ''CHILDREN_CANCELLED'' workflow_cancel_or_restart_target
     \<lparr>ts_effect_builder := workflow_cancelled_effects\<rparr> \<in> set workflow_transitions"
  by (auto simp: workflow_transitions_def workflow_controls_def workflow_static_def)

lemma workflow_cancelled_effects_Inr: "\<exists>effs. workflow_cancelled_effects p a st = Inr effs"
  by (simp add: workflow_cancelled_effects_def effect_def)

lemma workflow_request_restart:
  assumes "snap_type s = WORKFLOW" and "snap_state s \<in> {''ACTIVE'', ''PAUSE_REQUESTED'', ''PAUSED'', ''TRIAGE_REQUIRED''}"
    and "addressed_to s a" and "action_type a = ''REQUEST_EXECUTION_RESTART''"
    and "truthy (dget (payload a) ''restart_execution_request'')"
  shows "steps_to s a ''CANCEL_REQUESTED'' (merged (snap_payload s) a)"
  by (rule steps_toI [OF workflow_entries(1) [OF assms(2)]])
     (simp_all add: assms effect_def truthy_not_blank)

lemma workflow_children_cancelled:
  assumes "snap_type s = WORKFLOW" and "snap_state s = ''CANCEL_REQUESTED''" and "addressed_to s a"
    and "action_type a = ''CHILDREN_CANCELLED''"
  shows "steps_to s a (if truthy (dget (merged (snap_payload s) a) ''restart_execution_request'')
      then ''RESTARTING'' else ''CANCELLED'') (merged (snap_payload s) a)"
  by (rule steps_toI [OF workflow_entries(3)])
     (simp_all add: assms no_guard_def workflow_cancel_or_restart_target_def workflow_cancelled_effects_Inr)

text \<open>A user's cancellation dominates a pending restart: a workflow asked to restart its execution goes to
  RESTARTING once its children are cancelled, but if the user asks to cancel in between, the same
  confirmation ends it in CANCELLED.\<close>

lemma cancel_dominates_restart:
  assumes "snap_type s = WORKFLOW"
    and "snap_state s \<in> {''ACTIVE'', ''PAUSE_REQUESTED'', ''PAUSED'', ''TRIAGE_REQUIRED''}"
    and "scenario s [''REQUEST_EXECUTION_RESTART'', ''REQUEST_CANCEL'', ''CHILDREN_CANCELLED''] [a, b, c]"
    and "truthy (dget (payload a) ''restart_execution_request'')"
    and "map_of (payload c) ''restart_execution_request'' = None"
  shows "(\<exists>s'. replay (transition default_table) (Some s) [a, c] = Inr (Some s') \<and> snap_state s' = ''RESTARTING'')
    \<and> (\<exists>s'. replay (transition default_table) (Some s) [a, b, c] = Inr (Some s') \<and> snap_state s' = ''CANCELLED'')"
proof (rule conjI)
  from assms(3) have acts: "action_type a = ''REQUEST_EXECUTION_RESTART''" "action_type b = ''REQUEST_CANCEL''"
    "action_type c = ''CHILDREN_CANCELLED''" and addr: "addressed_to s a" "addressed_to s b" "addressed_to s c"
    by auto
  let ?p1 = "merged (snap_payload s) a" and ?p2 = "\<lambda>p. dpops [''restart_execution_request'', ''restart_cancel_requested''] p"
  let ?s1 = "next_snapshot (Some s) a ''CANCEL_REQUESTED'' ?p1"
  let ?s2 = "next_snapshot (Some ?s1) b ''CANCEL_REQUESTED'' (?p2 (merged ?p1 b))"
  have 1: "steps_to s a ''CANCEL_REQUESTED'' ?p1"
    using workflow_request_restart assms acts addr by blast
  have "dget ?p1 ''restart_execution_request'' = dget (payload a) ''restart_execution_request''"
    using assms(4) by (intro dget_merged_given) (simp_all add: truthy_not_blank)
  with assms(4,5) have "truthy (dget (merged ?p1 c) ''restart_execution_request'')" by (simp add: dget_merged)
  then have "steps_to ?s1 c ''RESTARTING'' (merged ?p1 c)"
    using workflow_children_cancelled [of ?s1 c] acts addr assms(1) by (simp add: addressed_type)
  with 1 show "\<exists>s'. replay (transition default_table) (Some s) [a, c] = Inr (Some s') \<and> snap_state s' = ''RESTARTING''"
    by (auto simp: steps_to_def)
  have 2: "steps_to ?s1 b ''CANCEL_REQUESTED'' (?p2 (merged ?p1 b))"
    by (rule steps_toI [OF workflow_entries(2)])
       (use acts addr assms(1) in \<open>simp_all add: addressed_type no_guard_def workflow_cancel_reducer_def no_effects_def\<close>)
  have "dget (merged (?p2 (merged ?p1 b)) c) ''restart_execution_request'' = PNone"
    using assms(5) by (simp add: dget_merged dget_dpops)
  then have "steps_to ?s2 c ''CANCELLED'' (merged (?p2 (merged ?p1 b)) c)"
    using workflow_children_cancelled [of ?s2 c] acts addr assms(1) by (simp add: addressed_type)
  with 1 2 show "\<exists>s'. replay (transition default_table) (Some s) [a, b, c] = Inr (Some s') \<and> snap_state s' = ''CANCELLED''"
    by (auto simp: steps_to_def)
qed

end
