(* ===== verification/Machine_Evidence.thy ===== *)
theory Machine_Evidence
  imports Machine_Facts
begin

section \<open>Evidence carried between actions\<close>

text \<open>
  Two facts the machines keep in the payload from one action to the next: the fingerprint of the quiesced
  workspace, which the candidate snapshot must match, and the findings an execution epoch collects for a
  replan, which are kept once per digest and in digest order.
\<close>

subsection \<open>The candidate comes from the quiesced workspace\<close>

definition quiesced_entry :: "TransitionSpec \<Rightarrow> bool" where
  "quiesced_entry t \<longleftrightarrow> ts_action_type t = ''QUIESCE_COMPLETED'' \<longrightarrow>
     (\<forall>p a. ts_guard t p a = Inr () \<longrightarrow> quiesce_guard p a = Inr ()) \<and> ts_reducer t = merge_payload
   \<and> transition_target_states t = [''SNAPSHOTTING'']"

definition snapshotted_entry :: "TransitionSpec \<Rightarrow> bool" where
  "snapshotted_entry t \<longleftrightarrow> ts_action_type t = ''CANDIDATE_SNAPSHOTTED'' \<longrightarrow>
     (\<forall>p a. ts_guard t p a = Inr () \<longrightarrow> candidate_guard p a = Inr ()) \<and> ts_reducer t = merge_payload"

lemma node_quiesced: "list_all quiesced_entry node_transitions"
  unfolding quiesced_entry_def node_table_defs state_enum_defs transition_target_states_def
  by (simp add: list_union_def)

lemma node_snapshotted: "list_all snapshotted_entry node_transitions"
  unfolding snapshotted_entry_def node_table_defs state_enum_defs
  by (simp add: list_union_def)

text \<open>No candidate from a changed worktree: when a node's quiescence and its candidate snapshot are accepted one
  after the other, the process group was reaped under the exclusive lock, and the candidate was taken from a
  worktree with the very fingerprint the quiescence recorded.\<close>

theorem candidate_matches_quiesced_workspace:
  assumes "replay (transition default_table) (Some s) [a, b] = Inr (Some s')"
    and "snap_type s = DAG_NODE_RUN" and "action_type a = ''QUIESCE_COMPLETED''"
    and "action_type b = ''CANDIDATE_SNAPSHOTTED''"
  shows "str_or_empty (dget (payload b) ''workspace_fingerprint'') = str_or_empty (dget (payload a) ''workspace_fingerprint'')
    \<and> dget (payload a) ''process_group_reaped'' = PBool True
    \<and> dget (payload a) ''exclusive_workspace_lock'' = PBool True
    \<and> \<not> is_blank (dget (payload b) ''candidate_ref'') \<and> \<not> is_blank (dget (payload b) ''candidate_digest'')"
proof -
  obtain o1 o2 where o1: "transition default_table (Some s) a = Inr o1"
    and o2: "transition default_table (Some (out_snapshot o1)) b = Inr o2"
    using assms(1) by auto
  have type1: "snap_type (out_snapshot o1) = DAG_NODE_RUN"
    using engine.step_subject [OF o1] assms(2) by (simp add: same_subject_def)
  have first: "quiesce_guard (snap_payload s) a = Inr () \<and> snap_payload (out_snapshot o1) = merged (snap_payload s) a"
    using o1
  proof (rule default_entry)
    show "quiesced_entry t" if "t \<in> set (ms_transitions (machine_of (aggregate_type a)))" for t
      using that node_quiesced assms(2) default_action_type [OF o1] by (simp add: list_all_iff)
  qed (use assms(3) in \<open>auto simp: quiesced_entry_def\<close>)
  have second: "candidate_guard (snap_payload (out_snapshot o1)) b = Inr ()"
    using o2
  proof (rule default_entry)
    show "snapshotted_entry t" if "t \<in> set (ms_transitions (machine_of (aggregate_type b)))" for t
      using that node_snapshotted type1 default_action_type [OF o2] by (simp add: list_all_iff)
  qed (use assms(4) in \<open>auto simp: snapshotted_entry_def\<close>)
  from first have fp: "str_or_empty (dget (payload a) ''workspace_fingerprint'') \<noteq> []" by simp
  then have "\<not> is_blank (dget (payload a) ''workspace_fingerprint'')"
    using str_or_empty_truthy truthy_not_blank by blast
  then have "dget (merged (snap_payload s) a) ''workspace_fingerprint'' = dget (payload a) ''workspace_fingerprint''"
    by (simp add: dget_merged_given)
  with first second fp show ?thesis by auto
qed

subsection \<open>Findings collected for a replan\<close>

lemma stamp_other: "k \<notin> {''last_actor'', ''last_action_type''} \<Longrightarrow> dget (stamp a p) k = dget p k"
  by (simp add: stamp_def)

lemma dicts_of_pending:
  "replan_finding_reducer p a = Inr q \<Longrightarrow>
     \<exists>ref pending pending' sorted_items.
       dict_or_empty (dget (payload a) ''finding_artifact_ref'') = Inr ref
     \<and> dicts_of (dget p ''pending_replan_findings'') = Inr pending
     \<and> merge_finding (ref_digest ref) (finding_entry a ref) pending = Inr pending'
     \<and> sort_findings pending' = Inr sorted_items
     \<and> dget q ''pending_replan_findings'' = PList (map PDict sorted_items)"
  by (fastforce simp: replan_finding_reducer_def Let_def stamp_other split: if_splits)

text \<open>Findings are collected once each: adding a finding keeps the pending list sorted by digest and with one
  entry per digest, adds exactly the digest of the new finding and loses none of the old ones. Reporting
  the same finding again does not change which findings are pending.\<close>

lemma replan_findings_once_each:
  assumes "replan_finding_reducer p a = Inr q"
    and "dicts_of (dget p ''pending_replan_findings'') = Inr old"
    and "map_res finding_digest old = Inr ds" and "distinct ds"
  shows "\<exists>ref new ds'. dict_or_empty (dget (payload a) ''finding_artifact_ref'') = Inr ref
    \<and> dicts_of (dget q ''pending_replan_findings'') = Inr new
    \<and> map_res finding_digest new = Inr ds'
    \<and> sorted ds' \<and> distinct ds' \<and> set ds' = insert (ref_digest ref) (set ds)"
proof -
  obtain ref pending' items where ref: "dict_or_empty (dget (payload a) ''finding_artifact_ref'') = Inr ref"
    and merge: "merge_finding (ref_digest ref) (finding_entry a ref) old = Inr pending'"
    and sort: "sort_findings pending' = Inr items"
    and q: "dget q ''pending_replan_findings'' = PList (map PDict items)"
    using dicts_of_pending [OF assms(1)] assms(2) by auto
  let ?ds = "if ref_digest ref \<in> set ds then ds else ds @ [ref_digest ref]"
  have "map_res finding_digest items = Inr (sort ?ds)"
    by (rule sort_findings_digests [OF merge_finding_digests [OF assms(3) merge] sort])
  moreover have "distinct (sort ?ds)" "set (sort ?ds) = insert (ref_digest ref) (set ds)"
    using assms(4) by auto
  ultimately show ?thesis using ref q by (auto simp del: set_sort distinct_sort)
qed

end
