(* ===== verification/Machine_Control.thy ===== *)
theory Machine_Control
  imports Machine_Facts
begin

section \<open>Pause and cancel control\<close>

text \<open>
  The control dispositions of \<open>MachineSpec.control_disposition\<close>, computed for the six machines: which states
  must still be asked, which wait for a confirmation, which are settled.
\<close>

lemma policies_simps [simp]:
  "ms_control_policies task_spec = []"
  "ms_control_policies workflow_spec = workflow_policies"
  "ms_control_policies architecture_spec = architecture_policies"
  "ms_control_policies execution_spec = execution_policies"
  "ms_control_policies node_spec = node_policies"
  "ms_control_policies standalone_spec = standalone_policies"
  by (simp_all add: spec_record_defs machine_record_def)

lemma legal_actions_skeleton:
  "act \<in> set (ms_legal_actions m (Some s)) \<longleftrightarrow>
     s \<in> set (skeleton_request_states (map skeleton (ms_transitions m)) act)"
  unfolding skeleton_request_states by (force simp: ms_legal_actions_def)

fun control_waits :: "AggregateType \<Rightarrow> ControlIntent \<Rightarrow> string list" where
  "control_waits TASK i = []"
| "control_waits WORKFLOW PAUSE = [''PAUSE_REQUESTED'', ''CANCEL_REQUESTED'', ''RESTARTING'']"
| "control_waits WORKFLOW CANCEL = []"
| "control_waits EXECUTION_EPOCH PAUSE = [''NOT_STARTED'', ''PAUSE_REQUESTED'', ''CANCEL_REQUESTED'']"
| "control_waits DAG_NODE_RUN PAUSE = [''QUIESCING'', ''SNAPSHOTTING'', ''PAUSE_REQUESTED'', ''CANCEL_REQUESTED'']"
| "control_waits ty PAUSE = [''PAUSE_REQUESTED'', ''CANCEL_REQUESTED'']"
| "control_waits ty CANCEL = [''CANCEL_REQUESTED'']"

definition settles :: "ControlIntent \<Rightarrow> string \<Rightarrow> StateClass \<Rightarrow> bool" where
  "settles i s c \<longleftrightarrow> c = TERMINAL \<or> (i = PAUSE \<and> (c = PAUSED_CLASS \<or> c = OPERATOR_WAIT \<or> s = ''STALE''))"

definition expected_disposition :: "AggregateType \<Rightarrow> ControlIntent \<Rightarrow> string \<times> StateClass \<Rightarrow> ControlDisposition" where
  "expected_disposition ty i sc = (case sc of (s, c) \<Rightarrow>
     if settles i s c then SETTLED else if s \<in> set (control_waits ty i) then WAIT else REQUEST)"

definition disposition_ok :: "AggregateType \<Rightarrow> ControlIntent \<Rightarrow> string \<times> StateClass \<Rightarrow> bool" where
  "disposition_ok ty i sc \<longleftrightarrow> control_disposition (machine_of ty) i (fst sc) = Inr (expected_disposition ty i sc)"

text \<open>The classifications and the states that accept a control request, evaluated.\<close>

lemma classes_eval:
  "ms_state_classes workflow_spec = projr workflow_classes"
  "ms_state_classes architecture_spec = projr architecture_classes"
  "ms_state_classes execution_spec = projr execution_classes"
  "ms_state_classes node_spec = projr node_classes"
  "ms_state_classes standalone_spec = projr standalone_classes"
  by (simp_all add: spec_record_defs machine_record_def)

lemma disposition_skeleton:
  "control_disposition m i s = (case map_of (ms_control_policies m) i of
       None \<Rightarrow> Inl (ValueError (aggregate_value (ms_aggregate_type m) @ '' does not participate in ''
                 @ intent_value i @ '' control''))
     | Some policy \<Rightarrow>
         if s \<in> set (settled_states policy) then Inr SETTLED
         else if s \<in> set (skeleton_request_states (map skeleton (ms_transitions m)) (request_action policy)) then Inr REQUEST
         else Inr WAIT)"
  by (simp add: control_disposition_def legal_actions_skeleton split: option.splits)

lemma workflow_requests:
  "list_all (disposition_ok WORKFLOW i) (projr workflow_classes)"
proof -
  have "skeleton_request_states (map skeleton workflow_transitions) ''REQUEST_PAUSE'' = [''CREATED'', ''ACTIVE'']"
    "skeleton_request_states (map skeleton workflow_transitions) ''REQUEST_CANCEL''
       = [''CREATED'', ''ACTIVE'', ''PAUSE_REQUESTED'', ''PAUSED'', ''TRIAGE_REQUIRED'', ''CANCEL_REQUESTED'', ''RESTARTING'']"
    unfolding workflow_table_defs skeleton_request_states_def by (simp_all add: list_union_def)
  moreover have "projr workflow_classes = [(''CREATED'', OUTBOX_WAIT), (''RESTARTING'', OUTBOX_WAIT),
      (''ACTIVE'', CHILD_WAIT), (''PAUSE_REQUESTED'', CHILD_WAIT), (''CANCEL_REQUESTED'', CHILD_WAIT),
      (''PAUSED'', PAUSED_CLASS), (''COMPLETED'', TERMINAL), (''REJECTED'', TERMINAL), (''CANCELLED'', TERMINAL),
      (''TRIAGE_REQUIRED'', OPERATOR_WAIT)]"
    by code_simp
  ultimately show ?thesis
    by (cases i) (simp_all add: disposition_ok_def expected_disposition_def settles_def disposition_skeleton
        workflow_policies_def control_policies_def)
qed

lemma architecture_requests:
  "list_all (disposition_ok ARCHITECTURE_REVISION i) (projr architecture_classes)"
proof -
  have "skeleton_request_states (map skeleton architecture_transitions) ''REQUEST_PAUSE''
     = [''ARCHITECT_QUEUED'', ''ARCHITECT_RUNNING'', ''ARCHITECT_QUIESCING'',
      ''ARCHITECT_SNAPSHOTTING'', ''REVIEW_QUEUED'', ''REVIEWING'', ''HUMAN_REVIEW'']"
    "skeleton_request_states (map skeleton architecture_transitions) ''REQUEST_CANCEL''
     = [''ARCHITECT_QUEUED'', ''ARCHITECT_RUNNING'', ''ARCHITECT_QUIESCING'',
      ''ARCHITECT_SNAPSHOTTING'', ''REVIEW_QUEUED'', ''REVIEWING'', ''HUMAN_REVIEW'',
      ''PAUSE_REQUESTED'', ''PAUSED'', ''TRIAGE_REQUIRED'']"
    unfolding architecture_table_defs state_enum_defs skeleton_request_states_def by (simp_all add: list_union_def)
  moreover have "projr architecture_classes =
     [(''ARCHITECT_QUEUED'', WORKER_LIVENESS), (''ARCHITECT_RUNNING'', WORKER_LIVENESS),
      (''ARCHITECT_QUIESCING'', WORKER_LIVENESS), (''ARCHITECT_SNAPSHOTTING'', WORKER_LIVENESS),
      (''REVIEW_QUEUED'', WORKER_LIVENESS), (''REVIEWING'', WORKER_LIVENESS),
      (''PAUSE_REQUESTED'', WORKER_LIVENESS), (''CANCEL_REQUESTED'', WORKER_LIVENESS),
      (''HUMAN_REVIEW'', HUMAN_WAIT), (''PAUSED'', PAUSED_CLASS), (''SUPERSEDED'', TERMINAL),
      (''ACCEPTED'', TERMINAL), (''REJECTED'', TERMINAL), (''CANCELLED'', TERMINAL),
      (''TRIAGE_REQUIRED'', OPERATOR_WAIT)]"
    by code_simp
  ultimately show ?thesis
    by (cases i) (simp_all add: disposition_ok_def expected_disposition_def settles_def disposition_skeleton
        architecture_policies_def control_policies_def)
qed

lemma execution_requests:
  "list_all (disposition_ok EXECUTION_EPOCH i) (projr execution_classes)"
proof -
  have "skeleton_request_states (map skeleton execution_transitions) ''REQUEST_PAUSE''
     = [''STARTING'', ''RUNNING'', ''REPLAN_COLLECTING'', ''REPLAN_REQUIRED'', ''FINALIZING'']"
    "skeleton_request_states (map skeleton execution_transitions) ''REQUEST_CANCEL''
     = [''NOT_STARTED'', ''STARTING'', ''RUNNING'', ''REPLAN_COLLECTING'', ''PAUSE_REQUESTED'',
      ''PAUSED'', ''REPLAN_REQUIRED'', ''FINALIZING'', ''TRIAGE_REQUIRED'']"
    unfolding execution_table_defs state_enum_defs skeleton_request_states_def by (simp_all add: list_union_def)
  moreover have "projr execution_classes =
     [(''NOT_STARTED'', OUTBOX_WAIT), (''STARTING'', OUTBOX_WAIT), (''FINALIZING'', OUTBOX_WAIT),
      (''RUNNING'', CHILD_WAIT), (''REPLAN_COLLECTING'', CHILD_WAIT),
      (''PAUSE_REQUESTED'', CHILD_WAIT), (''REPLAN_REQUIRED'', CHILD_WAIT),
      (''CANCEL_REQUESTED'', CHILD_WAIT), (''PAUSED'', PAUSED_CLASS), (''SUPERSEDED'', TERMINAL),
      (''COMPLETED'', TERMINAL), (''CANCELLED'', TERMINAL), (''TRIAGE_REQUIRED'', OPERATOR_WAIT)]"
    by code_simp
  ultimately show ?thesis
    by (cases i) (simp_all add: disposition_ok_def expected_disposition_def settles_def disposition_skeleton
        execution_policies_def control_policies_def)
qed

lemma node_requests:
  "list_all (disposition_ok DAG_NODE_RUN i) (projr node_classes)"
proof -
  have "skeleton_request_states (map skeleton node_transitions) ''REQUEST_PAUSE''
     = [''BLOCKED_BY_DEPS'', ''QUEUED'', ''PRODUCING'', ''REVIEW_BLOCKED_BY_DEPS'', ''REVIEW_QUEUED'',
      ''REVIEWING'', ''REVIEW_QUIESCING'', ''REVIEW_SNAPSHOTTING'', ''REPAIR_QUEUED'', ''REPAIRING'']"
    "skeleton_request_states (map skeleton node_transitions) ''REQUEST_CANCEL''
     = [''BLOCKED_BY_DEPS'', ''QUEUED'', ''PRODUCING'', ''REVIEW_BLOCKED_BY_DEPS'', ''REVIEW_QUEUED'',
      ''REVIEWING'', ''REVIEW_QUIESCING'', ''REVIEW_SNAPSHOTTING'', ''REPAIR_QUEUED'', ''REPAIRING'',
      ''QUIESCING'', ''SNAPSHOTTING'', ''STALE'', ''PAUSE_REQUESTED'', ''PAUSED'', ''TRIAGE_REQUIRED'']"
    unfolding node_table_defs state_enum_defs skeleton_request_states_def by (simp_all add: list_union_def)
  moreover have "projr node_classes =
     [(''BLOCKED_BY_DEPS'', DEPENDENCY_WAIT), (''REVIEW_BLOCKED_BY_DEPS'', DEPENDENCY_WAIT),
      (''STALE'', DEPENDENCY_WAIT), (''QUEUED'', WORKER_LIVENESS), (''PRODUCING'', WORKER_LIVENESS),
      (''QUIESCING'', WORKER_LIVENESS), (''SNAPSHOTTING'', WORKER_LIVENESS),
      (''REVIEW_QUEUED'', WORKER_LIVENESS), (''REVIEWING'', WORKER_LIVENESS),
      (''REVIEW_QUIESCING'', WORKER_LIVENESS), (''REVIEW_SNAPSHOTTING'', WORKER_LIVENESS),
      (''REPAIR_QUEUED'', WORKER_LIVENESS), (''REPAIRING'', WORKER_LIVENESS),
      (''PAUSE_REQUESTED'', WORKER_LIVENESS), (''CANCEL_REQUESTED'', WORKER_LIVENESS),
      (''PAUSED'', PAUSED_CLASS), (''ACCEPTED'', TERMINAL), (''CANCELLED'', TERMINAL),
      (''TRIAGE_REQUIRED'', OPERATOR_WAIT)]"
    by code_simp
  ultimately show ?thesis
    by (cases i) (simp_all add: disposition_ok_def expected_disposition_def settles_def disposition_skeleton
        node_policies_def control_policies_def)
qed

lemma standalone_requests:
  "list_all (disposition_ok STANDALONE_REVIEW i) (projr standalone_classes)"
proof -
  have "skeleton_request_states (map skeleton standalone_transitions) ''REQUEST_PAUSE''
     = [''RECEIVED'', ''REVIEW_QUEUED'', ''REVIEWING'', ''REPORT_READY'']"
    "skeleton_request_states (map skeleton standalone_transitions) ''REQUEST_CANCEL''
     = [''RECEIVED'', ''REVIEW_QUEUED'', ''REVIEWING'', ''REPORT_READY'', ''PAUSE_REQUESTED'',
      ''PAUSED'', ''TRIAGE_REQUIRED'']"
    unfolding standalone_table_defs state_enum_defs skeleton_request_states_def by (simp_all add: list_union_def)
  moreover have "projr standalone_classes =
     [(''RECEIVED'', WORKER_LIVENESS), (''REVIEW_QUEUED'', WORKER_LIVENESS),
      (''REVIEWING'', WORKER_LIVENESS), (''REPORT_READY'', WORKER_LIVENESS),
      (''PAUSE_REQUESTED'', WORKER_LIVENESS), (''CANCEL_REQUESTED'', WORKER_LIVENESS),
      (''PAUSED'', PAUSED_CLASS), (''CANCELLED'', TERMINAL), (''COMPLETED'', TERMINAL),
      (''TRIAGE_REQUIRED'', OPERATOR_WAIT)]"
    by code_simp
  ultimately show ?thesis
    by (cases i) (simp_all add: disposition_ok_def expected_disposition_def settles_def disposition_skeleton
        standalone_policies_def control_policies_def)
qed

text \<open>The control dispositions of the five controllable machines: a cancel intent is settled exactly in the
  terminal states, a pause intent also in the paused, operator-wait and stale ones; the states that only
  wait are the transient ones listed in \<open>control_waits\<close>; every other state accepts the request. A task does
  not take part in control and raises an error.\<close>

lemma control_dispositions:
  "(ty \<noteq> TASK \<and> (s, c) \<in> set (ms_state_classes (machine_of ty)) \<longrightarrow>
      control_disposition (machine_of ty) i s = Inr (expected_disposition ty i (s, c)))
   \<and> (\<exists>m. control_disposition (machine_of TASK) i s = Inl (ValueError m))"
proof (rule conjI)
  have "list_all (disposition_ok ty i) (ms_state_classes (machine_of ty))" if "ty \<noteq> TASK"
    using that workflow_requests architecture_requests execution_requests node_requests standalone_requests
    by (cases ty) (simp_all add: classes_eval)
  then show "ty \<noteq> TASK \<and> (s, c) \<in> set (ms_state_classes (machine_of ty)) \<longrightarrow>
      control_disposition (machine_of ty) i s = Inr (expected_disposition ty i (s, c))"
    by (force simp: list_all_iff disposition_ok_def)
  show "\<exists>m. control_disposition (machine_of TASK) i s = Inl (ValueError m)"
    by (simp add: control_disposition_def)
qed

end
