(* ===== verification/Machine_Examples.thy ===== *)
theory Machine_Examples
  imports Machine_Properties Machine_Scenarios Machine_Evidence Machine_Control
begin

section \<open>Concrete runs of the machines\<close>

text \<open>
  Runs of the default engine on concrete snapshots and actions, one for each property of the machines: they
  show that the hypotheses of the properties are met by real table entries.
\<close>

definition sample_snapshot :: "AggregateType \<Rightarrow> string \<Rightarrow> pydict \<Rightarrow> AggregateSnapshot" where
  "sample_snapshot ty st p = \<lparr>snap_type = ty, snap_id = ''agg_1'', snap_workflow_id = ''wf_1'', snap_state = st,
     snap_version = 7, snap_payload = p, snap_created_at = ''t0'', snap_updated_at = ''t1''\<rparr>"

definition sample_action :: "AggregateType \<Rightarrow> string \<Rightarrow> pydict \<Rightarrow> ActionEnvelope" where
  "sample_action ty act p = \<lparr>action_type = act, workflow_id = ''wf_1'', aggregate_type = ty,
     aggregate_id = ''agg_1'', actor = ''user'', payload = p, source_channel = [], expected_version = None,
     idempotency_key = [], correlation_id = [], causation_id = [], action_id = ''act_1'', created_at = ''t2''\<rparr>"

lemma sample_simps [simp]:
  "snap_type (sample_snapshot ty st p) = ty"
  "snap_state (sample_snapshot ty st p) = st"
  "snap_version (sample_snapshot ty st p) = 7"
  "snap_payload (sample_snapshot ty st p) = p"
  "action_type (sample_action ty act q) = act"
  "aggregate_type (sample_action ty act q) = ty"
  "payload (sample_action ty act q) = q"
  "expected_version (sample_action ty act q) = None"
  "check_identity (Some (sample_snapshot ty st p)) (sample_action ty act q) = Inr ()"
  "addressed_to (sample_snapshot ty st p) (sample_action ty act q)"
  by (simp_all add: sample_snapshot_def sample_action_def check_identity_def addressed_to_def)

lemma positive_token_1 [simp]: "positive_token (PInt 1)"
  by (simp add: positive_token_def)

lemma nonblank_text [simp]: "is_blank (PStr (c # cs)) \<longleftrightarrow> False"
  by (simp add: is_blank_def)

abbreviation node :: "string \<Rightarrow> pydict \<Rightarrow> AggregateSnapshot" where
  "node \<equiv> sample_snapshot DAG_NODE_RUN"

abbreviation node_action :: "string \<Rightarrow> pydict \<Rightarrow> ActionEnvelope" where
  "node_action \<equiv> sample_action DAG_NODE_RUN"

lemma node_step:
  assumes "t \<in> set node_transitions" and "ts_source_state t = Some st" and "ts_action_type t = act"
    and "ts_guard t p (node_action act q) = Inr ()" and "ts_reducer t p (node_action act q) = Inr p'"
    and "resolve_target (ts_target_state t) p' (node_action act q) = Inr st'"
    and "\<exists>effs. ts_effect_builder t p' (node_action act q) st' = Inr effs"
  shows "steps_to (node st p) (node_action act q) st' p'"
  by (rule steps_toI [OF assms(1)]) (use assms in simp_all)

lemma replay_cons:
  "steps_to s a st p \<Longrightarrow>
     replay (transition default_table) (Some s) (a # as) = replay (transition default_table) (Some (next_snapshot (Some s) a st p)) as"
  by (auto simp: steps_to_def)

lemma replay_one: "steps_to s a st p \<Longrightarrow> \<exists>s'. replay (transition default_table) (Some s) [a] = Inr (Some s')"
  by (auto simp: steps_to_def)

lemma steps_transition: "steps_to s a st p \<Longrightarrow> \<exists>out. transition default_table (Some s) a = Inr out \<and>
    snap_state (out_snapshot out) = st \<and> snap_payload (out_snapshot out) = p"
  by (auto simp: steps_to_def)

theorem history_of_an_aggregate_witness:
  "\<exists>s'. replay (transition default_table) (Some (node ''PRODUCING'' [])) [node_action ''REQUEST_PAUSE'' []] = Inr (Some s')
    \<and> snap_version s' = 8 \<and> snap_id s' = snap_id (node ''PRODUCING'' [])
    \<and> snap_state s' \<in> set (ms_states (machine_of (snap_type s')))"
proof -
  have "steps_to (node ''PRODUCING'' []) (node_action ''REQUEST_PAUSE'' []) ''PAUSE_REQUESTED''
      (dset ''resume_state'' (PStr ''PRODUCING'') (merged [] (node_action ''REQUEST_PAUSE'' [])))"
    using node_request_pause [of "node ''PRODUCING'' []" "node_action ''REQUEST_PAUSE'' []"]
    by (simp add: node_pausable_def)
  then obtain s' where run: "replay (transition default_table) (Some (node ''PRODUCING'' []))
      [node_action ''REQUEST_PAUSE'' []] = Inr (Some s')"
    using replay_one by blast
  from history_of_an_aggregate [OF run] run show ?thesis by (auto simp: same_subject_def)
qed

theorem optimistic_concurrency_witness:
  "\<exists>accepted snapshot'. attempt (transition default_table) (Some (node ''PRODUCING'' []))
      [(node_action ''REQUEST_PAUSE'' [])\<lparr>expected_version := Some 7\<rparr>,
       (node_action ''REQUEST_CANCEL'' [])\<lparr>expected_version := Some 7\<rparr>] = (accepted, snapshot')
    \<and> sorted_wrt (<) (expected_versions accepted)
    \<and> current_version snapshot' = 7 + int (length accepted)"
proof -
  obtain accepted snapshot' where run: "attempt (transition default_table) (Some (node ''PRODUCING'' []))
      [(node_action ''REQUEST_PAUSE'' [])\<lparr>expected_version := Some 7\<rparr>,
       (node_action ''REQUEST_CANCEL'' [])\<lparr>expected_version := Some 7\<rparr>] = (accepted, snapshot')"
    using prod.exhaust by blast
  with optimistic_concurrency [OF run] show ?thesis by (simp add: current_version_def)
qed

lemma pause_lookup:
  "map_of default_table (DAG_NODE_RUN, Some ''PRODUCING'', ''REQUEST_PAUSE'') =
     Some (spec DAG_NODE_RUN (Some ''PRODUCING'') ''REQUEST_PAUSE'' (To ''PAUSE_REQUESTED'')
       \<lparr>ts_reducer := pause_reducer ''PRODUCING'', ts_effect_builder := effect ''pause_role'' []\<rparr>)"
  using node_pause_entry [of "''PRODUCING''"] by (simp add: default_lookup node_pausable_def)

theorem refusals_of_a_legal_action_witness:
  "\<exists>e. transition default_table (Some (node ''PRODUCING'' [])) ((node_action ''REQUEST_PAUSE'' [])\<lparr>expected_version := Some 3\<rparr>) = Inl e
    \<and> (domain_error e \<or> (\<exists>m. e = AggregateVersionConflict m))"
proof -
  let ?a = "(node_action ''REQUEST_PAUSE'' [])\<lparr>expected_version := Some 3\<rparr>"
  have id: "check_identity (Some (node ''PRODUCING'' [])) ?a = Inr ()"
    by (simp add: check_identity_Inr sample_snapshot_def sample_action_def)
  have "action_type ?a \<in> set (engine_legal_actions default_table (aggregate_type ?a) (map_option snap_state (Some (node ''PRODUCING'' []))))"
    by (simp add: engine_legal_actions_set [OF default_table_engine] pause_lookup)
  moreover have "\<exists>e. transition default_table (Some (node ''PRODUCING'' [])) ?a = Inl e"
    using id by (simp add: transition_def pause_lookup check_version_def current_version_def)
  ultimately show ?thesis using refusals_of_a_legal_action id by blast
qed

theorem terminal_states_are_final_witness:
  "\<exists>accepted snapshot'. attempt (transition default_table) (Some (sample_snapshot WORKFLOW ''COMPLETED'' []))
      [sample_action WORKFLOW ''REQUEST_CANCEL'' [], sample_action WORKFLOW ''ARCHIVE'' []] = (accepted, snapshot')
    \<and> map_option snap_state snapshot' = Some ''COMPLETED''"
proof -
  obtain accepted snapshot' where run: "attempt (transition default_table) (Some (sample_snapshot WORKFLOW ''COMPLETED'' []))
      [sample_action WORKFLOW ''REQUEST_CANCEL'' [], sample_action WORKFLOW ''ARCHIVE'' []] = (accepted, snapshot')"
    using prod.exhaust by blast
  have "(''COMPLETED'', TERMINAL) \<in> set (ms_state_classes workflow_spec)"
    unfolding classes_simps terminal_mem terminal_classes by simp
  with terminal_states_are_final [OF run] run show ?thesis by auto
qed

theorem node_acceptance_needs_evidence_witness:
  "\<exists>out. transition default_table (Some (node ''REVIEW_SNAPSHOTTING'' []))
      (node_action ''REVIEW_PASSED'' [(''verification_artifact_ref'', PStr ''sha'')]) = Inr out
    \<and> snap_state (out_snapshot out) = ''ACCEPTED''
    \<and> dget (snap_payload (out_snapshot out)) ''verification_artifact_ref'' = PStr ''sha''"
proof -
  let ?a = "node_action ''REVIEW_PASSED'' [(''verification_artifact_ref'', PStr ''sha'')]"
  have "steps_to (node ''REVIEW_SNAPSHOTTING'' []) ?a ''ACCEPTED'' (worker_finished [] ?a)"
    by (rule node_step [where t = "spec DAG_NODE_RUN (Some ''REVIEW_SNAPSHOTTING'') ''REVIEW_PASSED'' (To ''ACCEPTED'')
         \<lparr>ts_guard := required [''verification_artifact_ref''],
          ts_effect_builder := effects [''notify_node_accepted'', ''publish_accepted_memory_candidate''],
          ts_reducer := worker_finished_reducer\<rparr>"])
       (simp_all add: node_transitions_def node_static_1_def effects_def dget_def)
  then obtain out where out: "transition default_table (Some (node ''REVIEW_SNAPSHOTTING'' [])) ?a = Inr out"
    "snap_state (out_snapshot out) = ''ACCEPTED''" using steps_transition by blast
  from node_acceptance_needs_evidence [OF out(1) _ out(2)] out show ?thesis by (simp add: dget_def)
qed

lemma producing_step:
  "steps_to (node ''QUEUED'' []) (node_action ''START_PRODUCING'' [(''fencing_token'', PInt 1)]) ''PRODUCING''
     (worker_started [] (node_action ''START_PRODUCING'' [(''fencing_token'', PInt 1)]))"
  by (rule node_step [where t = "spec DAG_NODE_RUN (Some ''QUEUED'') ''START_PRODUCING'' (To ''PRODUCING'')
       \<lparr>ts_guard := all_guards [node_kind ''unit'', lease_guard],
        ts_effect_builder := effect ''run_implementation_role'' [(''role_mode'', PStr ''produce'')],
        ts_reducer := worker_started_reducer\<rparr>"])
     (simp_all add: node_transitions_def node_static_1_def effect_def dget_def all_guards_def py_or_def)

theorem roles_run_under_a_lease_witness:
  "\<exists>out. transition default_table (Some (node ''QUEUED'' []))
      (node_action ''START_PRODUCING'' [(''fencing_token'', PInt 1)]) = Inr out
    \<and> dget (snap_payload (out_snapshot out)) ''fencing_token'' = PInt 1"
proof -
  obtain out where out: "transition default_table (Some (node ''QUEUED'' []))
      (node_action ''START_PRODUCING'' [(''fencing_token'', PInt 1)]) = Inr out"
    "snap_state (out_snapshot out) = ''PRODUCING''" using steps_transition [OF producing_step] by blast
  from roles_run_under_a_lease [OF out(1)] out show ?thesis by (simp add: dget_def)
qed

text \<open>Dependencies: a node without dependencies that is told it has none to wait for.\<close>

theorem dependencies_before_work_witness:
  "\<exists>out. transition default_table (Some (node ''BLOCKED_BY_DEPS'' [(''producer_dependency_node_ids'', PList [PStr ''n1''])]))
      (node_action ''DEPENDENCIES_ACCEPTED'' [(''accepted_producer_dependency_node_ids'', PList [PStr ''n1''])]) = Inr out
    \<and> (\<exists>needed ready. str_items (PList [PStr ''n1'']) = Inr needed \<and> set needed \<subseteq> set ready \<and> needed \<noteq> [])"
proof -
  let ?p = "[(''producer_dependency_node_ids'', PList [PStr ''n1''])]"
  let ?a = "node_action ''DEPENDENCIES_ACCEPTED'' [(''accepted_producer_dependency_node_ids'', PList [PStr ''n1''])]"
  have "steps_to (node ''BLOCKED_BY_DEPS'' ?p) ?a ''QUEUED'' (merged ?p ?a)"
    by (rule node_step [where t = "spec DAG_NODE_RUN (Some ''BLOCKED_BY_DEPS'') ''DEPENDENCIES_ACCEPTED'' (To ''QUEUED'')
         \<lparr>ts_guard := all_guards [node_kind ''unit'', ready_producer_dependencies],
          ts_effect_builder := effect ''admit_implementation_role'' [(''role_mode'', PStr ''produce'')]\<rparr>"])
       (simp_all add: node_transitions_def node_static_1_def effect_def dget_def dget_or_def all_guards_def py_or_def
          ready_producer_dependencies_def dependencies_accepted_Inr str_items_def list_or_empty_def)
  then obtain out where out: "transition default_table (Some (node ''BLOCKED_BY_DEPS'' ?p)) ?a = Inr out"
    "snap_state (out_snapshot out) = ''QUEUED''" using steps_transition by blast
  have "\<exists>needed ready. str_items (dget (snap_payload (node ''BLOCKED_BY_DEPS'' ?p)) ''producer_dependency_node_ids'') = Inr needed
    \<and> str_items (dget_or (payload ?a) ''accepted_producer_dependency_node_ids''
        (dget (snap_payload (node ''BLOCKED_BY_DEPS'' ?p)) ''accepted_producer_dependency_node_ids'')) = Inr ready
    \<and> set needed \<subseteq> set ready
    \<and> \<not> truthy (dget_or (payload ?a) ''epoch_frozen'' (dget (snap_payload (node ''BLOCKED_BY_DEPS'' ?p)) ''epoch_frozen''))"
    by (rule dependencies_before_work [OF out(1)]) (simp_all add: out(2))
  with out show ?thesis by (auto simp: dget_def str_items_def list_or_empty_def py_or_def)
qed

theorem candidate_matches_quiesced_workspace_witness:
  "\<exists>s'. replay (transition default_table) (Some (node ''QUIESCING'' []))
      [node_action ''QUIESCE_COMPLETED'' [(''fencing_token'', PInt 1), (''process_group_reaped'', PBool True),
         (''exclusive_workspace_lock'', PBool True), (''workspace_fingerprint'', PStr ''fp'')],
       node_action ''CANDIDATE_SNAPSHOTTED'' [(''candidate_ref'', PStr ''ref''), (''candidate_digest'', PStr ''dg''),
         (''workspace_fingerprint'', PStr ''fp'')]] = Inr (Some s')
    \<and> str_or_empty (PStr ''fp'') \<noteq> []"
proof -
  let ?a = "node_action ''QUIESCE_COMPLETED'' [(''fencing_token'', PInt 1), (''process_group_reaped'', PBool True),
         (''exclusive_workspace_lock'', PBool True), (''workspace_fingerprint'', PStr ''fp'')]"
  let ?b = "node_action ''CANDIDATE_SNAPSHOTTED'' [(''candidate_ref'', PStr ''ref''), (''candidate_digest'', PStr ''dg''),
         (''workspace_fingerprint'', PStr ''fp'')]"
  let ?s1 = "next_snapshot (Some (node ''QUIESCING'' [])) ?a ''SNAPSHOTTING'' (merged [] ?a)"
  have first: "steps_to (node ''QUIESCING'' []) ?a ''SNAPSHOTTING'' (merged [] ?a)"
    by (rule node_step [where t = "spec DAG_NODE_RUN (Some ''QUIESCING'') ''QUIESCE_COMPLETED'' (To ''SNAPSHOTTING'')
         \<lparr>ts_guard := quiesce_guard, ts_effect_builder := effect ''snapshot_implementation_result'' []\<rparr>"])
       (simp_all add: node_transitions_def node_static_1_def effect_def dget_def)
  have "steps_to ?s1 ?b ''REVIEW_BLOCKED_BY_DEPS'' (merged (merged [] ?a) ?b)"
    by (rule steps_toI [where t = "spec DAG_NODE_RUN (Some ''SNAPSHOTTING'') ''CANDIDATE_SNAPSHOTTED'' (To ''REVIEW_BLOCKED_BY_DEPS'')
         \<lparr>ts_guard := candidate_guard, ts_effect_builder := effect ''schedule_ready_nodes'' []\<rparr>" and ts = node_transitions])
       (simp_all add: node_transitions_def node_static_1_def effect_def dget_def merged_def stamp_def)
  with first obtain s' where run: "replay (transition default_table) (Some (node ''QUIESCING'' [])) [?a, ?b] = Inr (Some s')"
    by (auto simp: steps_to_def)
  from candidate_matches_quiesced_workspace [OF run] run show ?thesis by (simp add: dget_def del: replay.simps)
qed

theorem replan_findings_once_each_witness:
  "\<exists>q new ds'. replan_finding_reducer [] (sample_action EXECUTION_EPOCH ''REPLAN_FINDING''
      [(''finding_artifact_ref'', PDict [(''sha256'', PStr ''d1'')])]) = Inr q
    \<and> dicts_of (dget q ''pending_replan_findings'') = Inr new \<and> map_res finding_digest new = Inr ds' \<and> set ds' = {''d1''}"
proof -
  let ?a = "sample_action EXECUTION_EPOCH ''REPLAN_FINDING'' [(''finding_artifact_ref'', PDict [(''sha256'', PStr ''d1'')])]"
  have none: "dicts_of (dget [] ''pending_replan_findings'') = Inr []" by (simp add: dicts_of_def)
  have "\<exists>q. replan_finding_reducer [] ?a = Inr q"
    by (simp add: replan_finding_reducer_def dicts_of_def dget_def dict_or_empty_def py_or_def merge_finding_def Let_def
        sort_findings_def finding_entry_def finding_digest_def)
  then obtain q where q: "replan_finding_reducer [] ?a = Inr q" ..
  have "\<exists>ref new ds'. dict_or_empty (dget (payload ?a) ''finding_artifact_ref'') = Inr ref
    \<and> dicts_of (dget q ''pending_replan_findings'') = Inr new
    \<and> map_res finding_digest new = Inr ds'
    \<and> sorted ds' \<and> distinct ds' \<and> set ds' = insert (ref_digest ref) (set [])"
    by (rule replan_findings_once_each [OF q none]) simp_all
  with q show ?thesis by (auto simp: dget_def ref_digest_def)
qed

theorem node_pause_resume_witness:
  "\<exists>s'. replay (transition default_table) (Some (node ''PRODUCING'' []))
      [node_action ''REQUEST_PAUSE'' [], node_action ''PAUSE_CONFIRMED'' [], node_action ''RESUME'' []] = Inr (Some s')
    \<and> snap_state s' = ''QUEUED''"
  using node_pause_resume [of "node ''PRODUCING'' []" "node_action ''REQUEST_PAUSE'' []" "node_action ''PAUSE_CONFIRMED'' []"
      "node_action ''RESUME'' []"]
  by (auto simp: node_pausable_def node_resume_def simp del: replay.simps)

theorem node_triage_resolution_witness:
  "\<exists>s'. replay (transition default_table) (Some (node ''REVIEWING'' []))
      [node_action ''ENTER_TRIAGE'' [], node_action ''RESOLVE_TRIAGE'' []] = Inr (Some s')
    \<and> snap_state s' = ''REVIEW_QUEUED''"
  using node_triage_resolution [of "node ''REVIEWING'' []" "node_action ''ENTER_TRIAGE'' []" "node_action ''RESOLVE_TRIAGE'' []" False]
  by (auto simp: node_triageable_def node_pausable_def list_union_def node_resume_def dget_def
      node_has_terminal_verification_blocker_def simp del: replay.simps)

theorem node_cancellation_completes_witness:
  "\<exists>s'. replay (transition default_table) (Some (node ''STALE'' []))
      [node_action ''REQUEST_CANCEL'' [], node_action ''CANCEL_CONFIRMED'' []] = Inr (Some s')
    \<and> snap_state s' = ''CANCELLED''"
  using node_cancellation_completes [of "node ''STALE'' []" "node_action ''REQUEST_CANCEL'' []" "node_action ''CANCEL_CONFIRMED'' []"]
  by (simp add: DagNodeRunState_def del: replay.simps)

theorem cancel_dominates_restart_witness:
  "\<exists>s'. replay (transition default_table) (Some (sample_snapshot WORKFLOW ''ACTIVE'' []))
      [sample_action WORKFLOW ''REQUEST_EXECUTION_RESTART'' [(''restart_execution_request'', PStr ''r'')],
       sample_action WORKFLOW ''REQUEST_CANCEL'' [], sample_action WORKFLOW ''CHILDREN_CANCELLED'' []] = Inr (Some s')
    \<and> snap_state s' = ''CANCELLED''"
  using cancel_dominates_restart [of "sample_snapshot WORKFLOW ''ACTIVE'' []"
      "sample_action WORKFLOW ''REQUEST_EXECUTION_RESTART'' [(''restart_execution_request'', PStr ''r'')]"
      "sample_action WORKFLOW ''REQUEST_CANCEL'' []" "sample_action WORKFLOW ''CHILDREN_CANCELLED'' []"]
  by (simp add: dget_def del: replay.simps)

theorem control_dispositions_witness:
  "control_disposition (machine_of WORKFLOW) CANCEL ''COMPLETED'' = Inr SETTLED
   \<and> (\<exists>m. control_disposition (machine_of TASK) CANCEL ''ACTIVE'' = Inl (ValueError m))"
proof -
  have "(''COMPLETED'', TERMINAL) \<in> set (ms_state_classes (machine_of WORKFLOW))"
    unfolding machine_of.simps classes_simps terminal_mem terminal_classes by simp
  with control_dispositions [of WORKFLOW "''COMPLETED''" TERMINAL CANCEL]
    control_dispositions [of WORKFLOW "''ACTIVE''" TERMINAL CANCEL]
  show ?thesis
    by (auto simp: expected_disposition_def settles_def)
qed

end
