(* ===== verification/Store_Examples.thy ===== *)
theory Store_Examples
  imports Store_Guarantees Machine_Examples
begin

section \<open>Concrete stores\<close>

text \<open>
  A store with one node run and one effect whose last attempt is held by a worker that has lost its clock, and
  a dispatch to that node run: the hypotheses of the guarantees are met by real operations.
\<close>

definition sample_ports :: "unit Ports" where
  "sample_ports = \<lparr>hash_json = (\<lambda>_. ''h''), hash_text = (\<lambda>_. ''t''), is_file = (\<lambda>_. True), new_id = digits,
     instant = (\<lambda>_. 0), settle_role = (\<lambda>_ _ _ _. Inr ()), project_task = (\<lambda>_ _. Inr ()),
     project_node = (\<lambda>_ _. Inr ()), project_workflow = (\<lambda>_ _ _. Inr ())\<rparr>"

definition sample_event :: DomainEvent where
  "sample_event = \<lparr>ev_id = ''e1'', ev_workflow_id = ''wf_1'', ev_aggregate_type = DAG_NODE_RUN,
     ev_aggregate_id = ''agg_1'', ev_version = 7, ev_type = ''started'', ev_payload = [], ev_action_id = ''act_0'',
     ev_correlation_id = [], ev_causation_id = [], ev_created_at = ''t0''\<rparr>"

definition sample_request :: EffectRequest where
  "sample_request = \<lparr>rq_effect_key = ''k1'', rq_workflow_id = ''wf_1'', rq_aggregate_type = DAG_NODE_RUN,
     rq_aggregate_id = ''agg_1'', rq_event_id = ''e1'', rq_effect_index = 0, rq_effect_type = ''pause_role'',
     rq_hash = ''h'', rq_payload = [], rq_created_at = 0\<rparr>"

definition held_row_of :: "string \<Rightarrow> int \<Rightarrow> OutboxRow" where
  "held_row_of w t = \<lparr>ob_request = sample_request, ob_status = INFLIGHT, ob_attempts = 1, ob_max_attempts = 1,
     ob_provider_request_id = [], ob_result_ref = [], ob_next_retry_at = 0, ob_locked_by = w,
     ob_locked_until = Some t, ob_last_error = [], ob_updated_at = 0\<rparr>"

definition sample_store :: "unit Database" where
  "sample_store =
     \<lparr>db_snapshots = [((DAG_NODE_RUN, ''agg_1''), node ''PRODUCING'' [])], db_events = [sample_event], db_dedup = [],
      db_outbox = [(''x1'', held_row_of ''w1'' 5)], db_receipts = [], db_attempts = [running_attempt ''x1'' 1 ''w1'' 0],
      db_decisions = [], db_artifacts = [], db_rest = ()\<rparr>"

lemma sample_store_ok: "db_ok sample_store"
  by (auto simp: sample_store_def db_ok_def outbox_ok_def snapshots_ok_def effect_of_def outbox_keys_ok_def
      effect_keys_def running_def snapshots_keyed_def row_ok_def held_row_of_def running_attempt_def caused_by_def
      sample_event_def sample_request_def row_key_def sample_snapshot_def split: if_splits)

lemma sample_effect: "effect_of sample_store ''x1'' = Some (held_row_of ''w1'' 5)"
  by (simp add: sample_store_def effect_of_def)

lemma sample_held: "claimed_by w (held_row_of w t)" "ob_locked_until (held_row_of w t) = Some t"
  "\<not> claimed_by ''w2'' (held_row_of ''w1'' t)"
  by (simp_all add: claimed_by_def held_row_of_def)

lemma no_artifacts: "assert_artifact_refs_durable f tbl (PDict []) = Inr ()"
  by (simp add: assert_artifact_refs_durable_def)

lemma sample_completion: "\<exists>db1. complete_outbox_effect sample_ports ''x1'' ''w1'' ''p'' [] 3 sample_store = Inr (True, db1)"
proof -
  have "outbox_ok sample_store" using sample_store_ok by (simp add: db_ok_def)
  from complete_cases [OF this sample_effect sample_held(1) no_artifacts, of sample_ports "''p''" 3] show ?thesis by blast
qed

theorem effect_completed_once_witness:
  "\<exists>db1. complete_outbox_effect sample_ports ''x1'' ''w1'' ''p'' [] 3 sample_store = Inr (True, db1)
    \<and> complete_outbox_effect sample_ports ''x1'' ''w2'' ''q'' [] 9 db1 = Inr (False, db1)"
proof -
  obtain db1 where run: "complete_outbox_effect sample_ports ''x1'' ''w1'' ''p'' [] 3 sample_store = Inr (True, db1)"
    using sample_completion by blast
  have "db1 = run_ops (db_step []) db1 []" by simp
  from effect_completed_once [OF sample_store_ok run this] run no_artifacts show ?thesis by auto
qed

theorem live_claim_is_exclusive_witness:
  "effect_of (run_ops (db_step []) sample_store [ClaimEffects ''w2'' 5 60 4, FailEffect sample_ports ''x1'' ''w2'' ''no'' None 4])
     ''x1'' = Some (held_row_of ''w1'' 5)"
proof -
  let ?ops = "[ClaimEffects ''w2'' 5 60 4, FailEffect sample_ports ''x1'' ''w2'' ''no'' None 4]"
  have "\<forall>op \<in> set ?ops. leaves_claim ''x1'' ''w1'' 5 op" by simp
  from live_claim_is_exclusive [OF sample_store_ok sample_effect sample_held(1,2) this refl] show ?thesis by (rule conjunct1)
qed

theorem lost_claim_stays_lost_witness:
  "\<exists>e. defer_outbox_effect ''x1'' ''w2'' ''later'' True 9 (run_ops (db_step []) sample_store [ClaimEffects ''w3'' 5 60 6]) = Inl e"
proof -
  have "\<forall>row. effect_of sample_store ''x1'' = Some row \<longrightarrow> \<not> claimed_by ''w2'' row"
    using sample_effect sample_held(3) by simp
  moreover have "\<forall>op \<in> set [ClaimEffects ''w3'' 5 60 6 :: unit db_op]. \<forall>limit lease now. op \<noteq> ClaimEffects ''w2'' limit lease now"
    by simp
  ultimately show ?thesis
    by (rule lost_claim_stays_lost [OF sample_store_ok _ _ refl, THEN conjunct2, THEN conjunct2, THEN conjunct1])
qed

lemma claim_one:
  assumes "db_outbox db = [(i, row)]" and "ob_next_retry_at row \<le> now" and "claimable now row"
  shows "\<exists>items db'. claim_outbox w limit lease now db = Inr (items, db')
    \<and> effect_of db' i = Some (claim_row w now (now + max 1 lease) row)"
proof -
  have "select_ready now limit (db_outbox db) = [(i, row)]" using assms by (simp add: select_ready_def)
  then show ?thesis
    using assms by (simp add: claim_outbox_def effect_of_def Let_def)
qed

text \<open>The stranded effect is reached by real operations: a claim expires on the last attempt, a second worker
  takes over, and defers.\<close>

theorem deferred_takeover_is_stranded_witness:
  "\<exists>items db db2. claim_outbox ''w2'' 5 60 9 sample_store = Inr (items, db)
    \<and> rbind (defer_outbox_effect ''x1'' ''w2'' ''paused'' False 10 db)
        (\<lambda>(_, db1). Inr (run_ops (db_step []) db1 [ClaimEffects ''w3'' 5 60 1000])) = Inr db2
    \<and> (\<exists>row'. effect_of db2 ''x1'' = Some row' \<and> ob_status row' = PENDING \<and> ob_attempts row' = ob_max_attempts row')"
proof -
  have "db_outbox sample_store = [(''x1'', held_row_of ''w1'' 5)]" by (simp add: sample_store_def)
  then obtain items db where claim: "claim_outbox ''w2'' 5 60 9 sample_store = Inr (items, db)"
    and row: "effect_of db ''x1'' = Some (claim_row ''w2'' 9 69 (held_row_of ''w1'' 5))"
    using claim_one [of sample_store "''x1''" "held_row_of ''w1'' 5" 9 "''w2''" 5 60]
    by (auto simp: held_row_of_def claimable_def lock_expired_def)
  have ok: "db_ok db" by (rule claim_db_ok [OF sample_store_ok claim])
  have held: "claimed_by ''w2'' (claim_row ''w2'' 9 69 (held_row_of ''w1'' 5))"
    "ob_attempts (claim_row ''w2'' 9 69 (held_row_of ''w1'' 5)) = ob_max_attempts (claim_row ''w2'' 9 69 (held_row_of ''w1'' 5))"
    by (simp_all add: claimed_by_def claim_row_def held_row_of_def)
  have "outbox_ok db" using ok by (simp add: db_ok_def)
  from defer_cases [OF this row held(1), of "''paused''" False 10] obtain db1 where
    "defer_outbox_effect ''x1'' ''w2'' ''paused'' False 10 db = Inr ((), db1)" by blast
  then have later: "rbind (defer_outbox_effect ''x1'' ''w2'' ''paused'' False 10 db)
      (\<lambda>(_, db1). Inr (run_ops (db_step []) db1 [ClaimEffects ''w3'' 5 60 1000]))
      = Inr (run_ops (db_step []) db1 [ClaimEffects ''w3'' 5 60 1000])" by simp
  from deferred_takeover_is_stranded [OF ok row held later] claim later show ?thesis by blast
qed

subsection \<open>A dispatch\<close>

abbreviation pause_action :: ActionEnvelope where
  "pause_action \<equiv> node_action ''REQUEST_PAUSE'' []"

definition paused_node :: AggregateSnapshot where
  "paused_node = next_snapshot (Some (node ''PRODUCING'' [])) pause_action ''PAUSE_REQUESTED''
     (dset ''resume_state'' (PStr ''PRODUCING'') (merged [] pause_action))"

lemma pause_step:
  "\<exists>event eff. transition default_table (Some (node ''PRODUCING'' [])) pause_action =
     Inr \<lparr>out_snapshot = paused_node, out_events = [event], out_effects = [eff]\<rparr> \<and> effect_type eff = ''pause_role''"
  by (simp add: transition_def pause_lookup check_version_def no_guard_def pause_reducer_def Let_def effect_def
      transition_target_states_def default_events_def effect_draft_def spec_def paused_node_def)

lemma sample_action_ids [simp]: "aggregate_id (sample_action ty act p) = ''agg_1''"
  by (simp add: sample_action_def)

lemma paused_node_simps [simp]:
  "snap_type paused_node = DAG_NODE_RUN" "snap_id paused_node = ''agg_1''" "snap_version paused_node = 8"
  "\<exists>ctx. causal_context ''pause_role'' paused_node = Inr ctx"
  by (simp_all add: paused_node_def next_snapshot_def sample_action_def sample_snapshot_def current_version_def causal_context_def
      dget_def dset_def merged_def stamp_def update_conv')

lemma pause_stored:
  assumes "effect_type eff = ''pause_role''"
  shows "\<exists>res db. store_outcome sample_ports pause_action (Some (node ''PRODUCING'' []))
    \<lparr>out_snapshot = paused_node, out_events = [event], out_effects = [eff]\<rparr> sample_store = Inr (res, db)"
proof -
  have snaps: "\<exists>tbl. write_snapshot (Some (node ''PRODUCING'' [])) paused_node (db_snapshots sample_store) = Inr tbl"
    by (simp add: write_snapshot_def Let_def sample_store_def)
  let ?e = "domain_event digits pause_action paused_node 0 event"
  have events: "persist_domain_events digits pause_action paused_node 0 [event] (db_events sample_store) =
      Inr ([?e], db_events sample_store @ [?e])"
    by (simp add: Let_def sample_store_def event_clash_def domain_event_def sample_event_def current_version_def)
  have row: "\<exists>row. outbox_row sample_ports pause_action paused_node (ev_id ?e) 0 eff = Inr row \<and> row_key row = effect_key (ev_id ?e) 0"
  proof -
    obtain ctx where "causal_context ''pause_role'' paused_node = Inr ctx" using paused_node_simps(4) by blast
    then show ?thesis by (simp add: outbox_row_def Let_def row_key_def assms)
  qed
  then obtain row where row: "outbox_row sample_ports pause_action paused_node (ev_id ?e) 0 eff = Inr row"
    "row_key row = effect_key (ev_id ?e) 0" by blast
  have fresh: "insert_outbox (''eff_'' @ digits 1) row (db_outbox sample_store) = Inr (db_outbox sample_store @ [(''eff_'' @ digits 1, row)])"
    using row(2) by (simp add: insert_outbox_def sample_store_def held_row_of_def sample_request_def row_key_def
        effect_key_def domain_event_def insert_row_def)
  have ports: "new_id sample_ports = digits" by (simp add: sample_ports_def)
  have "map_of (db_dedup sample_store) k = None" for k by (simp add: sample_store_def)
  with snaps row fresh show ?thesis
    by (auto simp: store_outcome_def events ports Let_def simp del: persist_domain_events.simps)
qed

lemma pause_dispatch:
  "\<exists>res db. dispatch sample_ports default_table pause_action [] [] sample_store = Inr (res, db)"
proof -
  obtain event eff where step: "transition default_table (Some (node ''PRODUCING'' [])) pause_action =
      Inr \<lparr>out_snapshot = paused_node, out_events = [event], out_effects = [eff]\<rparr>" "effect_type eff = ''pause_role''"
    using pause_step by blast
  obtain res db where stored: "store_outcome sample_ports pause_action (Some (node ''PRODUCING'' []))
    \<lparr>out_snapshot = paused_node, out_events = [event], out_effects = [eff]\<rparr> sample_store = Inr (res, db)"
    using pause_stored [OF step(2)] by blast
  have "project_all sample_ports pause_action paused_node x db = Inr (db\<lparr>db_rest := ()\<rparr>)" for x
    by (simp add: project_all_def sample_ports_def)
  then show ?thesis
    using step(1) stored no_artifacts
    by (simp add: dispatch_def sample_store_def read_snapshot_def consume_human_decision_def decision_actions_def
        sample_ports_def Let_def)
qed

theorem dispatch_is_idempotent_witness:
  "\<exists>res db. dispatch sample_ports default_table pause_action [] [] sample_store = Inr (res, db)
    \<and> dispatch sample_ports default_table pause_action [] [] (run_ops (db_step default_table) db [ClaimEffects ''w2'' 5 60 9])
      = Inr (res\<lparr>res_duplicate := True\<rparr>, run_ops (db_step default_table) db [ClaimEffects ''w2'' 5 60 9])"
proof -
  obtain res db where run: "dispatch sample_ports default_table pause_action [] [] sample_store = Inr (res, db)"
    using pause_dispatch by blast
  have "dispatch sample_ports default_table pause_action [] [] (run_ops (db_step default_table) db [ClaimEffects ''w2'' 5 60 9])
      = Inr (res\<lparr>res_duplicate := True\<rparr>, run_ops (db_step default_table) db [ClaimEffects ''w2'' 5 60 9])"
    using dispatch_is_idempotent [OF sample_store_ok run refl refl refl refl, where assignment = "[]" and payload_hash = "[]"] by (simp del: run_ops_simps)
  with run show ?thesis by blast
qed

theorem dispatch_moves_one_aggregate_witness:
  "\<exists>res db. dispatch sample_ports default_table pause_action [] [] sample_store = Inr (res, db)
    \<and> snap_version (res_snapshot res) = 8 \<and> map_of (db_snapshots db) (DAG_NODE_RUN, ''agg_1'') = Some (res_snapshot res)"
proof -
  obtain res db where run: "dispatch sample_ports default_table pause_action [] [] sample_store = Inr (res, db)"
    using pause_dispatch by blast
  have none: "map_of (db_dedup sample_store) (dedup_table_key pause_action) = None" by (simp add: sample_store_def)
  have snapshot: "read_snapshot sample_store DAG_NODE_RUN ''agg_1'' = Some (node ''PRODUCING'' [])"
    by (simp add: read_snapshot_def sample_store_def)
  from dispatch_moves_one_aggregate [OF sample_store_ok run none] snapshot obtain out where
    step: "transition default_table (Some (node ''PRODUCING'' [])) pause_action = Inr out"
    "map_of (db_snapshots db) = (map_of (db_snapshots sample_store))((DAG_NODE_RUN, ''agg_1'') \<mapsto> out_snapshot out)"
    "res_snapshot res = out_snapshot out" by auto
  then have "snap_version (res_snapshot res) = 8" using pause_step by auto
  with run step show ?thesis by auto
qed

end
