(* ===== verification/Cycle_Protocol.thy ===== *)
theory Cycle_Protocol
  imports Prelude
begin

section \<open>The produce-check cycle protocol\<close>

text \<open>
  \<open>bunshin/cycle_protocol.py\<close>: a cycle is one producer-checker conversation about one product. A plan cycle
  ends in a human review, a node cycle belongs to one module of the graph and can become stale. Both have
  the same record of fields, so \<open>NodeCycle\<close> extends \<open>Cycle\<close> by the node name; the two state enumerations
  share their text, so one datatype holds the states and each enumeration is a list of them. Every
  \<open>dataclasses.replace\<close> validates its result again, as the constructor does.
\<close>

subsection \<open>Data\<close>

datatype CycleSlot = PRODUCER | CHECKER

fun slot_value :: "CycleSlot \<Rightarrow> string" where
  "slot_value PRODUCER = ''producer''"
| "slot_value CHECKER = ''checker''"

datatype AssignmentKind = INITIAL | REVISION_KIND | REPAIR_KIND | RECHECK | RESUME_KIND

fun kind_value :: "AssignmentKind \<Rightarrow> string" where
  "kind_value INITIAL = ''initial''"
| "kind_value REVISION_KIND = ''revision''"
| "kind_value REPAIR_KIND = ''repair''"
| "kind_value RECHECK = ''recheck''"
| "kind_value RESUME_KIND = ''resume''"

datatype cycle_state =
    BLOCKED | PRODUCER_READY | PRODUCING | CHECKER_READY | CHECKING | REPAIR_READY | HUMAN_REVIEW
  | ACCEPTED | REJECTED | STALE | WAITING_EXTERNAL | PAUSE_REQUESTED | PAUSED_STATE | CANCEL_REQUESTED
  | CANCELLED_STATE | TRIAGE_REQUIRED

fun cycle_state_value :: "cycle_state \<Rightarrow> string" where
  "cycle_state_value BLOCKED = ''BLOCKED''"
| "cycle_state_value PRODUCER_READY = ''PRODUCER_READY''"
| "cycle_state_value PRODUCING = ''PRODUCING''"
| "cycle_state_value CHECKER_READY = ''CHECKER_READY''"
| "cycle_state_value CHECKING = ''CHECKING''"
| "cycle_state_value REPAIR_READY = ''REPAIR_READY''"
| "cycle_state_value HUMAN_REVIEW = ''HUMAN_REVIEW''"
| "cycle_state_value ACCEPTED = ''ACCEPTED''"
| "cycle_state_value REJECTED = ''REJECTED''"
| "cycle_state_value STALE = ''STALE''"
| "cycle_state_value WAITING_EXTERNAL = ''WAITING_EXTERNAL''"
| "cycle_state_value PAUSE_REQUESTED = ''PAUSE_REQUESTED''"
| "cycle_state_value PAUSED_STATE = ''PAUSED''"
| "cycle_state_value CANCEL_REQUESTED = ''CANCEL_REQUESTED''"
| "cycle_state_value CANCELLED_STATE = ''CANCELLED''"
| "cycle_state_value TRIAGE_REQUIRED = ''TRIAGE_REQUIRED''"

definition PlanCycleState :: "cycle_state list" where
  "PlanCycleState = [PRODUCER_READY, PRODUCING, CHECKER_READY, CHECKING, REPAIR_READY, HUMAN_REVIEW, ACCEPTED,
     REJECTED, WAITING_EXTERNAL, PAUSE_REQUESTED, PAUSED_STATE, CANCEL_REQUESTED, CANCELLED_STATE,
     TRIAGE_REQUIRED]"

definition NodeCycleState :: "cycle_state list" where
  "NodeCycleState = [BLOCKED, PRODUCER_READY, PRODUCING, CHECKER_READY, CHECKING, REPAIR_READY, ACCEPTED, STALE,
     WAITING_EXTERNAL, PAUSE_REQUESTED, PAUSED_STATE, CANCEL_REQUESTED, CANCELLED_STATE, TRIAGE_REQUIRED]"

datatype CycleAction =
    UNBLOCK | START_PRODUCER | PRODUCER_SUBMITTED | IMPORT_PRODUCT | PRODUCER_REJECTED | START_CHECKER
  | CHECKER_ACCEPTED | CHECKER_REJECTED | CHECKER_RETRY | REQUEST_HUMAN_REVIEW | HUMAN_ACCEPTED
  | HUMAN_REJECTED | HUMAN_EDITED | MARK_STALE | REQUEST_STALE | STALE_CONFIRMED | WAIT_EXTERNAL
  | EXTERNAL_RESUMED | REQUEST_PAUSE | PAUSE_DONE | RESUME | REQUEST_CANCEL | CANCEL_DONE | REQUIRE_TRIAGE
  | RESOLVE_TRIAGE

fun cycle_action_value :: "CycleAction \<Rightarrow> string" where
  "cycle_action_value UNBLOCK = ''unblock''"
| "cycle_action_value START_PRODUCER = ''start_producer''"
| "cycle_action_value PRODUCER_SUBMITTED = ''producer_submitted''"
| "cycle_action_value IMPORT_PRODUCT = ''import_product''"
| "cycle_action_value PRODUCER_REJECTED = ''producer_rejected''"
| "cycle_action_value START_CHECKER = ''start_checker''"
| "cycle_action_value CHECKER_ACCEPTED = ''checker_accepted''"
| "cycle_action_value CHECKER_REJECTED = ''checker_rejected''"
| "cycle_action_value CHECKER_RETRY = ''checker_retry''"
| "cycle_action_value REQUEST_HUMAN_REVIEW = ''request_human_review''"
| "cycle_action_value HUMAN_ACCEPTED = ''human_accepted''"
| "cycle_action_value HUMAN_REJECTED = ''human_rejected''"
| "cycle_action_value HUMAN_EDITED = ''human_edited''"
| "cycle_action_value MARK_STALE = ''mark_stale''"
| "cycle_action_value REQUEST_STALE = ''request_stale''"
| "cycle_action_value STALE_CONFIRMED = ''stale_confirmed''"
| "cycle_action_value WAIT_EXTERNAL = ''wait_external''"
| "cycle_action_value EXTERNAL_RESUMED = ''external_resumed''"
| "cycle_action_value REQUEST_PAUSE = ''request_pause''"
| "cycle_action_value PAUSE_DONE = ''paused''"
| "cycle_action_value RESUME = ''resume''"
| "cycle_action_value REQUEST_CANCEL = ''request_cancel''"
| "cycle_action_value CANCEL_DONE = ''cancelled''"
| "cycle_action_value REQUIRE_TRIAGE = ''require_triage''"
| "cycle_action_value RESOLVE_TRIAGE = ''resolve_triage''"

record CycleAssignment =
  as_slot :: CycleSlot
  as_kind :: AssignmentKind
  as_generation :: int
  as_input :: string

definition assignment_post_init :: "CycleAssignment \<Rightarrow> unit res" where
  "assignment_post_init a =
     (if as_generation a < 1 then Inl (ValueError ''assignment generation must be positive'')
      else raise_if (as_input a = []) (ValueError ''assignment input_fingerprint is required''))"

record CycleVerdict =
  vd_accepted :: bool
  vd_generation :: int
  vd_findings :: "string list"

definition verdict_post_init :: "CycleVerdict \<Rightarrow> unit res" where
  "verdict_post_init v =
     (if vd_generation v < 1 then Inl (ValueError ''verdict generation must be positive'')
      else if vd_accepted v \<and> vd_findings v \<noteq> [] then
        Inl (ValueError ''an accepted verdict cannot contain findings'')
      else raise_if (\<not> vd_accepted v \<and> vd_findings v = [])
        (ValueError ''a rejected verdict requires findings''))"

record Cycle =
  cycle_id :: string
  cy_generation :: int
  cy_state :: cycle_state
  cy_assignment :: "CycleAssignment option"
  cy_product :: string
  cy_accepted_product :: string
  cy_verdict :: "CycleVerdict option"
  cy_resume :: "cycle_state option"

record NodeCycle = Cycle +
  node_name :: string

subsection \<open>Validation\<close>

definition validate_cycle_generation :: "'a Cycle_scheme \<Rightarrow> unit res" where
  "validate_cycle_generation c =
     (if cycle_id c = [] \<or> cy_generation c < 1 then
        Inl (ValueError ''cycle identity and positive generation are required'')
      else if (case cy_assignment c of None \<Rightarrow> False | Some a \<Rightarrow> as_generation a \<noteq> cy_generation c) then
        Inl (ValueError ''active assignment belongs to another cycle generation'')
      else raise_if (case cy_verdict c of None \<Rightarrow> False | Some v \<Rightarrow> vd_generation v \<noteq> cy_generation c)
        (ValueError ''last verdict belongs to another cycle generation''))"

lemma validate_cycle_generation_Inr:
  "validate_cycle_generation c = Inr u \<longleftrightarrow> cycle_id c \<noteq> [] \<and> 1 \<le> cy_generation c
     \<and> (\<forall>a. cy_assignment c = Some a \<longrightarrow> as_generation a = cy_generation c)
     \<and> (\<forall>v. cy_verdict c = Some v \<longrightarrow> vd_generation v = cy_generation c)"
  by (auto simp: validate_cycle_generation_def split: option.splits)

definition plan_post_init :: "Cycle \<Rightarrow> unit res" where
  "plan_post_init c = validate_cycle_generation c"

definition node_post_init :: "NodeCycle \<Rightarrow> unit res" where
  "node_post_init c =
     (if node_name c = [] then Inl (ValueError ''node cycle requires node_name'')
      else validate_cycle_generation c)"

text \<open>\<open>dataclasses.replace\<close>: the updated cycle, validated by the constructor of its class.\<close>

definition replace :: "('a Cycle_scheme \<Rightarrow> unit res) \<Rightarrow> 'a Cycle_scheme \<Rightarrow> 'a Cycle_scheme res" where
  "replace post_init c = rbind (post_init c) (\<lambda>_. Inr c)"

definition start_assignment ::
  "'a Cycle_scheme \<Rightarrow> CycleAssignment option \<Rightarrow> CycleSlot \<Rightarrow> CycleAssignment res" where
  "start_assignment c assignment expected_slot = (case assignment of
       None \<Rightarrow> Inl (CycleTransitionError ''starting a role requires an assignment'')
     | Some a \<Rightarrow>
         if as_slot a \<noteq> expected_slot then
           Inl (CycleTransitionError (''expected '' @ slot_value expected_slot @ '' assignment, got ''
             @ slot_value (as_slot a)))
         else if as_generation a \<noteq> cy_generation c then
           Inl (CycleTransitionError ''assignment generation does not match the cycle generation'')
         else Inr a)"

definition validate_submission :: "'a Cycle_scheme \<Rightarrow> string \<Rightarrow> unit res" where
  "validate_submission c product_ref =
     (if product_ref = [] then Inl (CycleTransitionError ''producer submission requires a product ref'')
      else raise_if (case cy_assignment c of None \<Rightarrow> True | Some a \<Rightarrow> as_slot a \<noteq> PRODUCER)
        (CycleTransitionError ''producer submission has no active producer''))"

definition validate_verdict :: "'a Cycle_scheme \<Rightarrow> CycleVerdict option \<Rightarrow> bool \<Rightarrow> CycleVerdict res" where
  "validate_verdict c verdict accepted = (case verdict of
       None \<Rightarrow> Inl (CycleTransitionError ''checker completion requires a verdict'')
     | Some v \<Rightarrow>
         if vd_accepted v \<noteq> accepted then Inl (CycleTransitionError ''checker action and verdict disagree'')
         else if vd_generation v \<noteq> cy_generation c then
           Inl (CycleTransitionError ''checker verdict was produced for a different graph generation'')
         else if (case cy_assignment c of None \<Rightarrow> True | Some a \<Rightarrow> as_slot a \<noteq> CHECKER) then
           Inl (CycleTransitionError ''checker completion has no active checker'')
         else Inr v)"

subsection \<open>Transitions common to both cycles\<close>

definition COMMON_TRANSITIONS :: "((cycle_state \<times> CycleAction) \<times> cycle_state) list" where
  "COMMON_TRANSITIONS =
     [((PRODUCER_READY, START_PRODUCER), PRODUCING),
      ((REPAIR_READY, START_PRODUCER), PRODUCING),
      ((PRODUCING, PRODUCER_SUBMITTED), CHECKER_READY),
      ((PRODUCING, PRODUCER_REJECTED), REPAIR_READY),
      ((CHECKER_READY, START_CHECKER), CHECKING),
      ((CHECKING, CHECKER_REJECTED), REPAIR_READY),
      ((CHECKING, CHECKER_RETRY), CHECKER_READY),
      ((CHECKING, CHECKER_ACCEPTED), ACCEPTED)]"

definition common_target :: "cycle_state \<Rightarrow> CycleAction \<Rightarrow> cycle_state option" where
  "common_target s act = map_of COMMON_TRANSITIONS (s, act)"

definition quiescent_states :: "cycle_state set" where
  "quiescent_states = {PRODUCER_READY, CHECKER_READY, REPAIR_READY, ACCEPTED, BLOCKED, STALE, WAITING_EXTERNAL,
     PAUSED_STATE, CANCELLED_STATE, REJECTED, TRIAGE_REQUIRED, HUMAN_REVIEW}"

definition is_running :: "'a Cycle_scheme \<Rightarrow> bool" where
  "is_running c \<longleftrightarrow> cy_state c \<in> {PRODUCING, CHECKING}"

definition is_quiescent :: "'a Cycle_scheme \<Rightarrow> bool" where
  "is_quiescent c \<longleftrightarrow> cy_state c \<in> quiescent_states"

text \<open>The state to come back to when a cycle is suspended in the given state.\<close>

definition resume_point :: "cycle_state \<Rightarrow> cycle_state" where
  "resume_point s = (if s = PRODUCING then PRODUCER_READY else if s = CHECKING then CHECKER_READY else s)"

definition resumed_state :: "'a Cycle_scheme \<Rightarrow> cycle_state" where
  "resumed_state c = (case cy_resume c of None \<Rightarrow> PRODUCER_READY | Some s \<Rightarrow> s)"

definition common_control_transition ::
  "string \<Rightarrow> ('a Cycle_scheme \<Rightarrow> unit res) \<Rightarrow> 'a Cycle_scheme \<Rightarrow> CycleAction \<Rightarrow> 'a Cycle_scheme res" where
  "common_control_transition kind post_init c act =
     (let s = cy_state c in
      if act = WAIT_EXTERNAL \<and> s \<in> {PRODUCING, CHECKING} then
        replace post_init (c\<lparr>cy_state := WAITING_EXTERNAL, cy_assignment := None,
          cy_resume := Some (if s = PRODUCING then PRODUCER_READY else CHECKER_READY)\<rparr>)
      else if act = EXTERNAL_RESUMED \<and> s = WAITING_EXTERNAL then
        replace post_init (c\<lparr>cy_state := resumed_state c, cy_resume := None\<rparr>)
      else if act = REQUEST_PAUSE \<and> s \<notin> {CANCELLED_STATE, REJECTED} then
        replace post_init (c\<lparr>cy_state := PAUSE_REQUESTED,
          cy_resume := (if s \<notin> {PAUSE_REQUESTED, PAUSED_STATE} then Some (resume_point s) else cy_resume c)\<rparr>)
      else if act = PAUSE_DONE \<and> s = PAUSE_REQUESTED then
        replace post_init (c\<lparr>cy_state := PAUSED_STATE, cy_assignment := None\<rparr>)
      else if act = RESUME \<and> s = PAUSED_STATE then
        replace post_init (c\<lparr>cy_state := resumed_state c, cy_resume := None\<rparr>)
      else if act = REQUEST_CANCEL \<and> s \<notin> {CANCELLED_STATE, REJECTED} then
        replace post_init (c\<lparr>cy_state := CANCEL_REQUESTED\<rparr>)
      else if act = CANCEL_DONE \<and> s = CANCEL_REQUESTED then
        replace post_init (c\<lparr>cy_state := CANCELLED_STATE, cy_assignment := None, cy_resume := None\<rparr>)
      else if act = REQUIRE_TRIAGE \<and> s \<notin> {CANCELLED_STATE, REJECTED} then
        replace post_init (c\<lparr>cy_state := TRIAGE_REQUIRED, cy_assignment := None,
          cy_resume := Some (resume_point s)\<rparr>)
      else if act = RESOLVE_TRIAGE \<and> s = TRIAGE_REQUIRED then
        replace post_init (c\<lparr>cy_state := resumed_state c, cy_resume := None\<rparr>)
      else Inl (CycleTransitionError (kind @ '' cycle cannot '' @ cycle_action_value act @ '' from ''
        @ cycle_state_value s)))"

text \<open>The part of \<open>_transition_plan\<close> and \<open>_transition_node\<close> that is the same text in both.\<close>

definition common_role_transition ::
  "string \<Rightarrow> ('a Cycle_scheme \<Rightarrow> unit res) \<Rightarrow> 'a Cycle_scheme \<Rightarrow> CycleAction \<Rightarrow> CycleAssignment option \<Rightarrow> string
     \<Rightarrow> CycleVerdict option \<Rightarrow> 'a Cycle_scheme res" where
  "common_role_transition kind post_init c act assignment product_ref verdict =
     (case common_target (cy_state c) act of
        None \<Rightarrow> common_control_transition kind post_init c act
      | Some target \<Rightarrow>
          if act = START_PRODUCER then
            rbind (start_assignment c assignment PRODUCER) (\<lambda>a.
            replace post_init (c\<lparr>cy_state := target, cy_assignment := Some a\<rparr>))
          else if act = PRODUCER_SUBMITTED then
            rbind (validate_submission c product_ref) (\<lambda>_.
            replace post_init (c\<lparr>cy_state := target, cy_assignment := None, cy_product := product_ref\<rparr>))
          else if act = PRODUCER_REJECTED then
            replace post_init (c\<lparr>cy_state := target, cy_assignment := None\<rparr>)
          else if act = START_CHECKER then
            rbind (start_assignment c assignment CHECKER) (\<lambda>a.
            replace post_init (c\<lparr>cy_state := target, cy_assignment := Some a\<rparr>))
          else if act \<in> {CHECKER_ACCEPTED, CHECKER_REJECTED, CHECKER_RETRY} then
            rbind (validate_verdict c verdict (act = CHECKER_ACCEPTED)) (\<lambda>v.
            replace post_init (c\<lparr>cy_state := target, cy_assignment := None, cy_verdict := Some v,
              cy_accepted_product := (if act = CHECKER_ACCEPTED then cy_product c else cy_accepted_product c)\<rparr>))
          else replace post_init (c\<lparr>cy_state := target\<rparr>))"

subsection \<open>The two cycles\<close>

definition transition_plan ::
  "Cycle \<Rightarrow> CycleAction \<Rightarrow> CycleAssignment option \<Rightarrow> string \<Rightarrow> CycleVerdict option \<Rightarrow> Cycle res" where
  "transition_plan c act assignment product_ref verdict =
     (let s = cy_state c in
      if act = IMPORT_PRODUCT then
        (if s \<noteq> PRODUCER_READY \<or> cy_generation c \<noteq> 1 \<or> product_ref = [] \<or> cy_assignment c \<noteq> None
            \<or> cy_product c \<noteq> [] \<or> cy_accepted_product c \<noteq> [] \<or> cy_verdict c \<noteq> None \<or> cy_resume c \<noteq> None
            \<or> assignment \<noteq> None \<or> verdict \<noteq> None then
           Inl (CycleTransitionError ''plan import requires an empty initial producer-ready cycle'')
         else replace plan_post_init (c\<lparr>cy_state := CHECKER_READY, cy_product := product_ref\<rparr>))
      else if act = REQUEST_HUMAN_REVIEW \<and> s = ACCEPTED then replace plan_post_init (c\<lparr>cy_state := HUMAN_REVIEW\<rparr>)
      else if act = HUMAN_ACCEPTED \<and> s = HUMAN_REVIEW then replace plan_post_init (c\<lparr>cy_state := ACCEPTED\<rparr>)
      else if act = HUMAN_REJECTED \<and> s = HUMAN_REVIEW then replace plan_post_init (c\<lparr>cy_state := REJECTED\<rparr>)
      else if act = HUMAN_EDITED \<and> s = HUMAN_REVIEW then
        replace plan_post_init (c\<lparr>cy_generation := cy_generation c + 1, cy_state := REPAIR_READY,
          cy_assignment := None, cy_product := [], cy_accepted_product := [], cy_verdict := None\<rparr>)
      else common_role_transition ''plan'' plan_post_init c act assignment product_ref verdict)"

definition transition_node ::
  "NodeCycle \<Rightarrow> CycleAction \<Rightarrow> CycleAssignment option \<Rightarrow> string \<Rightarrow> CycleVerdict option \<Rightarrow> NodeCycle res" where
  "transition_node c act assignment product_ref verdict =
     (let s = cy_state c in
      if act = REQUEST_STALE \<and> s \<notin> {CANCELLED_STATE, CANCEL_REQUESTED} then
        replace node_post_init (c\<lparr>cy_state := CANCEL_REQUESTED, cy_resume := Some STALE\<rparr>)
      else if act = STALE_CONFIRMED then
        (if s \<noteq> CANCEL_REQUESTED \<or> cy_resume c \<noteq> Some STALE \<or> assignment \<noteq> cy_assignment c then
           Inl (CycleTransitionError ''stale acknowledgement does not match the pending assignment'')
         else replace node_post_init (c\<lparr>cy_state := STALE, cy_assignment := None, cy_verdict := None,
           cy_resume := None\<rparr>))
      else if act = REQUEST_CANCEL \<and> s = CANCEL_REQUESTED then replace node_post_init (c\<lparr>cy_resume := None\<rparr>)
      else if act = UNBLOCK \<and> s = BLOCKED then replace node_post_init (c\<lparr>cy_state := PRODUCER_READY\<rparr>)
      else if act = MARK_STALE \<and> s = ACCEPTED then
        replace node_post_init (c\<lparr>cy_state := STALE, cy_assignment := None, cy_verdict := None\<rparr>)
      else if act = UNBLOCK \<and> s = STALE then replace node_post_init (c\<lparr>cy_state := PRODUCER_READY\<rparr>)
      else common_role_transition ''node'' node_post_init c act assignment product_ref verdict)"

subsection \<open>Well-formed conversations\<close>

text \<open>
  The invariant of a cycle: a running slot has its active assignment and no quiescent state has one; a resume
  point is only kept while the cycle is suspended, and never names a running state; a cycle that is ready
  for its checker has a product, and an accepted cycle has accepted exactly its product on an accepting
  verdict.
\<close>

definition suspended_states :: "cycle_state set" where
  "suspended_states = {WAITING_EXTERNAL, PAUSE_REQUESTED, PAUSED_STATE, CANCEL_REQUESTED, TRIAGE_REQUIRED}"

definition at_or_resumes :: "'a Cycle_scheme \<Rightarrow> cycle_state set \<Rightarrow> bool" where
  "at_or_resumes c ss \<longleftrightarrow> cy_state c \<in> ss \<or> (\<exists>s \<in> ss. cy_resume c = Some s)"

definition active_slot :: "'a Cycle_scheme \<Rightarrow> CycleSlot option" where
  "active_slot c = map_option as_slot (cy_assignment c)"

definition accepting_with :: "(string \<Rightarrow> string \<Rightarrow> bool) \<Rightarrow> 'a Cycle_scheme \<Rightarrow> bool" where
  "accepting_with P c \<longleftrightarrow> cy_product c \<noteq> [] \<and> P (cy_accepted_product c) (cy_product c)
     \<and> (\<exists>v. cy_verdict c = Some v \<and> vd_accepted v)"

definition cycle_inv_with :: "(string \<Rightarrow> string \<Rightarrow> bool) \<Rightarrow> 'a Cycle_scheme \<Rightarrow> bool" where
  "cycle_inv_with P c \<longleftrightarrow>
     (cy_state c = PRODUCING \<longrightarrow> active_slot c = Some PRODUCER)
   \<and> (cy_state c = CHECKING \<longrightarrow> active_slot c = Some CHECKER)
   \<and> (cy_state c \<notin> {PRODUCING, CHECKING, PAUSE_REQUESTED, CANCEL_REQUESTED} \<longrightarrow> active_slot c = None)
   \<and> (cy_resume c \<noteq> None \<longrightarrow> cy_state c \<in> suspended_states)
   \<and> cy_resume c \<noteq> Some PRODUCING \<and> cy_resume c \<noteq> Some CHECKING
   \<and> (at_or_resumes c {CHECKER_READY, CHECKING} \<longrightarrow> cy_product c \<noteq> [])
   \<and> (at_or_resumes c {ACCEPTED, HUMAN_REVIEW} \<longrightarrow> accepting_with P c)"

text \<open>
  A cycle on its own accepts exactly its product; inside a graph the checker may name another accepted product.
\<close>

abbreviation accepting :: "'a Cycle_scheme \<Rightarrow> bool" where
  "accepting \<equiv> accepting_with (=)"

abbreviation cycle_inv :: "'a Cycle_scheme \<Rightarrow> bool" where
  "cycle_inv \<equiv> cycle_inv_with (=)"

lemma cycle_inv_quiescent: "cycle_inv_with P c \<Longrightarrow> is_quiescent c \<Longrightarrow> cy_assignment c = None"
  by (cases "cy_state c") (simp_all add: cycle_inv_with_def is_quiescent_def quiescent_states_def active_slot_def)

lemma cycle_inv_resume: "cycle_inv_with P c \<Longrightarrow> cy_state c \<notin> suspended_states \<Longrightarrow> cy_resume c = None"
  unfolding cycle_inv_with_def by blast

text \<open>The invariant of a cycle that is not suspended.\<close>

lemma cycle_inv_plain:
  "cy_resume c = None \<Longrightarrow> cycle_inv_with P c \<longleftrightarrow>
     (cy_state c = PRODUCING \<longrightarrow> active_slot c = Some PRODUCER)
   \<and> (cy_state c = CHECKING \<longrightarrow> active_slot c = Some CHECKER)
   \<and> (cy_state c \<notin> {PRODUCING, CHECKING, PAUSE_REQUESTED, CANCEL_REQUESTED} \<longrightarrow> active_slot c = None)
   \<and> (cy_state c \<in> {CHECKER_READY, CHECKING} \<longrightarrow> cy_product c \<noteq> [])
   \<and> (cy_state c \<in> {ACCEPTED, HUMAN_REVIEW} \<longrightarrow> accepting_with P c)"
  by (simp add: cycle_inv_with_def at_or_resumes_def)

lemmas cycle_inv_defs = cycle_inv_with_def suspended_states_def at_or_resumes_def active_slot_def accepting_with_def
  resume_point_def

definition protocol_total :: "'b res \<Rightarrow> bool" where
  "protocol_total r \<longleftrightarrow> (\<exists>x. r = Inr x) \<or> (\<exists>m. r = Inl (CycleTransitionError m))"

lemma protocol_total_rbind:
  "(\<And>e. m = Inl e \<Longrightarrow> \<exists>s. e = CycleTransitionError s) \<Longrightarrow> (\<And>x. m = Inr x \<Longrightarrow> protocol_total (f x)) \<Longrightarrow> protocol_total (rbind m f)"
  by (cases m) (auto simp: protocol_total_def)

lemma protocol_total_Inr: "protocol_total (Inr x)"
  by (simp add: protocol_total_def)

locale cycle_class =
  fixes post_init :: "'a Cycle_scheme \<Rightarrow> unit res" and named :: "'a \<Rightarrow> bool"
  assumes post_init_iff: "post_init c = Inr () \<longleftrightarrow> named (Cycle.more c) \<and> validate_cycle_generation c = Inr ()"
begin

lemma replace_Inr: "replace post_init c = Inr c' \<longleftrightarrow> c' = c \<and> post_init c = Inr ()"
  by (auto simp: replace_def rbind_check)

lemma control_inv:
  assumes "cycle_inv_with P c" and "common_control_transition kind post_init c act = Inr c'"
  shows "cycle_inv_with P c'"
  using assms
  by (auto simp: common_control_transition_def replace_Inr Let_def cycle_inv_defs resumed_state_def
      split: if_splits option.splits)

text \<open>Updates that cannot invalidate a valid cycle.\<close>

lemma valid_updates [simp]:
  "post_init (c\<lparr>cy_state := s\<rparr>) = Inr () \<longleftrightarrow> post_init c = Inr ()"
  "post_init (c\<lparr>cy_resume := r\<rparr>) = Inr () \<longleftrightarrow> post_init c = Inr ()"
  "post_init (c\<lparr>cy_product := x\<rparr>) = Inr () \<longleftrightarrow> post_init c = Inr ()"
  "post_init (c\<lparr>cy_accepted_product := x\<rparr>) = Inr () \<longleftrightarrow> post_init c = Inr ()"
  "post_init c = Inr () \<Longrightarrow> post_init (c\<lparr>cy_assignment := None\<rparr>) = Inr ()"
  "post_init c = Inr () \<Longrightarrow> post_init (c\<lparr>cy_verdict := None\<rparr>) = Inr ()"
  "post_init c = Inr () \<Longrightarrow> as_generation a = cy_generation c \<Longrightarrow> post_init (c\<lparr>cy_assignment := Some a\<rparr>) = Inr ()"
  "post_init c = Inr () \<Longrightarrow> vd_generation v = cy_generation c \<Longrightarrow> post_init (c\<lparr>cy_verdict := Some v\<rparr>) = Inr ()"
  by (auto simp: post_init_iff validate_cycle_generation_Inr)

lemma replace_valid [simp]: "post_init c = Inr () \<Longrightarrow> replace post_init c = Inr c"
  by (simp add: replace_Inr)

lemma control_total:
  assumes "post_init c = Inr ()"
  shows "(\<exists>c'. common_control_transition kind post_init c act = Inr c')
    \<or> (\<exists>m. common_control_transition kind post_init c act = Inl (CycleTransitionError m))"
  using assms by (simp add: common_control_transition_def Let_def)

lemma start_assignment_Inr:
  "start_assignment c assignment slot = Inr a \<longleftrightarrow>
     assignment = Some a \<and> as_slot a = slot \<and> as_generation a = cy_generation c"
  by (auto simp: start_assignment_def split: option.splits)

lemma validate_verdict_Inr:
  "validate_verdict c verdict b = Inr v \<longleftrightarrow>
     verdict = Some v \<and> vd_accepted v = b \<and> vd_generation v = cy_generation c \<and> active_slot c = Some CHECKER"
  by (auto simp: validate_verdict_def active_slot_def split: option.splits)

lemma validate_submission_Inr:
  "validate_submission c product_ref = Inr u \<longleftrightarrow> product_ref \<noteq> [] \<and> active_slot c = Some PRODUCER"
  by (auto simp: validate_submission_def active_slot_def split: option.splits)

lemma domain_errors:
  "start_assignment c assignment slot = Inl e \<Longrightarrow> \<exists>m. e = CycleTransitionError m"
  "validate_verdict c verdict b = Inl e \<Longrightarrow> \<exists>m. e = CycleTransitionError m"
  "validate_submission c product_ref = Inl e \<Longrightarrow> \<exists>m. e = CycleTransitionError m"
  by (auto simp: start_assignment_def validate_verdict_def validate_submission_def raise_if_def
      split: option.splits if_splits)

lemma common_target_Some:
  "common_target s act = Some target \<longleftrightarrow> ((s, act), target) \<in> set COMMON_TRANSITIONS"
  unfolding common_target_def by (rule map_of_eq_Some_iff [symmetric, THEN sym]) (simp add: COMMON_TRANSITIONS_def)

lemma role_inv:
  assumes "cycle_inv_with P c" and P: "\<And>x. P x x"
    and "common_role_transition kind post_init c act assignment product_ref verdict = Inr c'"
  shows "cycle_inv_with P c'"
proof (cases "common_target (cy_state c) act")
  case None
  with assms show ?thesis using control_inv by (simp add: common_role_transition_def)
next
  case (Some target)
  then have "cy_state c \<notin> suspended_states"
    unfolding common_target_Some COMMON_TRANSITIONS_def by (auto simp: suspended_states_def)
  with assms(1) have resume: "cy_resume c = None" by (rule cycle_inv_resume)
  have step: "common_role_transition kind post_init c act assignment product_ref verdict = Inr c'" by (rule assms(3))
  note simps = common_role_transition_def replace_Inr start_assignment_Inr validate_verdict_Inr
    validate_submission_Inr
  from Some consider
      "act = START_PRODUCER" "target = PRODUCING"
    | "act = PRODUCER_SUBMITTED" "target = CHECKER_READY" "cy_state c = PRODUCING"
    | "act = PRODUCER_REJECTED" "target = REPAIR_READY" "cy_state c = PRODUCING"
    | "act = START_CHECKER" "target = CHECKING" "cy_state c = CHECKER_READY"
    | "act = CHECKER_REJECTED" "target = REPAIR_READY" "cy_state c = CHECKING"
    | "act = CHECKER_RETRY" "target = CHECKER_READY" "cy_state c = CHECKING"
    | "act = CHECKER_ACCEPTED" "target = ACCEPTED" "cy_state c = CHECKING"
    unfolding common_target_Some COMMON_TRANSITIONS_def by auto
  then show ?thesis
    using step Some resume assms(1)
    by cases (simp_all add: simps, auto simp: cycle_inv_plain active_slot_def accepting_with_def P)
qed

lemma role_total:
  assumes "post_init c = Inr ()"
  shows "protocol_total (common_role_transition kind post_init c act assignment product_ref verdict)"
proof (cases "common_target (cy_state c) act")
  case None
  with assms show ?thesis using control_total by (simp add: common_role_transition_def protocol_total_def)
next
  case (Some target)
  show ?thesis
    unfolding common_role_transition_def Some option.case
    by (auto simp: assms start_assignment_Inr validate_verdict_Inr dest: domain_errors
        intro!: protocol_total_rbind protocol_total_Inr)
qed

text \<open>What never changes outside a human edit.\<close>

lemma role_identity:
  assumes "common_role_transition kind post_init c act assignment product_ref verdict = Inr c'"
  shows "cycle_id c' = cycle_id c \<and> cy_generation c' = cy_generation c \<and> post_init c' = Inr ()"
  using assms
  by (auto simp: common_role_transition_def common_control_transition_def replace_Inr Let_def
      split: if_splits option.splits)

end

text \<open>The names of the two classes.\<close>

definition node_named :: "'b NodeCycle_ext \<Rightarrow> bool" where
  "node_named m \<longleftrightarrow> node_name (Cycle.extend (\<lparr>cycle_id = [], cy_generation = 1, cy_state = BLOCKED,
     cy_assignment = None, cy_product = [], cy_accepted_product = [], cy_verdict = None, cy_resume = None\<rparr>) m) \<noteq> []"

interpretation plan_class: cycle_class plan_post_init "\<lambda>_. True"
  by unfold_locales (simp add: plan_post_init_def)

interpretation node_class: cycle_class node_post_init node_named
proof unfold_locales
  fix c :: NodeCycle
  have "node_named (Cycle.more c) \<longleftrightarrow> node_name c \<noteq> []"
    by (cases c) (simp add: node_named_def Cycle.defs)
  then show "node_post_init c = Inr () \<longleftrightarrow> node_named (Cycle.more c) \<and> validate_cycle_generation c = Inr ()"
    by (auto simp: node_post_init_def)
qed

subsection \<open>Histories of a cycle\<close>

type_synonym cycle_input = "CycleAction \<times> CycleAssignment option \<times> string \<times> CycleVerdict option"

definition plan_step :: "Cycle \<Rightarrow> cycle_input \<Rightarrow> Cycle res" where
  "plan_step c i = (case i of (act, assignment, product_ref, verdict) \<Rightarrow> transition_plan c act assignment product_ref verdict)"

definition node_step :: "NodeCycle \<Rightarrow> cycle_input \<Rightarrow> NodeCycle res" where
  "node_step c i = (case i of (act, assignment, product_ref, verdict) \<Rightarrow> transition_node c act assignment product_ref verdict)"

fun cycle_run :: "('c \<Rightarrow> cycle_input \<Rightarrow> 'c res) \<Rightarrow> 'c \<Rightarrow> cycle_input list \<Rightarrow> 'c" where
  "cycle_run step c [] = c"
| "cycle_run step c (i # is) = (case step c i of Inl e \<Rightarrow> cycle_run step c is | Inr c' \<Rightarrow> cycle_run step c' is)"

text \<open>
  What a driver of cycles relies on: from a good cycle an input either raises \<open>CycleTransitionError\<close> and
  changes nothing, or yields a good cycle of the same identity with the same or a later generation.
\<close>

locale cycle_protocol =
  fixes step :: "'a Cycle_scheme \<Rightarrow> cycle_input \<Rightarrow> 'a Cycle_scheme res" and good :: "'a Cycle_scheme \<Rightarrow> bool"
  assumes step_good: "good c \<Longrightarrow> step c i = Inr c' \<Longrightarrow> good c'"
    and step_identity: "step c i = Inr c' \<Longrightarrow> cycle_id c' = cycle_id c \<and> cy_generation c \<le> cy_generation c'"
    and step_error: "good c \<Longrightarrow> step c i = Inl e \<Longrightarrow> \<exists>m. e = CycleTransitionError m"
begin

lemma run_good: "good c \<Longrightarrow> good (cycle_run step c is)"
  by (induction "is" arbitrary: c) (auto split: sum.splits dest: step_good)

lemma run_identity:
  "cycle_id (cycle_run step c is) = cycle_id c \<and> cy_generation c \<le> cy_generation (cycle_run step c is)"
proof (induction "is" arbitrary: c)
  case (Cons i "is")
  show ?case
  proof (cases "step c i")
    case (Inr c')
    with step_identity [OF Inr] Cons.IH [of c'] show ?thesis by auto
  qed (use Cons.IH in simp)
qed simp

end

definition good_plan :: "Cycle \<Rightarrow> bool" where
  "good_plan c \<longleftrightarrow> plan_post_init c = Inr () \<and> cycle_inv c"

definition good_node :: "NodeCycle \<Rightarrow> bool" where
  "good_node c \<longleftrightarrow> node_post_init c = Inr () \<and> cycle_inv c"

lemma transition_plan_cases:
  assumes "transition_plan c act assignment product_ref verdict = Inr c'"
  obtains (common) "common_role_transition ''plan'' plan_post_init c act assignment product_ref verdict = Inr c'"
    | (imported) "cy_state c = PRODUCER_READY" "product_ref \<noteq> []" "cy_assignment c = None"
        "c' = c\<lparr>cy_state := CHECKER_READY, cy_product := product_ref\<rparr>" "plan_post_init c' = Inr ()"
    | (reviewed) "cy_state c = ACCEPTED" "c' = c\<lparr>cy_state := HUMAN_REVIEW\<rparr>" "plan_post_init c' = Inr ()"
    | (accepted) "cy_state c = HUMAN_REVIEW" "c' = c\<lparr>cy_state := ACCEPTED\<rparr>" "plan_post_init c' = Inr ()"
    | (rejected) "cy_state c = HUMAN_REVIEW" "c' = c\<lparr>cy_state := REJECTED\<rparr>" "plan_post_init c' = Inr ()"
    | (edited) "cy_state c = HUMAN_REVIEW" "c' = c\<lparr>cy_generation := cy_generation c + 1, cy_state := REPAIR_READY,
        cy_assignment := None, cy_product := [], cy_accepted_product := [], cy_verdict := None\<rparr>"
        "plan_post_init c' = Inr ()"
  using assms that
  unfolding transition_plan_def Let_def plan_class.replace_Inr
  by (auto simp: plan_class.replace_Inr simp del: plan_class.valid_updates split: if_splits)

lemma transition_node_cases:
  assumes "transition_node c act assignment product_ref verdict = Inr c'"
  obtains (common) "common_role_transition ''node'' node_post_init c act assignment product_ref verdict = Inr c'"
    | (stale_requested) "c' = c\<lparr>cy_state := CANCEL_REQUESTED, cy_resume := Some STALE\<rparr>" "node_post_init c' = Inr ()"
    | (stale_confirmed) "c' = c\<lparr>cy_state := STALE, cy_assignment := None, cy_verdict := None, cy_resume := None\<rparr>"
        "node_post_init c' = Inr ()"
    | (cancelled) "cy_state c = CANCEL_REQUESTED" "c' = c\<lparr>cy_resume := None\<rparr>" "node_post_init c' = Inr ()"
    | (unblocked) "cy_state c \<in> {BLOCKED, STALE}" "c' = c\<lparr>cy_state := PRODUCER_READY\<rparr>" "node_post_init c' = Inr ()"
    | (staled) "cy_state c = ACCEPTED" "c' = c\<lparr>cy_state := STALE, cy_assignment := None, cy_verdict := None\<rparr>"
        "node_post_init c' = Inr ()"
proof -
  from assms have "common_role_transition ''node'' node_post_init c act assignment product_ref verdict = Inr c'
    \<or> (c' = c\<lparr>cy_state := CANCEL_REQUESTED, cy_resume := Some STALE\<rparr> \<and> node_post_init c' = Inr ())
    \<or> (c' = c\<lparr>cy_state := STALE, cy_assignment := None, cy_verdict := None, cy_resume := None\<rparr>
        \<and> node_post_init c' = Inr ())
    \<or> (cy_state c = CANCEL_REQUESTED \<and> c' = c\<lparr>cy_resume := None\<rparr> \<and> node_post_init c' = Inr ())
    \<or> (cy_state c \<in> {BLOCKED, STALE} \<and> c' = c\<lparr>cy_state := PRODUCER_READY\<rparr> \<and> node_post_init c' = Inr ())
    \<or> (cy_state c = ACCEPTED \<and> c' = c\<lparr>cy_state := STALE, cy_assignment := None, cy_verdict := None\<rparr>
        \<and> node_post_init c' = Inr ())"
    by (simp only: transition_node_def Let_def split: if_split_asm)
       (simp_all only: node_class.replace_Inr sum.distinct insert_iff empty_iff simp_thms)
  with that show thesis by blast
qed

lemma transition_plan_inv:
  assumes "cycle_inv c" and "transition_plan c act assignment product_ref verdict = Inr c'"
  shows "cycle_inv c'"
proof -
  have plain: "cy_state c \<in> {PRODUCER_READY, ACCEPTED, HUMAN_REVIEW} \<Longrightarrow> cy_resume c = None"
    using cycle_inv_resume [OF assms(1)] by (auto simp: suspended_states_def)
  from assms(2) show ?thesis
  proof (cases rule: transition_plan_cases)
    case common
    then show ?thesis by (rule plan_class.role_inv [OF assms(1) refl])
  qed (use assms(1) plain in \<open>auto simp: cycle_inv_plain active_slot_def accepting_with_def\<close>)
qed

lemma transition_node_inv:
  assumes "cycle_inv_with P c" and P: "\<And>x. P x x" and "transition_node c act assignment product_ref verdict = Inr c'"
  shows "cycle_inv_with P c'"
proof -
  have plain: "cy_state c \<in> {BLOCKED, ACCEPTED, STALE} \<Longrightarrow> cy_resume c = None"
    using cycle_inv_resume [OF assms(1)] by (auto simp: suspended_states_def)
  from assms(3) show ?thesis
  proof (cases rule: transition_node_cases)
    case common
    with assms(1) P show ?thesis by (rule node_class.role_inv)
  next
    case stale_requested
    with assms(1) show ?thesis by (auto simp: cycle_inv_with_def suspended_states_def at_or_resumes_def)
  qed (use assms(1) plain in \<open>auto simp: cycle_inv_plain active_slot_def accepting_with_def\<close>)
qed

lemma transition_plan_identity:
  assumes "transition_plan c act assignment product_ref verdict = Inr c'"
  shows "cycle_id c' = cycle_id c \<and> cy_generation c \<le> cy_generation c' \<and> plan_post_init c' = Inr ()"
  using assms
proof (cases rule: transition_plan_cases)
  case common
  then show ?thesis using plan_class.role_identity by fastforce
qed simp_all

lemma transition_node_identity:
  assumes "transition_node c act assignment product_ref verdict = Inr c'"
  shows "cycle_id c' = cycle_id c \<and> cy_generation c' = cy_generation c \<and> node_post_init c' = Inr ()"
  using assms
proof (cases rule: transition_node_cases)
  case common
  then show ?thesis using node_class.role_identity by blast
qed simp_all

lemma transition_plan_error:
  assumes "plan_post_init c = Inr ()" and "transition_plan c act assignment product_ref verdict = Inl e"
  shows "\<exists>m. e = CycleTransitionError m"
proof -
  have edited: "plan_post_init (c\<lparr>cy_generation := cy_generation c + 1, cy_state := REPAIR_READY,
      cy_assignment := None, cy_product := [], cy_accepted_product := [], cy_verdict := None\<rparr>) = Inr ()"
    using assms(1) by (simp add: plan_post_init_def validate_cycle_generation_Inr)
  have "protocol_total (transition_plan c act assignment product_ref verdict)"
    using plan_class.role_total [OF assms(1)] edited assms(1)
    by (auto simp: transition_plan_def Let_def protocol_total_def)
  with assms(2) show ?thesis by (simp add: protocol_total_def)
qed

lemma transition_node_error:
  assumes "node_post_init c = Inr ()" and "transition_node c act assignment product_ref verdict = Inl e"
  shows "\<exists>m. e = CycleTransitionError m"
proof -
  have "protocol_total (transition_node c act assignment product_ref verdict)"
    using node_class.role_total [OF assms(1)] assms(1)
    by (auto simp: transition_node_def Let_def protocol_total_def)
  with assms(2) show ?thesis by (simp add: protocol_total_def)
qed

interpretation plan_protocol: cycle_protocol plan_step good_plan
  by unfold_locales
     (auto simp: plan_step_def good_plan_def dest: transition_plan_inv transition_plan_identity
        transition_plan_error split: prod.splits)

interpretation node_protocol: cycle_protocol node_step good_node
  by unfold_locales
     (auto simp: node_step_def good_node_def dest: transition_node_inv [OF _ refl] transition_node_identity
        transition_node_error split: prod.splits)

end
