(* ===== verification/Graph_Protocol.thy ===== *)
theory Graph_Protocol
  imports Prelude
begin

section \<open>The graph of a workflow\<close>

text \<open>
  \<open>bunshin/graph_protocol.py\<close>: the compiled graph of modules. A dictionary of nodes is an association list
  with distinct keys; hashing of canonical JSON is an argument. The lookups of \<open>GraphIR\<close> are total functions:
  the methods raise \<open>KeyError\<close> for an undeclared node, and every caller passes a key of the node dictionary.
\<close>

subsection \<open>Data\<close>

datatype EdgeKind = EXECUTION | CONTRACT

fun edge_kind_value :: "EdgeKind \<Rightarrow> string" where
  "edge_kind_value EXECUTION = ''execution''"
| "edge_kind_value CONTRACT = ''contract''"

definition edge_kind_of :: "string \<Rightarrow> EdgeKind res" where
  "edge_kind_of s =
     (if s = ''execution'' then Inr EXECUTION
      else if s = ''contract'' then Inr CONTRACT
      else Inl (ValueError (repr_str s @ '' is not a valid EdgeKind'')))"

lemma edge_kind_of_value [simp]: "edge_kind_of (edge_kind_value k) = Inr k"
  by (cases k) (simp_all add: edge_kind_of_def)

record SourceLocation =
  sl_path :: string
  sl_line :: int
  sl_column :: int

definition location_post_init :: "SourceLocation \<Rightarrow> unit res" where
  "location_post_init l =
     (if sl_path l = [] then Inl (ValueError ''source location path is required'')
      else raise_if (sl_line l < 1 \<or> sl_column l < 1) (ValueError ''source locations are one-based''))"

record GraphSourceMap =
  sm_source_ref :: string
  sm_locations :: "(string \<times> SourceLocation) list"

definition location_for :: "GraphSourceMap \<Rightarrow> string \<Rightarrow> SourceLocation option" where
  "location_for m path = map_of (sm_locations m) path"

record RoleBinding =
  rb_participant :: string
  rb_profile :: string
  rb_reason :: string

definition binding_post_init :: "RoleBinding \<Rightarrow> unit res" where
  "binding_post_init b =
     (if rb_participant b \<notin> {''profile'', ''null''} then Inl (ValueError ''role participant must be profile or null'')
      else if rb_participant b = ''profile'' \<and> rb_profile b = [] then
        Inl (ValueError ''profile role binding requires profile_id'')
      else raise_if (rb_participant b = ''null'' \<and> (rb_profile b \<noteq> [] \<or> rb_reason b = []))
        (ValueError ''null role binding requires a reason and no profile_id''))"

record NodeSpec =
  ns_name :: string
  ns_responsibility :: string
  ns_satellite :: pydict
  ns_producer :: RoleBinding
  ns_checker :: RoleBinding
  ns_adapter :: string
  ns_policy :: pydict
  ns_outputs :: "string list"
  ns_is_sink :: bool

definition node_spec_post_init :: "NodeSpec \<Rightarrow> unit res" where
  "node_spec_post_init n =
     (if ns_name n = [] \<or> ns_responsibility n = [] then Inl (ValueError ''node name and responsibility are required'')
      else if ns_adapter n = [] then Inl (ValueError ''node execution_adapter is required'')
      else raise_if (ns_satellite n = []) (ValueError ''node satellite_data is required''))"

record EdgeSpec =
  ed_producer :: string
  ed_consumer :: string
  ed_kind :: EdgeKind
  ed_contract_ref :: string
  ed_outputs :: "string list"

definition edge_post_init :: "EdgeSpec \<Rightarrow> unit res" where
  "edge_post_init e =
     (if ed_producer e = [] \<or> ed_consumer e = [] then Inl (ValueError ''edge endpoints are required'')
      else if ed_producer e = ed_consumer e then Inl (ValueError ''self edges are forbidden'')
      else if ed_contract_ref e = [] then Inl (ValueError ''edge contract_ref is required'')
      else raise_if (ed_outputs e = []) (ValueError ''edge consumed_outputs cannot be empty''))"

record GraphIR =
  gr_id :: string
  gr_generation :: int
  gr_nodes :: "(string \<times> NodeSpec) list"
  gr_edges :: "EdgeSpec list"
  gr_sink :: string
  gr_source_ref :: string
  gr_map_ref :: string

definition node_names :: "GraphIR \<Rightarrow> string list" where
  "node_names g = map fst (gr_nodes g)"

fun check_edges :: "string list \<Rightarrow> (string \<times> string) list \<Rightarrow> EdgeSpec list \<Rightarrow> unit res" where
  "check_edges names keys [] = Inr ()"
| "check_edges names keys (e # es) =
     (if ed_producer e \<notin> set names \<or> ed_consumer e \<notin> set names then
        Inl (ValueError ''GraphIR edges must connect declared nodes'')
      else if (ed_producer e, ed_consumer e) \<in> set keys then
        Inl (ValueError ''GraphIR contains a duplicate dependency edge'')
      else check_edges names ((ed_producer e, ed_consumer e) # keys) es)"

definition graph_post_init :: "GraphIR \<Rightarrow> unit res" where
  "graph_post_init g =
     (if gr_id g = [] \<or> gr_generation g < 1 then Inl (ValueError ''graph_id and positive generation are required'')
      else case map_of (gr_nodes g) (gr_sink g) of
        None \<Rightarrow> Inl (ValueError ''GraphIR requires nodes and a declared sink'')
      | Some sink \<Rightarrow>
          if \<not> ns_is_sink sink then Inl (ValueError ''declared GraphIR sink is not marked as sink'')
          else if gr_source_ref g = [] \<or> gr_map_ref g = [] then
            Inl (ValueError ''GraphIR source and source-map refs are required'')
          else check_edges (node_names g) [] (gr_edges g))"

subsection \<open>Dependencies\<close>

definition incoming :: "GraphIR \<Rightarrow> string \<Rightarrow> EdgeSpec list" where
  "incoming g n = filter (\<lambda>e. ed_consumer e = n) (gr_edges g)"

definition outgoing :: "GraphIR \<Rightarrow> string \<Rightarrow> EdgeSpec list" where
  "outgoing g n = filter (\<lambda>e. ed_producer e = n) (gr_edges g)"

definition software_adapter :: string where
  "software_adapter = ''software_git.v2''"

definition is_software :: "GraphIR \<Rightarrow> string \<Rightarrow> bool" where
  "is_software g n = (case map_of (gr_nodes g) n of None \<Rightarrow> False | Some s \<Rightarrow> ns_adapter s = software_adapter)"

definition execution_predecessors :: "GraphIR \<Rightarrow> string \<Rightarrow> string list" where
  "execution_predecessors g n =
     (if n = gr_sink g \<and> is_software g n then sort (filter (\<lambda>m. m \<noteq> gr_sink g) (node_names g))
      else map ed_producer (filter (\<lambda>e. ed_consumer e = n \<and> ed_kind e = EXECUTION) (gr_edges g)))"

definition producer_predecessors :: "GraphIR \<Rightarrow> string \<Rightarrow> string list" where
  "producer_predecessors g n = (if is_software g n then [] else execution_predecessors g n)"

definition checker_predecessors :: "GraphIR \<Rightarrow> string \<Rightarrow> string list" where
  "checker_predecessors g n = execution_predecessors g n"

text \<open>The stack loop of \<open>repair_descendants\<close>; the set of consumers of one producer is a list without repetition.\<close>

definition repair_consumers :: "GraphIR \<Rightarrow> string \<Rightarrow> string list" where
  "repair_consumers g p = remdups (map ed_consumer (outgoing g p)
     @ filter (\<lambda>n. p \<in> set (checker_predecessors g n)) (node_names g))"

definition repair_universe :: "GraphIR \<Rightarrow> string list" where
  "repair_universe g = map ed_consumer (gr_edges g) @ node_names g"

definition repair_descendants :: "GraphIR \<Rightarrow> string \<Rightarrow> string list" where
  "repair_descendants g n =
     (case worklist (length (repair_universe g) + 2) (repair_consumers g) [] [n] of
        None \<Rightarrow> []
      | Some seen \<Rightarrow> sort (remdups (filter (\<lambda>m. m \<noteq> n) seen)))"

subsection \<open>JSON form\<close>

definition binding_dict :: "RoleBinding \<Rightarrow> pydict" where
  "binding_dict b = [(''participant'', PStr (rb_participant b)), (''profile_id'', PStr (rb_profile b)),
     (''reason'', PStr (rb_reason b))]"

definition node_spec_dict :: "NodeSpec \<Rightarrow> pydict" where
  "node_spec_dict n =
     [(''name'', PStr (ns_name n)), (''responsibility'', PStr (ns_responsibility n)),
      (''satellite_data'', PDict (ns_satellite n)), (''producer_binding'', PDict (binding_dict (ns_producer n))),
      (''checker_binding'', PDict (binding_dict (ns_checker n))), (''execution_adapter'', PStr (ns_adapter n)),
      (''workspace_policy'', PDict (ns_policy n)), (''output_contract'', PList (map PStr (ns_outputs n))),
      (''is_sink'', PBool (ns_is_sink n))]"

definition edge_dict :: "EdgeSpec \<Rightarrow> pydict" where
  "edge_dict e =
     [(''producer'', PStr (ed_producer e)), (''consumer'', PStr (ed_consumer e)),
      (''kind'', PStr (edge_kind_value (ed_kind e))), (''contract_ref'', PStr (ed_contract_ref e)),
      (''consumed_outputs'', PList (map PStr (ed_outputs e)))]"

text \<open>\<open>sorted\<close> by producer, then consumer, then kind.\<close>

definition edge_order :: "EdgeSpec list \<Rightarrow> EdgeSpec list" where
  "edge_order es = sort_key ed_producer (sort_key ed_consumer (sort_key (\<lambda>e. edge_kind_value (ed_kind e)) es))"

definition graph_dict :: "GraphIR \<Rightarrow> pydict" where
  "graph_dict g =
     [(''graph_id'', PStr (gr_id g)), (''generation'', PInt (gr_generation g)),
      (''nodes'', PDict (map (\<lambda>(k, n). (k, PDict (node_spec_dict n))) (sort_key fst (gr_nodes g)))),
      (''edges'', PList (map (\<lambda>e. PDict (edge_dict e)) (edge_order (gr_edges g)))),
      (''sink'', PStr (gr_sink g)), (''source_ref'', PStr (gr_source_ref g)), (''source_map_ref'', PStr (gr_map_ref g))]"

definition generation_hash :: "(pyval \<Rightarrow> string) \<Rightarrow> GraphIR \<Rightarrow> string" where
  "generation_hash h g = h (PDict (graph_dict g))"

definition graph_to_dict :: "(pyval \<Rightarrow> string) \<Rightarrow> GraphIR \<Rightarrow> pydict" where
  "graph_to_dict h g = graph_dict g @ [(''generation_hash'', PStr (generation_hash h g))]"

definition semantic_identity_hash :: "(pyval \<Rightarrow> string) \<Rightarrow> NodeSpec \<Rightarrow> string" where
  "semantic_identity_hash h n = h (PDict [(''name'', PStr (ns_name n)), (''responsibility'', PStr (ns_responsibility n))])"

definition contract_hash :: "(pyval \<Rightarrow> string) \<Rightarrow> NodeSpec \<Rightarrow> string" where
  "contract_hash h n = h (PDict
     [(''satellite_data'', PDict (ns_satellite n)), (''output_contract'', PList (map PStr (ns_outputs n))),
      (''workspace_policy'', PDict (ns_policy n)), (''execution_adapter'', PStr (ns_adapter n))])"

definition binding_from_mapping :: "pyval \<Rightarrow> RoleBinding res" where
  "binding_from_mapping v =
     rbind (dict_or_empty v) (\<lambda>d.
     let b = \<lparr>rb_participant = str_or_empty (dget d ''participant''), rb_profile = str_or_empty (dget d ''profile_id''),
              rb_reason = str_or_empty (dget d ''reason'')\<rparr> in
     rbind (binding_post_init b) (\<lambda>_. Inr b))"

definition node_spec_from_mapping :: "string \<Rightarrow> pyval \<Rightarrow> NodeSpec res" where
  "node_spec_from_mapping name raw =
     rbind (dict_or_empty raw) (\<lambda>d.
     rbind (dict_or_empty (dget d ''satellite_data'')) (\<lambda>satellite.
     rbind (binding_from_mapping (dget d ''producer_binding'')) (\<lambda>producer.
     rbind (binding_from_mapping (dget d ''checker_binding'')) (\<lambda>checker.
     rbind (dict_or_empty (dget d ''workspace_policy'')) (\<lambda>policy.
     rbind (list_or_empty (dget d ''output_contract'')) (\<lambda>outputs.
     let n = \<lparr>ns_name = py_str (py_or (dget d ''name'') (PStr name)),
              ns_responsibility = str_or_empty (dget d ''responsibility''), ns_satellite = satellite,
              ns_producer = producer, ns_checker = checker, ns_adapter = str_or_empty (dget d ''execution_adapter''),
              ns_policy = policy, ns_outputs = map py_str outputs, ns_is_sink = truthy (dget d ''is_sink'')\<rparr> in
     rbind (node_spec_post_init n) (\<lambda>_. Inr n)))))))"

definition edge_from_mapping :: "pyval \<Rightarrow> EdgeSpec res" where
  "edge_from_mapping raw =
     rbind (dict_or_empty raw) (\<lambda>d.
     rbind (edge_kind_of (str_or_empty (dget d ''kind''))) (\<lambda>k.
     rbind (list_or_empty (dget d ''consumed_outputs'')) (\<lambda>outputs.
     let e = \<lparr>ed_producer = str_or_empty (dget d ''producer''), ed_consumer = str_or_empty (dget d ''consumer''),
              ed_kind = k, ed_contract_ref = str_or_empty (dget d ''contract_ref''), ed_outputs = map py_str outputs\<rparr> in
     rbind (edge_post_init e) (\<lambda>_. Inr e))))"

definition graph_ir_from_mapping :: "(pyval \<Rightarrow> string) \<Rightarrow> pydict \<Rightarrow> GraphIR res" where
  "graph_ir_from_mapping h d =
     rbind (dict_or_empty (dget d ''nodes'')) (\<lambda>raw_nodes.
     rbind (map_res (\<lambda>(k, v). rbind (node_spec_from_mapping k v) (\<lambda>n. Inr (k, n))) raw_nodes) (\<lambda>nodes.
     rbind (list_or_empty (dget d ''edges'')) (\<lambda>raw_edges.
     rbind (map_res edge_from_mapping raw_edges) (\<lambda>edges.
     rbind (int_or_zero (dget d ''generation'')) (\<lambda>generation.
     let g = \<lparr>gr_id = str_or_empty (dget d ''graph_id''), gr_generation = generation, gr_nodes = nodes, gr_edges = edges,
              gr_sink = str_or_empty (dget d ''sink''), gr_source_ref = str_or_empty (dget d ''source_ref''),
              gr_map_ref = str_or_empty (dget d ''source_map_ref'')\<rparr> in
     rbind (graph_post_init g) (\<lambda>_.
     let expected = str_or_empty (dget d ''generation_hash'') in
     rbind (raise_if (expected \<noteq> [] \<and> expected \<noteq> generation_hash h g) (ValueError ''GraphIR generation hash mismatch''))
       (\<lambda>_. Inr g)))))))"

subsection \<open>Well-formed graphs\<close>

definition graph_ok :: "GraphIR \<Rightarrow> bool" where
  "graph_ok g \<longleftrightarrow> distinct (node_names g) \<and> graph_post_init g = Inr ()
     \<and> (\<forall>(k, n) \<in> set (gr_nodes g). node_spec_post_init n = Inr () \<and> binding_post_init (ns_producer n) = Inr ()
          \<and> binding_post_init (ns_checker n) = Inr ())
     \<and> (\<forall>e \<in> set (gr_edges g). edge_post_init e = Inr ())"

lemma check_edges_Inr:
  "check_edges names keys es = Inr u \<longleftrightarrow>
     (\<forall>e \<in> set es. ed_producer e \<in> set names \<and> ed_consumer e \<in> set names)
   \<and> distinct (map (\<lambda>e. (ed_producer e, ed_consumer e)) es)
   \<and> (\<forall>e \<in> set es. (ed_producer e, ed_consumer e) \<notin> set keys)"
proof (induction es arbitrary: keys)
  case (Cons e es)
  have "(\<forall>e' \<in> set es. (ed_producer e', ed_consumer e') \<notin> set ((ed_producer e, ed_consumer e) # keys)) \<longleftrightarrow>
      (ed_producer e, ed_consumer e) \<notin> (\<lambda>e. (ed_producer e, ed_consumer e)) ` set es
    \<and> (\<forall>e' \<in> set es. (ed_producer e', ed_consumer e') \<notin> set keys)"
    by auto (metis (mono_tags, lifting) image_eqI)+
  with Cons.IH [of "(ed_producer e, ed_consumer e) # keys"] show ?case
    by (simp only: check_edges.simps) auto
qed simp

lemma graph_post_init_Inr:
  "graph_post_init g = Inr u \<longleftrightarrow> gr_id g \<noteq> [] \<and> 1 \<le> gr_generation g
     \<and> (\<exists>s. map_of (gr_nodes g) (gr_sink g) = Some s \<and> ns_is_sink s)
     \<and> gr_source_ref g \<noteq> [] \<and> gr_map_ref g \<noteq> []
     \<and> (\<forall>e \<in> set (gr_edges g). ed_producer e \<in> set (node_names g) \<and> ed_consumer e \<in> set (node_names g))
     \<and> distinct (map (\<lambda>e. (ed_producer e, ed_consumer e)) (gr_edges g))"
  by (auto simp: graph_post_init_def check_edges_Inr split: option.splits)

lemma graph_ok_edge:
  "graph_ok g \<Longrightarrow> e \<in> set (gr_edges g) \<Longrightarrow>
     ed_producer e \<in> set (node_names g) \<and> ed_consumer e \<in> set (node_names g) \<and> ed_producer e \<noteq> ed_consumer e"
  by (auto simp: graph_ok_def graph_post_init_Inr edge_post_init_def split: if_splits)

lemma graph_ok_sink: "graph_ok g \<Longrightarrow> gr_sink g \<in> set (node_names g)"
  by (force simp: graph_ok_def graph_post_init_Inr node_names_def dest!: map_of_SomeD)

lemma predecessors_declared:
  "graph_ok g \<Longrightarrow> p \<in> set (execution_predecessors g n) \<Longrightarrow> p \<in> set (node_names g) \<and> p \<noteq> n"
  by (auto simp: execution_predecessors_def dest: graph_ok_edge split: if_splits)

lemma producer_predecessors_execution:
  "p \<in> set (producer_predecessors g n) \<Longrightarrow> p \<in> set (execution_predecessors g n)"
  by (simp add: producer_predecessors_def split: if_splits)

subsection \<open>The affected closure\<close>

text \<open>A node feeds another when an edge says so, or when the other's checker consumes its product.\<close>

definition feeds :: "GraphIR \<Rightarrow> (string \<times> string) set" where
  "feeds g = {(p, n). (\<exists>e \<in> set (gr_edges g). ed_producer e = p \<and> ed_consumer e = n)
     \<or> n \<in> set (node_names g) \<and> p \<in> set (execution_predecessors g n)}"

interpretation affected: finite_successors "repair_consumers g" "repair_universe g" for g
  by unfold_locales (auto simp: repair_consumers_def repair_universe_def outgoing_def)

lemma succ_rel_repair_consumers: "succ_rel (repair_consumers g) = feeds g"
  by (auto simp: succ_rel_def repair_consumers_def outgoing_def feeds_def checker_predecessors_def)

lemma repair_descendants_set:
  "set (repair_descendants g n) = {m. m \<noteq> n \<and> (n, m) \<in> (feeds g)\<^sup>+}"
proof -
  obtain r where "worklist (length (repair_universe g) + 2) (repair_consumers g) [] [n] = Some r"
    "set r = {m. (n, m) \<in> (feeds g)\<^sup>+}"
    using affected.worklist_reaches [of g "[n]" "length (repair_universe g) + 2" "[]"]
    by (auto simp: succ_rel_repair_consumers)
  then show ?thesis by (auto simp: repair_descendants_def)
qed

lemma repair_descendants_sorted: "sorted (repair_descendants g n) \<and> distinct (repair_descendants g n)"
  by (auto simp: repair_descendants_def split: option.split)

text \<open>
  C36: The set of nodes that a repair of a node affects terminates and is exactly the transitive closure: the
  nodes other than the repaired one that consume its product, or the product of an affected node, along an
  authored edge or as an input of their checker (the assembly sink of a software graph checks every module).
\<close>

theorem repair_descendants_exact:
  "(\<exists>r. worklist (length (repair_universe g) + 2) (repair_consumers g) [] [n] = Some r)
   \<and> set (repair_descendants g n) = {m. m \<noteq> n \<and> (n, m) \<in> (feeds g)\<^sup>+}
   \<and> sorted (repair_descendants g n) \<and> distinct (repair_descendants g n)"
proof -
  have "\<exists>r. worklist (length (repair_universe g) + 2) (repair_consumers g) [] [n] = Some r"
    using affected.worklist_reaches [of g "[n]" "length (repair_universe g) + 2" "[]"] by (auto simp del: worklist.simps)
  with repair_descendants_set repair_descendants_sorted show ?thesis by blast
qed

subsection \<open>Reading a graph back\<close>

text \<open>Edges in the order in which they are written.\<close>

definition canonical :: "GraphIR \<Rightarrow> bool" where
  "canonical g \<longleftrightarrow> sorted (map fst (gr_nodes g)) \<and> edge_order (gr_edges g) = gr_edges g"

lemma map_res_map: "(\<And>x. x \<in> set xs \<Longrightarrow> f (g x) = Inr x) \<Longrightarrow> map_res f (map g xs) = Inr xs"
  by (induction xs) auto

lemma binding_roundtrip: "binding_post_init b = Inr () \<Longrightarrow> binding_from_mapping (PDict (binding_dict b)) = Inr b"
  by (cases b) (simp add: binding_from_mapping_def binding_dict_def dget_def Let_def)

lemma strings_roundtrip [simp]: "map (py_str \<circ> PStr) xs = xs"
  by (induction xs) auto

lemma node_spec_roundtrip:
  assumes "node_spec_post_init n = Inr ()" and "binding_post_init (ns_producer n) = Inr ()"
    and "binding_post_init (ns_checker n) = Inr ()"
  shows "node_spec_from_mapping k (PDict (node_spec_dict n)) = Inr n"
proof -
  have "ns_name n \<noteq> []" using assms(1) by (simp add: node_spec_post_init_def split: if_splits)
  with assms show ?thesis
    by (cases n) (simp add: node_spec_from_mapping_def node_spec_dict_def dget_def binding_roundtrip py_or_def Let_def)
qed

lemma edge_roundtrip: "edge_post_init e = Inr () \<Longrightarrow> edge_from_mapping (PDict (edge_dict e)) = Inr e"
  by (cases e) (simp add: edge_from_mapping_def edge_dict_def dget_def Let_def)

text \<open>
  A graph in canonical order (the order in which the compiler's artifact and the store write it), read
  back from its JSON form, is the same graph, and the recorded generation hash matches.
\<close>

lemma graph_roundtrip:
  assumes ok: "graph_ok g" and order: "canonical g"
  shows "graph_ir_from_mapping h (graph_to_dict h g) = Inr g"
proof -
  have nodes: "map_res (\<lambda>(k, v). rbind (node_spec_from_mapping k v) (\<lambda>n. Inr (k, n)))
      (map (\<lambda>(k, n). (k, PDict (node_spec_dict n))) (gr_nodes g)) = Inr (gr_nodes g)"
    using ok by (intro map_res_map) (auto simp: graph_ok_def node_spec_roundtrip)
  have edges: "map_res edge_from_mapping (map (\<lambda>e. PDict (edge_dict e)) (gr_edges g)) = Inr (gr_edges g)"
    using ok by (intro map_res_map) (auto simp: graph_ok_def edge_roundtrip)
  have sorted: "sort_key fst (gr_nodes g) = gr_nodes g" "edge_order (gr_edges g) = gr_edges g"
    using order by (simp_all add: canonical_def sort_key_id_if_sorted)
  have post: "graph_post_init g = Inr ()" using ok by (simp add: graph_ok_def)
  have fields: "\<lparr>gr_id = gr_id g, gr_generation = gr_generation g, gr_nodes = gr_nodes g, gr_edges = gr_edges g,
      gr_sink = gr_sink g, gr_source_ref = gr_source_ref g, gr_map_ref = gr_map_ref g\<rparr> = g" by simp
  show ?thesis
    by (simp add: graph_ir_from_mapping_def graph_to_dict_def graph_dict_def dget_def nodes edges sorted fields post Let_def
        del: map_map)
qed

end
