(* ===== verification/Ordered_Dict.thy ===== *)
theory Ordered_Dict
  imports Prelude
begin

section \<open>Dictionaries in key order\<close>

text \<open>
  Dictionaries whose order no operation observes are kept in the order of their keys, so that equality of
  association lists is equality of dictionaries.
\<close>

definition dict_of :: "(string \<times> 'a) list \<Rightarrow> (string \<times> 'a) list" where
  "dict_of d = sort_key fst d"

definition dict_put :: "string \<Rightarrow> 'a \<Rightarrow> (string \<times> 'a) list \<Rightarrow> (string \<times> 'a) list" where
  "dict_put k v d = dict_of (AList.update k v d)"

definition keys :: "(string \<times> 'a) list \<Rightarrow> string set" where
  "keys d = fst ` set d"

definition is_dict :: "(string \<times> 'a) list \<Rightarrow> bool" where
  "is_dict d \<longleftrightarrow> distinct (map fst d) \<and> sorted (map fst d)"

lemma map_fst_sort: "distinct (map fst (sort_key fst d)) \<longleftrightarrow> distinct (map fst d)"
  by (simp add: distinct_map)

lemma map_of_sort_key: "distinct (map fst d) \<Longrightarrow> map_of (sort_key fst d) = map_of d"
  by (rule map_of_inject_set [THEN iffD2]) (simp_all add: map_fst_sort)

lemma is_dict_dict_of [simp]: "is_dict (dict_of d) \<longleftrightarrow> distinct (map fst d)"
  by (simp add: is_dict_def dict_of_def map_fst_sort)

lemma map_of_dict_of [simp]: "distinct (map fst d) \<Longrightarrow> map_of (dict_of d) = map_of d"
  by (simp add: dict_of_def map_of_sort_key)

lemma is_dict_Nil [simp]: "is_dict []"
  by (simp add: is_dict_def)

lemma is_dict_single [simp]: "is_dict [(k, v)]"
  by (simp add: is_dict_def)

lemma is_dict_distinct: "is_dict d \<Longrightarrow> distinct (map fst d)"
  by (simp add: is_dict_def)

lemma is_dict_put [simp]: "is_dict d \<Longrightarrow> is_dict (dict_put k v d)"
  by (simp add: dict_put_def distinct_update is_dict_distinct)

lemma map_of_dict_put [simp]: "is_dict d \<Longrightarrow> map_of (dict_put k v d) = (map_of d)(k \<mapsto> v)"
  by (simp add: dict_put_def distinct_update is_dict_distinct update_conv')

lemma keys_map_of: "keys d = dom (map_of d)"
  by (simp add: keys_def dom_map_of_conv_image_fst)

lemma keys_dict_put [simp]: "is_dict d \<Longrightarrow> keys (dict_put k v d) = insert k (keys d)"
  by (simp add: keys_map_of)

text \<open>Equal as dictionaries is equal.\<close>

lemma is_dict_eqI: "is_dict d \<Longrightarrow> is_dict e \<Longrightarrow> map_of d = map_of e \<Longrightarrow> d = e"
proof -
  assume d: "is_dict d" and e: "is_dict e" and "map_of d = map_of e"
  then have set: "set d = set e" by (simp add: is_dict_def map_of_inject_set)
  show "d = e"
    using d e set by (intro map_sorted_distinct_set_unique [of fst]) (auto simp: is_dict_def distinct_map)
qed

lemma is_dict_same: "is_dict d \<Longrightarrow> dict_of d = d"
  by (simp add: is_dict_def dict_of_def sort_key_id_if_sorted)

lemma map_of_keys: "k \<in> keys d \<Longrightarrow> \<exists>v. map_of d k = Some v"
  by (auto simp: keys_map_of)

lemma is_dict_in_set: "is_dict d \<Longrightarrow> (k, v) \<in> set d \<longleftrightarrow> map_of d k = Some v"
  by (simp add: is_dict_distinct)

end
