(* ===== verification/Dependency_Repair.thy ===== *)
theory Dependency_Repair
  imports Ordered_Dict
begin

section \<open>Dependency repair coordination\<close>

text \<open>
  \<open>bunshin/dependency_repair_protocol.py\<close>: when checkers report that products they consume are defective, the
  reports of one graph generation join in a cohort with a frozen scope and a frontier of the running
  incarnations; each incarnation is closed by a proof, then the cohort is applied. A ledger keeps the pending
  cohort and the sealed ones. An artifact reference is a record of the six fields that \<open>_ref\<close> lets through.
  Hashing of canonical JSON is an argument.
\<close>

subsection \<open>References\<close>

record ArtifactRef =
  rf_sha :: string
  rf_type :: "string option"
  rf_schema :: "string option"
  rf_media :: "string option"
  rf_size :: "int option"
  rf_durable :: "bool option"

definition REF_FIELDS :: "string list" where
  "REF_FIELDS = [''sha256'', ''artifact_type'', ''schema_version'', ''media_type'', ''byte_size'', ''durable'']"

definition text_field :: "pydict \<Rightarrow> string \<Rightarrow> string option res" where
  "text_field d name = (case map_of d name of
       None \<Rightarrow> Inr None
     | Some (PStr s) \<Rightarrow> Inr (Some s)
     | Some _ \<Rightarrow> Inl (ValueError (''repair reference '' @ name @ '' must be a string'')))"

definition ref_of_dict :: "pydict \<Rightarrow> ArtifactRef res" where
  "ref_of_dict d =
     (case (list_ex (\<lambda>(k, _). k \<notin> set REF_FIELDS) d, map_of d ''sha256'') of
        (False, Some (PStr (c # cs))) \<Rightarrow>
          rbind (text_field d ''artifact_type'') (\<lambda>ty.
          rbind (text_field d ''schema_version'') (\<lambda>schema.
          rbind (text_field d ''media_type'') (\<lambda>media.
          rbind (case map_of d ''byte_size'' of
               None \<Rightarrow> Inr None
             | Some (PInt n) \<Rightarrow> if n < 0 then Inl (ValueError ''repair reference byte_size must be a nonnegative integer'')
                 else Inr (Some n)
             | Some _ \<Rightarrow> Inl (ValueError ''repair reference byte_size must be a nonnegative integer'')) (\<lambda>size.
          rbind (case map_of d ''durable'' of
               None \<Rightarrow> Inr None
             | Some (PBool b) \<Rightarrow> Inr (Some b)
             | Some _ \<Rightarrow> Inl (ValueError ''repair reference durable must be a boolean'')) (\<lambda>durable.
          Inr \<lparr>rf_sha = c # cs, rf_type = ty, rf_schema = schema, rf_media = media, rf_size = size,
               rf_durable = durable\<rparr>)))))
      | _ \<Rightarrow> Inl (ValueError ''repair evidence requires a reference SHA and no payload''))"

definition ref_of :: "pyval \<Rightarrow> ArtifactRef res" where
  "ref_of v = (case v of
       PDict d \<Rightarrow> ref_of_dict d
     | _ \<Rightarrow> Inl (ValueError ''repair evidence must be an artifact reference''))"

definition optional_ref_of :: "pyval \<Rightarrow> ArtifactRef option res" where
  "optional_ref_of v = (case v of
       PDict [] \<Rightarrow> Inr None
     | PDict d \<Rightarrow> rbind (ref_of_dict d) (\<lambda>r. Inr (Some r))
     | _ \<Rightarrow> Inl (ValueError ''repair evidence must be an artifact reference''))"

definition optional_entry :: "string \<Rightarrow> ('a \<Rightarrow> pyval) \<Rightarrow> 'a option \<Rightarrow> pydict" where
  "optional_entry k f v = (case v of None \<Rightarrow> [] | Some x \<Rightarrow> [(k, f x)])"

definition ref_dict :: "ArtifactRef \<Rightarrow> pydict" where
  "ref_dict r = [(''sha256'', PStr (rf_sha r))] @ optional_entry ''artifact_type'' PStr (rf_type r)
     @ optional_entry ''schema_version'' PStr (rf_schema r) @ optional_entry ''media_type'' PStr (rf_media r)
     @ optional_entry ''byte_size'' PInt (rf_size r) @ optional_entry ''durable'' PBool (rf_durable r)"

text \<open>\<open>_refs\<close>: one reference per digest, in the order of the digests.\<close>

fun collect_refs :: "ArtifactRef list \<Rightarrow> (string \<times> ArtifactRef) list \<Rightarrow> (string \<times> ArtifactRef) list res" where
  "collect_refs [] tbl = Inr tbl"
| "collect_refs (r # rs) tbl = (case map_of tbl (rf_sha r) of
       None \<Rightarrow> collect_refs rs (dict_put (rf_sha r) r tbl)
     | Some previous \<Rightarrow>
         if previous \<noteq> r then Inl (ValueError ''repair reference SHA is bound to changed metadata'')
         else collect_refs rs tbl)"

definition unique_refs :: "ArtifactRef list \<Rightarrow> ArtifactRef list res" where
  "unique_refs rs = rbind (collect_refs rs []) (\<lambda>tbl. Inr (map snd tbl))"

subsection \<open>Intents\<close>

record RepairIntent =
  ri_graph :: string
  ri_generation :: int
  ri_generation_hash :: string
  ri_source :: string
  ri_cycle :: string
  ri_aggregate :: string
  ri_assignment :: string
  ri_input :: string
  ri_product :: string
  ri_token :: int
  ri_candidate :: ArtifactRef
  ri_packet :: ArtifactRef
  ri_candidate_digest :: string
  ri_payload_hash :: string
  ri_providers :: "string list"
  ri_pending :: "ArtifactRef option"

definition required :: "string \<Rightarrow> string \<Rightarrow> unit res" where
  "required s name = raise_if (s = []) (ValueError (''repair '' @ name @ '' is required''))"

definition positive :: "int \<Rightarrow> string \<Rightarrow> unit res" where
  "positive i name = raise_if (i < 1) (ValueError (''repair '' @ name @ '' must be a positive integer''))"

text \<open>\<open>_strings\<close>: non-empty texts, sorted, without repetition.\<close>

definition sorted_names :: "string list \<Rightarrow> string list" where
  "sorted_names xs = sort (remdups xs)"

definition strings :: "string list \<Rightarrow> string \<Rightarrow> string list res" where
  "strings xs name =
     (if [] \<in> set xs then Inl (ValueError (''repair '' @ name @ '' must be a sequence of nonempty strings''))
      else Inr (sorted_names xs))"

definition make_intent :: "RepairIntent \<Rightarrow> RepairIntent res" where
  "make_intent i =
     rbind (first_error
       [required (ri_graph i) ''graph_id'', required (ri_generation_hash i) ''generation_hash'',
        required (ri_source i) ''source_node'', required (ri_cycle i) ''source_cycle_id'',
        required (ri_aggregate i) ''source_aggregate_id'', required (ri_assignment i) ''source_assignment_id'',
        required (ri_input i) ''source_input_fingerprint'', required (ri_product i) ''source_product_ref'',
        required (ri_candidate_digest i) ''candidate_digest'', required (ri_payload_hash i) ''submission_payload_hash'',
        positive (ri_generation i) ''generation'', positive (ri_token i) ''source_fencing_token'']) (\<lambda>_.
     rbind (strings (ri_providers i) ''provider_nodes'') (\<lambda>providers.
     if providers = [] then Inl (ValueError ''dependency repair intent requires validated providers'')
     else Inr (i\<lparr>ri_providers := providers\<rparr>)))"

definition intent_key :: "(pyval \<Rightarrow> string) \<Rightarrow> RepairIntent \<Rightarrow> string" where
  "intent_key h i = h (PList [PStr (ri_graph i), PInt (ri_generation i), PStr (ri_generation_hash i),
     PStr (ri_aggregate i), PStr (ri_cycle i), PStr (ri_assignment i), PStr (rf_sha (ri_packet i))])"

subsection \<open>Incarnations\<close>

record RepairIncarnation =
  rn_node :: string
  rn_cycle :: string
  rn_generation :: int
  rn_input :: string
  rn_slot :: string
  rn_aggregate :: string
  rn_effect :: string
  rn_effect_key :: string
  rn_assignment :: string
  rn_attempt :: string
  rn_lease :: string
  rn_owner :: string
  rn_token :: int
  rn_snapshot_lease :: string
  rn_snapshot_owner :: string
  rn_snapshot_token :: int

definition incarnation_post_init :: "RepairIncarnation \<Rightarrow> unit res" where
  "incarnation_post_init n = first_error
     [required (rn_node n) ''node_name'', required (rn_cycle n) ''cycle_id'', required (rn_input n) ''input_fingerprint'',
      required (rn_aggregate n) ''aggregate_id'', required (rn_effect n) ''effect_id'',
      required (rn_effect_key n) ''effect_key'', positive (rn_generation n) ''generation'',
      raise_if (rn_slot n \<notin> {''producer'', ''checker''}) (ValueError ''repair incarnation slot must be producer or checker''),
      raise_if (rn_token n < 0) (ValueError ''repair fencing_token must be a nonnegative integer''),
      raise_if ((rn_lease n \<noteq> []) \<noteq> (rn_owner n \<noteq> []) \<or> (rn_owner n \<noteq> []) \<noteq> (rn_token n \<noteq> 0))
        (ValueError ''repair lease identity must be complete or absent''),
      raise_if (rn_snapshot_token n < 0) (ValueError ''repair snapshot_fencing_token must be a nonnegative integer''),
      raise_if ((rn_snapshot_lease n \<noteq> []) \<noteq> (rn_snapshot_owner n \<noteq> [])
          \<or> (rn_snapshot_owner n \<noteq> []) \<noteq> (rn_snapshot_token n \<noteq> 0))
        (ValueError ''repair snapshot lease identity must be complete or absent''),
      raise_if (rn_attempt n \<noteq> [] \<and> rn_assignment n = []) (ValueError ''repair attempt requires its role assignment'')]"

definition incarnation_key :: "(pyval \<Rightarrow> string) \<Rightarrow> RepairIncarnation \<Rightarrow> string" where
  "incarnation_key h n = h (PList [PStr (rn_node n), PStr (rn_cycle n), PInt (rn_generation n), PStr (rn_input n),
     PStr (rn_slot n), PStr (rn_aggregate n), PStr (rn_effect n), PStr (rn_effect_key n)])"

definition incarnation_dict :: "RepairIncarnation \<Rightarrow> pydict" where
  "incarnation_dict n =
     [(''node_name'', PStr (rn_node n)), (''cycle_id'', PStr (rn_cycle n)), (''generation'', PInt (rn_generation n)),
      (''input_fingerprint'', PStr (rn_input n)), (''slot'', PStr (rn_slot n)), (''aggregate_id'', PStr (rn_aggregate n)),
      (''effect_id'', PStr (rn_effect n)), (''effect_key'', PStr (rn_effect_key n)),
      (''role_assignment_id'', PStr (rn_assignment n)), (''attempt_id'', PStr (rn_attempt n)),
      (''lease_resource'', PStr (rn_lease n)), (''lease_owner'', PStr (rn_owner n)), (''fencing_token'', PInt (rn_token n)),
      (''snapshot_lease_resource'', PStr (rn_snapshot_lease n)), (''snapshot_lease_owner'', PStr (rn_snapshot_owner n)),
      (''snapshot_fencing_token'', PInt (rn_snapshot_token n))]"

definition bind_incarnation :: "(pyval \<Rightarrow> string) \<Rightarrow> RepairIncarnation \<Rightarrow> RepairIncarnation \<Rightarrow> RepairIncarnation res" where
  "bind_incarnation h old newer =
     (if incarnation_key h old \<noteq> incarnation_key h newer then
        Inl (ValueError ''repair frontier cannot admit a replacement incarnation'')
      else if list_ex (\<lambda>((k, a), (_, b)). truthy a \<and> a \<noteq> b) (zip (incarnation_dict old) (incarnation_dict newer)) then
        Inl (ValueError ''repair incarnation ownership changed after admission'')
      else Inr newer)"

subsection \<open>Closures\<close>

record RepairClosure =
  cl_incarnation :: RepairIncarnation
  cl_task_closed :: bool
  cl_process_reaped :: bool
  cl_workspace_released :: bool
  cl_lease_released :: bool
  cl_submission_cut :: bool
  cl_refs :: "ArtifactRef list"

definition make_closure :: "RepairClosure \<Rightarrow> RepairClosure res" where
  "make_closure c =
     rbind (first_error
       [raise_if (\<not> cl_task_closed c) (ValueError ''repair closure requires task_closed''),
        raise_if (\<not> cl_process_reaped c) (ValueError ''repair closure requires process_reaped''),
        raise_if (\<not> cl_workspace_released c) (ValueError ''repair closure requires workspace_released''),
        raise_if (\<not> cl_lease_released c) (ValueError ''repair closure requires lease_released''),
        raise_if (\<not> cl_submission_cut c) (ValueError ''repair closure requires submission_cut'')]) (\<lambda>_.
     rbind (unique_refs (cl_refs c)) (\<lambda>refs. Inr (c\<lparr>cl_refs := refs\<rparr>)))"

subsection \<open>Cohorts\<close>

record DependencyRepairCohort =
  co_intents :: "(string \<times> RepairIntent) list"
  co_scope :: "string list"
  co_frontier :: "(string \<times> RepairIncarnation) list"
  co_captures :: "(string \<times> ArtifactRef list) list"
  co_closures :: "(string \<times> RepairClosure) list"
  co_status :: string
  co_reason :: string

definition intent_identity :: "RepairIntent \<Rightarrow> string \<times> int \<times> string" where
  "intent_identity i = (ri_graph i, ri_generation i, ri_generation_hash i)"

definition make_cohort :: "(pyval \<Rightarrow> string) \<Rightarrow> DependencyRepairCohort \<Rightarrow> DependencyRepairCohort res" where
  "make_cohort h c =
     (if co_intents c = [] \<or> list_ex (\<lambda>(k, i). k \<noteq> intent_key h i) (co_intents c) then
        Inl (ValueError ''repair cohort has invalid intent identities'')
      else if length (remdups (map (intent_identity \<circ> snd) (co_intents c))) \<noteq> 1 then
        Inl (ValueError ''repair cohort cannot cross graph generations'')
      else
        rbind (strings (co_scope c) ''scope'') (\<lambda>scope.
        let generation = ri_generation (snd (hd (co_intents c))) in
        if list_ex (\<lambda>(_, i). ri_source i \<notin> set scope \<or> \<not> set (ri_providers i) \<subseteq> set scope) (co_intents c) then
          Inl (ValueError ''repair cohort scope excludes an intent participant'')
        else if list_ex (\<lambda>(k, n). k \<noteq> incarnation_key h n \<or> rn_node n \<notin> set scope) (co_frontier c) then
          Inl (ValueError ''repair cohort frontier has invalid incarnation identities'')
        else if list_ex (\<lambda>(_, n). rn_generation n \<noteq> generation) (co_frontier c) then
          Inl (ValueError ''repair frontier cannot cross graph generations'')
        else if length (remdups (map (rn_node \<circ> snd) (co_frontier c))) \<noteq> length (co_frontier c) then
          Inl (ValueError ''repair cohort cannot freeze multiple incarnations of one node'')
        else if \<not> (keys (co_captures c) \<subseteq> keys (co_frontier c) \<and> keys (co_closures c) \<subseteq> keys (co_frontier c)) then
          Inl (ValueError ''repair evidence refers to an unadmitted incarnation'')
        else
          rbind (map_res (\<lambda>(k, refs). rbind (unique_refs refs) (\<lambda>rs. Inr (k, rs))) (co_captures c)) (\<lambda>captures.
          rbind (first_error (map (\<lambda>(k, closure).
              if map_of (co_frontier c) k \<noteq> Some (cl_incarnation closure) then
                Inl (ValueError ''repair closure does not match frozen ownership'')
              else raise_if (map_of captures k \<noteq> Some (cl_refs closure))
                (ValueError ''repair closure must capture the complete final receipt set''))
            (co_closures c))) (\<lambda>_.
          if co_status c \<notin> {''pending'', ''applied'', ''superseded''} then Inl (ValueError ''unknown repair cohort status'')
          else if (co_reason c \<noteq> []) \<noteq> (co_status c = ''superseded'') then
            Inl (ValueError ''superseded repair cohort requires a reason'')
          else if co_status c = ''applied'' \<and> keys (co_closures c) \<noteq> keys (co_frontier c) then
            Inl (ValueError ''applied repair cohort has an unclosed frontier'')
          else Inr (c\<lparr>co_scope := scope, co_captures := captures\<rparr>)))))"

definition cohort_key :: "(pyval \<Rightarrow> string) \<Rightarrow> DependencyRepairCohort \<Rightarrow> string" where
  "cohort_key h c = h (PList (map PStr (sort (map fst (co_intents c)))))"

definition cohort_providers :: "DependencyRepairCohort \<Rightarrow> string list" where
  "cohort_providers c = sorted_names (concat (map (ri_providers \<circ> snd) (co_intents c)))"

definition cohort_ready :: "DependencyRepairCohort \<Rightarrow> bool" where
  "cohort_ready c \<longleftrightarrow> co_status c = ''pending'' \<and> keys (co_closures c) = keys (co_frontier c)"

text \<open>\<open>by_node\<close>: the key of the incarnation of each node of the frontier.\<close>

definition key_by_node :: "(string \<times> RepairIncarnation) list \<Rightarrow> (string \<times> string) list" where
  "key_by_node frontier = map (\<lambda>(k, n). (rn_node n, k)) frontier"

fun add_frontier ::
  "(pyval \<Rightarrow> string) \<Rightarrow> (string \<times> RepairClosure) list \<Rightarrow> RepairIncarnation list \<Rightarrow> (string \<times> RepairIncarnation) list
     \<Rightarrow> (string \<times> RepairIncarnation) list res" where
  "add_frontier h closures [] tbl = Inr tbl"
| "add_frontier h closures (n # ns) tbl =
     (let k = incarnation_key h n in
      if (case map_of (key_by_node tbl) (rn_node n) of None \<Rightarrow> False | Some k' \<Rightarrow> k' \<noteq> k) then
        Inl (ValueError ''repair admission fence forbids a replacement incarnation'')
      else
        rbind (case map_of tbl k of
            None \<Rightarrow> Inr ()
          | Some old \<Rightarrow> rbind (bind_incarnation h old n) (\<lambda>_.
              raise_if (k \<in> keys closures \<and> n \<noteq> old)
                (ValueError ''a closed repair incarnation cannot acquire ownership''))) (\<lambda>_.
        add_frontier h closures ns (dict_put k n tbl)))"

definition with_frontier ::
  "(pyval \<Rightarrow> string) \<Rightarrow> DependencyRepairCohort \<Rightarrow> RepairIncarnation list \<Rightarrow> DependencyRepairCohort res" where
  "with_frontier h c frontier =
     (if co_status c \<noteq> ''pending'' then Inl (ValueError ''a sealed repair cohort cannot change its frontier'')
      else rbind (add_frontier h (co_closures c) frontier (co_frontier c)) (\<lambda>tbl. make_cohort h (c\<lparr>co_frontier := tbl\<rparr>)))"

definition captured :: "DependencyRepairCohort \<Rightarrow> string \<Rightarrow> ArtifactRef list" where
  "captured c k = (case map_of (co_captures c) k of None \<Rightarrow> [] | Some refs \<Rightarrow> refs)"

definition capture ::
  "(pyval \<Rightarrow> string) \<Rightarrow> DependencyRepairCohort \<Rightarrow> string \<Rightarrow> ArtifactRef list \<Rightarrow> DependencyRepairCohort res" where
  "capture h c k receipt_refs =
     (if co_status c \<noteq> ''pending'' \<or> k \<notin> keys (co_frontier c) then
        Inl (ValueError ''capture requires a pending frozen incarnation'')
      else
        rbind (unique_refs (captured c k @ receipt_refs)) (\<lambda>refs.
        if k \<in> keys (co_closures c) \<and> refs \<noteq> captured c k then
          Inl (ValueError ''submission cut forbids another receipt after closure'')
        else make_cohort h (c\<lparr>co_captures := dict_put k refs (co_captures c)\<rparr>)))"

definition close_cohort ::
  "(pyval \<Rightarrow> string) \<Rightarrow> DependencyRepairCohort \<Rightarrow> RepairClosure \<Rightarrow> DependencyRepairCohort res" where
  "close_cohort h c cert =
     (let k = incarnation_key h (cl_incarnation cert) in
      if co_status c \<noteq> ''pending'' \<or> map_of (co_frontier c) k \<noteq> Some (cl_incarnation cert) then
        Inl (ValueError ''repair closure does not match the exact frozen incarnation'')
      else
        rbind (capture h c k (cl_refs cert)) (\<lambda>result.
        if captured result k \<noteq> cl_refs cert then Inl (ValueError ''repair closure omitted a captured submission'')
        else if (case map_of (co_closures c) k of None \<Rightarrow> False | Some old \<Rightarrow> old \<noteq> cert) then
          Inl (ValueError ''repair closure replay changed its proof'')
        else make_cohort h (result\<lparr>co_closures := dict_put k cert (co_closures result)\<rparr>)))"

subsection \<open>The ledger\<close>

record DependencyRepairLedger =
  lg_pending :: "DependencyRepairCohort option"
  lg_history :: "DependencyRepairCohort list"

definition empty_ledger :: DependencyRepairLedger where
  "empty_ledger = \<lparr>lg_pending = None, lg_history = []\<rparr>"

definition cohorts :: "DependencyRepairLedger \<Rightarrow> DependencyRepairCohort list" where
  "cohorts l = lg_history l @ (case lg_pending l of None \<Rightarrow> [] | Some c \<Rightarrow> [c])"

definition ledger_post_init :: "DependencyRepairLedger \<Rightarrow> unit res" where
  "ledger_post_init l =
     (if (case lg_pending l of None \<Rightarrow> False | Some c \<Rightarrow> co_status c \<noteq> ''pending'') then
        Inl (ValueError ''repair pending cohort must be unsealed'')
      else if list_ex (\<lambda>c. co_status c = ''pending'') (lg_history l) then
        Inl (ValueError ''repair history cannot contain pending cohorts'')
      else raise_if (\<not> distinct (concat (map (map fst \<circ> co_intents) (cohorts l))))
        (ValueError ''repair intent belongs to more than one cohort''))"

definition make_ledger :: "DependencyRepairLedger \<Rightarrow> DependencyRepairLedger res" where
  "make_ledger l = rbind (ledger_post_init l) (\<lambda>_. Inr l)"

definition fenced_nodes :: "DependencyRepairLedger \<Rightarrow> string list" where
  "fenced_nodes l = (case lg_pending l of None \<Rightarrow> [] | Some c \<Rightarrow> co_scope c)"

fun find_in_cohorts :: "string \<Rightarrow> DependencyRepairCohort list \<Rightarrow> RepairIntent option" where
  "find_in_cohorts k [] = None"
| "find_in_cohorts k (c # cs) = (case map_of (co_intents c) k of None \<Rightarrow> find_in_cohorts k cs | Some i \<Rightarrow> Some i)"

definition find_intent :: "DependencyRepairLedger \<Rightarrow> string \<Rightarrow> RepairIntent option" where
  "find_intent l k = find_in_cohorts k (cohorts l)"

definition archive ::
  "(pyval \<Rightarrow> string) \<Rightarrow> DependencyRepairLedger \<Rightarrow> string \<Rightarrow> string \<Rightarrow> DependencyRepairLedger res" where
  "archive h l status reason = (case lg_pending l of
       None \<Rightarrow> Inr l
     | Some c \<Rightarrow>
         if status \<notin> {''applied'', ''superseded''} then Inl (ValueError ''repair archive requires a terminal status'')
         else rbind (make_cohort h (c\<lparr>co_status := status, co_reason := reason\<rparr>)) (\<lambda>sealed.
           make_ledger \<lparr>lg_pending = None, lg_history = lg_history l @ [sealed]\<rparr>))"

text \<open>What a stored ledger requires of the one that replaces it.\<close>

definition refs_lost :: "ArtifactRef list \<Rightarrow> ArtifactRef list \<Rightarrow> bool" where
  "refs_lost old new \<longleftrightarrow> list_ex (\<lambda>r. map_of (map (\<lambda>r. (rf_sha r, r)) (rev new)) (rf_sha r) \<noteq> Some r) old"

definition assert_pending_successor ::
  "(pyval \<Rightarrow> string) \<Rightarrow> DependencyRepairCohort \<Rightarrow> DependencyRepairCohort \<Rightarrow> unit res" where
  "assert_pending_successor h old new =
     (if \<not> set (co_scope old) \<subseteq> set (co_scope new) then
        Inl (ValueError ''stale graph execution would shrink repair scope'')
      else
        rbind (first_error (map (\<lambda>(k, i). raise_if (map_of (co_intents new) k \<noteq> Some i)
            (ValueError ''stale graph execution would change repair intent identity'')) (co_intents old))) (\<lambda>_.
        rbind (first_error (map (\<lambda>(k, n). case map_of (co_frontier new) k of
              None \<Rightarrow> Inl (ValueError ''stale graph execution would discard frozen ownership'')
            | Some n' \<Rightarrow> rbind (bind_incarnation h n n') (\<lambda>_. Inr ())) (co_frontier old))) (\<lambda>_.
        rbind (first_error (map (\<lambda>(k, refs). raise_if (refs_lost refs (captured new k))
            (ValueError ''stale graph execution would discard captured receipts'')) (co_captures old))) (\<lambda>_.
        raise_if (list_ex (\<lambda>(k, closure). map_of (co_closures new) k \<noteq> Some closure) (co_closures old))
          (ValueError ''stale graph execution would discard matched closure proof'')))))"

definition assert_successor ::
  "(pyval \<Rightarrow> string) \<Rightarrow> DependencyRepairLedger \<Rightarrow> DependencyRepairLedger \<Rightarrow> unit res" where
  "assert_successor h old new =
     (if take (length (lg_history old)) (lg_history new) \<noteq> lg_history old then
        Inl (ValueError ''stale graph execution would discard sealed repair evidence'')
      else case lg_pending old of
        None \<Rightarrow> Inr ()
      | Some c \<Rightarrow>
          (case filter (\<lambda>c'. keys (co_intents c) \<subseteq> keys (co_intents c'))
              (drop (length (lg_history old)) (lg_history new) @ (case lg_pending new of None \<Rightarrow> [] | Some c' \<Rightarrow> [c'])) of
             [c'] \<Rightarrow> assert_pending_successor h c c'
           | _ \<Rightarrow> Inl (ValueError ''stale graph execution would discard pending repair fences'')))"

end
