(* ===== verification/Graph_Executor.thy ===== *)
theory Graph_Executor
  imports Cycle_Protocol Graph_Protocol Dependency_Repair
begin

section \<open>Executing a graph\<close>

text \<open>
  \<open>bunshin/graph_executor.py\<close>: the execution of one graph generation keeps one node cycle per module, the
  barriers that repairs put in front of their consumers, and the ledger of dependency repairs. It says which
  nodes are runnable, routes findings, invalidates consumers and publishes the product of the sink. Every
  \<open>dataclasses.replace\<close> runs the validation of the constructor again: \<open>make_execution\<close>.
\<close>

subsection \<open>Data\<close>

datatype GraphExecutionState = G_RUNNING | G_REPLAN_REQUIRED | G_COMPLETED | G_CANCELLED

fun execution_state_value :: "GraphExecutionState \<Rightarrow> string" where
  "execution_state_value G_RUNNING = ''RUNNING''"
| "execution_state_value G_REPLAN_REQUIRED = ''REPLAN_REQUIRED''"
| "execution_state_value G_COMPLETED = ''COMPLETED''"
| "execution_state_value G_CANCELLED = ''CANCELLED''"

datatype FindingClass =
    MODULE_DEFECT | VERIFICATION_DEFECT | DEPENDENCY_DEFECT | CONTRACT_DEFECT | ARCHITECTURE_DEFECT
  | REQUIREMENTS_DEFECT | SINK_DEFECT

datatype RouteTarget = NODE_PRODUCER | NODE_CHECKER | PLAN_CYCLE

record FindingRoute =
  fr_target :: RouteTarget
  fr_node :: string
  fr_kind :: AssignmentKind
  fr_stale :: "string list"
  fr_nodes :: "string list"

record GraphExecution =
  ge_graph :: GraphIR
  ge_state :: GraphExecutionState
  ge_cycles :: "(string \<times> NodeCycle) list"
  ge_published :: string
  ge_barriers :: "(string \<times> string list) list"
  ge_repairs :: DependencyRepairLedger

definition pending_scope :: "GraphExecution \<Rightarrow> string list" where
  "pending_scope e = fenced_nodes (ge_repairs e)"

definition cycle_at :: "GraphExecution \<Rightarrow> string \<Rightarrow> NodeCycle res" where
  "cycle_at e n = (case map_of (ge_cycles e) n of None \<Rightarrow> Inl (KeyError n) | Some c \<Rightarrow> Inr c)"

definition accepted_in :: "(string \<times> NodeCycle) list \<Rightarrow> string \<Rightarrow> bool" where
  "accepted_in cycles n = (case map_of cycles n of None \<Rightarrow> False | Some c \<Rightarrow> cy_state c = ACCEPTED)"

definition barrier_of :: "GraphExecution \<Rightarrow> string \<Rightarrow> string list" where
  "barrier_of e n = (case map_of (ge_barriers e) n of None \<Rightarrow> [] | Some ps \<Rightarrow> ps)"

text \<open>The constructor of a fresh cycle.\<close>

definition new_node_cycle :: "string \<Rightarrow> string \<Rightarrow> int \<Rightarrow> cycle_state \<Rightarrow> string \<Rightarrow> NodeCycle res" where
  "new_node_cycle i n generation s accepted =
     Cycle_Protocol.replace node_post_init
       \<lparr>cycle_id = i, cy_generation = generation, cy_state = s, cy_assignment = None, cy_product = [],
        cy_accepted_product = accepted, cy_verdict = None, cy_resume = None, node_name = n\<rparr>"

subsection \<open>Validation\<close>

definition dependency_consumers :: "GraphIR \<Rightarrow> string \<Rightarrow> string \<Rightarrow> string list" where
  "dependency_consumers g current provider =
     sorted_names (filter (\<lambda>n. n \<noteq> provider)
       (current # repair_descendants g current @ repair_descendants g provider))"

definition software_producer :: "GraphIR \<Rightarrow> string \<Rightarrow> bool" where
  "software_producer g n = (case map_of (gr_nodes g) n of
     None \<Rightarrow> False | Some s \<Rightarrow> rb_participant (ns_producer s) = ''profile'' \<and> ns_adapter s = software_adapter)"

definition intent_belongs :: "(pyval \<Rightarrow> string) \<Rightarrow> GraphIR \<Rightarrow> RepairIntent \<Rightarrow> bool" where
  "intent_belongs h g i \<longleftrightarrow> intent_identity i = (gr_id g, gr_generation g, generation_hash h g)"

definition eligible_providers :: "GraphIR \<Rightarrow> RepairIntent \<Rightarrow> bool" where
  "eligible_providers g i \<longleftrightarrow>
     (\<forall>n \<in> set (ri_providers i). n \<in> set (checker_predecessors g (ri_source i)) \<and> software_producer g n)"

definition intent_scope :: "GraphIR \<Rightarrow> RepairIntent \<Rightarrow> string list" where
  "intent_scope g i = concat (map (\<lambda>p. p # dependency_consumers g (ri_source i) p) (ri_providers i))"

definition at_node :: "DependencyRepairCohort \<Rightarrow> string \<Rightarrow> RepairIncarnation list" where
  "at_node c n = filter (\<lambda>i. rn_node i = n) (map snd (co_frontier c))"

definition receipt_matches :: "RepairIntent \<Rightarrow> RepairIncarnation \<Rightarrow> bool" where
  "receipt_matches i n \<longleftrightarrow> rn_cycle n = ri_cycle i \<and> rn_aggregate n = ri_aggregate i
     \<and> rn_assignment n = ri_assignment i \<and> rn_input n = ri_input i \<and> rn_token n = ri_token i
     \<and> rn_slot n = slot_value CHECKER"

definition check_intent :: "(pyval \<Rightarrow> string) \<Rightarrow> GraphIR \<Rightarrow> DependencyRepairCohort \<Rightarrow> RepairIntent \<Rightarrow> unit res" where
  "check_intent h g c i =
     (if \<not> intent_belongs h g i then Inl (ValueError ''dependency repair belongs to another graph generation'')
      else if \<not> eligible_providers g i then Inl (ValueError ''stored dependency repair has an ineligible provider'')
      else raise_if (case at_node c (ri_source i) of [] \<Rightarrow> True | ns \<Rightarrow> \<not> receipt_matches i (last ns))
        (ValueError ''stored repair source does not match its frozen receipt''))"

definition check_cohort :: "(pyval \<Rightarrow> string) \<Rightarrow> GraphIR \<Rightarrow> DependencyRepairCohort \<Rightarrow> unit res" where
  "check_cohort h g c =
     (if \<not> set (co_scope c) \<subseteq> set (node_names g) then
        Inl (ValueError ''dependency repair scope contains unknown graph nodes'')
      else
        rbind (first_error (map (check_intent h g c \<circ> snd) (co_intents c))) (\<lambda>_.
        raise_if (set (co_scope c) \<noteq> set (concat (map (intent_scope g \<circ> snd) (co_intents c))))
          (ValueError ''stored dependency repair scope omits its actual closure'')))"

definition make_execution :: "(pyval \<Rightarrow> string) \<Rightarrow> GraphExecution \<Rightarrow> GraphExecution res" where
  "make_execution h e =
     (let names = set (node_names (ge_graph e)) in
      if keys (ge_cycles e) \<noteq> names then Inl (ValueError ''GraphExecution cycles must exactly match GraphIR nodes'')
      else if \<not> keys (ge_barriers e) \<subseteq> names then Inl (ValueError ''repair barriers contain an unknown consumer'')
      else if \<not> (\<forall>(_, ps) \<in> set (ge_barriers e). set ps \<subseteq> names) then
        Inl (ValueError ''repair barriers contain an unknown provider'')
      else
        rbind (first_error (map (check_cohort h (ge_graph e)) (cohorts (ge_repairs e)))) (\<lambda>_.
        case lg_pending (ge_repairs e) of
          None \<Rightarrow> Inr e
        | Some _ \<Rightarrow>
            if ge_state e \<in> {G_CANCELLED, G_REPLAN_REQUIRED} then
              rbind (archive h (ge_repairs e) ''superseded'' (execution_state_value (ge_state e))) (\<lambda>l.
              Inr (e\<lparr>ge_repairs := l\<rparr>))
            else if ge_state e = G_COMPLETED \<or> ge_published e \<noteq> [] then
              Inl (ValueError ''pending dependency repair forbids terminal publication'')
            else Inr e))"

subsection \<open>Starting and running\<close>

definition start_cycle :: "GraphIR \<Rightarrow> string \<Rightarrow> (string \<times> NodeCycle) res" where
  "start_cycle g n =
     rbind (new_node_cycle (gr_id g @ '':g'' @ int_str (gr_generation g) @ '':'' @ n) n (gr_generation g)
       (if producer_predecessors g n = [] then PRODUCER_READY else BLOCKED) []) (\<lambda>c. Inr (n, c))"

definition start_execution :: "(pyval \<Rightarrow> string) \<Rightarrow> GraphIR \<Rightarrow> GraphExecution res" where
  "start_execution h g =
     rbind (map_res (start_cycle g) (node_names g)) (\<lambda>cycles.
     make_execution h \<lparr>ge_graph = g, ge_state = G_RUNNING, ge_cycles = dict_of cycles, ge_published = [],
       ge_barriers = [], ge_repairs = empty_ledger\<rparr>)"

definition predecessors_of :: "GraphIR \<Rightarrow> string \<Rightarrow> cycle_state \<Rightarrow> string list" where
  "predecessors_of g n s = (if s = CHECKER_READY then checker_predecessors g n else producer_predecessors g n)"

definition runnable :: "GraphExecution \<Rightarrow> string \<Rightarrow> NodeCycle \<Rightarrow> bool" where
  "runnable e n c \<longleftrightarrow> n \<notin> set (pending_scope e) \<and> cy_state c \<in> {PRODUCER_READY, REPAIR_READY, CHECKER_READY}
     \<and> (\<forall>p \<in> set (predecessors_of (ge_graph e) n (cy_state c)). accepted_in (ge_cycles e) p)
     \<and> (\<forall>p \<in> set (barrier_of e n). accepted_in (ge_cycles e) p)"

definition runnable_nodes :: "GraphExecution \<Rightarrow> string list" where
  "runnable_nodes e =
     (if ge_state e \<noteq> G_RUNNING then []
      else sort (map fst (filter (\<lambda>(n, c). runnable e n c) (ge_cycles e))))"

text \<open>One pass over the waiting cycles, on the cycles as they were at its start; and the loop around it.\<close>

definition ready_again :: "GraphExecution \<Rightarrow> (string \<times> NodeCycle) list \<Rightarrow> string \<Rightarrow> NodeCycle \<Rightarrow> bool" where
  "ready_again e cycles n c \<longleftrightarrow> n \<notin> set (pending_scope e) \<and> cy_state c \<in> {BLOCKED, STALE}
     \<and> (\<forall>p \<in> set (producer_predecessors (ge_graph e) n). accepted_in cycles p)
     \<and> (\<forall>p \<in> set (barrier_of e n). accepted_in cycles p)"

fun refresh_pass ::
  "GraphExecution \<Rightarrow> (string \<times> NodeCycle) list \<Rightarrow> (string \<times> NodeCycle) list \<Rightarrow> bool \<Rightarrow> ((string \<times> NodeCycle) list \<times> bool) res" where
  "refresh_pass e [] cycles changed = Inr (cycles, changed)"
| "refresh_pass e ((n, c) # rest) cycles changed =
     (if ready_again e cycles n c then
        rbind (Cycle_Protocol.replace node_post_init (c\<lparr>cy_state := PRODUCER_READY\<rparr>)) (\<lambda>c'.
        refresh_pass e rest (dict_put n c' cycles) True)
      else refresh_pass e rest cycles changed)"

fun refresh_loop :: "nat \<Rightarrow> GraphExecution \<Rightarrow> (string \<times> NodeCycle) list \<Rightarrow> (string \<times> NodeCycle) list res option" where
  "refresh_loop 0 e cycles = None"
| "refresh_loop (Suc fuel) e cycles = (case refresh_pass e cycles cycles False of
       Inl err \<Rightarrow> Some (Inl err)
     | Inr (cycles', changed) \<Rightarrow> if changed then refresh_loop fuel e cycles' else Some (Inr cycles'))"

definition open_barriers :: "(string \<times> NodeCycle) list \<Rightarrow> (string \<times> string list) list \<Rightarrow> (string \<times> string list) list" where
  "open_barriers cycles barriers = filter (\<lambda>(n, ps). \<not> (\<forall>p \<in> set ps. accepted_in cycles p)) barriers"

definition refresh_readiness_and_terminal :: "(pyval \<Rightarrow> string) \<Rightarrow> GraphExecution \<Rightarrow> GraphExecution res" where
  "refresh_readiness_and_terminal h e =
     (if ge_state e \<notin> {G_RUNNING, G_COMPLETED} then Inr e
      else
        rbind (case refresh_loop 2 e (ge_cycles e) of None \<Rightarrow> Inl (RuntimeError ''refresh loop'') | Some r \<Rightarrow> r) (\<lambda>cycles.
        let barriers = open_barriers cycles (ge_barriers e) in
        rbind (cycle_at (e\<lparr>ge_cycles := cycles\<rparr>) (gr_sink (ge_graph e))) (\<lambda>sink.
        if cy_state sink = ACCEPTED \<and> lg_pending (ge_repairs e) = None then
          if list_ex (\<lambda>(_, c). cy_state c \<noteq> ACCEPTED) cycles then
            Inl (ValueError ''sink accepted before all executable predecessors closed'')
          else make_execution h (e\<lparr>ge_cycles := cycles, ge_barriers := barriers, ge_state := G_COMPLETED,
            ge_published := cy_accepted_product sink\<rparr>)
        else make_execution h (e\<lparr>ge_cycles := cycles, ge_barriers := barriers\<rparr>))))"

definition refresh :: "(pyval \<Rightarrow> string) \<Rightarrow> GraphExecution \<Rightarrow> GraphExecution res" where
  "refresh h e = refresh_readiness_and_terminal h e"

definition with_cycle :: "(pyval \<Rightarrow> string) \<Rightarrow> GraphExecution \<Rightarrow> NodeCycle \<Rightarrow> GraphExecution res" where
  "with_cycle h e c = (case map_of (ge_cycles e) (node_name c) of
       None \<Rightarrow> Inl (ValueError (''unknown graph node: '' @ node_name c))
     | Some previous \<Rightarrow>
         if node_name c \<in> set (pending_scope e) \<and> c \<noteq> previous
             \<and> (cy_state c \<in> {ACCEPTED, CHECKER_READY, REPAIR_READY, PRODUCER_READY}
                \<or> (cy_assignment c \<noteq> None \<and> cy_assignment c \<noteq> cy_assignment previous)) then
           Inl (ValueError ''pending dependency repair fences this graph admission or verdict'')
         else
           rbind (make_execution h (e\<lparr>ge_cycles := dict_put (node_name c) c (ge_cycles e)\<rparr>))
             (refresh_readiness_and_terminal h))"

subsection \<open>Routing findings\<close>

definition unique_first :: "'a list \<Rightarrow> 'a list" where
  "unique_first xs = rev (remdups (rev xs))"

definition route_to :: "RouteTarget \<Rightarrow> string \<Rightarrow> AssignmentKind \<Rightarrow> FindingRoute" where
  "route_to target n kind = \<lparr>fr_target = target, fr_node = n, fr_kind = kind, fr_stale = [], fr_nodes = []\<rparr>"

definition route_finding ::
  "GraphExecution \<Rightarrow> FindingClass \<Rightarrow> string \<Rightarrow> string \<Rightarrow> string list \<Rightarrow> FindingRoute res" where
  "route_finding e finding current dependency dependencies =
     (let g = ge_graph e in
      if current \<notin> set (node_names g) then Inl (ValueError (''unknown current node: '' @ current))
      else case finding of
        MODULE_DEFECT \<Rightarrow> Inr (route_to NODE_PRODUCER current REPAIR_KIND)
      | VERIFICATION_DEFECT \<Rightarrow> Inr (route_to NODE_CHECKER current RECHECK)
      | DEPENDENCY_DEFECT \<Rightarrow>
          (let providers = unique_first ((if dependency \<noteq> [] then [dependency] else []) @ dependencies) in
           if providers = [] \<or> \<not> set providers \<subseteq> set (checker_predecessors g current) then
             Inl (ValueError ''dependency defect must name a checker execution provider'')
           else
             let stale = sorted_names (filter (\<lambda>n. n \<notin> set providers)
               (concat (map (dependency_consumers g current) providers))) in
             Inr \<lparr>fr_target = NODE_PRODUCER, fr_node = hd providers, fr_kind = REPAIR_KIND, fr_stale = stale,
                  fr_nodes = providers\<rparr>)
      | SINK_DEFECT \<Rightarrow>
          if current \<noteq> gr_sink g then
            Inl (ValueError ''sink defects may only be reported by the declared sink checker'')
          else Inr (route_to NODE_PRODUCER (gr_sink g) REPAIR_KIND)
      | _ \<Rightarrow> Inr ((route_to PLAN_CYCLE [] REVISION_KIND)\<lparr>fr_stale := sort (node_names g)\<rparr>))"

subsection \<open>Invalidation and repair\<close>

definition stale_cycle :: "bool \<Rightarrow> string \<Rightarrow> string \<Rightarrow> NodeCycle \<Rightarrow> NodeCycle res" where
  "stale_cycle allow_active preserve n c =
     (if cy_state c = ACCEPTED then transition_node c MARK_STALE None [] None
      else if cy_state c \<in> {PRODUCER_READY, REPAIR_READY, CHECKER_READY, BLOCKED, STALE} then
        Cycle_Protocol.replace node_post_init (c\<lparr>cy_state := STALE, cy_assignment := None,
          cy_verdict := (if n = preserve then cy_verdict c else None)\<rparr>)
      else if allow_active \<and> (is_running c \<or> cy_assignment c \<noteq> None) then Inr c
      else Inl (ValueError (''cannot stale active node cycle '' @ n @ '' from '' @ cycle_state_value (cy_state c)
        @ ''; quiesce its process incarnation first'')))"

fun stale_cycles :: "bool \<Rightarrow> string \<Rightarrow> string list \<Rightarrow> (string \<times> NodeCycle) list \<Rightarrow> (string \<times> NodeCycle) list res" where
  "stale_cycles allow_active preserve [] cycles = Inr cycles"
| "stale_cycles allow_active preserve (n # ns) cycles = (case map_of cycles n of
       None \<Rightarrow> stale_cycles allow_active preserve ns cycles
     | Some c \<Rightarrow> rbind (stale_cycle allow_active preserve n c) (\<lambda>c'.
         stale_cycles allow_active preserve ns (dict_put n c' cycles)))"

definition mark_nodes_stale ::
  "(pyval \<Rightarrow> string) \<Rightarrow> GraphExecution \<Rightarrow> string list \<Rightarrow> bool \<Rightarrow> string \<Rightarrow> GraphExecution res" where
  "mark_nodes_stale h e names allow_active preserve =
     rbind (stale_cycles allow_active preserve names (ge_cycles e)) (\<lambda>cycles. make_execution h (e\<lparr>ge_cycles := cycles\<rparr>))"

definition repair_ready :: "NodeCycle \<Rightarrow> NodeCycle res" where
  "repair_ready c =
     rbind (if cy_state c = ACCEPTED then transition_node c MARK_STALE None [] None else Inr c) (\<lambda>c1.
     rbind (if cy_state c1 = STALE then transition_node c1 UNBLOCK None [] None else Inr c1) (\<lambda>c2.
     if cy_state c2 = PRODUCER_READY then Cycle_Protocol.replace node_post_init (c2\<lparr>cy_state := REPAIR_READY\<rparr>)
     else if cy_state c2 = REPAIR_READY then Inr c2
     else Inl (ValueError (''repair target must be quiescent, got '' @ cycle_state_value (cy_state c2)))))"

fun repair_targets :: "string \<Rightarrow> string list \<Rightarrow> (string \<times> NodeCycle) list \<Rightarrow> (string \<times> NodeCycle) list res" where
  "repair_targets current [] cycles = Inr cycles"
| "repair_targets current (n # ns) cycles =
     (if n = current then repair_targets current ns cycles
      else case map_of cycles n of
        None \<Rightarrow> Inl (KeyError n)
      | Some c \<Rightarrow> rbind (repair_ready c) (\<lambda>c'. repair_targets current ns (dict_put n c' cycles)))"

definition add_barrier :: "string \<Rightarrow> string \<Rightarrow> (string \<times> string list) list \<Rightarrow> (string \<times> string list) list" where
  "add_barrier provider consumer barriers =
     dict_put consumer (sorted_names (provider # (case map_of barriers consumer of None \<Rightarrow> [] | Some ps \<Rightarrow> ps))) barriers"

text \<open>The barriers of a dependency finding: the stale consumers of a provider wait for it.\<close>

definition finding_barriers :: "GraphIR \<Rightarrow> string \<Rightarrow> FindingRoute \<Rightarrow> (string \<times> string list) list \<Rightarrow> (string \<times> string list) list" where
  "finding_barriers g current route barriers =
     fold (\<lambda>provider. fold (add_barrier provider)
         (filter (\<lambda>n. n \<in> set (fr_stale route)) (dependency_consumers g current provider)))
       (fr_nodes route) barriers"

definition check_targets :: "GraphExecution \<Rightarrow> string list \<Rightarrow> unit res" where
  "check_targets e names = first_error (map (\<lambda>n. rbind (cycle_at e n) (\<lambda>c.
     raise_if (cy_state c \<notin> {ACCEPTED, STALE, PRODUCER_READY, REPAIR_READY})
       (ValueError (''repair target must be quiescent, got '' @ cycle_state_value (cy_state c))))) names)"

definition repair_route ::
  "(pyval \<Rightarrow> string) \<Rightarrow> GraphExecution \<Rightarrow> string \<Rightarrow> FindingClass \<Rightarrow> FindingRoute \<Rightarrow> GraphExecution res" where
  "repair_route h e current finding route =
     rbind (repair_targets current (if fr_nodes route \<noteq> [] then fr_nodes route else [fr_node route]) (ge_cycles e)) (\<lambda>cycles.
     rbind (make_execution h (e\<lparr>ge_cycles := cycles\<rparr>)) (\<lambda>e1.
     rbind (if finding = DEPENDENCY_DEFECT then
         make_execution h (e1\<lparr>ge_barriers := finding_barriers (ge_graph e) current route (ge_barriers e1)\<rparr>)
       else Inr e1) (\<lambda>e2.
     mark_nodes_stale h e2 (fr_stale route) False current)))"

definition reject_verdict ::
  "(pyval \<Rightarrow> string) \<Rightarrow> GraphExecution \<Rightarrow> string \<Rightarrow> NodeCycle \<Rightarrow> CycleVerdict \<Rightarrow> FindingClass \<Rightarrow> FindingRoute
     \<Rightarrow> GraphExecution res" where
  "reject_verdict h e current c verdict finding route =
     rbind (check_targets e (fr_nodes route)) (\<lambda>_.
     rbind (transition_node c (if fr_target route = NODE_CHECKER then CHECKER_RETRY else CHECKER_REJECTED)
       None [] (Some verdict)) (\<lambda>c'.
     rbind (make_execution h (e\<lparr>ge_cycles := dict_put current c' (ge_cycles e)\<rparr>)) (\<lambda>e1.
     rbind (if finding \<noteq> DEPENDENCY_DEFECT then refresh_readiness_and_terminal h e1 else Inr e1) (\<lambda>e2.
     if fr_target route = NODE_CHECKER then Inr e2
     else if fr_target route = PLAN_CYCLE then
       rbind (mark_nodes_stale h e2 (fr_stale route) True current) (\<lambda>e3.
       make_execution h (e3\<lparr>ge_state := G_REPLAN_REQUIRED\<rparr>))
     else repair_route h e2 current finding route))))"

definition apply_checker_verdict ::
  "(pyval \<Rightarrow> string) \<Rightarrow> GraphExecution \<Rightarrow> string \<Rightarrow> bool \<Rightarrow> string list \<Rightarrow> FindingClass option \<Rightarrow> string \<Rightarrow> string list
     \<Rightarrow> string \<Rightarrow> (GraphExecution \<times> FindingRoute option) res" where
  "apply_checker_verdict h e current accepted findings finding dependency dependencies accepted_product =
     rbind (cycle_at e current) (\<lambda>c.
     if current \<in> set (pending_scope e) then
       Inl (ValueError ''pending dependency repair captures verdicts without publishing them'')
     else
       let verdict = \<lparr>vd_accepted = accepted, vd_generation = cy_generation c, vd_findings = findings\<rparr> in
       rbind (verdict_post_init verdict) (\<lambda>_.
       if accepted then
         rbind (transition_node c CHECKER_ACCEPTED None [] (Some verdict)) (\<lambda>c1.
         rbind (if accepted_product \<noteq> [] then
             Cycle_Protocol.replace node_post_init (c1\<lparr>cy_accepted_product := accepted_product\<rparr>) else Inr c1) (\<lambda>c2.
         rbind (with_cycle h e c2) (\<lambda>e'. Inr (e', None))))
       else case finding of
         None \<Rightarrow> Inl (ValueError ''a rejected checker verdict requires a finding class'')
       | Some f \<Rightarrow>
           rbind (route_finding e f current dependency dependencies) (\<lambda>route.
           rbind (reject_verdict h e current c verdict f route) (\<lambda>e'. Inr (e', Some route)))))"

subsection \<open>Dependency repairs\<close>

definition set_pending ::
  "(pyval \<Rightarrow> string) \<Rightarrow> GraphExecution \<Rightarrow> DependencyRepairCohort \<Rightarrow> GraphExecution res" where
  "set_pending h e pending =
     rbind (make_ledger ((ge_repairs e)\<lparr>lg_pending := Some pending\<rparr>)) (\<lambda>l. make_execution h (e\<lparr>ge_repairs := l\<rparr>))"

definition check_frontier_node ::
  "(pyval \<Rightarrow> string) \<Rightarrow> GraphExecution \<Rightarrow> DependencyRepairCohort \<Rightarrow> string \<Rightarrow> unit res" where
  "check_frontier_node h e pending n =
     rbind (cycle_at e n) (\<lambda>c.
     case at_node pending n of
       [] \<Rightarrow> raise_if (cy_assignment c \<noteq> None \<or> \<not> is_quiescent c)
              (ValueError (''repair frontier omitted admitted node '' @ n))
     | items \<Rightarrow>
         let item = last items in
         if rn_cycle item \<noteq> cycle_id c \<or> rn_generation item \<noteq> cy_generation c then
           Inl (ValueError ''repair frontier belongs to another cycle incarnation'')
         else if incarnation_key h item \<in> keys (co_closures pending) then
           raise_if (cy_state c \<noteq> STALE) (ValueError ''closed repair incarnation was replaced'')
         else if (case cy_assignment c of None \<Rightarrow> False
             | Some a \<Rightarrow> as_input a \<noteq> rn_input item \<or> slot_value (as_slot a) \<noteq> rn_slot item) then
           Inl (ValueError ''repair frontier does not match the admitted graph assignment'')
         else raise_if (cy_state c = CANCELLED_STATE)
           (ValueError ''terminal user cancellation dominates dependency repair''))"

definition validate_repair_frontier ::
  "(pyval \<Rightarrow> string) \<Rightarrow> GraphExecution \<Rightarrow> DependencyRepairCohort \<Rightarrow> unit res" where
  "validate_repair_frontier h e pending = first_error (map (check_frontier_node h e pending) (co_scope pending))"

text \<open>The cycles of the frontier that still run are asked to become stale.\<close>

fun request_stale ::
  "(pyval \<Rightarrow> string) \<Rightarrow> DependencyRepairCohort \<Rightarrow> string \<Rightarrow> RepairIncarnation list \<Rightarrow> (string \<times> NodeCycle) list
     \<Rightarrow> (string \<times> NodeCycle) list res" where
  "request_stale h pending source [] cycles = Inr cycles"
| "request_stale h pending source (item # items) cycles =
     (if incarnation_key h item \<in> keys (co_closures pending) \<or> rn_node item = source then
        request_stale h pending source items cycles
      else case map_of cycles (rn_node item) of
        None \<Rightarrow> Inl (KeyError (rn_node item))
      | Some c \<Rightarrow>
          if cy_state c \<noteq> CANCEL_REQUESTED then
            rbind (transition_node c REQUEST_STALE None [] None) (\<lambda>c'.
            request_stale h pending source items (dict_put (rn_node item) c' cycles))
          else if cy_resume c \<noteq> Some STALE then
            Inl (ValueError ''terminal user cancellation dominates dependency repair'')
          else request_stale h pending source items cycles)"

definition join_cohort ::
  "(pyval \<Rightarrow> string) \<Rightarrow> GraphExecution \<Rightarrow> RepairIntent \<Rightarrow> RepairIncarnation list \<Rightarrow> DependencyRepairCohort res" where
  "join_cohort h e i frontier =
     (let scope = intent_scope (ge_graph e) i; k = intent_key h i in
      rbind (case lg_pending (ge_repairs e) of
          None \<Rightarrow> make_cohort h \<lparr>co_intents = [(k, i)], co_scope = sorted_names scope, co_frontier = [],
            co_captures = [], co_closures = [], co_status = ''pending'', co_reason = []\<rparr>
        | Some pending \<Rightarrow>
            if ri_source i \<notin> set (co_scope pending)
                \<and> (set scope \<inter> set (co_scope pending)) - {gr_sink (ge_graph e)} = {} then
              Inl (DependencyRepairDeferred ''independent outside-scope report requires a later cohort'')
            else if list_ex (\<lambda>n. incarnation_key h n \<notin> keys (co_frontier pending)
                \<and> rn_node n \<in> set (co_scope pending)) frontier then
              Inl (ValueError ''repair frontier was already frozen for this node'')
            else make_cohort h (pending\<lparr>co_intents := dict_put k i (co_intents pending),
              co_scope := sorted_names (scope @ co_scope pending)\<rparr>))
        (\<lambda>pending. with_frontier h pending frontier))"

definition admit_repair ::
  "(pyval \<Rightarrow> string) \<Rightarrow> GraphExecution \<Rightarrow> RepairIntent \<Rightarrow> NodeCycle \<Rightarrow> DependencyRepairCohort \<Rightarrow> GraphExecution res" where
  "admit_repair h e i source pending =
     (case at_node pending (ri_source i) of
        [item] \<Rightarrow>
          if \<not> receipt_matches i item then
            Inl (ValueError ''repair source receipt does not match its frozen incarnation'')
          else if cy_assignment source = None \<and> incarnation_key h item \<notin> keys (co_closures pending) then
            Inl (ValueError ''repair source has no admitted checker or exact closed receipt'')
          else
            rbind (request_stale h pending (ri_source i) (map snd (co_frontier pending)) (ge_cycles e)) (\<lambda>cycles.
            set_pending h (e\<lparr>ge_cycles := cycles, ge_published := []\<rparr>) pending)
      | _ \<Rightarrow> Inl (ValueError ''repair source receipt does not match its frozen incarnation''))"

definition register_dependency_repair ::
  "(pyval \<Rightarrow> string) \<Rightarrow> GraphExecution \<Rightarrow> RepairIntent \<Rightarrow> RepairIncarnation list \<Rightarrow> GraphExecution res" where
  "register_dependency_repair h e i frontier =
     (case find_intent (ge_repairs e) (intent_key h i) of
        Some previous \<Rightarrow>
          if previous \<noteq> i then Inl (ValueError ''repair intent identity is already bound to changed content'')
          else Inr e
      | None \<Rightarrow>
          if ge_state e \<noteq> G_RUNNING then Inl (ValueError ''dependency repair cannot register in a terminal graph'')
          else if \<not> intent_belongs h (ge_graph e) i then
            Inl (ValueError ''dependency repair intent belongs to another graph generation'')
          else case map_of (ge_cycles e) (ri_source i) of
            None \<Rightarrow> Inl (ValueError ''dependency repair source is not a graph node'')
          | Some source \<Rightarrow>
              if cycle_id source \<noteq> ri_cycle i \<or> cy_generation source \<noteq> ri_generation i
                  \<or> cy_product source \<noteq> ri_product i then
                Inl (ValueError ''dependency repair source candidate or cycle identity changed'')
              else if \<not> eligible_providers (ge_graph e) i then
                Inl (ValueError ''dependency repair requires a software-produced checker execution provider'')
              else
                rbind (join_cohort h e i frontier) (\<lambda>pending.
                rbind (validate_repair_frontier h e pending) (\<lambda>_. admit_repair h e i source pending)))"

definition pending_dependency_repair :: "GraphExecution \<Rightarrow> DependencyRepairCohort res" where
  "pending_dependency_repair e = (case (ge_state e, lg_pending (ge_repairs e)) of
       (G_RUNNING, Some pending) \<Rightarrow> Inr pending
     | _ \<Rightarrow> Inl (ValueError ''dependency repair requires a current pending cohort''))"

definition update_dependency_repair_frontier ::
  "(pyval \<Rightarrow> string) \<Rightarrow> GraphExecution \<Rightarrow> RepairIncarnation list \<Rightarrow> GraphExecution res" where
  "update_dependency_repair_frontier h e frontier =
     rbind (pending_dependency_repair e) (\<lambda>pending.
     if list_ex (\<lambda>n. incarnation_key h n \<notin> keys (co_frontier pending)) frontier then
       Inl (ValueError ''repair frontier cannot admit another incarnation after freeze'')
     else
       rbind (with_frontier h pending frontier) (\<lambda>updated.
       rbind (validate_repair_frontier h e updated) (\<lambda>_. set_pending h e updated)))"

definition capture_dependency_repair ::
  "(pyval \<Rightarrow> string) \<Rightarrow> GraphExecution \<Rightarrow> string \<Rightarrow> ArtifactRef list \<Rightarrow> GraphExecution res" where
  "capture_dependency_repair h e k receipt_refs =
     rbind (pending_dependency_repair e) (\<lambda>pending.
     rbind (capture h pending k receipt_refs) (set_pending h e))"

definition confirm_stale :: "NodeCycle \<Rightarrow> NodeCycle res" where
  "confirm_stale c =
     rbind (if cy_state c \<noteq> CANCEL_REQUESTED then transition_node c REQUEST_STALE None [] None else Inr c) (\<lambda>c'.
     transition_node c' STALE_CONFIRMED (cy_assignment c') [] None)"

definition close_dependency_repair ::
  "(pyval \<Rightarrow> string) \<Rightarrow> GraphExecution \<Rightarrow> RepairClosure \<Rightarrow> GraphExecution res" where
  "close_dependency_repair h e cert =
     rbind (pending_dependency_repair e) (\<lambda>pending.
     rbind (validate_repair_frontier h e pending) (\<lambda>_.
     rbind (close_cohort h pending cert) (\<lambda>updated.
     if incarnation_key h (cl_incarnation cert) \<in> keys (co_closures pending) then Inr e
     else
       rbind (cycle_at e (rn_node (cl_incarnation cert))) (\<lambda>c.
       rbind (confirm_stale c) (\<lambda>c'.
       set_pending h (e\<lparr>ge_cycles := dict_put (node_name c') c' (ge_cycles e)\<rparr>) updated)))))"

definition packet_captured :: "(pyval \<Rightarrow> string) \<Rightarrow> DependencyRepairCohort \<Rightarrow> RepairIntent \<Rightarrow> unit res" where
  "packet_captured h pending i = (case at_node pending (ri_source i) of
       [] \<Rightarrow> Inl (RuntimeError ''StopIteration'')
     | item # _ \<Rightarrow> raise_if (rf_sha (ri_packet i) \<notin> rf_sha ` set (captured pending (incarnation_key h item)))
         (ValueError ''dependency repair source packet has not been captured''))"

text \<open>The packets that name a provider, as the findings of its rejecting verdict.\<close>

definition provider_findings :: "DependencyRepairCohort \<Rightarrow> string \<Rightarrow> string list" where
  "provider_findings pending n =
     sorted_names (map (rf_sha \<circ> ri_packet) (filter (\<lambda>i. n \<in> set (ri_providers i)) (map snd (co_intents pending))))"

fun repair_providers ::
  "DependencyRepairCohort \<Rightarrow> string list \<Rightarrow> (string \<times> NodeCycle) list \<Rightarrow> (string \<times> NodeCycle) list res" where
  "repair_providers pending [] cycles = Inr cycles"
| "repair_providers pending (n # ns) cycles = (case map_of cycles n of
       None \<Rightarrow> Inl (KeyError n)
     | Some c \<Rightarrow>
         rbind (repair_ready c) (\<lambda>c1.
         let verdict = \<lparr>vd_accepted = False, vd_generation = cy_generation c1,
               vd_findings = provider_findings pending n\<rparr> in
         rbind (verdict_post_init verdict) (\<lambda>_.
         rbind (Cycle_Protocol.replace node_post_init (c1\<lparr>cy_verdict := Some verdict\<rparr>)) (\<lambda>c2.
         repair_providers pending ns (dict_put n c2 cycles)))))"

definition repair_barriers ::
  "GraphIR \<Rightarrow> string list \<Rightarrow> string list \<Rightarrow> (string \<times> string list) list \<Rightarrow> (string \<times> string list) list" where
  "repair_barriers g providers consumers barriers =
     fold (\<lambda>provider. fold (add_barrier provider) (filter (\<lambda>n. n \<in> set (repair_descendants g provider)) consumers))
       providers (filter (\<lambda>(n, _). n \<notin> set providers) barriers)"

definition apply_pending ::
  "(pyval \<Rightarrow> string) \<Rightarrow> GraphExecution \<Rightarrow> DependencyRepairCohort \<Rightarrow> (GraphExecution \<times> FindingRoute) res" where
  "apply_pending h e pending =
     (let providers = cohort_providers pending;
          consumers = sort (filter (\<lambda>n. n \<notin> set providers) (co_scope pending)) in
      rbind (repair_providers pending providers (ge_cycles e)) (\<lambda>cycles.
      rbind (make_execution h (e\<lparr>ge_cycles := cycles\<rparr>)) (\<lambda>e1.
      rbind (mark_nodes_stale h e1 consumers False []) (\<lambda>e2.
      rbind (archive h (ge_repairs e) ''applied'' []) (\<lambda>l.
      rbind (make_execution h (e2\<lparr>ge_barriers := repair_barriers (ge_graph e) providers consumers (ge_barriers e),
          ge_published := [], ge_repairs := l\<rparr>)) (\<lambda>e3.
      Inr (e3, \<lparr>fr_target = NODE_PRODUCER, fr_node = hd providers, fr_kind = REPAIR_KIND, fr_stale = consumers,
        fr_nodes = providers\<rparr>)))))))"

definition apply_dependency_repair ::
  "(pyval \<Rightarrow> string) \<Rightarrow> GraphExecution \<Rightarrow> string \<Rightarrow> (GraphExecution \<times> FindingRoute option) res" where
  "apply_dependency_repair h e k =
     (case filter (\<lambda>c. cohort_key h c = k) (lg_history (ge_repairs e)) of
        c # _ \<Rightarrow>
          if co_status c = ''applied'' then Inr (e, None)
          else Inl (ValueError ''superseded dependency repair cannot apply'')
      | [] \<Rightarrow>
          rbind (pending_dependency_repair e) (\<lambda>pending.
          if cohort_key h pending \<noteq> k then Inl (ValueError ''dependency repair component changed before seal'')
          else
            rbind (validate_repair_frontier h e pending) (\<lambda>_.
            if \<not> cohort_ready pending then
              Inl (ValueError ''dependency repair frontier has not been captured and closed'')
            else
              rbind (first_error (map (packet_captured h pending \<circ> snd) (co_intents pending))) (\<lambda>_.
              rbind (apply_pending h e pending) (\<lambda>(e', route). Inr (e', Some route))))))"

definition supersede_dependency_repairs ::
  "(pyval \<Rightarrow> string) \<Rightarrow> GraphExecution \<Rightarrow> string \<Rightarrow> GraphExecution res" where
  "supersede_dependency_repairs h e reason =
     (if reason = [] then Inl (ValueError ''superseding dependency repair requires a reason'')
      else if ge_state e \<notin> {G_CANCELLED, G_REPLAN_REQUIRED} then
        Inl (ValueError ''supersession requires terminal cancellation or replan admission fence'')
      else rbind (archive h (ge_repairs e) ''superseded'' reason) (\<lambda>l. make_execution h (e\<lparr>ge_repairs := l\<rparr>)))"

end
