(* ===== verification/Graph_Diff.thy ===== *)
theory Graph_Diff
  imports Graph_Executor
begin

section \<open>Carrying a graph over to its next generation\<close>

text \<open>
  \<open>diff_graphs\<close> of \<open>bunshin/graph_executor.py\<close> and \<open>_replanned_execution\<close> of \<open>bunshin/workflow_runtime.py\<close>:
  which modules of a new graph generation may keep the product that was accepted in the previous one. The
  graphs come from the constructor of \<open>GraphIR\<close>, so every predecessor of a node has a decision.
\<close>

subsection \<open>Decisions\<close>

datatype NodeReuseKind = REUSE_ACCEPTED | REUSE_STALE | CREATE_NODE | RETIRE_NODE

record NodeReuseDecision =
  nd_name :: string
  nd_kind :: NodeReuseKind
  nd_workspace :: bool
  nd_sessions :: bool
  nd_reason :: string

record GraphDiff =
  gd_source :: int
  gd_target :: int
  gd_decisions :: "(string \<times> NodeReuseDecision) list"

definition incoming_signature :: "(pyval \<Rightarrow> string) \<Rightarrow> GraphIR \<Rightarrow> string \<Rightarrow> string" where
  "incoming_signature h g n = h (PList (map (\<lambda>e. PDict
     [(''producer'', PStr (ed_producer e)), (''kind'', PStr (edge_kind_value (ed_kind e))),
      (''contract_ref'', PStr (ed_contract_ref e)), (''consumed_outputs'', PList (map PStr (ed_outputs e)))])
     (sort_key ed_producer (sort_key (\<lambda>e. edge_kind_value (ed_kind e)) (incoming g n)))))"

definition decision :: "string \<Rightarrow> NodeReuseKind \<Rightarrow> bool \<Rightarrow> string \<Rightarrow> NodeReuseDecision" where
  "decision n kind reuse reason =
     \<lparr>nd_name = n, nd_kind = kind, nd_workspace = reuse, nd_sessions = reuse, nd_reason = reason\<rparr>"

definition compare_node :: "(pyval \<Rightarrow> string) \<Rightarrow> GraphIR \<Rightarrow> GraphIR \<Rightarrow> string \<Rightarrow> NodeReuseDecision" where
  "compare_node h source target n =
     (case (map_of (gr_nodes source) n, map_of (gr_nodes target) n) of
        (Some old, Some new) \<Rightarrow>
          if semantic_identity_hash h old \<noteq> semantic_identity_hash h new then
            decision n CREATE_NODE False ''responsibility changed''
          else if contract_hash h old = contract_hash h new
              \<and> incoming_signature h source n = incoming_signature h target n then
            decision n REUSE_ACCEPTED True ''responsibility, contract, and incoming edges are unchanged''
          else decision n REUSE_STALE True ''responsibility is unchanged but contract or edges changed''
      | (Some _, None) \<Rightarrow> decision n RETIRE_NODE False ''node was deleted''
      | _ \<Rightarrow> decision n CREATE_NODE False ''node is new'')"

definition first_decisions :: "(pyval \<Rightarrow> string) \<Rightarrow> GraphIR \<Rightarrow> GraphIR \<Rightarrow> (string \<times> NodeReuseDecision) list" where
  "first_decisions h source target =
     map (\<lambda>n. (n, compare_node h source target n)) (sorted_names (node_names source @ node_names target))"

text \<open>The loop that withdraws acceptance from the consumers of a node that lost it.\<close>

definition inputs_of :: "GraphIR \<Rightarrow> string \<Rightarrow> string list" where
  "inputs_of g n = map ed_producer (incoming g n) @ execution_predecessors g n"

definition carried :: "(string \<times> NodeReuseDecision) list \<Rightarrow> string \<Rightarrow> bool" where
  "carried decisions n = (case map_of decisions n of None \<Rightarrow> False | Some d \<Rightarrow> nd_kind d = REUSE_ACCEPTED)"

definition withdrawn :: "string \<Rightarrow> NodeReuseDecision" where
  "withdrawn n = decision n REUSE_STALE True ''an accepted predecessor cannot be carried forward''"

fun withdraw_pass ::
  "GraphIR \<Rightarrow> string list \<Rightarrow> (string \<times> NodeReuseDecision) list \<Rightarrow> bool \<Rightarrow> (string \<times> NodeReuseDecision) list \<times> bool" where
  "withdraw_pass g [] decisions changed = (decisions, changed)"
| "withdraw_pass g (n # ns) decisions changed =
     (if carried decisions n \<and> \<not> (\<forall>p \<in> set (inputs_of g n). carried decisions p) then
        withdraw_pass g ns (dict_put n (withdrawn n) decisions) True
      else withdraw_pass g ns decisions changed)"

fun withdraw_loop :: "nat \<Rightarrow> GraphIR \<Rightarrow> (string \<times> NodeReuseDecision) list \<Rightarrow> (string \<times> NodeReuseDecision) list option" where
  "withdraw_loop 0 g decisions = None"
| "withdraw_loop (Suc fuel) g decisions =
     (case withdraw_pass g (sort (node_names g)) decisions False of
        (decisions', changed) \<Rightarrow> if changed then withdraw_loop fuel g decisions' else Some decisions')"

definition diff_graphs :: "(pyval \<Rightarrow> string) \<Rightarrow> GraphIR \<Rightarrow> GraphIR \<Rightarrow> GraphDiff res" where
  "diff_graphs h source target =
     (if gr_generation target \<le> gr_generation source then Inl (ValueError ''target graph generation must advance'')
      else case withdraw_loop (Suc (length (node_names target))) target (first_decisions h source target) of
        None \<Rightarrow> Inl (RuntimeError ''reuse loop'')
      | Some decisions \<Rightarrow>
          Inr \<lparr>gd_source = gr_generation source, gd_target = gr_generation target, gd_decisions = decisions\<rparr>)"

subsection \<open>The next execution\<close>

definition invalidated_nodes :: "GraphExecution \<Rightarrow> string list" where
  "invalidated_nodes e = pending_scope e
     @ concat (map co_scope (filter (\<lambda>c. co_status c = ''superseded'') (lg_history (ge_repairs e))))"

definition replanned_cycle :: "GraphExecution \<Rightarrow> GraphIR \<Rightarrow> GraphDiff \<Rightarrow> string \<Rightarrow> (string \<times> NodeCycle) res" where
  "replanned_cycle source target diff n =
     (let i = gr_id target @ '':g'' @ int_str (gr_generation target) @ '':'' @ n;
          previous = map_of (ge_cycles source) n;
          fresh = new_node_cycle i n (gr_generation target) STALE
            (case previous of None \<Rightarrow> [] | Some c \<Rightarrow> cy_accepted_product c) in
      case map_of (gd_decisions diff) n of
        None \<Rightarrow> Inl (KeyError n)
      | Some d \<Rightarrow> rbind (case previous of
            Some c \<Rightarrow>
              if nd_kind d = REUSE_ACCEPTED \<and> n \<notin> set (invalidated_nodes source) \<and> cy_state c = ACCEPTED then
                Cycle_Protocol.replace node_post_init (c\<lparr>cycle_id := i, cy_generation := gr_generation target,
                  cy_assignment := None,
                  cy_verdict := map_option (\<lambda>v. v\<lparr>vd_generation := gr_generation target\<rparr>) (cy_verdict c)\<rparr>)
              else fresh
          | None \<Rightarrow> fresh) (\<lambda>c. Inr (n, c)))"

definition replanned_execution ::
  "(pyval \<Rightarrow> string) \<Rightarrow> GraphExecution \<Rightarrow> GraphIR \<Rightarrow> GraphDiff \<Rightarrow> GraphExecution res" where
  "replanned_execution h source target diff =
     rbind (map_res (replanned_cycle source target diff) (node_names target)) (\<lambda>cycles.
     rbind (make_execution h \<lparr>ge_graph = target, ge_state = G_RUNNING, ge_cycles = dict_of cycles, ge_published = [],
       ge_barriers = [], ge_repairs = empty_ledger\<rparr>) (refresh h))"

subsection \<open>The loop withdraws exactly what it must\<close>

lemma carried_put [simp]:
  "is_dict ds \<Longrightarrow> carried (dict_put n d ds) m \<longleftrightarrow> (if m = n then nd_kind d = REUSE_ACCEPTED else carried ds m)"
  by (simp add: carried_def)

lemma withdrawn_kind [simp]: "nd_kind (withdrawn n) = REUSE_STALE"
  by (simp add: withdrawn_def decision_def)

definition input_rel :: "GraphIR \<Rightarrow> (string \<times> string) set" where
  "input_rel g = {(n, p). p \<in> set (inputs_of g n)}"

text \<open>The nodes that may stay: everything they transitively consume is carried.\<close>

definition supported :: "GraphIR \<Rightarrow> (string \<times> NodeReuseDecision) list \<Rightarrow> string set" where
  "supported g ds = {n. \<forall>p. (n, p) \<in> (input_rel g)\<^sup>* \<longrightarrow> carried ds p}"

lemma supported_closed: "n \<in> supported g ds \<Longrightarrow> p \<in> set (inputs_of g n) \<Longrightarrow> p \<in> supported g ds"
  unfolding supported_def input_rel_def by (blast intro: converse_rtrancl_into_rtrancl)

lemma supported_carried: "n \<in> supported g ds \<Longrightarrow> carried ds n"
  by (auto simp: supported_def)

lemma withdraw_keeps_supported:
  assumes "is_dict ds" and "carried ds n" and p: "p \<in> set (inputs_of g n)" "\<not> carried ds p"
  shows "supported g (dict_put n (withdrawn n) ds) = supported g ds"
proof
  show "supported g (dict_put n (withdrawn n) ds) \<subseteq> supported g ds"
    using assms(1) by (auto simp: supported_def split: if_splits)
  show "supported g ds \<subseteq> supported g (dict_put n (withdrawn n) ds)"
  proof
    fix m assume m: "m \<in> supported g ds"
    have "(m, n) \<notin> (input_rel g)\<^sup>*"
    proof
      assume "(m, n) \<in> (input_rel g)\<^sup>*"
      with p(1) have "(m, p) \<in> (input_rel g)\<^sup>*" by (auto simp: input_rel_def intro: rtrancl_into_rtrancl)
      with m p(2) show False by (auto simp: supported_def)
    qed
    then have "q \<noteq> n" if "(m, q) \<in> (input_rel g)\<^sup>*" for q using that by blast
    with m assms(1) show "m \<in> supported g (dict_put n (withdrawn n) ds)" by (auto simp: supported_def)
  qed
qed

lemma withdraw_pass_result:
  assumes "withdraw_pass g ns ds changed = (ds', changed')" and "is_dict ds"
  shows "is_dict ds' \<and> supported g ds' = supported g ds \<and> (\<forall>m. carried ds' m \<longrightarrow> carried ds m)
    \<and> (changed' = changed \<and> ds' = ds \<and> (\<forall>n \<in> set ns. carried ds n \<longrightarrow> (\<forall>p \<in> set (inputs_of g n). carried ds p))
       \<or> changed' \<and> (\<exists>n \<in> set ns. carried ds n \<and> \<not> carried ds' n))"
  using assms
proof (induction ns arbitrary: ds changed)
  case (Cons n ns)
  show ?case
  proof (cases "carried ds n \<and> \<not> (\<forall>p \<in> set (inputs_of g n). carried ds p)")
    case True
    let ?ds = "dict_put n (withdrawn n) ds"
    have run: "withdraw_pass g ns ?ds True = (ds', changed')" using Cons.prems(1) True by simp
    have "supported g ?ds = supported g ds"
      using True Cons.prems(2) withdraw_keeps_supported by blast
    moreover have drop: "carried ?ds m \<longrightarrow> carried ds m \<and> m \<noteq> n" for m using Cons.prems(2) by simp
    moreover note IH = Cons.IH [OF run is_dict_put [OF Cons.prems(2)]]
    moreover have "\<not> carried ds' n" using IH drop by blast
    moreover have "changed'" using IH by blast
    moreover have "\<forall>m. carried ds' m \<longrightarrow> carried ds m" using IH drop by blast
    ultimately show ?thesis using True by simp
  next
    case False
    have "withdraw_pass g ns ds changed = (ds', changed')"
      using Cons.prems(1) unfolding withdraw_pass.simps if_not_P [OF False] .
    with Cons.IH [OF this Cons.prems(2)] False show ?thesis by auto
  qed
qed auto

lemma withdraw_loop_result:
  assumes "is_dict ds" and "card {n \<in> set (node_names g). carried ds n} < fuel"
    and "\<forall>n. carried ds n \<longrightarrow> n \<in> set (node_names g)"
  shows "\<exists>ds'. withdraw_loop fuel g ds = Some ds' \<and> is_dict ds' \<and> (\<forall>n. carried ds' n \<longleftrightarrow> n \<in> supported g ds)"
  using assms
proof (induction fuel arbitrary: ds)
  case (Suc fuel)
  obtain ds1 changed where pass: "withdraw_pass g (sort (node_names g)) ds False = (ds1, changed)" by fastforce
  note result = withdraw_pass_result [OF pass Suc.prems(1)]
  then have d: "is_dict ds1" and s: "supported g ds1 = supported g ds" and less: "\<forall>m. carried ds1 m \<longrightarrow> carried ds m"
    by blast+
  show ?case
  proof (cases changed)
    case True
    with result obtain n where "n \<in> set (node_names g)" "carried ds n" "\<not> carried ds1 n" by auto
    with less have "{n \<in> set (node_names g). carried ds1 n} \<subset> {n \<in> set (node_names g). carried ds n}" by blast
    then have "card {n \<in> set (node_names g). carried ds1 n} < card {n \<in> set (node_names g). carried ds n}"
      by (intro psubset_card_mono) auto
    then have "card {n \<in> set (node_names g). carried ds1 n} < fuel" using Suc.prems(2) by linarith
    from Suc.IH [OF d this] less Suc.prems(3) s obtain ds2 where
      "withdraw_loop fuel g ds1 = Some ds2" "is_dict ds2" "\<forall>n. carried ds2 n \<longleftrightarrow> n \<in> supported g ds" by blast
    moreover from this(1) have "withdraw_loop (Suc fuel) g ds = Some ds2" using pass True by simp
    ultimately show ?thesis by blast
  next
    case False
    have "ds1 = ds \<and> (\<forall>n \<in> set (sort (node_names g)). carried ds n \<longrightarrow> (\<forall>p \<in> set (inputs_of g n). carried ds p))"
      using result False by blast
    then have same: "ds1 = ds" and closed: "\<forall>n \<in> set (node_names g). carried ds n \<longrightarrow> (\<forall>p \<in> set (inputs_of g n). carried ds p)"
      unfolding set_sort by blast+
    have step: "carried ds p" if "carried ds n" "p \<in> set (inputs_of g n)" for n p
      using closed Suc.prems(3) that by blast
    have "carried ds p" if "(n, p) \<in> (input_rel g)\<^sup>*" "carried ds n" for n p
      using that by (induction rule: rtrancl_induct) (auto simp: input_rel_def intro: step)
    then have "carried ds n \<longleftrightarrow> n \<in> supported g ds" for n by (auto simp: supported_def)
    then have "\<forall>n. carried ds n \<longleftrightarrow> n \<in> supported g ds" by blast
    moreover have "withdraw_loop (Suc fuel) g ds = Some ds" using pass False same by simp
    ultimately show ?thesis using Suc.prems(1) by blast
  qed
qed simp

lemma first_decisions_dict [simp]: "is_dict (first_decisions h source target)"
  by (simp add: first_decisions_def is_dict_def sorted_names_def comp_def)

lemma first_decisions_lookup:
  "map_of (first_decisions h source target) n =
     (if n \<in> set (node_names source) \<union> set (node_names target) then Some (compare_node h source target n) else None)"
  by (simp add: first_decisions_def map_of_map_restrict sorted_names_def restrict_map_def)

text \<open>A node is unchanged when both generations declare it with the same meaning, contract and incoming edges.\<close>

definition unchanged :: "(pyval \<Rightarrow> string) \<Rightarrow> GraphIR \<Rightarrow> GraphIR \<Rightarrow> string \<Rightarrow> bool" where
  "unchanged h source target n \<longleftrightarrow> (\<exists>old new. map_of (gr_nodes source) n = Some old \<and> map_of (gr_nodes target) n = Some new
     \<and> semantic_identity_hash h old = semantic_identity_hash h new \<and> contract_hash h old = contract_hash h new
     \<and> incoming_signature h source n = incoming_signature h target n)"

lemma node_names_map_of: "n \<in> set (node_names g) \<longleftrightarrow> (\<exists>s. map_of (gr_nodes g) n = Some s)"
  by (metis domIff dom_map_of_conv_image_fst list.set_map node_names_def not_None_eq)

lemma carried_first: "carried (first_decisions h source target) n \<longleftrightarrow> unchanged h source target n"
  by (auto simp: carried_def first_decisions_lookup compare_node_def decision_def unchanged_def node_names_map_of
      split: option.splits)

lemma unchanged_declared: "unchanged h source target n \<Longrightarrow> n \<in> set (node_names target)"
  by (auto simp: unchanged_def node_names_map_of)

lemma diff_graphs_result:
  assumes "gr_generation source < gr_generation target"
  shows "\<exists>d. diff_graphs h source target = Inr d \<and> is_dict (gd_decisions d)
    \<and> (\<forall>n. carried (gd_decisions d) n \<longleftrightarrow> (\<forall>p. (n, p) \<in> (input_rel target)\<^sup>* \<longrightarrow> unchanged h source target p))"
proof -
  let ?ds = "first_decisions h source target"
  have "card {n \<in> set (node_names target). carried ?ds n} \<le> card (set (node_names target))"
    by (rule card_mono) auto
  also have "\<dots> \<le> length (node_names target)" by (rule card_length)
  finally have "card {n \<in> set (node_names target). carried ?ds n} < Suc (length (node_names target))" by simp
  from withdraw_loop_result [OF first_decisions_dict this] assms unchanged_declared show ?thesis
    by (auto simp: diff_graphs_def carried_first supported_def)
qed

end
