(* ===== verification/Graph_Facts.thy ===== *)
theory Graph_Facts
  imports Graph_Executor
begin

section \<open>Readiness and progress of a graph execution\<close>

text \<open>
  What the readiness refresh of \<open>graph_executor.py\<close> computes, and that a graph execution never gets stuck:
  as long as no node is suspended and no repair is pending, some node can run until the sink is accepted.
\<close>

subsection \<open>Well-formed executions\<close>

text \<open>
  A node cycle is well-formed when its constructor accepts it and it keeps the promises of \<open>Cycle_Protocol\<close>;
  the product it accepts may be one the checker named.
\<close>

definition node_ok :: "NodeCycle \<Rightarrow> bool" where
  "node_ok c \<longleftrightarrow> node_post_init c = Inr () \<and> cycle_inv_with (\<lambda>_ _. True) c"

definition cycles_ok :: "GraphIR \<Rightarrow> (string \<times> NodeCycle) list \<Rightarrow> bool" where
  "cycles_ok g cs \<longleftrightarrow> is_dict cs \<and> keys cs = set (node_names g)
     \<and> (\<forall>n c. map_of cs n = Some c \<longrightarrow> node_name c = n \<and> node_ok c)"

text \<open>Every barrier makes a node wait for something it transitively consumes.\<close>

definition barriers_ok :: "GraphIR \<Rightarrow> (string \<times> string list) list \<Rightarrow> bool" where
  "barriers_ok g bs \<longleftrightarrow> is_dict bs \<and> keys bs \<subseteq> set (node_names g)
     \<and> (\<forall>n ps. map_of bs n = Some ps \<longrightarrow> (\<forall>p \<in> set ps. (p, n) \<in> (feeds g)\<^sup>+))"

definition execution_ok :: "GraphExecution \<Rightarrow> bool" where
  "execution_ok e \<longleftrightarrow> graph_ok (ge_graph e) \<and> cycles_ok (ge_graph e) (ge_cycles e)
     \<and> barriers_ok (ge_graph e) (ge_barriers e)"

named_theorems execution_updates

lemma node_ok_valid: "node_ok c \<Longrightarrow> node_post_init c = Inr ()"
  by (simp add: node_ok_def)

text \<open>The states in which a node waits for its producer.\<close>

definition idle_states :: "cycle_state set" where
  "idle_states = {BLOCKED, STALE, PRODUCER_READY, REPAIR_READY}"

lemma node_ok_resume: "node_ok c \<Longrightarrow> cy_state c \<notin> suspended_states \<Longrightarrow> cy_resume c = None"
  by (auto simp: node_ok_def intro: cycle_inv_resume)

lemma node_ok_assignment:
  "node_ok c \<Longrightarrow> cy_state c \<notin> {PRODUCING, CHECKING, PAUSE_REQUESTED, CANCEL_REQUESTED} \<Longrightarrow> cy_assignment c = None"
  by (auto simp: node_ok_def cycle_inv_with_def active_slot_def)

lemma node_ok_waits:
  "node_post_init c = Inr () \<Longrightarrow> cy_state c \<in> idle_states \<Longrightarrow> cy_resume c = None \<Longrightarrow> cy_assignment c = None \<Longrightarrow> node_ok c"
  by (auto simp: node_ok_def cycle_inv_plain idle_states_def active_slot_def)

lemma idle_not_suspended: "s \<in> idle_states \<Longrightarrow> s \<notin> suspended_states"
  by (auto simp: idle_states_def suspended_states_def)

lemma idle_not_running: "s \<in> idle_states \<Longrightarrow> s \<notin> {PRODUCING, CHECKING, PAUSE_REQUESTED, CANCEL_REQUESTED}"
  by (auto simp: idle_states_def)

lemma node_ok_idle:
  assumes "node_ok c" and "cy_state c \<in> idle_states" and "s \<in> idle_states"
  shows "node_ok (c\<lparr>cy_state := s\<rparr>)"
  using assms(3) node_ok_valid [OF assms(1)] node_ok_resume [OF assms(1) idle_not_suspended [OF assms(2)]]
    node_ok_assignment [OF assms(1) idle_not_running [OF assms(2)]]
  by (intro node_ok_waits) simp_all

lemma cycles_ok_put:
  "cycles_ok g cs \<Longrightarrow> map_of cs n = Some c \<Longrightarrow> node_name c' = n \<Longrightarrow> node_ok c'
     \<Longrightarrow> cycles_ok g (dict_put n c' cs)"
  by (auto simp: cycles_ok_def keys_map_of)

lemma cycles_ok_declared: "cycles_ok g cs \<Longrightarrow> n \<in> set (node_names g) \<Longrightarrow> \<exists>c. map_of cs n = Some c"
  by (auto simp: cycles_ok_def dest: map_of_keys)

lemma feeds_declared: "graph_ok g \<Longrightarrow> (p, n) \<in> feeds g \<Longrightarrow> p \<in> set (node_names g) \<and> n \<in> set (node_names g) \<and> p \<noteq> n"
  by (auto simp: feeds_def dest: graph_ok_edge predecessors_declared)

lemma feeds_trancl_declared: "graph_ok g \<Longrightarrow> (p, n) \<in> (feeds g)\<^sup>+ \<Longrightarrow> p \<in> set (node_names g) \<and> n \<in> set (node_names g)"
  by (auto dest: tranclD tranclD2 feeds_declared)

lemma checker_predecessors_feed:
  "n \<in> set (node_names g) \<Longrightarrow> p \<in> set (checker_predecessors g n) \<Longrightarrow> (p, n) \<in> feeds g"
  by (simp add: feeds_def checker_predecessors_def)

lemma producer_predecessors_feed:
  "n \<in> set (node_names g) \<Longrightarrow> p \<in> set (producer_predecessors g n) \<Longrightarrow> (p, n) \<in> feeds g"
  by (auto simp: feeds_def dest: producer_predecessors_execution)

lemma predecessors_of_feed: "n \<in> set (node_names g) \<Longrightarrow> p \<in> set (predecessors_of g n s) \<Longrightarrow> (p, n) \<in> feeds g"
  by (auto simp: predecessors_of_def checker_predecessors_feed producer_predecessors_feed split: if_splits)

subsection \<open>The refresh loop\<close>

text \<open>What the loop computes: the waiting nodes whose inputs are accepted become ready, all at once.\<close>

definition readied_cycle :: "GraphExecution \<Rightarrow> (string \<times> NodeCycle) list \<Rightarrow> string \<Rightarrow> NodeCycle \<Rightarrow> NodeCycle" where
  "readied_cycle e cs n c = (if ready_again e cs n c then c\<lparr>cy_state := PRODUCER_READY\<rparr> else c)"

definition readied :: "GraphExecution \<Rightarrow> (string \<times> NodeCycle) list \<Rightarrow> (string \<times> NodeCycle) list" where
  "readied e cs = map (\<lambda>(n, c). (n, readied_cycle e cs n c)) cs"

lemma readied_keys: "map fst (readied e cs) = map fst cs"
  by (simp add: readied_def comp_def case_prod_beta)

lemma map_of_readied: "map_of (readied e cs) n = map_option (readied_cycle e cs n) (map_of cs n)"
proof -
  have "map_of (map (\<lambda>(n, c). (n, f n c)) xs) n = map_option (f n) (map_of xs n)" for f :: "string \<Rightarrow> NodeCycle \<Rightarrow> NodeCycle" and xs
    by (induction xs) auto
  then show ?thesis by (simp add: readied_def)
qed

lemma is_dict_readied [simp]: "is_dict (readied e cs) \<longleftrightarrow> is_dict cs"
  by (simp add: is_dict_def readied_keys)

lemma accepted_readied: "accepted_in (readied e cs) = accepted_in cs"
  by (rule ext) (auto simp: accepted_in_def map_of_readied readied_cycle_def ready_again_def split: option.split)

lemma ready_again_cong: "accepted_in cs' = accepted_in cs \<Longrightarrow> ready_again e cs' = ready_again e cs"
  by (intro ext) (simp add: ready_again_def)

lemma not_ready_twice: "\<not> ready_again e cs n (readied_cycle e cs n c)"
  by (simp add: readied_cycle_def ready_again_def)

lemma refresh_pass_result:
  assumes "is_dict cs" and "distinct (map fst todo)"
    and "\<forall>(n, c) \<in> set todo. map_of cs n = Some c \<and> node_post_init c = Inr ()"
  shows "\<exists>cs'. refresh_pass e todo cs changed = Inr (cs', changed \<or> (\<exists>(n, c) \<in> set todo. ready_again e cs n c))
    \<and> is_dict cs' \<and> accepted_in cs' = accepted_in cs
    \<and> map_of cs' = (\<lambda>n. case map_of todo n of None \<Rightarrow> map_of cs n | Some c \<Rightarrow> Some (readied_cycle e cs n c))"
  using assms
proof (induction todo arbitrary: cs changed)
  case (Cons item todo)
  obtain n c where item [simp]: "item = (n, c)" by (cases item)
  have here: "map_of cs n = Some c" "node_post_init c = Inr ()" using Cons.prems(3) by auto
  have fresh: "map_of todo n = None" using Cons.prems(2) by (simp add: map_of_eq_None_iff)
  show ?case
  proof (cases "ready_again e cs n c")
    case True
    let ?cs = "dict_put n (c\<lparr>cy_state := PRODUCER_READY\<rparr>) cs"
    have same: "accepted_in ?cs = accepted_in cs"
    proof
      fix m show "accepted_in ?cs m = accepted_in cs m"
        using True here(1) Cons.prems(1) by (auto simp: accepted_in_def ready_again_def)
    qed
    have rest: "\<forall>(m, d) \<in> set todo. map_of ?cs m = Some d \<and> node_post_init d = Inr ()"
      using Cons.prems by (fastforce simp: rev_image_eqI)
    from Cons.IH [OF is_dict_put [OF Cons.prems(1)] _ rest, of True] Cons.prems(2)
    obtain cs' where run: "refresh_pass e todo ?cs True = Inr (cs', True)" and result: "is_dict cs'"
      "accepted_in cs' = accepted_in ?cs"
      "map_of cs' = (\<lambda>m. case map_of todo m of None \<Rightarrow> map_of ?cs m | Some d \<Rightarrow> Some (readied_cycle e ?cs m d))" by auto
    have cyc: "readied_cycle e ?cs = readied_cycle e cs"
      using ready_again_cong [OF same] by (intro ext) (simp add: readied_cycle_def)
    have "map_of cs' = (\<lambda>m. case map_of (item # todo) m of None \<Rightarrow> map_of cs m | Some d \<Rightarrow> Some (readied_cycle e cs m d))"
    proof
      fix m
      have "map_of ?cs m = (if m = n then Some (readied_cycle e cs n c) else map_of cs m)"
        using True Cons.prems(1) by (simp add: readied_cycle_def)
      then show "map_of cs' m = (case map_of (item # todo) m of None \<Rightarrow> map_of cs m | Some d \<Rightarrow> Some (readied_cycle e cs m d))"
        unfolding result(3) cyc using fresh by (cases "m = n") (auto split: option.split)
    qed
    moreover have "refresh_pass e (item # todo) cs changed = Inr (cs', True)"
      using True run here by simp
    moreover have "changed \<or> (\<exists>(m, d) \<in> set (item # todo). ready_again e cs m d)" using True by simp
    ultimately show ?thesis using result(1,2) same by auto
  next
    case False
    from Cons.IH [OF Cons.prems(1), of changed] Cons.prems(2,3)
    obtain cs' where run: "refresh_pass e todo cs changed = Inr (cs', changed \<or> (\<exists>(m, d) \<in> set todo. ready_again e cs m d))"
      and result: "is_dict cs'" "accepted_in cs' = accepted_in cs"
      "map_of cs' = (\<lambda>m. case map_of todo m of None \<Rightarrow> map_of cs m | Some d \<Rightarrow> Some (readied_cycle e cs m d))" by auto
    from False run have "refresh_pass e (item # todo) cs changed
      = Inr (cs', changed \<or> (\<exists>(m, d) \<in> set (item # todo). ready_again e cs m d))" by simp
    moreover have "map_of cs' = (\<lambda>m. case map_of (item # todo) m of None \<Rightarrow> map_of cs m | Some d \<Rightarrow> Some (readied_cycle e cs m d))"
    proof
      fix m
      show "map_of cs' m = (case map_of (item # todo) m of None \<Rightarrow> map_of cs m | Some d \<Rightarrow> Some (readied_cycle e cs m d))"
        unfolding result(3) using fresh here(1) False by (cases "m = n") (simp_all add: readied_cycle_def)
    qed
    ultimately show ?thesis using result(1,2) by blast
  qed
qed (auto simp: fun_eq_iff)

lemma refresh_pass_all:
  assumes "is_dict cs" and "\<forall>(n, c) \<in> set cs. node_post_init c = Inr ()"
  shows "refresh_pass e cs cs False = Inr (readied e cs, \<exists>(n, c) \<in> set cs. ready_again e cs n c)"
proof -
  have "\<forall>(n, c) \<in> set cs. map_of cs n = Some c \<and> node_post_init c = Inr ()"
    using assms by (auto simp: is_dict_in_set)
  from refresh_pass_result [OF assms(1) is_dict_distinct [OF assms(1)] this, of e False]
  obtain cs' where run: "refresh_pass e cs cs False = Inr (cs', \<exists>(n, c) \<in> set cs. ready_again e cs n c)"
    and d: "is_dict cs'"
    and m: "map_of cs' = (\<lambda>n. case map_of cs n of None \<Rightarrow> map_of cs n | Some c \<Rightarrow> Some (readied_cycle e cs n c))" by auto
  have "map_of cs' = map_of (readied e cs)"
    unfolding m by (rule ext) (simp add: map_of_readied split: option.split)
  with d assms(1) have "cs' = readied e cs" by (intro is_dict_eqI) simp_all
  with run show ?thesis by simp
qed

lemma refresh_loop_lemma:
  assumes "execution_ok e"
  shows "refresh_loop 2 e (ge_cycles e) = Some (Inr (readied e (ge_cycles e)))"
proof -
  let ?cs = "ge_cycles e" and ?cs' = "readied e (ge_cycles e)"
  have d: "is_dict ?cs" and valid: "\<forall>(n, c) \<in> set ?cs. node_post_init c = Inr ()"
    using assms by (auto simp: execution_ok_def cycles_ok_def is_dict_in_set node_ok_valid)
  have valid': "\<forall>(n, c) \<in> set ?cs'. node_post_init c = Inr ()"
    using valid by (auto simp: readied_def readied_cycle_def)
  note again = ready_again_cong [OF accepted_readied]
  have quiet: "\<not> (\<exists>(n, c) \<in> set ?cs'. ready_again e ?cs' n c)"
    unfolding again by (auto simp: readied_def not_ready_twice)
  have "readied e ?cs' = ?cs'"
    unfolding readied_def [of e ?cs'] by (rule map_idI) (use quiet in \<open>auto simp: readied_cycle_def\<close>)
  then have second: "refresh_pass e ?cs' ?cs' False = Inr (?cs', False)"
    using refresh_pass_all [OF _ valid'] d quiet by simp
  have same: "?cs' = ?cs" if "\<not> (\<exists>(n, c) \<in> set ?cs. ready_again e ?cs n c)"
    unfolding readied_def by (rule map_idI) (use that in \<open>auto simp: readied_cycle_def\<close>)
  show ?thesis
    using refresh_pass_all [OF d valid] second same by (auto simp: numeral_2_eq_2 simp del: refresh_pass.simps)
qed

text \<open>
  C35: The readiness loop ends after at most two passes, and computes one simultaneous step: exactly the
  blocked and stale nodes outside the pending repair whose producer inputs and barriers are accepted become
  ready to produce, and nothing else changes.
\<close>

theorem refresh_loop_exact:
  assumes "execution_ok e"
  shows "refresh_loop 2 e (ge_cycles e) = Some (Inr (readied e (ge_cycles e)))"
  by (rule refresh_loop_lemma [OF assms])

subsection \<open>Validation\<close>

definition execution_checks :: "(pyval \<Rightarrow> string) \<Rightarrow> GraphExecution \<Rightarrow> bool" where
  "execution_checks h e \<longleftrightarrow> keys (ge_cycles e) = set (node_names (ge_graph e))
     \<and> keys (ge_barriers e) \<subseteq> set (node_names (ge_graph e))
     \<and> (\<forall>(_, ps) \<in> set (ge_barriers e). set ps \<subseteq> set (node_names (ge_graph e)))
     \<and> (\<forall>c \<in> set (cohorts (ge_repairs e)). check_cohort h (ge_graph e) c = Inr ())"

lemma make_execution_Inr:
  "make_execution h e = Inr e' \<longleftrightarrow> execution_checks h e
     \<and> (case lg_pending (ge_repairs e) of
          None \<Rightarrow> e' = e
        | Some _ \<Rightarrow>
            if ge_state e \<in> {G_CANCELLED, G_REPLAN_REQUIRED} then
              \<exists>l. archive h (ge_repairs e) ''superseded'' (execution_state_value (ge_state e)) = Inr l
                \<and> e' = e\<lparr>ge_repairs := l\<rparr>
            else ge_state e \<noteq> G_COMPLETED \<and> ge_published e = [] \<and> e' = e)"
  unfolding make_execution_def execution_checks_def Let_def
  by (auto simp: rbind_check split: option.splits if_splits)

definition valid_execution :: "(pyval \<Rightarrow> string) \<Rightarrow> GraphExecution \<Rightarrow> bool" where
  "valid_execution h e \<longleftrightarrow> make_execution h e = Inr e"

lemma valid_execution_iff:
  "valid_execution h e \<longleftrightarrow> execution_checks h e
     \<and> (lg_pending (ge_repairs e) \<noteq> None \<longrightarrow> ge_state e = G_RUNNING \<and> ge_published e = [])"
proof -
  have "archive h l s r = Inr l' \<Longrightarrow> lg_pending l' = None" for l s r l'
    by (auto simp: archive_def make_ledger_def split: option.splits if_splits)
  then have "archive h (ge_repairs e) s r = Inr l \<Longrightarrow> lg_pending (ge_repairs e) = Some c
      \<Longrightarrow> e \<noteq> e\<lparr>ge_repairs := l\<rparr>" for l s r c
    by (cases e) auto
  then show ?thesis
    unfolding valid_execution_def make_execution_Inr
    by (cases "ge_state e") (auto split: option.splits)
qed

lemma make_cohort_same:
  assumes "make_cohort h c = Inr c'"
  shows "co_intents c' = co_intents c \<and> co_frontier c' = co_frontier c \<and> co_closures c' = co_closures c
    \<and> co_status c' = co_status c \<and> co_reason c' = co_reason c \<and> set (co_scope c') = set (co_scope c)"
proof -
  obtain scope captures where "strings (co_scope c) ''scope'' = Inr scope"
    and "c' = c\<lparr>co_scope := scope, co_captures := captures\<rparr>"
    using assms unfolding make_cohort_def Let_def by (auto split: if_splits)
  then show ?thesis by (auto simp: strings_def sorted_names_def split: if_splits)
qed

lemma check_cohort_cong:
  "co_intents c' = co_intents c \<Longrightarrow> co_frontier c' = co_frontier c \<Longrightarrow> set (co_scope c') = set (co_scope c)
     \<Longrightarrow> check_cohort h g c' = check_cohort h g c"
proof -
  assume same: "co_intents c' = co_intents c" "co_frontier c' = co_frontier c" "set (co_scope c') = set (co_scope c)"
  have "check_intent h g c' = check_intent h g c"
    by (rule ext) (simp add: check_intent_def at_node_def same)
  then show ?thesis by (simp add: check_cohort_def same)
qed

lemma archive_cohorts:
  assumes "archive h l status reason = Inr l'" and "lg_pending l = Some c"
  obtains sealed where "l' = \<lparr>lg_pending = None, lg_history = lg_history l @ [sealed]\<rparr>"
    "make_cohort h (c\<lparr>co_status := status, co_reason := reason\<rparr>) = Inr sealed"
  using assms by (auto simp: archive_def make_ledger_def split: if_splits)

text \<open>What the constructor returns it accepts unchanged.\<close>

lemma make_execution_valid:
  assumes "make_execution h e = Inr e'"
  shows "valid_execution h e' \<and> ge_graph e' = ge_graph e \<and> ge_state e' = ge_state e \<and> ge_cycles e' = ge_cycles e
    \<and> ge_barriers e' = ge_barriers e \<and> ge_published e' = ge_published e
    \<and> (ge_repairs e' = ge_repairs e \<or> ge_state e \<in> {G_CANCELLED, G_REPLAN_REQUIRED}
         \<and> archive h (ge_repairs e) ''superseded'' (execution_state_value (ge_state e)) = Inr (ge_repairs e'))"
proof (cases "lg_pending (ge_repairs e)")
  case None
  with assms have "e' = e" "execution_checks h e" by (simp_all add: make_execution_Inr)
  with None show ?thesis by (simp add: valid_execution_iff)
next
  case (Some c)
  show ?thesis
  proof (cases "ge_state e \<in> {G_CANCELLED, G_REPLAN_REQUIRED}")
    case True
    with assms Some obtain l where checks: "execution_checks h e"
      and arch: "archive h (ge_repairs e) ''superseded'' (execution_state_value (ge_state e)) = Inr l"
      and e': "e' = e\<lparr>ge_repairs := l\<rparr>" unfolding make_execution_Inr by auto
    from archive_cohorts [OF arch Some] obtain sealed where
      l: "l = \<lparr>lg_pending = None, lg_history = lg_history (ge_repairs e) @ [sealed]\<rparr>"
      and sealed: "make_cohort h (c\<lparr>co_status := ''superseded'', co_reason := execution_state_value (ge_state e)\<rparr>) = Inr sealed" .
    have "check_cohort h (ge_graph e) sealed = check_cohort h (ge_graph e) c"
      using make_cohort_same [OF sealed] by (intro check_cohort_cong) simp_all
    then have "execution_checks h e'"
      using checks Some by (simp add: execution_checks_def e' l cohorts_def)
    then show ?thesis using True arch by (simp add: valid_execution_iff e' l)
  next
    case False
    with assms Some have "e' = e" "execution_checks h e" "ge_state e \<noteq> G_COMPLETED" "ge_published e = []"
      unfolding make_execution_Inr by auto
    with False show ?thesis by (cases "ge_state e") (simp_all add: valid_execution_iff)
  qed
qed

text \<open>New cycles and barriers over the same nodes keep an execution valid.\<close>

lemma barriers_ok_declared:
  assumes "graph_ok g" and "barriers_ok g bs"
  shows "keys bs \<subseteq> set (node_names g) \<and> (\<forall>(_, ps) \<in> set bs. set ps \<subseteq> set (node_names g))"
proof -
  have "set ps \<subseteq> set (node_names g)" if "(n, ps) \<in> set bs" for n ps
  proof
    fix p assume "p \<in> set ps"
    with that assms(2) have "(p, n) \<in> (feeds g)\<^sup>+" by (auto simp: barriers_ok_def is_dict_in_set)
    with assms(1) show "p \<in> set (node_names g)" by (blast dest: feeds_trancl_declared)
  qed
  with assms(2) show ?thesis by (auto simp: barriers_ok_def)
qed

lemma execution_checks_ok:
  "execution_ok e \<Longrightarrow> execution_checks h e \<longleftrightarrow>
     (\<forall>c \<in> set (cohorts (ge_repairs e)). check_cohort h (ge_graph e) c = Inr ())"
  using barriers_ok_declared [of "ge_graph e" "ge_barriers e"]
  unfolding execution_ok_def cycles_ok_def execution_checks_def by blast

text \<open>New cycles and barriers over the same nodes keep an execution valid.\<close>

lemma valid_update:
  assumes "valid_execution h e" and "execution_ok e" and "execution_ok e'"
    and "ge_graph e' = ge_graph e" and "ge_repairs e' = ge_repairs e"
    and "lg_pending (ge_repairs e) \<noteq> None \<longrightarrow> ge_state e' = ge_state e \<and> ge_published e' = ge_published e"
  shows "make_execution h e' = Inr e'"
  using assms by (auto simp: valid_execution_def [symmetric] valid_execution_iff execution_checks_ok)

subsection \<open>Refreshing an execution\<close>

definition refreshed :: "GraphExecution \<Rightarrow> GraphExecution" where
  "refreshed e = e\<lparr>ge_cycles := readied e (ge_cycles e),
     ge_barriers := open_barriers (readied e (ge_cycles e)) (ge_barriers e)\<rparr>"

definition all_accepted :: "GraphExecution \<Rightarrow> bool" where
  "all_accepted e \<longleftrightarrow> (\<forall>n \<in> set (node_names (ge_graph e)). accepted_in (ge_cycles e) n)"

lemma refreshed_same [simp]:
  "ge_graph (refreshed e) = ge_graph e" "ge_state (refreshed e) = ge_state e"
  "ge_repairs (refreshed e) = ge_repairs e" "ge_published (refreshed e) = ge_published e"
  "accepted_in (ge_cycles (refreshed e)) = accepted_in (ge_cycles e)"
  by (simp_all add: refreshed_def accepted_readied)

lemma map_of_open_barriers:
  "is_dict bs \<Longrightarrow> map_of (open_barriers cs bs) n =
     (case map_of bs n of None \<Rightarrow> None | Some ps \<Rightarrow> if \<forall>p \<in> set ps. accepted_in cs p then None else Some ps)"
  unfolding open_barriers_def
proof -
  assume "is_dict bs"
  then have "distinct (map fst bs)" by (rule is_dict_distinct)
  then show "map_of (filter (\<lambda>(n, ps). \<not> (\<forall>p \<in> set ps. accepted_in cs p)) bs) n =
      (case map_of bs n of None \<Rightarrow> None | Some ps \<Rightarrow> if \<forall>p \<in> set ps. accepted_in cs p then None else Some ps)"
    by (induction bs) (auto split: option.split simp: map_of_eq_None_iff rev_image_eqI)
qed

lemma is_dict_filter: "is_dict d \<Longrightarrow> is_dict (filter P d)"
  by (simp add: is_dict_def distinct_map_filter sorted_filter)

lemma keys_readied: "keys (readied e cs) = keys cs"
  unfolding keys_def set_map [symmetric] readied_keys ..

lemma cycles_ok_readied:
  assumes "cycles_ok g cs"
  shows "cycles_ok g (readied e cs)"
proof -
  have "node_name c = n \<and> node_ok c" if c: "map_of (readied e cs) n = Some c" for n c
  proof -
    from c obtain c0 where "map_of cs n = Some c0" "c = readied_cycle e cs n c0" by (auto simp: map_of_readied)
    with assms show ?thesis
      by (auto simp: cycles_ok_def readied_cycle_def ready_again_def idle_states_def intro: node_ok_idle)
  qed
  with assms show ?thesis unfolding cycles_ok_def keys_readied is_dict_readied by blast
qed

lemma barriers_ok_open:
  assumes b: "barriers_ok g bs"
  shows "barriers_ok g (open_barriers cs bs)"
proof -
  have d: "is_dict bs" "is_dict (open_barriers cs bs)"
    using b by (auto simp: barriers_ok_def open_barriers_def intro: is_dict_filter)
  have sub: "set (open_barriers cs bs) \<subseteq> set bs" by (auto simp: open_barriers_def)
  then have "map_of bs n = Some ps" if "map_of (open_barriers cs bs) n = Some ps" for n ps
  proof -
    from map_of_SomeD [OF that] sub have "(n, ps) \<in> set bs" by blast
    with d(1) show ?thesis by (simp add: is_dict_in_set)
  qed
  moreover have "keys (open_barriers cs bs) \<subseteq> keys bs" using sub unfolding keys_def by (rule image_mono)
  ultimately show ?thesis using b d(2) unfolding barriers_ok_def by blast
qed

lemma execution_ok_refreshed: "execution_ok e \<Longrightarrow> execution_ok (refreshed e)"
  by (simp add: execution_ok_def refreshed_def cycles_ok_readied barriers_ok_open)

lemma sink_cycle: "execution_ok e \<Longrightarrow> \<exists>c. map_of (ge_cycles e) (gr_sink (ge_graph e)) = Some c"
  by (auto simp: execution_ok_def intro: cycles_ok_declared graph_ok_sink)

lemma all_accepted_list:
  assumes "execution_ok e"
  shows "\<not> list_ex (\<lambda>(_, c). cy_state c \<noteq> ACCEPTED) (ge_cycles e) \<longleftrightarrow> all_accepted e"
proof -
  have d: "is_dict (ge_cycles e)" and k: "keys (ge_cycles e) = set (node_names (ge_graph e))"
    using assms by (simp_all add: execution_ok_def cycles_ok_def)
  have "\<not> list_ex (\<lambda>(_, c). cy_state c \<noteq> ACCEPTED) (ge_cycles e) \<longleftrightarrow>
      (\<forall>(n, c) \<in> set (ge_cycles e). cy_state c = ACCEPTED)" by (auto simp: list_ex_iff)
  also have "\<dots> \<longleftrightarrow> (\<forall>n c. map_of (ge_cycles e) n = Some c \<longrightarrow> cy_state c = ACCEPTED)"
    unfolding is_dict_in_set [OF d, symmetric] by blast
  also have "\<dots> \<longleftrightarrow> (\<forall>n \<in> keys (ge_cycles e). accepted_in (ge_cycles e) n)"
    unfolding keys_map_of accepted_in_def by (fastforce split: option.splits)
  finally show ?thesis by (simp add: all_accepted_def k)
qed

text \<open>Every case of a refresh.\<close>

lemma refresh_cases:
  assumes ok: "execution_ok e" and valid: "valid_execution h e" and state: "ge_state e = G_RUNNING"
  defines "sink \<equiv> gr_sink (ge_graph e)"
  shows "refresh h e =
     (if accepted_in (ge_cycles e) sink \<and> lg_pending (ge_repairs e) = None then
        if all_accepted e then
          Inr (refreshed e\<lparr>ge_state := G_COMPLETED,
            ge_published := cy_accepted_product (the (map_of (ge_cycles (refreshed e)) sink))\<rparr>)
        else Inl (ValueError ''sink accepted before all executable predecessors closed'')
      else Inr (refreshed e))"
proof -
  let ?cs = "readied e (ge_cycles e)"
  have ok': "execution_ok (refreshed e)" using ok by (rule execution_ok_refreshed)
  obtain c where c: "map_of ?cs sink = Some c" using sink_cycle [OF ok'] by (auto simp: refreshed_def sink_def)
  then have sinkacc: "accepted_in (ge_cycles e) sink \<longleftrightarrow> cy_state c = ACCEPTED"
    using fun_cong [OF accepted_readied, of e "ge_cycles e" sink] by (simp add: accepted_in_def)
  have all: "list_ex (\<lambda>(_, c). cy_state c \<noteq> ACCEPTED) ?cs \<longleftrightarrow> \<not> all_accepted e"
  proof -
    have "all_accepted (refreshed e) \<longleftrightarrow> all_accepted e" by (simp add: all_accepted_def)
    moreover have "ge_cycles (refreshed e) = ?cs" by (simp add: refreshed_def)
    ultimately show ?thesis using all_accepted_list [OF ok'] by metis
  qed
  have plain: "make_execution h (refreshed e) = Inr (refreshed e)"
    by (rule valid_update [OF valid ok ok']) simp_all
  have finish: "make_execution h (refreshed e\<lparr>ge_state := G_COMPLETED, ge_published := p\<rparr>)
      = Inr (refreshed e\<lparr>ge_state := G_COMPLETED, ge_published := p\<rparr>)" if "lg_pending (ge_repairs e) = None" for p
    by (rule valid_update [OF valid ok]) (use that ok' in \<open>simp_all add: execution_ok_def\<close>)
  have loop: "refresh_loop 2 e (ge_cycles e) = Some (Inr ?cs)" by (rule refresh_loop_lemma [OF ok])
  have upd: "e\<lparr>ge_cycles := ?cs, ge_barriers := open_barriers ?cs (ge_barriers e)\<rparr> = refreshed e" by (simp add: refreshed_def)
  have upd': "e\<lparr>ge_cycles := ?cs, ge_barriers := open_barriers ?cs (ge_barriers e), ge_state := G_COMPLETED,
      ge_published := p\<rparr> = refreshed e\<lparr>ge_state := G_COMPLETED, ge_published := p\<rparr>" for p
    by (simp add: refreshed_def)
  show ?thesis
    unfolding refresh_def refresh_readiness_and_terminal_def state loop
    using plain finish sinkacc all c
    by (simp add: upd upd' Let_def cycle_at_def sink_def [symmetric]) (simp add: refreshed_def)
qed

subsection \<open>Progress\<close>

definition waiting_states :: "cycle_state set" where
  "waiting_states = {BLOCKED, STALE, PRODUCER_READY, REPAIR_READY, CHECKER_READY, ACCEPTED}"

lemma barrier_of_refreshed: "is_dict (ge_barriers e) \<Longrightarrow> set (barrier_of (refreshed e) n) \<subseteq> set (barrier_of e n)"
  by (auto simp: barrier_of_def refreshed_def map_of_open_barriers split: option.splits if_splits)

lemma runnable_nodes_set:
  "is_dict (ge_cycles e) \<Longrightarrow> ge_state e = G_RUNNING \<Longrightarrow>
     set (runnable_nodes e) = {n. \<exists>c. map_of (ge_cycles e) n = Some c \<and> runnable e n c}"
  by (force simp: runnable_nodes_def is_dict_in_set)

text \<open>A node that is not accepted, all of whose inputs are, can run after the refresh.\<close>

lemma first_open_node_runs:
  assumes ok: "execution_ok e" and running: "ge_state e = G_RUNNING" and free: "lg_pending (ge_repairs e) = None"
    and c: "map_of (ge_cycles e) n = Some c" "cy_state c \<in> waiting_states" "cy_state c \<noteq> ACCEPTED"
    and inputs: "\<forall>p. (p, n) \<in> (feeds (ge_graph e))\<^sup>+ \<longrightarrow> accepted_in (ge_cycles e) p"
  shows "n \<in> set (runnable_nodes (refreshed e))"
proof -
  let ?g = "ge_graph e"
  have n: "n \<in> set (node_names ?g)"
    using ok c(1) by (auto simp: execution_ok_def cycles_ok_def keys_map_of)
  have d: "is_dict (ge_cycles (refreshed e))" "is_dict (ge_barriers e)"
    using execution_ok_refreshed [OF ok] ok by (simp_all add: execution_ok_def cycles_ok_def barriers_ok_def)
  have fence: "pending_scope e = []" "pending_scope (refreshed e) = []"
    by (simp_all add: pending_scope_def fenced_nodes_def free)
  have wait: "accepted_in (ge_cycles e) p" if "p \<in> set (barrier_of e n)" for p
  proof (cases "map_of (ge_barriers e) n")
    case (Some ps)
    then have "(p, n) \<in> (feeds ?g)\<^sup>+" using that ok by (simp add: barrier_of_def execution_ok_def barriers_ok_def)
    with inputs show ?thesis by blast
  qed (use that in \<open>simp add: barrier_of_def\<close>)
  have pre: "accepted_in (ge_cycles e) p" if "p \<in> set (predecessors_of ?g n s)" for p s
    using predecessors_of_feed [OF n that] inputs by blast
  let ?c = "readied_cycle e (ge_cycles e) n c"
  have "p \<in> set (producer_predecessors ?g n) \<Longrightarrow> accepted_in (ge_cycles e) p" for p
    using pre [of p BLOCKED] by (simp add: predecessors_of_def)
  then have "cy_state ?c \<in> {PRODUCER_READY, REPAIR_READY, CHECKER_READY}"
    using c(2,3) wait fence by (auto simp: readied_cycle_def ready_again_def waiting_states_def)
  then have "runnable (refreshed e) n ?c"
    using pre wait barrier_of_refreshed [OF d(2), of n] fence unfolding runnable_def by auto
  moreover have "map_of (ge_cycles (refreshed e)) n = Some ?c" using c(1) by (simp add: refreshed_def map_of_readied)
  ultimately show ?thesis using runnable_nodes_set [OF d(1)] running by auto
qed

lemma some_node_runs:
  assumes ok: "execution_ok e" and acyclic: "acyclic (feeds (ge_graph e))" and running: "ge_state e = G_RUNNING"
    and free: "lg_pending (ge_repairs e) = None"
    and idle: "\<forall>n c. map_of (ge_cycles e) n = Some c \<longrightarrow> cy_state c \<in> waiting_states" and left: "\<not> all_accepted e"
  shows "\<exists>n. n \<in> set (runnable_nodes (refreshed e))"
proof -
  let ?g = "ge_graph e" and ?open = "{n \<in> set (node_names (ge_graph e)). \<not> accepted_in (ge_cycles e) n}"
  have g: "graph_ok ?g" using ok by (simp add: execution_ok_def)
  have "feeds ?g \<subseteq> set (node_names ?g) \<times> set (node_names ?g)" using feeds_declared [OF g] by auto
  then have "finite (feeds ?g)" by (rule finite_subset) simp
  then have "wf ((feeds ?g)\<^sup>+)" using acyclic by (intro wf_trancl finite_acyclic_wf)
  moreover obtain n0 where "n0 \<in> ?open" using left by (auto simp: all_accepted_def)
  ultimately obtain n where n: "n \<in> ?open" and first: "\<And>m. (m, n) \<in> (feeds ?g)\<^sup>+ \<Longrightarrow> m \<notin> ?open"
    by (rule wfE_min) blast
  then have inputs: "\<forall>p. (p, n) \<in> (feeds ?g)\<^sup>+ \<longrightarrow> accepted_in (ge_cycles e) p"
    using feeds_trancl_declared [OF g] by blast
  obtain c where c: "map_of (ge_cycles e) n = Some c"
    using n ok by (auto simp: execution_ok_def dest: cycles_ok_declared)
  moreover have "cy_state c \<noteq> ACCEPTED" using n c by (simp add: accepted_in_def)
  moreover have "cy_state c \<in> waiting_states" using idle c by blast
  ultimately show ?thesis using first_open_node_runs [OF ok running free] inputs by blast
qed

text \<open>
  C22: Scheduling makes progress. Take a running execution of an acyclic graph without pending repair in which no
  node runs or is suspended. If every module is accepted, the refresh completes the execution and publishes the
  sink's accepted product. If the sink is not accepted, the refresh succeeds, the execution still runs and some
  node may start. In the one state that is left, an accepted sink next to a module that is not, the refresh raises
  the error that names it.
\<close>

theorem graph_makes_progress:
  assumes "execution_ok e" and "valid_execution h e" and "acyclic (feeds (ge_graph e))"
    and "ge_state e = G_RUNNING" and "lg_pending (ge_repairs e) = None"
    and "\<forall>n c. map_of (ge_cycles e) n = Some c \<longrightarrow> cy_state c \<in> waiting_states"
  shows "if accepted_in (ge_cycles e) (gr_sink (ge_graph e)) \<and> \<not> all_accepted e
    then refresh h e = Inl (ValueError ''sink accepted before all executable predecessors closed'')
    else \<exists>e'. refresh h e = Inr e'
      \<and> (if all_accepted e
         then ge_state e' = G_COMPLETED
           \<and> (\<exists>c. map_of (ge_cycles e') (gr_sink (ge_graph e)) = Some c \<and> ge_published e' = cy_accepted_product c)
         else ge_state e' = G_RUNNING \<and> runnable_nodes e' \<noteq> [])"
proof (cases "all_accepted e")
  case True
  moreover have "gr_sink (ge_graph e) \<in> set (node_names (ge_graph e))"
    using assms(1) by (simp add: execution_ok_def graph_ok_sink)
  ultimately have "accepted_in (ge_cycles e) (gr_sink (ge_graph e))" by (simp add: all_accepted_def)
  moreover obtain c where "map_of (ge_cycles (refreshed e)) (gr_sink (ge_graph e)) = Some c"
    using sink_cycle [OF execution_ok_refreshed [OF assms(1)]] by auto
  ultimately show ?thesis using True assms(5) by (simp add: refresh_cases [OF assms(1,2,4)])
next
  case False
  obtain n where "n \<in> set (runnable_nodes (refreshed e))"
    using some_node_runs [OF assms(1,3,4,5,6) False] by blast
  then show ?thesis using False assms(4,5) by (auto simp: refresh_cases [OF assms(1,2,4)])
qed

end
