(* ===== verification/Graph_Invariants.thy ===== *)
theory Graph_Invariants
  imports Graph_Facts
begin

section \<open>Every operation of the executor keeps an execution sound\<close>

text \<open>
  The operations of \<open>GraphExecution\<close> on a sound execution return a sound execution: its cycles are valid and
  belong to the nodes of the graph, its barriers make nodes wait for something they transitively consume, and
  the constructor accepts it again.
\<close>

definition sound :: "(pyval \<Rightarrow> string) \<Rightarrow> GraphExecution \<Rightarrow> bool" where
  "sound h e \<longleftrightarrow> execution_ok e \<and> valid_execution h e"

lemma sound_make: "execution_ok e \<Longrightarrow> make_execution h e = Inr e' \<Longrightarrow> sound h e'"
  using make_execution_valid [of h e e'] by (simp add: sound_def execution_ok_def)

lemma execution_ok_cycles: "execution_ok e \<Longrightarrow> cycles_ok (ge_graph e) cs \<Longrightarrow> execution_ok (e\<lparr>ge_cycles := cs\<rparr>)"
  by (simp add: execution_ok_def)

lemma execution_ok_barriers: "execution_ok e \<Longrightarrow> barriers_ok (ge_graph e) bs \<Longrightarrow> execution_ok (e\<lparr>ge_barriers := bs\<rparr>)"
  by (simp add: execution_ok_def)

lemma execution_ok_fields [simp]:
  "execution_ok (e\<lparr>ge_state := s\<rparr>) = execution_ok e"
  "execution_ok (e\<lparr>ge_published := p\<rparr>) = execution_ok e"
  "execution_ok (e\<lparr>ge_repairs := l\<rparr>) = execution_ok e"
  by (simp_all add: execution_ok_def)

subsection \<open>Cycles\<close>

lemma transition_node_name:
  assumes "transition_node c act assignment product_ref verdict = Inr c'"
  shows "node_name c' = node_name c"
  using assms
proof (cases rule: transition_node_cases)
  case common
  then show ?thesis
    by (auto simp: common_role_transition_def common_control_transition_def node_class.replace_Inr Let_def
        split: if_splits option.splits)
qed simp_all

lemma transition_node_valid:
  assumes "transition_node c act assignment product_ref verdict = Inr c'" and "node_ok c"
  shows "node_ok c' \<and> node_name c' = node_name c"
  using assms transition_node_identity [OF assms(1)] transition_node_name [OF assms(1)]
    transition_node_inv [of "\<lambda>_ _. True", OF _ _ assms(1)]
  by (simp add: node_ok_def)

lemma replace_node_valid: "Cycle_Protocol.replace node_post_init c = Inr c' \<Longrightarrow> c' = c \<and> node_post_init c' = Inr ()"
  by (auto simp: node_class.replace_Inr)

lemma three_way:
  "(if a then x else if b then y else if d then Inr z else Inl err) = Inr r
     \<Longrightarrow> a \<and> x = Inr r \<or> b \<and> y = Inr r \<or> r = z"
  by (simp split: if_splits)

lemma stale_cycle_valid:
  assumes "stale_cycle allow_active preserve n c = Inr c'" and ok: "node_ok c"
  shows "node_ok c' \<and> node_name c' = node_name c"
proof -
  let ?c = "c\<lparr>cy_state := STALE, cy_assignment := None, cy_verdict := (if n = preserve then cy_verdict c else None)\<rparr>"
  consider "transition_node c MARK_STALE None [] None = Inr c'" | "c' = c"
    | "cy_state c \<in> {PRODUCER_READY, REPAIR_READY, CHECKER_READY, BLOCKED, STALE}" "Cycle_Protocol.replace node_post_init ?c = Inr c'"
    using three_way [OF assms(1) [unfolded stale_cycle_def]] by blast
  then show ?thesis
  proof cases
    case 3
    then have "cy_resume c = None" by (intro node_ok_resume [OF ok]) (auto simp: idle_states_def suspended_states_def)
    with replace_node_valid [OF 3(2)] show ?thesis by (auto simp: idle_states_def intro!: node_ok_waits)
  qed (use ok transition_node_valid in auto)
qed

lemma repair_ready_valid:
  assumes "repair_ready c = Inr c'" and ok: "node_ok c"
  shows "node_ok c' \<and> node_name c' = node_name c"
proof -
  from assms(1) obtain c1 c2 where
    c1: "(if cy_state c = ACCEPTED then transition_node c MARK_STALE None [] None else Inr c) = Inr c1"
    and c2: "(if cy_state c1 = STALE then transition_node c1 UNBLOCK None [] None else Inr c1) = Inr c2"
    and c': "(if cy_state c2 = PRODUCER_READY then Cycle_Protocol.replace node_post_init (c2\<lparr>cy_state := REPAIR_READY\<rparr>)
     else if cy_state c2 = REPAIR_READY then Inr c2
     else Inl (ValueError (''repair target must be quiescent, got '' @ cycle_state_value (cy_state c2)))) = Inr c'"
    unfolding repair_ready_def rbind_eq_Inr by blast
  have "node_ok c1 \<and> node_name c1 = node_name c" using c1 ok transition_node_valid by (auto split: if_split_asm)
  then have "node_ok c2 \<and> node_name c2 = node_name c" using c2 transition_node_valid by (auto split: if_split_asm)
  with c' show ?thesis
    by (auto simp: idle_states_def dest!: replace_node_valid intro: node_ok_idle split: if_split_asm)
qed

lemma repair_ready_state:
  assumes "repair_ready c = Inr c'"
  shows "cy_state c' = REPAIR_READY"
proof -
  from assms obtain c2 where "(if cy_state c2 = PRODUCER_READY then Cycle_Protocol.replace node_post_init (c2\<lparr>cy_state := REPAIR_READY\<rparr>)
     else if cy_state c2 = REPAIR_READY then Inr c2
     else Inl (ValueError (''repair target must be quiescent, got '' @ cycle_state_value (cy_state c2)))) = Inr c'"
    unfolding repair_ready_def rbind_eq_Inr by blast
  then show ?thesis using replace_node_valid [of "c2\<lparr>cy_state := REPAIR_READY\<rparr>"] by (auto split: if_split_asm)
qed

lemma cycles_ok_lookup: "cycles_ok g cs \<Longrightarrow> map_of cs n = Some c \<Longrightarrow> node_ok c \<and> node_name c = n"
  by (simp add: cycles_ok_def)

text \<open>A rejecting verdict on a waiting node.\<close>

lemma node_ok_verdict:
  assumes "Cycle_Protocol.replace node_post_init (c\<lparr>cy_verdict := v\<rparr>) = Inr c'" and ok: "node_ok c"
    and idle: "cy_state c \<in> idle_states"
  shows "node_ok c' \<and> node_name c' = node_name c"
  using replace_node_valid [OF assms(1)] idle node_ok_resume [OF ok idle_not_suspended [OF idle]]
    node_ok_assignment [OF ok idle_not_running [OF idle]]
  by (auto intro!: node_ok_waits)

lemma stale_cycles_ok:
  "stale_cycles allow_active preserve ns cs = Inr cs' \<Longrightarrow> cycles_ok g cs \<Longrightarrow> cycles_ok g cs'"
proof (induction ns arbitrary: cs)
  case (Cons n ns)
  show ?case
  proof (cases "map_of cs n")
    case (Some c)
    with Cons.prems(1) obtain c' where c': "stale_cycle allow_active preserve n c = Inr c'"
      and rest: "stale_cycles allow_active preserve ns (dict_put n c' cs) = Inr cs'" by auto
    from cycles_ok_lookup [OF Cons.prems(2) Some] stale_cycle_valid [OF c']
    have "cycles_ok g (dict_put n c' cs)" by (intro cycles_ok_put [OF Cons.prems(2) Some]) auto
    from Cons.IH [OF rest this] show ?thesis .
  qed (use Cons in simp)
qed simp

lemma repair_targets_ok:
  "repair_targets current ns cs = Inr cs' \<Longrightarrow> cycles_ok g cs \<Longrightarrow> cycles_ok g cs'"
proof (induction ns arbitrary: cs)
  case (Cons n ns)
  show ?case
  proof (cases "n = current")
    case False
    with Cons.prems(1) obtain c c' where c: "map_of cs n = Some c" and c': "repair_ready c = Inr c'"
      and rest: "repair_targets current ns (dict_put n c' cs) = Inr cs'" by (auto split: option.splits)
    from cycles_ok_lookup [OF Cons.prems(2) c] repair_ready_valid [OF c']
    have "cycles_ok g (dict_put n c' cs)" by (intro cycles_ok_put [OF Cons.prems(2) c]) auto
    from Cons.IH [OF rest this] show ?thesis .
  qed (use Cons in simp)
qed simp

lemma repair_providers_ok:
  "repair_providers pending ns cs = Inr cs' \<Longrightarrow> cycles_ok g cs \<Longrightarrow> cycles_ok g cs'"
proof (induction ns arbitrary: cs)
  case (Cons n ns)
  then obtain c c1 c2 v where c: "map_of cs n = Some c" and c1: "repair_ready c = Inr c1"
    and c2: "Cycle_Protocol.replace node_post_init (c1\<lparr>cy_verdict := v\<rparr>) = Inr c2"
    and rest: "repair_providers pending ns (dict_put n c2 cs) = Inr cs'"
    by (auto simp: Let_def split: option.splits)
  have "cycles_ok g (dict_put n c2 cs)"
    using cycles_ok_lookup [OF Cons.prems(2) c] repair_ready_valid [OF c1]
      node_ok_verdict [OF c2] repair_ready_state [OF c1]
    by (intro cycles_ok_put [OF Cons.prems(2) c]) (auto simp: idle_states_def)
  from Cons.IH [OF rest this] show ?case .
qed simp

lemma request_stale_ok:
  "request_stale h pending source items cs = Inr cs' \<Longrightarrow> cycles_ok g cs \<Longrightarrow> cycles_ok g cs'"
proof (induction items arbitrary: cs)
  case (Cons item items)
  then consider "request_stale h pending source items cs = Inr cs'"
    | c c' where "map_of cs (rn_node item) = Some c" "transition_node c REQUEST_STALE None [] None = Inr c'"
        "request_stale h pending source items (dict_put (rn_node item) c' cs) = Inr cs'"
    by (auto split: if_splits option.splits)
  then show ?case
  proof cases
    case 2
    from cycles_ok_lookup [OF Cons.prems(2) 2(1)] transition_node_valid [OF 2(2)]
    have "cycles_ok g (dict_put (rn_node item) c' cs)" by (intro cycles_ok_put [OF Cons.prems(2) 2(1)]) auto
    from Cons.IH [OF 2(3) this] show ?thesis .
  qed (use Cons in blast)
qed simp

subsection \<open>Barriers\<close>

lemma set_sorted_names: "set (sorted_names xs) = set xs"
  by (simp add: sorted_names_def)

lemma add_barrier_ok:
  assumes b: "barriers_ok g bs" and "graph_ok g" and "(provider, n) \<in> (feeds g)\<^sup>+"
  shows "barriers_ok g (add_barrier provider n bs)"
proof -
  let ?ps = "sorted_names (provider # (case map_of bs n of None \<Rightarrow> [] | Some ps \<Rightarrow> ps))"
  have n: "n \<in> set (node_names g)" using feeds_trancl_declared [OF assms(2,3)] by blast
  have d: "is_dict bs" using b by (simp add: barriers_ok_def)
  have old: "(p, n) \<in> (feeds g)\<^sup>+" if "map_of bs n = Some ps" "p \<in> set ps" for p ps
    using b that by (simp add: barriers_ok_def)
  have ps: "(p, n) \<in> (feeds g)\<^sup>+" if "p \<in> set ?ps" for p
    using that assms(3) old unfolding set_sorted_names by (cases "map_of bs n") auto
  show ?thesis
    using b d n ps by (simp add: barriers_ok_def add_barrier_def)
qed

lemma fold_barriers_ok:
  assumes "graph_ok g" and "\<And>n. n \<in> set ns \<Longrightarrow> (provider, n) \<in> (feeds g)\<^sup>+" and "barriers_ok g b"
  shows "barriers_ok g (fold (add_barrier provider) ns b)"
  using assms(2,3) by (induction ns arbitrary: b) (auto intro: add_barrier_ok [OF _ assms(1)])

lemma fold_providers_ok:
  assumes "graph_ok g" and "\<And>p n. p \<in> set ps \<Longrightarrow> n \<in> set (ns p) \<Longrightarrow> (p, n) \<in> (feeds g)\<^sup>+" and "barriers_ok g b"
  shows "barriers_ok g (fold (\<lambda>p. fold (add_barrier p) (ns p)) ps b)"
  using assms(2,3) by (induction ps arbitrary: b) (auto intro: fold_barriers_ok [OF assms(1)])

lemma repair_descendant_feeds: "n \<in> set (repair_descendants g p) \<Longrightarrow> (p, n) \<in> (feeds g)\<^sup>+"
  by (simp add: repair_descendants_set)

lemma dependency_consumers_feed:
  assumes "current \<in> set (node_names g)" and "provider \<in> set (checker_predecessors g current)"
    and "n \<in> set (dependency_consumers g current provider)"
  shows "(provider, n) \<in> (feeds g)\<^sup>+"
proof -
  have first: "(provider, current) \<in> feeds g" using assms(1,2) by (rule checker_predecessors_feed)
  have "n \<in> set (current # repair_descendants g current @ repair_descendants g provider)"
    using assms(3) unfolding dependency_consumers_def set_sorted_names set_filter by blast
  then consider "n = current" | "(current, n) \<in> (feeds g)\<^sup>+" | "(provider, n) \<in> (feeds g)\<^sup>+"
    using repair_descendant_feeds by auto
  then show ?thesis using first by cases (auto intro: trancl_into_trancl2)
qed

lemma finding_barriers_ok:
  assumes "barriers_ok g bs" and "graph_ok g" and "current \<in> set (node_names g)"
    and "set (fr_nodes route) \<subseteq> set (checker_predecessors g current)"
  shows "barriers_ok g (finding_barriers g current route bs)"
  unfolding finding_barriers_def
  by (rule fold_providers_ok [OF assms(2) _ assms(1)]) (use assms(3,4) in \<open>auto intro: dependency_consumers_feed\<close>)

lemma barriers_ok_filter:
  assumes b: "barriers_ok g bs"
  shows "barriers_ok g (filter P bs)"
proof -
  have d: "is_dict bs" "is_dict (filter P bs)" using b by (auto simp: barriers_ok_def intro: is_dict_filter)
  have "map_of bs n = Some ps" if "map_of (filter P bs) n = Some ps" for n ps
    using map_of_SomeD [OF that] d(1) by (simp add: is_dict_in_set)
  moreover have "keys (filter P bs) \<subseteq> keys bs" by (auto simp: keys_def)
  ultimately show ?thesis using b d(2) unfolding barriers_ok_def by blast
qed

lemma repair_barriers_ok:
  assumes "barriers_ok g bs" and "graph_ok g"
  shows "barriers_ok g (repair_barriers g providers consumers bs)"
  unfolding repair_barriers_def
  by (rule fold_providers_ok [OF assms(2) _ barriers_ok_filter [OF assms(1)]]) (auto intro: repair_descendant_feeds)

subsection \<open>Operations\<close>

lemma sound_ok: "sound h e \<Longrightarrow> execution_ok e"
  by (simp add: sound_def)

lemma sound_graph: "sound h e \<Longrightarrow> graph_ok (ge_graph e)"
  by (simp add: sound_def execution_ok_def)

lemma sound_cycles: "sound h e \<Longrightarrow> cycles_ok (ge_graph e) (ge_cycles e)"
  by (simp add: sound_def execution_ok_def)

lemma sound_barriers: "sound h e \<Longrightarrow> barriers_ok (ge_graph e) (ge_barriers e)"
  by (simp add: sound_def execution_ok_def)

lemma execution_ok_make: "make_execution h e = Inr e' \<Longrightarrow> execution_ok e \<Longrightarrow> execution_ok e'"
  using sound_make sound_ok by blast

lemma execution_ok_refresh:
  assumes "refresh_readiness_and_terminal h e = Inr e'" and ok: "execution_ok e"
  shows "execution_ok e'"
proof -
  have ok': "execution_ok (e\<lparr>ge_cycles := readied e (ge_cycles e), ge_barriers := open_barriers (readied e (ge_cycles e)) (ge_barriers e)\<rparr>)"
    using execution_ok_refreshed [OF ok] by (simp add: refreshed_def)
  show ?thesis
    using assms(1) ok ok'
    by (auto simp: refresh_readiness_and_terminal_def refresh_loop_lemma [OF ok] Let_def
        dest: execution_ok_make split: if_splits)
qed

lemma sound_refresh:
  assumes "refresh_readiness_and_terminal h e = Inr e'" and "sound h e"
  shows "sound h e'"
proof (cases "e' = e")
  case False
  then obtain e0 where "make_execution h e0 = Inr e'"
    using assms(1) by (auto simp: refresh_readiness_and_terminal_def Let_def split: if_splits)
  moreover have "execution_ok e'" by (rule execution_ok_refresh [OF assms(1) sound_ok [OF assms(2)]])
  ultimately show ?thesis using make_execution_valid by (simp add: sound_def)
qed (use assms(2) in simp)

lemma execution_ok_put:
  assumes "execution_ok e" and "map_of (ge_cycles e) n = Some c" and "node_name c' = n" and "node_ok c'"
  shows "execution_ok (e\<lparr>ge_cycles := dict_put n c' (ge_cycles e)\<rparr>)"
  using assms by (intro execution_ok_cycles cycles_ok_put) (auto simp: execution_ok_def)

lemma sound_with_cycle:
  assumes "with_cycle h e c = Inr e'" and "sound h e" and "node_ok c"
  shows "sound h e'"
proof -
  from assms(1) obtain previous e1 where previous: "map_of (ge_cycles e) (node_name c) = Some previous"
    and e1: "make_execution h (e\<lparr>ge_cycles := dict_put (node_name c) c (ge_cycles e)\<rparr>) = Inr e1"
    and e': "refresh_readiness_and_terminal h e1 = Inr e'"
    by (auto simp: with_cycle_def split: option.splits if_splits)
  have "sound h e1"
    by (rule sound_make [OF execution_ok_put [OF sound_ok [OF assms(2)] previous] e1]) (simp_all add: assms(3))
  with e' show ?thesis by (rule sound_refresh)
qed

lemma execution_ok_stale:
  assumes "mark_nodes_stale h e ns allow_active preserve = Inr e'" and "execution_ok e"
  shows "execution_ok e'"
  using assms execution_ok_make [of h _ e'] stale_cycles_ok [of allow_active preserve ns "ge_cycles e" _ "ge_graph e"]
  by (auto simp: mark_nodes_stale_def execution_ok_def intro!: execution_ok_cycles)

lemma make_execution_graph: "make_execution h e = Inr e' \<Longrightarrow> ge_graph e' = ge_graph e"
  using make_execution_valid by blast

lemma refresh_graph: "refresh_readiness_and_terminal h e = Inr e' \<Longrightarrow> ge_graph e' = ge_graph e"
  by (auto simp: refresh_readiness_and_terminal_def Let_def dest!: make_execution_graph split: if_splits)

lemma stale_graph: "mark_nodes_stale h e ns allow_active preserve = Inr e' \<Longrightarrow> ge_graph e' = ge_graph e"
  by (auto simp: mark_nodes_stale_def dest: make_execution_graph)

lemma stale_made: "mark_nodes_stale h e ns allow_active preserve = Inr e' \<Longrightarrow> \<exists>e0. make_execution h e0 = Inr e'"
  by (auto simp: mark_nodes_stale_def)

text \<open>A route sends a dependency finding only to inputs of the reporting checker.\<close>

lemma route_nodes:
  "route_finding e finding current dependency dependencies = Inr route \<Longrightarrow>
     current \<in> set (node_names (ge_graph e)) \<and> set (fr_nodes route) \<subseteq> set (checker_predecessors (ge_graph e) current)"
  by (auto simp: route_finding_def route_to_def Let_def split: FindingClass.splits if_splits)

text \<open>What was just constructed is valid.\<close>

lemma made_sound: "make_execution h e0 = Inr e \<Longrightarrow> execution_ok e \<Longrightarrow> sound h e"
  using make_execution_valid by (simp add: sound_def)

lemma execution_ok_repair_route:
  assumes "repair_route h e current finding route = Inr e'" and ok: "execution_ok e"
    and "current \<in> set (node_names (ge_graph e))"
    and "set (fr_nodes route) \<subseteq> set (checker_predecessors (ge_graph e) current)"
  shows "execution_ok e'"
proof -
  from assms(1) obtain ns cycles e1 e2 where
    cycles: "repair_targets current ns (ge_cycles e) = Inr cycles"
    and e1: "make_execution h (e\<lparr>ge_cycles := cycles\<rparr>) = Inr e1"
    and e2: "(if finding = DEPENDENCY_DEFECT then
        make_execution h (e1\<lparr>ge_barriers := finding_barriers (ge_graph e) current route (ge_barriers e1)\<rparr>)
      else Inr e1) = Inr e2"
    and e': "mark_nodes_stale h e2 (fr_stale route) False current = Inr e'"
    unfolding repair_route_def rbind_eq_Inr by blast
  have ok1: "execution_ok e1"
    using ok repair_targets_ok [OF cycles, of "ge_graph e"]
    by (intro execution_ok_make [OF e1] execution_ok_cycles) (simp_all add: execution_ok_def)
  have g1: "ge_graph e1 = ge_graph e" using make_execution_graph [OF e1] by simp
  have "execution_ok (e1\<lparr>ge_barriers := finding_barriers (ge_graph e) current route (ge_barriers e1)\<rparr>)"
    using finding_barriers_ok [of "ge_graph e" "ge_barriers e1" current route] assms(3,4) ok1 g1
    by (intro execution_ok_barriers) (simp_all add: execution_ok_def)
  then have "execution_ok e2"
    using e2 ok1 by (auto dest: execution_ok_make split: if_splits)
  then show ?thesis by (rule execution_ok_stale [OF e'])
qed

lemma repair_route_made: "repair_route h e current finding route = Inr e' \<Longrightarrow> \<exists>e0. make_execution h e0 = Inr e'"
  unfolding repair_route_def rbind_eq_Inr by (blast dest: stale_made)

lemma sound_reject:
  assumes "reject_verdict h e current c verdict finding route = Inr e'" and s: "sound h e"
    and c: "map_of (ge_cycles e) current = Some c" and current: "current \<in> set (node_names (ge_graph e))"
    and nodes: "set (fr_nodes route) \<subseteq> set (checker_predecessors (ge_graph e) current)"
  shows "sound h e'"
proof -
  from assms(1) obtain c' e1 e2 where
    c': "transition_node c (if fr_target route = NODE_CHECKER then CHECKER_RETRY else CHECKER_REJECTED) None []
      (Some verdict) = Inr c'"
    and e1: "make_execution h (e\<lparr>ge_cycles := dict_put current c' (ge_cycles e)\<rparr>) = Inr e1"
    and e2: "(if finding \<noteq> DEPENDENCY_DEFECT then refresh_readiness_and_terminal h e1 else Inr e1) = Inr e2"
    and rest: "(if fr_target route = NODE_CHECKER then Inr e2
      else if fr_target route = PLAN_CYCLE then
        rbind (mark_nodes_stale h e2 (fr_stale route) True current) (\<lambda>e3. make_execution h (e3\<lparr>ge_state := G_REPLAN_REQUIRED\<rparr>))
      else repair_route h e2 current finding route) = Inr e'"
    unfolding reject_verdict_def rbind_eq_Inr by blast
  have "node_name c' = current" "node_ok c'"
    using cycles_ok_lookup [OF sound_cycles [OF s] c] transition_node_valid [OF c'] by simp_all
  then have "sound h e1" by (intro sound_make [OF execution_ok_put [OF sound_ok [OF s] c] e1])
  then have s2: "sound h e2" and g2: "ge_graph e2 = ge_graph e"
    using e2 make_execution_graph [OF e1] by (auto dest: sound_refresh refresh_graph split: if_splits)
  consider "e' = e2" | "repair_route h e2 current finding route = Inr e'"
    | e3 where "mark_nodes_stale h e2 (fr_stale route) True current = Inr e3"
        "make_execution h (e3\<lparr>ge_state := G_REPLAN_REQUIRED\<rparr>) = Inr e'"
  proof (cases "fr_target route")
    case NODE_CHECKER
    with rest that(1) show thesis by simp
  next
    case NODE_PRODUCER
    with rest that(2) show thesis by simp
  next
    case PLAN_CYCLE
    with rest obtain e3 where "mark_nodes_stale h e2 (fr_stale route) True current = Inr e3"
      "make_execution h (e3\<lparr>ge_state := G_REPLAN_REQUIRED\<rparr>) = Inr e'" by (simp, blast)
    then show thesis by (rule that(3))
  qed
  then show ?thesis
  proof cases
    case 2
    have "execution_ok e'"
      by (rule execution_ok_repair_route [OF 2 sound_ok [OF s2]]) (use current nodes g2 in simp_all)
    with repair_route_made [OF 2] show ?thesis by (auto intro: made_sound)
  next
    case 3
    have "execution_ok e3" by (rule execution_ok_stale [OF 3(1) sound_ok [OF s2]])
    then show ?thesis by (intro sound_make [OF _ 3(2)]) simp
  qed (use s2 in simp)
qed

lemma node_ok_product:
  "Cycle_Protocol.replace node_post_init (c\<lparr>cy_accepted_product := p\<rparr>) = Inr c' \<Longrightarrow> node_ok c \<Longrightarrow> node_ok c'"
  by (drule replace_node_valid) (simp add: node_ok_def cycle_inv_defs)

lemma sound_apply_checker_verdict:
  assumes "apply_checker_verdict h e current accepted findings finding dependency dependencies product = Inr (e', route)"
    and s: "sound h e"
  shows "sound h e'"
proof -
  from assms(1) obtain c where c: "map_of (ge_cycles e) current = Some c"
    by (auto simp: apply_checker_verdict_def cycle_at_def split: option.splits)
  show ?thesis
  proof (cases accepted)
    case True
    with assms(1) obtain v c1 c2 where c1: "transition_node c CHECKER_ACCEPTED None [] (Some v) = Inr c1"
      and c2: "(if product \<noteq> [] then Cycle_Protocol.replace node_post_init (c1\<lparr>cy_accepted_product := product\<rparr>) else Inr c1) = Inr c2"
      and e': "with_cycle h e c2 = Inr e'"
      by (cases "product = []") (auto simp: apply_checker_verdict_def cycle_at_def c Let_def split: if_split_asm)
    have "node_ok c1" using transition_node_valid [OF c1] cycles_ok_lookup [OF sound_cycles [OF s] c] by blast
    then have "node_ok c2" using c2 by (auto intro: node_ok_product split: if_split_asm)
    with e' s show ?thesis by (rule sound_with_cycle)
  next
    case False
    with assms(1) c obtain f verdict r where "route_finding e f current dependency dependencies = Inr r"
      "reject_verdict h e current c verdict f r = Inr e'"
      by (auto simp: apply_checker_verdict_def cycle_at_def Let_def split: if_splits option.splits)
    with route_nodes s c show ?thesis by (blast intro: sound_reject)
  qed
qed

subsection \<open>Dependency repairs\<close>

lemma made_ok_sound: "make_execution h (e\<lparr>ge_repairs := l\<rparr>) = Inr e' \<Longrightarrow> execution_ok e \<Longrightarrow> sound h e'"
  using sound_make [of "e\<lparr>ge_repairs := l\<rparr>" h e'] by simp

lemma sound_set_pending: "set_pending h e pending = Inr e' \<Longrightarrow> execution_ok e \<Longrightarrow> sound h e'"
  by (auto simp: set_pending_def make_ledger_def intro: made_ok_sound)

lemma sound_register:
  assumes "register_dependency_repair h e i frontier = Inr e'" and s: "sound h e"
  shows "sound h e'"
proof (cases "find_intent (ge_repairs e) (intent_key h i)")
  case None
  with assms(1) obtain pending source where "admit_repair h e i source pending = Inr e'"
    unfolding register_dependency_repair_def by (auto split: option.splits if_split_asm)
  then obtain cycles where
    cycles: "request_stale h pending (ri_source i) (map snd (co_frontier pending)) (ge_cycles e) = Inr cycles"
    and e': "set_pending h (e\<lparr>ge_cycles := cycles, ge_published := []\<rparr>) pending = Inr e'"
    unfolding admit_repair_def by (auto split: list.splits if_split_asm)
  have "execution_ok (e\<lparr>ge_cycles := cycles\<rparr>)"
    using request_stale_ok [OF cycles sound_cycles [OF s]] by (intro execution_ok_cycles sound_ok [OF s])
  then show ?thesis by (intro sound_set_pending [OF e']) (simp add: execution_ok_def)
qed (use assms in \<open>auto simp: register_dependency_repair_def split: if_splits\<close>)

lemma sound_update_frontier:
  "update_dependency_repair_frontier h e frontier = Inr e' \<Longrightarrow> sound h e \<Longrightarrow> sound h e'"
  by (auto simp: update_dependency_repair_frontier_def intro: sound_set_pending sound_ok split: if_splits)

lemma sound_capture: "capture_dependency_repair h e k refs = Inr e' \<Longrightarrow> sound h e \<Longrightarrow> sound h e'"
  by (auto simp: capture_dependency_repair_def intro: sound_set_pending sound_ok)

lemma confirm_stale_valid: "confirm_stale c = Inr c' \<Longrightarrow> node_ok c \<Longrightarrow> node_ok c' \<and> node_name c' = node_name c"
  by (auto simp: confirm_stale_def dest!: transition_node_valid split: if_splits)

lemma sound_close:
  assumes "close_dependency_repair h e cert = Inr e'" and s: "sound h e"
  shows "sound h e'"
proof (cases "e' = e")
  case False
  with assms(1) obtain c c' updated where c: "cycle_at e (rn_node (cl_incarnation cert)) = Inr c"
    and c': "confirm_stale c = Inr c'"
    and e': "set_pending h (e\<lparr>ge_cycles := dict_put (node_name c') c' (ge_cycles e)\<rparr>) updated = Inr e'"
    unfolding close_dependency_repair_def rbind_eq_Inr by (auto split: if_split_asm)
  have m: "map_of (ge_cycles e) (rn_node (cl_incarnation cert)) = Some c" using c by (auto simp: cycle_at_def split: option.splits)
  have "node_ok c \<and> node_name c = rn_node (cl_incarnation cert)"
    using cycles_ok_lookup [OF sound_cycles [OF s] m] by blast
  with m confirm_stale_valid [OF c'] show ?thesis
    by (intro sound_set_pending [OF e'] execution_ok_put [OF sound_ok [OF s]]) auto
qed (use s in simp)

lemma sound_apply_pending:
  assumes "apply_pending h e pending = Inr (e', route)" and s: "sound h e"
  shows "sound h e'"
proof -
  from assms(1) obtain cycles e1 e2 l consumers where
    cycles: "repair_providers pending (cohort_providers pending) (ge_cycles e) = Inr cycles"
    and e1: "make_execution h (e\<lparr>ge_cycles := cycles\<rparr>) = Inr e1"
    and e2: "mark_nodes_stale h e1 consumers False [] = Inr e2"
    and e': "make_execution h (e2\<lparr>ge_barriers := repair_barriers (ge_graph e) (cohort_providers pending) consumers
      (ge_barriers e), ge_published := [], ge_repairs := l\<rparr>) = Inr e'"
    unfolding apply_pending_def Let_def rbind_eq_Inr by blast
  have "execution_ok e1"
    using repair_providers_ok [OF cycles sound_cycles [OF s]]
    by (intro execution_ok_make [OF e1] execution_ok_cycles [OF sound_ok [OF s]])
  then have ok2: "execution_ok e2" by (rule execution_ok_stale [OF e2])
  have g2: "ge_graph e2 = ge_graph e" using stale_graph [OF e2] make_execution_graph [OF e1] by simp
  have "execution_ok (e2\<lparr>ge_barriers := repair_barriers (ge_graph e) (cohort_providers pending) consumers (ge_barriers e)\<rparr>)"
    using repair_barriers_ok [OF sound_barriers [OF s] sound_graph [OF s]] g2
    by (intro execution_ok_barriers ok2) simp
  then show ?thesis by (intro sound_make [OF _ e']) (simp add: execution_ok_def)
qed

lemma sound_apply_repair:
  "apply_dependency_repair h e k = Inr (e', route) \<Longrightarrow> sound h e \<Longrightarrow> sound h e'"
  by (auto simp: apply_dependency_repair_def intro: sound_apply_pending split: list.splits if_splits)

lemma sound_supersede:
  "supersede_dependency_repairs h e reason = Inr e' \<Longrightarrow> sound h e \<Longrightarrow> sound h e'"
  by (auto simp: supersede_dependency_repairs_def intro: made_ok_sound sound_ok split: if_splits)

subsection \<open>New executions\<close>

lemma new_node_cycle_valid:
  "new_node_cycle i n generation s product = Inr c \<Longrightarrow> s \<in> idle_states \<Longrightarrow> node_ok c \<and> node_name c = n"
  unfolding new_node_cycle_def by (drule replace_node_valid) (auto intro!: node_ok_waits)

lemma map_res_cycles_ok:
  assumes "map_res f (node_names g) = Inr cycles" and "distinct (node_names g)"
    and f: "\<And>n k c. f n = Inr (k, c) \<Longrightarrow> k = n \<and> node_name c = n \<and> node_ok c"
  shows "cycles_ok g (dict_of cycles)"
proof -
  have all: "map fst cycles = xs \<and> (\<forall>(n, c) \<in> set cycles. node_name c = n \<and> node_ok c)"
    if "map_res f xs = Inr cycles" for xs
    using that by (induction xs arbitrary: cycles) (auto dest: f split: prod.splits)
  have k: "map fst cycles = node_names g" and v: "\<forall>(n, c) \<in> set cycles. node_name c = n \<and> node_ok c"
    using all [OF assms(1)] by auto
  have d: "distinct (map fst cycles)" by (simp only: k assms(2))
  then have m: "map_of (dict_of cycles) = map_of cycles" by simp
  have "keys (dict_of cycles) = set (node_names g)"
    unfolding keys_map_of m dom_map_of_conv_image_fst k [symmetric] by simp
  with d v m show ?thesis by (auto simp: cycles_ok_def dest!: map_of_SomeD)
qed

lemma graph_ok_distinct: "graph_ok g \<Longrightarrow> distinct (node_names g)"
  by (simp add: graph_ok_def)

lemma sound_fresh:
  assumes "make_execution h \<lparr>ge_graph = g, ge_state = G_RUNNING, ge_cycles = dict_of cycles, ge_published = [],
      ge_barriers = [], ge_repairs = empty_ledger\<rparr> = Inr e"
    and "graph_ok g" and "cycles_ok g (dict_of cycles)"
  shows "sound h e"
  by (rule sound_make [OF _ assms(1)]) (use assms(2,3) in \<open>simp add: execution_ok_def barriers_ok_def keys_def\<close>)

lemma sound_start: 
  assumes "start_execution h g = Inr e" and g: "graph_ok g"
  shows "sound h e"
proof -
  from assms(1) obtain cycles where cycles: "map_res (start_cycle g) (node_names g) = Inr cycles"
    and e: "make_execution h \<lparr>ge_graph = g, ge_state = G_RUNNING, ge_cycles = dict_of cycles, ge_published = [],
      ge_barriers = [], ge_repairs = empty_ledger\<rparr> = Inr e"
    by (auto simp: start_execution_def)
  have "cycles_ok g (dict_of cycles)"
    by (rule map_res_cycles_ok [OF cycles graph_ok_distinct [OF g]])
      (auto simp: start_cycle_def idle_states_def dest: new_node_cycle_valid)
  then show ?thesis by (rule sound_fresh [OF e g])
qed

end
