(* ===== verification/Cycle_Store.thy ===== *)
theory Cycle_Store
  imports Graph_Diff Graph_Invariants
begin

section \<open>The tables of cycles and graph generations\<close>

text \<open>
  \<open>bunshin/storage/cycles.py\<close>. A row of \<open>bunshin_v2_graph_generations\<close> holds a graph in the canonical order of
  its JSON form and, once an execution was stored, the execution metadata; the other tables hold one row per
  cycle, keyed by the cycle's identity. JSON texts are the values they decode to (the round trips of
  \<open>Graph_Protocol\<close>, \<open>Cycle_Properties\<close> and \<open>Dependency_Repair_Json\<close>). The time columns are left out: no
  operation reads them. A violated uniqueness constraint is a \<open>RuntimeError\<close>. Decoded objects are compared with their
  order, which Python ignores for dictionaries; both sides are written by the same canonical writer, and where they
  differ in order only, the model refuses more than the code.
\<close>

subsection \<open>Tables\<close>

record GraphRuntime =
  rt_state :: GraphExecutionState
  rt_published :: string
  rt_barriers :: "(string \<times> string list) list"
  rt_repairs :: DependencyRepairLedger

record GenerationRow =
  gn_graph :: GraphIR
  gn_workflow :: string
  gn_status :: string
  gn_runtime :: "GraphRuntime option"

record PlanRow =
  pr_workflow :: string
  pr_cycle :: Cycle

record NodeRow =
  nr_workflow :: string
  nr_graph :: string
  nr_generation :: int
  nr_name :: string
  nr_cycle :: NodeCycle

record CycleTables =
  ct_generations :: "GenerationRow list"
  ct_plans :: "(string \<times> PlanRow) list"
  ct_nodes :: "(string \<times> NodeRow) list"

definition integrity_error :: "'a res" where
  "integrity_error = Inl (RuntimeError ''UNIQUE constraint failed'')"

text \<open>The graph that its JSON form decodes to.\<close>

definition canonical_graph :: "GraphIR \<Rightarrow> GraphIR" where
  "canonical_graph g = g\<lparr>gr_nodes := sort_key fst (gr_nodes g), gr_edges := edge_order (gr_edges g)\<rparr>"

definition row_is :: "string \<Rightarrow> int \<Rightarrow> GenerationRow \<Rightarrow> bool" where
  "row_is graph_id generation r \<longleftrightarrow> gr_id (gn_graph r) = graph_id \<and> gr_generation (gn_graph r) = generation"

definition find_generation :: "CycleTables \<Rightarrow> string \<Rightarrow> int \<Rightarrow> GenerationRow option" where
  "find_generation db graph_id generation = find (row_is graph_id generation) (ct_generations db)"

text \<open>The row with the highest generation.\<close>

definition latest_row :: "GenerationRow list \<Rightarrow> GenerationRow option" where
  "latest_row rows = (if rows = [] then None else Some (last (sort_key (gr_generation \<circ> gn_graph) rows)))"

subsection \<open>Graph generations\<close>

definition latest_generation :: "CycleTables \<Rightarrow> string \<Rightarrow> int" where
  "latest_generation db graph_id =
     (case latest_row (filter (\<lambda>r. gr_id (gn_graph r) = graph_id) (ct_generations db)) of
        None \<Rightarrow> 0 | Some r \<Rightarrow> gr_generation (gn_graph r))"

definition store_graph_generation ::
  "(pyval \<Rightarrow> string) \<Rightarrow> CycleTables \<Rightarrow> string \<Rightarrow> GraphIR \<Rightarrow> string \<Rightarrow> (GraphIR \<times> CycleTables) res" where
  "store_graph_generation h db workflow_id g status =
     (case find_generation db (gr_id g) (gr_generation g) of
        Some r \<Rightarrow>
          if gn_workflow r \<noteq> workflow_id \<or> graph_to_dict h (gn_graph r) \<noteq> graph_to_dict h g then
            Inl (ValueError ''GraphIR generation identity is already bound to other content'')
          else Inr (gn_graph r, db)
      | None \<Rightarrow>
          if gr_generation g \<noteq> latest_generation db (gr_id g) + 1 then
            Inl (ValueError ''GraphIR generations must be appended without gaps'')
          else if list_ex (\<lambda>r. gn_workflow r = workflow_id \<and> gr_generation (gn_graph r) = gr_generation g
              \<or> generation_hash h (gn_graph r) = generation_hash h g) (ct_generations db) then integrity_error
          else Inr (g, db\<lparr>ct_generations := ct_generations db @
            [\<lparr>gn_graph = canonical_graph g, gn_workflow = workflow_id, gn_status = status, gn_runtime = None\<rparr>]\<rparr>))"

definition read_graph_generation :: "CycleTables \<Rightarrow> string \<Rightarrow> int option \<Rightarrow> GraphIR option" where
  "read_graph_generation db graph_id generation =
     map_option gn_graph (case generation of
        None \<Rightarrow> latest_row (filter (\<lambda>r. gr_id (gn_graph r) = graph_id) (ct_generations db))
      | Some n \<Rightarrow> find_generation db graph_id n)"

subsection \<open>Plan cycles\<close>

definition store_plan_cycle :: "CycleTables \<Rightarrow> string \<Rightarrow> Cycle \<Rightarrow> CycleTables res" where
  "store_plan_cycle db workflow_id c =
     (case map_of (ct_plans db) (cycle_id c) of
        Some row \<Rightarrow> Inr (db\<lparr>ct_plans := AList.update (cycle_id c) (row\<lparr>pr_cycle := c\<rparr>) (ct_plans db)\<rparr>)
      | None \<Rightarrow>
          if list_ex (\<lambda>(_, row). pr_workflow row = workflow_id) (ct_plans db) then integrity_error
          else Inr (db\<lparr>ct_plans := AList.update (cycle_id c) \<lparr>pr_workflow = workflow_id, pr_cycle = c\<rparr> (ct_plans db)\<rparr>))"

definition read_plan_cycle :: "CycleTables \<Rightarrow> string \<Rightarrow> Cycle option" where
  "read_plan_cycle db workflow_id =
     map_option (pr_cycle \<circ> snd) (find (\<lambda>(_, row). pr_workflow row = workflow_id) (ct_plans db))"

subsection \<open>Node cycles\<close>

definition max_generation :: "CycleTables \<Rightarrow> string \<Rightarrow> int" where
  "max_generation db workflow_id =
     fold max (map (nr_generation \<circ> snd) (filter (\<lambda>(_, r). nr_workflow r = workflow_id) (ct_nodes db))) 0"

definition read_node_cycles :: "CycleTables \<Rightarrow> string \<Rightarrow> int option \<Rightarrow> (string \<times> NodeCycle) list" where
  "read_node_cycles db workflow_id generation =
     (let n = (case generation of None \<Rightarrow> max_generation db workflow_id | Some n \<Rightarrow> n) in
      fold (\<lambda>(_, r). dict_put (node_name (nr_cycle r)) (nr_cycle r))
        (sort_key (nr_name \<circ> snd) (filter (\<lambda>(_, r). nr_workflow r = workflow_id \<and> nr_generation r = n) (ct_nodes db))) [])"

definition store_node_cycle :: "string \<Rightarrow> GraphIR \<Rightarrow> NodeCycle \<Rightarrow> CycleTables \<Rightarrow> CycleTables res" where
  "store_node_cycle workflow_id g c db =
     (case map_of (ct_nodes db) (cycle_id c) of
        Some row \<Rightarrow>
          if list_ex (\<lambda>(k, r). k \<noteq> cycle_id c \<and> nr_workflow r = nr_workflow row \<and> nr_generation r = gr_generation g
              \<and> nr_name r = nr_name row) (ct_nodes db) then integrity_error
          else Inr (db\<lparr>ct_nodes := AList.update (cycle_id c) (row\<lparr>nr_generation := gr_generation g, nr_cycle := c\<rparr>)
            (ct_nodes db)\<rparr>)
      | None \<Rightarrow>
          if list_ex (\<lambda>(_, r). nr_workflow r = workflow_id \<and> nr_generation r = gr_generation g \<and> nr_name r = node_name c)
              (ct_nodes db) then integrity_error
          else Inr (db\<lparr>ct_nodes := AList.update (cycle_id c) \<lparr>nr_workflow = workflow_id, nr_graph = gr_id g,
            nr_generation = gr_generation g, nr_name = node_name c, nr_cycle = c\<rparr> (ct_nodes db)\<rparr>))"

fun store_node_cycles :: "string \<Rightarrow> GraphIR \<Rightarrow> NodeCycle list \<Rightarrow> CycleTables \<Rightarrow> CycleTables res" where
  "store_node_cycles workflow_id g [] db = Inr db"
| "store_node_cycles workflow_id g (c # cs) db =
     rbind (store_node_cycle workflow_id g c db) (store_node_cycles workflow_id g cs)"

subsection \<open>Executions\<close>

fun lowercase_state :: "GraphExecutionState \<Rightarrow> string" where
  "lowercase_state G_RUNNING = ''running''"
| "lowercase_state G_REPLAN_REQUIRED = ''replan_required''"
| "lowercase_state G_COMPLETED = ''completed''"
| "lowercase_state G_CANCELLED = ''cancelled''"

definition runtime_of :: "GraphExecution \<Rightarrow> GraphRuntime" where
  "runtime_of e = \<lparr>rt_state = ge_state e, rt_published = ge_published e, rt_barriers = ge_barriers e,
     rt_repairs = ge_repairs e\<rparr>"

definition stored_repairs :: "GenerationRow \<Rightarrow> DependencyRepairLedger" where
  "stored_repairs r = (case gn_runtime r of None \<Rightarrow> empty_ledger | Some rt \<Rightarrow> rt_repairs rt)"

definition put_runtime :: "GraphExecution \<Rightarrow> CycleTables \<Rightarrow> CycleTables" where
  "put_runtime e db = db\<lparr>ct_generations := map (\<lambda>r.
     if row_is (gr_id (ge_graph e)) (gr_generation (ge_graph e)) r then
       r\<lparr>gn_status := lowercase_state (ge_state e), gn_runtime := Some (runtime_of e)\<rparr>
     else r) (ct_generations db)\<rparr>"

definition store_graph_execution ::
  "(pyval \<Rightarrow> string) \<Rightarrow> CycleTables \<Rightarrow> string \<Rightarrow> GraphExecution \<Rightarrow> CycleTables res" where
  "store_graph_execution h db workflow_id e =
     (case find_generation db (gr_id (ge_graph e)) (gr_generation (ge_graph e)) of
        None \<Rightarrow> Inl (ValueError ''GraphExecution requires a stored GraphIR generation'')
      | Some r \<Rightarrow>
          if gn_workflow r \<noteq> workflow_id \<or> generation_hash h (gn_graph r) \<noteq> generation_hash h (ge_graph e) then
            Inl (ValueError ''GraphExecution is bound to another workflow generation'')
          else
            rbind (assert_successor h (stored_repairs r) (ge_repairs e)) (\<lambda>_.
            rbind (store_node_cycles workflow_id (ge_graph e) (map snd (ge_cycles e)) db) (\<lambda>db'.
            Inr (put_runtime e db'))))"

definition upper :: "string \<Rightarrow> string" where
  "upper s = map (\<lambda>c. if CHR ''a'' \<le> c \<and> c \<le> CHR ''z'' then char_of (of_char c - 32 :: nat) else c) s"

definition state_of_text :: "string \<Rightarrow> GraphExecutionState option" where
  "state_of_text s = find (\<lambda>x. execution_state_value x = s) [G_RUNNING, G_REPLAN_REQUIRED, G_COMPLETED, G_CANCELLED]"

definition raw_state :: "GenerationRow \<Rightarrow> GraphExecutionState option" where
  "raw_state r = (case gn_runtime r of Some rt \<Rightarrow> Some (rt_state rt) | None \<Rightarrow> state_of_text (upper (gn_status r)))"

definition derived_state ::
  "GenerationRow \<Rightarrow> DependencyRepairLedger \<Rightarrow> (string \<times> NodeCycle) list \<Rightarrow> GraphExecutionState" where
  "derived_state r repairs cycles =
     (if raw_state r \<in> {Some G_CANCELLED, Some G_REPLAN_REQUIRED} then the (raw_state r)
      else if lg_pending repairs \<noteq> None then G_RUNNING
      else if accepted_in cycles (gr_sink (gn_graph r)) \<and> list_all (\<lambda>(_, c). cy_state c = ACCEPTED) cycles then G_COMPLETED
      else (case raw_state r of Some s \<Rightarrow> s | None \<Rightarrow> G_RUNNING))"

definition derived_published ::
  "GenerationRow \<Rightarrow> DependencyRepairLedger \<Rightarrow> (string \<times> NodeCycle) list \<Rightarrow> string" where
  "derived_published r repairs cycles =
     (let stored = (case gn_runtime r of None \<Rightarrow> [] | Some rt \<Rightarrow> rt_published rt) in
      if lg_pending repairs \<noteq> None then []
      else if stored \<noteq> [] then stored
      else if derived_state r repairs cycles = G_COMPLETED then
        (case map_of cycles (gr_sink (gn_graph r)) of None \<Rightarrow> [] | Some c \<Rightarrow> cy_accepted_product c)
      else [])"

definition restore_execution :: "(pyval \<Rightarrow> string) \<Rightarrow> CycleTables \<Rightarrow> string \<Rightarrow> GenerationRow \<Rightarrow> GraphExecution option res" where
  "restore_execution h db workflow_id r =
     (let g = gn_graph r; cycles = read_node_cycles db workflow_id (Some (gr_generation g)); repairs = stored_repairs r in
      if cycles = [] then Inr None
      else if map_of cycles (gr_sink g) = None \<and> raw_state r \<notin> {Some G_CANCELLED, Some G_REPLAN_REQUIRED}
          \<and> lg_pending repairs = None then Inl (KeyError (gr_sink g))
      else rbind (make_execution h \<lparr>ge_graph = g, ge_state = derived_state r repairs cycles, ge_cycles = cycles,
          ge_published = derived_published r repairs cycles,
          ge_barriers = (case gn_runtime r of None \<Rightarrow> [] | Some rt \<Rightarrow> rt_barriers rt), ge_repairs = repairs\<rparr>)
        (\<lambda>e. Inr (Some e)))"

definition read_graph_execution ::
  "(pyval \<Rightarrow> string) \<Rightarrow> CycleTables \<Rightarrow> string \<Rightarrow> int option \<Rightarrow> GraphExecution option res" where
  "read_graph_execution h db workflow_id generation =
     (case (case generation of
         None \<Rightarrow> latest_row (filter (\<lambda>r. gn_workflow r = workflow_id) (ct_generations db))
       | Some n \<Rightarrow> find (\<lambda>r. gn_workflow r = workflow_id \<and> gr_generation (gn_graph r) = n) (ct_generations db)) of
        None \<Rightarrow> Inr None
      | Some r \<Rightarrow> restore_execution h db workflow_id r)"

end
