(* ===== verification/Cycle_Properties.thy ===== *)
theory Cycle_Properties
  imports Cycle_Protocol
begin

section \<open>Cycles in storage and over time\<close>

text \<open>
  The JSON form of a cycle (\<open>_cycle_payload\<close> in \<open>bunshin/storage/serialization.py\<close>, and the two
  \<open>*_cycle_from_mapping\<close> functions of \<open>bunshin/cycle_protocol.py\<close>), and the properties of both cycles: what
  holds after any sequence of inputs, the round trip through storage, and the behaviour of nested
  suspensions.
\<close>

subsection \<open>The JSON form\<close>

definition assignment_payload :: "CycleAssignment \<Rightarrow> pyval" where
  "assignment_payload a = PDict [(''slot'', PStr (slot_value (as_slot a))), (''kind'', PStr (kind_value (as_kind a))),
     (''generation'', PInt (as_generation a)), (''input_fingerprint'', PStr (as_input a))]"

definition verdict_payload :: "CycleVerdict \<Rightarrow> pyval" where
  "verdict_payload v = PDict [(''accepted'', PBool (vd_accepted v)), (''generation'', PInt (vd_generation v)),
     (''finding_refs'', PList (map PStr (vd_findings v)))]"

definition optional :: "('x \<Rightarrow> pyval) \<Rightarrow> 'x option \<Rightarrow> pyval" where
  "optional f x = (case x of None \<Rightarrow> PNone | Some y \<Rightarrow> f y)"

definition cycle_payload :: "string \<Rightarrow> pydict \<Rightarrow> 'a Cycle_scheme \<Rightarrow> pydict" where
  "cycle_payload kind node_entry c =
     [(''cycle_id'', PStr (cycle_id c)), (''kind'', PStr kind), (''generation'', PInt (cy_generation c)),
      (''state'', PStr (cycle_state_value (cy_state c)))] @ node_entry @
     [(''active_assignment'', optional assignment_payload (cy_assignment c)),
      (''product_ref'', PStr (cy_product c)), (''accepted_product_ref'', PStr (cy_accepted_product c)),
      (''last_verdict'', optional verdict_payload (cy_verdict c)),
      (''resume_state'', optional (\<lambda>s. PStr (cycle_state_value s)) (cy_resume c))]"

definition plan_cycle_payload :: "Cycle \<Rightarrow> pydict" where
  "plan_cycle_payload c = cycle_payload ''plan'' [] c"

definition node_cycle_payload :: "NodeCycle \<Rightarrow> pydict" where
  "node_cycle_payload c = cycle_payload ''node'' [(''node_name'', PStr (node_name c))] c"

text \<open>An enumeration called on text.\<close>

definition enum_of :: "string \<Rightarrow> ('x \<times> string) list \<Rightarrow> string \<Rightarrow> 'x res" where
  "enum_of name members s = (case filter (\<lambda>(x, v). v = s) members of
       [] \<Rightarrow> Inl (ValueError (repr_str s @ '' is not a valid '' @ name))
     | (x, v) # _ \<Rightarrow> Inr x)"

definition state_of :: "string \<Rightarrow> cycle_state list \<Rightarrow> string \<Rightarrow> cycle_state res" where
  "state_of name states = enum_of name (map (\<lambda>s. (s, cycle_state_value s)) states)"

definition slot_of :: "string \<Rightarrow> CycleSlot res" where
  "slot_of = enum_of ''CycleSlot'' (map (\<lambda>s. (s, slot_value s)) [PRODUCER, CHECKER])"

definition kind_of :: "string \<Rightarrow> AssignmentKind res" where
  "kind_of = enum_of ''AssignmentKind''
     (map (\<lambda>s. (s, kind_value s)) [INITIAL, REVISION_KIND, REPAIR_KIND, RECHECK, RESUME_KIND])"

definition assignment_from_mapping :: "pyval \<Rightarrow> CycleAssignment option res" where
  "assignment_from_mapping v = (case v of
       PDict d \<Rightarrow>
         rbind (slot_of (str_or_empty (dget d ''slot''))) (\<lambda>slot.
         rbind (kind_of (str_or_empty (dget d ''kind''))) (\<lambda>kind.
         rbind (int_or_zero (dget d ''generation'')) (\<lambda>generation.
         let a = \<lparr>as_slot = slot, as_kind = kind, as_generation = generation,
                  as_input = str_or_empty (dget d ''input_fingerprint'')\<rparr> in
         rbind (assignment_post_init a) (\<lambda>_. Inr (Some a)))))
     | _ \<Rightarrow> Inr None)"

definition verdict_from_mapping :: "pyval \<Rightarrow> CycleVerdict option res" where
  "verdict_from_mapping v = (case v of
       PDict d \<Rightarrow>
         rbind (int_or_zero (dget d ''generation'')) (\<lambda>generation.
         rbind (list_or_empty (dget d ''finding_refs'')) (\<lambda>findings.
         let r = \<lparr>vd_accepted = truthy (dget d ''accepted''), vd_generation = generation,
                  vd_findings = map py_str findings\<rparr> in
         rbind (verdict_post_init r) (\<lambda>_. Inr (Some r))))
     | _ \<Rightarrow> Inr None)"

definition resume_from_mapping :: "string \<Rightarrow> cycle_state list \<Rightarrow> pydict \<Rightarrow> cycle_state option res" where
  "resume_from_mapping name states d =
     (if truthy (dget d ''resume_state'')
      then rbind (state_of name states (py_str (dget d ''resume_state''))) (\<lambda>s. Inr (Some s))
      else Inr None)"

definition plan_cycle_from_mapping :: "pydict \<Rightarrow> Cycle res" where
  "plan_cycle_from_mapping d =
     rbind (int_or_zero (dget d ''generation'')) (\<lambda>generation.
     rbind (state_of ''PlanCycleState'' PlanCycleState (str_or_empty (dget d ''state''))) (\<lambda>s.
     rbind (assignment_from_mapping (dget d ''active_assignment'')) (\<lambda>assignment.
     rbind (verdict_from_mapping (dget d ''last_verdict'')) (\<lambda>verdict.
     rbind (resume_from_mapping ''PlanCycleState'' PlanCycleState d) (\<lambda>resume.
     let c = \<lparr>cycle_id = str_or_empty (dget d ''cycle_id''), cy_generation = generation, cy_state = s,
              cy_assignment = assignment, cy_product = str_or_empty (dget d ''product_ref''),
              cy_accepted_product = str_or_empty (dget d ''accepted_product_ref''),
              cy_verdict = verdict, cy_resume = resume\<rparr> in
     rbind (plan_post_init c) (\<lambda>_. Inr c))))))"

definition node_cycle_from_mapping :: "pydict \<Rightarrow> NodeCycle res" where
  "node_cycle_from_mapping d =
     rbind (int_or_zero (dget d ''generation'')) (\<lambda>generation.
     rbind (state_of ''NodeCycleState'' NodeCycleState (str_or_empty (dget d ''state''))) (\<lambda>s.
     rbind (assignment_from_mapping (dget d ''active_assignment'')) (\<lambda>assignment.
     rbind (verdict_from_mapping (dget d ''last_verdict'')) (\<lambda>verdict.
     rbind (resume_from_mapping ''NodeCycleState'' NodeCycleState d) (\<lambda>resume.
     let c = \<lparr>cycle_id = str_or_empty (dget d ''cycle_id''), cy_generation = generation, cy_state = s,
              cy_assignment = assignment, cy_product = str_or_empty (dget d ''product_ref''),
              cy_accepted_product = str_or_empty (dget d ''accepted_product_ref''),
              cy_verdict = verdict, cy_resume = resume,
              node_name = str_or_empty (dget d ''node_name'')\<rparr> in
     rbind (node_post_init c) (\<lambda>_. Inr c))))))"

subsection \<open>The round trip\<close>

lemma cycle_state_value_inject [simp]: "cycle_state_value s = cycle_state_value t \<longleftrightarrow> s = t"
  by (cases s; cases t) simp_all

lemma cycle_state_value_nonempty [simp]: "cycle_state_value s \<noteq> []"
  by (cases s) simp_all

lemma state_of_value: "s \<in> set states \<Longrightarrow> state_of name states (cycle_state_value s) = Inr s"
  by (induction states) (auto simp: state_of_def enum_of_def)

lemma slot_of_value [simp]: "slot_of (slot_value s) = Inr s"
  by (cases s) (simp_all add: slot_of_def enum_of_def)

lemma kind_of_value [simp]: "kind_of (kind_value k) = Inr k"
  by (cases k) (simp_all add: kind_of_def enum_of_def)

lemma assignment_roundtrip:
  "(\<forall>a. assignment = Some a \<longrightarrow> assignment_post_init a = Inr ()) \<Longrightarrow>
     assignment_from_mapping (optional assignment_payload assignment) = Inr assignment"
  by (cases assignment; cases "the assignment")
     (simp_all add: assignment_from_mapping_def optional_def assignment_payload_def dget_def Let_def)

lemma map_py_str [simp]: "map (\<lambda>x. py_str (PStr x)) xs = xs" "map (py_str \<circ> PStr) xs = xs"
  by (simp_all add: comp_def)

lemma verdict_roundtrip:
  "(\<forall>v. verdict = Some v \<longrightarrow> verdict_post_init v = Inr ()) \<Longrightarrow>
     verdict_from_mapping (optional verdict_payload verdict) = Inr verdict"
  by (cases verdict; cases "the verdict")
     (simp_all add: verdict_from_mapping_def optional_def verdict_payload_def dget_def Let_def)

text \<open>A cycle as its class can hold it: validated, with members of its own enumeration.\<close>

definition storable :: "cycle_state list \<Rightarrow> 'a Cycle_scheme \<Rightarrow> bool" where
  "storable states c \<longleftrightarrow> cy_state c \<in> set states \<and> (\<forall>s. cy_resume c = Some s \<longrightarrow> s \<in> set states)
   \<and> (\<forall>a. cy_assignment c = Some a \<longrightarrow> assignment_post_init a = Inr ())
   \<and> (\<forall>v. cy_verdict c = Some v \<longrightarrow> verdict_post_init v = Inr ())"

lemma cycle_payload_fields:
  assumes "d = cycle_payload kind node_entry c" and "node_entry = [] \<or> (\<exists>n. node_entry = [(''node_name'', PStr n)])"
  shows "dget d ''cycle_id'' = PStr (cycle_id c)" "dget d ''generation'' = PInt (cy_generation c)"
    "dget d ''state'' = PStr (cycle_state_value (cy_state c))"
    "dget d ''active_assignment'' = optional assignment_payload (cy_assignment c)"
    "dget d ''product_ref'' = PStr (cy_product c)" "dget d ''accepted_product_ref'' = PStr (cy_accepted_product c)"
    "dget d ''last_verdict'' = optional verdict_payload (cy_verdict c)"
    "dget d ''resume_state'' = optional (\<lambda>s. PStr (cycle_state_value s)) (cy_resume c)"
  using assms by (auto simp: cycle_payload_def dget_def)

lemma resume_roundtrip:
  assumes "dget d ''resume_state'' = optional (\<lambda>s. PStr (cycle_state_value s)) resume"
    and "\<forall>s. resume = Some s \<longrightarrow> s \<in> set states"
  shows "resume_from_mapping name states d = Inr resume"
  using assms by (cases resume) (simp_all add: resume_from_mapping_def optional_def state_of_value)

lemma cycle_eta:
  "\<lparr>cycle_id = cycle_id c, cy_generation = cy_generation c, cy_state = cy_state c, cy_assignment = cy_assignment c,
    cy_product = cy_product c, cy_accepted_product = cy_accepted_product c, cy_verdict = cy_verdict c,
    cy_resume = cy_resume c\<rparr> = c"
  "\<lparr>cycle_id = cycle_id n, cy_generation = cy_generation n, cy_state = cy_state n, cy_assignment = cy_assignment n,
    cy_product = cy_product n, cy_accepted_product = cy_accepted_product n, cy_verdict = cy_verdict n,
    cy_resume = cy_resume n, node_name = node_name n\<rparr> = n"
  by (cases c, simp) (cases n, simp)

lemma plan_cycle_roundtrip:
  assumes "plan_post_init c = Inr ()" and "storable PlanCycleState c"
  shows "plan_cycle_from_mapping (plan_cycle_payload c) = Inr c"
proof -
  note fields_of_c = cycle_payload_fields [OF plan_cycle_payload_def, simplified]
  show ?thesis
    using assms resume_roundtrip [OF fields_of_c(8) [of c], where states = PlanCycleState and name = "''PlanCycleState''"]
    by (simp add: plan_cycle_from_mapping_def fields_of_c storable_def assignment_roundtrip verdict_roundtrip
        state_of_value Let_def cycle_eta)
qed

lemma node_cycle_roundtrip:
  assumes "node_post_init c = Inr ()" and "storable NodeCycleState c"
  shows "node_cycle_from_mapping (node_cycle_payload c) = Inr c"
proof -
  note fields_of_c = cycle_payload_fields [OF node_cycle_payload_def, simplified]
  have name: "dget (node_cycle_payload c) ''node_name'' = PStr (node_name c)"
    by (simp add: node_cycle_payload_def cycle_payload_def dget_def)
  show ?thesis
    using assms resume_roundtrip [OF fields_of_c(8) [of c], where states = NodeCycleState and name = "''NodeCycleState''"]
    by (simp add: node_cycle_from_mapping_def fields_of_c name storable_def assignment_roundtrip
        verdict_roundtrip state_of_value Let_def cycle_eta)
qed

text \<open>C38: Storing a cycle loses nothing: the JSON form of a plan cycle or of a node cycle that the store writes,
  read back, is the same cycle.\<close>

theorem cycle_roundtrips:
  assumes "plan_post_init c = Inr ()" and "storable PlanCycleState c"
    and "node_post_init n = Inr ()" and "storable NodeCycleState n"
  shows "plan_cycle_from_mapping (plan_cycle_payload c) = Inr c
    \<and> node_cycle_from_mapping (node_cycle_payload n) = Inr n"
  using assms plan_cycle_roundtrip node_cycle_roundtrip by blast

subsection \<open>After any sequence of inputs\<close>

definition fresh_plan :: "string \<Rightarrow> Cycle" where
  "fresh_plan i = \<lparr>cycle_id = i, cy_generation = 1, cy_state = PRODUCER_READY, cy_assignment = None,
     cy_product = [], cy_accepted_product = [], cy_verdict = None, cy_resume = None\<rparr>"

definition fresh_node :: "string \<Rightarrow> string \<Rightarrow> NodeCycle" where
  "fresh_node i name = \<lparr>cycle_id = i, cy_generation = 1, cy_state = BLOCKED, cy_assignment = None,
     cy_product = [], cy_accepted_product = [], cy_verdict = None, cy_resume = None, node_name = name\<rparr>"

lemma fresh_good: "i \<noteq> [] \<Longrightarrow> good_plan (fresh_plan i)" "i \<noteq> [] \<Longrightarrow> name \<noteq> [] \<Longrightarrow> good_node (fresh_node i name)"
  by (simp_all add: good_plan_def good_node_def fresh_plan_def fresh_node_def plan_post_init_def
      node_post_init_def validate_cycle_generation_Inr cycle_inv_plain active_slot_def)

text \<open>What a good cycle promises to its readers.\<close>

definition cycle_promises :: "'a Cycle_scheme \<Rightarrow> bool" where
  "cycle_promises c \<longleftrightarrow>
     (cy_state c = PRODUCING \<longrightarrow> active_slot c = Some PRODUCER)
   \<and> (cy_state c = CHECKING \<longrightarrow> active_slot c = Some CHECKER \<and> cy_product c \<noteq> [])
   \<and> (is_quiescent c \<longrightarrow> cy_assignment c = None)
   \<and> (\<forall>a. cy_assignment c = Some a \<longrightarrow> as_generation a = cy_generation c)
   \<and> (cy_state c = ACCEPTED \<longrightarrow> cy_product c \<noteq> [] \<and> cy_accepted_product c = cy_product c
        \<and> (\<exists>v. cy_verdict c = Some v \<and> vd_accepted v \<and> vd_generation v = cy_generation c))"

lemma cycle_invD:
  assumes "cycle_inv c"
  shows "cy_state c = PRODUCING \<Longrightarrow> active_slot c = Some PRODUCER"
    and "cy_state c = CHECKING \<Longrightarrow> active_slot c = Some CHECKER \<and> cy_product c \<noteq> []"
    and "cy_state c = ACCEPTED \<Longrightarrow> accepting c"
  using assms by (simp_all add: cycle_inv_with_def at_or_resumes_def)

lemma cycle_promises:
  assumes "cycle_inv c" and "validate_cycle_generation c = Inr ()"
  shows "cycle_promises c"
  using cycle_invD [OF assms(1)] cycle_inv_quiescent [OF assms(1)] assms(2)
  unfolding cycle_promises_def validate_cycle_generation_Inr accepting_with_def by blast

lemma good_promises: "good_plan c \<Longrightarrow> cycle_promises c" "good_node n \<Longrightarrow> cycle_promises n"
  by (auto simp: good_plan_def good_node_def plan_post_init_def node_post_init_def intro: cycle_promises
      split: if_splits)

lemma plan_cycle_histories:
  assumes "good_plan c"
  shows "cycle_promises (cycle_run plan_step c is)
    \<and> cycle_id (cycle_run plan_step c is) = cycle_id c
    \<and> cy_generation c \<le> cy_generation (cycle_run plan_step c is)"
  using good_promises(1) [OF plan_protocol.run_good [OF assms]] plan_protocol.run_identity by auto

lemma node_cycle_histories:
  assumes "good_node c"
  shows "cycle_promises (cycle_run node_step c is)
    \<and> cycle_id (cycle_run node_step c is) = cycle_id c
    \<and> cy_generation c \<le> cy_generation (cycle_run node_step c is)"
  using good_promises(2) [OF node_protocol.run_good [OF assms]] node_protocol.run_identity by auto

text \<open>C27: Plan and node cycles: after any sequence of inputs, accepted and refused ones alike and dependency
  invalidation included, a running slot has its own role assigned, a quiescent cycle has no active assignment,
  no assignment belongs to another generation, and an accepted cycle was accepted by a verdict of the current
  generation on exactly the product it carries. The identity is kept and the generation never goes back.\<close>

theorem cycle_histories:
  assumes "good_plan c" and "good_node n"
  shows "cycle_promises (cycle_run plan_step c is) \<and> cycle_id (cycle_run plan_step c is) = cycle_id c
    \<and> cy_generation c \<le> cy_generation (cycle_run plan_step c is)
    \<and> cycle_promises (cycle_run node_step n is) \<and> cycle_id (cycle_run node_step n is) = cycle_id n
    \<and> cy_generation n \<le> cy_generation (cycle_run node_step n is)"
  using plan_cycle_histories [OF assms(1)] node_cycle_histories [OF assms(2)] by blast

text \<open>A refused input is always a \<open>CycleTransitionError\<close>: from a valid cycle the validation repeated by
  \<open>replace\<close> never fails, so no other exception reaches the caller.\<close>

lemma cycle_refusals:
  "(good_plan c \<and> plan_step c i = Inl e \<longrightarrow> (\<exists>m. e = CycleTransitionError m))
   \<and> (good_node n \<and> node_step n i = Inl e \<longrightarrow> (\<exists>m. e = CycleTransitionError m))"
  by (auto dest: plan_protocol.step_error node_protocol.step_error)

subsection \<open>Suspension\<close>

lemma no_common_target:
  "common_target s REQUEST_PAUSE = None" "common_target s PAUSE_DONE = None" "common_target s RESUME = None"
  "common_target s WAIT_EXTERNAL = None" "common_target s EXTERNAL_RESUMED = None"
  "common_target s REQUIRE_TRIAGE = None" "common_target s RESOLVE_TRIAGE = None"
  by (simp_all add: common_target_def COMMON_TRANSITIONS_def)

lemmas suspension_simps = no_common_target common_role_transition_def common_control_transition_def Let_def
  plan_step_def node_step_def transition_plan_def transition_node_def

text \<open>An input with nothing but an action.\<close>

abbreviation bare :: "CycleAction \<Rightarrow> cycle_input" where
  "bare act \<equiv> (act, None, [], None)"

text \<open>Pausing and resuming a plan or node cycle: from any state that is not already paused, cancelled or
  rejected, it comes back in the resume point of that state (a producer or checker that was running is ready
  to be started again, every other state is kept), without assignment or resume point, and with nothing else
  changed.\<close>

lemma cycle_pause_resume:
  "(plan_post_init c = Inr () \<and> cy_state c \<notin> {CANCELLED_STATE, REJECTED, PAUSE_REQUESTED, PAUSED_STATE} \<longrightarrow>
      cycle_run plan_step c [bare REQUEST_PAUSE, bare PAUSE_DONE, bare RESUME]
        = c\<lparr>cy_state := resume_point (cy_state c), cy_assignment := None, cy_resume := None\<rparr>)
   \<and> (node_post_init n = Inr () \<and> cy_state n \<notin> {CANCELLED_STATE, REJECTED, PAUSE_REQUESTED, PAUSED_STATE} \<longrightarrow>
      cycle_run node_step n [bare REQUEST_PAUSE, bare PAUSE_DONE, bare RESUME]
        = n\<lparr>cy_state := resume_point (cy_state n), cy_assignment := None, cy_resume := None\<rparr>)"
  by (simp add: suspension_simps resumed_state_def)

text \<open>Nested suspensions forget the resume point: a checker that waits externally comes back as ready to check,
  but if the wait is paused and resumed in between, the same external wait comes back as ready to produce.
  (\<open>REQUEST_PAUSE\<close> overwrites the saved resume point with WAITING_EXTERNAL.)\<close>

lemma paused_external_wait_restarts_production:
  assumes "plan_post_init c = Inr ()" and "cy_state c = CHECKING"
  shows "cy_state (cycle_run plan_step c [bare WAIT_EXTERNAL, bare EXTERNAL_RESUMED]) = CHECKER_READY
    \<and> cy_state (cycle_run plan_step c [bare WAIT_EXTERNAL, bare REQUEST_PAUSE, bare PAUSE_DONE, bare RESUME,
      bare EXTERNAL_RESUMED]) = PRODUCER_READY"
  using assms by (simp_all add: suspension_simps resumed_state_def resume_point_def)

text \<open>Dependency invalidation of a node: a stale request confirmed for the pending assignment makes the node stale
  with no assignment and no verdict. But if the node passes through triage in between, the request is
  forgotten: the confirmation is refused and the node is left in CANCEL_REQUESTED as if the user had
  cancelled it.\<close>

lemma stale_request_confirmed_or_forgotten:
  assumes "node_post_init n = Inr ()" and "cy_state n = PRODUCING"
  shows "cycle_run node_step n [bare REQUEST_STALE, (STALE_CONFIRMED, cy_assignment n, [], None)]
      = n\<lparr>cy_state := STALE, cy_assignment := None, cy_verdict := None, cy_resume := None\<rparr>
    \<and> cy_state (cycle_run node_step n [bare REQUEST_STALE, bare REQUIRE_TRIAGE, bare RESOLVE_TRIAGE,
      (STALE_CONFIRMED, assignment, [], None)]) = CANCEL_REQUESTED"
  using assms by (simp_all add: suspension_simps resumed_state_def resume_point_def)

subsection \<open>Instances\<close>

text \<open>The properties at concrete cycles and inputs.\<close>

theorem cycle_roundtrips_witness:
  "plan_cycle_from_mapping (plan_cycle_payload (fresh_plan ''c'')) = Inr (fresh_plan ''c'')
   \<and> node_cycle_from_mapping (node_cycle_payload (fresh_node ''c'' ''n'')) = Inr (fresh_node ''c'' ''n'')"
  by (rule cycle_roundtrips)
     (simp_all add: fresh_plan_def fresh_node_def plan_post_init_def node_post_init_def validate_cycle_generation_Inr
       storable_def PlanCycleState_def NodeCycleState_def)

theorem cycle_histories_witness:
  "cycle_promises (cycle_run plan_step (fresh_plan ''c'')
     [(START_PRODUCER, Some \<lparr>as_slot = PRODUCER, as_kind = INITIAL, as_generation = 1, as_input = ''f''\<rparr>, [], None),
      (PRODUCER_SUBMITTED, None, ''product'', None)])
   \<and> cycle_promises (cycle_run node_step (fresh_node ''c'' ''n'')
     [(UNBLOCK, None, [], None), (REQUEST_STALE, None, [], None)])"
  using cycle_histories [OF fresh_good(1) [of "''c''"] fresh_good(2) [of "''c''" "''n''"]] by blast

lemma cycle_refusals_witness:
  "\<exists>m. plan_step (fresh_plan ''c'') (START_CHECKER, None, [], None) = Inl (CycleTransitionError m)"
proof -
  obtain e where "plan_step (fresh_plan ''c'') (START_CHECKER, None, [], None) = Inl e"
    by (simp add: fresh_plan_def plan_step_def transition_plan_def common_target_def COMMON_TRANSITIONS_def
        common_control_transition_def common_role_transition_def Let_def)
  with cycle_refusals [of "fresh_plan ''c''" "(START_CHECKER, None, [], None)" e] fresh_good(1) [of "''c''"]
  show ?thesis by auto
qed

lemma cycle_pause_resume_witness:
  "cycle_run plan_step (fresh_plan ''c'') [bare REQUEST_PAUSE, bare PAUSE_DONE, bare RESUME] = fresh_plan ''c''"
  using cycle_pause_resume [of "fresh_plan ''c''"]
  by (simp add: fresh_plan_def plan_post_init_def validate_cycle_generation_Inr resume_point_def)

definition checking_plan :: Cycle where
  "checking_plan = (fresh_plan ''c'')\<lparr>cy_state := CHECKING, cy_product := ''product'',
     cy_assignment := Some \<lparr>as_slot = CHECKER, as_kind = INITIAL, as_generation = 1, as_input = ''f''\<rparr>\<rparr>"

lemma paused_external_wait_restarts_production_witness:
  "cy_state (cycle_run plan_step checking_plan [bare WAIT_EXTERNAL, bare REQUEST_PAUSE, bare PAUSE_DONE, bare RESUME,
     bare EXTERNAL_RESUMED]) = PRODUCER_READY"
  using paused_external_wait_restarts_production [of checking_plan]
  by (simp add: checking_plan_def fresh_plan_def plan_post_init_def validate_cycle_generation_Inr)

definition producing_node :: NodeCycle where
  "producing_node = (fresh_node ''c'' ''n'')\<lparr>cy_state := PRODUCING,
     cy_assignment := Some \<lparr>as_slot = PRODUCER, as_kind = INITIAL, as_generation = 1, as_input = ''f''\<rparr>\<rparr>"

lemma stale_request_confirmed_or_forgotten_witness:
  "cy_state (cycle_run node_step producing_node [bare REQUEST_STALE, (STALE_CONFIRMED, cy_assignment producing_node, [], None)]) = STALE
   \<and> cy_state (cycle_run node_step producing_node [bare REQUEST_STALE, bare REQUIRE_TRIAGE, bare RESOLVE_TRIAGE,
      (STALE_CONFIRMED, None, [], None)]) = CANCEL_REQUESTED"
proof -
  have "node_post_init producing_node = Inr ()" "cy_state producing_node = PRODUCING"
    by (simp_all add: producing_node_def fresh_node_def node_post_init_def validate_cycle_generation_Inr)
  from stale_request_confirmed_or_forgotten [OF this] show ?thesis by simp
qed

end
