(* ===== verification/Workflow_Runtime.thy ===== *)
theory Workflow_Runtime
  imports Cycle_Store Cycle_Properties
begin

section \<open>The workflow coordinator\<close>

text \<open>
  \<open>bunshin/workflow_runtime.py\<close>: \<open>WorkflowCoordinator\<close> owns the plan cycle and the graph execution of each
  workflow. Every method reads the stored cycles, makes one transition and stores the result; a method is a
  function from the tables to its result and the new tables, run in one transaction.
\<close>

type_synonym 'r transaction = "('r \<times> CycleTables) res"

subsection \<open>Plan cycles\<close>

definition make_assignment :: "CycleSlot \<Rightarrow> AssignmentKind \<Rightarrow> int \<Rightarrow> string \<Rightarrow> CycleAssignment res" where
  "make_assignment slot kind generation input =
     (let a = \<lparr>as_slot = slot, as_kind = kind, as_generation = generation, as_input = input\<rparr> in
      rbind (assignment_post_init a) (\<lambda>_. Inr a))"

definition make_verdict :: "bool \<Rightarrow> int \<Rightarrow> string list \<Rightarrow> CycleVerdict res" where
  "make_verdict accepted generation findings =
     (let v = \<lparr>vd_accepted = accepted, vd_generation = generation, vd_findings = findings\<rparr> in
      rbind (verdict_post_init v) (\<lambda>_. Inr v))"

definition new_plan_cycle :: "string \<Rightarrow> int \<Rightarrow> Cycle res" where
  "new_plan_cycle i generation = Cycle_Protocol.replace plan_post_init
     \<lparr>cycle_id = i, cy_generation = generation, cy_state = PRODUCER_READY, cy_assignment = None, cy_product = [],
      cy_accepted_product = [], cy_verdict = None, cy_resume = None\<rparr>"

definition ensure_plan_cycle :: "CycleTables \<Rightarrow> string \<Rightarrow> int \<Rightarrow> Cycle transaction" where
  "ensure_plan_cycle db workflow_id generation = (case read_plan_cycle db workflow_id of
       Some c \<Rightarrow> Inr (c, db)
     | None \<Rightarrow>
         rbind (new_plan_cycle (workflow_id @ '':plan'') generation) (\<lambda>c.
         rbind (store_plan_cycle db workflow_id c) (\<lambda>db'. Inr (c, db'))))"

definition save_plan :: "CycleTables \<Rightarrow> string \<Rightarrow> Cycle \<Rightarrow> Cycle transaction" where
  "save_plan db workflow_id c = rbind (store_plan_cycle db workflow_id c) (\<lambda>db'. Inr (c, db'))"

definition transition_plan_cycle ::
  "CycleTables \<Rightarrow> string \<Rightarrow> CycleAction \<Rightarrow> CycleAssignment option \<Rightarrow> string \<Rightarrow> CycleVerdict option \<Rightarrow> Cycle transaction" where
  "transition_plan_cycle db workflow_id act assignment product_ref verdict =
     rbind (ensure_plan_cycle db workflow_id 1) (\<lambda>(c, db').
     rbind (transition_plan c act assignment product_ref verdict) (save_plan db' workflow_id))"

definition begin_plan_revision :: "CycleTables \<Rightarrow> string \<Rightarrow> Cycle transaction" where
  "begin_plan_revision db workflow_id =
     rbind (ensure_plan_cycle db workflow_id 1) (\<lambda>(c, db').
     if cy_state c = HUMAN_REVIEW then
       rbind (transition_plan c HUMAN_EDITED None [] None) (save_plan db' workflow_id)
     else if cy_state c = ACCEPTED then
       rbind (Cycle_Protocol.replace plan_post_init (c\<lparr>cy_generation := cy_generation c + 1, cy_state := REPAIR_READY,
           cy_assignment := None, cy_product := [], cy_accepted_product := [], cy_verdict := None\<rparr>))
         (save_plan db' workflow_id)
     else if cy_state c = REPAIR_READY then Inr (c, db')
     else Inl (RuntimeError ''a new plan revision requires a quiescent accepted or repair cycle''))"

definition running_state :: "CycleSlot \<Rightarrow> cycle_state" where
  "running_state slot = (if slot = PRODUCER then PRODUCING else CHECKING)"

definition start_action :: "CycleSlot \<Rightarrow> CycleAction" where
  "start_action slot = (if slot = PRODUCER then START_PRODUCER else START_CHECKER)"

text \<open>The assignment a cycle already runs in a slot.\<close>

definition runs_slot :: "'a Cycle_scheme \<Rightarrow> CycleSlot \<Rightarrow> CycleAssignment option" where
  "runs_slot c slot = (case cy_assignment c of
       Some a \<Rightarrow> if cy_state c = running_state slot \<and> as_slot a = slot then Some a else None
     | None \<Rightarrow> None)"

definition same_assignment :: "CycleAssignment \<Rightarrow> AssignmentKind \<Rightarrow> string \<Rightarrow> bool" where
  "same_assignment a kind input \<longleftrightarrow> as_kind a = kind \<and> as_input a = input"

definition start_plan_assignment ::
  "CycleTables \<Rightarrow> string \<Rightarrow> CycleSlot \<Rightarrow> AssignmentKind \<Rightarrow> string \<Rightarrow> Cycle transaction" where
  "start_plan_assignment db workflow_id slot kind input =
     rbind (ensure_plan_cycle db workflow_id 1) (\<lambda>(c, db').
     case runs_slot c slot of
       Some a \<Rightarrow>
         if same_assignment a kind input then Inr (c, db')
         else Inl (RuntimeError ''plan slot already runs a different assignment'')
     | None \<Rightarrow>
         rbind (make_assignment slot kind (cy_generation c) input) (\<lambda>a.
         transition_plan_cycle db' workflow_id (start_action slot) (Some a) [] None))"

definition import_plan_product :: "CycleTables \<Rightarrow> string \<Rightarrow> string \<Rightarrow> Cycle transaction" where
  "import_plan_product db workflow_id product_ref =
     rbind (ensure_plan_cycle db workflow_id 1) (\<lambda>(c, db').
     if product_ref \<noteq> [] \<and> cy_generation c = 1 \<and> cy_product c = product_ref
         \<and> cy_state c \<in> {CHECKER_READY, CHECKING, HUMAN_REVIEW, ACCEPTED} then Inr (c, db')
     else transition_plan_cycle db' workflow_id IMPORT_PRODUCT None product_ref None)"

definition submit_plan_product :: "CycleTables \<Rightarrow> string \<Rightarrow> string \<Rightarrow> Cycle transaction" where
  "submit_plan_product db workflow_id product_ref =
     rbind (ensure_plan_cycle db workflow_id 1) (\<lambda>(c, db').
     if cy_state c \<in> {CHECKER_READY, CHECKING, HUMAN_REVIEW, ACCEPTED} \<and> cy_product c = product_ref then Inr (c, db')
     else transition_plan_cycle db' workflow_id PRODUCER_SUBMITTED None product_ref None)"

definition reject_plan_product :: "CycleTables \<Rightarrow> string \<Rightarrow> Cycle transaction" where
  "reject_plan_product db workflow_id = transition_plan_cycle db workflow_id PRODUCER_REJECTED None [] None"

definition submit_plan_verdict :: "CycleTables \<Rightarrow> string \<Rightarrow> bool \<Rightarrow> string list \<Rightarrow> Cycle transaction" where
  "submit_plan_verdict db workflow_id accepted findings =
     rbind (ensure_plan_cycle db workflow_id 1) (\<lambda>(c, db').
     if (case cy_verdict c of
           Some v \<Rightarrow> vd_accepted v = accepted \<and> vd_findings v = findings
             \<and> (accepted \<and> cy_state c \<in> {HUMAN_REVIEW, ACCEPTED} \<or> \<not> accepted \<and> cy_state c = REPAIR_READY)
         | None \<Rightarrow> False) then Inr (c, db')
     else
       rbind (make_verdict accepted (cy_generation c) findings) (\<lambda>v.
       rbind (transition_plan_cycle db' workflow_id (if accepted then CHECKER_ACCEPTED else CHECKER_REJECTED)
         None [] (Some v)) (\<lambda>(c1, db1).
       if accepted then transition_plan_cycle db1 workflow_id REQUEST_HUMAN_REVIEW None [] None
       else Inr (c1, db1))))"

definition require_plan_triage :: "CycleTables \<Rightarrow> string \<Rightarrow> Cycle option transaction" where
  "require_plan_triage db workflow_id = (case read_plan_cycle db workflow_id of
       None \<Rightarrow> Inr (None, db)
     | Some c \<Rightarrow>
         if cy_state c = TRIAGE_REQUIRED then Inr (Some c, db)
         else rbind (transition_plan c REQUIRE_TRIAGE None [] None) (\<lambda>c'.
           rbind (store_plan_cycle db workflow_id c') (\<lambda>db'. Inr (Some c', db'))))"

subsection \<open>Installing a graph\<close>

record InstalledGraph =
  ig_execution :: GraphExecution
  ig_diff :: "GraphDiff option"

text \<open>A pending repair of the previous generation is superseded by requiring a replan.\<close>

definition supersede_previous ::
  "(pyval \<Rightarrow> string) \<Rightarrow> CycleTables \<Rightarrow> string \<Rightarrow> GraphExecution \<Rightarrow> GraphExecution transaction" where
  "supersede_previous h db workflow_id previous =
     (if lg_pending (ge_repairs previous) = None then Inr (previous, db)
      else
        rbind (make_execution h (previous\<lparr>ge_state := G_REPLAN_REQUIRED, ge_published := []\<rparr>)) (\<lambda>e.
        rbind (store_graph_execution h db workflow_id e) (\<lambda>db'. Inr (e, db'))))"

definition next_execution ::
  "(pyval \<Rightarrow> string) \<Rightarrow> CycleTables \<Rightarrow> string \<Rightarrow> GraphIR \<Rightarrow> GraphIR option \<Rightarrow> GraphExecution option
     \<Rightarrow> (GraphExecution \<times> GraphDiff option) transaction" where
  "next_execution h db workflow_id g previous_graph previous_execution =
     (case previous_graph of
        None \<Rightarrow> rbind (start_execution h g) (\<lambda>e. Inr ((e, None), db))
      | Some old \<Rightarrow>
          (case previous_execution of
             None \<Rightarrow> Inl (RuntimeError ''a prior GraphIR generation has no GraphExecution projection'')
           | Some previous \<Rightarrow>
               rbind (diff_graphs h old g) (\<lambda>diff.
               rbind (supersede_previous h db workflow_id previous) (\<lambda>(source, db').
               rbind (replanned_execution h source g diff) (\<lambda>e. Inr ((e, Some diff), db'))))))"

text \<open>The previous generation and its execution, read before anything is written.\<close>

definition read_previous ::
  "(pyval \<Rightarrow> string) \<Rightarrow> CycleTables \<Rightarrow> string \<Rightarrow> GraphIR \<Rightarrow> (GraphIR option \<times> GraphExecution option) res" where
  "read_previous h db workflow_id g =
     (case (if gr_generation g > 1 then read_graph_generation db (gr_id g) (Some (gr_generation g - 1)) else None) of
        None \<Rightarrow> Inr (None, None)
      | Some old \<Rightarrow> rbind (read_graph_execution h db workflow_id (Some (gr_generation g - 1))) (\<lambda>e. Inr (Some old, e)))"

definition create_execution ::
  "(pyval \<Rightarrow> string) \<Rightarrow> CycleTables \<Rightarrow> string \<Rightarrow> GraphIR \<Rightarrow> InstalledGraph transaction" where
  "create_execution h db workflow_id g =
     rbind (read_previous h db workflow_id g) (\<lambda>(old, previous).
     rbind (store_graph_generation h db workflow_id g ''running'') (\<lambda>(_, db1).
     rbind (next_execution h db1 workflow_id g old previous) (\<lambda>((e, diff), db2).
     rbind (store_graph_execution h db2 workflow_id e) (\<lambda>db3.
     Inr (\<lparr>ig_execution = e, ig_diff = diff\<rparr>, db3)))))"

definition install_graph :: "(pyval \<Rightarrow> string) \<Rightarrow> CycleTables \<Rightarrow> string \<Rightarrow> GraphIR \<Rightarrow> InstalledGraph transaction" where
  "install_graph h db workflow_id g =
     (if gr_id g \<noteq> workflow_id then Inl (ValueError ''GraphIR identity must equal its workflow identity'')
      else case read_graph_generation db (gr_id g) (Some (gr_generation g)) of
        None \<Rightarrow> create_execution h db workflow_id g
      | Some existing \<Rightarrow>
          if existing \<noteq> g then
            Inl (ValueError ''GraphIR generation identity is already bound to other content'')
          else
            rbind (read_graph_execution h db workflow_id (Some (gr_generation g))) (\<lambda>e. case e of
              Some x \<Rightarrow> Inr (\<lparr>ig_execution = x, ig_diff = None\<rparr>, db)
            | None \<Rightarrow> create_execution h db workflow_id g))"

definition current_execution :: "(pyval \<Rightarrow> string) \<Rightarrow> CycleTables \<Rightarrow> string \<Rightarrow> int option \<Rightarrow> GraphExecution res" where
  "current_execution h db workflow_id generation =
     rbind (read_graph_execution h db workflow_id generation) (\<lambda>e. case e of
         None \<Rightarrow> Inl (RuntimeError ''workflow has no installed GraphExecution'')
       | Some x \<Rightarrow> Inr x)"

definition save_execution :: "(pyval \<Rightarrow> string) \<Rightarrow> CycleTables \<Rightarrow> string \<Rightarrow> GraphExecution \<Rightarrow> 'r \<Rightarrow> 'r transaction" where
  "save_execution h db workflow_id e r = rbind (store_graph_execution h db workflow_id e) (\<lambda>db'. Inr (r, db'))"

definition rebind_direct_task :: "(pyval \<Rightarrow> string) \<Rightarrow> CycleTables \<Rightarrow> string \<Rightarrow> GraphIR \<Rightarrow> unit transaction" where
  "rebind_direct_task h db workflow_id g =
     rbind (current_execution h db workflow_id None) (\<lambda>previous.
     if gr_id g \<noteq> workflow_id \<or> gr_generation g \<noteq> gr_generation (ge_graph previous) + 1
         \<or> length (gr_nodes g) \<noteq> 1 \<or> set (node_names g) \<noteq> set (node_names (ge_graph previous)) \<or> gr_edges g \<noteq> []
         \<or> list_ex (\<lambda>(_, s). dget (ns_satellite s) ''execution_mode'' \<noteq> PStr ''direct'') (gr_nodes g)
         \<or> list_ex (\<lambda>(_, c). cy_state c \<noteq> TRIAGE_REQUIRED) (ge_cycles previous) then
       Inl (ValueError ''direct task clarification requires the current triaged repository cycle'')
     else
       rbind (store_graph_generation h db workflow_id g ''running'') (\<lambda>(_, db1).
       rbind (diff_graphs h (ge_graph previous) g) (\<lambda>diff.
       rbind (replanned_execution h previous g diff) (\<lambda>e. save_execution h db1 workflow_id e ()))))"

subsection \<open>Node assignments\<close>

record RunnableAssignment =
  ra_node :: string
  ra_cycle :: string
  ra_slot :: CycleSlot
  ra_kind :: AssignmentKind
  ra_generation :: int

definition runnable_assignment :: "string \<Rightarrow> NodeCycle \<Rightarrow> RunnableAssignment" where
  "runnable_assignment n c =
     (let slot = (if cy_state c = CHECKER_READY then CHECKER else PRODUCER) in
      \<lparr>ra_node = n, ra_cycle = cycle_id c, ra_slot = slot,
       ra_kind = (if slot = CHECKER \<and> cy_verdict c \<noteq> None then RECHECK
         else if cy_state c = REPAIR_READY then REPAIR_KIND else INITIAL),
       ra_generation = cy_generation c\<rparr>)"

definition runnable_assignments ::
  "(pyval \<Rightarrow> string) \<Rightarrow> CycleTables \<Rightarrow> string \<Rightarrow> int option \<Rightarrow> RunnableAssignment list res" where
  "runnable_assignments h db workflow_id generation =
     rbind (current_execution h db workflow_id generation) (\<lambda>e.
     map_res (\<lambda>n. rbind (cycle_at e n) (\<lambda>c. Inr (runnable_assignment n c))) (runnable_nodes e))"

definition store_cycle ::
  "(pyval \<Rightarrow> string) \<Rightarrow> CycleTables \<Rightarrow> string \<Rightarrow> GraphExecution \<Rightarrow> NodeCycle \<Rightarrow> NodeCycle transaction" where
  "store_cycle h db workflow_id e c =
     rbind (with_cycle h e c) (\<lambda>e'.
     rbind (cycle_at e' (node_name c)) (save_execution h db workflow_id e'))"

definition start_node_assignment ::
  "(pyval \<Rightarrow> string) \<Rightarrow> CycleTables \<Rightarrow> string \<Rightarrow> string \<Rightarrow> CycleSlot \<Rightarrow> AssignmentKind \<Rightarrow> string \<Rightarrow> NodeCycle transaction" where
  "start_node_assignment h db workflow_id n slot kind input =
     rbind (current_execution h db workflow_id None) (\<lambda>e.
     rbind (cycle_at e n) (\<lambda>c.
     case runs_slot c slot of
       Some a \<Rightarrow>
         if same_assignment a kind input then Inr (c, db)
         else Inl (RuntimeError (n @ '' already runs a different '' @ slot_value slot @ '' assignment''))
     | None \<Rightarrow>
         if n \<notin> set (runnable_nodes e) then
           Inl (RuntimeError (n @ '' is not runnable: graph admission or dependency readiness is fenced''))
         else
           rbind (make_assignment slot kind (cy_generation c) input) (\<lambda>a.
           rbind (transition_node c (start_action slot) (Some a) [] None) (store_cycle h db workflow_id e))))"

definition producer_submitted ::
  "(pyval \<Rightarrow> string) \<Rightarrow> CycleTables \<Rightarrow> string \<Rightarrow> string \<Rightarrow> string \<Rightarrow> NodeCycle transaction" where
  "producer_submitted h db workflow_id n product_ref =
     rbind (current_execution h db workflow_id None) (\<lambda>e.
     rbind (cycle_at e n) (\<lambda>c.
     if cy_state c \<in> {CHECKER_READY, CHECKING, ACCEPTED} \<and> cy_product c = product_ref then Inr (c, db)
     else rbind (transition_node c PRODUCER_SUBMITTED None product_ref None) (store_cycle h db workflow_id e)))"

text \<open>The four transitions that close a null producer and checker in one write.\<close>

definition close_null_cycle :: "NodeCycle \<Rightarrow> string \<Rightarrow> string \<Rightarrow> NodeCycle res" where
  "close_null_cycle c product_ref input =
     rbind (make_assignment PRODUCER (if cy_state c = REPAIR_READY then REPAIR_KIND else INITIAL) (cy_generation c) input) (\<lambda>a.
     rbind (transition_node c START_PRODUCER (Some a) [] None) (\<lambda>c1.
     rbind (transition_node c1 PRODUCER_SUBMITTED None product_ref None) (\<lambda>c2.
     rbind (make_assignment CHECKER INITIAL (cy_generation c2) input) (\<lambda>a'.
     rbind (transition_node c2 START_CHECKER (Some a') [] None) (\<lambda>c3.
     rbind (make_verdict True (cy_generation c3) []) (\<lambda>v.
     transition_node c3 CHECKER_ACCEPTED None [] (Some v)))))))"

definition accept_null_node ::
  "(pyval \<Rightarrow> string) \<Rightarrow> CycleTables \<Rightarrow> string \<Rightarrow> string \<Rightarrow> string \<Rightarrow> string \<Rightarrow> NodeCycle transaction" where
  "accept_null_node h db workflow_id n product_ref input =
     rbind (current_execution h db workflow_id None) (\<lambda>e.
     rbind (cycle_at e n) (\<lambda>c.
     if cy_state c = ACCEPTED then
       (if cy_accepted_product c \<noteq> product_ref then
          Inl (RuntimeError (n @ '' is already accepted with another product''))
        else Inr (c, db))
     else if n \<notin> set (runnable_nodes e)
         \<or> \<not> (\<forall>p \<in> set (checker_predecessors (ge_graph e) n). accepted_in (ge_cycles e) p) then
       Inl (RuntimeError (n @ '' null admission or checker inputs are fenced''))
     else if cy_state c \<notin> {PRODUCER_READY, REPAIR_READY} then
       Inl (RuntimeError (''null node must start from a producer boundary, got '' @ cycle_state_value (cy_state c)))
     else rbind (close_null_cycle c product_ref input) (store_cycle h db workflow_id e)))"

definition repeats_verdict :: "NodeCycle \<Rightarrow> bool \<Rightarrow> string list \<Rightarrow> bool" where
  "repeats_verdict c accepted findings = (case cy_verdict c of
       None \<Rightarrow> False
     | Some v \<Rightarrow> vd_accepted v = accepted \<and> vd_findings v = findings \<and> (accepted \<longrightarrow> cy_state c = ACCEPTED))"

definition checker_verdict ::
  "(pyval \<Rightarrow> string) \<Rightarrow> CycleTables \<Rightarrow> string \<Rightarrow> string \<Rightarrow> bool \<Rightarrow> string list \<Rightarrow> FindingClass option \<Rightarrow> string
     \<Rightarrow> string list \<Rightarrow> string \<Rightarrow> FindingRoute option transaction" where
  "checker_verdict h db workflow_id n accepted findings finding dependency dependencies accepted_product =
     rbind (current_execution h db workflow_id None) (\<lambda>e.
     rbind (cycle_at e n) (\<lambda>c.
     if repeats_verdict c accepted findings then Inr (None, db)
     else
       rbind (apply_checker_verdict h e n accepted findings finding dependency dependencies accepted_product) (\<lambda>(e', route).
       save_execution h db workflow_id e' route)))"

definition require_node_triage :: "(pyval \<Rightarrow> string) \<Rightarrow> CycleTables \<Rightarrow> string \<Rightarrow> string \<Rightarrow> NodeCycle option transaction" where
  "require_node_triage h db workflow_id n =
     rbind (read_graph_execution h db workflow_id None) (\<lambda>r.
     case r of
       None \<Rightarrow> Inr (None, db)
     | Some e \<Rightarrow>
         (case map_of (ge_cycles e) n of
            None \<Rightarrow> Inr (None, db)
          | Some c \<Rightarrow>
              if cy_state c = TRIAGE_REQUIRED then Inr (Some c, db)
              else rbind (transition_node c REQUIRE_TRIAGE None [] None) (\<lambda>c'.
                rbind (store_cycle h db workflow_id e c') (\<lambda>(c2, db'). Inr (Some c2, db')))))"

definition published_sink_ref :: "(pyval \<Rightarrow> string) \<Rightarrow> CycleTables \<Rightarrow> string \<Rightarrow> string res" where
  "published_sink_ref h db workflow_id =
     rbind (current_execution h db workflow_id None) (\<lambda>e.
     if ge_state e \<noteq> G_COMPLETED then Inl (RuntimeError ''the declared sink has not completed verification'')
     else if ge_published e = [] then Inl (RuntimeError ''completed GraphExecution has no sink product'')
     else Inr (ge_published e))"

subsection \<open>Control\<close>

text \<open>A control request on one cycle: a cycle that does not run is paused or cancelled at once.\<close>

definition control_plan_cycle :: "Cycle \<Rightarrow> CycleAction \<Rightarrow> Cycle option res" where
  "control_plan_cycle c act =
     (let some = (\<lambda>c'. Inr (Some c')); s = cy_state c;
          step = (\<lambda>c a. transition_plan c a None [] None) in
      if s \<in> {ACCEPTED, REJECTED, CANCELLED_STATE} then Inr None
      else if act = REQUEST_PAUSE then
        (if s \<in> {PAUSE_REQUESTED, PAUSED_STATE, TRIAGE_REQUIRED} then Inr None
         else rbind (step c REQUEST_PAUSE) (\<lambda>c'. rbind (if is_running c then Inr c' else step c' PAUSE_DONE) some))
      else if act = REQUEST_CANCEL then
        (if s \<in> {CANCEL_REQUESTED, CANCELLED_STATE} then Inr None
         else rbind (step c REQUEST_CANCEL) (\<lambda>c'. rbind (if is_running c then Inr c' else step c' CANCEL_DONE) some))
      else if act = RESUME then (if s \<noteq> PAUSED_STATE then Inr None else rbind (step c RESUME) some)
      else if act = RESOLVE_TRIAGE then (if s \<noteq> TRIAGE_REQUIRED then Inr None else rbind (step c RESOLVE_TRIAGE) some)
      else if act \<in> {PAUSE_DONE, CANCEL_DONE} then
        (if s \<noteq> (if act = PAUSE_DONE then PAUSE_REQUESTED else CANCEL_REQUESTED) then Inr None
         else rbind (step c act) some)
      else Inl (ValueError (''unsupported plan control action: '' @ cycle_action_value act)))"

definition control_plan :: "CycleTables \<Rightarrow> string \<Rightarrow> CycleAction \<Rightarrow> unit transaction" where
  "control_plan db workflow_id act = (case read_plan_cycle db workflow_id of
       None \<Rightarrow> Inr ((), db)
     | Some c \<Rightarrow> rbind (control_plan_cycle c act) (\<lambda>r. case r of
           None \<Rightarrow> Inr ((), db)
         | Some c' \<Rightarrow> rbind (store_plan_cycle db workflow_id c') (\<lambda>db'. Inr ((), db'))))"

definition control_node_cycle :: "NodeCycle \<Rightarrow> CycleAction \<Rightarrow> NodeCycle option res" where
  "control_node_cycle c act =
     (let some = (\<lambda>c'. Inr (Some c')); s = cy_state c; busy = (is_running c \<or> cy_assignment c \<noteq> None);
          step = (\<lambda>c a. transition_node c a None [] None) in
      if s \<in> {ACCEPTED, CANCELLED_STATE} then Inr None
      else if act = REQUEST_PAUSE then
        (if s \<in> {PAUSE_REQUESTED, PAUSED_STATE, TRIAGE_REQUIRED} then Inr None
         else rbind (step c REQUEST_PAUSE) (\<lambda>c'. rbind (if busy then Inr c' else step c' PAUSE_DONE) some))
      else if act = REQUEST_CANCEL then
        rbind (step c REQUEST_CANCEL) (\<lambda>c'. rbind (if busy then Inr c' else step c' CANCEL_DONE) some)
      else if act = RESUME then (if s \<noteq> PAUSED_STATE then Inr None else rbind (step c RESUME) some)
      else Inl (ValueError (''unsupported graph control action: '' @ cycle_action_value act)))"

fun control_cycles ::
  "string list \<Rightarrow> CycleAction \<Rightarrow> (string \<times> NodeCycle) list \<Rightarrow> ((string \<times> NodeCycle) list \<times> bool) res" where
  "control_cycles fenced act [] = Inr ([], False)"
| "control_cycles fenced act ((n, c) # rest) =
     rbind (if act \<in> {REQUEST_PAUSE, RESUME} \<and> n \<in> set fenced then Inr None else control_node_cycle c act) (\<lambda>r.
     rbind (control_cycles fenced act rest) (\<lambda>(rest', changed).
     case r of
       None \<Rightarrow> Inr ((n, c) # rest', changed)
     | Some c' \<Rightarrow> Inr ((n, c') # rest', True)))"

definition control_graph :: "(pyval \<Rightarrow> string) \<Rightarrow> CycleTables \<Rightarrow> string \<Rightarrow> CycleAction \<Rightarrow> unit transaction" where
  "control_graph h db workflow_id act =
     rbind (read_graph_execution h db workflow_id None) (\<lambda>r.
     case r of
       None \<Rightarrow> Inr ((), db)
     | Some e0 \<Rightarrow>
         rbind (if act = REQUEST_CANCEL then make_execution h (e0\<lparr>ge_state := G_CANCELLED, ge_published := []\<rparr>)
           else Inr e0) (\<lambda>e.
         rbind (control_cycles (pending_scope e) act (ge_cycles e)) (\<lambda>(cycles, changed).
         if changed \<or> act = REQUEST_CANCEL then
           rbind (make_execution h (e\<lparr>ge_cycles := cycles,
               ge_state := (if act = REQUEST_CANCEL then G_CANCELLED else ge_state e)\<rparr>)) (\<lambda>e'.
           save_execution h db workflow_id e' ())
         else Inr ((), db))))"

definition control_workflow :: "(pyval \<Rightarrow> string) \<Rightarrow> CycleTables \<Rightarrow> string \<Rightarrow> CycleAction \<Rightarrow> unit transaction" where
  "control_workflow h db workflow_id act =
     rbind (control_plan db workflow_id act) (\<lambda>(_, db'). control_graph h db' workflow_id act)"

definition request_workflow_pause :: "(pyval \<Rightarrow> string) \<Rightarrow> CycleTables \<Rightarrow> string \<Rightarrow> unit transaction" where
  "request_workflow_pause h db workflow_id = control_workflow h db workflow_id REQUEST_PAUSE"

definition request_workflow_cancel :: "(pyval \<Rightarrow> string) \<Rightarrow> CycleTables \<Rightarrow> string \<Rightarrow> unit transaction" where
  "request_workflow_cancel h db workflow_id = control_workflow h db workflow_id REQUEST_CANCEL"

definition resume_workflow :: "(pyval \<Rightarrow> string) \<Rightarrow> CycleTables \<Rightarrow> string \<Rightarrow> unit transaction" where
  "resume_workflow h db workflow_id = control_workflow h db workflow_id RESUME"

definition confirm_plan_control :: "CycleTables \<Rightarrow> string \<Rightarrow> bool \<Rightarrow> unit transaction" where
  "confirm_plan_control db workflow_id cancel = control_plan db workflow_id (if cancel then CANCEL_DONE else PAUSE_DONE)"

definition confirm_cycle :: "GraphExecution \<Rightarrow> NodeCycle \<Rightarrow> bool \<Rightarrow> NodeCycle option res" where
  "confirm_cycle e c cancel =
     (let finish = (\<lambda>c. rbind (transition_node c (if cancel then CANCEL_DONE else PAUSE_DONE) None [] None) (\<lambda>c'. Inr (Some c'))) in
      if cy_state c = (if cancel then CANCEL_REQUESTED else PAUSE_REQUESTED) then finish c
      else if cancel \<and> ge_state e = G_REPLAN_REQUIRED \<and> is_running c then
        rbind (transition_node c REQUEST_CANCEL None [] None) finish
      else Inr None)"

definition confirm_node_control :: "(pyval \<Rightarrow> string) \<Rightarrow> CycleTables \<Rightarrow> string \<Rightarrow> string \<Rightarrow> bool \<Rightarrow> unit transaction" where
  "confirm_node_control h db workflow_id n cancel =
     rbind (read_graph_execution h db workflow_id None) (\<lambda>r.
     case r of
       None \<Rightarrow> Inr ((), db)
     | Some e \<Rightarrow>
         (case map_of (ge_cycles e) n of
            None \<Rightarrow> Inr ((), db)
          | Some c \<Rightarrow>
              if n \<in> set (pending_scope e) then Inr ((), db)
              else rbind (confirm_cycle e c cancel) (\<lambda>r'. case r' of
                  None \<Rightarrow> Inr ((), db)
                | Some c' \<Rightarrow> rbind (with_cycle h e c') (\<lambda>e'. save_execution h db workflow_id e' ()))))"

subsection \<open>Triage\<close>

text \<open>The incarnation of a node in the frozen frontier of the pending cohort.\<close>

definition frontier_member :: "GraphExecution \<Rightarrow> string \<Rightarrow> RepairIncarnation option" where
  "frontier_member e n = (case lg_pending (ge_repairs e) of
       None \<Rightarrow> None
     | Some pending \<Rightarrow> (case at_node pending n of [] \<Rightarrow> None | item # _ \<Rightarrow> Some item))"

text \<open>The original cursor of an incarnation that was admitted before its cycle went into triage.\<close>

definition restored_cursor :: "NodeCycle \<Rightarrow> CycleAssignment \<Rightarrow> NodeCycle res" where
  "restored_cursor c a =
     (let ready = (if as_slot a = CHECKER then CHECKER_READY else PRODUCER_READY);
          allowed = {ready, CANCEL_REQUESTED} \<union> (if as_slot a = PRODUCER then {REPAIR_READY} else {}) in
      if cy_assignment c \<noteq> None \<or> (case cy_resume c of None \<Rightarrow> True | Some s \<Rightarrow> s \<notin> allowed) then
        Inl (ValueError ''dependency repair recovery has an incompatible triaged cursor'')
      else
        rbind (transition_node c RESOLVE_TRIAGE None [] None) (\<lambda>c'.
        Cycle_Protocol.replace node_post_init (c'\<lparr>cy_assignment := Some a,
          cy_state := (if cy_state c' = CANCEL_REQUESTED then CANCEL_REQUESTED else running_state (as_slot a)),
          cy_resume := (if cy_state c' = CANCEL_REQUESTED then Some STALE else None)\<rparr>)))"

definition restore_repair_cursor ::
  "(pyval \<Rightarrow> string) \<Rightarrow> CycleTables \<Rightarrow> string \<Rightarrow> GraphExecution \<Rightarrow> NodeCycle \<Rightarrow> DependencyRepairCohort
     \<Rightarrow> RepairIncarnation \<Rightarrow> unit transaction" where
  "restore_repair_cursor h db workflow_id e c cohort repair =
     (if incarnation_key h repair \<in> keys (co_closures cohort) then
        Inl (ValueError ''dependency repair recovery cannot restore a closed incarnation'')
      else
        rbind (slot_of (rn_slot repair)) (\<lambda>slot.
        rbind (make_assignment slot RESUME_KIND (rn_generation repair) (rn_input repair)) (\<lambda>a.
        if cy_state c \<noteq> TRIAGE_REQUIRED then
          (if (case cy_assignment c of None \<Rightarrow> True | Some b \<Rightarrow> as_slot b \<noteq> slot \<or> as_input b \<noteq> as_input a) then
             Inl (ValueError ''dependency repair recovery lost its current graph cursor'')
           else Inr ((), db))
        else
          rbind (restored_cursor c a) (\<lambda>c'.
          rbind (make_execution h (e\<lparr>ge_cycles := dict_put (node_name c) c' (ge_cycles e)\<rparr>)) (\<lambda>e'.
          rbind (validate_repair_frontier h e' cohort) (\<lambda>_. save_execution h db workflow_id e' ()))))))"

definition resolve_repair_triage ::
  "(pyval \<Rightarrow> string) \<Rightarrow> CycleTables \<Rightarrow> string \<Rightarrow> GraphExecution \<Rightarrow> NodeCycle \<Rightarrow> string \<Rightarrow> RepairIncarnation option
     \<Rightarrow> unit transaction" where
  "resolve_repair_triage h db workflow_id e c checker_input repair =
     (case (repair, lg_pending (ge_repairs e)) of
        (Some r, Some cohort) \<Rightarrow>
          if checker_input \<noteq> [] \<or> repair \<noteq> frontier_member e (node_name c) \<or> ge_state e \<noteq> G_RUNNING
              \<or> cycle_id c \<noteq> rn_cycle r \<or> cy_generation c \<noteq> rn_generation r then
            Inl (ValueError ''dependency repair recovery does not own the frozen graph cursor'')
          else restore_repair_cursor h db workflow_id e c cohort r
      | _ \<Rightarrow> Inl (ValueError ''dependency repair recovery does not own the frozen graph cursor''))"

definition owns_settlement :: "NodeCycle \<Rightarrow> string \<Rightarrow> int \<Rightarrow> bool" where
  "owns_settlement c input generation \<longleftrightarrow> cy_state c = CHECKING \<and> cy_generation c = generation
     \<and> cy_assignment c = Some \<lparr>as_slot = CHECKER, as_kind = RESUME_KIND, as_generation = generation, as_input = input\<rparr>"

definition resolved_cycle :: "NodeCycle \<Rightarrow> string \<Rightarrow> NodeCycle res" where
  "resolved_cycle c input =
     rbind (transition_node c RESOLVE_TRIAGE None [] None) (\<lambda>c'.
     if input = [] then Inr c'
     else
       rbind (make_assignment CHECKER RESUME_KIND (cy_generation c) input) (\<lambda>a.
       transition_node c' START_CHECKER (Some a) [] None))"

definition resolve_node_triage ::
  "(pyval \<Rightarrow> string) \<Rightarrow> CycleTables \<Rightarrow> string \<Rightarrow> GraphExecution \<Rightarrow> NodeCycle \<Rightarrow> string \<Rightarrow> int \<Rightarrow> unit transaction" where
  "resolve_node_triage h db workflow_id e c input generation =
     (if cy_state c \<noteq> TRIAGE_REQUIRED then
        (if input \<noteq> [] \<and> \<not> owns_settlement c input generation then
           Inl (ValueError ''pending checker settlement does not own the current graph cursor'')
         else Inr ((), db))
      else if input \<noteq> [] \<and> (cy_resume c \<noteq> Some CHECKER_READY \<or> cy_assignment c \<noteq> None \<or> cy_product c = []
          \<or> cy_generation c \<noteq> generation) then
        Inl (ValueError ''pending checker settlement does not match the triaged graph cycle'')
      else
        rbind (resolved_cycle c input) (\<lambda>c'.
        rbind (with_cycle h e c') (\<lambda>e'. save_execution h db workflow_id e' ())))"

definition resolve_plan_triage :: "CycleTables \<Rightarrow> string \<Rightarrow> string \<Rightarrow> RepairIncarnation option \<Rightarrow> unit transaction" where
  "resolve_plan_triage db workflow_id checker_input repair =
     (if checker_input \<noteq> [] \<or> repair \<noteq> None then
        Inl (ValueError ''pending node checker settlement cannot restore a plan cycle'')
      else control_plan db workflow_id RESOLVE_TRIAGE)"

definition resolve_triage ::
  "(pyval \<Rightarrow> string) \<Rightarrow> CycleTables \<Rightarrow> string \<Rightarrow> string \<Rightarrow> bool \<Rightarrow> string \<Rightarrow> int \<Rightarrow> RepairIncarnation option
     \<Rightarrow> unit transaction" where
  "resolve_triage h db workflow_id n plan checker_input checker_generation repair =
     (if plan then resolve_plan_triage db workflow_id checker_input repair
      else
        rbind (read_graph_execution h db workflow_id None) (\<lambda>r.
        case (case r of None \<Rightarrow> None | Some e \<Rightarrow> map_option (Pair e) (map_of (ge_cycles e) n)) of
          None \<Rightarrow>
            if checker_input \<noteq> [] \<or> repair \<noteq> None then
              Inl (ValueError ''pending checker settlement has no current graph cycle'')
            else Inr ((), db)
        | Some (e, c) \<Rightarrow>
            if repair \<noteq> None \<or> frontier_member e n \<noteq> None then
              resolve_repair_triage h db workflow_id e c checker_input repair
            else resolve_node_triage h db workflow_id e c checker_input checker_generation))"

end
