(* ===== verification/Workflow_Tables.thy ===== *)
theory Workflow_Tables
  imports Workflow_Runtime
begin

section \<open>Well-formed cycle tables\<close>

text \<open>
  The invariant of the tables of \<open>storage/cycles.py\<close>: every stored cycle is well-formed, the generations of a
  graph are numbered from one without gaps and belong to the workflow of the same name, and barriers make
  nodes wait for their inputs. Reading an execution gives a sound one, and storing a sound one keeps the
  invariant.
\<close>

subsection \<open>The canonical form of a graph\<close>

lemma node_names_canonical: "set (node_names (canonical_graph g)) = set (node_names g)"
  by (simp add: node_names_def canonical_graph_def)

lemma map_of_canonical:
  "distinct (node_names g) \<Longrightarrow> map_of (gr_nodes (canonical_graph g)) = map_of (gr_nodes g)"
  by (simp add: node_names_def canonical_graph_def map_of_sort_key)

lemma canonical_fields [simp]:
  "gr_id (canonical_graph g) = gr_id g" "gr_generation (canonical_graph g) = gr_generation g"
  "gr_sink (canonical_graph g) = gr_sink g" "set (gr_edges (canonical_graph g)) = set (gr_edges g)"
  "set (gr_nodes (canonical_graph g)) = set (gr_nodes g)"
  by (simp_all add: canonical_graph_def edge_order_def)

lemma graph_ok_canonical:
  assumes "graph_ok g"
  shows "graph_ok (canonical_graph g)"
proof -
  have d: "distinct (node_names g)" using assms by (simp add: graph_ok_def)
  have "distinct (node_names (canonical_graph g))"
    using d by (simp add: node_names_def canonical_graph_def map_fst_sort)
  moreover have "graph_post_init (canonical_graph g) = Inr ()"
    using assms map_of_canonical [OF d] node_names_canonical [of g]
    by (simp add: graph_ok_def graph_post_init_Inr) (simp add: canonical_graph_def edge_order_def distinct_map)
  ultimately show ?thesis using assms by (simp add: graph_ok_def)
qed

lemma feeds_canonical:
  assumes "graph_ok g"
  shows "feeds (canonical_graph g) = feeds g"
proof -
  have d: "distinct (node_names g)" using assms by (simp add: graph_ok_def)
  have "set (execution_predecessors (canonical_graph g) n) = set (execution_predecessors g n)" for n
    using node_names_canonical [of g] map_of_canonical [OF d]
    by (simp add: execution_predecessors_def is_software_def) auto
  with node_names_canonical show ?thesis by (simp add: feeds_def)
qed

lemma barriers_ok_canonical: "graph_ok g \<Longrightarrow> barriers_ok (canonical_graph g) bs = barriers_ok g bs"
  by (simp add: barriers_ok_def feeds_canonical node_names_canonical)

subsection \<open>The invariant\<close>

definition generation_row_ok :: "GenerationRow \<Rightarrow> bool" where
  "generation_row_ok r \<longleftrightarrow> gn_workflow r = gr_id (gn_graph r) \<and> graph_ok (gn_graph r)
     \<and> (\<forall>rt. gn_runtime r = Some rt \<longrightarrow> barriers_ok (gn_graph r) (rt_barriers rt))"

definition plan_row_ok :: "string \<Rightarrow> PlanRow \<Rightarrow> bool" where
  "plan_row_ok k row \<longleftrightarrow> cycle_id (pr_cycle row) = k \<and> good_plan (pr_cycle row)"

definition node_row_ok :: "string \<Rightarrow> NodeRow \<Rightarrow> bool" where
  "node_row_ok k row \<longleftrightarrow> cycle_id (nr_cycle row) = k \<and> node_ok (nr_cycle row)"

text \<open>The generations of a graph, in the order of the table.\<close>

definition generations_of :: "GenerationRow list \<Rightarrow> string \<Rightarrow> int list" where
  "generations_of rows i = map (gr_generation \<circ> gn_graph) (filter (\<lambda>r. gr_id (gn_graph r) = i) rows)"

definition tables_ok :: "CycleTables \<Rightarrow> bool" where
  "tables_ok db \<longleftrightarrow> (\<forall>r \<in> set (ct_generations db). generation_row_ok r)
     \<and> (\<forall>i. generations_of (ct_generations db) i = [1..int (length (generations_of (ct_generations db) i))])
     \<and> distinct (map fst (ct_plans db)) \<and> (\<forall>(k, row) \<in> set (ct_plans db). plan_row_ok k row)
     \<and> distinct (map (pr_workflow \<circ> snd) (ct_plans db))
     \<and> distinct (map fst (ct_nodes db)) \<and> (\<forall>(k, row) \<in> set (ct_nodes db). node_row_ok k row)"

definition no_tables :: CycleTables where
  "no_tables = \<lparr>ct_generations = [], ct_plans = [], ct_nodes = []\<rparr>"

lemma tables_ok_empty: "tables_ok no_tables"
  by (simp add: tables_ok_def no_tables_def generations_of_def)

lemma row_ok: "tables_ok db \<Longrightarrow> r \<in> set (ct_generations db) \<Longrightarrow> generation_row_ok r"
  by (simp add: tables_ok_def)

text \<open>An execution held by the tables: sound, and of a stored generation of the workflow.\<close>

definition held :: "(pyval \<Rightarrow> string) \<Rightarrow> CycleTables \<Rightarrow> string \<Rightarrow> GraphExecution \<Rightarrow> bool" where
  "held h db workflow_id e \<longleftrightarrow> sound h e \<and> (\<exists>r \<in> set (ct_generations db). gn_workflow r = workflow_id
     \<and> gn_graph r \<in> {ge_graph e, canonical_graph (ge_graph e)})"

lemma heldI: "held h db w e \<Longrightarrow> sound h e' \<Longrightarrow> ge_graph e' = ge_graph e \<Longrightarrow> held h db w e'"
  by (simp add: held_def)

lemma held_sound: "held h db w e \<Longrightarrow> sound h e"
  by (simp add: held_def)

text \<open>Rows are never taken away, and keep their graph.\<close>

definition rows_kept :: "CycleTables \<Rightarrow> CycleTables \<Rightarrow> bool" where
  "rows_kept db db' \<longleftrightarrow> (\<forall>r \<in> set (ct_generations db). \<exists>r' \<in> set (ct_generations db').
     gn_workflow r' = gn_workflow r \<and> gn_graph r' = gn_graph r)"

lemma held_kept: "held h db w e \<Longrightarrow> rows_kept db db' \<Longrightarrow> held h db' w e"
  unfolding held_def rows_kept_def by fastforce

lemma rows_kept_trans: "rows_kept a b \<Longrightarrow> rows_kept b c \<Longrightarrow> rows_kept a c"
  unfolding rows_kept_def by fastforce

lemma rows_kept_map:
  assumes "\<And>r. gn_workflow (f r) = gn_workflow r \<and> gn_graph (f r) = gn_graph r"
    and "ct_generations db' = map f (ct_generations db)"
  shows "rows_kept db db'"
  unfolding rows_kept_def assms(2) set_map using assms(1) by blast

lemma rows_kept_refl: "rows_kept db db"
  by (auto simp: rows_kept_def)

subsection \<open>Appending a generation\<close>

lemma generation_unique:
  assumes "tables_ok db" and "r \<in> set (ct_generations db)" and "r' \<in> set (ct_generations db)"
    and "gr_id (gn_graph r) = gr_id (gn_graph r')" and "gr_generation (gn_graph r) = gr_generation (gn_graph r')"
  shows "r = r'"
proof -
  let ?rows = "filter (\<lambda>x. gr_id (gn_graph x) = gr_id (gn_graph r)) (ct_generations db)"
  have "map (gr_generation \<circ> gn_graph) ?rows = [1..int (length (generations_of (ct_generations db) (gr_id (gn_graph r))))]"
    using assms(1) unfolding tables_ok_def generations_of_def by blast
  then have "distinct (map (gr_generation \<circ> gn_graph) ?rows)" by simp
  then show ?thesis using assms(2-5) by (auto simp: distinct_map inj_on_def)
qed

lemma find_SomeD: "find P xs = Some x \<Longrightarrow> x \<in> set xs \<and> P x"
  by (auto simp: find_Some_iff)

lemma find_generation_row:
  "find_generation db i n = Some r \<Longrightarrow> r \<in> set (ct_generations db) \<and> gr_id (gn_graph r) = i \<and> gr_generation (gn_graph r) = n"
  by (auto simp: find_generation_def row_is_def dest!: find_SomeD)

lemma find_generation_Some:
  assumes "tables_ok db" and "r \<in> set (ct_generations db)"
  shows "find_generation db (gr_id (gn_graph r)) (gr_generation (gn_graph r)) = Some r"
proof -
  have "row_is (gr_id (gn_graph r)) (gr_generation (gn_graph r)) r" by (simp add: row_is_def)
  with assms(2) obtain r' where r': "find_generation db (gr_id (gn_graph r)) (gr_generation (gn_graph r)) = Some r'"
    unfolding find_generation_def by (metis find_None_iff not_None_eq)
  then have "r' \<in> set (ct_generations db)" "row_is (gr_id (gn_graph r)) (gr_generation (gn_graph r)) r'"
    by (auto simp: find_generation_def find_Some_iff)
  with generation_unique [OF assms(1) this(1) assms(2)] r' show ?thesis by (simp add: row_is_def)
qed

lemma latest_generation_length:
  assumes "tables_ok db"
  shows "latest_generation db i = int (length (generations_of (ct_generations db) i))"
proof -
  let ?rows = "filter (\<lambda>r. gr_id (gn_graph r) = i) (ct_generations db)"
  let ?n = "int (length (generations_of (ct_generations db) i))"
  have gens: "map (gr_generation \<circ> gn_graph) ?rows = [1..?n]"
    using assms unfolding tables_ok_def generations_of_def by blast
  show ?thesis
  proof (cases "?rows = []")
    case False
    have "sorted (map (gr_generation \<circ> gn_graph) ?rows)" by (simp only: gens sorted_upto)
    then have "latest_row ?rows = Some (last ?rows)" using False by (simp add: latest_row_def sort_key_id_if_sorted)
    moreover have "gr_generation (gn_graph (last ?rows)) = last [1..?n]"
      using last_map [OF False, of "gr_generation \<circ> gn_graph"] gens by simp
    moreover have "0 < ?n" using False by (simp add: generations_of_def)
    ultimately show ?thesis by (simp add: latest_generation_def upto_rec2)
  qed (simp add: latest_generation_def latest_row_def generations_of_def)
qed

lemma no_later_generation:
  assumes ok: "tables_ok db" and "latest_generation db i < n"
  shows "find_generation db i n = None"
proof (rule ccontr)
  assume "find_generation db i n \<noteq> None"
  then obtain r where "find_generation db i n = Some r" by blast
  from find_generation_row [OF this] have "n \<in> set (generations_of (ct_generations db) i)"
    by (force simp: generations_of_def)
  moreover have "generations_of (ct_generations db) i = [1..int (length (generations_of (ct_generations db) i))]"
    using ok unfolding tables_ok_def by blast
  ultimately have "n \<in> set [1..int (length (generations_of (ct_generations db) i))]" by metis
  then show False using assms(2) latest_generation_length [OF ok] by simp
qed

text \<open>Storing a graph that is new, or the stored one again.\<close>

definition new_or_stored :: "CycleTables \<Rightarrow> GraphIR \<Rightarrow> bool" where
  "new_or_stored db g \<longleftrightarrow> (\<forall>r. find_generation db (gr_id g) (gr_generation g) = Some r \<longrightarrow> gn_graph r = g)"

lemma tables_ok_append:
  assumes ok: "tables_ok db" and g: "graph_ok g" and next_one: "gr_generation g = latest_generation db (gr_id g) + 1"
  shows "tables_ok (db\<lparr>ct_generations := ct_generations db @
    [\<lparr>gn_graph = canonical_graph g, gn_workflow = gr_id g, gn_status = status, gn_runtime = None\<rparr>]\<rparr>)"
proof -
  let ?row = "\<lparr>gn_graph = canonical_graph g, gn_workflow = gr_id g, gn_status = status, gn_runtime = None\<rparr>"
  have "generations_of (ct_generations db @ [?row]) i =
      [1..int (length (generations_of (ct_generations db @ [?row]) i))]" for i
  proof -
    have old: "generations_of (ct_generations db) i = [1..int (length (generations_of (ct_generations db) i))]"
      using ok unfolding tables_ok_def by blast
    show ?thesis
    proof (cases "gr_id g = i")
      case True
      then have "generations_of (ct_generations db @ [?row]) i = generations_of (ct_generations db) i @ [gr_generation g]"
        by (simp add: generations_of_def)
      moreover have "gr_generation g = int (length (generations_of (ct_generations db) i)) + 1"
        using next_one latest_generation_length [OF ok] True by simp
      ultimately show ?thesis using old by (simp add: upto_rec2)
    qed (use old in \<open>simp add: generations_of_def\<close>)
  qed
  moreover have "generation_row_ok ?row" using graph_ok_canonical [OF g] by (simp add: generation_row_ok_def)
  ultimately show ?thesis using ok by (simp add: tables_ok_def)
qed

lemma store_generation_ok:
  assumes "store_graph_generation h db (gr_id g) g status = Inr (g', db')" and ok: "tables_ok db"
    and g: "graph_ok g" and "new_or_stored db g"
  shows "tables_ok db' \<and> rows_kept db db' \<and> (\<exists>r \<in> set (ct_generations db'). gn_workflow r = gr_id g
    \<and> gn_graph r \<in> {g, canonical_graph g})"
proof (cases "find_generation db (gr_id g) (gr_generation g)")
  case None
  let ?row = "\<lparr>gn_graph = canonical_graph g, gn_workflow = gr_id g, gn_status = status, gn_runtime = None\<rparr>"
  from assms(1) None have next_one: "gr_generation g = latest_generation db (gr_id g) + 1"
    and db': "db' = db\<lparr>ct_generations := ct_generations db @ [?row]\<rparr>"
    by (auto simp: store_graph_generation_def integrity_error_def split: if_split_asm)
  from tables_ok_append [OF ok g next_one, of status] show ?thesis by (simp add: db' rows_kept_def) blast
next
  case (Some r)
  with assms(1,4) have "db' = db" "gn_workflow r = gr_id g" "gn_graph r = g"
    by (auto simp: store_graph_generation_def new_or_stored_def split: if_split_asm)
  with find_generation_row [OF Some] ok show ?thesis by (auto simp: rows_kept_refl)
qed

subsection \<open>Storing and reading\<close>

lemma distinct_fst_update: "distinct (map fst xs) \<Longrightarrow> distinct (map fst (AList.update k v xs))"
  by (rule distinct_update)

lemma all_update:
  assumes "\<forall>(k, v) \<in> set xs. P k v" and "P k v" and "distinct (map fst xs)"
  shows "\<forall>(k, v) \<in> set (AList.update k v xs). P k v"
proof -
  have "P k' v'" if "(k', v') \<in> set (AList.update k v xs)" for k' v'
  proof -
    from that distinct_update [OF assms(3)] have "map_of (AList.update k v xs) k' = Some v'" by simp
    then have "(k' = k \<and> v' = v) \<or> map_of xs k' = Some v'" by (auto simp: update_conv' split: if_splits)
    with assms show ?thesis by (auto dest: map_of_SomeD)
  qed
  then show ?thesis by blast
qed

lemma tables_ok_nodes:
  "tables_ok db \<Longrightarrow> distinct (map fst ns) \<Longrightarrow> \<forall>(k, row) \<in> set ns. node_row_ok k row \<Longrightarrow> tables_ok (db\<lparr>ct_nodes := ns\<rparr>)"
  by (simp add: tables_ok_def)

lemma nodes_ok: "tables_ok db \<Longrightarrow> distinct (map fst (ct_nodes db)) \<and> (\<forall>(k, row) \<in> set (ct_nodes db). node_row_ok k row)"
  by (simp add: tables_ok_def)

lemma tables_ok_put_node:
  assumes "tables_ok db" and "node_ok (nr_cycle row)" and "cycle_id (nr_cycle row) = k"
  shows "tables_ok (db\<lparr>ct_nodes := AList.update k row (ct_nodes db)\<rparr>)"
  using nodes_ok [OF assms(1)] assms
  by (intro tables_ok_nodes all_update distinct_fst_update) (simp_all add: node_row_ok_def)

lemma tables_ok_store_node:
  assumes "store_node_cycle w g c db = Inr db'" and "tables_ok db" and "node_ok c"
  shows "tables_ok db' \<and> ct_generations db' = ct_generations db"
  using assms(1) tables_ok_put_node [OF assms(2)] assms(3)
  by (auto simp: store_node_cycle_def integrity_error_def split: option.splits if_split_asm)

lemma tables_ok_store_nodes:
  "store_node_cycles w g cs db = Inr db' \<Longrightarrow> tables_ok db \<Longrightarrow> \<forall>c \<in> set cs. node_ok c
     \<Longrightarrow> tables_ok db' \<and> ct_generations db' = ct_generations db"
proof (induction cs arbitrary: db)
  case (Cons c cs)
  from Cons.prems(1) obtain db1 where db1: "store_node_cycle w g c db = Inr db1"
    and rest: "store_node_cycles w g cs db1 = Inr db'" by auto
  from tables_ok_store_node [OF db1 Cons.prems(2)] Cons.prems(3) have "tables_ok db1 \<and> ct_generations db1 = ct_generations db"
    by simp
  with Cons.IH [OF rest] Cons.prems(3) show ?case by simp
qed simp

lemma generations_of_map:
  "(\<And>r. gn_graph (f r) = gn_graph r) \<Longrightarrow> generations_of (map f rows) i = generations_of rows i"
  by (simp add: generations_of_def filter_map comp_def)

lemma sound_node_cycles: "sound h e \<Longrightarrow> \<forall>c \<in> set (map snd (ge_cycles e)). node_ok c"
  using sound_cycles [of h e] by (auto simp: cycles_ok_def is_dict_in_set)

text \<open>Only the runtime metadata of the generation's row changes.\<close>

lemma tables_ok_put_runtime:
  assumes ok: "tables_ok db" and held: "held h db w e"
  shows "tables_ok (put_runtime e db)"
proof -
  let ?f = "\<lambda>r. if row_is (gr_id (ge_graph e)) (gr_generation (ge_graph e)) r then
      r\<lparr>gn_status := lowercase_state (ge_state e), gn_runtime := Some (runtime_of e)\<rparr> else r"
  from held obtain r0 where r0: "r0 \<in> set (ct_generations db)" and g: "gn_graph r0 \<in> {ge_graph e, canonical_graph (ge_graph e)}"
    unfolding held_def by blast
  have b: "barriers_ok (gn_graph r0) (ge_barriers e)"
    using g sound_barriers [OF held_sound [OF held]] sound_graph [OF held_sound [OF held]] by (auto simp: barriers_ok_canonical)
  have same: "r = r0" if "r \<in> set (ct_generations db)" "row_is (gr_id (ge_graph e)) (gr_generation (ge_graph e)) r" for r
    using generation_unique [OF ok that(1) r0] that(2) g by (auto simp: row_is_def)
  have row: "generation_row_ok (?f r)" if "r \<in> set (ct_generations db)" for r
    using row_ok [OF ok that] same [OF that] b by (auto simp: generation_row_ok_def runtime_of_def)
  have "\<forall>r \<in> set (map ?f (ct_generations db)). generation_row_ok r"
    unfolding set_map by (intro ballI, elim imageE) (use row in blast)
  moreover have "generations_of (map ?f (ct_generations db)) i = generations_of (ct_generations db) i" for i
    by (rule generations_of_map) simp
  ultimately show ?thesis using ok by (simp add: tables_ok_def put_runtime_def del: set_map)
qed

lemma tables_ok_store_execution:
  assumes "store_graph_execution h db w e = Inr db'" and ok: "tables_ok db" and held: "held h db w e"
  shows "tables_ok db' \<and> rows_kept db db'"
proof -
  from assms(1) obtain db1 where nodes: "store_node_cycles w (ge_graph e) (map snd (ge_cycles e)) db = Inr db1"
    and db': "db' = put_runtime e db1"
    by (auto simp: store_graph_execution_def split: option.splits if_split_asm)
  from tables_ok_store_nodes [OF nodes ok sound_node_cycles [OF held_sound [OF held]]]
  have ok1: "tables_ok db1" and gens: "ct_generations db1 = ct_generations db" by simp_all
  have "held h db1 w e" using held gens by (simp add: held_def)
  with ok1 have "tables_ok (put_runtime e db1)" by (rule tables_ok_put_runtime)
  moreover have "rows_kept db (put_runtime e db1)"
    by (rule rows_kept_map [where f = "\<lambda>r. if row_is (gr_id (ge_graph e)) (gr_generation (ge_graph e)) r then
      r\<lparr>gn_status := lowercase_state (ge_state e), gn_runtime := Some (runtime_of e)\<rparr> else r"])
      (simp_all add: put_runtime_def gens)
  ultimately show ?thesis by (simp add: db')
qed

text \<open>A stored execution is read as a sound one.\<close>

lemma fold_dict_put:
  assumes "\<forall>row \<in> set rows. P (node_name (f row)) (f row)" and "is_dict d" and "\<forall>n c. map_of d n = Some c \<longrightarrow> P n c"
  shows "is_dict (fold (\<lambda>row. dict_put (node_name (f row)) (f row)) rows d)
    \<and> (\<forall>n c. map_of (fold (\<lambda>row. dict_put (node_name (f row)) (f row)) rows d) n = Some c \<longrightarrow> P n c)"
  using assms
proof (induction rows arbitrary: d)
  case (Cons row rows)
  have "\<forall>n c. map_of (dict_put (node_name (f row)) (f row) d) n = Some c \<longrightarrow> P n c"
    using Cons.prems by simp
  with Cons.IH [of "dict_put (node_name (f row)) (f row) d"] Cons.prems show ?case by simp
qed simp

lemma row_filter: "set (sort_key f (filter P xs)) \<subseteq> set xs"
  by auto

lemma read_node_cycles_ok:
  assumes "tables_ok db"
  shows "is_dict (read_node_cycles db w n)
    \<and> (\<forall>m c. map_of (read_node_cycles db w n) m = Some c \<longrightarrow> node_name c = m \<and> node_ok c)"
proof -
  have all: "\<forall>row \<in> set (ct_nodes db). node_ok (nr_cycle (snd row))"
    using nodes_ok [OF assms] by (auto simp: node_row_ok_def)
  have "is_dict (fold (\<lambda>row. dict_put (node_name (nr_cycle (snd row))) (nr_cycle (snd row))) rows [])
    \<and> (\<forall>m c. map_of (fold (\<lambda>row. dict_put (node_name (nr_cycle (snd row))) (nr_cycle (snd row))) rows []) m = Some c
         \<longrightarrow> node_name c = m \<and> node_ok c)" if "set rows \<subseteq> set (ct_nodes db)" for rows
  proof (rule fold_dict_put)
    show "\<forall>row \<in> set rows. node_name (nr_cycle (snd row)) = node_name (nr_cycle (snd row)) \<and> node_ok (nr_cycle (snd row))"
      using all that by blast
  qed simp_all
  then have "is_dict (fold (\<lambda>(_, r). dict_put (node_name (nr_cycle r)) (nr_cycle r)) rows [])
    \<and> (\<forall>m c. map_of (fold (\<lambda>(_, r). dict_put (node_name (nr_cycle r)) (nr_cycle r)) rows []) m = Some c
         \<longrightarrow> node_name c = m \<and> node_ok c)" if "set rows \<subseteq> set (ct_nodes db)" for rows
    unfolding case_prod_beta using that by blast
  from this [OF row_filter] show ?thesis unfolding read_node_cycles_def Let_def .
qed

lemma restore_sound:
  assumes "restore_execution h db w r = Inr (Some e)" and ok: "tables_ok db" and r: "r \<in> set (ct_generations db)"
  shows "sound h e \<and> ge_graph e = gn_graph r"
proof -
  let ?g = "gn_graph r" and ?cycles = "read_node_cycles db w (Some (gr_generation (gn_graph r)))"
  let ?bs = "case gn_runtime r of None \<Rightarrow> [] | Some rt \<Rightarrow> rt_barriers rt"
  from assms(1) obtain s p l where
    e: "make_execution h \<lparr>ge_graph = ?g, ge_state = s, ge_cycles = ?cycles, ge_published = p, ge_barriers = ?bs,
      ge_repairs = l\<rparr> = Inr e"
    by (auto simp: restore_execution_def Let_def split: if_split_asm)
  have keys: "keys ?cycles = set (node_names ?g)"
    using e by (simp add: make_execution_def Let_def split: if_split_asm)
  have row: "generation_row_ok r" by (rule row_ok [OF ok r])
  have "cycles_ok ?g ?cycles" using read_node_cycles_ok [OF ok] keys by (simp add: cycles_ok_def)
  moreover have "barriers_ok ?g ?bs"
    using row by (auto simp: generation_row_ok_def barriers_ok_def keys_def split: option.split)
  ultimately have "execution_ok \<lparr>ge_graph = ?g, ge_state = s, ge_cycles = ?cycles, ge_published = p,
      ge_barriers = ?bs, ge_repairs = l\<rparr>"
    using row by (simp add: execution_ok_def generation_row_ok_def)
  then show ?thesis using sound_make [OF _ e] make_execution_graph [OF e] by simp
qed

lemma latest_row_in: "latest_row rows = Some r \<Longrightarrow> r \<in> set rows"
  by (auto simp: latest_row_def split: if_splits) (metis last_in_set set_empty set_sort)

lemma read_execution_held:
  assumes "read_graph_execution h db w generation = Inr (Some e)" and ok: "tables_ok db"
  shows "held h db w e \<and> gr_id (ge_graph e) = w"
proof -
  from assms(1) obtain r where r: "r \<in> set (ct_generations db)" "gn_workflow r = w"
    and e: "restore_execution h db w r = Inr (Some e)"
    by (auto simp: read_graph_execution_def dest!: latest_row_in find_SomeD split: option.splits)
  from restore_sound [OF e ok r(1)] r row_ok [OF ok r(1)] show ?thesis
    by (auto simp: held_def generation_row_ok_def)
qed

lemma latest_execution:
  assumes "read_graph_execution h db w None = Inr (Some e)" and ok: "tables_ok db"
  shows "gr_generation (ge_graph e) = latest_generation db w"
proof -
  have rows: "filter (\<lambda>r. gn_workflow r = w) (ct_generations db) = filter (\<lambda>r. gr_id (gn_graph r) = w) (ct_generations db)"
    by (rule filter_cong) (use row_ok [OF ok] in \<open>auto simp: generation_row_ok_def\<close>)
  from assms(1) obtain r where r: "latest_row (filter (\<lambda>r. gr_id (gn_graph r) = w) (ct_generations db)) = Some r"
    and e: "restore_execution h db w r = Inr (Some e)"
    by (auto simp: read_graph_execution_def rows split: option.splits)
  from latest_row_in [OF r] have "r \<in> set (ct_generations db)" by simp
  from restore_sound [OF e ok this] r show ?thesis by (simp add: latest_generation_def)
qed

lemma current_execution_held:
  "current_execution h db w generation = Inr e \<Longrightarrow> tables_ok db \<Longrightarrow> held h db w e \<and> gr_id (ge_graph e) = w"
  by (auto simp: current_execution_def dest: read_execution_held split: option.splits)

lemma tables_ok_save: "save_execution h db w e x = Inr (y, db') \<Longrightarrow> tables_ok db \<Longrightarrow> held h db w e \<Longrightarrow> tables_ok db'"
  by (auto simp: save_execution_def dest: tables_ok_store_execution)

subsection \<open>Plan cycles\<close>

lemma update_existing:
  "map_of xs k = Some v \<Longrightarrow> f v' = f v \<Longrightarrow> map (f \<circ> snd) (AList.update k v' xs) = map (f \<circ> snd) xs"
  by (induction xs) auto

lemma update_new: "map_of xs k = None \<Longrightarrow> AList.update k v xs = xs @ [(k, v)]"
  by (induction xs) (auto split: if_splits)

lemma plans_ok:
  "tables_ok db \<Longrightarrow> distinct (map fst (ct_plans db)) \<and> (\<forall>(k, row) \<in> set (ct_plans db). plan_row_ok k row)
     \<and> distinct (map (pr_workflow \<circ> snd) (ct_plans db))"
  by (simp add: tables_ok_def)

lemma tables_ok_plans:
  "tables_ok db \<Longrightarrow> distinct (map fst ps) \<Longrightarrow> \<forall>(k, row) \<in> set ps. plan_row_ok k row
     \<Longrightarrow> distinct (map (pr_workflow \<circ> snd) ps) \<Longrightarrow> tables_ok (db\<lparr>ct_plans := ps\<rparr>)"
  by (simp add: tables_ok_def)

lemma tables_ok_store_plan:
  assumes "store_plan_cycle db w c = Inr db'" and ok: "tables_ok db" and good: "good_plan c"
  shows "tables_ok db'"
proof -
  have put: "tables_ok (db\<lparr>ct_plans := AList.update (cycle_id c) row (ct_plans db)\<rparr>)"
    if "pr_cycle row = c" and "distinct (map (pr_workflow \<circ> snd) (AList.update (cycle_id c) row (ct_plans db)))" for row
    using plans_ok [OF ok] that good
    by (intro tables_ok_plans [OF ok] distinct_fst_update all_update) (simp_all add: plan_row_ok_def)
  show ?thesis
  proof (cases "map_of (ct_plans db) (cycle_id c)")
    case None
    with assms(1) have fresh: "\<not> list_ex (\<lambda>(_, row). pr_workflow row = w) (ct_plans db)"
      and db': "db' = db\<lparr>ct_plans := AList.update (cycle_id c) \<lparr>pr_workflow = w, pr_cycle = c\<rparr> (ct_plans db)\<rparr>"
      by (simp_all add: store_plan_cycle_def integrity_error_def split: if_split_asm)
    have "distinct (map (pr_workflow \<circ> snd) (ct_plans db @ [(cycle_id c, \<lparr>pr_workflow = w, pr_cycle = c\<rparr>)]))"
      using plans_ok [OF ok] fresh by (auto simp: list_ex_iff)
    then show ?thesis unfolding db' by (intro put) (simp_all add: update_new [OF None])
  next
    case (Some row)
    with assms(1) have db': "db' = db\<lparr>ct_plans := AList.update (cycle_id c) (row\<lparr>pr_cycle := c\<rparr>) (ct_plans db)\<rparr>"
      by (simp add: store_plan_cycle_def)
    show ?thesis unfolding db'
      using plans_ok [OF ok] by (intro put) (simp_all add: update_existing [OF Some])
  qed
qed

lemma read_plan_good:
  assumes "read_plan_cycle db w = Some c" and "tables_ok db"
  shows "good_plan c"
proof -
  from assms(1) obtain k row where "(k, row) \<in> set (ct_plans db)" "c = pr_cycle row"
    by (auto simp: read_plan_cycle_def dest!: find_SomeD)
  with plans_ok [OF assms(2)] show ?thesis by (auto simp: plan_row_ok_def)
qed

subsection \<open>New executions\<close>

lemma replanned_cycle_ok:
  assumes "replanned_cycle source target diff n = Inr (k, c)" and "cycles_ok g (ge_cycles source)"
  shows "k = n \<and> node_name c = n \<and> node_ok c"
proof -
  have fresh: "node_name c = n \<and> node_ok c" if "new_node_cycle i n generation STALE p = Inr c" for i generation p
    using new_node_cycle_valid [OF that] by (simp add: idle_states_def)
  show ?thesis
  proof (cases "map_of (ge_cycles source) n")
    case None
    with assms(1) fresh show ?thesis by (auto simp: replanned_cycle_def Let_def split: option.splits)
  next
    case (Some old)
    have old: "node_ok old" "node_name old = n" using cycles_ok_lookup [OF assms(2) Some] by simp_all
    from assms(1) Some consider i p where "k = n" "new_node_cycle i n (gr_generation target) STALE p = Inr c"
      | i where "k = n" "cy_state old = ACCEPTED" "Cycle_Protocol.replace node_post_init (old\<lparr>cycle_id := i,
          cy_generation := gr_generation target, cy_assignment := None,
          cy_verdict := map_option (\<lambda>v. v\<lparr>vd_generation := gr_generation target\<rparr>) (cy_verdict old)\<rparr>) = Inr c"
      by (auto simp: replanned_cycle_def Let_def split: option.splits if_split_asm)
    then show ?thesis
    proof cases
      case 2
      have resume: "cy_resume old = None" by (rule node_ok_resume [OF old(1)]) (simp add: 2(2) suspended_states_def)
      from replace_node_valid [OF 2(3)] old 2 resume show ?thesis
        by (auto simp: node_ok_def cycle_inv_plain accepting_with_def active_slot_def)
    qed (use fresh in blast)
  qed
qed

lemma sound_replanned:
  assumes "replanned_execution h source target diff = Inr e" and source: "sound h source" and g: "graph_ok target"
  shows "sound h e \<and> ge_graph e = target"
proof -
  from assms(1) obtain cycles e0 where cycles: "map_res (replanned_cycle source target diff) (node_names target) = Inr cycles"
    and e0: "make_execution h \<lparr>ge_graph = target, ge_state = G_RUNNING, ge_cycles = dict_of cycles, ge_published = [],
      ge_barriers = [], ge_repairs = empty_ledger\<rparr> = Inr e0"
    and e: "refresh h e0 = Inr e"
    unfolding replanned_execution_def rbind_eq_Inr by blast
  have "cycles_ok target (dict_of cycles)"
    by (rule map_res_cycles_ok [OF cycles graph_ok_distinct [OF g]]) (use replanned_cycle_ok sound_cycles [OF source] in blast)
  then have "sound h e0" by (rule sound_fresh [OF e0 g])
  with e refresh_graph [of h e0 e] make_execution_graph [OF e0] show ?thesis
    unfolding refresh_def by (auto intro: sound_refresh)
qed

subsection \<open>Evidence of repairs\<close>

text \<open>
  What the ledger of a generation has recorded: its sealed cohorts, the intents, the frozen incarnations, the
  captured receipts and the proofs of closure.
\<close>

definition recorded_intents :: "DependencyRepairLedger \<Rightarrow> (string \<times> RepairIntent) set" where
  "recorded_intents l = (\<Union>c \<in> set (cohorts l). set (co_intents c))"

definition frozen_incarnations :: "DependencyRepairLedger \<Rightarrow> (string \<times> RepairIncarnation) set" where
  "frozen_incarnations l = (\<Union>c \<in> set (cohorts l). set (co_frontier c))"

text \<open>
  An incarnation may be recorded before its role, lease or snapshot exists and be completed later; what it already
  names stays as it is.
\<close>

definition keeps_text :: "string \<Rightarrow> string \<Rightarrow> bool" where
  "keeps_text old new \<longleftrightarrow> old = [] \<or> new = old"

definition keeps_number :: "int \<Rightarrow> int \<Rightarrow> bool" where
  "keeps_number old new \<longleftrightarrow> old = 0 \<or> new = old"

definition ownership_texts :: "(RepairIncarnation \<Rightarrow> string) list" where
  "ownership_texts = [rn_node, rn_cycle, rn_input, rn_slot, rn_aggregate, rn_effect, rn_effect_key, rn_assignment, rn_attempt,
     rn_lease, rn_owner, rn_snapshot_lease, rn_snapshot_owner]"

definition ownership_numbers :: "(RepairIncarnation \<Rightarrow> int) list" where
  "ownership_numbers = [rn_generation, rn_token, rn_snapshot_token]"

definition keeps_ownership :: "RepairIncarnation \<Rightarrow> RepairIncarnation \<Rightarrow> bool" where
  "keeps_ownership n n' \<longleftrightarrow> (\<forall>f \<in> set ownership_texts. keeps_text (f n) (f n')) \<and> (\<forall>f \<in> set ownership_numbers. keeps_number (f n) (f n'))"

lemma keeps_trans:
  "keeps_text x y \<Longrightarrow> keeps_text y z \<Longrightarrow> keeps_text x z"
  "keeps_number a b \<Longrightarrow> keeps_number b c \<Longrightarrow> keeps_number a c"
  by (auto simp: keeps_text_def keeps_number_def)

lemma keeps_ownership_refl [simp]: "keeps_ownership n n"
  by (simp add: keeps_ownership_def keeps_text_def keeps_number_def)

lemma keeps_ownership_trans:
  assumes "keeps_ownership a b" and "keeps_ownership b c"
  shows "keeps_ownership a c"
  unfolding keeps_ownership_def
proof (intro conjI ballI)
  fix f assume f: "f \<in> set ownership_texts"
  have "keeps_text (f a) (f b)" by (rule bspec [OF conjunct1 [OF assms(1) [unfolded keeps_ownership_def]] f])
  moreover have "keeps_text (f b) (f c)" by (rule bspec [OF conjunct1 [OF assms(2) [unfolded keeps_ownership_def]] f])
  ultimately show "keeps_text (f a) (f c)" by (rule keeps_trans)
next
  fix f assume f: "f \<in> set ownership_numbers"
  have "keeps_number (f a) (f b)" by (rule bspec [OF conjunct2 [OF assms(1) [unfolded keeps_ownership_def]] f])
  moreover have "keeps_number (f b) (f c)" by (rule bspec [OF conjunct2 [OF assms(2) [unfolded keeps_ownership_def]] f])
  ultimately show "keeps_number (f a) (f c)" by (rule keeps_trans)
qed

lemma truthy_kept:
  "(truthy (PStr x) \<and> PStr x \<noteq> PStr y) \<longleftrightarrow> \<not> keeps_text x y" "(truthy (PInt a) \<and> PInt a \<noteq> PInt b) \<longleftrightarrow> \<not> keeps_number a b"
  by (auto simp: keeps_text_def keeps_number_def)

lemma bind_keeps_ownership: "bind_incarnation h n n' = Inr x \<Longrightarrow> keeps_ownership n n'"
proof -
  assume "bind_incarnation h n n' = Inr x"
  then have "\<not> list_ex (\<lambda>((k, a), (_, b)). truthy a \<and> a \<noteq> b) (zip (incarnation_dict n) (incarnation_dict n'))"
    by (simp add: bind_incarnation_def split: if_split_asm)
  then show ?thesis
    unfolding incarnation_dict_def
    by (simp only: zip_Cons_Cons zip_Nil list_ex_Nil_iff list_ex_Cons_iff prod.case truthy_kept de_Morgan_disj not_not)
      (simp add: keeps_ownership_def ownership_texts_def ownership_numbers_def)
qed

definition ownership_kept :: "(string \<times> RepairIncarnation) set \<Rightarrow> (string \<times> RepairIncarnation) set \<Rightarrow> bool" where
  "ownership_kept old new \<longleftrightarrow> (\<forall>(k, n) \<in> old. \<exists>n'. (k, n') \<in> new \<and> keeps_ownership n n')"

lemma ownership_kept_subset: "A \<subseteq> B \<Longrightarrow> ownership_kept A B"
  unfolding ownership_kept_def using keeps_ownership_refl by blast

lemma ownership_kept_trans: "ownership_kept A B \<Longrightarrow> ownership_kept B C \<Longrightarrow> ownership_kept A C"
  unfolding ownership_kept_def using keeps_ownership_trans by fast

definition captured_receipts :: "DependencyRepairLedger \<Rightarrow> (string \<times> ArtifactRef) set" where
  "captured_receipts l = (\<Union>c \<in> set (cohorts l). {(k, r). r \<in> set (captured c k)})"

definition closure_proofs :: "DependencyRepairLedger \<Rightarrow> (string \<times> RepairClosure) set" where
  "closure_proofs l = (\<Union>c \<in> set (cohorts l). set (co_closures c))"

definition keeps_evidence :: "DependencyRepairLedger \<Rightarrow> DependencyRepairLedger \<Rightarrow> bool" where
  "keeps_evidence old new \<longleftrightarrow> take (length (lg_history old)) (lg_history new) = lg_history old
     \<and> recorded_intents old \<subseteq> recorded_intents new \<and> ownership_kept (frozen_incarnations old) (frozen_incarnations new)
     \<and> captured_receipts old \<subseteq> captured_receipts new \<and> closure_proofs old \<subseteq> closure_proofs new"

lemma keeps_evidence_refl: "keeps_evidence l l"
  by (simp add: keeps_evidence_def ownership_kept_subset)

lemma take_prefix_trans:
  assumes "take (length xs) ys = xs" and "take (length ys) zs = ys"
  shows "take (length xs) zs = xs"
proof -
  from assms(1) have "length xs \<le> length ys" by (metis length_take min.cobounded2 min.commute)
  with assms show ?thesis by (metis min.absorb1 take_take)
qed

lemma keeps_evidence_trans: "keeps_evidence a b \<Longrightarrow> keeps_evidence b c \<Longrightarrow> keeps_evidence a c"
  unfolding keeps_evidence_def using take_prefix_trans ownership_kept_trans by blast

lemma not_lost: "\<not> refs_lost old new \<Longrightarrow> set old \<subseteq> set new"
  unfolding refs_lost_def list_ex_iff by (fastforce dest: map_of_SomeD)

text \<open>The cohort that takes the place of a pending one keeps everything the pending one has recorded.\<close>

definition covers :: "DependencyRepairCohort \<Rightarrow> DependencyRepairCohort \<Rightarrow> bool" where
  "covers c c' \<longleftrightarrow> set (co_intents c) \<subseteq> set (co_intents c') \<and> ownership_kept (set (co_frontier c)) (set (co_frontier c'))
    \<and> (\<forall>k. set (captured c k) \<subseteq> set (captured c' k)) \<and> set (co_closures c) \<subseteq> set (co_closures c')"

lemma covers_refl: "covers c c"
  by (simp add: covers_def ownership_kept_subset)

lemma UN_covers:
  assumes "\<forall>c \<in> A. \<exists>c' \<in> B. covers c c'" and "\<And>c c'. covers c c' \<Longrightarrow> F c \<subseteq> F c'"
  shows "(\<Union>c \<in> A. F c) \<subseteq> (\<Union>c \<in> B. F c)"
proof
  fix x assume "x \<in> (\<Union>c \<in> A. F c)"
  then obtain c where c: "c \<in> A" "x \<in> F c" by blast
  with assms(1) obtain c' where "c' \<in> B" "covers c c'" by blast
  with assms(2) c(2) show "x \<in> (\<Union>c \<in> B. F c)" by blast
qed

lemma covers_evidence:
  assumes "take (length (lg_history old)) (lg_history new) = lg_history old"
    and all: "\<forall>c \<in> set (cohorts old). \<exists>c' \<in> set (cohorts new). covers c c'"
  shows "keeps_evidence old new"
  unfolding keeps_evidence_def recorded_intents_def captured_receipts_def closure_proofs_def
proof (intro conjI UN_covers [OF all])
  show "ownership_kept (frozen_incarnations old) (frozen_incarnations new)"
    using all unfolding frozen_incarnations_def ownership_kept_def covers_def by fast
next
  fix c c' assume "covers c c'"
  then show "{(k, r). r \<in> set (captured c k)} \<subseteq> {(k, r). r \<in> set (captured c' k)}" by (auto simp: covers_def)
qed (use assms(1) in \<open>simp_all add: covers_def\<close>)

lemma pending_successor:
  assumes "assert_pending_successor h c c' = Inr ()"
  shows "covers c c'"
proof -
  from assms have i: "\<forall>(k, i) \<in> set (co_intents c). map_of (co_intents c') k = Some i"
    and f: "\<forall>(k, n) \<in> set (co_frontier c). \<exists>n' x. map_of (co_frontier c') k = Some n' \<and> bind_incarnation h n n' = Inr x"
    and r: "\<forall>(k, refs) \<in> set (co_captures c). \<not> refs_lost refs (captured c' k)"
    and p: "\<forall>(k, x) \<in> set (co_closures c). map_of (co_closures c') k = Some x"
    by (auto simp: assert_pending_successor_def first_error_Inr list_ex_iff split: if_split_asm) (fastforce split: option.splits)+
  have "set (captured c k) \<subseteq> set (captured c' k)" for k
  proof (cases "map_of (co_captures c) k")
    case (Some refs)
    with r have "\<not> refs_lost refs (captured c' k)" by (auto dest: map_of_SomeD)
    with Some show ?thesis using not_lost by (simp add: captured_def [of c])
  qed (simp add: captured_def [of c])
  moreover have "ownership_kept (set (co_frontier c)) (set (co_frontier c'))"
    using f bind_keeps_ownership map_of_SomeD unfolding ownership_kept_def by fast
  ultimately show ?thesis using i p unfolding covers_def by (auto dest: map_of_SomeD)
qed

lemma successor_keeps_evidence:
  assumes "assert_successor h old new = Inr ()"
  shows "keeps_evidence old new"
proof -
  have prefix: "take (length (lg_history old)) (lg_history new) = lg_history old"
    using assms by (simp add: assert_successor_def split: if_split_asm)
  then have history: "set (lg_history old) \<subseteq> set (cohorts new)"
    unfolding cohorts_def by (metis Un_iff set_append set_take_subset subsetI subset_iff)
  show ?thesis
  proof (cases "lg_pending old")
    case None
    then have "set (cohorts old) \<subseteq> set (cohorts new)" using history by (simp add: cohorts_def [of old])
    then show ?thesis using covers_refl by (intro covers_evidence [OF prefix]) blast
  next
    case (Some c)
    with assms prefix obtain c' where
      c': "filter (\<lambda>c'. keys (co_intents c) \<subseteq> keys (co_intents c')) (drop (length (lg_history old)) (lg_history new)
        @ (case lg_pending new of None \<Rightarrow> [] | Some c' \<Rightarrow> [c'])) = [c']" and s: "assert_pending_successor h c c' = Inr ()"
      by (auto simp: assert_successor_def split: list.splits if_split_asm)
    have "c' \<in> set (drop (length (lg_history old)) (lg_history new)
        @ (case lg_pending new of None \<Rightarrow> [] | Some c' \<Rightarrow> [c']))"
      using c' by (metis filter_is_subset list.set_intros(1) subsetD)
    then have c'_in: "c' \<in> set (cohorts new)" unfolding cohorts_def set_append by (auto dest: in_set_dropD)
    have cohorts: "set (cohorts old) = insert c (set (lg_history old))" using Some by (simp add: cohorts_def)
    show ?thesis
    proof (rule covers_evidence [OF prefix], unfold cohorts, rule ballI)
      fix x assume "x \<in> insert c (set (lg_history old))"
      then consider "x = c" | "x \<in> set (cohorts new)" using history by blast
      then show "\<exists>y \<in> set (cohorts new). covers x y"
        using c'_in pending_successor [OF s] covers_refl by cases blast+
    qed
  qed
qed

subsection \<open>Tables that grow\<close>

definition ledger_of :: "CycleTables \<Rightarrow> string \<Rightarrow> int \<Rightarrow> DependencyRepairLedger" where
  "ledger_of db i n = (case find_generation db i n of None \<Rightarrow> empty_ledger | Some r \<Rightarrow> stored_repairs r)"

definition grows :: "CycleTables \<Rightarrow> CycleTables \<Rightarrow> bool" where
  "grows db db' \<longleftrightarrow> rows_kept db db' \<and> (\<forall>i n. keeps_evidence (ledger_of db i n) (ledger_of db' i n))"

lemma grows_refl: "grows db db"
  by (simp add: grows_def rows_kept_refl keeps_evidence_refl)

lemma grows_trans: "grows a b \<Longrightarrow> grows b c \<Longrightarrow> grows a c"
  unfolding grows_def using rows_kept_trans keeps_evidence_trans by blast

lemma grows_same: "ct_generations db' = ct_generations db \<Longrightarrow> grows db db'"
  by (auto simp: grows_def rows_kept_def ledger_of_def find_generation_def keeps_evidence_refl)

lemma find_map: "(\<And>x. P (f x) = P x) \<Longrightarrow> find P (map f xs) = map_option f (find P xs)"
  by (induction xs) auto

lemma find_append: "find P (xs @ ys) = (case find P xs of None \<Rightarrow> find P ys | Some x \<Rightarrow> Some x)"
  by (induction xs) auto

lemma grows_append:
  assumes "gn_runtime row = None"
  shows "grows db (db\<lparr>ct_generations := ct_generations db @ [row]\<rparr>)"
proof -
  have "ledger_of (db\<lparr>ct_generations := ct_generations db @ [row]\<rparr>) i n = ledger_of db i n" for i n
    using assms by (simp add: ledger_of_def find_generation_def find_append stored_repairs_def split: option.split)
  then show ?thesis by (auto simp: grows_def keeps_evidence_refl rows_kept_def)
qed

lemma ledger_of_put:
  "ledger_of (put_runtime e db) i n =
     (if i = gr_id (ge_graph e) \<and> n = gr_generation (ge_graph e) \<and> find_generation db i n \<noteq> None then ge_repairs e
      else ledger_of db i n)"
proof -
  let ?f = "\<lambda>r. if row_is (gr_id (ge_graph e)) (gr_generation (ge_graph e)) r then
      r\<lparr>gn_status := lowercase_state (ge_state e), gn_runtime := Some (runtime_of e)\<rparr> else r"
  have found: "find_generation (put_runtime e db) i n = map_option ?f (find_generation db i n)"
    unfolding find_generation_def put_runtime_def by (simp, rule find_map) (simp add: row_is_def)
  show ?thesis
  proof (cases "find_generation db i n")
    case (Some r)
    with find_generation_row [OF Some] found show ?thesis
      by (auto simp: ledger_of_def stored_repairs_def runtime_of_def row_is_def)
  qed (simp add: ledger_of_def found)
qed

lemma grows_store:
  assumes "store_graph_execution h db w e = Inr db'"
  shows "grows db db'"
proof -
  let ?i = "gr_id (ge_graph e)" and ?n = "gr_generation (ge_graph e)"
  from assms obtain r db1 where r: "find_generation db ?i ?n = Some r"
    and s: "assert_successor h (stored_repairs r) (ge_repairs e) = Inr ()"
    and nodes: "store_node_cycles w (ge_graph e) (map snd (ge_cycles e)) db = Inr db1" and db': "db' = put_runtime e db1"
    by (auto simp: store_graph_execution_def split: option.splits if_split_asm)
  have gens: "ct_generations db1 = ct_generations db"
  proof -
    have one: "ct_generations y = ct_generations x" if "store_node_cycle w g c x = Inr y" for g c x y
      using that by (auto simp: store_node_cycle_def integrity_error_def split: option.splits if_split_asm)
    have "store_node_cycles w g cs x = Inr y \<Longrightarrow> ct_generations y = ct_generations x" for g cs x y
      by (induction cs arbitrary: x) (auto dest: one)
    with nodes show ?thesis by blast
  qed
  have ledger: "ledger_of db1 = ledger_of db" "find_generation db1 = find_generation db"
    by (auto simp: fun_eq_iff ledger_of_def find_generation_def gens)
  have "keeps_evidence (ledger_of db i n) (ledger_of db' i n)" for i n
    using successor_keeps_evidence [OF s] r
    by (auto simp: db' ledger_of_put ledger keeps_evidence_refl) (simp add: ledger_of_def)
  moreover have "rows_kept db db'"
    by (rule rows_kept_map [where f = "\<lambda>r. if row_is (gr_id (ge_graph e)) (gr_generation (ge_graph e)) r then
      r\<lparr>gn_status := lowercase_state (ge_state e), gn_runtime := Some (runtime_of e)\<rparr> else r"])
      (simp_all add: db' put_runtime_def gens)
  ultimately show ?thesis by (simp add: grows_def)
qed

text \<open>Well-formed tables that have grown from given ones.\<close>

definition reached :: "CycleTables \<Rightarrow> CycleTables \<Rightarrow> bool" where
  "reached db0 db \<longleftrightarrow> tables_ok db \<and> grows db0 db"

lemma reached_refl: "tables_ok db \<Longrightarrow> reached db db"
  by (simp add: reached_def grows_refl)

lemma reached_tables: "reached db0 db \<Longrightarrow> tables_ok db"
  by (simp add: reached_def)

lemma reached_step: "reached db0 db \<Longrightarrow> tables_ok db' \<Longrightarrow> grows db db' \<Longrightarrow> reached db0 db'"
  unfolding reached_def using grows_trans by blast

lemma reached_store_plan:
  assumes "store_plan_cycle db w c = Inr db'" and "reached db0 db" and "good_plan c"
  shows "reached db0 db'"
proof (rule reached_step [OF assms(2)])
  show "tables_ok db'" by (rule tables_ok_store_plan [OF assms(1) reached_tables [OF assms(2)] assms(3)])
  have "ct_generations db' = ct_generations db"
    using assms(1) by (auto simp: store_plan_cycle_def integrity_error_def split: option.splits if_split_asm)
  then show "grows db db'" by (rule grows_same)
qed

lemma reached_store_execution:
  assumes "store_graph_execution h db w e = Inr db'" and "reached db0 db" and "held h db w e"
  shows "reached db0 db' \<and> rows_kept db db'"
  using tables_ok_store_execution [OF assms(1) reached_tables [OF assms(2)] assms(3)] grows_store [OF assms(1)]
    reached_step [OF assms(2)] by blast

lemma reached_save:
  "save_execution h db w e x = Inr (y, db') \<Longrightarrow> reached db0 db \<Longrightarrow> held h db w e \<Longrightarrow> reached db0 db'"
  by (auto simp: save_execution_def dest: reached_store_execution)

lemma reached_generation:
  assumes "store_graph_generation h db (gr_id g) g status = Inr (g', db')" and r: "reached db0 db"
    and "graph_ok g" and "new_or_stored db g"
  shows "reached db0 db' \<and> rows_kept db db' \<and> (\<exists>r \<in> set (ct_generations db'). gn_workflow r = gr_id g
    \<and> gn_graph r \<in> {g, canonical_graph g})"
proof -
  note stored = store_generation_ok [OF assms(1) reached_tables [OF r] assms(3,4)]
  have "grows db db'"
    using assms(1)
    by (auto simp: store_graph_generation_def integrity_error_def split: option.splits if_split_asm
        intro: grows_refl grows_append)
  with stored show ?thesis using reached_step [OF r] by blast
qed

lemmas reached_read_plan = read_plan_good [OF _ reached_tables]
lemmas reached_current = current_execution_held [OF _ reached_tables]
lemmas reached_read = read_execution_held [OF _ reached_tables]
lemmas reached_latest = latest_execution [OF _ reached_tables]
lemmas reached_no_later = no_later_generation [OF reached_tables]

end
