(* ===== verification/Workflow_History.thy ===== *)
theory Workflow_History
  imports Workflow_Tables Operations
begin

section \<open>Histories of a workflow\<close>

text \<open>
  The transactions of the coordinator, together with the ones by which \<open>dependency_repair_runtime.py\<close> changes
  a graph execution, as one datatype of operations. Any sequence of them, failed ones included, keeps the
  tables well-formed, so that every execution that is read is sound.
\<close>

subsection \<open>Repair transactions\<close>

text \<open>
  What \<open>_join\<close>, \<open>_retire\<close>, \<open>apply_dependency_repair_cohort\<close> and \<open>triage_captured_no_progress\<close> do to the stored
  execution; the incarnations, receipts and proofs they collect elsewhere are arguments.
\<close>

datatype repair_step =
    JoinRepair RepairIntent "RepairIncarnation list" string "ArtifactRef list"
  | BindFrontier "RepairIncarnation list"
  | CaptureRepair string "ArtifactRef list"
  | CloseRepair RepairClosure
  | ApplyRepair string
  | TriageRepair string

definition join_repair ::
  "(pyval \<Rightarrow> string) \<Rightarrow> GraphExecution \<Rightarrow> RepairIntent \<Rightarrow> RepairIncarnation list \<Rightarrow> string \<Rightarrow> ArtifactRef list
     \<Rightarrow> GraphExecution res" where
  "join_repair h e i frontier k refs =
     (if find_intent (ge_repairs e) (intent_key h i) \<noteq> None then Inr e
      else rbind (register_dependency_repair h e i frontier) (\<lambda>e'. capture_dependency_repair h e' k refs))"

definition triage_member :: "(pyval \<Rightarrow> string) \<Rightarrow> GraphExecution \<Rightarrow> string \<Rightarrow> GraphExecution res" where
  "triage_member h e n =
     rbind (cycle_at e n) (\<lambda>c. rbind (transition_node c REQUIRE_TRIAGE None [] None) (with_cycle h e))"

fun run_repair_step :: "(pyval \<Rightarrow> string) \<Rightarrow> GraphExecution \<Rightarrow> repair_step \<Rightarrow> GraphExecution res" where
  "run_repair_step h e (JoinRepair i frontier k refs) = join_repair h e i frontier k refs"
| "run_repair_step h e (BindFrontier frontier) = update_dependency_repair_frontier h e frontier"
| "run_repair_step h e (CaptureRepair k refs) = capture_dependency_repair h e k refs"
| "run_repair_step h e (CloseRepair cert) = close_dependency_repair h e cert"
| "run_repair_step h e (ApplyRepair k) = rbind (apply_dependency_repair h e k) (\<lambda>(e', _). Inr e')"
| "run_repair_step h e (TriageRepair n) = triage_member h e n"

fun repair_steps :: "(pyval \<Rightarrow> string) \<Rightarrow> GraphExecution \<Rightarrow> repair_step list \<Rightarrow> GraphExecution res" where
  "repair_steps h e [] = Inr e"
| "repair_steps h e (s # ss) = rbind (run_repair_step h e s) (\<lambda>e'. repair_steps h e' ss)"

definition repair_transaction ::
  "(pyval \<Rightarrow> string) \<Rightarrow> CycleTables \<Rightarrow> string \<Rightarrow> repair_step list \<Rightarrow> unit transaction" where
  "repair_transaction h db workflow_id steps =
     rbind (current_execution h db workflow_id None) (\<lambda>e.
     rbind (repair_steps h e steps) (\<lambda>e'. save_execution h db workflow_id e' ()))"

subsection \<open>Operations\<close>

datatype workflow_op =
    EnsurePlan string int
  | TransitionPlan string CycleAction "CycleAssignment option" string "CycleVerdict option"
  | RevisePlan string
  | StartPlan string CycleSlot AssignmentKind string
  | ImportPlan string string
  | SubmitPlan string string
  | RejectPlan string
  | PlanVerdict string bool "string list"
  | PlanTriage string
  | InstallGraph string GraphIR
  | RebindTask string GraphIR
  | StartNode string string CycleSlot AssignmentKind string
  | SubmitNode string string string
  | AcceptNull string string string string
  | NodeVerdict string string bool "string list" "FindingClass option" string "string list" string
  | NodeTriage string string
  | PauseWorkflow string
  | CancelWorkflow string
  | ResumeWorkflow string
  | ConfirmPlan string bool
  | ConfirmNode string string bool
  | ResolveTriage string string bool string int "RepairIncarnation option"
  | RepairWorkflow string "repair_step list"

text \<open>A graph that is installed has passed the constructor of \<open>GraphIR\<close>.\<close>

fun workflow_step :: "(pyval \<Rightarrow> string) \<Rightarrow> CycleTables \<Rightarrow> workflow_op \<Rightarrow> CycleTables" where
  "workflow_step h db (EnsurePlan w n) = after db (ensure_plan_cycle db w n)"
| "workflow_step h db (TransitionPlan w act a p v) = after db (transition_plan_cycle db w act a p v)"
| "workflow_step h db (RevisePlan w) = after db (begin_plan_revision db w)"
| "workflow_step h db (StartPlan w slot kind input) = after db (start_plan_assignment db w slot kind input)"
| "workflow_step h db (ImportPlan w p) = after db (import_plan_product db w p)"
| "workflow_step h db (SubmitPlan w p) = after db (submit_plan_product db w p)"
| "workflow_step h db (RejectPlan w) = after db (reject_plan_product db w)"
| "workflow_step h db (PlanVerdict w accepted findings) = after db (submit_plan_verdict db w accepted findings)"
| "workflow_step h db (PlanTriage w) = after db (require_plan_triage db w)"
| "workflow_step h db (InstallGraph w g) = (if graph_ok g then after db (install_graph h db w g) else db)"
| "workflow_step h db (RebindTask w g) = (if graph_ok g then after db (rebind_direct_task h db w g) else db)"
| "workflow_step h db (StartNode w n slot kind input) = after db (start_node_assignment h db w n slot kind input)"
| "workflow_step h db (SubmitNode w n p) = after db (producer_submitted h db w n p)"
| "workflow_step h db (AcceptNull w n p input) = after db (accept_null_node h db w n p input)"
| "workflow_step h db (NodeVerdict w n accepted findings f dependency dependencies p) =
     after db (checker_verdict h db w n accepted findings f dependency dependencies p)"
| "workflow_step h db (NodeTriage w n) = after db (require_node_triage h db w n)"
| "workflow_step h db (PauseWorkflow w) = after db (request_workflow_pause h db w)"
| "workflow_step h db (CancelWorkflow w) = after db (request_workflow_cancel h db w)"
| "workflow_step h db (ResumeWorkflow w) = after db (resume_workflow h db w)"
| "workflow_step h db (ConfirmPlan w cancel) = after db (confirm_plan_control db w cancel)"
| "workflow_step h db (ConfirmNode w n cancel) = after db (confirm_node_control h db w n cancel)"
| "workflow_step h db (ResolveTriage w n plan input generation repair) =
     after db (resolve_triage h db w n plan input generation repair)"
| "workflow_step h db (RepairWorkflow w steps) = after db (repair_transaction h db w steps)"

subsection \<open>The executor keeps its graph\<close>

lemma with_cycle_graph: "with_cycle h e c = Inr e' \<Longrightarrow> ge_graph e' = ge_graph e"
  by (auto simp: with_cycle_def dest!: refresh_graph make_execution_graph split: option.splits if_split_asm)

lemma set_pending_graph: "set_pending h e p = Inr e' \<Longrightarrow> ge_graph e' = ge_graph e"
  by (auto simp: set_pending_def dest!: make_execution_graph)

lemma repair_route_graph: "repair_route h e current finding route = Inr e' \<Longrightarrow> ge_graph e' = ge_graph e"
  unfolding repair_route_def rbind_eq_Inr by (auto dest!: make_execution_graph stale_graph split: if_split_asm)

lemma reject_graph: "reject_verdict h e current c verdict finding route = Inr e' \<Longrightarrow> ge_graph e' = ge_graph e"
  unfolding reject_verdict_def rbind_eq_Inr
  by (auto dest!: make_execution_graph stale_graph refresh_graph repair_route_graph split: if_split_asm)

lemma verdict_graph:
  assumes "apply_checker_verdict h e n accepted findings f dependency dependencies p = Inr (e', route)"
  shows "ge_graph e' = ge_graph e"
proof -
  from assms consider c where "with_cycle h e c = Inr e'"
    | c verdict finding r where "reject_verdict h e n c verdict finding r = Inr e'"
    by (cases accepted; cases f) (auto simp: apply_checker_verdict_def Let_def split: if_split_asm)
  then show ?thesis by cases (auto dest: with_cycle_graph reject_graph)
qed

lemma admit_graph: "admit_repair h e i source pending = Inr e' \<Longrightarrow> ge_graph e' = ge_graph e"
  by (auto simp: admit_repair_def dest!: set_pending_graph split: list.splits if_split_asm)

lemma register_graph: "register_dependency_repair h e i frontier = Inr e' \<Longrightarrow> ge_graph e' = ge_graph e"
  by (auto simp: register_dependency_repair_def dest!: admit_graph split: option.splits if_split_asm)

lemma frontier_graph: "update_dependency_repair_frontier h e frontier = Inr e' \<Longrightarrow> ge_graph e' = ge_graph e"
  by (auto simp: update_dependency_repair_frontier_def dest!: set_pending_graph split: if_split_asm)

lemma capture_graph: "capture_dependency_repair h e k refs = Inr e' \<Longrightarrow> ge_graph e' = ge_graph e"
  by (auto simp: capture_dependency_repair_def dest!: set_pending_graph)

lemma close_graph: "close_dependency_repair h e cert = Inr e' \<Longrightarrow> ge_graph e' = ge_graph e"
  by (auto simp: close_dependency_repair_def dest!: set_pending_graph split: if_split_asm)

lemma apply_graph: "apply_dependency_repair h e k = Inr (e', route) \<Longrightarrow> ge_graph e' = ge_graph e"
  by (auto simp: apply_dependency_repair_def apply_pending_def Let_def dest!: make_execution_graph stale_graph
      split: list.splits if_split_asm)

subsection \<open>Transactions that keep the tables well-formed\<close>

text \<open>A transaction that, when it succeeds, leaves well-formed tables and a result with the given property.\<close>

definition keeps :: "CycleTables \<Rightarrow> ('r \<Rightarrow> bool) \<Rightarrow> 'r transaction \<Rightarrow> bool" where
  "keeps db0 Q r \<longleftrightarrow> (\<forall>x db'. r = Inr (x, db') \<longrightarrow> reached db0 db' \<and> Q x)"

lemma keeps_after: "keeps db0 Q r \<Longrightarrow> reached db0 db \<Longrightarrow> reached db0 (after db r)"
  by (auto simp: keeps_def after_def split: sum.split)

lemma keeps_Inl: "keeps db0 Q (Inl err)"
  by (simp add: keeps_def)

lemma keeps_Inr: "reached db0 db \<Longrightarrow> Q x \<Longrightarrow> keeps db0 Q (Inr (x, db))"
  by (simp add: keeps_def)

lemma keeps_let: "(\<And>x. r = Inr x \<Longrightarrow> keeps db0 Q (f x)) \<Longrightarrow> keeps db0 Q (rbind r f)"
  by (auto simp: keeps_def)

lemma keeps_bind:
  "keeps db0 P r \<Longrightarrow> (\<And>x db'. reached db0 db' \<Longrightarrow> P x \<Longrightarrow> keeps db0 Q (f (x, db'))) \<Longrightarrow> keeps db0 Q (rbind r f)"
  by (fastforce simp: keeps_def)

lemma keeps_weaken: "keeps db0 P r \<Longrightarrow> (\<And>x. P x \<Longrightarrow> Q x) \<Longrightarrow> keeps db0 Q r"
  by (auto simp: keeps_def)

lemma keeps_if: "(b \<Longrightarrow> keeps db0 Q r) \<Longrightarrow> (\<not> b \<Longrightarrow> keeps db0 Q r') \<Longrightarrow> keeps db0 Q (if b then r else r')"
  by simp

lemma keeps_save: "reached db0 db \<Longrightarrow> held h db w e \<Longrightarrow> Q x \<Longrightarrow> keeps db0 Q (save_execution h db w e x)"
  using reached_save [of h db w e x] by (auto simp: keeps_def save_execution_def)

subsection \<open>Plan transactions\<close>

lemma keeps_save_plan: "reached db0 db \<Longrightarrow> good_plan c \<Longrightarrow> keeps db0 good_plan (save_plan db w c)"
  by (auto simp: keeps_def save_plan_def dest: reached_store_plan)

lemma good_transition: "good_plan c \<Longrightarrow> transition_plan c act a p v = Inr c' \<Longrightarrow> good_plan c'"
  using transition_plan_inv [of c act a p v c'] transition_plan_identity [of c act a p v c'] by (simp add: good_plan_def)

lemma good_new_plan: "new_plan_cycle i n = Inr c \<Longrightarrow> good_plan c"
  by (auto simp: new_plan_cycle_def plan_class.replace_Inr good_plan_def cycle_inv_plain active_slot_def)

lemma keeps_ensure: "reached db0 db \<Longrightarrow> keeps db0 good_plan (ensure_plan_cycle db w n)"
  unfolding ensure_plan_cycle_def
  by (auto split: option.split intro!: keeps_Inr keeps_let dest: reached_read_plan good_new_plan reached_store_plan)

lemma keeps_transition: "reached db0 db \<Longrightarrow> keeps db0 good_plan (transition_plan_cycle db w act a p v)"
  unfolding transition_plan_cycle_def
  by (rule keeps_bind [OF keeps_ensure]) (auto intro!: keeps_let keeps_save_plan dest: good_transition)

lemma good_revision:
  assumes "good_plan c" and "cy_state c = ACCEPTED"
    and "Cycle_Protocol.replace plan_post_init (c\<lparr>cy_generation := cy_generation c + 1, cy_state := REPAIR_READY,
      cy_assignment := None, cy_product := [], cy_accepted_product := [], cy_verdict := None\<rparr>) = Inr c'"
  shows "good_plan c'"
proof -
  have "cy_resume c = None"
    using assms(1,2) cycle_inv_resume [of "(=)" c] by (simp add: good_plan_def suspended_states_def)
  with assms(3) show ?thesis
    by (auto simp: plan_class.replace_Inr good_plan_def cycle_inv_plain active_slot_def)
qed

lemma keeps_revision: "reached db0 db \<Longrightarrow> keeps db0 good_plan (begin_plan_revision db w)"
  unfolding begin_plan_revision_def
  by (rule keeps_bind [OF keeps_ensure])
     (auto intro!: keeps_if keeps_Inr keeps_Inl keeps_let keeps_save_plan dest: good_transition good_revision)

lemma keeps_start_plan: "reached db0 db \<Longrightarrow> keeps db0 good_plan (start_plan_assignment db w slot kind input)"
  unfolding start_plan_assignment_def
  by (rule keeps_bind [OF keeps_ensure])
     (auto intro!: keeps_if keeps_Inr keeps_Inl keeps_let keeps_transition split: option.split)

lemma keeps_import: "reached db0 db \<Longrightarrow> keeps db0 good_plan (import_plan_product db w p)"
  unfolding import_plan_product_def
  by (rule keeps_bind [OF keeps_ensure]) (auto intro!: keeps_if keeps_Inr keeps_transition)

lemma keeps_submit: "reached db0 db \<Longrightarrow> keeps db0 good_plan (submit_plan_product db w p)"
  unfolding submit_plan_product_def
  by (rule keeps_bind [OF keeps_ensure]) (auto intro!: keeps_if keeps_Inr keeps_transition)

lemma keeps_reject: "reached db0 db \<Longrightarrow> keeps db0 good_plan (reject_plan_product db w)"
  unfolding reject_plan_product_def by (rule keeps_transition)

lemma keeps_plan_verdict: "reached db0 db \<Longrightarrow> keeps db0 good_plan (submit_plan_verdict db w accepted findings)"
  unfolding submit_plan_verdict_def
  by (rule keeps_bind [OF keeps_ensure])
     (auto intro!: keeps_if keeps_Inr keeps_let [where r = "make_verdict x y z" for x y z]
        keeps_bind [OF keeps_transition] keeps_transition)

lemma keeps_plan_triage: "reached db0 db \<Longrightarrow> keeps db0 (\<lambda>_. True) (require_plan_triage db w)"
  unfolding require_plan_triage_def
  by (auto split: option.split intro!: keeps_if keeps_Inr keeps_let
      dest: reached_read_plan good_transition reached_store_plan)

subsection \<open>Installing graphs\<close>

lemma sound_superseded:
  assumes "make_execution h (e\<lparr>ge_state := s, ge_published := p\<rparr>) = Inr e'" and "sound h e"
  shows "sound h e'"
  by (rule sound_make [OF _ assms(1)]) (use assms(2) in \<open>simp add: sound_ok\<close>)

lemma supersede_ok:
  assumes "supersede_previous h db w previous = Inr (e, db')" and ok: "reached db0 db" and held: "held h db w previous"
  shows "reached db0 db' \<and> rows_kept db db' \<and> sound h e"
proof (cases "lg_pending (ge_repairs previous) = None")
  case False
  with assms(1) have e: "make_execution h (previous\<lparr>ge_state := G_REPLAN_REQUIRED, ge_published := []\<rparr>) = Inr e"
    and db': "store_graph_execution h db w e = Inr db'"
    by (auto simp: supersede_previous_def)
  have sound: "sound h e" by (rule sound_superseded [OF e held_sound [OF held]])
  have "held h db w e" by (rule heldI [OF held sound]) (use make_execution_graph [OF e] in simp)
  with reached_store_execution [OF db' ok] sound show ?thesis by simp
qed (use assms held_sound in \<open>auto simp: supersede_previous_def rows_kept_refl\<close>)

lemma next_execution_ok:
  assumes "next_execution h db w g old previous = Inr ((e, diff), db')" and ok: "reached db0 db" and g: "graph_ok g"
    and held: "\<forall>p. previous = Some p \<longrightarrow> held h db w p"
  shows "reached db0 db' \<and> rows_kept db db' \<and> sound h e \<and> ge_graph e = g"
proof (cases old)
  case None
  with assms(1) have e: "start_execution h g = Inr e" and "db' = db" by (auto simp: next_execution_def)
  moreover have "ge_graph e = g" using e by (auto simp: start_execution_def dest!: make_execution_graph)
  ultimately show ?thesis using ok sound_start [OF e g] by (simp add: rows_kept_refl)
next
  case (Some old)
  with assms(1) obtain p d source where p: "previous = Some p" and "diff_graphs h old g = Inr d"
    and source: "supersede_previous h db w p = Inr (source, db')"
    and e: "replanned_execution h source g d = Inr e"
    by (cases previous) (auto simp: next_execution_def)
  from supersede_ok [OF source ok] held p have "reached db0 db' \<and> rows_kept db db' \<and> sound h source" by blast
  with sound_replanned [OF e _ g] show ?thesis by simp
qed

lemma keeps_create:
  assumes ok: "reached db0 db" and g: "graph_ok g" and w: "gr_id g = w" and fresh: "new_or_stored db g"
  shows "keeps db0 (\<lambda>_. True) (create_execution h db w g)"
proof -
  have "reached db0 db'" if run: "create_execution h db w g = Inr (x, db')" for x db'
  proof -
    from run obtain old previous g' db1 e diff db2 where
      previous: "read_previous h db w g = Inr (old, previous)"
      and db1: "store_graph_generation h db w g ''running'' = Inr (g', db1)"
      and e: "next_execution h db1 w g old previous = Inr ((e, diff), db2)"
      and db': "store_graph_execution h db2 w e = Inr db'"
      by (auto simp: create_execution_def)
    from reached_generation [OF db1 [folded w] ok g fresh]
    have ok1: "reached db0 db1" and kept: "rows_kept db db1"
      and row: "\<exists>r \<in> set (ct_generations db1). gn_workflow r = w \<and> gn_graph r \<in> {g, canonical_graph g}"
      unfolding w by blast+
    have "\<forall>p. previous = Some p \<longrightarrow> held h db1 w p"
      using previous reached_read [OF _ ok] held_kept [OF _ kept]
      by (auto simp: read_previous_def split: option.splits)
    from next_execution_ok [OF e ok1 g this]
    have e_ok: "reached db0 db2" "rows_kept db1 db2" "sound h e" "ge_graph e = g" by simp_all
    have "held h db1 w e" using row e_ok(3,4) by (simp add: held_def)
    then have "held h db2 w e" using e_ok(2) by (rule held_kept)
    with reached_store_execution [OF db' e_ok(1)] show ?thesis by blast
  qed
  then show ?thesis by (simp add: keeps_def)
qed

lemma keeps_install:
  assumes ok: "reached db0 db" and g: "graph_ok g"
  shows "keeps db0 (\<lambda>_. True) (install_graph h db w g)"
proof -
  have create: "keeps db0 (\<lambda>_. True) (create_execution h db (gr_id g) g)"
    if "read_graph_generation db (gr_id g) (Some (gr_generation g)) \<in> {None, Some g}"
    by (rule keeps_create [OF ok g refl]) (use that in \<open>auto simp: new_or_stored_def read_graph_generation_def\<close>)
  show ?thesis
    unfolding install_graph_def
    by (auto split: option.split intro!: keeps_if keeps_Inl keeps_let keeps_Inr ok create)
qed

lemma keeps_rebind:
  assumes ok: "reached db0 db" and g: "graph_ok g"
  shows "keeps db0 (\<lambda>_. True) (rebind_direct_task h db w g)"
proof -
  have "reached db0 db'" if run: "rebind_direct_task h db w g = Inr (x, db')" for x db'
  proof -
    from run obtain previous g' db1 diff e where
      previous: "current_execution h db w None = Inr previous" and w: "gr_id g = w"
      and gen: "gr_generation g = gr_generation (ge_graph previous) + 1"
      and db1: "store_graph_generation h db w g ''running'' = Inr (g', db1)"
      and e: "replanned_execution h previous g diff = Inr e"
      and db': "save_execution h db1 w e () = Inr (x, db')"
      unfolding rebind_direct_task_def by (auto split: if_split_asm)
    have "gr_generation (ge_graph previous) = latest_generation db w"
      using previous reached_latest [OF _ ok] by (auto simp: current_execution_def split: option.splits)
    then have "new_or_stored db g" using reached_no_later [OF ok, of w "gr_generation g"] gen w
      by (simp add: new_or_stored_def)
    from reached_generation [OF db1 [folded w] ok g this]
    have ok1: "reached db0 db1"
      and row: "\<exists>r \<in> set (ct_generations db1). gn_workflow r = w \<and> gn_graph r \<in> {g, canonical_graph g}"
      unfolding w by blast+
    have "sound h previous" using reached_current [OF previous ok] held_sound by blast
    with sound_replanned [OF e _ g] row have "held h db1 w e" by (simp add: held_def)
    with reached_save [OF db' ok1] show ?thesis by blast
  qed
  then show ?thesis by (simp add: keeps_def)
qed

subsection \<open>Node transactions\<close>

text \<open>A read execution, and what saving a changed one needs.\<close>

lemma keeps_current:
  assumes "reached db0 db" and "\<And>e. held h db w e \<Longrightarrow> keeps db0 Q (f e)"
  shows "keeps db0 Q (rbind (current_execution h db w generation) f)"
  using assms reached_current by (intro keeps_let) blast

lemma keeps_cycle_at:
  assumes "held h db w e" and "\<And>c. map_of (ge_cycles e) n = Some c \<Longrightarrow> node_ok c \<Longrightarrow> node_name c = n \<Longrightarrow> keeps db0 Q (f c)"
  shows "keeps db0 Q (rbind (cycle_at e n) f)"
proof (rule keeps_let)
  fix c assume "cycle_at e n = Inr c"
  then have "map_of (ge_cycles e) n = Some c" by (simp add: cycle_at_def split: option.splits)
  with cycles_ok_lookup [OF sound_cycles [OF held_sound [OF assms(1)]] this] assms(2) show "keeps db0 Q (f c)" by blast
qed

lemma keeps_step:
  assumes "node_ok c" and "\<And>c'. node_ok c' \<Longrightarrow> node_name c' = node_name c \<Longrightarrow> keeps db0 Q (f c')"
  shows "keeps db0 Q (rbind (transition_node c act a p v) f)"
  using assms transition_node_valid by (intro keeps_let) blast

lemma keeps_with_cycle:
  assumes "reached db0 db" and "held h db w e" and "node_ok c" and "\<And>e'. held h db w e' \<Longrightarrow> keeps db0 Q (f e')"
  shows "keeps db0 Q (rbind (with_cycle h e c) f)"
proof (rule keeps_let)
  fix e' assume "with_cycle h e c = Inr e'"
  with sound_with_cycle [OF this held_sound [OF assms(2)] assms(3)] with_cycle_graph [OF this]
  have "held h db w e'" by (intro heldI [OF assms(2)])
  then show "keeps db0 Q (f e')" by (rule assms(4))
qed

lemma keeps_store_cycle:
  "reached db0 db \<Longrightarrow> held h db w e \<Longrightarrow> node_ok c \<Longrightarrow> keeps db0 (\<lambda>_. True) (store_cycle h db w e c)"
  unfolding store_cycle_def by (auto intro!: keeps_with_cycle keeps_cycle_at keeps_save)

lemma keeps_start_node: "reached db0 db \<Longrightarrow> keeps db0 (\<lambda>_. True) (start_node_assignment h db w n slot kind input)"
  unfolding start_node_assignment_def
  by (rule keeps_current, assumption, rule keeps_cycle_at, assumption)
     (auto split: option.split intro!: keeps_if keeps_Inr keeps_Inl keeps_let [where r = "make_assignment a b c d" for a b c d]
        keeps_step keeps_store_cycle)

lemma keeps_node_submitted: "reached db0 db \<Longrightarrow> keeps db0 (\<lambda>_. True) (producer_submitted h db w n p)"
  unfolding producer_submitted_def
  by (rule keeps_current, assumption, rule keeps_cycle_at, assumption)
     (auto intro!: keeps_if keeps_Inr keeps_step keeps_store_cycle)

lemma close_null_ok: "close_null_cycle c p input = Inr c' \<Longrightarrow> node_ok c \<Longrightarrow> node_ok c'"
  by (auto simp: close_null_cycle_def dest!: transition_node_valid)

lemma keeps_accept_null: "reached db0 db \<Longrightarrow> keeps db0 (\<lambda>_. True) (accept_null_node h db w n p input)"
  unfolding accept_null_node_def
  by (rule keeps_current, assumption, rule keeps_cycle_at, assumption)
     (auto intro!: keeps_if keeps_Inr keeps_Inl keeps_let keeps_store_cycle dest: close_null_ok)

lemma keeps_verdict: "reached db0 db \<Longrightarrow> keeps db0 (\<lambda>_. True) (checker_verdict h db w n accepted findings f dependency dependencies p)"
proof -
  assume ok: "reached db0 db"
  have save: "keeps db0 (\<lambda>_. True) (rbind (apply_checker_verdict h e m accepted findings f dependency dependencies p)
      (\<lambda>(e', route). save_execution h db w e' route))" if "held h db w e" for e m
    using sound_apply_checker_verdict [OF _ held_sound [OF that]] verdict_graph heldI [OF that]
    by (auto intro!: keeps_let keeps_save ok)
  show ?thesis
    unfolding checker_verdict_def
    by (rule keeps_current [OF ok], rule keeps_cycle_at, assumption) (auto intro!: keeps_if keeps_Inr ok save)
qed

lemma keeps_read:
  assumes "reached db0 db" and "keeps db0 Q (f None)" and "\<And>e. held h db w e \<Longrightarrow> keeps db0 Q (f (Some e))"
  shows "keeps db0 Q (rbind (read_graph_execution h db w generation) f)"
proof (rule keeps_let)
  fix r assume r: "read_graph_execution h db w generation = Inr r"
  show "keeps db0 Q (f r)"
  proof (cases r)
    case (Some e)
    with r reached_read [of h db w generation e] assms(1,3) show ?thesis by blast
  qed (simp add: assms(2))
qed

lemma held_cycle: "held h db w e \<Longrightarrow> map_of (ge_cycles e) n = Some c \<Longrightarrow> node_ok c \<and> node_name c = n"
  using cycles_ok_lookup sound_cycles held_sound by blast

lemma keeps_node_triage: "reached db0 db \<Longrightarrow> keeps db0 (\<lambda>_. True) (require_node_triage h db w n)"
  unfolding require_node_triage_def
  by (rule keeps_read)
     (auto split: option.split intro!: keeps_if keeps_Inr keeps_step keeps_bind [OF keeps_store_cycle] dest: held_cycle)

subsection \<open>Control\<close>

lemma control_plan_good:
  assumes "control_plan_cycle c act = Inr (Some c')" and "good_plan c"
  shows "good_plan c'"
  using assms
  by (auto simp: control_plan_cycle_def Let_def dest: good_transition split: if_split_asm)

lemma controlled_plan_stored:
  assumes "store_plan_cycle db w c' = Inr db'" and "control_plan_cycle c act = Inr (Some c')"
    and "read_plan_cycle db w = Some c" and "reached db0 db"
  shows "reached db0 db'"
  using reached_store_plan [OF assms(1,4) control_plan_good [OF assms(2) reached_read_plan [OF assms(3,4)]]] .

lemma keeps_control_plan: "reached db0 db \<Longrightarrow> keeps db0 (\<lambda>_. True) (control_plan db w act)"
  unfolding control_plan_def
  by (auto split: option.split intro!: keeps_Inr keeps_let intro: controlled_plan_stored)

lemma control_node_ok:
  assumes "control_node_cycle c act = Inr (Some c')" and "node_ok c"
  shows "node_ok c' \<and> node_name c' = node_name c"
  using assms
  by (auto simp: control_node_cycle_def Let_def dest!: transition_node_valid split: if_split_asm)

lemma map_of_map_snd: "map fst ys = map fst xs \<Longrightarrow> (\<And>i. i < length xs \<Longrightarrow> R (fst (xs ! i)) (snd (xs ! i)) (snd (ys ! i)))
     \<Longrightarrow> map_of ys n = Some d \<Longrightarrow> \<exists>c. map_of xs n = Some c \<and> R n c d"
proof (induction xs arbitrary: ys)
  case (Cons x xs)
  then obtain y ys' where ys: "ys = y # ys'" "fst y = fst x" "map fst ys' = map fst xs" by (cases ys) auto
  have "R (fst x) (snd x) (snd y)" using Cons.prems(2) [of 0] ys(1) by simp
  moreover have "R (fst (xs ! i)) (snd (xs ! i)) (snd (ys' ! i))" if "i < length xs" for i
    using Cons.prems(2) [of "Suc i"] that ys(1) by simp
  ultimately show ?case using Cons.IH [OF ys(3)] Cons.prems(3) ys by (cases x; cases y) (auto split: if_splits)
qed simp

text \<open>A control request goes through every cycle that is not fenced.\<close>

definition controlled :: "string list \<Rightarrow> CycleAction \<Rightarrow> string \<Rightarrow> NodeCycle \<Rightarrow> NodeCycle \<Rightarrow> bool" where
  "controlled fenced act n c d \<longleftrightarrow> d = c \<or> control_node_cycle c act = Inr (Some d)
     \<and> \<not> (act \<in> {REQUEST_PAUSE, RESUME} \<and> n \<in> set fenced)"

lemma control_cycles_result:
  "control_cycles fenced act cs = Inr (cs', changed) \<Longrightarrow>
     map fst cs' = map fst cs \<and> (\<forall>i < length cs. controlled fenced act (fst (cs ! i)) (snd (cs ! i)) (snd (cs' ! i)))"
proof (induction cs arbitrary: cs' changed)
  case (Cons x cs)
  obtain n c where x: "x = (n, c)" by (cases x)
  from Cons.prems obtain r rest changed' where
    r: "(if act \<in> {REQUEST_PAUSE, RESUME} \<and> n \<in> set fenced then Inr None else control_node_cycle c act) = Inr r"
    and rest: "control_cycles fenced act cs = Inr (rest, changed')"
    and cs': "cs' = (n, case r of None \<Rightarrow> c | Some d \<Rightarrow> d) # rest"
    by (auto simp: x split: option.splits)
  have "controlled fenced act n c (case r of None \<Rightarrow> c | Some d \<Rightarrow> d)"
    using r by (auto simp: controlled_def split: option.split if_split_asm)
  with Cons.IH [OF rest] show ?case by (auto simp: cs' x nth_Cons split: nat.split)
qed simp

lemma control_cycles_ok:
  assumes "control_cycles fenced act cs = Inr (cs', changed)" and ok: "cycles_ok g cs"
  shows "cycles_ok g cs'"
proof -
  note result = control_cycles_result [OF assms(1)]
  have d: "is_dict cs'" using ok result by (simp add: cycles_ok_def is_dict_def)
  have "keys cs' = keys cs" using result unfolding keys_def by (metis set_map)
  moreover have "node_name c' = n \<and> node_ok c'" if c': "map_of cs' n = Some c'" for n c'
  proof -
    from map_of_map_snd [where R = "controlled fenced act", OF _ _ c'] result obtain c where
      c: "map_of cs n = Some c" "controlled fenced act n c c'" by blast
    from cycles_ok_lookup [OF ok c(1)] c(2) control_node_ok show ?thesis unfolding controlled_def by fastforce
  qed
  ultimately show ?thesis using d ok by (simp add: cycles_ok_def)
qed

lemma keeps_make:
  assumes "make_execution h e0 = Inr e" and "held h db w e1" and "ge_graph e0 = ge_graph e1" and "execution_ok e0"
  shows "held h db w e"
  using assms(1,3) sound_make [OF assms(4,1)] make_execution_graph [OF assms(1)] by (intro heldI [OF assms(2)]) simp_all

lemma keeps_control_graph:
  assumes ok: "reached db0 db"
  shows "keeps db0 (\<lambda>_. True) (control_graph h db w act)"
proof -
  have step: "keeps db0 (\<lambda>_. True) (rbind (if act = REQUEST_CANCEL then
        make_execution h (e0\<lparr>ge_state := G_CANCELLED, ge_published := []\<rparr>) else Inr e0) (\<lambda>e.
      rbind (control_cycles (pending_scope e) act (ge_cycles e)) (\<lambda>(cycles, changed).
      if changed \<or> act = REQUEST_CANCEL then
        rbind (make_execution h (e\<lparr>ge_cycles := cycles,
            ge_state := (if act = REQUEST_CANCEL then G_CANCELLED else ge_state e)\<rparr>)) (\<lambda>e'.
        save_execution h db w e' ())
      else Inr ((), db))))" if held: "held h db w e0" for e0
  proof (rule keeps_let)
    fix e
    assume e: "(if act = REQUEST_CANCEL then make_execution h (e0\<lparr>ge_state := G_CANCELLED, ge_published := []\<rparr>)
      else Inr e0) = Inr e"
    have held': "held h db w e"
      using e held sound_ok [OF held_sound [OF held]]
      by (auto intro: keeps_make [OF _ held] split: if_split_asm)
    show "keeps db0 (\<lambda>_. True) (rbind (control_cycles (pending_scope e) act (ge_cycles e)) (\<lambda>(cycles, changed).
      if changed \<or> act = REQUEST_CANCEL then
        rbind (make_execution h (e\<lparr>ge_cycles := cycles,
            ge_state := (if act = REQUEST_CANCEL then G_CANCELLED else ge_state e)\<rparr>)) (\<lambda>e'.
        save_execution h db w e' ())
      else Inr ((), db)))"
    proof (rule keeps_let, clarify)
      fix cycles changed assume "control_cycles (pending_scope e) act (ge_cycles e) = Inr (cycles, changed)"
      from control_cycles_ok [OF this sound_cycles [OF held_sound [OF held']]]
      have "execution_ok (e\<lparr>ge_cycles := cycles\<rparr>)" by (rule execution_ok_cycles [OF sound_ok [OF held_sound [OF held']]])
      then have "execution_ok (e\<lparr>ge_cycles := cycles, ge_state := s\<rparr>)" for s by simp
      then show "keeps db0 (\<lambda>_. True) (if changed \<or> act = REQUEST_CANCEL then
          rbind (make_execution h (e\<lparr>ge_cycles := cycles,
              ge_state := (if act = REQUEST_CANCEL then G_CANCELLED else ge_state e)\<rparr>)) (\<lambda>e'.
          save_execution h db w e' ())
        else Inr ((), db))"
        by (intro keeps_if keeps_let keeps_save keeps_Inr ok) (auto intro: keeps_make [OF _ held'])
    qed
  qed
  show ?thesis
    unfolding control_graph_def by (rule keeps_read [OF ok]) (use step in \<open>simp_all add: keeps_Inr ok\<close>)
qed

lemma keeps_control: "reached db0 db \<Longrightarrow> keeps db0 (\<lambda>_. True) (control_workflow h db w act)"
  unfolding control_workflow_def
  by (rule keeps_bind [OF keeps_control_plan]) (auto intro: keeps_control_graph)

lemma confirm_cycle_ok:
  "confirm_cycle e c cancel = Inr (Some c') \<Longrightarrow> node_ok c \<Longrightarrow> node_ok c' \<and> node_name c' = node_name c"
  by (auto simp: confirm_cycle_def Let_def dest!: transition_node_valid split: if_split_asm)

lemma confirmed_ok:
  "confirm_cycle e c cancel = Inr (Some c') \<Longrightarrow> held h db w e \<Longrightarrow> map_of (ge_cycles e) n = Some c \<Longrightarrow> node_ok c'"
  using confirm_cycle_ok held_cycle by blast

lemma keeps_confirm_node: "reached db0 db \<Longrightarrow> keeps db0 (\<lambda>_. True) (confirm_node_control h db w n cancel)"
  unfolding confirm_node_control_def
  by (rule keeps_read)
     (auto split: option.split intro!: keeps_if keeps_Inr keeps_let [where r = "confirm_cycle a b c" for a b c]
        keeps_with_cycle keeps_save intro: confirmed_ok)

subsection \<open>Triage and repairs\<close>

lemma restored_cursor_ok:
  assumes "restored_cursor c a = Inr c'" and ok: "node_ok c" and triage: "cy_state c = TRIAGE_REQUIRED"
  shows "node_ok c' \<and> node_name c' = node_name c"
proof -
  let ?allowed = "{if as_slot a = CHECKER then CHECKER_READY else PRODUCER_READY, CANCEL_REQUESTED}
    \<union> (if as_slot a = PRODUCER then {REPAIR_READY} else {})"
  from assms(1) obtain s c1 where s: "cy_resume c = Some s" "s \<in> ?allowed"
    and c1: "transition_node c RESOLVE_TRIAGE None [] None = Inr c1"
    and c': "Cycle_Protocol.replace node_post_init (c1\<lparr>cy_assignment := Some a,
          cy_state := (if cy_state c1 = CANCEL_REQUESTED then CANCEL_REQUESTED else running_state (as_slot a)),
          cy_resume := (if cy_state c1 = CANCEL_REQUESTED then Some STALE else None)\<rparr>) = Inr c'"
    by (auto simp: restored_cursor_def Let_def split: option.splits if_split_asm)
  have "c1 = c\<lparr>cy_state := s, cy_resume := None\<rparr>"
    using c1 triage s(1)
    by (auto simp: transition_node_def common_role_transition_def common_target_def COMMON_TRANSITIONS_def
        common_control_transition_def node_class.replace_Inr resumed_state_def)
  with replace_node_valid [OF c'] s ok triage show ?thesis
    by (cases "as_slot a")
       (auto simp: node_ok_def cycle_inv_defs running_state_def split: if_splits)
qed

lemma keeps_repair_triage:
  assumes ok: "reached db0 db" and held: "held h db w e" and c: "map_of (ge_cycles e) (node_name c) = Some c"
  shows "keeps db0 (\<lambda>_. True) (resolve_repair_triage h db w e c input repair)"
proof -
  have node: "node_ok c" using held_cycle [OF held c] by blast
  have restored: "held h db w e'" if c': "restored_cursor c a = Inr c'" "cy_state c = TRIAGE_REQUIRED"
    and e': "make_execution h (e\<lparr>ge_cycles := dict_put (node_name c) c' (ge_cycles e)\<rparr>) = Inr e'" for a c' e'
    using restored_cursor_ok [OF c'(1) node c'(2)]
    by (intro keeps_make [OF e' held] execution_ok_put [OF sound_ok [OF held_sound [OF held]] c]) simp_all
  have "keeps db0 (\<lambda>_. True) (restore_repair_cursor h db w e c cohort r)" for cohort r
    unfolding restore_repair_cursor_def
    by (auto intro!: keeps_if keeps_Inr keeps_Inl keeps_let keeps_save ok intro: restored)
  then show ?thesis
    unfolding resolve_repair_triage_def by (auto split: option.split intro!: keeps_if keeps_Inl)
qed

lemma resolved_ok: "resolved_cycle c input = Inr c' \<Longrightarrow> node_ok c \<Longrightarrow> node_ok c'"
  by (auto simp: resolved_cycle_def dest!: transition_node_valid split: if_split_asm)

lemma keeps_resolve_node:
  assumes "reached db0 db" and "held h db w e" and "node_ok c"
  shows "keeps db0 (\<lambda>_. True) (resolve_node_triage h db w e c input generation)"
  unfolding resolve_node_triage_def
  by (auto intro!: keeps_if keeps_Inr keeps_Inl keeps_let [where r = "resolved_cycle a b" for a b] keeps_with_cycle
      keeps_save intro: resolved_ok assms)

lemma keeps_resolve: "reached db0 db \<Longrightarrow> keeps db0 (\<lambda>_. True) (resolve_triage h db w n plan input generation repair)"
proof -
  assume ok: "reached db0 db"
  have node: "keeps db0 (\<lambda>_. True) (resolve_repair_triage h db w e c i p)" "keeps db0 (\<lambda>_. True) (resolve_node_triage h db w e c i generation)"
    if "held h db w e" "map_of (ge_cycles e) n = Some c" for e c i p
    using held_cycle [OF that] that ok by (auto intro!: keeps_repair_triage keeps_resolve_node)
  have plan: "keeps db0 (\<lambda>_. True) (resolve_plan_triage db w input repair)"
    unfolding resolve_plan_triage_def by (auto intro!: keeps_if keeps_Inl keeps_control_plan ok)
  show ?thesis
    unfolding resolve_triage_def
    by (intro keeps_if plan keeps_read [OF ok])
       (auto split: option.split intro!: keeps_if keeps_Inl keeps_Inr ok node)
qed

lemma run_repair_step_ok:
  assumes "run_repair_step h e s = Inr e'" and held: "held h db w e"
  shows "held h db w e'"
proof -
  note s = held_sound [OF held]
  have "sound h e' \<and> ge_graph e' = ge_graph e"
  proof (cases s)
    case (JoinRepair i frontier k refs)
    with assms(1) consider "e' = e"
      | x where "register_dependency_repair h e i frontier = Inr x" "capture_dependency_repair h x k refs = Inr e'"
      by (auto simp: join_repair_def split: if_split_asm)
    then show ?thesis
    proof cases
      case 2
      with s show ?thesis using sound_register sound_capture register_graph capture_graph by metis
    qed (use s in simp)
  next
    case (TriageRepair n)
    with assms(1) obtain c c' where "map_of (ge_cycles e) n = Some c" "transition_node c REQUIRE_TRIAGE None [] None = Inr c'"
      "with_cycle h e c' = Inr e'"
      by (auto simp: triage_member_def cycle_at_def split: option.splits)
    with s held_cycle [OF held] show ?thesis
      by (auto dest: transition_node_valid sound_with_cycle with_cycle_graph)
  qed (use assms(1) s in \<open>auto dest: sound_update_frontier frontier_graph sound_capture capture_graph sound_close
        close_graph sound_apply_repair apply_graph\<close>)
  then show ?thesis by (auto intro: heldI [OF held])
qed

lemma repair_steps_ok: "repair_steps h e ss = Inr e' \<Longrightarrow> held h db w e \<Longrightarrow> held h db w e'"
  by (induction ss arbitrary: e) (auto dest: run_repair_step_ok)

lemma keeps_repair: "reached db0 db \<Longrightarrow> keeps db0 (\<lambda>_. True) (repair_transaction h db w steps)"
  unfolding repair_transaction_def
  by (rule keeps_current) (auto intro!: keeps_let keeps_save intro: repair_steps_ok)

subsection \<open>Histories\<close>

lemma workflow_step_ok:
  assumes "reached db0 db"
  shows "reached db0 (workflow_step h db op)"
  using assms
  by (cases op)
     (auto simp: request_workflow_pause_def request_workflow_cancel_def resume_workflow_def confirm_plan_control_def
       intro!: keeps_after [OF keeps_ensure] keeps_after [OF keeps_transition] keeps_after [OF keeps_revision]
       keeps_after [OF keeps_start_plan] keeps_after [OF keeps_import] keeps_after [OF keeps_submit]
       keeps_after [OF keeps_reject] keeps_after [OF keeps_plan_verdict] keeps_after [OF keeps_plan_triage]
       keeps_after [OF keeps_install] keeps_after [OF keeps_rebind] keeps_after [OF keeps_start_node]
       keeps_after [OF keeps_node_submitted] keeps_after [OF keeps_accept_null] keeps_after [OF keeps_verdict]
       keeps_after [OF keeps_node_triage] keeps_after [OF keeps_control] keeps_after [OF keeps_control_plan]
       keeps_after [OF keeps_confirm_node] keeps_after [OF keeps_resolve] keeps_after [OF keeps_repair])

interpretation workflow_store: store "workflow_step h" "reached db0" for h db0
  by unfold_locales (rule workflow_step_ok)

end
