(* ===== verification/Repair_Facts.thy ===== *)
theory Repair_Facts
  imports Graph_Invariants
begin

section \<open>What applying a dependency repair does\<close>

text \<open>
  The effect of \<open>apply_dependency_repair\<close> on a sound execution, node by node; and a cohort that can neither be
  applied nor released.
\<close>

subsection \<open>The folds over the nodes\<close>

lemma repair_providers_result:
  assumes "repair_providers pending ns cs = Inr cs'" and "is_dict cs" and "distinct ns"
  shows "is_dict cs' \<and> (\<forall>n. n \<notin> set ns \<longrightarrow> map_of cs' n = map_of cs n)
    \<and> (\<forall>n \<in> set ns. \<exists>c. map_of cs' n = Some c \<and> cy_state c = REPAIR_READY
         \<and> cy_verdict c = Some \<lparr>vd_accepted = False, vd_generation = cy_generation c, vd_findings = provider_findings pending n\<rparr>)"
  using assms
proof (induction ns arbitrary: cs)
  case (Cons n ns)
  then obtain c c1 c2 where c1: "repair_ready c = Inr c1"
    and c2: "Cycle_Protocol.replace node_post_init (c1\<lparr>cy_verdict := Some \<lparr>vd_accepted = False,
      vd_generation = cy_generation c1, vd_findings = provider_findings pending n\<rparr>\<rparr>) = Inr c2"
    and rest: "repair_providers pending ns (dict_put n c2 cs) = Inr cs'"
    by (auto simp: Let_def split: option.splits)
  have n: "n \<notin> set ns" and ns: "distinct ns" and d: "is_dict (dict_put n c2 cs)" using Cons.prems by auto
  have c2': "cy_state c2 = REPAIR_READY \<and> cy_verdict c2 = Some \<lparr>vd_accepted = False, vd_generation = cy_generation c2,
      vd_findings = provider_findings pending n\<rparr>"
    using replace_node_valid [OF c2] repair_ready_state [OF c1] by simp
  note IH = Cons.IH [OF rest d ns]
  have "map_of cs' n = Some c2" using IH n Cons.prems(2) by simp
  then show ?case using IH c2' Cons.prems(2) by simp
qed simp

lemma stale_cycle_state:
  assumes "stale_cycle False preserve n c = Inr c'"
  shows "cy_state c' = STALE"
proof -
  have "cy_state c' = STALE" if "transition_node c MARK_STALE None [] None = Inr c'" "cy_state c = ACCEPTED"
    using that by (simp add: transition_node_def node_class.replace_Inr)
  then show ?thesis
    using assms by (auto simp: stale_cycle_def node_class.replace_Inr split: if_split_asm)
qed

lemma stale_cycles_result:
  assumes "stale_cycles False preserve ns cs = Inr cs'" and "is_dict cs"
  shows "is_dict cs' \<and> (\<forall>n. n \<notin> set ns \<longrightarrow> map_of cs' n = map_of cs n)
    \<and> (\<forall>n \<in> set ns. map_of cs n \<noteq> None \<longrightarrow> (\<exists>c. map_of cs' n = Some c \<and> cy_state c = STALE))"
  using assms
proof (induction ns arbitrary: cs)
  case (Cons n ns)
  show ?case
  proof (cases "map_of cs n")
    case None
    with Cons.prems(1) have "stale_cycles False preserve ns cs = Inr cs'" by simp
    from Cons.IH [OF this Cons.prems(2)] None show ?thesis by auto
  next
    case (Some c)
    with Cons.prems(1) obtain c' where c': "stale_cycle False preserve n c = Inr c'"
      and rest: "stale_cycles False preserve ns (dict_put n c' cs) = Inr cs'" by auto
    have d: "is_dict (dict_put n c' cs)" using Cons.prems(2) by simp
    note IH = Cons.IH [OF rest d]
    have put: "map_of (dict_put n c' cs) m = (if m = n then Some c' else map_of cs m)" for m
      using Cons.prems(2) by simp
    have "\<exists>c. map_of cs' m = Some c \<and> cy_state c = STALE" if "m = n \<or> m \<in> set ns \<and> map_of cs m \<noteq> None" for m
      using that IH stale_cycle_state [OF c'] by (cases "m \<in> set ns") (auto simp: put split: if_splits)
    then show ?thesis using IH by (auto simp: put)
  qed
qed simp

text \<open>The barriers after adding one provider in front of its consumers.\<close>

lemma barrier_add: "is_dict bs \<Longrightarrow> map_of (add_barrier p m bs) n =
    (if n = m then Some (sorted_names (p # (case map_of bs m of None \<Rightarrow> [] | Some ps \<Rightarrow> ps))) else map_of bs n)"
  by (simp add: add_barrier_def)

lemma is_dict_add [simp]: "is_dict bs \<Longrightarrow> is_dict (add_barrier p m bs)"
  by (simp add: add_barrier_def)

definition barred :: "(string \<times> string list) list \<Rightarrow> string \<Rightarrow> string set" where
  "barred bs n = (case map_of bs n of None \<Rightarrow> {} | Some ps \<Rightarrow> set ps)"

lemma barred_add: "is_dict bs \<Longrightarrow> barred (add_barrier p m bs) n = (if n = m then insert p (barred bs n) else barred bs n)"
  by (auto simp: barred_def barrier_add set_sorted_names split: option.split)

lemma barred_fold:
  "is_dict bs \<Longrightarrow> is_dict (fold (add_barrier p) ms bs)
     \<and> barred (fold (add_barrier p) ms bs) n = (if n \<in> set ms then insert p (barred bs n) else barred bs n)"
  by (induction ms arbitrary: bs) (auto simp: barred_add)

lemma barred_folds:
  "is_dict bs \<Longrightarrow> is_dict (fold (\<lambda>p. fold (add_barrier p) (ms p)) ps bs)
     \<and> barred (fold (\<lambda>p. fold (add_barrier p) (ms p)) ps bs) n = barred bs n \<union> {p \<in> set ps. n \<in> set (ms p)}"
proof (induction ps arbitrary: bs)
  case (Cons p ps)
  have "is_dict (fold (add_barrier p) (ms p) bs)" using barred_fold [OF Cons.prems] by blast
  from Cons.IH [OF this] barred_fold [OF Cons.prems, of p "ms p" n] show ?case by auto
qed simp

lemma barred_filter: "is_dict bs \<Longrightarrow> barred (filter (\<lambda>(n, _). n \<notin> set ps) bs) n = (if n \<in> set ps then {} else barred bs n)"
proof -
  assume "is_dict bs"
  have "map_of (filter (\<lambda>(n, _). n \<notin> set ps) bs) n = (if n \<in> set ps then None else map_of bs n)"
    by (induction bs) auto
  then show ?thesis by (simp add: barred_def)
qed

lemma barred_repair:
  assumes "is_dict bs"
  shows "barred (repair_barriers g providers consumers bs) n =
    (if n \<in> set providers then {} else barred bs n)
      \<union> {p \<in> set providers. n \<in> set consumers \<and> n \<in> set (repair_descendants g p)}"
  unfolding repair_barriers_def
  using barred_folds [OF is_dict_filter [OF assms], of "\<lambda>p. filter (\<lambda>n. n \<in> set (repair_descendants g p)) consumers" providers]
  by (auto simp: barred_filter [OF assms])

lemma barrier_of_barred: "set (barrier_of e n) = barred (ge_barriers e) n"
  by (simp add: barrier_of_def barred_def split: option.split)

subsection \<open>Applying a cohort\<close>

lemma apply_cases:
  assumes "apply_dependency_repair h e k = Inr (e', Some route)"
  obtains pending where "lg_pending (ge_repairs e) = Some pending" "ge_state e = G_RUNNING" "cohort_key h pending = k"
    "cohort_ready pending" "apply_pending h e pending = Inr (e', route)"
  using assms
  by (auto simp: apply_dependency_repair_def pending_dependency_repair_def split: list.splits if_split_asm
      GraphExecutionState.splits option.splits)

lemma apply_pending_result:
  assumes "apply_pending h e pending = Inr (e', route)" and s: "sound h e"
    and pending: "lg_pending (ge_repairs e) = Some pending"
  defines "providers \<equiv> cohort_providers pending"
  shows "ge_published e' = [] \<and> lg_pending (ge_repairs e') = None
    \<and> (\<exists>sealed. lg_history (ge_repairs e') = lg_history (ge_repairs e) @ [sealed] \<and> co_status sealed = ''applied''
         \<and> co_intents sealed = co_intents pending \<and> co_closures sealed = co_closures pending
         \<and> co_frontier sealed = co_frontier pending \<and> set (co_scope sealed) = set (co_scope pending))
    \<and> ge_graph e' = ge_graph e \<and> ge_state e' = ge_state e
    \<and> fr_nodes route = providers \<and> set (fr_stale route) = set (co_scope pending) - set providers
    \<and> (\<forall>n \<in> set providers. \<exists>c. map_of (ge_cycles e') n = Some c \<and> cy_state c = REPAIR_READY
         \<and> cy_verdict c = Some \<lparr>vd_accepted = False, vd_generation = cy_generation c, vd_findings = provider_findings pending n\<rparr>
         \<and> barrier_of e' n = [])
    \<and> (\<forall>n \<in> set (co_scope pending) - set providers. map_of (ge_cycles e) n \<noteq> None \<longrightarrow>
         (\<exists>c. map_of (ge_cycles e') n = Some c \<and> cy_state c = STALE)
         \<and> set (barrier_of e' n) = set (barrier_of e n) \<union> {p \<in> set providers. n \<in> set (repair_descendants (ge_graph e) p)})
    \<and> (\<forall>n. n \<notin> set (co_scope pending) \<union> set providers \<longrightarrow>
         map_of (ge_cycles e') n = map_of (ge_cycles e) n \<and> set (barrier_of e' n) = set (barrier_of e n))"
proof -
  let ?consumers = "sort (filter (\<lambda>n. n \<notin> set providers) (co_scope pending))"
  from assms(1) obtain cycles e1 e2 l where
    cycles: "repair_providers pending providers (ge_cycles e) = Inr cycles"
    and e1: "make_execution h (e\<lparr>ge_cycles := cycles\<rparr>) = Inr e1"
    and e2: "mark_nodes_stale h e1 ?consumers False [] = Inr e2"
    and l: "archive h (ge_repairs e) ''applied'' [] = Inr l"
    and e': "make_execution h (e2\<lparr>ge_barriers := repair_barriers (ge_graph e) providers ?consumers (ge_barriers e),
      ge_published := [], ge_repairs := l\<rparr>) = Inr e'"
    and route: "route = \<lparr>fr_target = NODE_PRODUCER, fr_node = hd providers, fr_kind = REPAIR_KIND,
      fr_stale = ?consumers, fr_nodes = providers\<rparr>"
    unfolding apply_pending_def Let_def rbind_eq_Inr providers_def by auto
  have d: "is_dict (ge_cycles e)" "is_dict (ge_barriers e)"
    using sound_cycles [OF s] sound_barriers [OF s] by (simp_all add: cycles_ok_def barriers_ok_def)
  have dp: "distinct providers" by (simp add: providers_def cohort_providers_def sorted_names_def)
  note P = repair_providers_result [OF cycles d(1) dp]
  have c1: "ge_cycles e1 = cycles" using make_execution_valid [OF e1] by simp
  from e2 obtain cycles2 where cycles2: "stale_cycles False [] ?consumers (ge_cycles e1) = Inr cycles2"
    and e2': "make_execution h (e1\<lparr>ge_cycles := cycles2\<rparr>) = Inr e2"
    by (auto simp: mark_nodes_stale_def)
  have made: "ge_cycles e2 = cycles2" "ge_graph e2 = ge_graph e1" "ge_state e2 = ge_state e1"
    using make_execution_valid [OF e2'] by simp_all
  note c2 = made(1)
  obtain sealed where sealed: "l = \<lparr>lg_pending = None, lg_history = lg_history (ge_repairs e) @ [sealed]\<rparr>"
    and "make_cohort h (pending\<lparr>co_status := ''applied'', co_reason := []\<rparr>) = Inr sealed"
    using archive_cohorts [OF l pending] by blast
  from make_cohort_same [OF this(2)] have same: "co_status sealed = ''applied''" "co_intents sealed = co_intents pending"
    "co_closures sealed = co_closures pending" "co_frontier sealed = co_frontier pending"
    "set (co_scope sealed) = set (co_scope pending)" by simp_all
  have fields: "ge_cycles e' = cycles2" "ge_published e' = []" "ge_repairs e' = l"
    "ge_barriers e' = repair_barriers (ge_graph e) providers ?consumers (ge_barriers e)"
    using make_execution_valid [OF e'] c2 by (auto simp: sealed archive_def)
  have frame: "ge_graph e' = ge_graph e" "ge_state e' = ge_state e"
    using make_execution_valid [OF e1] make_execution_valid [OF e'] made by simp_all
  note S = stale_cycles_result [OF cycles2, unfolded c1]
  have consumers: "set ?consumers = set (co_scope pending) - set providers" by auto
  have unchanged: "map_of cycles n = map_of (ge_cycles e) n" if "n \<notin> set providers" for n using P that by blast
  have "\<exists>c. map_of cycles2 n = Some c \<and> cy_state c = REPAIR_READY \<and> cy_verdict c = Some \<lparr>vd_accepted = False,
      vd_generation = cy_generation c, vd_findings = provider_findings pending n\<rparr>" if "n \<in> set providers" for n
    using P S consumers that by auto
  moreover have "barrier_of e' n = []" if "n \<in> set providers" for n
  proof -
    have "barred (ge_barriers e') n = {}" unfolding fields(4) barred_repair [OF d(2)] using that by simp
    then show ?thesis using barrier_of_barred [of e' n] by simp
  qed
  moreover have "\<exists>c. map_of cycles2 n = Some c \<and> cy_state c = STALE"
    if "n \<in> set (co_scope pending) - set providers" "map_of (ge_cycles e) n \<noteq> None" for n
    using P S that consumers unchanged [of n] by auto
  moreover have "set (barrier_of e' n) = set (barrier_of e n) \<union> {p \<in> set providers. n \<in> set (repair_descendants (ge_graph e) p)}"
    if "n \<in> set (co_scope pending) - set providers" for n
    unfolding barrier_of_barred fields(4) barred_repair [OF d(2)] using that by auto
  moreover have "set (barrier_of e' n) = set (barrier_of e n)" if "n \<notin> set (co_scope pending) \<union> set providers" for n
    unfolding barrier_of_barred fields(4) barred_repair [OF d(2)] using that by auto
  moreover have "map_of cycles2 n = map_of (ge_cycles e) n" if "n \<notin> set (co_scope pending) \<union> set providers" for n
    using P S that consumers by auto
  ultimately show ?thesis
    unfolding fields route frame using sealed same consumers by auto
qed

end
