(* ===== verification/Workflow_Properties.thy ===== *)
theory Workflow_Properties
  imports Workflow_History Repair_Facts
begin

section \<open>What holds of every workflow\<close>

subsection \<open>The stored tables\<close>

text \<open>
  C29: After any sequence of coordinator and repair transactions from empty tables, failed ones included, the
  tables are well-formed: every row's cycle is accepted by its constructor and keeps the promises of its
  protocol, keys and workflows are unique, every stored graph is a well-formed graph of its workflow, its
  generations are numbered without gaps, and stored barriers make a node wait for its own inputs only.
\<close>

theorem stored_workflows_are_well_formed:
  "tables_ok (run_ops (workflow_step h) no_tables ops)"
  using workflow_store.run_inv [OF reached_refl [OF tables_ok_empty]] reached_tables by blast

lemma reachable_tables_ok: "tables_ok (run_ops (workflow_step h) no_tables ops)"
  using workflow_store.run_inv [OF reached_refl [OF tables_ok_empty]] reached_tables by blast

lemma generations_upto:
  "tables_ok db \<Longrightarrow> generations_of (ct_generations db) i = [1..int (length (generations_of (ct_generations db) i))]"
  unfolding tables_ok_def by blast

text \<open>
  C37: The generations of a workflow's graph are bounded by the latest one and complete: after any history
  generation n of a graph can be read exactly when n lies between one and the latest generation.
\<close>

theorem generations_are_complete:
  "read_graph_generation (run_ops (workflow_step h) no_tables ops) i (Some n) \<noteq> None
     \<longleftrightarrow> 1 \<le> n \<and> n \<le> latest_generation (run_ops (workflow_step h) no_tables ops) i"
proof -
  let ?db = "run_ops (workflow_step h) no_tables ops"
  note ok = reachable_tables_ok [of h ops]
  have "find_generation ?db i n \<noteq> None \<longleftrightarrow> n \<in> set (generations_of (ct_generations ?db) i)"
    by (auto simp: find_generation_def find_None_iff row_is_def generations_of_def)
  also have "\<dots> \<longleftrightarrow> 1 \<le> n \<and> n \<le> latest_generation ?db i"
    unfolding latest_generation_length [OF ok] by (subst generations_upto [OF ok]) simp
  finally show ?thesis by (simp add: read_graph_generation_def)
qed

text \<open>
  C2: Every execution that is read back after any history belongs to its workflow and is sound: the
  constructor accepts it, there is exactly one well-formed cycle for each module of its graph, its barriers
  refer to transitive inputs, and while a dependency repair is pending it runs and publishes nothing.
\<close>

theorem executions_stay_sound:
  assumes "read_graph_execution h (run_ops (workflow_step h) no_tables ops) w generation = Inr (Some e)"
  shows "gr_id (ge_graph e) = w \<and> graph_ok (ge_graph e) \<and> valid_execution h e
    \<and> keys (ge_cycles e) = set (node_names (ge_graph e))
    \<and> (\<forall>n c. map_of (ge_cycles e) n = Some c \<longrightarrow> node_name c = n \<and> node_ok c)
    \<and> (\<forall>n p. p \<in> set (barrier_of e n) \<longrightarrow> (p, n) \<in> (feeds (ge_graph e))\<^sup>+)
    \<and> (lg_pending (ge_repairs e) \<noteq> None \<longrightarrow> ge_state e = G_RUNNING \<and> ge_published e = [])"
proof -
  note ok = reachable_tables_ok [of h ops]
  from read_execution_held [OF assms ok] have s: "sound h e" and w: "gr_id (ge_graph e) = w" by (simp_all add: held_def)
  have v: "valid_execution h e" using s by (simp add: sound_def)
  have b: "(p, n) \<in> (feeds (ge_graph e))\<^sup>+" if "p \<in> set (barrier_of e n)" for n p
    using that sound_barriers [OF s] by (cases "map_of (ge_barriers e) n") (auto simp: barriers_ok_def barrier_of_def)
  show ?thesis
    using w v b sound_graph [OF s] sound_cycles [OF s] v [unfolded valid_execution_iff] unfolding cycles_ok_def by blast
qed

text \<open>
  C4: Repair evidence is never lost. Whatever happened before, and whatever transactions follow, the ledger
  stored for a generation keeps its sealed cohorts in order as a prefix, and every recorded intent, captured
  receipt and closure proof is still recorded, unchanged. Every frozen incarnation is still recorded under its key,
  and each field of it that was known is unchanged: it may be completed, never replaced.
\<close>

theorem repair_evidence_is_kept:
  "keeps_evidence (ledger_of (run_ops (workflow_step h) no_tables ops) i n)
     (ledger_of (run_ops (workflow_step h) no_tables (ops @ later)) i n)"
proof -
  have "reached (run_ops (workflow_step h) no_tables ops)
      (run_ops (workflow_step h) (run_ops (workflow_step h) no_tables ops) later)"
    by (rule workflow_store.run_inv [OF reached_refl [OF reachable_tables_ok]])
  then show ?thesis by (simp add: run_ops_append reached_def grows_def)
qed

subsection \<open>Starting roles\<close>

lemma refresh_cycles:
  assumes "refresh_readiness_and_terminal h e = Inr e'" and ok: "execution_ok e"
  shows "ge_cycles e' \<in> {ge_cycles e, readied e (ge_cycles e)}"
  using assms(1)
  by (auto simp: refresh_readiness_and_terminal_def refresh_loop_lemma [OF ok] Let_def
      dest!: make_execution_valid split: if_split_asm)

text \<open>A cycle that is not waiting for its inputs is stored as it is.\<close>

lemma with_cycle_lookup:
  assumes "with_cycle h e c = Inr e'" and s: "sound h e" and "node_ok c" and "cy_state c \<notin> {BLOCKED, STALE}"
  shows "map_of (ge_cycles e') (node_name c) = Some c"
proof -
  from assms(1) obtain previous e1 where previous: "map_of (ge_cycles e) (node_name c) = Some previous"
    and e1: "make_execution h (e\<lparr>ge_cycles := dict_put (node_name c) c (ge_cycles e)\<rparr>) = Inr e1"
    and e': "refresh_readiness_and_terminal h e1 = Inr e'"
    by (auto simp: with_cycle_def split: option.splits if_splits)
  have ok1: "execution_ok e1"
    by (rule execution_ok_make [OF e1 execution_ok_put [OF sound_ok [OF s] previous]]) (use assms(3) in simp_all)
  have "is_dict (ge_cycles e)" using sound_cycles [OF s] by (simp add: cycles_ok_def)
  then have "map_of (ge_cycles e1) (node_name c) = Some c" using make_execution_valid [OF e1] by simp
  with refresh_cycles [OF e' ok1] assms(4) show ?thesis
    by (auto simp: map_of_readied readied_cycle_def ready_again_def)
qed

text \<open>
  C5: A role is started on a node only when the graph allows it: a start that is not the repetition of the
  running assignment finds the execution running and the node outside the pending repair, all inputs of the
  role accepted (the producer's or the checker's), all barriers in front of the node satisfied; and the node
  then runs exactly the requested assignment of the current generation.
\<close>

theorem roles_start_only_when_ready:
  assumes "start_node_assignment h db w n slot kind input = Inr (c', db')" and "tables_ok db"
    and e: "read_graph_execution h db w None = Inr (Some e)" and c: "map_of (ge_cycles e) n = Some c"
    and fresh: "runs_slot c slot = None"
  shows "ge_state e = G_RUNNING \<and> n \<notin> set (pending_scope e)
    \<and> (\<forall>p \<in> set (if slot = CHECKER then checker_predecessors (ge_graph e) n else producer_predecessors (ge_graph e) n).
         accepted_in (ge_cycles e) p)
    \<and> (\<forall>p \<in> set (barrier_of e n). accepted_in (ge_cycles e) p)
    \<and> cy_state c \<in> (if slot = CHECKER then {CHECKER_READY} else {PRODUCER_READY, REPAIR_READY})
    \<and> c' = c\<lparr>cy_state := running_state slot, cy_assignment := Some \<lparr>as_slot = slot, as_kind = kind,
        as_generation = cy_generation c, as_input = input\<rparr>\<rparr>"
proof -
  have s: "sound h e" using read_execution_held [OF e assms(2)] held_sound by blast
  have d: "is_dict (ge_cycles e)" using sound_cycles [OF s] by (simp add: cycles_ok_def)
  from assms(1) e c fresh obtain a c1 where run: "n \<in> set (runnable_nodes e)"
    and a: "make_assignment slot kind (cy_generation c) input = Inr a"
    and c1: "transition_node c (start_action slot) (Some a) [] None = Inr c1"
    and stored: "store_cycle h db w e c1 = Inr (c', db')"
    by (auto simp: start_node_assignment_def current_execution_def cycle_at_def split: if_split_asm)
  have a': "a = \<lparr>as_slot = slot, as_kind = kind, as_generation = cy_generation c, as_input = input\<rparr>"
    using a by (auto simp: make_assignment_def Let_def)
  have running: "ge_state e = G_RUNNING" using run by (auto simp: runnable_nodes_def split: if_split_asm)
  with run c have r: "runnable e n c" unfolding runnable_nodes_set [OF d running] by auto
  have started: "cy_state c \<in> (if slot = CHECKER then {CHECKER_READY} else {PRODUCER_READY, REPAIR_READY})
      \<and> c1 = c\<lparr>cy_state := running_state slot, cy_assignment := Some a\<rparr>"
    using c1 r by (cases slot) (auto simp: transition_node_def start_action_def running_state_def runnable_def
        common_role_transition_def common_target_def COMMON_TRANSITIONS_def common_control_transition_def
        node_class.replace_Inr node_class.start_assignment_Inr)
  have old: "node_ok c" "node_name c = n" using cycles_ok_lookup [OF sound_cycles [OF s] c] by simp_all
  have n: "node_name c1 = n" using started old by simp
  from stored obtain e' where e': "with_cycle h e c1 = Inr e'" and c': "cycle_at e' (node_name c1) = Inr c'"
    by (auto simp: store_cycle_def save_execution_def)
  have "node_ok c1" using transition_node_valid [OF c1 old(1)] by blast
  moreover have "cy_state c1 \<notin> {BLOCKED, STALE}" using started by (simp add: running_state_def)
  ultimately have "map_of (ge_cycles e') (node_name c1) = Some c1" by (intro with_cycle_lookup [OF e' s])
  then have "c' = c1" using c' by (simp add: cycle_at_def)
  moreover have "p \<in> set (predecessors_of (ge_graph e) n (cy_state c)) \<Longrightarrow> accepted_in (ge_cycles e) p" for p
    using r by (simp add: runnable_def)
  moreover have "set (predecessors_of (ge_graph e) n (cy_state c)) =
      set (if slot = CHECKER then checker_predecessors (ge_graph e) n else producer_predecessors (ge_graph e) n)"
    using started by (auto simp: predecessors_of_def split: if_split_asm)
  ultimately show ?thesis using started running r a' by (simp add: runnable_def)
qed

subsection \<open>Applying a repair\<close>

text \<open>
  C20: Applying a dependency repair is atomic and complete. It succeeds only on the pending cohort with the
  expected key whose frontier is closed. Then the cohort is sealed as applied and nothing stays pending or
  published; every provider is ready for repair with a rejecting verdict that carries the packets that name it,
  and waits behind no barrier; every other node of the scope is stale, with a barrier for each provider it
  transitively consumes added to those it had. Nothing else changes: the graph, the state of the execution, and
  cycle and barriers of every other module are as before.
\<close>

theorem repair_is_applied:
  assumes "apply_dependency_repair h e k = Inr (e', Some route)" and s: "sound h e"
  shows "\<exists>pending. lg_pending (ge_repairs e) = Some pending \<and> cohort_key h pending = k
    \<and> keys (co_closures pending) = keys (co_frontier pending)
    \<and> lg_pending (ge_repairs e') = None \<and> ge_published e' = []
    \<and> (\<exists>sealed. lg_history (ge_repairs e') = lg_history (ge_repairs e) @ [sealed] \<and> co_status sealed = ''applied''
         \<and> co_intents sealed = co_intents pending \<and> co_closures sealed = co_closures pending
         \<and> co_frontier sealed = co_frontier pending \<and> set (co_scope sealed) = set (co_scope pending))
    \<and> ge_graph e' = ge_graph e \<and> ge_state e' = ge_state e
    \<and> fr_nodes route = cohort_providers pending
    \<and> (\<forall>n \<in> set (cohort_providers pending). \<exists>c. map_of (ge_cycles e') n = Some c \<and> cy_state c = REPAIR_READY
         \<and> cy_verdict c = Some \<lparr>vd_accepted = False, vd_generation = cy_generation c,
             vd_findings = provider_findings pending n\<rparr> \<and> barrier_of e' n = [])
    \<and> (\<forall>n \<in> set (co_scope pending) - set (cohort_providers pending).
         (\<exists>c. map_of (ge_cycles e') n = Some c \<and> cy_state c = STALE)
         \<and> set (barrier_of e' n) = set (barrier_of e n)
             \<union> {p \<in> set (cohort_providers pending). n \<in> set (repair_descendants (ge_graph e) p)})
    \<and> (\<forall>n. n \<notin> set (co_scope pending) \<union> set (cohort_providers pending) \<longrightarrow>
         map_of (ge_cycles e') n = map_of (ge_cycles e) n \<and> set (barrier_of e' n) = set (barrier_of e n))"
proof -
  obtain pending where p: "lg_pending (ge_repairs e) = Some pending" "cohort_key h pending = k" "cohort_ready pending"
    and run: "apply_pending h e pending = Inr (e', route)"
    using apply_cases [OF assms(1)] by blast
  have "execution_checks h e" using s unfolding sound_def valid_execution_iff by blast
  then have "check_cohort h (ge_graph e) pending = Inr ()" by (simp add: execution_checks_def cohorts_def p(1))
  then have "set (co_scope pending) \<subseteq> set (node_names (ge_graph e))" by (simp add: check_cohort_def split: if_split_asm)
  then have "map_of (ge_cycles e) n \<noteq> None" if "n \<in> set (co_scope pending)" for n
    using that sound_cycles [OF s] cycles_ok_declared by blast
  with apply_pending_result [OF run s p(1)] p show ?thesis by (simp add: cohort_ready_def)
qed

subsection \<open>A member in triage\<close>

lemma repair_ready_suspended: "cy_state c = TRIAGE_REQUIRED \<Longrightarrow> \<exists>err. repair_ready c = Inl err"
  by (simp add: repair_ready_def)

lemma providers_suspended:
  "repair_providers pending ns cs = Inr cs' \<Longrightarrow> is_dict cs \<Longrightarrow> map_of cs n = Some c \<Longrightarrow> cy_state c = TRIAGE_REQUIRED \<Longrightarrow> n \<notin> set ns"
proof (induction ns arbitrary: cs)
  case (Cons m ns)
  show ?case
  proof (cases "m = n")
    case True
    with Cons.prems repair_ready_suspended [of c] show ?thesis by auto
  next
    case False
    from Cons.prems(1) obtain c' where rest: "repair_providers pending ns (dict_put m c' cs) = Inr cs'"
      by (auto simp: Let_def split: option.splits)
    have "is_dict (dict_put m c' cs)" "map_of (dict_put m c' cs) n = Some c" using Cons.prems False by simp_all
    with Cons.IH [OF rest] Cons.prems(4) False show ?thesis by simp
  qed
qed simp

lemma stale_suspended:
  assumes "stale_cycles False preserve ns cs = Inr cs'" and "is_dict cs" and "map_of cs n = Some c"
    and "cy_state c = TRIAGE_REQUIRED"
  shows "n \<notin> set ns"
  using assms
proof (induction ns arbitrary: cs)
  case (Cons m ns)
  show ?case
  proof (cases "m = n")
    case True
    with Cons.prems show ?thesis by (auto simp: stale_cycle_def)
  next
    case False
    from Cons.prems(1) consider "stale_cycles False preserve ns cs = Inr cs'"
      | c' where "stale_cycles False preserve ns (dict_put m c' cs) = Inr cs'"
      by (auto split: option.splits)
    then show ?thesis
    proof cases
      case 2
      have "is_dict (dict_put m c' cs)" "map_of (dict_put m c' cs) n = Some c" using Cons.prems False by simp_all
      with Cons.IH [OF 2] Cons.prems(4) False show ?thesis by simp
    qed (use Cons False in auto)
  qed
qed simp

lemma started_checker: "transition_node c START_CHECKER (Some a) [] None = Inr c' \<Longrightarrow> cy_assignment c' = Some a"
  by (cases "cy_state c = CHECKER_READY")
     (auto simp: transition_node_def common_role_transition_def common_target_def COMMON_TRANSITIONS_def
       common_control_transition_def node_class.replace_Inr node_class.start_assignment_Inr)

lemma suspended_repair_not_applied:
  assumes s: "sound h e" and p: "lg_pending (ge_repairs e) = Some pending" and n: "n \<in> set (co_scope pending)"
    and c: "map_of (ge_cycles e) n = Some c" "cy_state c = TRIAGE_REQUIRED"
  shows "apply_dependency_repair h e (cohort_key h pending) \<noteq> Inr (e', Some route)"
proof
  have d: "is_dict (ge_cycles e)" using sound_cycles [OF s] by (simp add: cycles_ok_def)
  assume "apply_dependency_repair h e (cohort_key h pending) = Inr (e', Some route)"
  then have run: "apply_pending h e pending = Inr (e', route)" using p by (auto elim: apply_cases)
  let ?consumers = "sort (filter (\<lambda>n. n \<notin> set (cohort_providers pending)) (co_scope pending))"
  from run obtain cycles e1 e2 where
    cycles: "repair_providers pending (cohort_providers pending) (ge_cycles e) = Inr cycles"
    and e1: "make_execution h (e\<lparr>ge_cycles := cycles\<rparr>) = Inr e1"
    and e2: "mark_nodes_stale h e1 ?consumers False [] = Inr e2"
    unfolding apply_pending_def Let_def rbind_eq_Inr by blast
  have free: "n \<notin> set (cohort_providers pending)" by (rule providers_suspended [OF cycles d c])
  have "distinct (cohort_providers pending)" by (simp add: cohort_providers_def sorted_names_def)
  from repair_providers_result [OF cycles d this] free c(1) have c1: "is_dict cycles" "map_of cycles n = Some c" by auto
  from e2 obtain cycles2 where "stale_cycles False [] ?consumers cycles = Inr cycles2"
    using make_execution_valid [OF e1] by (auto simp: mark_nodes_stale_def)
  from stale_suspended [OF this c1 c(2)] n free show False by simp
qed

lemma resolved_cycle_moves:
  assumes "resolved_cycle c checker_input = Inr c'" and "cy_state c = TRIAGE_REQUIRED" "cy_resume c = Some r"
  shows "cy_state c' = r \<or> cy_assignment c' \<noteq> None" and "node_name c' = node_name c"
proof -
  from assms(1) obtain c1 where c1: "transition_node c RESOLVE_TRIAGE None [] None = Inr c1"
    and rest: "c' = c1 \<or> (\<exists>a. transition_node c1 START_CHECKER (Some a) [] None = Inr c')"
    by (auto simp: resolved_cycle_def split: if_split_asm)
  have "cy_state c1 = r"
    using c1 assms(2,3) by (auto simp: transition_node_def common_role_transition_def common_target_def
        COMMON_TRANSITIONS_def common_control_transition_def node_class.replace_Inr resumed_state_def)
  with rest show "cy_state c' = r \<or> cy_assignment c' \<noteq> None" by (blast dest: started_checker)
  show "node_name c' = node_name c" using rest transition_node_name [OF c1] transition_node_name [of c1] by metis
qed

text \<open>
  C32: A pending repair whose scope contains a node in triage that is not one of its frozen incarnations and would
  resume ready or accepted can go neither way: the repair cannot be applied while the node is in triage, and while
  the repair is pending every resolution of this triage that the coordinator is asked for is refused, whatever
  checker input, generation or repair incarnation it names, because restoring the node counts as a fenced admission.
\<close>

theorem triaged_member_blocks_its_repair:
  assumes s: "sound h e" and p: "lg_pending (ge_repairs e) = Some pending" and n: "n \<in> set (co_scope pending)"
    and c: "map_of (ge_cycles e) n = Some c" "cy_state c = TRIAGE_REQUIRED" "cy_resume c = Some r"
    and r: "r \<in> {PRODUCER_READY, CHECKER_READY, REPAIR_READY, ACCEPTED}"
    and off: "frontier_member e n = None" and read: "read_graph_execution h db w None = Inr (Some e)"
  shows "(\<forall>e' route. apply_dependency_repair h e (cohort_key h pending) \<noteq> Inr (e', Some route))
    \<and> (\<exists>err. resolve_triage h db w n False checker_input generation repair = Inl err)"
proof
  show "\<forall>e' route. apply_dependency_repair h e (cohort_key h pending) \<noteq> Inr (e', Some route)"
    using suspended_repair_not_applied [OF s p n c(1,2)] by blast
  have old: "node_ok c" "node_name c = n" using cycles_ok_lookup [OF sound_cycles [OF s] c(1)] by simp_all
  have idle: "cy_assignment c = None" by (rule node_ok_assignment [OF old(1)]) (simp add: c(2))
  have fence: "n \<in> set (pending_scope e)" by (simp add: pending_scope_def fenced_nodes_def p n)
  have node: "\<exists>err. resolve_node_triage h db w e c checker_input generation = Inl err"
  proof (cases "resolved_cycle c checker_input")
    case (Inr c')
    note moved = resolved_cycle_moves [OF Inr c(2,3)]
    from moved(1) have "c' \<noteq> c" using c(2) r idle by auto
    with moved have "\<exists>err. with_cycle h e c' = Inl err" using fence c(1) r idle old(2) by (auto simp: with_cycle_def)
    with c(2) Inr show ?thesis by (auto simp: resolve_node_triage_def)
  qed (simp add: resolve_node_triage_def c(2))
  show "\<exists>err. resolve_triage h db w n False checker_input generation repair = Inl err"
  proof (cases repair)
    case None
    with node read c(1) off show ?thesis by (auto simp: resolve_triage_def)
  next
    case (Some p)
    with off old(2) have "resolve_repair_triage h db w e c checker_input repair
        = Inl (ValueError ''dependency repair recovery does not own the frozen graph cursor'')"
      by (simp add: resolve_repair_triage_def split: option.split)
    with Some read c(1) show ?thesis by (simp add: resolve_triage_def)
  qed
qed

subsection \<open>Replanning\<close>

lemma map_res_lookup:
  assumes "map_res f xs = Inr ys" and "\<And>n k c. f n = Inr (k, c) \<Longrightarrow> k = n"
  shows "map fst ys = xs \<and> (\<forall>n c. (n, c) \<in> set ys \<longrightarrow> f n = Inr (n, c))"
  using assms(1)
proof (induction xs arbitrary: ys)
  case (Cons x xs)
  then obtain y zs where y: "f x = Inr y" and zs: "map_res f xs = Inr zs" "ys = y # zs" by auto
  obtain k c where kc: "y = (k, c)" by (cases y)
  have "k = x" using assms(2) y kc by blast
  with Cons.IH [OF zs(1)] zs(2) y kc show ?case by auto
qed simp

lemma replanned_cycle_accepted:
  assumes "replanned_cycle source target diff n = Inr (n, c)"
  shows "cy_state c = ACCEPTED \<longleftrightarrow> carried (gd_decisions diff) n \<and> n \<notin> set (invalidated_nodes source)
      \<and> accepted_in (ge_cycles source) n"
    and "cy_accepted_product c = (case map_of (ge_cycles source) n of None \<Rightarrow> [] | Some old \<Rightarrow> cy_accepted_product old)"
proof -
  have fresh: "cy_state c = STALE \<and> cy_accepted_product c = p" if "new_node_cycle i n g STALE p = Inr c" for i g p
    using that unfolding new_node_cycle_def by (drule_tac replace_node_valid) simp
  show "cy_state c = ACCEPTED \<longleftrightarrow> carried (gd_decisions diff) n \<and> n \<notin> set (invalidated_nodes source)
      \<and> accepted_in (ge_cycles source) n"
    and "cy_accepted_product c = (case map_of (ge_cycles source) n of None \<Rightarrow> [] | Some old \<Rightarrow> cy_accepted_product old)"
    using assms fresh
    by (auto simp: replanned_cycle_def Let_def carried_def accepted_in_def node_class.replace_Inr
        split: option.splits if_split_asm)
qed

text \<open>Where the cycles of the next generation come from.\<close>

lemma replanned_lookup:
  assumes e: "replanned_execution h source target d = Inr e" and s: "sound h source" and g: "graph_ok target"
  shows "n \<in> set (node_names target) \<Longrightarrow> \<exists>c. replanned_cycle source target d n = Inr (n, c)
      \<and> (accepted_in (ge_cycles e) n \<longleftrightarrow> cy_state c = ACCEPTED)
      \<and> (accepted_in (ge_cycles e) n \<longrightarrow> map_of (ge_cycles e) n = Some c)"
    and "n \<notin> set (node_names target) \<Longrightarrow> \<not> accepted_in (ge_cycles e) n"
proof -
  from e obtain cycles e0 where cycles: "map_res (replanned_cycle source target d) (node_names target) = Inr cycles"
    and e0: "make_execution h \<lparr>ge_graph = target, ge_state = G_RUNNING, ge_cycles = dict_of cycles, ge_published = [],
      ge_barriers = [], ge_repairs = empty_ledger\<rparr> = Inr e0"
    and r: "refresh h e0 = Inr e"
    unfolding replanned_execution_def rbind_eq_Inr by blast
  have names: "replanned_cycle source target d n = Inr (k, c) \<Longrightarrow> k = n" for n k c
    using replanned_cycle_ok sound_cycles [OF s] by blast
  have "map fst cycles = node_names target \<and> (\<forall>n c. (n, c) \<in> set cycles \<longrightarrow> replanned_cycle source target d n = Inr (n, c))"
    by (rule map_res_lookup [OF cycles]) (rule names)
  then have found_names: "map fst cycles = node_names target"
    and found: "\<forall>n c. (n, c) \<in> set cycles \<longrightarrow> replanned_cycle source target d n = Inr (n, c)" by blast+
  have dn: "distinct (map fst cycles)" unfolding found_names by (rule graph_ok_distinct [OF g])
  have "ge_cycles e0 = dict_of cycles" using make_execution_valid [OF e0] by simp
  with dn have m0: "map_of (ge_cycles e0) n = Some c \<longleftrightarrow> (n, c) \<in> set cycles" for c by simp
  have "cycles_ok target (dict_of cycles)"
    by (rule map_res_cycles_ok [OF cycles graph_ok_distinct [OF g]]) (use replanned_cycle_ok sound_cycles [OF s] in blast)
  then have ok0: "execution_ok e0" by (intro sound_ok [OF sound_fresh [OF e0 g]])
  from refresh_cycles [OF r [unfolded refresh_def] ok0]
  have acc: "accepted_in (ge_cycles e) = accepted_in (ge_cycles e0)"
    and kept: "accepted_in (ge_cycles e) n \<Longrightarrow> map_of (ge_cycles e) n = map_of (ge_cycles e0) n"
    by (auto simp: accepted_readied accepted_in_def map_of_readied readied_cycle_def ready_again_def split: option.splits)
  have dom: "n \<in> fst ` set cycles \<longleftrightarrow> n \<in> set (node_names target)" unfolding found_names [symmetric] set_map by (rule refl)
  show "\<exists>c. replanned_cycle source target d n = Inr (n, c) \<and> (accepted_in (ge_cycles e) n \<longleftrightarrow> cy_state c = ACCEPTED)
      \<and> (accepted_in (ge_cycles e) n \<longrightarrow> map_of (ge_cycles e) n = Some c)" if "n \<in> set (node_names target)"
  proof -
    from that dom obtain c where c: "(n, c) \<in> set cycles" by force
    with m0 have "map_of (ge_cycles e0) n = Some c" by blast
    with found c kept show ?thesis by (auto simp: acc accepted_in_def)
  qed
  show "\<not> accepted_in (ge_cycles e) n" if "n \<notin> set (node_names target)"
    using that dom m0 by (cases "map_of (ge_cycles e0) n") (force simp: acc accepted_in_def)+
qed

lemma carried_exactly:
  assumes "diff_graphs h (ge_graph source) target = Inr d"
  shows "carried (gd_decisions d) n \<longleftrightarrow> (\<forall>p. (n, p) \<in> (input_rel target)\<^sup>* \<longrightarrow> unchanged h (ge_graph source) target p)"
proof -
  have "gr_generation (ge_graph source) < gr_generation target"
    using assms by (simp add: diff_graphs_def split: if_split_asm)
  from diff_graphs_result [OF this, of h] obtain d' where "diff_graphs h (ge_graph source) target = Inr d'"
    "\<forall>n. carried (gd_decisions d') n \<longleftrightarrow> (\<forall>p. (n, p) \<in> (input_rel target)\<^sup>* \<longrightarrow> unchanged h (ge_graph source) target p)"
    by blast
  with assms show ?thesis by simp
qed

text \<open>
  C21: Replanning keeps exactly the unaffected work. In the execution of the next graph generation a module is
  accepted if and only if it was accepted before, no pending or superseded repair has invalidated it, and it and
  everything it transitively consumes are unchanged (same responsibility, contract and incoming edges); and an
  accepted module keeps its accepted product.
\<close>

theorem replanning_keeps_unaffected_work:
  assumes diff: "diff_graphs h (ge_graph source) target = Inr d"
    and e: "replanned_execution h source target d = Inr e" and s: "sound h source" and g: "graph_ok target"
  shows "(accepted_in (ge_cycles e) n \<longleftrightarrow> n \<in> set (node_names target) \<and> accepted_in (ge_cycles source) n
      \<and> n \<notin> set (invalidated_nodes source)
      \<and> (\<forall>p. (n, p) \<in> (input_rel target)\<^sup>* \<longrightarrow> unchanged h (ge_graph source) target p))
    \<and> (accepted_in (ge_cycles e) n \<longrightarrow> (\<exists>old new. map_of (ge_cycles source) n = Some old
      \<and> map_of (ge_cycles e) n = Some new \<and> cy_accepted_product new = cy_accepted_product old))"
proof (cases "n \<in> set (node_names target)")
  case True
  then obtain c where step: "replanned_cycle source target d n = Inr (n, c)"
    and acc: "accepted_in (ge_cycles e) n \<longleftrightarrow> cy_state c = ACCEPTED"
    and here: "accepted_in (ge_cycles e) n \<longrightarrow> map_of (ge_cycles e) n = Some c"
    using replanned_lookup(1) [OF e s g] by blast
  note new = replanned_cycle_accepted [OF step]
  have "\<exists>old new. map_of (ge_cycles source) n = Some old \<and> map_of (ge_cycles e) n = Some new
      \<and> cy_accepted_product new = cy_accepted_product old" if a: "accepted_in (ge_cycles e) n"
  proof -
    from a acc new(1) obtain old where "map_of (ge_cycles source) n = Some old"
      by (auto simp: accepted_in_def split: option.splits)
    with new(2) a here show ?thesis by auto
  qed
  with acc new(1) True show ?thesis unfolding carried_exactly [OF diff] by blast
next
  case False
  with replanned_lookup(2) [OF e s g] show ?thesis by blast
qed

subsection \<open>Cancelling during a pause\<close>

text \<open>
  A cancel request that meets a pause request closes a plan cycle at once, dropping the assignment whose role
  has not confirmed the pause; a node cycle in the same position waits for the confirmation of its role.
\<close>

lemma plan_cancel_during_pause:
  assumes "cy_state c = PAUSE_REQUESTED" "plan_post_init c = Inr ()"
  shows "control_plan_cycle c REQUEST_CANCEL
    = Inr (Some (c\<lparr>cy_state := CANCELLED_STATE, cy_assignment := None, cy_resume := None\<rparr>))"
  using assms by (simp add: control_plan_cycle_def transition_plan_def common_role_transition_def common_target_def COMMON_TRANSITIONS_def
      common_control_transition_def Cycle_Protocol.replace_def plan_post_init_def validate_cycle_generation_Inr
      is_running_def Let_def)

lemma node_cancel_during_pause:
  assumes "cy_state c = PAUSE_REQUESTED" "node_post_init c = Inr ()" "cy_assignment c \<noteq> None"
  shows "control_node_cycle c REQUEST_CANCEL = Inr (Some (c\<lparr>cy_state := CANCEL_REQUESTED\<rparr>))"
  using assms by (simp add: control_node_cycle_def transition_node_def common_role_transition_def common_target_def COMMON_TRANSITIONS_def
      common_control_transition_def Cycle_Protocol.replace_def node_post_init_def validate_cycle_generation_Inr
      is_running_def Let_def split: if_split_asm)

end
