(* ===== verification/Graph_Compiler.thy ===== *)
theory Graph_Compiler
  imports Graph_Protocol
begin

section \<open>Topology checks of the graph compiler\<close>

text \<open>
  \<open>bunshin/graph_compiler.py\<close>: the compiler sorts the executable modules topologically by repeatedly taking
  the first module without open inputs, and follows edges to see that every module reaches the sink. Counts
  are a function from names; the result of the loop is the counts left and the modules in the order visited.
\<close>

definition compilation_error :: "GraphSourceMap option \<Rightarrow> string \<Rightarrow> string \<Rightarrow> string \<Rightarrow> err" where
  "compilation_error source_map semantic_path location_path message =
     (let detail = (if semantic_path \<noteq> [] then semantic_path @ '': '' @ message else message) in
      GraphCompilationError
        (case Option.bind source_map (\<lambda>m. location_for m location_path) of
           None \<Rightarrow> detail
         | Some l \<Rightarrow> detail @ '' ('' @ sl_path l @ '':'' @ int_str (sl_line l) @ '':'' @ int_str (sl_column l) @ '')''))"

subsection \<open>Topological order\<close>

definition count_incoming :: "EdgeSpec list \<Rightarrow> string \<Rightarrow> int" where
  "count_incoming es n = int (length (filter (\<lambda>e. ed_consumer e = n) es))"

definition consumers_of :: "EdgeSpec list \<Rightarrow> string \<Rightarrow> string list" where
  "consumers_of es n = map ed_consumer (filter (\<lambda>e. ed_producer e = n) es)"

fun close_inputs :: "string list \<Rightarrow> (string \<Rightarrow> int) \<Rightarrow> string list \<Rightarrow> (string \<Rightarrow> int) \<times> string list" where
  "close_inputs [] counts ready = (counts, ready)"
| "close_inputs (c # cs) counts ready =
     (let counts' = counts(c := counts c - 1) in
      close_inputs cs counts' (if counts' c = 0 then sort (ready @ [c]) else ready))"

fun topological_loop ::
  "nat \<Rightarrow> EdgeSpec list \<Rightarrow> (string \<Rightarrow> int) \<Rightarrow> string list \<Rightarrow> string list \<Rightarrow> ((string \<Rightarrow> int) \<times> string list) option" where
  "topological_loop 0 es counts ready visited = None"
| "topological_loop (Suc fuel) es counts ready visited =
     (case ready of
        [] \<Rightarrow> Some (counts, visited)
      | current # rest \<Rightarrow>
          (case close_inputs (sort (consumers_of es current)) counts rest of
             (counts', ready') \<Rightarrow> topological_loop fuel es counts' ready' (visited @ [current])))"

definition topological_sort :: "string list \<Rightarrow> EdgeSpec list \<Rightarrow> ((string \<Rightarrow> int) \<times> string list) option" where
  "topological_sort names es =
     topological_loop (Suc (length names)) es (count_incoming es)
       (sort (filter (\<lambda>n. count_incoming es n = 0) names)) []"

definition assert_acyclic :: "string list \<Rightarrow> EdgeSpec list \<Rightarrow> GraphSourceMap option \<Rightarrow> unit res" where
  "assert_acyclic names es source_map =
     (case topological_sort names es of
        None \<Rightarrow> Inl (RuntimeError ''topological loop'')
      | Some (counts, visited) \<Rightarrow>
          if length visited \<noteq> length names then
            let cyclic = sort (filter (\<lambda>n. counts n \<noteq> 0) names) in
            Inl (compilation_error source_map ''modules''
              (case cyclic of [] \<Rightarrow> [] | n # _ \<Rightarrow> ''modules.'' @ n @ ''.dependencies'')
              (''executable dependency graph contains a cycle: '' @ join '', '' cyclic))
          else Inr ())"

subsection \<open>Reachability\<close>

definition reachable_from :: "string \<Rightarrow> EdgeSpec list \<Rightarrow> string list" where
  "reachable_from start es =
     (case worklist (length es + 2) (consumers_of es) [] [start] of None \<Rightarrow> [] | Some reached \<Rightarrow> reached)"

interpretation edge_graph: finite_successors "consumers_of es" "map ed_consumer es" for es
  by unfold_locales (auto simp: consumers_of_def)

definition edge_rel :: "EdgeSpec list \<Rightarrow> (string \<times> string) set" where
  "edge_rel es = {(ed_producer e, ed_consumer e) |e. e \<in> set es}"

lemma succ_rel_consumers: "succ_rel (consumers_of es) = edge_rel es"
  by (auto simp: succ_rel_def consumers_of_def edge_rel_def)

lemma reachable_from_set: "set (reachable_from n es) = {m. (n, m) \<in> (edge_rel es)\<^sup>+}"
proof -
  obtain r where "worklist (length es + 2) (consumers_of es) [] [n] = Some r" "set r = {m. (n, m) \<in> (edge_rel es)\<^sup>+}"
    using edge_graph.worklist_reaches [of es "[n]" "length es + 2" "[]"] by (auto simp: succ_rel_consumers)
  then show ?thesis by (simp add: reachable_from_def)
qed

subsection \<open>The order loop is correct\<close>

text \<open>
  The invariant of the loop: every module is visited or ready at most once, the counts are the open inputs,
  and exactly the modules without open inputs have been found.
\<close>

definition open_inputs :: "EdgeSpec list \<Rightarrow> string list \<Rightarrow> string \<Rightarrow> int" where
  "open_inputs es visited n = int (length (filter (\<lambda>e. ed_consumer e = n \<and> ed_producer e \<notin> set visited) es))"

definition order_inv :: "string list \<Rightarrow> EdgeSpec list \<Rightarrow> (string \<Rightarrow> int) \<Rightarrow> string list \<Rightarrow> string list \<Rightarrow> bool" where
  "order_inv names es counts ready visited \<longleftrightarrow>
     distinct (visited @ ready) \<and> set (visited @ ready) = {n \<in> set names. counts n = 0}
   \<and> (\<forall>n. counts n = open_inputs es visited n)"

lemma close_inputs_result:
  assumes "close_inputs cs counts ready = (counts', ready')"
    and "distinct ready" and "\<forall>c \<in> set cs. c \<notin> set ready" and "\<forall>c. int (count_list cs c) \<le> counts c"
  shows "(\<forall>n. counts' n = counts n - int (count_list cs n))
    \<and> distinct ready' \<and> set ready' = set ready \<union> {c \<in> set cs. counts' c = 0}"
  using assms
proof (induction cs arbitrary: counts ready)
  case (Cons c cs)
  let ?counts = "counts(c := counts c - 1)"
  let ?ready = "if ?counts c = 0 then sort (ready @ [c]) else ready"
  have step: "close_inputs cs ?counts ?ready = (counts', ready')" using Cons.prems(1) by (simp add: Let_def)
  have bound: "\<forall>d. int (count_list cs d) \<le> ?counts d"
  proof
    fix d from Cons.prems(4) have "int (count_list (c # cs) d) \<le> counts d" by blast
    then show "int (count_list cs d) \<le> ?counts d" by (auto split: if_splits)
  qed
  have fresh: "\<forall>d \<in> set cs. d \<notin> set ?ready"
  proof
    fix d assume d: "d \<in> set cs"
    then have "0 < count_list cs d" by (simp add: count_list_0_iff neq0_conv [symmetric])
    moreover have "int (count_list cs d) \<le> ?counts d" using bound by blast
    ultimately have "?counts d \<noteq> 0" by linarith
    with d Cons.prems(3) show "d \<notin> set ?ready" by (auto split: if_splits)
  qed
  have "distinct ?ready" using Cons.prems(2,3) by auto
  note IH = Cons.IH [OF step this fresh bound]
  have "set ready' = set ready \<union> {d \<in> set (c # cs). counts' d = 0}"
  proof -
    have left: "counts' c = ?counts c - int (count_list cs c)" using IH by simp
    have "?counts c = 0 \<Longrightarrow> count_list cs c = 0" using bound [rule_format, of c] by simp
    with left have "counts' c = 0 \<longleftrightarrow> ?counts c = 0 \<or> c \<in> set cs \<and> counts' c = 0"
      using count_list_0_iff [of cs c] by (cases "c \<in> set cs") auto
    with IH show ?thesis by (auto split: if_splits)
  qed
  with IH show ?case by auto
qed simp

lemma open_inputs_visit:
  "open_inputs es (visited @ [p]) n = open_inputs es visited n
     - int (count_list (sort (if p \<in> set visited then [] else consumers_of es p)) n)"
proof -
  have split: "length (filter (\<lambda>e. ed_consumer e = n \<and> ed_producer e \<notin> set visited) es) =
      length (filter (\<lambda>e. ed_consumer e = n \<and> ed_producer e \<notin> set (visited @ [p])) es)
    + length (filter (\<lambda>e. ed_consumer e = n \<and> ed_producer e = p \<and> p \<notin> set visited) es)"
    by (induction es) auto
  have "count_list (sort xs) n = count_list xs n" for xs :: "string list"
    by (simp add: count_list_eq_length_filter filter_sort)
  moreover have "count_list (consumers_of es p) n = length (filter (\<lambda>e. ed_consumer e = n \<and> ed_producer e = p) es)"
    by (induction es) (auto simp: consumers_of_def)
  ultimately show ?thesis using split by (simp add: open_inputs_def)
qed

lemma order_step:
  assumes inv: "order_inv names es counts (current # rest) visited"
    and declared: "\<forall>e \<in> set es. ed_producer e \<in> set names \<and> ed_consumer e \<in> set names"
    and step: "close_inputs (sort (consumers_of es current)) counts rest = (counts', ready')"
  shows "order_inv names es counts' ready' (visited @ [current])"
proof -
  let ?cs = "sort (consumers_of es current)"
  have new: "current \<notin> set visited" and d: "distinct rest" using inv by (auto simp: order_inv_def)
  have counts: "counts n = open_inputs es visited n" for n using inv by (simp add: order_inv_def)
  have after: "open_inputs es (visited @ [current]) n = counts n - int (count_list ?cs n)" for n
    using new by (simp add: open_inputs_visit counts)
  moreover have "0 \<le> open_inputs es (visited @ [current]) n" for n by (simp add: open_inputs_def)
  ultimately have bound: "\<forall>c. int (count_list ?cs c) \<le> counts c" by (metis diff_ge_0_iff_ge)
  have open_positive: "counts c \<noteq> 0" if "c \<in> set ?cs" for c
    using that bound [rule_format, of c] count_list_0_iff [of ?cs c] by auto
  have found: "set (visited @ current # rest) = {n \<in> set names. counts n = 0}" using inv by (simp add: order_inv_def)
  then have "counts c = 0" if "c \<in> set rest" for c using that by auto
  with open_positive have "\<forall>c \<in> set ?cs. c \<notin> set rest" by blast
  from close_inputs_result [OF step d this bound]
  have result: "\<And>n. counts' n = counts n - int (count_list ?cs n)" "distinct ready'"
    "set ready' = set rest \<union> {c \<in> set ?cs. counts' c = 0}" by blast+
  have cs_names: "set ?cs \<subseteq> set names" using declared by (auto simp: consumers_of_def)
  have zero: "counts' n = 0 \<longleftrightarrow> counts n = 0 \<or> n \<in> set ?cs \<and> counts' n = 0" for n
  proof (cases "n \<in> set ?cs")
    case False
    then have "count_list ?cs n = 0" by (simp add: count_list_0_iff)
    then show ?thesis using result(1) [of n] False by simp
  qed (use open_positive in simp)
  have "set (visited @ [current] @ ready') = {n \<in> set names. counts' n = 0}"
    using found result(3) zero cs_names by auto
  moreover have "c \<notin> set ?cs" if "c \<in> set (visited @ [current])" for c
    using open_positive found that by auto
  then have "distinct (visited @ [current] @ ready')"
    using inv result(2,3) by (auto simp: order_inv_def)
  ultimately show ?thesis using after result(1) by (simp add: order_inv_def)
qed

lemma topological_loop_returns:
  assumes "order_inv names es counts ready visited"
    and "\<forall>e \<in> set es. ed_producer e \<in> set names \<and> ed_consumer e \<in> set names"
    and "length names < fuel + length visited"
  shows "\<exists>counts' visited'. topological_loop fuel es counts ready visited = Some (counts', visited')
    \<and> order_inv names es counts' [] visited'"
  using assms
proof (induction fuel arbitrary: counts ready visited)
  case 0
  then have "set visited \<subseteq> set names" "distinct visited" by (auto simp: order_inv_def)
  then have "length visited \<le> length names" by (metis card_length card_mono distinct_card finite_set le_trans)
  with 0 show ?case by simp
next
  case (Suc fuel)
  show ?case
  proof (cases ready)
    case (Cons current rest)
    obtain counts' ready' where step: "close_inputs (sort (consumers_of es current)) counts rest = (counts', ready')"
      by fastforce
    have "order_inv names es counts' ready' (visited @ [current])"
      by (rule order_step [OF _ Suc.prems(2) step]) (use Suc.prems(1) Cons in simp)
    from Suc.IH [OF this Suc.prems(2)] Suc.prems(3) Cons step show ?thesis by simp
  qed (use Suc.prems in simp)
qed

lemma topological_sort_result:
  assumes "distinct names" and "\<forall>e \<in> set es. ed_producer e \<in> set names \<and> ed_consumer e \<in> set names"
  shows "\<exists>counts visited. topological_sort names es = Some (counts, visited) \<and> order_inv names es counts [] visited"
  unfolding topological_sort_def
proof (rule topological_loop_returns)
  show "order_inv names es (count_incoming es) (sort (filter (\<lambda>n. count_incoming es n = 0) names)) []"
    using assms(1) by (auto simp: order_inv_def open_inputs_def count_incoming_def)
qed (use assms(2) in simp_all)

text \<open>No visited module lies on a cycle, and a module that is left over has an open input.\<close>

lemma visited_off_cycles:
  assumes "topological_loop fuel es counts ready visited = Some (counts', visited')"
    and "order_inv names es counts ready visited"
    and "\<forall>e \<in> set es. ed_producer e \<in> set names \<and> ed_consumer e \<in> set names"
    and "\<forall>n \<in> set visited. (n, n) \<notin> (edge_rel es)\<^sup>+"
  shows "\<forall>n \<in> set visited'. (n, n) \<notin> (edge_rel es)\<^sup>+"
  using assms
proof (induction fuel arbitrary: counts ready visited)
  case (Suc fuel)
  show ?case
  proof (cases ready)
    case (Cons current rest)
    obtain counts1 ready1 where step: "close_inputs (sort (consumers_of es current)) counts rest = (counts1, ready1)"
      by fastforce
    have inv: "order_inv names es counts1 ready1 (visited @ [current])"
      by (rule order_step [OF _ Suc.prems(3) step]) (use Suc.prems(2) Cons in simp)
    have "counts current = 0" using Suc.prems(2) Cons by (auto simp: order_inv_def)
    moreover have "counts current = open_inputs es visited current" using Suc.prems(2) by (simp add: order_inv_def)
    ultimately have "filter (\<lambda>e. ed_consumer e = current \<and> ed_producer e \<notin> set visited) es = []"
      by (simp add: open_inputs_def)
    then have closed: "p \<in> set visited" if "(p, current) \<in> edge_rel es" for p
      using that by (auto simp: edge_rel_def filter_empty_conv)
    have "(current, current) \<notin> (edge_rel es)\<^sup>+"
    proof
      assume cycle: "(current, current) \<in> (edge_rel es)\<^sup>+"
      then obtain p where p: "(p, current) \<in> edge_rel es" "(current, p) \<in> (edge_rel es)\<^sup>*"
        by (meson tranclD2)
      with cycle have "(p, p) \<in> (edge_rel es)\<^sup>+" by (meson rtrancl_into_trancl2)
      with closed [OF p(1)] Suc.prems(4) show False by blast
    qed
    with Suc.prems(4) have "\<forall>n \<in> set (visited @ [current]). (n, n) \<notin> (edge_rel es)\<^sup>+" by auto
    with Suc.IH [OF _ inv Suc.prems(3)] Suc.prems(1) Cons step show ?thesis by simp
  qed (use Suc.prems in simp)
qed simp

lemma open_input_left:
  assumes "order_inv names es counts [] visited"
    and "\<forall>e \<in> set es. ed_producer e \<in> set names \<and> ed_consumer e \<in> set names"
    and "n \<in> set names - set visited"
  shows "\<exists>p \<in> set names - set visited. (p, n) \<in> edge_rel es"
proof -
  have "counts n \<noteq> 0" using assms(1,3) by (auto simp: order_inv_def)
  moreover have "counts n = open_inputs es visited n" using assms(1) by (simp add: order_inv_def)
  ultimately have "filter (\<lambda>e. ed_consumer e = n \<and> ed_producer e \<notin> set visited) es \<noteq> []"
    by (auto simp only: open_inputs_def list.size of_nat_0)
  then show ?thesis using assms(2) by (auto simp: filter_empty_conv edge_rel_def)
qed

lemma assert_acyclic_lemma:
  assumes "distinct names" and declared: "\<forall>e \<in> set es. ed_producer e \<in> set names \<and> ed_consumer e \<in> set names"
  shows "assert_acyclic names es source_map = Inr () \<longleftrightarrow> acyclic (edge_rel es)"
proof -
  from topological_sort_result [OF assms] obtain counts visited where
    run: "topological_sort names es = Some (counts, visited)" and inv: "order_inv names es counts [] visited" by blast
  have sub: "distinct visited" "set visited \<subseteq> set names" using inv by (auto simp: order_inv_def)
  have "length visited = card (set visited)" "length names = card (set names)"
    using sub(1) assms(1) by (simp_all add: distinct_card)
  then have "length visited = length names \<longleftrightarrow> set visited = set names"
    using sub(2) card_subset_eq [of "set names" "set visited"] by auto
  then have "length visited = length names \<longleftrightarrow> set names - set visited = {}" using sub(2) by auto
  moreover have "set names - set visited = {} \<longleftrightarrow> acyclic (edge_rel es)"
  proof
    assume all: "set names - set visited = {}"
    have "\<forall>n \<in> set visited. (n, n) \<notin> (edge_rel es)\<^sup>+"
      by (rule visited_off_cycles [OF run [unfolded topological_sort_def] _ declared])
        (use assms(1) in \<open>auto simp: order_inv_def open_inputs_def count_incoming_def\<close>)
    moreover have "n \<in> set names" if "(n, n) \<in> (edge_rel es)\<^sup>+" for n
      using tranclD [OF that] declared by (auto simp: edge_rel_def)
    ultimately show "acyclic (edge_rel es)" using all unfolding acyclic_def by blast
  next
    assume "acyclic (edge_rel es)"
    moreover have "finite (edge_rel es)"
    proof -
      have "edge_rel es = (\<lambda>e. (ed_producer e, ed_consumer e)) ` set es" by (auto simp: edge_rel_def)
      then show ?thesis by simp
    qed
    ultimately have wf: "wf (edge_rel es)" by (rule finite_acyclic_wf [rotated])
    show "set names - set visited = {}"
    proof (rule ccontr)
      assume "set names - set visited \<noteq> {}"
      then obtain n where "n \<in> set names - set visited"
        "\<forall>m. (m, n) \<in> edge_rel es \<longrightarrow> m \<notin> set names - set visited"
        using wfE_min [OF wf] by (metis all_not_in_conv)
      with open_input_left [OF inv declared] show False by blast
    qed
  qed
  ultimately show ?thesis by (auto simp: assert_acyclic_def run Let_def)
qed

text \<open>
  The topological check of the compiler terminates, and it accepts a set of dependencies between declared
  modules exactly when they are acyclic.
\<close>

lemma assert_acyclic_exact:
  assumes "distinct names" and "\<forall>e \<in> set es. ed_producer e \<in> set names \<and> ed_consumer e \<in> set names"
  shows "assert_acyclic names es source_map = Inr () \<longleftrightarrow> acyclic (edge_rel es)"
  by (rule assert_acyclic_lemma [OF assms])

end
