(* ===== verification/Graph_Compilation.thy ===== *)
theory Graph_Compilation
  imports Graph_Compiler Graph_Facts
begin

section \<open>Compiling a contract document into a graph\<close>

text \<open>
  \<open>GraphCompiler.compile\<close> of \<open>bunshin/graph_compiler.py\<close>. The projector of the family (a template engine) and
  the rules of workspace authority are arguments; the document is a mapping.
\<close>

record GraphCompileBindings =
  gb_producer :: RoleBinding
  gb_checker :: RoleBinding
  gb_adapter :: string

record FamilyNodeProjection =
  fp_satellite :: pydict
  fp_policy :: pydict

type_synonym projector = "pydict \<Rightarrow> string \<Rightarrow> pydict \<Rightarrow> FamilyNodeProjection res"
type_synonym authority = "pydict \<Rightarrow> (string \<times> FamilyNodeProjection) list \<Rightarrow> string + (string \<times> FamilyNodeProjection) list"

definition compile_fail :: "GraphSourceMap option \<Rightarrow> string \<Rightarrow> string \<Rightarrow> 'a res" where
  "compile_fail source_map message path = Inl (compilation_error source_map path path message)"

subsection \<open>The path of an authority error\<close>

fun split_on :: "char \<Rightarrow> string \<Rightarrow> string list" where
  "split_on c [] = [[]]"
| "split_on c (x # xs) =
     (if x = c then [] # split_on c xs
      else (case split_on c xs of [] \<Rightarrow> [[x]] | token # tokens \<Rightarrow> (x # token) # tokens))"

fun unescape :: "char \<Rightarrow> char \<Rightarrow> string \<Rightarrow> string" where
  "unescape code character (x # y # rest) =
     (if x = CHR ''~'' \<and> y = code then character # unescape code character rest
      else x # unescape code character (y # rest))"
| "unescape code character xs = xs"

definition occurs_in :: "string \<Rightarrow> string \<Rightarrow> bool" where
  "occurs_in s t \<longleftrightarrow> list_ex (\<lambda>i. take (length s) (drop i t) = s) [0..<Suc (length t)]"

definition workspace_authority_semantic_path :: "string \<Rightarrow> pydict list \<Rightarrow> string" where
  "workspace_authority_semantic_path message rules =
     (case filter (\<lambda>rule. length rules = 1
          \<or> occurs_in (''workspace authority '' @ str_or_empty (dget rule ''id'')) message) rules of
        [rule] \<Rightarrow>
          (let pointer = str_or_empty (dget rule ''property_pointer'') in
           if take 1 pointer \<noteq> ''/'' then ''context''
           else
             let path = join ''.'' (map (unescape CHR ''0'' CHR ''~'' \<circ> unescape CHR ''1'' CHR ''/'')
               (tl (split_on CHR ''/'' pointer))) in
             if path = [] then ''context'' else path)
      | _ \<Rightarrow> ''context'')"

subsection \<open>Nodes\<close>

definition module_dependencies :: "pydict \<Rightarrow> pydict res" where
  "module_dependencies m = dict_or_empty (dget m ''dependencies'')"

definition compile_node ::
  "GraphCompileBindings \<Rightarrow> string \<Rightarrow> (string \<times> pydict) list \<Rightarrow> (string \<times> FamilyNodeProjection) list \<Rightarrow> string
     \<Rightarrow> (string \<times> NodeSpec) res" where
  "compile_node bindings sink modules projections n = (case (map_of modules n, map_of projections n) of
       (Some m, Some projection) \<Rightarrow>
         rbind (module_dependencies m) (\<lambda>dependencies.
         rbind (map_res (dict_or_empty \<circ> snd) dependencies) (\<lambda>_.
         rbind (list_or_empty (dget m ''provides'')) (\<lambda>provides.
         let spec = \<lparr>ns_name = n, ns_responsibility = strip (str_or_empty (dget m ''responsibility'')),
               ns_satellite = fp_satellite projection, ns_producer = gb_producer bindings,
               ns_checker = gb_checker bindings, ns_adapter = gb_adapter bindings, ns_policy = fp_policy projection,
               ns_outputs = map py_str provides, ns_is_sink = (n = sink)\<rparr> in
         rbind (node_spec_post_init spec) (\<lambda>_. Inr (n, spec)))))
     | _ \<Rightarrow> Inl (KeyError n))"

subsection \<open>Edges\<close>

definition edge_key :: "EdgeSpec \<Rightarrow> string \<times> string" where
  "edge_key e = (ed_producer e, ed_consumer e)"

definition hashable :: "pyval \<Rightarrow> bool" where
  "hashable v \<longleftrightarrow> (case v of PList _ \<Rightarrow> False | PDict _ \<Rightarrow> False | _ \<Rightarrow> True)"

definition compile_edge ::
  "GraphSourceMap option \<Rightarrow> string \<Rightarrow> pydict \<Rightarrow> string \<Rightarrow> pyval \<Rightarrow> EdgeSpec res" where
  "compile_edge source_map consumer provider producer raw =
     (let path = ''modules.'' @ consumer @ ''.dependencies.'' @ producer in
      rbind (dict_or_empty raw) (\<lambda>dependency.
      rbind (list_or_empty (dget dependency ''consumes'')) (\<lambda>consumes.
      rbind (list_or_empty (dget provider ''provides'')) (\<lambda>provides.
      rbind (raise_if (\<not> list_all hashable provides) (TypeError ''unhashable type'')) (\<lambda>_.
      let consumed = map py_str consumes;
          missing = sort (remdups (filter (\<lambda>c. PStr c \<notin> set provides) consumed)) in
      if missing \<noteq> [] then
        compile_fail source_map (''dependency consumes outputs not provided by '' @ producer @ '': '' @ join '', '' missing)
          (path @ ''.consumes'')
      else
        let e = \<lparr>ed_producer = producer, ed_consumer = consumer, ed_kind = EXECUTION, ed_contract_ref = path,
                 ed_outputs = consumed\<rparr> in
        rbind (edge_post_init e) (\<lambda>_. Inr e))))))"

fun compile_dependencies ::
  "GraphSourceMap option \<Rightarrow> (string \<times> pydict) list \<Rightarrow> string list \<Rightarrow> string \<Rightarrow> (string \<times> pyval) list \<Rightarrow> EdgeSpec list
     \<Rightarrow> EdgeSpec list res" where
  "compile_dependencies source_map modules produced consumer [] edges = Inr edges"
| "compile_dependencies source_map modules produced consumer ((producer, raw) # rest) edges =
     (let path = ''modules.'' @ consumer @ ''.dependencies.'' @ producer in
      case map_of modules producer of
        None \<Rightarrow> compile_fail source_map (''unknown provider module '' @ repr_str producer) path
      | Some provider \<Rightarrow>
          if producer \<notin> set produced then compile_dependencies source_map modules produced consumer rest edges
          else if (producer, consumer) \<in> set (map edge_key edges) then
            compile_fail source_map ''duplicate dependency edge'' path
          else rbind (compile_edge source_map consumer provider producer raw) (\<lambda>e.
            compile_dependencies source_map modules produced consumer rest (edges @ [e])))"

fun compile_edges ::
  "GraphSourceMap option \<Rightarrow> (string \<times> pydict) list \<Rightarrow> string list \<Rightarrow> (string \<times> pydict) list \<Rightarrow> EdgeSpec list
     \<Rightarrow> EdgeSpec list res" where
  "compile_edges source_map modules produced [] edges = Inr edges"
| "compile_edges source_map modules produced ((consumer, m) # rest) edges =
     (if consumer \<notin> set produced then compile_edges source_map modules produced rest edges
      else rbind (module_dependencies m) (\<lambda>dependencies.
        rbind (compile_dependencies source_map modules produced consumer (sort_key fst dependencies) edges) (\<lambda>edges'.
        compile_edges source_map modules produced rest edges')))"

subsection \<open>The compiler\<close>

definition source_map_fingerprint :: "(pyval \<Rightarrow> string) \<Rightarrow> GraphSourceMap \<Rightarrow> string" where
  "source_map_fingerprint h m = ''sha256:'' @ h (PDict (map (\<lambda>(path, l). (path,
     PDict [(''line'', PInt (sl_line l)), (''column'', PInt (sl_column l))])) (sort_key fst (sm_locations m))))"

definition check_topology :: "GraphSourceMap option \<Rightarrow> string \<Rightarrow> string list \<Rightarrow> EdgeSpec list \<Rightarrow> unit res" where
  "check_topology source_map sink names edges =
     rbind (assert_acyclic names edges source_map) (\<lambda>_.
     if list_ex (\<lambda>e. ed_kind e = EXECUTION \<and> ed_producer e = sink) edges then
       compile_fail source_map ''the declared sink cannot feed another executable node'' ''graph.sink''
     else
       let unreachable = sort (filter (\<lambda>n. n \<noteq> sink \<and> sink \<notin> set (reachable_from n edges)) names) in
       if unreachable \<noteq> [] then
         compile_fail source_map
           (''every executable node must reach the declared sink; unconnected nodes: '' @ join '', '' unreachable)
           ''graph.sink''
       else Inr ())"

definition project_nodes ::
  "projector \<Rightarrow> authority \<Rightarrow> pydict list \<Rightarrow> GraphSourceMap option \<Rightarrow> pydict \<Rightarrow> (string \<times> pydict) list \<Rightarrow> string list
     \<Rightarrow> (string \<times> FamilyNodeProjection) list res" where
  "project_nodes project authority rules source_map document modules names =
     rbind (map_res (\<lambda>n. case map_of modules n of
         None \<Rightarrow> Inl (KeyError n)
       | Some m \<Rightarrow> rbind (project document n m) (\<lambda>p. Inr (n, p))) names) (\<lambda>projections.
     case authority document projections of
       Inl message \<Rightarrow> compile_fail source_map message (workspace_authority_semantic_path message rules)
     | Inr projections' \<Rightarrow> Inr projections')"

definition produced_names :: "(string \<times> pydict) list \<Rightarrow> string list" where
  "produced_names modules = sort (remdups (map fst
     (filter (\<lambda>(_, m). str_or_empty (dget m ''execution'') = ''produce'') modules)))"

definition compile_graph ::
  "(pyval \<Rightarrow> string) \<Rightarrow> projector \<Rightarrow> authority \<Rightarrow> pydict list \<Rightarrow> pydict \<Rightarrow> string \<Rightarrow> int \<Rightarrow> GraphCompileBindings \<Rightarrow> string
     \<Rightarrow> GraphSourceMap option \<Rightarrow> string \<Rightarrow> GraphIR res" where
  "compile_graph h project authority rules document graph_id generation bindings source_ref source_map source_map_ref =
     rbind (dict_or_empty (dget document ''graph'')) (\<lambda>graph.
     let sink = strip (str_or_empty (dget graph ''sink'')) in
     if sink = [] then compile_fail source_map ''graph.sink is required'' ''graph.sink''
     else
       rbind (dict_or_empty (dget document ''modules'')) (\<lambda>raw.
       rbind (map_res (\<lambda>(n, v). rbind (dict_or_empty v) (\<lambda>m. Inr (n, m))) raw) (\<lambda>modules.
       if map_of modules sink = None then
         compile_fail source_map (''declared sink '' @ repr_str sink @ '' is not a module'') ''graph.sink''
       else
         let names = produced_names modules in
         if sink \<notin> set names then
           compile_fail source_map ''the sink must be an executable produced module'' (''modules.'' @ sink @ ''.execution'')
         else
           rbind (project_nodes project authority rules source_map document modules names) (\<lambda>projections.
           rbind (map_res (compile_node bindings sink modules projections) names) (\<lambda>nodes.
           rbind (compile_edges source_map modules names (sort_key fst modules) []) (\<lambda>edges.
           rbind (check_topology source_map sink names edges) (\<lambda>_.
           let effective = (case source_map of None \<Rightarrow> \<lparr>sm_source_ref = source_ref, sm_locations = []\<rparr> | Some m \<Rightarrow> m);
               g = \<lparr>gr_id = graph_id, gr_generation = generation, gr_nodes = nodes, gr_edges = edges, gr_sink = sink,
                    gr_source_ref = source_ref,
                    gr_map_ref = (if source_map_ref \<noteq> [] then source_map_ref else source_map_fingerprint h effective)\<rparr> in
           rbind (graph_post_init g) (\<lambda>_. Inr g))))))))"

subsection \<open>The compiled edges\<close>

definition edges_ok :: "string list \<Rightarrow> EdgeSpec list \<Rightarrow> bool" where
  "edges_ok names es \<longleftrightarrow> distinct (map edge_key es)
     \<and> (\<forall>e \<in> set es. edge_post_init e = Inr () \<and> ed_kind e = EXECUTION \<and> ed_producer e \<in> set names \<and> ed_consumer e \<in> set names)"

lemma compile_edge_result:
  "compile_edge source_map consumer provider producer raw = Inr e \<Longrightarrow>
     edge_post_init e = Inr () \<and> ed_kind e = EXECUTION \<and> edge_key e = (producer, consumer)"
  by (auto simp: compile_edge_def compile_fail_def edge_key_def Let_def split: if_splits)

lemma compile_dependencies_ok:
  assumes "compile_dependencies source_map modules produced consumer ds es = Inr es'"
    and "edges_ok produced es" and "consumer \<in> set produced"
  shows "edges_ok produced es'"
  using assms
proof (induction ds arbitrary: es)
  case (Cons d ds)
  obtain producer raw where d: "d = (producer, raw)" by (cases d)
  show ?case
  proof (cases "producer \<in> set produced")
    case True
    with Cons.prems(1) d obtain provider e where new: "(producer, consumer) \<notin> set (map edge_key es)"
      and e: "compile_edge source_map consumer provider producer raw = Inr e"
      and rest: "compile_dependencies source_map modules produced consumer ds (es @ [e]) = Inr es'"
      by (auto simp: compile_fail_def Let_def split: option.splits if_splits)
    have "edges_ok produced (es @ [e])"
      using Cons.prems(2,3) True new compile_edge_result [OF e] by (auto simp: edges_ok_def edge_key_def)
    from Cons.IH [OF rest this Cons.prems(3)] show ?thesis .
  next
    case False
    with Cons.prems(1) d have "compile_dependencies source_map modules produced consumer ds es = Inr es'"
      by (auto simp: compile_fail_def Let_def split: option.splits)
    from Cons.IH [OF this Cons.prems(2,3)] show ?thesis .
  qed
qed simp

lemma compile_edges_ok:
  "compile_edges source_map modules produced ms es = Inr es' \<Longrightarrow> edges_ok produced es \<Longrightarrow> edges_ok produced es'"
proof (induction ms arbitrary: es)
  case (Cons m ms)
  then show ?case
    by (cases m) (auto split: if_splits dest: compile_dependencies_ok)
qed simp

lemma compile_node_result:
  "compile_node bindings sink modules projections n = Inr (k, s) \<Longrightarrow>
     k = n \<and> node_spec_post_init s = Inr () \<and> ns_producer s = gb_producer bindings \<and> ns_checker s = gb_checker bindings
     \<and> ns_is_sink s = (n = sink)"
  by (auto simp: compile_node_def Let_def split: option.splits)

lemma map_res_Inr_nth: "map_res f xs = Inr ys \<Longrightarrow> list_all2 (\<lambda>x y. f x = Inr y) xs ys"
  by (induction xs arbitrary: ys) auto

lemma compile_nodes_result:
  assumes "map_res (compile_node bindings sink modules projections) names = Inr nodes"
  shows "map fst nodes = names"
    and "\<And>k s. (k, s) \<in> set nodes \<Longrightarrow> node_spec_post_init s = Inr () \<and> ns_producer s = gb_producer bindings
      \<and> ns_checker s = gb_checker bindings"
proof -
  have all: "list_all2 (\<lambda>n y. compile_node bindings sink modules projections n = Inr y) names nodes"
    using assms by (rule map_res_Inr_nth)
  then show "map fst nodes = names"
    by (induction rule: list_all2_induct) (auto dest: compile_node_result)
  from all show "\<And>k s. (k, s) \<in> set nodes \<Longrightarrow> node_spec_post_init s = Inr () \<and> ns_producer s = gb_producer bindings
      \<and> ns_checker s = gb_checker bindings"
    by (induction rule: list_all2_induct) (auto dest: compile_node_result)
qed

subsection \<open>The graph of the compiler\<close>

text \<open>
  The synthetic dependencies of a software sink add no cycle to the authored edges, because nothing consumes
  the sink.
\<close>

lemma feeds_edge:
  "(p, n) \<in> feeds g \<Longrightarrow> n \<noteq> gr_sink g \<Longrightarrow> (p, n) \<in> edge_rel (gr_edges g)"
  by (auto simp: feeds_def edge_rel_def execution_predecessors_def)

lemma acyclic_feeds:
  assumes acyclic: "acyclic (edge_rel (gr_edges g))" and sink: "\<forall>e \<in> set (gr_edges g). ed_producer e \<noteq> gr_sink g"
  shows "acyclic (feeds g)"
proof -
  have free: "n \<noteq> gr_sink g" if "n \<in> Domain (feeds g)" for n
    using that sink by (auto simp: feeds_def execution_predecessors_def split: if_splits)
  have "b \<in> Domain (feeds g) \<Longrightarrow> (a, b) \<in> (edge_rel (gr_edges g))\<^sup>+" if "(a, b) \<in> (feeds g)\<^sup>+" for a b
    using that
  proof (induction rule: trancl_induct)
    case (base b)
    with free feeds_edge show ?case by blast
  next
    case (step b c)
    then have "(a, b) \<in> (edge_rel (gr_edges g))\<^sup>+" by blast
    moreover have "(b, c) \<in> edge_rel (gr_edges g)" using step free feeds_edge by blast
    ultimately show ?case by (rule trancl_into_trancl)
  qed
  moreover have "n \<in> Domain (feeds g)" if "(n, n) \<in> (feeds g)\<^sup>+" for n
    using tranclD [OF that] by blast
  ultimately show ?thesis using acyclic unfolding acyclic_def by blast
qed

lemma check_topology_Inr:
  assumes "check_topology source_map sink names edges = Inr ()" and "distinct names" and "edges_ok names edges"
  shows "acyclic (edge_rel edges) \<and> (\<forall>e \<in> set edges. ed_producer e \<noteq> sink)
    \<and> (\<forall>n \<in> set names. n \<noteq> sink \<longrightarrow> (n, sink) \<in> (edge_rel edges)\<^sup>+)"
proof -
  have sorted: "sort xs = [] \<longleftrightarrow> xs = []" for xs :: "string list" by (metis length_0_conv length_sort)
  have "acyclic (edge_rel edges)"
    using assms assert_acyclic_lemma [OF assms(2), of edges source_map]
    by (auto simp: check_topology_def edges_ok_def)
  moreover have "\<forall>e \<in> set edges. ed_producer e \<noteq> sink"
    using assms(1,3) by (auto simp: check_topology_def edges_ok_def list_ex_iff compile_fail_def split: if_splits)
  moreover have "filter (\<lambda>n. n \<noteq> sink \<and> sink \<notin> set (reachable_from n edges)) names = []"
    using assms(1) by (auto simp: check_topology_def compile_fail_def Let_def sorted split: if_splits)
  then have "\<forall>n \<in> set names. n \<noteq> sink \<longrightarrow> (n, sink) \<in> (edge_rel edges)\<^sup>+"
    by (auto simp: filter_empty_conv reachable_from_set)
  ultimately show ?thesis by blast
qed

text \<open>
  C28: Whatever the document, the family's projector and the workspace rules do: a graph that the compiler
  returns is well formed, its dependencies (the synthetic ones of a software sink included) are acyclic, and
  every module reaches the sink, which feeds nothing.
\<close>

theorem compiled_graph_is_sound:
  assumes "compile_graph h project authority rules document graph_id generation bindings source_ref source_map
      source_map_ref = Inr g"
    and "binding_post_init (gb_producer bindings) = Inr ()" and "binding_post_init (gb_checker bindings) = Inr ()"
  shows "graph_ok g \<and> acyclic (feeds g) \<and> outgoing g (gr_sink g) = []
    \<and> (\<forall>n \<in> set (node_names g). n \<noteq> gr_sink g \<longrightarrow> (n, gr_sink g) \<in> (edge_rel (gr_edges g))\<^sup>+)"
proof -
  from assms(1) obtain modules projections sink nodes edges ref where
    nodes: "map_res (compile_node bindings sink modules projections) (produced_names modules) = Inr nodes"
    and edges: "compile_edges source_map modules (produced_names modules) (sort_key fst modules) [] = Inr edges"
    and topology: "check_topology source_map sink (produced_names modules) edges = Inr ()"
    and post: "graph_post_init g = Inr ()"
    and g': "g = \<lparr>gr_id = graph_id, gr_generation = generation, gr_nodes = nodes, gr_edges = edges, gr_sink = sink,
      gr_source_ref = source_ref, gr_map_ref = ref\<rparr>"
    unfolding compile_graph_def compile_fail_def Let_def by (fastforce split: if_splits)
  let ?names = "produced_names modules"
  have names: "distinct ?names" by (simp add: produced_names_def)
  have g: "gr_nodes g = nodes" "gr_edges g = edges" "gr_sink g = sink" by (simp_all add: g')
  have es: "edges_ok ?names edges" by (rule compile_edges_ok [OF edges]) (simp add: edges_ok_def)
  note node = compile_nodes_result [OF nodes]
  have "graph_ok g"
    unfolding graph_ok_def node_names_def g
    using names post es node assms(2,3) by (fastforce simp: edges_ok_def)
  moreover have "node_names g = ?names" by (simp add: node_names_def g node)
  ultimately show ?thesis
    using check_topology_Inr [OF topology names es] acyclic_feeds [of g]
    by (auto simp: g outgoing_def filter_empty_conv)
qed

end
