(* ===== verification/Dependency_Repair_Json.thy ===== *)
theory Dependency_Repair_Json
  imports Dependency_Repair
begin

section \<open>The stored form of the repair ledger\<close>

text \<open>
  \<open>to_dict\<close> and \<open>from_mapping\<close> of \<open>bunshin/dependency_repair_protocol.py\<close>: the ledger is stored as JSON beside
  the graph generation. Reading validates every field again; a section with missing or unknown fields fails.
\<close>

subsection \<open>Writing\<close>

definition optional_ref_dict :: "ArtifactRef option \<Rightarrow> pydict" where
  "optional_ref_dict r = (case r of None \<Rightarrow> [] | Some x \<Rightarrow> ref_dict x)"

definition refs_value :: "ArtifactRef list \<Rightarrow> pyval" where
  "refs_value rs = PList (map (\<lambda>r. PDict (ref_dict r)) rs)"

definition intent_dict :: "RepairIntent \<Rightarrow> pydict" where
  "intent_dict i =
     [(''graph_id'', PStr (ri_graph i)), (''generation'', PInt (ri_generation i)),
      (''generation_hash'', PStr (ri_generation_hash i)), (''source_node'', PStr (ri_source i)),
      (''source_cycle_id'', PStr (ri_cycle i)), (''source_aggregate_id'', PStr (ri_aggregate i)),
      (''source_assignment_id'', PStr (ri_assignment i)), (''source_input_fingerprint'', PStr (ri_input i)),
      (''source_product_ref'', PStr (ri_product i)), (''source_fencing_token'', PInt (ri_token i)),
      (''candidate_ref'', PDict (ref_dict (ri_candidate i))), (''packet_ref'', PDict (ref_dict (ri_packet i))),
      (''candidate_digest'', PStr (ri_candidate_digest i)), (''submission_payload_hash'', PStr (ri_payload_hash i)),
      (''provider_nodes'', PList (map PStr (ri_providers i))),
      (''pending_verification_ref'', PDict (optional_ref_dict (ri_pending i)))]"

definition closure_dict :: "RepairClosure \<Rightarrow> pydict" where
  "closure_dict c =
     [(''incarnation'', PDict (incarnation_dict (cl_incarnation c))), (''task_closed'', PBool (cl_task_closed c)),
      (''process_reaped'', PBool (cl_process_reaped c)), (''workspace_released'', PBool (cl_workspace_released c)),
      (''lease_released'', PBool (cl_lease_released c)), (''submission_cut'', PBool (cl_submission_cut c)),
      (''receipt_refs'', refs_value (cl_refs c))]"

definition section_dict :: "('a \<Rightarrow> pyval) \<Rightarrow> (string \<times> 'a) list \<Rightarrow> pyval" where
  "section_dict f d = PDict (map (\<lambda>(k, v). (k, f v)) (sort_key fst d))"

definition cohort_dict :: "DependencyRepairCohort \<Rightarrow> pydict" where
  "cohort_dict c =
     [(''intents'', section_dict (\<lambda>i. PDict (intent_dict i)) (co_intents c)),
      (''scope'', PList (map PStr (co_scope c))),
      (''frontier'', section_dict (\<lambda>n. PDict (incarnation_dict n)) (co_frontier c)),
      (''captures'', section_dict refs_value (co_captures c)),
      (''closures'', section_dict (\<lambda>x. PDict (closure_dict x)) (co_closures c)),
      (''status'', PStr (co_status c)), (''superseded_reason'', PStr (co_reason c))]"

definition ledger_dict :: "DependencyRepairLedger \<Rightarrow> pydict" where
  "ledger_dict l =
     [(''version'', PInt 1),
      (''pending'', (case lg_pending l of None \<Rightarrow> PNone | Some c \<Rightarrow> PDict (cohort_dict c))),
      (''history'', PList (map (\<lambda>c. PDict (cohort_dict c)) (lg_history l)))]"

subsection \<open>Reading\<close>

definition mapping_of :: "pyval \<Rightarrow> string list \<Rightarrow> pydict res" where
  "mapping_of v names = (case v of
       PDict d \<Rightarrow>
         if fst ` set d = set names then Inr d
         else Inl (ValueError ''malformed dependency repair protocol section'')
     | _ \<Rightarrow> Inl (ValueError ''malformed dependency repair protocol section''))"

definition required_text :: "pydict \<Rightarrow> string \<Rightarrow> string res" where
  "required_text d name = (case map_of d name of
       Some (PStr (c # cs)) \<Rightarrow> Inr (c # cs)
     | _ \<Rightarrow> Inl (ValueError (''repair '' @ name @ '' is required'')))"

definition any_text :: "pydict \<Rightarrow> string \<Rightarrow> string res" where
  "any_text d name = (case map_of d name of
       Some (PStr s) \<Rightarrow> Inr s
     | _ \<Rightarrow> Inl (ValueError (''repair '' @ name @ '' must be a string'')))"

definition bounded_int :: "int \<Rightarrow> string \<Rightarrow> pydict \<Rightarrow> string \<Rightarrow> int res" where
  "bounded_int least kind d name = (case map_of d name of
       Some (PInt i) \<Rightarrow> if i < least then Inl (ValueError (''repair '' @ name @ '' must be a '' @ kind @ '' integer'')) else Inr i
     | _ \<Rightarrow> Inl (ValueError (''repair '' @ name @ '' must be a '' @ kind @ '' integer'')))"

definition string_item :: "string \<Rightarrow> pyval \<Rightarrow> string res" where
  "string_item name v = (case v of
       PStr (c # cs) \<Rightarrow> Inr (c # cs)
     | _ \<Rightarrow> Inl (ValueError (''repair '' @ name @ '' must be a sequence of nonempty strings'')))"

definition string_items :: "pydict \<Rightarrow> string \<Rightarrow> string \<Rightarrow> string list res" where
  "string_items d field name = (case map_of d field of
       Some (PList vs) \<Rightarrow> map_res (string_item name) vs
     | _ \<Rightarrow> Inl (ValueError (''repair '' @ name @ '' must be a sequence of nonempty strings'')))"

definition true_flag :: "pydict \<Rightarrow> string \<Rightarrow> bool res" where
  "true_flag d name =
     (if map_of d name = Some (PBool True) then Inr True else Inl (ValueError (''repair closure requires '' @ name)))"

definition refs_of :: "pyval \<Rightarrow> ArtifactRef list res" where
  "refs_of v = (case v of
       PList vs \<Rightarrow> map_res ref_of vs
     | _ \<Rightarrow> Inl (ValueError ''repair receipt_refs must be an array''))"

definition INTENT_FIELDS :: "string list" where
  "INTENT_FIELDS = [''graph_id'', ''generation'', ''generation_hash'', ''source_node'', ''source_cycle_id'',
     ''source_aggregate_id'', ''source_assignment_id'', ''source_input_fingerprint'', ''source_product_ref'',
     ''source_fencing_token'', ''candidate_ref'', ''packet_ref'', ''candidate_digest'', ''submission_payload_hash'',
     ''provider_nodes'', ''pending_verification_ref'']"

definition intent_from_mapping :: "pyval \<Rightarrow> RepairIntent res" where
  "intent_from_mapping v =
     rbind (mapping_of v INTENT_FIELDS) (\<lambda>d.
     rbind (required_text d ''graph_id'') (\<lambda>graph.
     rbind (required_text d ''generation_hash'') (\<lambda>hash.
     rbind (required_text d ''source_node'') (\<lambda>source.
     rbind (required_text d ''source_cycle_id'') (\<lambda>cycle.
     rbind (required_text d ''source_aggregate_id'') (\<lambda>aggregate.
     rbind (required_text d ''source_assignment_id'') (\<lambda>assignment.
     rbind (required_text d ''source_input_fingerprint'') (\<lambda>input.
     rbind (required_text d ''source_product_ref'') (\<lambda>product.
     rbind (required_text d ''candidate_digest'') (\<lambda>digest.
     rbind (required_text d ''submission_payload_hash'') (\<lambda>payload.
     rbind (bounded_int 1 ''positive'' d ''generation'') (\<lambda>generation.
     rbind (bounded_int 1 ''positive'' d ''source_fencing_token'') (\<lambda>token.
     rbind (ref_of (dget d ''candidate_ref'')) (\<lambda>candidate.
     rbind (ref_of (dget d ''packet_ref'')) (\<lambda>packet.
     rbind (optional_ref_of (dget d ''pending_verification_ref'')) (\<lambda>pending.
     rbind (string_items d ''provider_nodes'' ''provider_nodes'') (\<lambda>providers.
     make_intent \<lparr>ri_graph = graph, ri_generation = generation, ri_generation_hash = hash, ri_source = source,
       ri_cycle = cycle, ri_aggregate = aggregate, ri_assignment = assignment, ri_input = input, ri_product = product,
       ri_token = token, ri_candidate = candidate, ri_packet = packet, ri_candidate_digest = digest,
       ri_payload_hash = payload, ri_providers = providers, ri_pending = pending\<rparr>)))))))))))))))))"

definition INCARNATION_FIELDS :: "string list" where
  "INCARNATION_FIELDS = [''node_name'', ''cycle_id'', ''generation'', ''input_fingerprint'', ''slot'', ''aggregate_id'',
     ''effect_id'', ''effect_key'', ''role_assignment_id'', ''attempt_id'', ''lease_resource'', ''lease_owner'',
     ''fencing_token'', ''snapshot_lease_resource'', ''snapshot_lease_owner'', ''snapshot_fencing_token'']"

definition slot_text :: "pydict \<Rightarrow> string res" where
  "slot_text d = (case map_of d ''slot'' of
       Some (PStr s) \<Rightarrow> if s \<in> {''producer'', ''checker''} then Inr s
         else Inl (ValueError ''repair incarnation slot must be producer or checker'')
     | _ \<Rightarrow> Inl (ValueError ''repair incarnation slot must be producer or checker''))"

definition incarnation_from_mapping :: "pyval \<Rightarrow> RepairIncarnation res" where
  "incarnation_from_mapping v =
     rbind (mapping_of v INCARNATION_FIELDS) (\<lambda>d.
     rbind (required_text d ''node_name'') (\<lambda>node.
     rbind (required_text d ''cycle_id'') (\<lambda>cycle.
     rbind (required_text d ''input_fingerprint'') (\<lambda>input.
     rbind (required_text d ''aggregate_id'') (\<lambda>aggregate.
     rbind (required_text d ''effect_id'') (\<lambda>effect.
     rbind (required_text d ''effect_key'') (\<lambda>effect_key.
     rbind (bounded_int 1 ''positive'' d ''generation'') (\<lambda>generation.
     rbind (slot_text d) (\<lambda>slot.
     rbind (any_text d ''role_assignment_id'') (\<lambda>assignment.
     rbind (any_text d ''attempt_id'') (\<lambda>attempt.
     rbind (any_text d ''lease_resource'') (\<lambda>lease.
     rbind (any_text d ''lease_owner'') (\<lambda>owner.
     rbind (any_text d ''snapshot_lease_resource'') (\<lambda>snapshot_lease.
     rbind (any_text d ''snapshot_lease_owner'') (\<lambda>snapshot_owner.
     rbind (bounded_int 0 ''nonnegative'' d ''fencing_token'') (\<lambda>token.
     rbind (bounded_int 0 ''nonnegative'' d ''snapshot_fencing_token'') (\<lambda>snapshot_token.
     let n = \<lparr>rn_node = node, rn_cycle = cycle, rn_generation = generation, rn_input = input, rn_slot = slot,
           rn_aggregate = aggregate, rn_effect = effect, rn_effect_key = effect_key, rn_assignment = assignment,
           rn_attempt = attempt, rn_lease = lease, rn_owner = owner, rn_token = token,
           rn_snapshot_lease = snapshot_lease, rn_snapshot_owner = snapshot_owner, rn_snapshot_token = snapshot_token\<rparr> in
     rbind (incarnation_post_init n) (\<lambda>_. Inr n))))))))))))))))))"

definition CLOSURE_FIELDS :: "string list" where
  "CLOSURE_FIELDS = [''incarnation'', ''task_closed'', ''process_reaped'', ''workspace_released'', ''lease_released'',
     ''submission_cut'', ''receipt_refs'']"

definition closure_from_mapping :: "pyval \<Rightarrow> RepairClosure res" where
  "closure_from_mapping v =
     rbind (mapping_of v CLOSURE_FIELDS) (\<lambda>d.
     rbind (incarnation_from_mapping (dget d ''incarnation'')) (\<lambda>n.
     rbind (true_flag d ''task_closed'') (\<lambda>task.
     rbind (true_flag d ''process_reaped'') (\<lambda>process.
     rbind (true_flag d ''workspace_released'') (\<lambda>workspace.
     rbind (true_flag d ''lease_released'') (\<lambda>lease.
     rbind (true_flag d ''submission_cut'') (\<lambda>submission.
     rbind (refs_of (dget d ''receipt_refs'')) (\<lambda>refs.
     make_closure \<lparr>cl_incarnation = n, cl_task_closed = task, cl_process_reaped = process,
       cl_workspace_released = workspace, cl_lease_released = lease, cl_submission_cut = submission,
       cl_refs = refs\<rparr>))))))))"

definition section_from :: "string \<Rightarrow> (pyval \<Rightarrow> 'a res) \<Rightarrow> pyval \<Rightarrow> (string \<times> 'a) list res" where
  "section_from message f v = (case v of
       PDict d \<Rightarrow> rbind (map_res (\<lambda>(k, x). rbind (f x) (\<lambda>y. Inr (k, y))) d) (\<lambda>ys. Inr (dict_of ys))
     | _ \<Rightarrow> Inl (ValueError message))"

definition COHORT_FIELDS :: "string list" where
  "COHORT_FIELDS = [''intents'', ''scope'', ''frontier'', ''captures'', ''closures'', ''status'', ''superseded_reason'']"

definition status_text :: "pydict \<Rightarrow> string res" where
  "status_text d = (case map_of d ''status'' of
       Some (PStr s) \<Rightarrow> Inr s
     | _ \<Rightarrow> Inl (ValueError ''unknown repair cohort status''))"

definition reason_text :: "pydict \<Rightarrow> string res" where
  "reason_text d = (case map_of d ''superseded_reason'' of
       Some (PStr s) \<Rightarrow> Inr s
     | _ \<Rightarrow> Inl (ValueError ''superseded repair cohort requires a reason''))"

definition cohort_from_mapping :: "(pyval \<Rightarrow> string) \<Rightarrow> pyval \<Rightarrow> DependencyRepairCohort res" where
  "cohort_from_mapping h v =
     rbind (mapping_of v COHORT_FIELDS) (\<lambda>d.
     rbind (section_from ''malformed repair cohort collection'' intent_from_mapping (dget d ''intents'')) (\<lambda>intents.
     rbind (section_from ''malformed repair cohort collection'' incarnation_from_mapping (dget d ''frontier'')) (\<lambda>frontier.
     rbind (section_from ''malformed repair cohort collection'' closure_from_mapping (dget d ''closures'')) (\<lambda>closures.
     rbind (section_from ''malformed repair captures'' refs_of (dget d ''captures'')) (\<lambda>captures.
     rbind (string_items d ''scope'' ''scope'') (\<lambda>scope.
     rbind (status_text d) (\<lambda>status.
     rbind (reason_text d) (\<lambda>reason.
     make_cohort h \<lparr>co_intents = intents, co_scope = scope, co_frontier = frontier, co_captures = captures,
       co_closures = closures, co_status = status, co_reason = reason\<rparr>))))))))"

definition ledger_from_mapping :: "(pyval \<Rightarrow> string) \<Rightarrow> pyval \<Rightarrow> DependencyRepairLedger res" where
  "ledger_from_mapping h v =
     (if v = PNone then Inr empty_ledger
      else
        rbind (mapping_of v [''version'', ''pending'', ''history'']) (\<lambda>d.
        if dget d ''version'' \<noteq> PInt 1 then Inl (ValueError ''unsupported dependency repair protocol version'')
        else case dget d ''history'' of
          PList items \<Rightarrow>
            rbind (case dget d ''pending'' of PNone \<Rightarrow> Inr None
              | p \<Rightarrow> rbind (cohort_from_mapping h p) (\<lambda>c. Inr (Some c))) (\<lambda>pending.
            rbind (map_res (cohort_from_mapping h) items) (\<lambda>history.
            make_ledger \<lparr>lg_pending = pending, lg_history = history\<rparr>))
        | _ \<Rightarrow> Inl (ValueError ''repair history must be an array'')))"

subsection \<open>Valid values\<close>

definition ref_ok :: "ArtifactRef \<Rightarrow> bool" where
  "ref_ok r \<longleftrightarrow> rf_sha r \<noteq> [] \<and> (\<forall>n. rf_size r = Some n \<longrightarrow> 0 \<le> n)"

definition intent_ok :: "RepairIntent \<Rightarrow> bool" where
  "intent_ok i \<longleftrightarrow> make_intent i = Inr i \<and> ref_ok (ri_candidate i) \<and> ref_ok (ri_packet i)
     \<and> (\<forall>r. ri_pending i = Some r \<longrightarrow> ref_ok r)"

definition closure_ok :: "RepairClosure \<Rightarrow> bool" where
  "closure_ok c \<longleftrightarrow> make_closure c = Inr c \<and> incarnation_post_init (cl_incarnation c) = Inr () \<and> list_all ref_ok (cl_refs c)"

definition cohort_ok :: "(pyval \<Rightarrow> string) \<Rightarrow> DependencyRepairCohort \<Rightarrow> bool" where
  "cohort_ok h c \<longleftrightarrow> make_cohort h c = Inr c
     \<and> is_dict (co_intents c) \<and> is_dict (co_frontier c) \<and> is_dict (co_captures c) \<and> is_dict (co_closures c)
     \<and> (\<forall>(_, i) \<in> set (co_intents c). intent_ok i)
     \<and> (\<forall>(_, n) \<in> set (co_frontier c). incarnation_post_init n = Inr ())
     \<and> (\<forall>(_, rs) \<in> set (co_captures c). list_all ref_ok rs)
     \<and> (\<forall>(_, x) \<in> set (co_closures c). closure_ok x)"

definition ledger_ok :: "(pyval \<Rightarrow> string) \<Rightarrow> DependencyRepairLedger \<Rightarrow> bool" where
  "ledger_ok h l \<longleftrightarrow> ledger_post_init l = Inr () \<and> (\<forall>c \<in> set (cohorts l). cohort_ok h c)"

subsection \<open>Reading back\<close>

text \<open>A record is rebuilt from its fields.\<close>

lemma intent_eta: "\<lparr>ri_graph = ri_graph i, ri_generation = ri_generation i, ri_generation_hash = ri_generation_hash i,
    ri_source = ri_source i, ri_cycle = ri_cycle i, ri_aggregate = ri_aggregate i,
    ri_assignment = ri_assignment i, ri_input = ri_input i, ri_product = ri_product i,
    ri_token = ri_token i, ri_candidate = ri_candidate i, ri_packet = ri_packet i,
    ri_candidate_digest = ri_candidate_digest i, ri_payload_hash = ri_payload_hash i,
    ri_providers = ri_providers i, ri_pending = ri_pending i\<rparr> = i"
  by simp

lemma incarnation_eta: "\<lparr>rn_node = rn_node n, rn_cycle = rn_cycle n, rn_generation = rn_generation n, rn_input = rn_input n,
    rn_slot = rn_slot n, rn_aggregate = rn_aggregate n, rn_effect = rn_effect n,
    rn_effect_key = rn_effect_key n, rn_assignment = rn_assignment n, rn_attempt = rn_attempt n,
    rn_lease = rn_lease n, rn_owner = rn_owner n, rn_token = rn_token n,
    rn_snapshot_lease = rn_snapshot_lease n, rn_snapshot_owner = rn_snapshot_owner n,
    rn_snapshot_token = rn_snapshot_token n\<rparr> = n"
  by simp

lemma closure_eta: "\<lparr>cl_incarnation = cl_incarnation c, cl_task_closed = cl_task_closed c,
    cl_process_reaped = cl_process_reaped c, cl_workspace_released = cl_workspace_released c,
    cl_lease_released = cl_lease_released c, cl_submission_cut = cl_submission_cut c,
    cl_refs = cl_refs c\<rparr> = c"
  by simp

lemma cohort_eta: "\<lparr>co_intents = co_intents c, co_scope = co_scope c, co_frontier = co_frontier c,
    co_captures = co_captures c, co_closures = co_closures c, co_status = co_status c,
    co_reason = co_reason c\<rparr> = c"
  by simp

lemma ledger_eta: "\<lparr>lg_pending = lg_pending l, lg_history = lg_history l\<rparr> = l"
  by simp

lemma ref_roundtrip: "ref_ok r \<Longrightarrow> ref_of (PDict (ref_dict r)) = Inr r"
proof -
  assume ok: "ref_ok r"
  obtain sha ty schema media size durable where r: "r = \<lparr>rf_sha = sha, rf_type = ty, rf_schema = schema, rf_media = media,
      rf_size = size, rf_durable = durable\<rparr>" by (cases r) auto
  obtain c cs where sha: "sha = c # cs" using ok r by (cases sha) (auto simp: ref_ok_def)
  have size: "size = Some n \<Longrightarrow> \<not> n < 0" for n using ok r by (auto simp: ref_ok_def)
  show ?thesis
    unfolding r sha
    by (cases ty; cases schema; cases media; cases size; cases durable)
       (auto simp: ref_of_def ref_of_dict_def ref_dict_def optional_entry_def REF_FIELDS_def text_field_def dest: size)
qed

lemma optional_ref_roundtrip:
  assumes "\<forall>x. r = Some x \<longrightarrow> ref_ok x"
  shows "optional_ref_of (PDict (optional_ref_dict r)) = Inr r"
proof (cases r)
  case (Some x)
  then have "ref_of_dict (ref_dict x) = Inr x" using assms ref_roundtrip [of x] by (simp add: ref_of_def)
  then show ?thesis using Some by (auto simp: optional_ref_of_def optional_ref_dict_def ref_dict_def)
qed (simp add: optional_ref_of_def optional_ref_dict_def)

lemma map_res_map_id: "(\<And>x. x \<in> set xs \<Longrightarrow> f (g x) = Inr x) \<Longrightarrow> map_res f (map g xs) = Inr xs"
  by (induction xs) auto

lemma refs_roundtrip: "list_all ref_ok rs \<Longrightarrow> refs_of (refs_value rs) = Inr rs"
  by (simp add: refs_of_def refs_value_def map_res_map_id ref_roundtrip list_all_iff)

lemma string_items_roundtrip: "[] \<notin> set xs \<Longrightarrow> map_res (string_item name) (map PStr xs) = Inr xs"
proof (rule map_res_map_id)
  fix x assume "[] \<notin> set xs" "x \<in> set xs"
  then show "string_item name (PStr x) = Inr x" by (cases x) (auto simp: string_item_def)
qed

lemma section_roundtrip:
  assumes "is_dict d" and "\<And>k x. (k, x) \<in> set d \<Longrightarrow> f (g x) = Inr x"
  shows "section_from message f (section_dict g d) = Inr d"
proof -
  have "map_res (\<lambda>(k, x). rbind (f x) (\<lambda>y. Inr (k, y))) (map (\<lambda>(k, v). (k, g v)) d) = Inr d"
    using assms(2) by (intro map_res_map_id) (auto split: prod.splits)
  moreover have "sort_key fst d = d" using is_dict_same [OF assms(1)] by (simp add: dict_of_def)
  ultimately show ?thesis using assms(1) by (simp add: section_from_def section_dict_def is_dict_same)
qed

lemma required_text_Some: "map_of d name = Some (PStr s) \<Longrightarrow> s \<noteq> [] \<Longrightarrow> required_text d name = Inr s"
  by (cases s) (simp_all add: required_text_def)

lemma make_intent_fields:
  assumes "make_intent i = Inr i"
  shows "ri_graph i \<noteq> [] \<and> ri_generation_hash i \<noteq> [] \<and> ri_source i \<noteq> [] \<and> ri_cycle i \<noteq> [] \<and> ri_aggregate i \<noteq> []
    \<and> ri_assignment i \<noteq> [] \<and> ri_input i \<noteq> [] \<and> ri_product i \<noteq> [] \<and> ri_candidate_digest i \<noteq> [] \<and> ri_payload_hash i \<noteq> []
    \<and> 1 \<le> ri_generation i \<and> 1 \<le> ri_token i \<and> [] \<notin> set (ri_providers i)"
  using assms by (auto simp: make_intent_def required_def positive_def strings_def split: if_splits)

lemma intent_roundtrip:
  assumes "intent_ok i"
  shows "intent_from_mapping (PDict (intent_dict i)) = Inr i"
proof -
  have made: "make_intent i = Inr i" using assms by (simp add: intent_ok_def)
  note f = make_intent_fields [OF made]
  have refs: "ref_of (PDict (ref_dict (ri_candidate i))) = Inr (ri_candidate i)"
    "ref_of (PDict (ref_dict (ri_packet i))) = Inr (ri_packet i)"
    "optional_ref_of (PDict (optional_ref_dict (ri_pending i))) = Inr (ri_pending i)"
    using assms by (simp_all add: intent_ok_def ref_roundtrip optional_ref_roundtrip)
  have m: "mapping_of (PDict (intent_dict i)) INTENT_FIELDS = Inr (intent_dict i)"
    by (simp add: mapping_of_def intent_dict_def INTENT_FIELDS_def)
  have texts:
    "required_text (intent_dict i) ''graph_id'' = Inr (ri_graph i)"
    "required_text (intent_dict i) ''generation_hash'' = Inr (ri_generation_hash i)"
    "required_text (intent_dict i) ''source_node'' = Inr (ri_source i)"
    "required_text (intent_dict i) ''source_cycle_id'' = Inr (ri_cycle i)"
    "required_text (intent_dict i) ''source_aggregate_id'' = Inr (ri_aggregate i)"
    "required_text (intent_dict i) ''source_assignment_id'' = Inr (ri_assignment i)"
    "required_text (intent_dict i) ''source_input_fingerprint'' = Inr (ri_input i)"
    "required_text (intent_dict i) ''source_product_ref'' = Inr (ri_product i)"
    "required_text (intent_dict i) ''candidate_digest'' = Inr (ri_candidate_digest i)"
    "required_text (intent_dict i) ''submission_payload_hash'' = Inr (ri_payload_hash i)"
    using f by (simp_all add: required_text_Some intent_dict_def)
  have numbers:
    "bounded_int 1 ''positive'' (intent_dict i) ''generation'' = Inr (ri_generation i)"
    "bounded_int 1 ''positive'' (intent_dict i) ''source_fencing_token'' = Inr (ri_token i)"
    using f by (simp_all add: bounded_int_def intent_dict_def)
  have others:
    "ref_of (dget (intent_dict i) ''candidate_ref'') = Inr (ri_candidate i)"
    "ref_of (dget (intent_dict i) ''packet_ref'') = Inr (ri_packet i)"
    "optional_ref_of (dget (intent_dict i) ''pending_verification_ref'') = Inr (ri_pending i)"
    "string_items (intent_dict i) ''provider_nodes'' ''provider_nodes'' = Inr (ri_providers i)"
    using f refs by (simp_all add: dget_def string_items_def string_items_roundtrip intent_dict_def)
  show ?thesis
    by (simp add: intent_from_mapping_def m texts numbers others made intent_eta del: rbind_eq_Inr)
qed

lemma incarnation_roundtrip:
  assumes "incarnation_post_init n = Inr ()"
  shows "incarnation_from_mapping (PDict (incarnation_dict n)) = Inr n"
proof -
  have f: "rn_node n \<noteq> []" "rn_cycle n \<noteq> []" "rn_input n \<noteq> []" "rn_aggregate n \<noteq> []" "rn_effect n \<noteq> []"
    "rn_effect_key n \<noteq> []" "1 \<le> rn_generation n" "rn_slot n = ''producer'' \<or> rn_slot n = ''checker''"
    "0 \<le> rn_token n" "0 \<le> rn_snapshot_token n"
    using assms by (auto simp: incarnation_post_init_def required_def positive_def)
  have m: "mapping_of (PDict (incarnation_dict n)) INCARNATION_FIELDS = Inr (incarnation_dict n)"
    by (simp add: mapping_of_def incarnation_dict_def INCARNATION_FIELDS_def)
  have texts:
    "required_text (incarnation_dict n) ''node_name'' = Inr (rn_node n)"
    "required_text (incarnation_dict n) ''cycle_id'' = Inr (rn_cycle n)"
    "required_text (incarnation_dict n) ''input_fingerprint'' = Inr (rn_input n)"
    "required_text (incarnation_dict n) ''aggregate_id'' = Inr (rn_aggregate n)"
    "required_text (incarnation_dict n) ''effect_id'' = Inr (rn_effect n)"
    "required_text (incarnation_dict n) ''effect_key'' = Inr (rn_effect_key n)"
    using f by (simp_all add: required_text_Some incarnation_dict_def)
  have others:
    "any_text (incarnation_dict n) ''role_assignment_id'' = Inr (rn_assignment n)"
    "any_text (incarnation_dict n) ''attempt_id'' = Inr (rn_attempt n)"
    "any_text (incarnation_dict n) ''lease_resource'' = Inr (rn_lease n)"
    "any_text (incarnation_dict n) ''lease_owner'' = Inr (rn_owner n)"
    "any_text (incarnation_dict n) ''snapshot_lease_resource'' = Inr (rn_snapshot_lease n)"
    "any_text (incarnation_dict n) ''snapshot_lease_owner'' = Inr (rn_snapshot_owner n)"
    "slot_text (incarnation_dict n) = Inr (rn_slot n)"
    using f by (auto simp: any_text_def slot_text_def incarnation_dict_def)
  have numbers:
    "bounded_int 1 ''positive'' (incarnation_dict n) ''generation'' = Inr (rn_generation n)"
    "bounded_int 0 ''nonnegative'' (incarnation_dict n) ''fencing_token'' = Inr (rn_token n)"
    "bounded_int 0 ''nonnegative'' (incarnation_dict n) ''snapshot_fencing_token'' = Inr (rn_snapshot_token n)"
    using f by (simp_all add: bounded_int_def incarnation_dict_def)
  show ?thesis
    by (simp add: incarnation_from_mapping_def m texts numbers others assms Let_def incarnation_eta del: rbind_eq_Inr)
qed

lemma make_closure_flags:
  "make_closure c = Inr c' \<Longrightarrow> cl_task_closed c \<and> cl_process_reaped c \<and> cl_workspace_released c \<and> cl_lease_released c
     \<and> cl_submission_cut c"
  by (auto simp: make_closure_def)

lemma closure_roundtrip:
  assumes "closure_ok c"
  shows "closure_from_mapping (PDict (closure_dict c)) = Inr c"
proof -
  have made: "make_closure c = Inr c" using assms by (simp add: closure_ok_def)
  note flags = make_closure_flags [OF made]
  have m: "mapping_of (PDict (closure_dict c)) CLOSURE_FIELDS = Inr (closure_dict c)"
    by (simp add: mapping_of_def closure_dict_def CLOSURE_FIELDS_def)
  have parts:
    "incarnation_from_mapping (dget (closure_dict c) ''incarnation'') = Inr (cl_incarnation c)"
    "refs_of (dget (closure_dict c) ''receipt_refs'') = Inr (cl_refs c)"
    using assms by (simp_all add: closure_ok_def dget_def closure_dict_def incarnation_roundtrip refs_roundtrip)
  have true:
    "true_flag (closure_dict c) ''task_closed'' = Inr (cl_task_closed c)"
    "true_flag (closure_dict c) ''process_reaped'' = Inr (cl_process_reaped c)"
    "true_flag (closure_dict c) ''workspace_released'' = Inr (cl_workspace_released c)"
    "true_flag (closure_dict c) ''lease_released'' = Inr (cl_lease_released c)"
    "true_flag (closure_dict c) ''submission_cut'' = Inr (cl_submission_cut c)"
    using flags by (simp_all add: true_flag_def closure_dict_def)
  show ?thesis
    by (simp add: closure_from_mapping_def m parts true made closure_eta del: rbind_eq_Inr)
qed

lemma make_cohort_scope: "make_cohort h c = Inr c' \<Longrightarrow> [] \<notin> set (co_scope c)"
  by (auto simp: make_cohort_def strings_def Let_def split: if_splits)

lemma cohort_roundtrip:
  assumes ok: "cohort_ok h c"
  shows "cohort_from_mapping h (PDict (cohort_dict c)) = Inr c"
proof -
  have made: "make_cohort h c = Inr c" using ok by (simp add: cohort_ok_def)
  have m: "mapping_of (PDict (cohort_dict c)) COHORT_FIELDS = Inr (cohort_dict c)"
    by (simp add: mapping_of_def cohort_dict_def COHORT_FIELDS_def)
  have sections:
    "section_from msg intent_from_mapping (section_dict (\<lambda>i. PDict (intent_dict i)) (co_intents c)) = Inr (co_intents c)"
    "section_from msg incarnation_from_mapping (section_dict (\<lambda>n. PDict (incarnation_dict n)) (co_frontier c)) = Inr (co_frontier c)"
    "section_from msg closure_from_mapping (section_dict (\<lambda>x. PDict (closure_dict x)) (co_closures c)) = Inr (co_closures c)"
    "section_from msg refs_of (section_dict refs_value (co_captures c)) = Inr (co_captures c)" for msg
    using ok unfolding cohort_ok_def
    by (auto intro!: section_roundtrip simp: intent_roundtrip incarnation_roundtrip closure_roundtrip refs_roundtrip)
  have fields:
    "dget (cohort_dict c) ''intents'' = section_dict (\<lambda>i. PDict (intent_dict i)) (co_intents c)"
    "dget (cohort_dict c) ''frontier'' = section_dict (\<lambda>n. PDict (incarnation_dict n)) (co_frontier c)"
    "dget (cohort_dict c) ''closures'' = section_dict (\<lambda>x. PDict (closure_dict x)) (co_closures c)"
    "dget (cohort_dict c) ''captures'' = section_dict refs_value (co_captures c)"
    "string_items (cohort_dict c) ''scope'' ''scope'' = Inr (co_scope c)"
    "status_text (cohort_dict c) = Inr (co_status c)" "reason_text (cohort_dict c) = Inr (co_reason c)"
    using make_cohort_scope [OF made]
    by (simp_all add: dget_def string_items_def string_items_roundtrip status_text_def reason_text_def cohort_dict_def)
  show ?thesis
    by (simp add: cohort_from_mapping_def m fields sections made cohort_eta del: rbind_eq_Inr)
qed

lemma ledger_roundtrip_lemma:
  assumes ok: "ledger_ok h l"
  shows "ledger_from_mapping h (PDict (ledger_dict l)) = Inr l"
proof -
  have m: "mapping_of (PDict (ledger_dict l)) [''version'', ''pending'', ''history''] = Inr (ledger_dict l)"
    by (simp add: mapping_of_def ledger_dict_def)
  have history: "map_res (cohort_from_mapping h) (map (\<lambda>c. PDict (cohort_dict c)) (lg_history l)) = Inr (lg_history l)"
    using ok by (intro map_res_map_id) (auto simp: ledger_ok_def cohorts_def cohort_roundtrip)
  have pending: "(case dget (ledger_dict l) ''pending'' of PNone \<Rightarrow> Inr None
      | p \<Rightarrow> rbind (cohort_from_mapping h p) (\<lambda>c. Inr (Some c))) = Inr (lg_pending l)"
    using ok by (cases "lg_pending l") (simp_all add: ledger_dict_def dget_def ledger_ok_def cohorts_def cohort_roundtrip)
  have fields: "dget (ledger_dict l) ''version'' = PInt 1"
    "dget (ledger_dict l) ''history'' = PList (map (\<lambda>c. PDict (cohort_dict c)) (lg_history l))"
    by (simp_all add: ledger_dict_def dget_def)
  have "ledger_post_init l = Inr ()" using ok by (simp add: ledger_ok_def)
  then show ?thesis
    by (simp add: ledger_from_mapping_def m fields pending history make_ledger_def ledger_eta del: rbind_eq_Inr)
qed

text \<open>
  C39: A valid repair ledger, written as JSON and read back, is the same ledger: pending and sealed cohorts,
  their intents, frozen incarnations, captured receipts and closure proofs survive a restart unchanged.
\<close>

theorem ledger_roundtrip:
  assumes "ledger_ok h l"
  shows "ledger_from_mapping h (PDict (ledger_dict l)) = Inr l"
  by (rule ledger_roundtrip_lemma [OF assms])

end
