(* ===== verification/Graph_Examples.thy ===== *)
theory Graph_Examples
  imports Workflow_Properties Graph_Compilation Dependency_Repair_Json
begin

section \<open>Concrete workflows\<close>

text \<open>
  The properties of graphs, repairs and workflow histories at concrete inputs: a graph of a module \<open>a\<close> and a
  sink \<open>s\<close> that verifies it, with a constant hash.
\<close>

subsection \<open>A graph and its execution\<close>

definition const_hash :: "pyval \<Rightarrow> string" where
  "const_hash v = ''h''"

definition worker :: RoleBinding where
  "worker = \<lparr>rb_participant = ''profile'', rb_profile = ''p'', rb_reason = []\<rparr>"

definition module_spec :: "string \<Rightarrow> bool \<Rightarrow> NodeSpec" where
  "module_spec n sink = \<lparr>ns_name = n, ns_responsibility = ''work'', ns_satellite = [(''k'', PNone)],
     ns_producer = worker, ns_checker = worker, ns_adapter = software_adapter, ns_policy = [], ns_outputs = [''o''],
     ns_is_sink = sink\<rparr>"

definition pair_graph :: "int \<Rightarrow> GraphIR" where
  "pair_graph n = \<lparr>gr_id = ''w'', gr_generation = n,
     gr_nodes = [(''a'', module_spec ''a'' False), (''s'', module_spec ''s'' True)],
     gr_edges = [\<lparr>ed_producer = ''a'', ed_consumer = ''s'', ed_kind = EXECUTION, ed_contract_ref = ''c'', ed_outputs = [''o'']\<rparr>],
     gr_sink = ''s'', gr_source_ref = ''src'', gr_map_ref = ''map''\<rparr>"

definition ready_cycle :: "string \<Rightarrow> string \<Rightarrow> NodeCycle" where
  "ready_cycle i n = \<lparr>cycle_id = i, cy_generation = 1, cy_state = PRODUCER_READY, cy_assignment = None, cy_product = [],
     cy_accepted_product = [], cy_verdict = None, cy_resume = None, node_name = n\<rparr>"

definition started :: GraphExecution where
  "started = \<lparr>ge_graph = pair_graph 1, ge_state = G_RUNNING,
     ge_cycles = [(''a'', ready_cycle ''w:g1:a'' ''a''), (''s'', ready_cycle ''w:g1:s'' ''s'')],
     ge_published = [], ge_barriers = [], ge_repairs = empty_ledger\<rparr>"

lemma graph_ok_pair: "1 \<le> n \<Longrightarrow> graph_ok (pair_graph n)"
  by (simp add: graph_ok_def pair_graph_def node_names_def module_spec_def worker_def graph_post_init_Inr
      node_spec_post_init_def binding_post_init_def edge_post_init_def software_adapter_def)

lemma pair_predecessors:
  "execution_predecessors (pair_graph n) ''s'' = [''a'']" "execution_predecessors (pair_graph n) ''a'' = []"
  by (simp_all add: execution_predecessors_def pair_graph_def is_software_def module_spec_def node_names_def)

lemma feeds_pair: "feeds (pair_graph n) = {(''a'', ''s'')}"
  by (auto simp: feeds_def pair_predecessors) (auto simp: pair_graph_def node_names_def pair_predecessors [unfolded pair_graph_def])

lemma pair_fields [simp]:
  "node_names (pair_graph n) = [''a'', ''s'']" "gr_sink (pair_graph n) = ''s''" "gr_id (pair_graph n) = ''w''"
  "gr_generation (pair_graph n) = n"
  by (simp_all add: pair_graph_def node_names_def)

lemma node_ok_ready: "i \<noteq> [] \<Longrightarrow> n \<noteq> [] \<Longrightarrow> node_ok (ready_cycle i n)"
  by (rule node_ok_waits) (simp_all add: ready_cycle_def node_post_init_def validate_cycle_generation_Inr idle_states_def)

lemma started_ok: "execution_ok started"
  by (auto simp: execution_ok_def started_def graph_ok_pair cycles_ok_def barriers_ok_def is_dict_def keys_def
      node_ok_ready) (simp_all add: ready_cycle_def)

lemma started_valid: "valid_execution h started"
  by (auto simp: valid_execution_iff execution_checks_def started_def keys_def cohorts_def empty_ledger_def)

lemma started_sound: "sound h started"
  by (simp add: sound_def started_ok started_valid)

theorem refresh_loop_exact_witness:
  "refresh_loop 2 started (ge_cycles started) = Some (Inr (readied started (ge_cycles started)))"
  by (rule refresh_loop_exact [OF started_ok])

theorem graph_makes_progress_witness:
  "\<exists>e'. refresh const_hash started = Inr e' \<and> ge_state e' = G_RUNNING \<and> runnable_nodes e' \<noteq> []"
proof -
  have idle: "cy_state c \<in> waiting_states" if "map_of (ge_cycles started) n = Some c" for n c
    using that by (auto simp: started_def ready_cycle_def waiting_states_def split: if_split_asm)
  have open_sink: "\<not> accepted_in (ge_cycles started) ''s''"
    by (simp add: accepted_in_def started_def ready_cycle_def)
  have "\<not> all_accepted started" "gr_sink (ge_graph started) = ''s''" "ge_state started = G_RUNNING"
    "lg_pending (ge_repairs started) = None" "ge_graph started = pair_graph 1"
    using open_sink by (auto simp: all_accepted_def started_def empty_ledger_def)
  moreover have "acyclic (feeds (pair_graph 1))"
    unfolding feeds_pair by (rule acyclicI) (auto dest: tranclD tranclD2)
  ultimately show ?thesis
    using graph_makes_progress [OF started_ok started_valid [of const_hash]] idle open_sink by auto
qed

subsection \<open>Histories\<close>

definition installed :: CycleTables where
  "installed = run_ops (workflow_step const_hash) no_tables [InstallGraph ''w'' (pair_graph 1)]"

lemma installed_read: "read_graph_execution const_hash installed ''w'' None = Inr (Some started)"
  by code_simp

theorem executions_stay_sound_witness:
  "valid_execution const_hash started \<and> keys (ge_cycles started) = {''a'', ''s''}"
  using executions_stay_sound [OF installed_read [unfolded installed_def]] by (simp add: started_def)

lemma started_producer:
  "\<exists>c' db'. start_node_assignment const_hash installed ''w'' ''a'' PRODUCER INITIAL ''f'' = Inr (c', db')"
proof -
  have "case start_node_assignment const_hash installed ''w'' ''a'' PRODUCER INITIAL ''f'' of Inl _ \<Rightarrow> False | Inr _ \<Rightarrow> True"
    by code_simp
  then show ?thesis by (auto split: sum.splits)
qed

theorem roles_start_only_when_ready_witness:
  "\<exists>c' db'. start_node_assignment const_hash installed ''w'' ''a'' PRODUCER INITIAL ''f'' = Inr (c', db')
     \<and> cy_state c' = PRODUCING \<and> ''a'' \<notin> set (pending_scope started)"
proof -
  obtain c' db' where run: "start_node_assignment const_hash installed ''w'' ''a'' PRODUCER INITIAL ''f'' = Inr (c', db')"
    using started_producer by blast
  have ok: "tables_ok installed" unfolding installed_def by (rule reachable_tables_ok)
  have c: "map_of (ge_cycles started) ''a'' = Some (ready_cycle ''w:g1:a'' ''a'')" by (simp add: started_def)
  have fresh: "runs_slot (ready_cycle ''w:g1:a'' ''a'') PRODUCER = None" by (simp add: runs_slot_def ready_cycle_def)
  from roles_start_only_when_ready [OF run ok installed_read c fresh] run show ?thesis
    by (auto simp: running_state_def)
qed

subsection \<open>Repairs\<close>

definition artifact :: "string \<Rightarrow> ArtifactRef" where
  "artifact sha = \<lparr>rf_sha = sha, rf_type = None, rf_schema = None, rf_media = None, rf_size = None, rf_durable = None\<rparr>"

definition report :: RepairIntent where
  "report = \<lparr>ri_graph = ''w'', ri_generation = 1, ri_generation_hash = ''h'', ri_source = ''s'', ri_cycle = ''w:g1:s'',
     ri_aggregate = ''n'', ri_assignment = ''r'', ri_input = ''f'', ri_product = ''x'', ri_token = 1,
     ri_candidate = artifact ''x'', ri_packet = artifact ''y'', ri_candidate_digest = ''d'', ri_payload_hash = ''q'',
     ri_providers = [''a''], ri_pending = None\<rparr>"

definition reporter :: RepairIncarnation where
  "reporter = \<lparr>rn_node = ''s'', rn_cycle = ''w:g1:s'', rn_generation = 1, rn_input = ''f'', rn_slot = ''checker'',
     rn_aggregate = ''n'', rn_effect = ''e'', rn_effect_key = ''k'', rn_assignment = ''r'', rn_attempt = ''t'',
     rn_lease = ''l'', rn_owner = ''o'', rn_token = 1, rn_snapshot_lease = [], rn_snapshot_owner = [],
     rn_snapshot_token = 0\<rparr>"

definition closure :: RepairClosure where
  "closure = \<lparr>cl_incarnation = reporter, cl_task_closed = True, cl_process_reaped = True, cl_workspace_released = True,
     cl_lease_released = True, cl_submission_cut = True, cl_refs = [artifact ''y'']\<rparr>"

definition closed_cohort :: DependencyRepairCohort where
  "closed_cohort = \<lparr>co_intents = [(''h'', report)], co_scope = [''a'', ''s''], co_frontier = [(''h'', reporter)],
     co_captures = [(''h'', [artifact ''y''])], co_closures = [(''h'', closure)], co_status = ''pending'', co_reason = []\<rparr>"

definition closed_ledger :: DependencyRepairLedger where
  "closed_ledger = \<lparr>lg_pending = Some closed_cohort, lg_history = []\<rparr>"

text \<open>The execution of the cohort: the sink's checker is closed, the module is as given.\<close>

definition repairing :: "NodeCycle \<Rightarrow> GraphExecution" where
  "repairing c = started\<lparr>ge_cycles := [(''a'', c), (''s'', (ready_cycle ''w:g1:s'' ''s'')\<lparr>cy_state := STALE, cy_product := ''x''\<rparr>)],
     ge_repairs := closed_ledger\<rparr>"

definition accepted_module :: NodeCycle where
  "accepted_module = (ready_cycle ''w:g1:a'' ''a'')\<lparr>cy_state := ACCEPTED, cy_product := ''p'', cy_accepted_product := ''p'',
     cy_verdict := Some \<lparr>vd_accepted = True, vd_generation = 1, vd_findings = []\<rparr>\<rparr>"

definition triaged_module :: NodeCycle where
  "triaged_module = (ready_cycle ''w:g1:a'' ''a'')\<lparr>cy_state := TRIAGE_REQUIRED, cy_resume := Some PRODUCER_READY\<rparr>"

lemma node_ok_accepted: "node_ok accepted_module"
  by (simp add: node_ok_def accepted_module_def ready_cycle_def node_post_init_def validate_cycle_generation_Inr
      cycle_inv_plain active_slot_def accepting_with_def)

lemma node_ok_triaged: "node_ok triaged_module"
  by (simp add: node_ok_def triaged_module_def ready_cycle_def node_post_init_def validate_cycle_generation_Inr
      cycle_inv_defs)

lemma repairing_ok:
  assumes "node_ok c" and "node_name c = ''a''"
  shows "execution_ok (repairing c)"
proof -
  have "node_ok ((ready_cycle ''w:g1:s'' ''s'')\<lparr>cy_state := STALE, cy_product := ''x''\<rparr>)"
    by (rule node_ok_waits) (simp_all add: ready_cycle_def node_post_init_def validate_cycle_generation_Inr idle_states_def)
  with assms show ?thesis
    by (auto simp: execution_ok_def repairing_def started_def graph_ok_pair cycles_ok_def barriers_ok_def is_dict_def
        keys_def) (simp_all add: ready_cycle_def)
qed

lemma repairing_sound:
  assumes "c \<in> {accepted_module, triaged_module}"
  shows "sound const_hash (repairing c)"
proof -
  have "make_execution const_hash (repairing accepted_module) = Inr (repairing accepted_module)" by code_simp
  moreover have "make_execution const_hash (repairing triaged_module) = Inr (repairing triaged_module)" by code_simp
  moreover have "node_ok c \<and> node_name c = ''a''"
    using assms node_ok_accepted node_ok_triaged
    by (auto simp: accepted_module_def triaged_module_def ready_cycle_def)
  ultimately show ?thesis using assms repairing_ok by (auto simp: sound_def valid_execution_def)
qed

theorem ledger_roundtrip_witness:
  "ledger_from_mapping const_hash (PDict (ledger_dict closed_ledger)) = Inr closed_ledger"
proof (rule ledger_roundtrip)
  have "make_intent report = Inr report" "make_closure closure = Inr closure"
    "make_cohort const_hash closed_cohort = Inr closed_cohort" "incarnation_post_init reporter = Inr ()" by code_simp+
  then show "ledger_ok const_hash closed_ledger"
    by (simp add: ledger_ok_def closed_ledger_def ledger_post_init_def cohorts_def cohort_ok_def is_dict_def intent_ok_def
        closure_ok_def ref_ok_def artifact_def) (simp add: closed_cohort_def intent_ok_def closure_ok_def ref_ok_def
        report_def closure_def artifact_def is_dict_def)
qed

theorem repair_is_applied_witness:
  "\<exists>e' route. apply_dependency_repair const_hash (repairing accepted_module) ''h'' = Inr (e', Some route)
     \<and> (\<exists>c. map_of (ge_cycles e') ''a'' = Some c \<and> cy_state c = REPAIR_READY)
     \<and> (\<exists>c. map_of (ge_cycles e') ''s'' = Some c \<and> cy_state c = STALE) \<and> ''a'' \<in> set (barrier_of e' ''s'')"
proof -
  have "case apply_dependency_repair const_hash (repairing accepted_module) ''h'' of Inr (_, Some _) \<Rightarrow> True | _ \<Rightarrow> False"
    by code_simp
  then obtain e' route where run: "apply_dependency_repair const_hash (repairing accepted_module) ''h'' = Inr (e', Some route)"
    by (auto split: sum.splits option.splits prod.splits)
  have "sound const_hash (repairing accepted_module)" by (rule repairing_sound) simp
  note result = repair_is_applied [OF run this]
  have p: "lg_pending (ge_repairs (repairing accepted_module)) = Some closed_cohort"
    "cohort_providers closed_cohort = [''a'']" "co_scope closed_cohort = [''a'', ''s'']"
    "ge_graph (repairing accepted_module) = pair_graph 1"
    by (simp_all add: repairing_def closed_ledger_def cohort_providers_def closed_cohort_def report_def sorted_names_def started_def)
  have "''s'' \<in> set (repair_descendants (pair_graph 1) ''a'')"
    unfolding repair_descendants_set feeds_pair by auto
  with result show ?thesis unfolding run by (auto simp: p)
qed

text \<open>Tables that hold the execution with the module in triage.\<close>

definition triaged_tables :: CycleTables where
  "triaged_tables = (case store_graph_execution const_hash installed ''w'' (repairing triaged_module) of
     Inl _ \<Rightarrow> installed | Inr db \<Rightarrow> db)"

lemma triaged_read: "read_graph_execution const_hash triaged_tables ''w'' None = Inr (Some (repairing triaged_module))"
  by code_simp

theorem triaged_member_blocks_its_repair_witness:
  "(\<forall>e' route. apply_dependency_repair const_hash (repairing triaged_module) ''h'' \<noteq> Inr (e', Some route))
    \<and> (\<exists>err. resolve_triage const_hash triaged_tables ''w'' ''a'' False [] 0 None = Inl err)"
proof -
  have s: "sound const_hash (repairing triaged_module)" by (rule repairing_sound) simp
  have p: "lg_pending (ge_repairs (repairing triaged_module)) = Some closed_cohort"
    and c: "map_of (ge_cycles (repairing triaged_module)) ''a'' = Some triaged_module"
    by (simp_all add: repairing_def closed_ledger_def)
  have "''a'' \<in> set (co_scope closed_cohort)" "cohort_key const_hash closed_cohort = ''h''"
    "cy_state triaged_module = TRIAGE_REQUIRED" "cy_resume triaged_module = Some PRODUCER_READY"
    by (simp_all add: closed_cohort_def cohort_key_def const_hash_def triaged_module_def)
  moreover have "frontier_member (repairing triaged_module) ''a'' = None" by code_simp
  ultimately show ?thesis
    using triaged_member_blocks_its_repair [OF s p _ c, of PRODUCER_READY "triaged_tables" "''w''" "[]" 0 None] triaged_read by simp
qed

subsection \<open>Replanning\<close>

definition half_done :: GraphExecution where
  "half_done = started\<lparr>ge_cycles := [(''a'', accepted_module), (''s'', ready_cycle ''w:g1:s'' ''s'')]\<rparr>"

theorem replanning_keeps_unaffected_work_witness:
  "\<exists>d e. diff_graphs const_hash (ge_graph half_done) (pair_graph 2) = Inr d
     \<and> replanned_execution const_hash half_done (pair_graph 2) d = Inr e \<and> \<not> accepted_in (ge_cycles e) ''s''"
proof -
  have "case diff_graphs const_hash (ge_graph half_done) (pair_graph 2) of Inl _ \<Rightarrow> False
    | Inr d \<Rightarrow> (case replanned_execution const_hash half_done (pair_graph 2) d of Inl _ \<Rightarrow> False | Inr _ \<Rightarrow> True)"
    by code_simp
  then obtain d e where d: "diff_graphs const_hash (ge_graph half_done) (pair_graph 2) = Inr d"
    and e: "replanned_execution const_hash half_done (pair_graph 2) d = Inr e"
    by (auto split: sum.splits)
  have "execution_ok half_done"
    by (auto simp: execution_ok_def half_done_def started_def graph_ok_pair cycles_ok_def barriers_ok_def is_dict_def
        keys_def node_ok_ready node_ok_accepted) (simp_all add: ready_cycle_def accepted_module_def)
  moreover have "valid_execution const_hash half_done"
    by (auto simp: valid_execution_iff execution_checks_def half_done_def started_def keys_def cohorts_def empty_ledger_def)
  ultimately have "sound const_hash half_done" by (simp add: sound_def)
  from replanning_keeps_unaffected_work [OF d e this graph_ok_pair] d e show ?thesis
    by (auto simp: half_done_def accepted_in_def ready_cycle_def)
qed

subsection \<open>Compilation\<close>

text \<open>A document with a module and a sink that consumes its output.\<close>

definition pair_document :: pydict where
  "pair_document = [(''graph'', PDict [(''sink'', PStr ''s'')]), (''modules'', PDict
     [(''a'', PDict [(''execution'', PStr ''produce''), (''responsibility'', PStr ''work''), (''provides'', PList [PStr ''o''])]),
      (''s'', PDict [(''execution'', PStr ''produce''), (''responsibility'', PStr ''assemble''),
        (''dependencies'', PDict [(''a'', PDict [(''consumes'', PList [PStr ''o''])])])])])]"

definition plain_projector :: projector where
  "plain_projector document n m = Inr \<lparr>fp_satellite = [(''k'', PNone)], fp_policy = []\<rparr>"

definition pair_bindings :: GraphCompileBindings where
  "pair_bindings = \<lparr>gb_producer = worker, gb_checker = worker, gb_adapter = software_adapter\<rparr>"

theorem compiled_graph_is_sound_witness:
  "\<exists>g. compile_graph const_hash plain_projector (\<lambda>_ projections. Inr projections) [] pair_document ''w'' 1 pair_bindings
      ''src'' None [] = Inr g \<and> acyclic (feeds g) \<and> graph_ok g"
proof -
  have "case compile_graph const_hash plain_projector (\<lambda>_ projections. Inr projections) [] pair_document ''w'' 1
      pair_bindings ''src'' None [] of Inl _ \<Rightarrow> False | Inr _ \<Rightarrow> True" by code_simp
  then obtain g where g: "compile_graph const_hash plain_projector (\<lambda>_ projections. Inr projections) [] pair_document ''w'' 1
      pair_bindings ''src'' None [] = Inr g"
    by (auto split: sum.splits)
  have "binding_post_init (gb_producer pair_bindings) = Inr ()" "binding_post_init (gb_checker pair_bindings) = Inr ()"
    by (simp_all add: pair_bindings_def worker_def binding_post_init_def)
  from compiled_graph_is_sound [OF g this] g show ?thesis by blast
qed

end
