(* ===== verification/Role_Protocol.thy ===== *)
theory Role_Protocol
  imports Role_Contracts Human_Decisions
begin

section \<open>The protocol of durable roles\<close>

text \<open>
  \<open>bunshin/role_protocol.py\<close>. A role session is a logical coroutine that survives processes; a role assignment
  is one activation of it with one result; an attempt is one process that works on an assignment. The legal
  transitions of sessions and assignments are tables, in the order of the source. Identifiers are prefixes of
  SHA-256 digests: the digest of a text and the hash of a canonical JSON value are arguments.
\<close>

subsection \<open>Sessions\<close>

datatype RoleSessionState = S_UNINITIALIZED | S_ACTIVE | S_SUSPENDED | S_COMPLETED | S_CANCELLED

datatype RoleSessionAction = S_INITIALIZE | S_PARK | S_ACTIVATE | S_SUSPEND | S_COMPLETE | S_CANCEL

fun session_state_value :: "RoleSessionState \<Rightarrow> string" where
  "session_state_value S_UNINITIALIZED = ''uninitialized''"
| "session_state_value S_ACTIVE = ''active''"
| "session_state_value S_SUSPENDED = ''suspended''"
| "session_state_value S_COMPLETED = ''completed''"
| "session_state_value S_CANCELLED = ''cancelled''"

fun session_action_value :: "RoleSessionAction \<Rightarrow> string" where
  "session_action_value S_INITIALIZE = ''initialize''"
| "session_action_value S_PARK = ''park''"
| "session_action_value S_ACTIVATE = ''activate''"
| "session_action_value S_SUSPEND = ''suspend''"
| "session_action_value S_COMPLETE = ''complete''"
| "session_action_value S_CANCEL = ''cancel''"

definition SESSION_TRANSITIONS :: "((RoleSessionState \<times> RoleSessionAction) \<times> RoleSessionState) list" where
  "SESSION_TRANSITIONS =
    [((S_UNINITIALIZED, S_ACTIVATE), S_UNINITIALIZED), ((S_UNINITIALIZED, S_PARK), S_UNINITIALIZED),
     ((S_ACTIVE, S_PARK), S_SUSPENDED), ((S_SUSPENDED, S_PARK), S_SUSPENDED),
     ((S_UNINITIALIZED, S_INITIALIZE), S_ACTIVE), ((S_ACTIVE, S_INITIALIZE), S_ACTIVE),
     ((S_SUSPENDED, S_INITIALIZE), S_SUSPENDED), ((S_UNINITIALIZED, S_SUSPEND), S_SUSPENDED),
     ((S_UNINITIALIZED, S_COMPLETE), S_COMPLETED), ((S_UNINITIALIZED, S_CANCEL), S_CANCELLED),
     ((S_ACTIVE, S_ACTIVATE), S_ACTIVE), ((S_ACTIVE, S_SUSPEND), S_SUSPENDED),
     ((S_SUSPENDED, S_ACTIVATE), S_ACTIVE), ((S_SUSPENDED, S_SUSPEND), S_SUSPENDED),
     ((S_ACTIVE, S_COMPLETE), S_COMPLETED), ((S_SUSPENDED, S_COMPLETE), S_COMPLETED),
     ((S_COMPLETED, S_COMPLETE), S_COMPLETED), ((S_ACTIVE, S_CANCEL), S_CANCELLED),
     ((S_SUSPENDED, S_CANCEL), S_CANCELLED), ((S_CANCELLED, S_CANCEL), S_CANCELLED)]"

definition role_session_target :: "RoleSessionState \<Rightarrow> RoleSessionAction \<Rightarrow> RoleSessionState res" where
  "role_session_target s act = (case map_of SESSION_TRANSITIONS (s, act) of
       None \<Rightarrow> Inl (ValueError (''illegal role session transition: '' @ session_state_value s @ '' + ''
         @ session_action_value act))
     | Some s' \<Rightarrow> Inr s')"

definition session_terminal :: "RoleSessionState \<Rightarrow> bool" where
  "session_terminal s \<longleftrightarrow> s \<in> {S_COMPLETED, S_CANCELLED}"

subsection \<open>Assignments and attempts\<close>

datatype RoleAssignmentState =
    A_QUEUED | A_CLAIMED | A_RUNNING | A_RETRY_QUEUED | A_RESULT_RECORDED | A_SETTLED | A_CANCELLED

datatype RoleAssignmentAction = A_CLAIM | A_START | A_QUEUE_RETRY | A_RECORD_RESULT | A_SETTLE | A_CANCEL

datatype RoleAttemptState =
    T_STARTING | T_RUNNING | T_SUBMITTED | T_COMPLETED | T_FAILED | T_LOST | T_CANCELLED

fun assignment_state_value :: "RoleAssignmentState \<Rightarrow> string" where
  "assignment_state_value A_QUEUED = ''queued''"
| "assignment_state_value A_CLAIMED = ''claimed''"
| "assignment_state_value A_RUNNING = ''running''"
| "assignment_state_value A_RETRY_QUEUED = ''retry_queued''"
| "assignment_state_value A_RESULT_RECORDED = ''result_recorded''"
| "assignment_state_value A_SETTLED = ''settled''"
| "assignment_state_value A_CANCELLED = ''cancelled''"

fun assignment_action_value :: "RoleAssignmentAction \<Rightarrow> string" where
  "assignment_action_value A_CLAIM = ''claim''"
| "assignment_action_value A_START = ''start''"
| "assignment_action_value A_QUEUE_RETRY = ''queue_retry''"
| "assignment_action_value A_RECORD_RESULT = ''record_result''"
| "assignment_action_value A_SETTLE = ''settle''"
| "assignment_action_value A_CANCEL = ''cancel''"

definition CANCELLABLE :: "RoleAssignmentState list" where
  "CANCELLABLE = filter (\<lambda>s. s \<notin> {A_RESULT_RECORDED, A_SETTLED, A_CANCELLED})
     [A_QUEUED, A_CLAIMED, A_RUNNING, A_RETRY_QUEUED, A_RESULT_RECORDED, A_SETTLED, A_CANCELLED]"

definition ASSIGNMENT_TRANSITIONS :: "((RoleAssignmentState \<times> RoleAssignmentAction) \<times> RoleAssignmentState) list" where
  "ASSIGNMENT_TRANSITIONS =
    [((A_QUEUED, A_CLAIM), A_CLAIMED), ((A_RETRY_QUEUED, A_CLAIM), A_CLAIMED), ((A_CLAIMED, A_START), A_RUNNING),
     ((A_CLAIMED, A_QUEUE_RETRY), A_RETRY_QUEUED), ((A_RUNNING, A_QUEUE_RETRY), A_RETRY_QUEUED),
     ((A_CLAIMED, A_RECORD_RESULT), A_RESULT_RECORDED), ((A_RUNNING, A_RECORD_RESULT), A_RESULT_RECORDED),
     ((A_RETRY_QUEUED, A_RECORD_RESULT), A_RESULT_RECORDED),
     ((A_RESULT_RECORDED, A_RECORD_RESULT), A_RESULT_RECORDED),
     ((A_RESULT_RECORDED, A_SETTLE), A_SETTLED), ((A_SETTLED, A_SETTLE), A_SETTLED)]
    @ map (\<lambda>s. ((s, A_CANCEL), A_CANCELLED)) CANCELLABLE @ [((A_CANCELLED, A_CANCEL), A_CANCELLED)]"

definition role_assignment_target :: "RoleAssignmentState \<Rightarrow> RoleAssignmentAction \<Rightarrow> RoleAssignmentState res" where
  "role_assignment_target s act = (case map_of ASSIGNMENT_TRANSITIONS (s, act) of
       None \<Rightarrow> Inl (ValueError (''illegal role assignment transition: '' @ assignment_state_value s @ '' + ''
         @ assignment_action_value act))
     | Some s' \<Rightarrow> Inr s')"

text \<open>The states that count as open: a session has at most one assignment in them.\<close>

definition open_states :: "RoleAssignmentState set" where
  "open_states = {A_QUEUED, A_CLAIMED, A_RUNNING, A_RETRY_QUEUED, A_RESULT_RECORDED}"

lemma session_target_live:
  assumes "\<not> session_terminal s" and "act \<in> {S_PARK, S_ACTIVATE, S_SUSPEND, S_INITIALIZE}"
  shows "\<exists>s'. role_session_target s act = Inr s' \<and> \<not> session_terminal s'"
  using assms by (cases s; auto simp: role_session_target_def SESSION_TRANSITIONS_def session_terminal_def)

lemma session_target_final:
  "session_terminal s \<Longrightarrow> role_session_target s act = Inr s' \<Longrightarrow> s' = s"
  by (cases s; cases act) (auto simp: role_session_target_def SESSION_TRANSITIONS_def session_terminal_def)

lemma session_target_terminal:
  "role_session_target s act = Inr s' \<Longrightarrow> session_terminal s' \<Longrightarrow> act \<in> {S_COMPLETE, S_CANCEL}"
  by (cases s; cases act) (auto simp: role_session_target_def SESSION_TRANSITIONS_def session_terminal_def)

lemma assignment_target_simps [simp]:
  "role_assignment_target s A_CLAIM = Inr s' \<longleftrightarrow> s \<in> {A_QUEUED, A_RETRY_QUEUED} \<and> s' = A_CLAIMED"
  "role_assignment_target s A_START = Inr s' \<longleftrightarrow> s = A_CLAIMED \<and> s' = A_RUNNING"
  "role_assignment_target s A_QUEUE_RETRY = Inr s' \<longleftrightarrow> s \<in> {A_CLAIMED, A_RUNNING} \<and> s' = A_RETRY_QUEUED"
  "role_assignment_target s A_RECORD_RESULT = Inr s' \<longleftrightarrow>
     s \<in> {A_CLAIMED, A_RUNNING, A_RETRY_QUEUED, A_RESULT_RECORDED} \<and> s' = A_RESULT_RECORDED"
  "role_assignment_target s A_SETTLE = Inr s' \<longleftrightarrow> s \<in> {A_RESULT_RECORDED, A_SETTLED} \<and> s' = A_SETTLED"
  "role_assignment_target s A_CANCEL = Inr s' \<longleftrightarrow> s \<notin> {A_RESULT_RECORDED, A_SETTLED} \<and> s' = A_CANCELLED"
  by (cases s; auto simp: role_assignment_target_def ASSIGNMENT_TRANSITIONS_def CANCELLABLE_def)+

subsection \<open>Profile identities\<close>

fun double_dot :: "string \<Rightarrow> bool" where
  "double_dot (a # b # cs) = (a = CHR ''.'' \<and> b = CHR ''.'' \<or> double_dot (b # cs))"
| "double_dot _ = False"

text \<open>\<open>value.rsplit(".", 1)\<close> of a text that contains a dot.\<close>

definition split_last_dot :: "string \<Rightarrow> string \<times> string" where
  "split_last_dot s = (rev (drop 1 (dropWhile (\<lambda>c. c \<noteq> CHR ''.'') (rev s))), rev (takeWhile (\<lambda>c. c \<noteq> CHR ''.'') (rev s)))"

definition canonical_role_profile_parts :: "string \<Rightarrow> (string \<times> string) res" where
  "canonical_role_profile_parts v =
     (let err = ValueError ''role profile id must be canonical'' in
      if v = [] \<or> v \<noteq> strip v \<or> CHR ''/'' \<in> set v \<or> hd v = CHR ''.'' \<or> last v = CHR ''.'' \<or> double_dot v
          \<or> list_ex is_space v then Inl err
      else if CHR ''.'' \<notin> set v then Inr (''general'', v)
      else
        let (group, n) = split_last_dot v in
        if group = ''general'' then Inl err else Inr (group, n))"

subsection \<open>Requests and receipts\<close>

record RoleAssignmentRequest =
  rr_key :: string
  rr_session :: string
  rr_workflow :: string
  rr_type :: string
  rr_aggregate :: string
  rr_role :: string
  rr_mode :: string
  rr_profile :: string
  rr_family :: string
  rr_input :: string
  rr_required :: "string list"
  rr_refs :: "(string \<times> pydict) list"
  rr_spec :: pydict
  rr_kind :: string

definition request_post_init :: "RoleAssignmentRequest \<Rightarrow> unit res" where
  "request_post_init r =
     (let missing = missing_fields [(''assignment_key'', rr_key r), (''session_id'', rr_session r),
          (''workflow_id'', rr_workflow r), (''aggregate_type'', rr_type r), (''aggregate_id'', rr_aggregate r),
          (''role'', rr_role r), (''mode'', rr_mode r), (''role_profile_id'', rr_profile r),
          (''family_binding_sha'', rr_family r), (''input_fingerprint'', rr_input r),
          (''submission_kind'', rr_kind r)];
          names = map strip (rr_required r);
          unknown = sort (remdups (filter (\<lambda>n. n \<notin> fst ` set (rr_refs r)) names)) in
      if missing \<noteq> [] then
        Inl (ValueError (''role assignment request missing fields: '' @ join '', '' missing))
      else
        rbind (activation_from_values (rr_role r) (rr_mode r)) (\<lambda>_.
        rbind (canonical_role_profile_parts (rr_profile r)) (\<lambda>_.
        if [] \<in> set names \<or> \<not> distinct names then
          Inl (ValueError ''role assignment required inputs must be unique non-empty names'')
        else if unknown \<noteq> [] then
          Inl (ValueError (''role assignment required inputs have no bound artifact: '' @ join '', '' unknown))
        else raise_if (strip (str_or_empty (dget (rr_spec r) ''effect_type'')) = [])
          (ValueError ''role assignment execution spec requires effect_type''))))"

definition semantic_id :: "(string \<Rightarrow> string) \<Rightarrow> string \<Rightarrow> string \<Rightarrow> string" where
  "semantic_id digest prefix v = prefix @ ''_'' @ take 24 (digest v)"

definition bound_refs :: "(string \<times> pydict) list \<Rightarrow> pydict" where
  "bound_refs refs = map (\<lambda>(n, r). (n, PDict r)) refs"

definition request_payload :: "RoleAssignmentRequest \<Rightarrow> pydict" where
  "request_payload r =
    [(''assignment_key'', PStr (rr_key r)), (''session_id'', PStr (rr_session r)),
     (''workflow_id'', PStr (rr_workflow r)), (''aggregate_type'', PStr (rr_type r)),
     (''aggregate_id'', PStr (rr_aggregate r)), (''role'', PStr (rr_role r)), (''mode'', PStr (rr_mode r)),
     (''role_profile_id'', PStr (rr_profile r)), (''family_binding_sha'', PStr (rr_family r)),
     (''input_fingerprint'', PStr (rr_input r)), (''required_inputs'', PList (map PStr (sort (rr_required r)))),
     (''input_refs'', PDict (bound_refs (sort_key fst (rr_refs r)))), (''execution_spec'', PDict (rr_spec r)),
     (''submission_kind'', PStr (rr_kind r))]"

definition request_id :: "(string \<Rightarrow> string) \<Rightarrow> RoleAssignmentRequest \<Rightarrow> string" where
  "request_id digest r = semantic_id digest ''asg'' (rr_key r)"

definition request_hash :: "(pyval \<Rightarrow> string) \<Rightarrow> RoleAssignmentRequest \<Rightarrow> string" where
  "request_hash h r = h (PDict (request_payload r))"

definition attempt_id :: "(string \<Rightarrow> string) \<Rightarrow> string \<Rightarrow> int \<Rightarrow> string res" where
  "attempt_id digest assignment n =
     (if n \<le> 0 then Inl (ValueError ''role attempt index must be positive'')
      else Inr (semantic_id digest ''att'' (assignment @ '':'' @ int_str n)))"

record RoleSubmissionReceipt =
  rs_assignment :: string
  rs_ref :: pydict
  rs_hash :: string
  rs_settlement :: pydict

definition receipt_dict :: "RoleSubmissionReceipt \<Rightarrow> pydict" where
  "receipt_dict r = [(''assignment_id'', PStr (rs_assignment r)), (''artifact_ref'', PDict (rs_ref r)),
     (''payload_hash'', PStr (rs_hash r)), (''settlement_action'', PDict (rs_settlement r))]"

end
