(* ===== verification/Checkpoints.thy ===== *)
theory Checkpoints
  imports Operations
begin

section \<open>Checkpoints of logical coroutines\<close>

text \<open>
  \<open>bunshin/checkpoint.py\<close>: the header of an encrypted safe point, which the manager validates without opening
  it, and the store that keeps one checkpoint per coroutine. A store is an association list from the directory
  name to the JSON value in \<open>current.json\<close>; replacing a file is atomic. Encryption, file modes and symbolic
  links are outside the model.
\<close>

subsection \<open>Headers\<close>

definition PUBLIC_FIELDS :: "string list" where
  "PUBLIC_FIELDS = [''schema_version'', ''cipher'', ''logical_coroutine_id'', ''workflow_id'', ''stage_key'', ''sequence'',
     ''producer_fencing_token'', ''runtime_spec_hash'', ''metrics'', ''ciphertext'']"

definition checkpoint_error :: "string \<Rightarrow> 'a res" where
  "checkpoint_error msg = Inl (AgentSessionCheckpointError msg)"

definition header_text :: "pydict \<Rightarrow> string \<Rightarrow> unit res" where
  "header_text d name = raise_if (strip (str_or_empty (dget d name)) = [])
     (AgentSessionCheckpointError (''manager-selected agent continuation has no '' @ name))"

definition header_positive :: "pydict \<Rightarrow> string \<Rightarrow> unit res" where
  "header_positive d name = (case int_or_zero (dget d name) of
       Inl e \<Rightarrow> checkpoint_error (''manager-selected agent continuation has an invalid '' @ name)
     | Inr n \<Rightarrow> raise_if (n \<le> 0)
         (AgentSessionCheckpointError (''manager-selected agent continuation has no positive '' @ name)))"

definition normalize_checkpoint :: "pydict \<Rightarrow> pydict res" where
  "normalize_checkpoint d =
     (let extras = sort (remdups (filter (\<lambda>k. k \<notin> set PUBLIC_FIELDS) (map fst d))) in
      if str_or_empty (dget d ''schema_version'') \<noteq> ''8'' then
        checkpoint_error ''manager-selected agent continuation uses an unsupported checkpoint schema''
      else if extras \<noteq> [] then
        checkpoint_error (''manager-selected agent continuation has unknown public fields: ''
          @ py_repr (PList (map PStr extras)))
      else if str_or_empty (dget d ''cipher'') \<noteq> ''fernet'' then
        checkpoint_error ''manager-selected agent continuation uses an unsupported cipher''
      else
        rbind (first_error (map (header_text d)
          [''logical_coroutine_id'', ''workflow_id'', ''stage_key'', ''runtime_spec_hash''])) (\<lambda>_.
        rbind (first_error (map (header_positive d) [''sequence'', ''producer_fencing_token''])) (\<lambda>_.
        if \<not> (case dget d ''metrics'' of PDict _ \<Rightarrow> True | _ \<Rightarrow> False) then
          checkpoint_error ''manager-selected agent continuation has invalid public metrics''
        else if strip (str_or_empty (dget d ''ciphertext'')) = [] then
          checkpoint_error ''manager-selected agent continuation has no encrypted state''
        else Inr d)))"

subsection \<open>The store\<close>

type_synonym checkpoints = "(string \<times> pyval) list"

definition component_char :: "char \<Rightarrow> bool" where
  "component_char c \<longleftrightarrow> CHR ''A'' \<le> c \<and> c \<le> CHR ''Z'' \<or> CHR ''a'' \<le> c \<and> c \<le> CHR ''z'' \<or> CHR ''0'' \<le> c \<and> c \<le> CHR ''9''
     \<or> c \<in> {CHR ''_'', CHR ''.'', CHR ''-''}"

definition safe_component :: "string \<Rightarrow> string res" where
  "safe_component v =
     (let t = strip v in
      if t = [] \<or> \<not> list_all component_char t then
        checkpoint_error ''logical coroutine id is not a safe path component''
      else Inr t)"

definition read_checkpoint :: "checkpoints \<Rightarrow> string \<Rightarrow> pydict option res" where
  "read_checkpoint files i =
     rbind (safe_component i) (\<lambda>c. case map_of files c of
       None \<Rightarrow> Inr None
     | Some (PDict d) \<Rightarrow>
         rbind (normalize_checkpoint d) (\<lambda>v.
         if py_str (dget v ''logical_coroutine_id'') \<noteq> i then
           checkpoint_error ''logical-coroutine checkpoint has the wrong identity''
         else Inr (Some v))
     | Some _ \<Rightarrow> checkpoint_error ''logical-coroutine checkpoint is not an object'')"

definition keeps_identity :: "pydict \<Rightarrow> pydict \<Rightarrow> unit res" where
  "keeps_identity v current = first_error (map (\<lambda>name.
     raise_if (\<not> py_eq (dget v name) (dget current name))
       (AgentSessionCheckpointError (''worker checkpoint changed immutable '' @ name)))
     [''workflow_id'', ''stage_key'', ''runtime_spec_hash''])"

definition advances :: "pydict \<Rightarrow> pydict \<Rightarrow> unit res" where
  "advances v current =
     rbind (py_int (dget v ''sequence'')) (\<lambda>n.
     rbind (py_int (dget current ''sequence'')) (\<lambda>m.
     raise_if (n \<le> m) (AgentSessionCheckpointError ''worker checkpoint sequence did not advance'')))"

definition publish_checkpoint :: "checkpoints \<Rightarrow> pydict \<Rightarrow> string \<Rightarrow> int \<Rightarrow> checkpoints res" where
  "publish_checkpoint files checkpoint i token =
     rbind (normalize_checkpoint checkpoint) (\<lambda>v.
     if py_str (dget v ''logical_coroutine_id'') \<noteq> i then
       checkpoint_error ''worker checkpoint output has the wrong logical coroutine identity''
     else
       rbind (py_int (dget v ''producer_fencing_token'')) (\<lambda>t.
       if t \<noteq> token then checkpoint_error ''worker checkpoint output has a stale fencing token''
       else
         rbind (read_checkpoint files i) (\<lambda>current.
         rbind (case current of None \<Rightarrow> Inr () | Some c \<Rightarrow> rbind (keeps_identity v c) (\<lambda>_. advances v c)) (\<lambda>_.
         rbind (safe_component i) (\<lambda>c. Inr (AList.update c (PDict v) files))))))"

definition delete_checkpoint :: "checkpoints \<Rightarrow> string \<Rightarrow> checkpoints res" where
  "delete_checkpoint files i = rbind (safe_component i) (\<lambda>c. Inr (AList.delete c files))"

definition list_coroutine_ids :: "checkpoints \<Rightarrow> string list" where
  "list_coroutine_ids files =
     sort (concat (map (\<lambda>(c, _). case safe_component c of Inl _ \<Rightarrow> [] | Inr t \<Rightarrow> [t]) files))"

text \<open>The check accepts the parent directory.\<close>

lemma parent_is_safe_component: "safe_component ''..'' = Inr ''..''"
  by code_simp

end
