(* ===== verification/Role_Tables.thy ===== *)
theory Role_Tables
  imports Role_Protocol Checkpoints Leases
begin

section \<open>The tables of durable roles\<close>

text \<open>
  The rows of role sessions, assignments, attempts and (legacy) invocations in \<open>bunshin/schema.py\<close>, and the
  checks that the role stores share: the scope of a session (\<open>storage/role_session_checks.py\<close>), the admission of
  semantic work (\<open>storage/role_assignments.py\<close>) and the ownership witness of an attempt
  (\<open>storage/role_business_leases.py\<close>). Leases and checkpoints belong to the state because the role stores
  delete them. Of the time columns those that an operation reads are kept.

  Everything else an operation reads is the record \<open>RoleWorld\<close>: hashing, JSON text, file existence, the
  artifact and snapshot tables, and whether rebuilding the workflow projection succeeds. Every operation takes
  the world as it finds it.
\<close>

subsection \<open>Rows\<close>

record RoleSession =
  se_workflow :: string
  se_type :: string
  se_aggregate :: string
  se_role :: string
  se_mode :: string
  se_profile :: string
  se_harness :: string
  se_generation :: string
  se_family :: string
  se_scope :: string
  se_subject :: string
  se_status :: RoleSessionState
  se_created :: string

record RoleAssignment =
  asg_key :: string
  asg_hash :: string
  asg_session :: string
  asg_workflow :: string
  asg_type :: string
  asg_aggregate :: string
  asg_role :: string
  asg_mode :: string
  asg_profile :: string
  asg_family :: string
  asg_input :: string
  asg_required :: "string list"
  asg_refs :: "(string \<times> pydict) list"
  asg_spec :: pydict
  asg_kind :: string
  asg_state :: RoleAssignmentState
  asg_active :: string
  asg_result_ref :: pydict
  asg_result_hash :: string
  asg_settlement :: pydict
  asg_error :: string
  asg_created :: string

record RoleAttempt =
  att_assignment :: string
  att_index :: nat
  att_resource :: string
  att_token :: int
  att_access :: string
  att_harness :: string
  att_generation :: string
  att_continuation :: pydict
  att_status :: RoleAttemptState
  att_prompt :: pydict
  att_response :: pydict
  att_error_kind :: string
  att_error :: string
  att_started :: string
  att_finished :: string

record RoleInvocation =
  iv_workflow :: string
  iv_type :: string
  iv_aggregate :: string
  iv_resource :: string
  iv_token :: int
  iv_status :: string

record RoleTables =
  ro_sessions :: "(string \<times> RoleSession) list"
  ro_assignments :: "(string \<times> RoleAssignment) list"
  ro_attempts :: "(string \<times> RoleAttempt) list"
  ro_invocations :: "(string \<times> RoleInvocation) list"
  ro_leases :: leases
  ro_witnesses :: "(string \<times> pydict) list"
  ro_checkpoints :: checkpoints

record RoleWorld =
  rw_hash :: "pyval \<Rightarrow> string"
  rw_digest :: "string \<Rightarrow> string"
  rw_json :: "pyval \<Rightarrow> string"
  rw_is_file :: "string \<Rightarrow> bool"
  rw_artifacts :: "(string \<times> ArtifactRow) list"
  rw_snapshots :: "(aggregate_key \<times> AggregateSnapshot) list"
  rw_rebuild :: "string \<Rightarrow> unit res"

type_synonym 'r role_transaction = "('r \<times> RoleTables) res"

definition durable_refs :: "RoleWorld \<Rightarrow> pyval \<Rightarrow> unit res" where
  "durable_refs w v = assert_artifact_refs_durable (rw_is_file w) (rw_artifacts w) v"

definition snapshot_of :: "RoleWorld \<Rightarrow> AggregateType \<Rightarrow> string \<Rightarrow> AggregateSnapshot option" where
  "snapshot_of w ty i = map_of (rw_snapshots w) (ty, i)"

text \<open>\<open>AggregateType(text)\<close>.\<close>

definition aggregate_of :: "string \<Rightarrow> AggregateType res" where
  "aggregate_of s = (case find (\<lambda>ty. aggregate_value ty = s)
         [TASK, WORKFLOW, ARCHITECTURE_REVISION, EXECUTION_EPOCH, DAG_NODE_RUN, STANDALONE_REVIEW] of
       None \<Rightarrow> Inl (ValueError (repr_str s @ '' is not a valid AggregateType''))
     | Some ty \<Rightarrow> Inr ty)"

subsection \<open>Single-row updates\<close>

definition put_session :: "string \<Rightarrow> RoleSession \<Rightarrow> RoleTables \<Rightarrow> RoleTables" where
  "put_session i s r = r\<lparr>ro_sessions := AList.update i s (ro_sessions r)\<rparr>"

definition put_assignment :: "string \<Rightarrow> RoleAssignment \<Rightarrow> RoleTables \<Rightarrow> RoleTables" where
  "put_assignment i a r = r\<lparr>ro_assignments := AList.update i a (ro_assignments r)\<rparr>"

definition put_attempt :: "string \<Rightarrow> RoleAttempt \<Rightarrow> RoleTables \<Rightarrow> RoleTables" where
  "put_attempt i t r = r\<lparr>ro_attempts := AList.update i t (ro_attempts r)\<rparr>"

definition put_invocation :: "string \<Rightarrow> RoleInvocation \<Rightarrow> RoleTables \<Rightarrow> RoleTables" where
  "put_invocation i v r = r\<lparr>ro_invocations := AList.update i v (ro_invocations r)\<rparr>"

text \<open>The \<open>UPDATE ... WHERE attempt_id = ?\<close> that changes nothing when there is no such row.\<close>

definition update_attempt :: "string \<Rightarrow> (RoleAttempt \<Rightarrow> RoleAttempt) \<Rightarrow> RoleTables \<Rightarrow> RoleTables" where
  "update_attempt i f r = (case map_of (ro_attempts r) i of None \<Rightarrow> r | Some t \<Rightarrow> put_attempt i (f t) r)"

definition update_session :: "string \<Rightarrow> (RoleSession \<Rightarrow> RoleSession) \<Rightarrow> RoleTables \<Rightarrow> RoleTables" where
  "update_session i f r = (case map_of (ro_sessions r) i of None \<Rightarrow> r | Some s \<Rightarrow> put_session i (f s) r)"

text \<open>\<open>DELETE FROM bunshin_v2_leases WHERE resource_key = ? AND owner_id = ? AND fencing_token = ?\<close>.\<close>

definition drop_lease :: "string \<Rightarrow> string \<Rightarrow> int \<Rightarrow> RoleTables \<Rightarrow> RoleTables" where
  "drop_lease resource owner token r = r\<lparr>ro_leases :=
     filter (\<lambda>(k, l). \<not> (k = resource \<and> lease_owner l = owner \<and> lease_token l = token)) (ro_leases r)\<rparr>"

definition drop_attempt_lease :: "string \<Rightarrow> RoleAttempt \<Rightarrow> RoleTables \<Rightarrow> RoleTables" where
  "drop_attempt_lease i t r = (if att_resource t \<noteq> [] \<and> att_token t \<noteq> 0 then drop_lease (att_resource t) i (att_token t) r else r)"

definition find_assignment :: "RoleTables \<Rightarrow> string \<Rightarrow> RoleAssignment res" where
  "find_assignment r i = (case map_of (ro_assignments r) i of
       None \<Rightarrow> Inl (KeyError (''unknown role assignment: '' @ i)) | Some a \<Rightarrow> Inr a)"

text \<open>The rows of a table in the order \<open>created_at, id\<close>.\<close>

definition by_creation :: "('a \<Rightarrow> string) \<Rightarrow> (string \<times> 'a) list \<Rightarrow> (string \<times> 'a) list" where
  "by_creation created rows = sort_key (\<lambda>(_, x). created x) (sort_key fst rows)"

subsection \<open>The scope of a session\<close>

definition revision_cycle :: "AggregateSnapshot \<Rightarrow> string" where
  "revision_cycle s = py_str (py_or (dget (snap_payload s) ''architecture_cycle_id'')
     (py_or (dget (snap_payload s) ''root_architecture_revision_id'') (PStr (snap_id s))))"

definition assert_assignment_in_scope :: "RoleWorld \<Rightarrow> RoleSession \<Rightarrow> RoleAssignmentRequest \<Rightarrow> unit res" where
  "assert_assignment_in_scope w se q =
     rbind (aggregate_of (rr_type q)) (\<lambda>ty.
     case snapshot_of w ty (rr_aggregate q) of
       None \<Rightarrow> Inl (ValueError ''role assignment aggregate is outside its workflow'')
     | Some s \<Rightarrow>
         if snap_workflow_id s \<noteq> rr_workflow q then
           Inl (ValueError ''role assignment aggregate is outside its workflow'')
         else if se_scope se = ''architecture_cycle'' then
           if snap_type s \<noteq> ARCHITECTURE_REVISION then
             Inl (ValueError ''architecture-cycle session may only review architecture revisions'')
           else raise_if (revision_cycle s \<noteq> se_subject se)
             (ValueError ''role assignment is outside its architecture cycle'')
         else if se_scope se = ''module'' then
           if snap_type s \<noteq> DAG_NODE_RUN then
             Inl (ValueError ''module session may only activate on DAG node runs'')
           else raise_if (str_or_empty (dget (snap_payload s) ''module_name'') \<noteq> se_subject se)
             (ValueError ''role assignment is outside its module'')
         else raise_if (se_scope se \<noteq> rr_type q \<or> se_subject se \<noteq> rr_aggregate q)
           (ValueError ''role assignment is outside its aggregate-bound session''))"

text \<open>The snapshots of one type in a workflow, in the order of their creation.\<close>

definition snapshots_in :: "RoleWorld \<Rightarrow> string \<Rightarrow> AggregateType \<Rightarrow> AggregateSnapshot list" where
  "snapshots_in w flow ty = sort_key snap_created_at (sort_key snap_id
     (filter (\<lambda>s. snap_workflow_id s = flow \<and> snap_type s = ty) (map snd (rw_snapshots w))))"

definition module_absent_from_latest_epoch :: "RoleWorld \<Rightarrow> string \<Rightarrow> string \<Rightarrow> bool" where
  "module_absent_from_latest_epoch w flow module = (case rev (snapshots_in w flow EXECUTION_EPOCH) of
       [] \<Rightarrow> False
     | epoch # _ \<Rightarrow> \<not> list_ex (\<lambda>n. str_or_empty (dget (snap_payload n) ''epoch_id'') = snap_id epoch
         \<and> str_or_empty (py_or (dget (snap_payload n) ''module_name'') (dget (snap_payload n) ''unit_id'')) = module)
         (snapshots_in w flow DAG_NODE_RUN))"

definition terminal_snapshot :: "AggregateSnapshot option \<Rightarrow> bool" where
  "terminal_snapshot s = (case s of None \<Rightarrow> False | Some x \<Rightarrow> snap_state x \<in> {''ACCEPTED'', ''REJECTED'', ''CANCELLED''})"

definition assert_scope_terminal :: "RoleWorld \<Rightarrow> RoleSession \<Rightarrow> bool \<Rightarrow> unit res" where
  "assert_scope_terminal w se cancelled =
     (let flow = se_workflow se;
          workflow_terminal = (case snapshot_of w WORKFLOW flow of
            None \<Rightarrow> False | Some s \<Rightarrow> snap_state s \<in> {''COMPLETED'', ''REJECTED'', ''CANCELLED''}) in
      if se_scope se = ''module'' then
        if cancelled \<and> module_absent_from_latest_epoch w flow (se_subject se) then Inr ()
        else raise_if (\<not> workflow_terminal)
          (ValueError ''module role session lives for its Module identity and cannot complete before that Module is deleted'')
      else if se_scope se = ''architecture_cycle'' then
        (case rev (filter (\<lambda>s. revision_cycle s = se_subject se) (snapshots_in w flow ARCHITECTURE_REVISION)) of
           [] \<Rightarrow> Inl (ValueError ''architecture role session cannot complete while its correction cycle is open'')
         | s # _ \<Rightarrow> raise_if (\<not> terminal_snapshot (Some s))
             (ValueError ''architecture role session cannot complete while its correction cycle is open''))
      else
        rbind (aggregate_of (se_type se)) (\<lambda>ty.
        raise_if (\<not> terminal_snapshot (snapshot_of w ty (se_aggregate se)))
          (ValueError ''aggregate-bound role session cannot complete before its aggregate is terminal'')))"

subsection \<open>Admission of semantic work\<close>

definition running_states :: "string set" where
  "running_states = {''PRODUCING'', ''REPAIRING'', ''REVIEWING''}"

definition settling_states :: "string set" where
  "settling_states = {''QUIESCING'', ''SNAPSHOTTING'', ''REVIEW_QUIESCING'', ''REVIEW_SNAPSHOTTING''}"

definition frozen_incarnation :: "'a res" where
  "frozen_incarnation = Inl (DeferredEffectError ''semantic role aggregate incarnation is frozen or replaced'')"

definition check_incarnation ::
  "AggregateSnapshot \<Rightarrow> pydict \<Rightarrow> string \<Rightarrow> string \<Rightarrow> int \<Rightarrow> string \<Rightarrow> bool \<Rightarrow> unit res" where
  "check_incarnation s binding owner resource token state require_running =
     (let p = snap_payload s in
      if snap_state s \<noteq> state
          \<or> state \<notin> (if require_running then running_states else running_states \<union> settling_states)
          \<or> str_or_empty (dget p ''active_worker_id'') \<noteq> owner
          \<or> str_or_empty (dget p ''lease_resource_key'') \<noteq> resource then frozen_incarnation
      else
        rbind (int_or_zero (dget p ''fencing_token'')) (\<lambda>t.
        if t \<noteq> token \<or> str_or_empty (dget p ''epoch_id'') \<noteq> str_or_empty (dget binding ''epoch_id'') then frozen_incarnation
        else
          rbind (int_or_zero (dget p ''graph_generation'')) (\<lambda>g.
          rbind (int_or_zero (dget binding ''graph_generation'')) (\<lambda>g'.
          if g \<noteq> g' then frozen_incarnation else Inr ()))))"

text \<open>The binding of the request, or the one that is recorded in the execution specification.\<close>

definition effective_binding :: "pydict \<Rightarrow> pydict option \<Rightarrow> pyval" where
  "effective_binding spec business_lease = (case business_lease of
       Some b \<Rightarrow> PDict b | None \<Rightarrow> dget spec ''business_lease'')"

definition assert_semantic_admission ::
  "RoleWorld \<Rightarrow> RoleTables \<Rightarrow> string \<Rightarrow> string \<Rightarrow> string \<Rightarrow> pyval \<Rightarrow> bool \<Rightarrow> int \<Rightarrow> unit res" where
  "assert_semantic_admission w r flow type_value aggregate binding require_running now = (case binding of
       PNone \<Rightarrow> Inr ()
     | PDict (x # xs) \<Rightarrow>
         (let b = x # xs in
          if type_value \<noteq> aggregate_value DAG_NODE_RUN then
            Inl (ValueError ''semantic role lease binding requires a node aggregate'')
          else
            let owner = str_or_empty (dget b ''owner_id''); resource = str_or_empty (dget b ''resource_key'');
                state = str_or_empty (dget b ''expected_state'') in
            rbind (int_or_zero (dget b ''fencing_token'')) (\<lambda>token.
            if owner = [] \<or> resource = [] \<or> token \<le> 0 \<or> state = [] then
              Inl (ValueError ''semantic role admission has an incomplete business lease'')
            else case snapshot_of w DAG_NODE_RUN aggregate of
              None \<Rightarrow> Inl (DeferredEffectError ''semantic role aggregate no longer exists'')
            | Some s \<Rightarrow>
                if snap_workflow_id s \<noteq> flow then
                  Inl (DeferredEffectError ''semantic role aggregate no longer exists'')
                else
                  rbind (check_incarnation s b owner resource token state require_running) (\<lambda>_.
                  assert_fencing_token (ro_leases r) resource owner token now)))
     | _ \<Rightarrow> Inl (ValueError ''semantic role admission requires a business lease binding''))"

subsection \<open>The ownership witness of an attempt\<close>

text \<open>
  The witness is a content-addressed artifact of one type, found by the attempt in its metadata. The table
  \<open>ro_witnesses\<close> holds the payloads of these artifacts; that their schema, media type and durability are the
  ones that writing gives them is implicit.
\<close>

definition WITNESS_FIELDS :: "string list" where
  "WITNESS_FIELDS = [''schema_version'', ''assignment_id'', ''attempt_id'', ''session_id'', ''effect_key'', ''business_lease'']"

definition LEASE_FIELDS :: "string list" where
  "LEASE_FIELDS = [''owner_id'', ''resource_key'', ''fencing_token'', ''expected_state'', ''epoch_id'', ''graph_generation'']"

definition nonempty_str :: "pyval \<Rightarrow> bool" where
  "nonempty_str v = (case v of PStr s \<Rightarrow> s \<noteq> [] | _ \<Rightarrow> False)"

definition exact_int :: "int \<Rightarrow> pyval \<Rightarrow> bool" where
  "exact_int least v = (case v of PInt n \<Rightarrow> least \<le> n | _ \<Rightarrow> False)"

definition spec_effect_key :: "pydict \<Rightarrow> string" where
  "spec_effect_key spec = str_or_empty (py_or (dget spec ''effect_key'') (dget spec ''effect_id''))"

definition check_witness :: "RoleTables \<Rightarrow> string \<Rightarrow> pydict \<Rightarrow> pydict res" where
  "check_witness r att p =
     (if set (map fst p) \<noteq> set WITNESS_FIELDS \<or> dget p ''schema_version'' \<noteq> PInt 1 then
        Inl (SubmissionInvariantError ''invalid role attempt business lease artifact'')
      else case dget p ''business_lease'' of
        PDict b \<Rightarrow>
          if set (map fst b) \<noteq> set LEASE_FIELDS then
            Inl (SubmissionInvariantError ''invalid role attempt business lease identity'')
          else if \<not> list_all (\<lambda>k. nonempty_str (dget b k)) [''owner_id'', ''resource_key'', ''expected_state''] then
            Inl (SubmissionInvariantError ''incomplete role attempt business lease identity'')
          else if \<not> exact_int 1 (dget b ''fencing_token'') then
            Inl (SubmissionInvariantError ''invalid role attempt business fencing token'')
          else if \<not> (case dget b ''epoch_id'' of PStr _ \<Rightarrow> True | _ \<Rightarrow> False) \<or> \<not> exact_int 0 (dget b ''graph_generation'') then
            Inl (SubmissionInvariantError ''invalid role attempt business generation'')
          else
            let owner = (case map_of (ro_attempts r) att of
                  None \<Rightarrow> None
                | Some t \<Rightarrow> map_option (Pair (att_assignment t)) (map_of (ro_assignments r) (att_assignment t))) in
            (case owner of
               None \<Rightarrow> Inl (SubmissionInvariantError ''role attempt business lease artifact targets another incarnation'')
             | Some (i, a) \<Rightarrow>
                 if dget p ''attempt_id'' \<noteq> PStr att \<or> dget p ''assignment_id'' \<noteq> PStr i
                     \<or> dget p ''session_id'' \<noteq> PStr (asg_session a)
                     \<or> dget p ''effect_key'' \<noteq> PStr (spec_effect_key (asg_spec a))
                     \<or> dget b ''owner_id'' \<noteq> dget p ''session_id'' then
                   Inl (SubmissionInvariantError ''role attempt business lease artifact targets another incarnation'')
                 else Inr b)
      | _ \<Rightarrow> Inl (SubmissionInvariantError ''invalid role attempt business lease identity''))"

definition read_business_lease :: "RoleTables \<Rightarrow> string \<Rightarrow> pydict option res" where
  "read_business_lease r att = (case filter (\<lambda>(t, _). t = att) (ro_witnesses r) of
       [] \<Rightarrow> Inr None
     | [(_, p)] \<Rightarrow> rbind (check_witness r att p) (\<lambda>b. Inr (Some b))
     | _ \<Rightarrow> Inl (SubmissionInvariantError ''role attempt has competing immutable business lease bindings''))"

definition witness_payload :: "string \<Rightarrow> RoleAssignment \<Rightarrow> string \<Rightarrow> pydict \<Rightarrow> pydict" where
  "witness_payload i a att b =
     [(''schema_version'', PInt 1), (''assignment_id'', PStr i), (''attempt_id'', PStr att),
      (''session_id'', PStr (asg_session a)), (''effect_key'', PStr (spec_effect_key (asg_spec a))),
      (''business_lease'', PDict b)]"

definition record_business_lease :: "RoleTables \<Rightarrow> string \<Rightarrow> RoleAssignment \<Rightarrow> string \<Rightarrow> pydict \<Rightarrow> RoleTables res" where
  "record_business_lease r i a att b =
     rbind (read_business_lease r att) (\<lambda>existing. case existing of
       Some b' \<Rightarrow>
         if \<not> py_eq (PDict b') (PDict b) then
           Inl (SubmissionInvariantError ''role attempt cannot change its claimed business lease'')
         else Inr r
     | None \<Rightarrow>
         (let r' = r\<lparr>ro_witnesses := ro_witnesses r @ [(att, witness_payload i a att b)]\<rparr> in
          rbind (read_business_lease r' att) (\<lambda>recorded. case recorded of
            None \<Rightarrow> Inl (SubmissionInvariantError ''role attempt business lease artifact was not published'')
          | Some _ \<Rightarrow> Inr r')))"

text \<open>The witness that a binding asks for; a binding that is no dictionary has failed admission before.\<close>

definition record_binding :: "RoleTables \<Rightarrow> string \<Rightarrow> RoleAssignment \<Rightarrow> string \<Rightarrow> pyval \<Rightarrow> RoleTables res" where
  "record_binding r i a att binding = (case binding of
       PNone \<Rightarrow> Inr r
     | PDict b \<Rightarrow> record_business_lease r i a att b
     | _ \<Rightarrow> Inl (TypeError ''business lease''))"

end
