(* ===== verification/Role_Store.thy ===== *)
theory Role_Store
  imports Role_Tables
begin

section \<open>The store of durable roles\<close>

text \<open>
  Sessions, assignments, attempts and results of roles: \<open>storage/role_sessions.py\<close>, \<open>role_assignments.py\<close>,
  \<open>role_attempts.py\<close>, \<open>role_submissions.py\<close>, \<open>role_retries.py\<close>, \<open>role_cancellation.py\<close>, \<open>role_access.py\<close>,
  \<open>role_invocations.py\<close> and the parts of \<open>role_maintenance.py\<close> that change these tables. Every operation is one
  write transaction; \<open>now\<close> is the reading of the clock as the text that is stored, \<open>at\<close> as the instant a lease
  is compared with.
\<close>

subsection \<open>Sessions\<close>

record SessionRequest =
  sq_id :: string
  sq_workflow :: string
  sq_type :: AggregateType
  sq_aggregate :: string
  sq_role :: string
  sq_mode :: string
  sq_profile :: string
  sq_family :: string
  sq_harness :: string
  sq_generation :: string
  sq_scope :: string
  sq_subject :: string

definition or_pal :: "string \<Rightarrow> string" where
  "or_pal s = (if s = [] then ''pal'' else s)"

definition session_row :: "SessionRequest \<Rightarrow> string \<Rightarrow> RoleSession" where
  "session_row q now =
     \<lparr>se_workflow = strip (sq_workflow q), se_type = aggregate_value (sq_type q), se_aggregate = strip (sq_aggregate q),
      se_role = strip (sq_role q), se_mode = strip (sq_mode q), se_profile = strip (sq_profile q),
      se_harness = strip (or_pal (sq_harness q)), se_generation = strip (sq_generation q),
      se_family = strip (sq_family q), se_scope = strip (sq_scope q), se_subject = strip (sq_subject q),
      se_status = S_UNINITIALIZED, se_created = now\<rparr>"

definition session_identity :: "RoleSession \<Rightarrow> string list" where
  "session_identity s = [se_workflow s, se_role s, se_profile s, se_family s, se_scope s, se_subject s]"

definition ensure_role_session :: "RoleTables \<Rightarrow> SessionRequest \<Rightarrow> string \<Rightarrow> RoleSession role_transaction" where
  "ensure_role_session r q now =
     (let s = session_row q now; i = strip (sq_id q);
          missing = missing_fields [(''session_id'', i), (''workflow_id'', se_workflow s), (''aggregate_id'', se_aggregate s),
            (''role'', se_role s), (''mode'', se_mode s), (''role_profile_id'', se_profile s),
            (''family_binding_sha'', se_family s), (''scope_kind'', se_scope s), (''subject_key'', se_subject s)] in
      if missing \<noteq> [] then Inl (ValueError (''role session missing fields: '' @ join '', '' missing))
      else
        rbind (activation_from_values (se_role s) (se_mode s)) (\<lambda>_.
        rbind (canonical_role_profile_parts (se_profile s)) (\<lambda>_.
        case map_of (ro_sessions r) i of
          Some old \<Rightarrow>
            if session_identity old \<noteq> session_identity s then Inl (ValueError ''role session identity is immutable'')
            else
              let old' = old\<lparr>se_mode := se_mode s\<rparr> in
              Inr (old', if se_mode old \<noteq> se_mode s then put_session i old' r else r)
        | None \<Rightarrow> Inr (s, put_session i s r))))"

definition transition_role_session :: "string \<Rightarrow> RoleSessionAction \<Rightarrow> RoleTables \<Rightarrow> RoleTables res" where
  "transition_role_session i act r = (case map_of (ro_sessions r) i of
       None \<Rightarrow> Inl (KeyError (''unknown role session: '' @ i))
     | Some s \<Rightarrow> rbind (role_session_target (se_status s) act) (\<lambda>s'. Inr (put_session i (s\<lparr>se_status := s'\<rparr>) r)))"

definition expect_header :: "pydict \<Rightarrow> string \<times> pyval \<Rightarrow> unit res" where
  "expect_header d = (\<lambda>(k, v). raise_if (\<not> py_eq (dget d k) v)
     (AgentSessionCheckpointError (''worker checkpoint has the wrong '' @ k)))"

text \<open>The file is replaced unless it already holds exactly this checkpoint.\<close>

definition publish_session_checkpoint :: "RoleTables \<Rightarrow> string \<Rightarrow> int \<Rightarrow> pydict \<Rightarrow> pydict role_transaction" where
  "publish_session_checkpoint r i token checkpoint = (case map_of (ro_sessions r) i of
       None \<Rightarrow> checkpoint_error ''worker checkpoint has no durable session''
     | Some s \<Rightarrow>
         rbind (role_session_target (se_status s) S_INITIALIZE) (\<lambda>_.
         rbind (normalize_checkpoint checkpoint) (\<lambda>p.
         rbind (role_session_stage_key (se_scope s) (se_subject s) (se_role s)) (\<lambda>stage.
         rbind (first_error (map (expect_header p) [(''logical_coroutine_id'', PStr i), (''workflow_id'', PStr (se_workflow s)),
           (''stage_key'', PStr stage), (''producer_fencing_token'', PInt token)])) (\<lambda>_.
         rbind (read_checkpoint (ro_checkpoints r) i) (\<lambda>current.
         rbind (if (case current of None \<Rightarrow> False | Some c \<Rightarrow> py_eq (PDict c) (PDict p)) then Inr (ro_checkpoints r)
                else publish_checkpoint (ro_checkpoints r) p i token) (\<lambda>files.
         rbind (transition_role_session i S_INITIALIZE (r\<lparr>ro_checkpoints := files\<rparr>)) (\<lambda>r'.
         Inr (p, r')))))))))"

definition lower :: "string \<Rightarrow> string" where
  "lower s = map (\<lambda>c. if CHR ''A'' \<le> c \<and> c \<le> CHR ''Z'' then char_of (of_char c + 32 :: nat) else c) s"

text \<open>Closing a session, with its legacy invocation; a checkpoint survives only a resumable session.\<close>

definition close_session :: "RoleWorld \<Rightarrow> RoleTables \<Rightarrow> string \<Rightarrow> RoleSessionState \<Rightarrow> RoleTables res" where
  "close_session w r i target =
     (let invocation = map_of (ro_invocations r) i; session = map_of (ro_sessions r) i;
          states = map (\<lambda>(_, a). asg_state a) (filter (\<lambda>(_, a). asg_session a = i) (ro_assignments r)) in
      if \<not> set states \<subseteq> {A_SETTLED, A_CANCELLED} then
        Inl (ValueError ''role session cannot complete with a non-terminal assignment'')
      else
        rbind (case session of
            Some s \<Rightarrow> assert_scope_terminal w s (target = S_CANCELLED)
          | None \<Rightarrow> (case invocation of None \<Rightarrow> Inr () | Some v \<Rightarrow>
              rbind (aggregate_of (iv_type v)) (\<lambda>ty.
              raise_if (\<not> terminal_snapshot (snapshot_of w ty (iv_aggregate v)))
                (ValueError ''legacy role invocation cannot complete before its aggregate is terminal'')))) (\<lambda>_.
        let r1 = (case invocation of None \<Rightarrow> r
          | Some v \<Rightarrow> put_invocation i (v\<lparr>iv_status := session_state_value target\<rparr>) r) in
        rbind (if session = None then Inr r1
               else transition_role_session i (if target = S_COMPLETED then S_COMPLETE else S_CANCEL) r1) (\<lambda>r2.
        rbind (rw_rebuild w (case session of Some s \<Rightarrow> se_workflow s
          | None \<Rightarrow> (case invocation of Some v \<Rightarrow> iv_workflow v | None \<Rightarrow> []))) (\<lambda>_.
        Inr r2))))"

text \<open>
  The checkpoint is deleted after the commit: an error there leaves the session closed. The operations that
  close sessions therefore return their outcome together with the state that is left.
\<close>

definition delete_session_checkpoint :: "string \<Rightarrow> RoleTables \<Rightarrow> bool res \<times> RoleTables" where
  "delete_session_checkpoint i r = (case delete_checkpoint (ro_checkpoints r) i of
       Inl e \<Rightarrow> (Inl e, r) | Inr files \<Rightarrow> (Inr True, r\<lparr>ro_checkpoints := files\<rparr>))"

definition complete_role_session :: "RoleWorld \<Rightarrow> RoleTables \<Rightarrow> string \<Rightarrow> string \<Rightarrow> bool res \<times> RoleTables" where
  "complete_role_session w r i status =
     (let normalized = lower (strip (if status = [] then ''completed'' else status)) in
      if normalized \<notin> {''completed'', ''cancelled''} then
        (Inl (ValueError ''role session completion status must be completed or cancelled''), r)
      else
        let target = (if normalized = ''completed'' then S_COMPLETED else S_CANCELLED);
            invocation = map_of (ro_invocations r) i; session = map_of (ro_sessions r) i in
        if invocation = None \<and> session = None then (Inr False, r)
        else if (case invocation of None \<Rightarrow> True | Some v \<Rightarrow> iv_status v = normalized)
            \<and> (case session of None \<Rightarrow> True | Some s \<Rightarrow> se_status s = target) then
          delete_session_checkpoint i r
        else case close_session w r i target of
          Inl e \<Rightarrow> (Inl e, r)
        | Inr r' \<Rightarrow> delete_session_checkpoint i r')"

fun complete_sessions :: "RoleWorld \<Rightarrow> RoleTables \<Rightarrow> string list \<Rightarrow> string \<Rightarrow> string list res \<times> RoleTables" where
  "complete_sessions w r [] status = (Inr [], r)"
| "complete_sessions w r (i # is) status = (case complete_role_session w r i status of
       (Inl e, r') \<Rightarrow> (Inl e, r')
     | (Inr completed, r') \<Rightarrow> (case complete_sessions w r' is status of
           (Inl e, r'') \<Rightarrow> (Inl e, r'')
         | (Inr ids, r'') \<Rightarrow> (Inr (if completed then i # ids else ids), r'')))"

definition resumable :: "RoleSession \<Rightarrow> bool" where
  "resumable s \<longleftrightarrow> se_status s \<in> {S_UNINITIALIZED, S_ACTIVE, S_SUSPENDED}"

definition complete_workflow_sessions :: "RoleWorld \<Rightarrow> RoleTables \<Rightarrow> string \<Rightarrow> string \<Rightarrow> string list res \<times> RoleTables" where
  "complete_workflow_sessions w r flow status = complete_sessions w r
     (map fst (by_creation se_created (filter (\<lambda>(_, s). se_workflow s = flow \<and> resumable s) (ro_sessions r)))) status"

definition reconcile_checkpoints :: "RoleTables \<Rightarrow> string list \<times> RoleTables" where
  "reconcile_checkpoints r =
     (let live = map fst (filter (\<lambda>(_, s). resumable s) (ro_sessions r));
          retired = filter (\<lambda>i. i \<notin> set live) (list_coroutine_ids (ro_checkpoints r)) in
      (retired, r\<lparr>ro_checkpoints := fold (\<lambda>i files. case delete_checkpoint files i of
         Inl _ \<Rightarrow> files | Inr files' \<Rightarrow> files') retired (ro_checkpoints r)\<rparr>))"

text \<open>
  \<open>reconcile_terminal_role_runtime\<close> without its last part, which sweeps directories: the sessions of every
  terminal workflow are closed, and the first error ends it.
\<close>

definition terminal_workflows :: "RoleWorld \<Rightarrow> AggregateSnapshot list" where
  "terminal_workflows w = sort_key snap_id (filter (\<lambda>s. snap_type s = WORKFLOW
     \<and> snap_state s \<in> {''COMPLETED'', ''REJECTED'', ''CANCELLED''}) (map snd (rw_snapshots w)))"

fun complete_workflows :: "RoleWorld \<Rightarrow> RoleTables \<Rightarrow> AggregateSnapshot list \<Rightarrow> unit res \<times> RoleTables" where
  "complete_workflows w r [] = (Inr (), r)"
| "complete_workflows w r (s # ss) =
     (case complete_workflow_sessions w r (snap_id s)
         (if snap_state s = ''CANCELLED'' then ''cancelled'' else ''completed'') of
       (Inl e, r') \<Rightarrow> (Inl e, r')
     | (Inr _, r') \<Rightarrow> complete_workflows w r' ss)"

definition reconcile_terminal_roles :: "RoleWorld \<Rightarrow> RoleTables \<Rightarrow> unit res \<times> RoleTables" where
  "reconcile_terminal_roles w r = complete_workflows w r (terminal_workflows w)"

subsection \<open>Creating and claiming assignments\<close>

definition assignment_row :: "RoleWorld \<Rightarrow> RoleAssignmentRequest \<Rightarrow> string \<Rightarrow> RoleAssignment" where
  "assignment_row w q now =
     \<lparr>asg_key = rr_key q, asg_hash = request_hash (rw_hash w) q, asg_session = rr_session q, asg_workflow = rr_workflow q,
      asg_type = rr_type q, asg_aggregate = rr_aggregate q, asg_role = rr_role q, asg_mode = rr_mode q,
      asg_profile = rr_profile q, asg_family = rr_family q, asg_input = rr_input q, asg_required = sort (rr_required q),
      asg_refs = rr_refs q, asg_spec = rr_spec q, asg_kind = rr_kind q, asg_state = A_QUEUED, asg_active = [],
      asg_result_ref = [], asg_result_hash = [], asg_settlement = [], asg_error = [], asg_created = now\<rparr>"

text \<open>\<open>INSERT\<close> with the primary key, the unique key and the partial unique index on open assignments.\<close>

definition insert_assignment :: "string \<Rightarrow> RoleAssignment \<Rightarrow> RoleTables \<Rightarrow> RoleTables res" where
  "insert_assignment i a r =
     (if list_ex (\<lambda>(_, b). asg_key b = asg_key a
         \<or> (asg_session b = asg_session a \<and> asg_state a \<in> open_states \<and> asg_state b \<in> open_states)) (ro_assignments r)
      then Inl IntegrityError
      else rbind (insert_row i a (ro_assignments r)) (\<lambda>rows. Inr (r\<lparr>ro_assignments := rows\<rparr>)))"

definition create_role_assignment ::
  "RoleWorld \<Rightarrow> RoleTables \<Rightarrow> RoleAssignmentRequest \<Rightarrow> string \<Rightarrow> int \<Rightarrow> RoleAssignment role_transaction" where
  "create_role_assignment w r q now at =
     rbind (assert_semantic_admission w r (rr_workflow q) (rr_type q) (rr_aggregate q)
       (effective_binding (rr_spec q) None) True at) (\<lambda>_.
     case map_of (ro_sessions r) (rr_session q) of
       None \<Rightarrow> Inl (ValueError ''role assignment requires an existing role session'')
     | Some s \<Rightarrow>
         if session_terminal (se_status s) then
           Inl (ValueError ''role assignment cannot use a terminal role session'')
         else if [se_workflow s, se_role s, se_profile s, se_family s] \<noteq> [rr_workflow q, rr_role q, rr_profile q, rr_family q] then
           Inl (ValueError ''role assignment does not match its session identity'')
         else
           rbind (assert_assignment_in_scope w s q) (\<lambda>_.
           rbind (durable_refs w (PDict (bound_refs (rr_refs q)))) (\<lambda>_.
           case find (\<lambda>(_, a). asg_key a = rr_key q) (ro_assignments r) of
             Some (_, a) \<Rightarrow>
               if asg_hash a \<noteq> request_hash (rw_hash w) q then
                 Inl (ValueError ''role assignment key was reused with different inputs'')
               else Inr (a, r)
           | None \<Rightarrow> (case find (\<lambda>(_, a). asg_session a = rr_session q \<and> asg_state a \<in> open_states) (ro_assignments r) of
                 Some (i, _) \<Rightarrow> Inl (ValueError (''role session already has an open assignment: '' @ i))
               | None \<Rightarrow>
                   (let a = assignment_row w q now in
                    rbind (insert_assignment (request_id (rw_digest w) q) a r) (\<lambda>r'. Inr (a, r')))))))"

definition next_index :: "RoleTables \<Rightarrow> string \<Rightarrow> nat" where
  "next_index r i = Suc (foldr max (map (\<lambda>(_, t). att_index t) (filter (\<lambda>(_, t). att_assignment t = i) (ro_attempts r))) 0)"

definition new_attempt :: "string \<Rightarrow> nat \<Rightarrow> string \<Rightarrow> string \<Rightarrow> string \<Rightarrow> RoleAttempt" where
  "new_attempt i n harness generation now =
     \<lparr>att_assignment = i, att_index = n, att_resource = [], att_token = 0, att_access = [],
      att_harness = or_pal harness, att_generation = generation, att_continuation = [], att_status = T_STARTING,
      att_prompt = [], att_response = [], att_error_kind = [], att_error = [], att_started = now, att_finished = []\<rparr>"

definition claim_role_assignment ::
  "RoleWorld \<Rightarrow> RoleTables \<Rightarrow> string \<Rightarrow> string \<Rightarrow> string \<Rightarrow> pydict option \<Rightarrow> string \<Rightarrow> int \<Rightarrow> (string \<times> RoleAttempt) role_transaction" where
  "claim_role_assignment w r i harness generation business_lease now at =
     rbind (find_assignment r i) (\<lambda>a.
     rbind (assert_semantic_admission w r (asg_workflow a) (asg_type a) (asg_aggregate a)
       (effective_binding (asg_spec a) business_lease) True at) (\<lambda>_.
     if asg_state a \<notin> {A_QUEUED, A_RETRY_QUEUED} then Inl (ValueError ''role assignment is not claimable'')
     else
       rbind (role_assignment_target (asg_state a) A_CLAIM) (\<lambda>s.
       rbind (attempt_id (rw_digest w) i (int (next_index r i))) (\<lambda>t.
       let row = new_attempt i (next_index r i) harness generation now in
       rbind (insert_row t row (ro_attempts r)) (\<lambda>rows.
       rbind (record_binding (r\<lparr>ro_attempts := rows\<rparr>) i a t (effective_binding (asg_spec a) business_lease)) (\<lambda>r1.
       let r2 = put_assignment i (a\<lparr>asg_state := s, asg_active := t, asg_error := []\<rparr>) r1;
           r3 = update_session (asg_session a) (\<lambda>se. se\<lparr>se_harness := or_pal harness, se_generation := generation\<rparr>) r2 in
       Inr ((t, row), r3)))))))"

subsection \<open>Working on an assignment\<close>

definition active_attempt :: "RoleTables \<Rightarrow> string \<Rightarrow> string \<Rightarrow> (RoleAssignment \<times> RoleAttempt) res" where
  "active_attempt r i t =
     rbind (find_assignment r i) (\<lambda>a. case map_of (ro_attempts r) t of
       None \<Rightarrow> Inl (ValueError ''role attempt is not active for this assignment'')
     | Some row \<Rightarrow>
         if att_assignment row \<noteq> i \<or> asg_active a \<noteq> t then
           Inl (ValueError ''role attempt is not active for this assignment'')
         else Inr (a, row))"

definition start_role_attempt ::
  "RoleWorld \<Rightarrow> RoleTables \<Rightarrow> string \<Rightarrow> string \<Rightarrow> string \<Rightarrow> int \<Rightarrow> pydict \<Rightarrow> pydict option \<Rightarrow> int \<Rightarrow> RoleAttempt role_transaction" where
  "start_role_attempt w r i t resource token prompt business_lease at =
     rbind (active_attempt r i t) (\<lambda>(a, row).
     rbind (assert_semantic_admission w r (asg_workflow a) (asg_type a) (asg_aggregate a)
       (effective_binding (asg_spec a) business_lease) True at) (\<lambda>_.
     if asg_state a \<noteq> A_CLAIMED then Inl (ValueError ''role assignment is not claimed'')
     else
       rbind (role_assignment_target (asg_state a) A_START) (\<lambda>s.
       rbind (assert_fencing_token (ro_leases r) resource t token at) (\<lambda>_.
       rbind (durable_refs w (PDict prompt)) (\<lambda>_.
       rbind (record_binding r i a t (effective_binding (asg_spec a) business_lease)) (\<lambda>r1.
       rbind (raise_if (effective_binding (asg_spec a) business_lease \<noteq> PNone \<and> map_of prompt ''sha256'' = None)
         (KeyError ''sha256'')) (\<lambda>_.
       let row' = row\<lparr>att_resource := resource, att_token := token, att_status := T_RUNNING, att_prompt := prompt\<rparr> in
       rbind (transition_role_session (asg_session a) S_ACTIVATE
         (put_assignment i (a\<lparr>asg_state := s\<rparr>) (put_attempt t row' r1))) (\<lambda>r2.
       Inr (row', r2)))))))))"

definition publish_initial_checkpoint ::
  "RoleTables \<Rightarrow> string \<Rightarrow> string \<Rightarrow> int \<Rightarrow> pyval option \<Rightarrow> int \<Rightarrow> pydict role_transaction" where
  "publish_initial_checkpoint r i t token file at =
     rbind (active_attempt r i t) (\<lambda>(a, row).
     rbind (assert_fencing_token (ro_leases r) (att_resource row) t token at) (\<lambda>_.
     if att_status row \<noteq> T_RUNNING then checkpoint_error ''checkpoint initialization requires a running attempt''
     else case file of
       None \<Rightarrow> checkpoint_error ''initial worker checkpoint is unreadable''
     | Some (PDict d) \<Rightarrow> publish_session_checkpoint r (asg_session a) token d
     | Some _ \<Rightarrow> checkpoint_error ''initial worker checkpoint is not an object''))"

definition write_harness_state ::
  "RoleWorld \<Rightarrow> RoleTables \<Rightarrow> string \<Rightarrow> string \<Rightarrow> int \<Rightarrow> pydict \<Rightarrow> int \<Rightarrow> pydict role_transaction" where
  "write_harness_state w r i t token state at =
     rbind (active_attempt r i t) (\<lambda>(a, row).
     rbind (assert_fencing_token (ro_leases r) (att_resource row) t token at) (\<lambda>_.
     if att_status row \<noteq> T_RUNNING then Inl (ValueError ''role attempt is not running'')
     else if length (rw_json w (PDict state)) > 64 * 1024 then
       Inl (ValueError ''harness continuation exceeds 64 KiB'')
     else Inr (state, put_attempt t (row\<lparr>att_continuation := state\<rparr>) r)))"

definition issue_access_token ::
  "RoleWorld \<Rightarrow> RoleTables \<Rightarrow> string \<Rightarrow> string \<Rightarrow> int \<Rightarrow> string \<Rightarrow> int \<Rightarrow> string role_transaction" where
  "issue_access_token w r i t token access at =
     rbind (active_attempt r i t) (\<lambda>(a, row).
     if asg_state a \<noteq> A_RUNNING then Inl (ValueError ''role assignment is not running'')
     else
       rbind (assert_fencing_token (ro_leases r) (att_resource row) t token at) (\<lambda>_.
       Inr (access, if att_status row = T_RUNNING then put_attempt t (row\<lparr>att_access := rw_digest w access\<rparr>) r else r)))"

definition authenticate_role_attempt ::
  "RoleWorld \<Rightarrow> RoleTables \<Rightarrow> string \<Rightarrow> int \<Rightarrow> (string \<times> RoleAssignment \<times> string \<times> RoleAttempt) res" where
  "authenticate_role_attempt w r access at =
     (let token = strip access in
      if token = [] then Inl (ValueError ''role assignment access token is required'')
      else case find (\<lambda>(_, t). att_access t = rw_digest w token \<and> map_of (ro_assignments r) (att_assignment t) \<noteq> None)
          (ro_attempts r) of
        None \<Rightarrow> Inl (ValueError ''role assignment access token is invalid'')
      | Some (t, row) \<Rightarrow>
          rbind (find_assignment r (att_assignment row)) (\<lambda>a.
          if asg_active a \<noteq> t then Inl (StaleFencingToken ''role assignment token belongs to a stale attempt'')
          else if asg_state a \<notin> {A_RUNNING, A_RESULT_RECORDED} then Inl (ValueError ''role assignment is not active'')
          else if att_status row \<notin> {T_RUNNING, T_SUBMITTED} then
            Inl (StaleFencingToken ''role assignment attempt is no longer active'')
          else
            rbind (assert_fencing_token (ro_leases r) (att_resource row) t (att_token row) at) (\<lambda>_.
            Inr (att_assignment row, a, t, row))))"

subsection \<open>Reading\<close>

definition semantic_business_lease :: "AggregateSnapshot \<Rightarrow> string \<Rightarrow> string \<Rightarrow> int \<Rightarrow> pydict res" where
  "semantic_business_lease s owner resource token =
     (if snap_type s \<noteq> DAG_NODE_RUN then Inr []
      else
        rbind (int_or_zero (dget (snap_payload s) ''graph_generation'')) (\<lambda>g.
        Inr [(''owner_id'', PStr owner), (''resource_key'', PStr resource), (''fencing_token'', PInt token),
             (''expected_state'', PStr (snap_state s)), (''epoch_id'', PStr (str_or_empty (dget (snap_payload s) ''epoch_id''))),
             (''graph_generation'', PInt g)]))"

definition list_role_assignments :: "RoleTables \<Rightarrow> string \<Rightarrow> RoleAssignmentState list \<Rightarrow> (string \<times> RoleAssignment) list" where
  "list_role_assignments r flow states = by_creation asg_created (filter (\<lambda>(_, a).
     (flow = [] \<or> asg_workflow a = flow) \<and> (states = [] \<or> asg_state a \<in> set states)) (ro_assignments r))"

definition list_role_attempts :: "RoleTables \<Rightarrow> string \<Rightarrow> (string \<times> RoleAttempt) list" where
  "list_role_attempts r i = sort_key (\<lambda>(_, t). att_index t) (filter (\<lambda>(_, t). att_assignment t = i) (ro_attempts r))"

definition session_attempts :: "RoleTables \<Rightarrow> string \<Rightarrow> string \<Rightarrow> (string \<times> RoleAttempt) list" where
  "session_attempts r session harness = filter (\<lambda>(_, t). att_harness t = harness \<and>
     (case map_of (ro_assignments r) (att_assignment t) of None \<Rightarrow> False | Some a \<Rightarrow> asg_session a = session)) (ro_attempts r)"

definition last_row :: "'a list \<Rightarrow> 'a option" where
  "last_row rows = (if rows = [] then None else Some (last rows))"

definition latest_completed_attempt :: "RoleTables \<Rightarrow> string \<Rightarrow> string \<Rightarrow> (string \<times> RoleAttempt) option" where
  "latest_completed_attempt r session harness = last_row (sort_key (\<lambda>(_, t). att_finished t) (sort_key (\<lambda>(_, t). att_started t)
     (sort_key (\<lambda>(_, t). att_index t) (filter (\<lambda>(_, t). att_status t = T_COMPLETED) (session_attempts r session harness)))))"

definition harness_continuation :: "RoleTables \<Rightarrow> string \<Rightarrow> string \<Rightarrow> string \<Rightarrow> pydict" where
  "harness_continuation r session harness generation =
     (case last_row (sort_key (\<lambda>(_, t). att_started t) (sort_key (\<lambda>(_, t). att_index t)
         (filter (\<lambda>(_, t). att_generation t = generation \<and> att_continuation t \<noteq> []) (session_attempts r session harness)))) of
       None \<Rightarrow> [] | Some (_, t) \<Rightarrow> att_continuation t)"

text \<open>A binding that is taken from a running node admits the role that holds the node's lease.\<close>

lemma fresh_binding_is_admitted:
  assumes "snap_type s = DAG_NODE_RUN" "snap_state s \<in> running_states" "owner \<noteq> []" "resource \<noteq> []" "0 < token"
    and "snapshot_of w DAG_NODE_RUN (snap_id s) = Some s" "snap_workflow_id s = flow"
    and "dget (snap_payload s) ''active_worker_id'' = PStr owner" "dget (snap_payload s) ''lease_resource_key'' = PStr resource"
    and "dget (snap_payload s) ''fencing_token'' = PInt token"
    and "assert_fencing_token (ro_leases r) resource owner token now = Inr ()"
    and "semantic_business_lease s owner resource token = Inr b"
  shows "assert_semantic_admission w r flow (aggregate_value DAG_NODE_RUN) (snap_id s) (PDict b) True now = Inr ()"
proof -
  from assms(1,12) obtain g where g: "int_or_zero (dget (snap_payload s) ''graph_generation'') = Inr g"
    and b: "b = [(''owner_id'', PStr owner), (''resource_key'', PStr resource), (''fencing_token'', PInt token),
      (''expected_state'', PStr (snap_state s)), (''epoch_id'', PStr (str_or_empty (dget (snap_payload s) ''epoch_id''))),
      (''graph_generation'', PInt g)]"
    by (auto simp: semantic_business_lease_def split: if_split_asm)
  have state: "snap_state s \<noteq> []" using assms(2) by (auto simp: running_states_def)
  have number: "int_or_zero (PInt n) = Inr n" for n by (cases "n = 0") (simp_all add: int_or_zero_def py_or_def)
  have fields: "dget b ''owner_id'' = PStr owner" "dget b ''resource_key'' = PStr resource" "dget b ''fencing_token'' = PInt token"
    "dget b ''expected_state'' = PStr (snap_state s)" "dget b ''graph_generation'' = PInt g"
    "dget b ''epoch_id'' = PStr (str_or_empty (dget (snap_payload s) ''epoch_id''))"
    by (simp_all add: b dget_def)
  obtain x xs where cons: "b = x # xs" unfolding b by simp
  have "check_incarnation s b owner resource token (snap_state s) True = Inr ()"
    using assms g by (simp add: check_incarnation_def Let_def fields number)
  with assms state show ?thesis
    by (simp add: assert_semantic_admission_def Let_def cons fields [unfolded cons] number)
qed

subsection \<open>Results\<close>

definition recorded_receipt :: "string \<Rightarrow> RoleAssignment \<Rightarrow> RoleSubmissionReceipt" where
  "recorded_receipt i a = \<lparr>rs_assignment = i, rs_ref = asg_result_ref a, rs_hash = asg_result_hash a, rs_settlement = asg_settlement a\<rparr>"

definition same_receipt :: "RoleSubmissionReceipt \<Rightarrow> RoleSubmissionReceipt \<Rightarrow> bool" where
  "same_receipt a b \<longleftrightarrow> py_eq (PDict (receipt_dict a)) (PDict (receipt_dict b))"

text \<open>The drafts the submission is built on and its last validation are outside: the argument \<open>checks\<close>.\<close>

definition record_role_submission ::
  "RoleWorld \<Rightarrow> RoleTables \<Rightarrow> string \<Rightarrow> string \<Rightarrow> int \<Rightarrow> pydict \<Rightarrow> string \<Rightarrow> pydict \<Rightarrow> unit res \<Rightarrow> int
     \<Rightarrow> RoleSubmissionReceipt role_transaction" where
  "record_role_submission w r i t token ref hash settlement checks at =
     (if strip hash = [] then Inl (ValueError ''role submission requires a payload hash'')
      else if \<not> truthy (dget settlement ''action_type'') then
        Inl (ValueError ''role submission requires a settlement action'')
      else
        rbind (active_attempt r i t) (\<lambda>(a, row).
        let requested = \<lparr>rs_assignment = i, rs_ref = ref, rs_hash = hash, rs_settlement = settlement\<rparr> in
        if asg_result_ref a \<noteq> [] then
          if \<not> same_receipt (recorded_receipt i a) requested then
            Inl (ValueError ''role assignment already has a different submission receipt'')
          else Inr (recorded_receipt i a, r)
        else if asg_state a \<noteq> A_RUNNING then Inl (ValueError ''role assignment is not accepting a submission'')
        else
          rbind (role_assignment_target (asg_state a) A_RECORD_RESULT) (\<lambda>s.
          rbind (assert_fencing_token (ro_leases r) (att_resource row) t token at) (\<lambda>_.
          rbind checks (\<lambda>_.
          rbind (durable_refs w (PDict ref)) (\<lambda>_.
          Inr (requested,
            put_attempt t (row\<lparr>att_status := T_SUBMITTED, att_response := ref\<rparr>)
              (put_assignment i (a\<lparr>asg_state := s, asg_result_ref := ref, asg_result_hash := hash, asg_settlement := settlement\<rparr>) r))))))))"

definition settlement_session_action :: "RoleAssignment \<Rightarrow> RoleSessionAction" where
  "settlement_session_action a = (if dget (asg_settlement a) ''action_type'' = PStr ''ROLE_FAILED'' then S_PARK else S_SUSPEND)"

definition finish_attempt :: "string \<Rightarrow> string \<Rightarrow> RoleTables \<Rightarrow> RoleTables" where
  "finish_attempt t now r = update_attempt t (\<lambda>row. row\<lparr>
     att_status := (if att_status row = T_SUBMITTED then T_COMPLETED else att_status row),
     att_access := [], att_finished := now\<rparr>) r"

definition release_attempt :: "string \<Rightarrow> RoleTables \<Rightarrow> RoleTables" where
  "release_attempt t r = (case map_of (ro_attempts r) t of None \<Rightarrow> r | Some row \<Rightarrow> drop_attempt_lease t row r)"

definition settle_assignment ::
  "RoleTables \<Rightarrow> string \<Rightarrow> string \<Rightarrow> string \<Rightarrow> string \<Rightarrow> string \<Rightarrow> string \<Rightarrow> RoleTables res" where
  "settle_assignment r i hash flow type_value aggregate now =
     rbind (find_assignment r i) (\<lambda>a.
     if asg_result_hash a \<noteq> hash then Inl (ValueError ''role assignment settlement receipt does not match'')
     else if (flow \<noteq> [] \<or> type_value \<noteq> [] \<or> aggregate \<noteq> [])
         \<and> (flow, type_value, aggregate) \<noteq> (asg_workflow a, asg_type a, asg_aggregate a) then
       Inl (ValueError ''role assignment settlement targets a different aggregate'')
     else if asg_state a = A_SETTLED then Inr r
     else if asg_state a \<noteq> A_RESULT_RECORDED then Inl (ValueError ''role assignment has no recorded submission'')
     else
       rbind (role_assignment_target (asg_state a) A_SETTLE) (\<lambda>s.
       transition_role_session (asg_session a) (settlement_session_action a)
         (release_attempt (asg_active a) (finish_attempt (asg_active a) now
           (put_assignment i (a\<lparr>asg_state := s\<rparr>) r)))))"

definition settle_role_assignment :: "RoleTables \<Rightarrow> string \<Rightarrow> string \<Rightarrow> string \<Rightarrow> RoleAssignment role_transaction" where
  "settle_role_assignment r i hash now =
     rbind (settle_assignment r i hash [] [] [] now) (\<lambda>r'. rbind (find_assignment r' i) (\<lambda>a. Inr (a, r')))"

definition queue_role_attempt_retry ::
  "RoleTables \<Rightarrow> string \<Rightarrow> string \<Rightarrow> string \<Rightarrow> string \<Rightarrow> string \<Rightarrow> RoleAssignment role_transaction" where
  "queue_role_attempt_retry r i t kind message now =
     rbind (active_attempt r i t) (\<lambda>(a, row).
     if asg_state a \<in> {A_SETTLED, A_CANCELLED, A_RESULT_RECORDED} then Inr (a, r)
     else
       rbind (role_assignment_target (asg_state a) A_QUEUE_RETRY) (\<lambda>s.
       let a' = a\<lparr>asg_state := s, asg_error := message\<rparr> in
       Inr (a', put_assignment i a' (put_attempt t (row\<lparr>att_status := T_LOST, att_error_kind := kind,
         att_error := message, att_finished := now\<rparr>) r))))"

definition record_role_failure ::
  "RoleWorld \<Rightarrow> RoleTables \<Rightarrow> string \<Rightarrow> string \<Rightarrow> string \<Rightarrow> string \<Rightarrow> pydict \<Rightarrow> string \<Rightarrow> pydict \<Rightarrow> string
     \<Rightarrow> RoleSubmissionReceipt role_transaction" where
  "record_role_failure w r i t kind message ref hash settlement now =
     (if strip hash = [] then Inl (ValueError ''role failure result requires a payload hash'')
      else if str_or_empty (dget settlement ''action_type'') \<noteq> ''ROLE_FAILED'' then
        Inl (ValueError ''role failure result must settle through ROLE_FAILED'')
      else
        rbind (active_attempt r i t) (\<lambda>(a, row).
        let requested = \<lparr>rs_assignment = i, rs_ref = ref, rs_hash = hash, rs_settlement = settlement\<rparr> in
        if asg_result_ref a \<noteq> [] then
          if \<not> same_receipt (recorded_receipt i a) requested then
            Inl (ValueError ''role assignment already has a different result receipt'')
          else Inr (recorded_receipt i a, r)
        else
          rbind (role_assignment_target (asg_state a) A_RECORD_RESULT) (\<lambda>s.
          rbind (durable_refs w (PDict ref)) (\<lambda>_.
          let row' = row\<lparr>att_status := T_FAILED, att_error_kind := kind, att_error := message, att_response := ref,
                att_access := [], att_finished := now\<rparr>;
              a' = a\<lparr>asg_state := s, asg_result_ref := ref, asg_result_hash := hash, asg_settlement := settlement,
                asg_error := message\<rparr> in
          rbind (transition_role_session (asg_session a) S_PARK
            (drop_attempt_lease t row (put_assignment i a' (put_attempt t row' r)))) (\<lambda>r'.
          Inr (requested, r'))))))"

subsection \<open>Cancellation\<close>

definition cancel_attempt :: "string \<Rightarrow> string \<Rightarrow> string \<Rightarrow> RoleTables \<Rightarrow> RoleTables" where
  "cancel_attempt t reason now r = (case map_of (ro_attempts r) t of
       None \<Rightarrow> r
     | Some row \<Rightarrow> drop_attempt_lease t row (put_attempt t (row\<lparr>att_status := T_CANCELLED, att_access := [],
         att_error_kind := ''aggregate_control'', att_error := reason, att_finished := now\<rparr>) r))"

definition set_error :: "string \<Rightarrow> string \<Rightarrow> RoleTables \<Rightarrow> RoleTables" where
  "set_error i reason r = (case map_of (ro_assignments r) i of
       None \<Rightarrow> r | Some a \<Rightarrow> put_assignment i (a\<lparr>asg_error := reason\<rparr>) r)"

definition cancel_one :: "string \<Rightarrow> string \<Rightarrow> string \<times> RoleAssignment \<Rightarrow> RoleTables \<Rightarrow> RoleTables res" where
  "cancel_one reason now = (\<lambda>(i, a) r.
     if asg_state a = A_RESULT_RECORDED then
       rbind (settle_assignment r i (asg_result_hash a) [] [] [] now) (\<lambda>r'. Inr (set_error i reason r'))
     else
       rbind (role_assignment_target (asg_state a) A_CANCEL) (\<lambda>s.
       transition_role_session (asg_session a) S_PARK
         (put_assignment i (a\<lparr>asg_state := s, asg_error := reason\<rparr>)
           (if asg_active a \<noteq> [] then cancel_attempt (asg_active a) reason now r else r))))"

fun cancel_rows :: "string \<Rightarrow> string \<Rightarrow> (string \<times> RoleAssignment) list \<Rightarrow> RoleTables \<Rightarrow> RoleTables res" where
  "cancel_rows reason now [] r = Inr r"
| "cancel_rows reason now (row # rows) r = rbind (cancel_one reason now row r) (cancel_rows reason now rows)"

definition to_cancel ::
  "RoleTables \<Rightarrow> string \<Rightarrow> string \<Rightarrow> string \<Rightarrow> string \<Rightarrow> string list option \<Rightarrow> (string \<times> RoleAssignment) list" where
  "to_cancel r flow type_value aggregate exclude ids = by_creation asg_created (filter (\<lambda>(i, a).
     asg_workflow a = flow \<and> asg_type a = type_value \<and> asg_aggregate a = aggregate \<and> i \<noteq> exclude
     \<and> asg_state a \<in> {A_QUEUED, A_CLAIMED, A_RUNNING, A_RETRY_QUEUED, A_RESULT_RECORDED}
     \<and> (case ids of None \<Rightarrow> True | Some is \<Rightarrow> i \<in> set is)) (ro_assignments r))"

definition cancel_role_assignments ::
  "RoleTables \<Rightarrow> string \<Rightarrow> string \<Rightarrow> string \<Rightarrow> string \<Rightarrow> string \<Rightarrow> string list option \<Rightarrow> string
     \<Rightarrow> (string \<times> RoleAssignment) list role_transaction" where
  "cancel_role_assignments r flow type_value aggregate reason exclude ids now =
     (if ids = Some [] then Inr ([], r)
      else
        let rows = to_cancel r flow type_value aggregate exclude ids in
        rbind (cancel_rows reason now rows r) (\<lambda>r'.
        Inr (by_creation asg_created (filter (\<lambda>(i, _). i \<in> fst ` set rows) (ro_assignments r')), r')))"

subsection \<open>Legacy invocations\<close>

definition record_role_invocation :: "RoleWorld \<Rightarrow> RoleTables \<Rightarrow> string \<Rightarrow> RoleInvocation \<Rightarrow> pydict \<Rightarrow> int \<Rightarrow> unit role_transaction" where
  "record_role_invocation w r i v prompt at =
     rbind (assert_fencing_token (ro_leases r) (iv_resource v) i (iv_token v) at) (\<lambda>_.
     rbind (durable_refs w (PDict prompt)) (\<lambda>_.
     Inr ((), put_invocation i (v\<lparr>iv_status := ''running''\<rparr>) r)))"

definition find_invocation :: "RoleTables \<Rightarrow> string \<Rightarrow> RoleInvocation res" where
  "find_invocation r i = (case map_of (ro_invocations r) i of
       None \<Rightarrow> Inl (KeyError (''unknown role invocation: '' @ i)) | Some v \<Rightarrow> Inr v)"

definition suspend_role_invocation :: "RoleWorld \<Rightarrow> RoleTables \<Rightarrow> string \<Rightarrow> int \<Rightarrow> string \<Rightarrow> int \<Rightarrow> unit role_transaction" where
  "suspend_role_invocation w r i token status at =
     (let normalized = lower (strip (if status = [] then ''suspended'' else status)) in
      if normalized \<notin> {''suspended'', ''interrupted''} then
        Inl (ValueError ''worker suspension status must be suspended or interrupted'')
      else
        rbind (find_invocation r i) (\<lambda>v.
        rbind (assert_fencing_token (ro_leases r) (iv_resource v) i token at) (\<lambda>_.
        rbind (transition_role_session i S_SUSPEND (put_invocation i (v\<lparr>iv_status := normalized\<rparr>) r)) (\<lambda>r'.
        rbind (rw_rebuild w (iv_workflow v)) (\<lambda>_. Inr ((), r'))))))"

definition finish_role_invocation :: "RoleWorld \<Rightarrow> RoleTables \<Rightarrow> string \<Rightarrow> int \<Rightarrow> string \<Rightarrow> int \<Rightarrow> unit role_transaction" where
  "finish_role_invocation w r i token status at =
     (let normalized = lower (strip status) in
      if normalized \<notin> {''completed'', ''failed'', ''cancelled''} then
        Inl (ValueError (''invalid role invocation terminal status: '' @ status))
      else
        rbind (find_invocation r i) (\<lambda>v.
        rbind (assert_fencing_token (ro_leases r) (iv_resource v) i token at) (\<lambda>_.
        rbind (rw_rebuild w (iv_workflow v)) (\<lambda>_.
        Inr ((), put_invocation i (v\<lparr>iv_status := normalized\<rparr>) r)))))"

end
