(* ===== verification/Role_Invariant.thy ===== *)
theory Role_Invariant
  imports Role_Store
begin

section \<open>The invariant of the role tables\<close>

text \<open>
  \<open>roles_ok\<close> says what holds of the tables after any history, \<open>evolves\<close> what one history may do to a row. Both
  are proved of the few kinds of change the operations are made of: a session moves, an assignment and its
  active attempt change together, an assignment is created, an assignment is claimed by a new attempt.
\<close>

subsection \<open>Well-formed tables\<close>

text \<open>The status of the active attempt in each state of its assignment.\<close>

fun fitting :: "RoleAssignmentState \<Rightarrow> RoleAttemptState set" where
  "fitting A_QUEUED = {}"
| "fitting A_CLAIMED = {T_STARTING}"
| "fitting A_RUNNING = {T_RUNNING}"
| "fitting A_RETRY_QUEUED = {T_LOST}"
| "fitting A_RESULT_RECORDED = {T_SUBMITTED, T_FAILED}"
| "fitting A_SETTLED = {T_COMPLETED, T_FAILED}"
| "fitting A_CANCELLED = {T_CANCELLED}"

text \<open>Which rows have a receipt: exactly those with a recorded or settled result.\<close>

definition receipt_fits :: "RoleAssignment \<Rightarrow> bool" where
  "receipt_fits a \<longleftrightarrow> (if asg_state a \<in> {A_RESULT_RECORDED, A_SETTLED} then asg_result_hash a \<noteq> []
     else asg_result_hash a = [] \<and> asg_result_ref a = [])"

definition attempts_ok :: "(string \<times> RoleAttempt) list \<Rightarrow> string \<Rightarrow> RoleAssignment \<Rightarrow> bool" where
  "attempts_ok rows i a \<longleftrightarrow>
     (if asg_active a = [] then
        asg_state a \<in> {A_QUEUED, A_CANCELLED} \<and> (\<forall>t row. map_of rows t = Some row \<longrightarrow> att_assignment row \<noteq> i)
      else \<exists>row. map_of rows (asg_active a) = Some row \<and> att_assignment row = i \<and> att_status row \<in> fitting (asg_state a)
        \<and> (\<forall>t row'. map_of rows t = Some row' \<and> att_assignment row' = i \<and> t \<noteq> asg_active a
             \<longrightarrow> att_status row' = T_LOST \<and> att_index row' < att_index row))"

definition session_ok :: "(string \<times> RoleSession) list \<Rightarrow> RoleAssignment \<Rightarrow> bool" where
  "session_ok rows a \<longleftrightarrow> (\<exists>s. map_of rows (asg_session a) = Some s
     \<and> (asg_state a \<in> open_states \<longrightarrow> \<not> session_terminal (se_status s)))"

definition keys_ok :: "(string \<times> RoleAssignment) list \<Rightarrow> bool" where
  "keys_ok rows \<longleftrightarrow> distinct (map fst rows)
     \<and> (\<forall>i j a b. map_of rows i = Some a \<and> map_of rows j = Some b \<and> i \<noteq> j \<longrightarrow> asg_key a \<noteq> asg_key b
         \<and> (asg_session a = asg_session b \<longrightarrow> asg_state a \<notin> open_states \<or> asg_state b \<notin> open_states))"

definition roles_ok :: "RoleTables \<Rightarrow> bool" where
  "roles_ok r \<longleftrightarrow> distinct (map fst (ro_sessions r)) \<and> distinct (map fst (ro_attempts r)) \<and> keys_ok (ro_assignments r)
     \<and> (\<forall>t row. map_of (ro_attempts r) t = Some row \<longrightarrow> t \<noteq> [] \<and> map_of (ro_assignments r) (att_assignment row) \<noteq> None)
     \<and> (\<forall>i a. map_of (ro_assignments r) i = Some a \<longrightarrow>
          receipt_fits a \<and> attempts_ok (ro_attempts r) i a \<and> session_ok (ro_sessions r) a)"

definition no_roles :: RoleTables where
  "no_roles = \<lparr>ro_sessions = [], ro_assignments = [], ro_attempts = [], ro_invocations = [], ro_leases = [],
     ro_witnesses = [], ro_checkpoints = []\<rparr>"

lemma roles_ok_empty: "roles_ok no_roles"
  by (simp add: roles_ok_def no_roles_def keys_ok_def)

subsection \<open>What a history does to a row\<close>

definition session_moves :: "(RoleSessionState \<times> RoleSessionState) set" where
  "session_moves = {(s, s'). \<exists>act. role_session_target s act = Inr s'}"

definition assignment_moves :: "(RoleAssignmentState \<times> RoleAssignmentState) set" where
  "assignment_moves = {(s, s'). \<exists>act. role_assignment_target s act = Inr s'}"

text \<open>The columns of an assignment that identify the request.\<close>

definition request_of :: "RoleAssignment \<Rightarrow> RoleAssignment" where
  "request_of a = a\<lparr>asg_state := A_QUEUED, asg_active := [], asg_result_ref := [], asg_result_hash := [],
     asg_settlement := [], asg_error := []\<rparr>"

definition same_result :: "RoleAssignment \<Rightarrow> RoleAssignment \<Rightarrow> bool" where
  "same_result a a' \<longleftrightarrow> asg_result_ref a' = asg_result_ref a \<and> asg_result_hash a' = asg_result_hash a
     \<and> asg_settlement a' = asg_settlement a"

definition session_evolves :: "RoleSession \<Rightarrow> RoleSession \<Rightarrow> bool" where
  "session_evolves s s' \<longleftrightarrow> session_identity s' = session_identity s \<and> se_type s' = se_type s
     \<and> se_aggregate s' = se_aggregate s \<and> (se_status s, se_status s') \<in> session_moves\<^sup>*"

definition assignment_evolves :: "RoleAssignment \<Rightarrow> RoleAssignment \<Rightarrow> bool" where
  "assignment_evolves a a' \<longleftrightarrow> request_of a' = request_of a \<and> (asg_state a, asg_state a') \<in> assignment_moves\<^sup>*
     \<and> (asg_result_ref a \<noteq> [] \<longrightarrow> same_result a a')"

definition attempt_evolves :: "RoleAttempt \<Rightarrow> RoleAttempt \<Rightarrow> bool" where
  "attempt_evolves t t' \<longleftrightarrow> att_assignment t' = att_assignment t \<and> att_index t' = att_index t
     \<and> att_harness t' = att_harness t \<and> att_generation t' = att_generation t \<and> att_started t' = att_started t"

text \<open>An attempt that has been replaced; it exists but its assignment has gone on without it.\<close>

definition replaced :: "RoleTables \<Rightarrow> string \<Rightarrow> bool" where
  "replaced r t \<longleftrightarrow> (\<exists>row a. map_of (ro_attempts r) t = Some row \<and> map_of (ro_assignments r) (att_assignment row) = Some a
     \<and> asg_active a \<noteq> t)"

definition evolves :: "RoleTables \<Rightarrow> RoleTables \<Rightarrow> bool" where
  "evolves r r' \<longleftrightarrow>
     (\<forall>i s. map_of (ro_sessions r) i = Some s \<longrightarrow> (\<exists>s'. map_of (ro_sessions r') i = Some s' \<and> session_evolves s s'))
   \<and> (\<forall>i a. map_of (ro_assignments r) i = Some a \<longrightarrow> (\<exists>a'. map_of (ro_assignments r') i = Some a' \<and> assignment_evolves a a'))
   \<and> (\<forall>i a'. map_of (ro_assignments r') i = Some a' \<longrightarrow> (A_QUEUED, asg_state a') \<in> assignment_moves\<^sup>*
        \<or> map_of (ro_assignments r) i \<noteq> None)
   \<and> (\<forall>t row. map_of (ro_attempts r) t = Some row \<longrightarrow> (\<exists>row'. map_of (ro_attempts r') t = Some row' \<and> attempt_evolves row row'))
   \<and> (\<forall>t. replaced r t \<longrightarrow> replaced r' t)"

lemma row_evolves_refl [simp]: "session_evolves s s" "assignment_evolves a a" "attempt_evolves t t"
  by (simp_all add: session_evolves_def assignment_evolves_def attempt_evolves_def same_result_def)

lemma evolves_refl [simp]: "evolves r r"
  by (simp add: evolves_def)

lemma session_evolves_trans: "session_evolves a b \<Longrightarrow> session_evolves b c \<Longrightarrow> session_evolves a c"
  unfolding session_evolves_def by (metis rtrancl_trans)

lemma assignment_evolves_trans: "assignment_evolves a b \<Longrightarrow> assignment_evolves b c \<Longrightarrow> assignment_evolves a c"
  unfolding assignment_evolves_def same_result_def by (elim conjE, intro conjI, simp, erule (1) rtrancl_trans, simp)

lemma attempt_evolves_trans: "attempt_evolves a b \<Longrightarrow> attempt_evolves b c \<Longrightarrow> attempt_evolves a c"
  unfolding attempt_evolves_def by simp

lemma evolves_trans:
  assumes "evolves a b" "evolves b c"
  shows "evolves a c"
  unfolding evolves_def
proof (intro conjI allI impI)
  fix i s assume "map_of (ro_sessions a) i = Some s"
  with assms obtain s1 s2 where "map_of (ro_sessions c) i = Some s2" "session_evolves s s1" "session_evolves s1 s2"
    unfolding evolves_def by meson
  then show "\<exists>s'. map_of (ro_sessions c) i = Some s' \<and> session_evolves s s'" by (blast intro: session_evolves_trans)
next
  fix i x assume "map_of (ro_assignments a) i = Some x"
  with assms obtain x1 x2 where "map_of (ro_assignments c) i = Some x2" "assignment_evolves x x1" "assignment_evolves x1 x2"
    unfolding evolves_def by meson
  then show "\<exists>x'. map_of (ro_assignments c) i = Some x' \<and> assignment_evolves x x'"
    by (blast intro: assignment_evolves_trans)
next
  fix i z assume z: "map_of (ro_assignments c) i = Some z"
  show "(A_QUEUED, asg_state z) \<in> assignment_moves\<^sup>* \<or> map_of (ro_assignments a) i \<noteq> None"
  proof (cases "map_of (ro_assignments b) i")
    case None
    with z assms(2) show ?thesis unfolding evolves_def by blast
  next
    case (Some y)
    with assms(2) obtain z' where "map_of (ro_assignments c) i = Some z'" "assignment_evolves y z'"
      unfolding evolves_def by meson
    with z have "(asg_state y, asg_state z) \<in> assignment_moves\<^sup>*" by (simp add: assignment_evolves_def)
    moreover from Some assms(1) have "(A_QUEUED, asg_state y) \<in> assignment_moves\<^sup>* \<or> map_of (ro_assignments a) i \<noteq> None"
      unfolding evolves_def by blast
    ultimately show ?thesis by (meson rtrancl_trans)
  qed
next
  fix t row assume "map_of (ro_attempts a) t = Some row"
  with assms obtain x1 x2 where "map_of (ro_attempts c) t = Some x2" "attempt_evolves row x1" "attempt_evolves x1 x2"
    unfolding evolves_def by meson
  then show "\<exists>row'. map_of (ro_attempts c) t = Some row' \<and> attempt_evolves row row'"
    by (blast intro: attempt_evolves_trans)
next
  fix t assume "replaced a t"
  with assms show "replaced c t" unfolding evolves_def by blast
qed

text \<open>A step that keeps the tables well-formed and lets every row evolve.\<close>

definition lawful_roles :: "RoleTables \<Rightarrow> RoleTables \<Rightarrow> bool" where
  "lawful_roles r r' \<longleftrightarrow> (roles_ok r \<longrightarrow> roles_ok r' \<and> evolves r r')"

lemma lawful_roles_refl [simp]: "lawful_roles r r"
  by (simp add: lawful_roles_def)

lemma lawful_roles_trans [trans]: "lawful_roles a b \<Longrightarrow> lawful_roles b c \<Longrightarrow> lawful_roles a c"
  unfolding lawful_roles_def using evolves_trans by blast

text \<open>Only the tables of sessions, assignments and attempts matter.\<close>

lemma lawful_roles_cong:
  assumes "ro_sessions r' = ro_sessions r" "ro_assignments r' = ro_assignments r" "ro_attempts r' = ro_attempts r"
  shows "lawful_roles r r'"
  using assms evolves_refl [of r] by (simp add: lawful_roles_def roles_ok_def evolves_def replaced_def)

lemma map_of_put [simp]: "map_of (AList.update k v tbl) = (map_of tbl)(k \<mapsto> v)"
  by (rule update_conv')

subsection \<open>A session moves\<close>

lemma lawful_session:
  assumes s: "map_of (ro_sessions r) i = Some s" and evolves: "session_evolves s s'"
    and closed: "session_terminal (se_status s') \<longrightarrow> session_terminal (se_status s)
      \<or> (\<forall>(_, a) \<in> set (ro_assignments r). asg_session a = i \<longrightarrow> asg_state a \<notin> open_states)"
  shows "lawful_roles r (put_session i s' r)"
  unfolding lawful_roles_def
proof (intro impI conjI)
  assume ok: "roles_ok r"
  have "session_ok (AList.update i s' (ro_sessions r)) a" if a: "map_of (ro_assignments r) j = Some a" for j a
  proof -
    from ok a have "session_ok (ro_sessions r) a" by (simp add: roles_ok_def)
    with s closed map_of_SomeD [OF a] show ?thesis by (auto simp: session_ok_def)
  qed
  with ok show "roles_ok (put_session i s' r)" by (auto simp: roles_ok_def put_session_def distinct_update)
  show "evolves r (put_session i s' r)"
    using s evolves by (auto simp: evolves_def put_session_def replaced_def session_evolves_def assignment_evolves_def
        attempt_evolves_def same_result_def)
qed

lemma session_move: "role_session_target s act = Inr s' \<Longrightarrow> (s, s') \<in> session_moves\<^sup>*"
  by (auto simp: session_moves_def)

lemma assignment_move: "role_assignment_target s act = Inr s' \<Longrightarrow> (s, s') \<in> assignment_moves\<^sup>*"
  by (auto simp: assignment_moves_def)

lemma lawful_transition:
  assumes "transition_role_session i act r = Inr r'" and "act \<in> {S_COMPLETE, S_CANCEL} \<longrightarrow>
    (\<forall>(_, a) \<in> set (ro_assignments r). asg_session a = i \<longrightarrow> asg_state a \<notin> open_states)"
  shows "lawful_roles r r'"
proof -
  from assms(1) obtain s s' where s: "map_of (ro_sessions r) i = Some s" "role_session_target (se_status s) act = Inr s'"
    and r': "r' = put_session i (s\<lparr>se_status := s'\<rparr>) r"
    by (auto simp: transition_role_session_def split: option.splits)
  show ?thesis unfolding r'
  proof (rule lawful_session [OF s(1)])
    show "session_evolves s (s\<lparr>se_status := s'\<rparr>)"
      using session_move [OF s(2)] by (simp add: session_evolves_def session_identity_def)
    show "session_terminal (se_status (s\<lparr>se_status := s'\<rparr>)) \<longrightarrow> session_terminal (se_status s)
      \<or> (\<forall>(_, a) \<in> set (ro_assignments r). asg_session a = i \<longrightarrow> asg_state a \<notin> open_states)"
      using session_target_terminal [OF s(2)] assms(2) by auto
  qed
qed

text \<open>Parking, activating, suspending and initialising a live session always succeeds.\<close>

lemma transition_total:
  assumes "map_of (ro_sessions r) i = Some s" "\<not> session_terminal (se_status s)"
    and "act \<in> {S_PARK, S_ACTIVATE, S_SUSPEND, S_INITIALIZE}"
  shows "\<exists>r'. transition_role_session i act r = Inr r'"
  using session_target_live [OF assms(2,3)] assms(1) by (auto simp: transition_role_session_def)

subsection \<open>An assignment and its attempts change\<close>

lemma request_of_fields:
  assumes "request_of a' = request_of a"
  shows "asg_key a' = asg_key a" "asg_session a' = asg_session a" "asg_workflow a' = asg_workflow a"
    "asg_type a' = asg_type a" "asg_aggregate a' = asg_aggregate a" "asg_created a' = asg_created a"
  using assms by (cases a; cases a'; simp add: request_of_def)+

text \<open>The row of one assignment is replaced by one that identifies the same request.\<close>

lemma keys_ok_update:
  assumes ok: "keys_ok rows" and a: "map_of rows i = Some a" and q: "request_of a' = request_of a"
    and opened: "asg_state a' \<in> open_states \<longrightarrow> asg_state a \<in> open_states"
  shows "keys_ok (AList.update i a' rows)"
proof -
  have old: "\<exists>b'. map_of rows j = Some b' \<and> asg_key b' = asg_key b \<and> asg_session b' = asg_session b
      \<and> (asg_state b \<in> open_states \<longrightarrow> asg_state b' \<in> open_states)" if "map_of (AList.update i a' rows) j = Some b" for j b
    using that a opened request_of_fields(1,2) [OF q] by (auto split: if_splits)
  have "asg_key b \<noteq> asg_key c \<and> (asg_session b = asg_session c \<longrightarrow> asg_state b \<notin> open_states \<or> asg_state c \<notin> open_states)"
    if "map_of (AList.update i a' rows) j = Some b" "map_of (AList.update i a' rows) k = Some c" "j \<noteq> k" for j k b c
  proof -
    from old [OF that(1)] old [OF that(2)] obtain b' c' where
      "map_of rows j = Some b'" "asg_key b' = asg_key b" "asg_session b' = asg_session b"
      "asg_state b \<in> open_states \<longrightarrow> asg_state b' \<in> open_states"
      "map_of rows k = Some c'" "asg_key c' = asg_key c" "asg_session c' = asg_session c"
      "asg_state c \<in> open_states \<longrightarrow> asg_state c' \<in> open_states" by blast
    with ok \<open>j \<noteq> k\<close> show ?thesis unfolding keys_ok_def by metis
  qed
  with ok show ?thesis by (auto simp: keys_ok_def distinct_update simp del: map_of_put)
qed

lemma attempts_ok_other:
  assumes "attempts_ok rows j b" and "map_of rows t = Some row" and "att_assignment row \<noteq> j" and "att_assignment row' \<noteq> j"
  shows "attempts_ok (AList.update t row' rows) j b"
  using assms unfolding attempts_ok_def by (auto split: if_split_asm)

lemma attempts_ok_own:
  assumes "attempts_ok rows i a" and t: "map_of rows t = Some row" "asg_active a = t" "t \<noteq> []"
    and "att_assignment row' = i" "att_index row' = att_index row" "att_status row' \<in> fitting (asg_state a')" "asg_active a' = t"
  shows "attempts_ok (AList.update t row' rows) i a'"
  using assms unfolding attempts_ok_def by (auto split: if_split_asm)

text \<open>Work on an assignment by its active attempt.\<close>

lemma lawful_work:
  assumes a: "map_of (ro_assignments r) i = Some a" and t: "map_of (ro_attempts r) t = Some row"
    and own: "att_assignment row = i" "asg_active a = t"
    and r': "ro_sessions r' = ro_sessions r" "ro_assignments r' = AList.update i a' (ro_assignments r)"
      "ro_attempts r' = AList.update t row' (ro_attempts r)"
    and q: "request_of a' = request_of a" "asg_active a' = t" "(asg_state a, asg_state a') \<in> assignment_moves\<^sup>*"
    and opened: "asg_state a' \<in> open_states \<longrightarrow> asg_state a \<in> open_states"
    and fit: "roles_ok r \<Longrightarrow> att_status row' \<in> fitting (asg_state a')" "roles_ok r \<Longrightarrow> receipt_fits a'"
    and result: "asg_result_ref a \<noteq> [] \<longrightarrow> same_result a a'" and row: "attempt_evolves row row'"
  shows "lawful_roles r r'"
  unfolding lawful_roles_def
proof (intro impI conjI)
  assume ok: "roles_ok r"
  have same: "att_assignment row' = i" "att_index row' = att_index row" using row own by (simp_all add: attempt_evolves_def)
  have nonempty: "t \<noteq> []" using ok t by (auto simp: roles_ok_def)
  have each: "receipt_fits b \<and> attempts_ok (ro_attempts r') j b \<and> session_ok (ro_sessions r') b"
    if b: "map_of (ro_assignments r') j = Some b" for j b
  proof (cases "j = i")
    case True
    with b r' have "b = a'" by simp
    moreover have "attempts_ok (ro_attempts r) i a" "session_ok (ro_sessions r) a" using ok a by (simp_all add: roles_ok_def)
    moreover from this(1) have "attempts_ok (ro_attempts r') i a'"
      unfolding r' by (rule attempts_ok_own [OF _ t own(2) nonempty same fit(1) [OF ok] q(2)])
    ultimately show ?thesis
      using fit(2) [OF ok] request_of_fields(2) [OF q(1)] opened True r'(1) by (auto simp: session_ok_def)
  next
    case False
    with b r' have b: "map_of (ro_assignments r) j = Some b" by simp
    with ok have "receipt_fits b" "attempts_ok (ro_attempts r) j b" "session_ok (ro_sessions r) b" by (simp_all add: roles_ok_def)
    moreover from this(2) have "attempts_ok (ro_attempts r') j b"
      unfolding r' by (rule attempts_ok_other [OF _ t]) (use False own same in simp_all)
    ultimately show ?thesis by (simp add: r')
  qed
  have "keys_ok (ro_assignments r')" unfolding r' by (rule keys_ok_update [OF _ a q(1) opened]) (use ok in \<open>simp add: roles_ok_def\<close>)
  with ok each same nonempty a show "roles_ok r'" by (auto simp: roles_ok_def r' distinct_update)
  have "replaced r' t2" if "replaced r t2" for t2
  proof -
    from that a t own have "t2 \<noteq> t" by (auto simp: replaced_def)
    with that q(2) own(2) a show ?thesis by (auto simp: replaced_def r')
  qed
  moreover have "assignment_evolves a a'" using q result by (simp add: assignment_evolves_def)
  ultimately show "evolves r r'" using a t row by (auto simp: evolves_def r')
qed

text \<open>Work that changes only the attempt.\<close>

lemma lawful_attempt:
  assumes a: "map_of (ro_assignments r) i = Some a" and t: "map_of (ro_attempts r) t = Some row"
    and own: "att_assignment row = i" "asg_active a = t"
    and row: "attempt_evolves row row'" "att_status row' = att_status row"
  shows "lawful_roles r (put_attempt t row' r)"
proof (rule lawful_work [OF a t own, of _ a row'])
  show "ro_assignments (put_attempt t row' r) = AList.update i a (ro_assignments r)"
    using a by (simp add: put_attempt_def update_triv)
  assume ok: "roles_ok r"
  with a have "attempts_ok (ro_attempts r) i a" "receipt_fits a" by (simp_all add: roles_ok_def)
  with t own row ok show "att_status row' \<in> fitting (asg_state a)" "receipt_fits a"
    by (auto simp: attempts_ok_def roles_ok_def split: if_split_asm)
qed (use row own in \<open>simp_all add: put_attempt_def same_result_def\<close>)

text \<open>An assignment that nobody has claimed is cancelled.\<close>

lemma lawful_unclaimed:
  assumes a: "map_of (ro_assignments r) i = Some a" "asg_active a = []" "asg_state a = A_QUEUED"
  shows "lawful_roles r (put_assignment i (a\<lparr>asg_state := A_CANCELLED, asg_error := e\<rparr>) r)" (is "lawful_roles r ?r'")
  unfolding lawful_roles_def
proof (intro impI conjI)
  let ?a = "a\<lparr>asg_state := A_CANCELLED, asg_error := e\<rparr>"
  have q: "request_of ?a = request_of a" by (simp add: request_of_def)
  have "(A_QUEUED, A_CANCELLED) \<in> assignment_moves\<^sup>*" by (rule assignment_move [of _ A_CANCEL]) simp
  then have e: "assignment_evolves a ?a" using q a(3) by (simp add: assignment_evolves_def same_result_def)
  assume ok: "roles_ok r"
  then have old: "receipt_fits a" "attempts_ok (ro_attempts r) i a" "session_ok (ro_sessions r) a"
    using a(1) by (simp_all add: roles_ok_def)
  have "keys_ok (AList.update i ?a (ro_assignments r))"
    by (rule keys_ok_update [OF _ a(1) q]) (use ok in \<open>simp_all add: roles_ok_def open_states_def\<close>)
  moreover have "receipt_fits ?a" "attempts_ok (ro_attempts r) i ?a" "session_ok (ro_sessions r) ?a"
    using old a by (auto simp: receipt_fits_def attempts_ok_def session_ok_def open_states_def)
  ultimately show "roles_ok ?r'" using ok by (auto simp: roles_ok_def put_assignment_def)
  show "evolves r ?r'" using e a by (auto simp: evolves_def put_assignment_def replaced_def)
qed

subsection \<open>Creation and claims\<close>

lemma lawful_create:
  assumes "insert_assignment i a r = Inr r'" and fresh: "asg_state a = A_QUEUED" "asg_active a = []"
    "asg_result_ref a = []" "asg_result_hash a = []"
    and s: "map_of (ro_sessions r) (asg_session a) = Some s" "\<not> session_terminal (se_status s)"
  shows "lawful_roles r r'"
  unfolding lawful_roles_def
proof (intro impI conjI)
  from assms(1) have new: "map_of (ro_assignments r) i = None" and r': "r' = r\<lparr>ro_assignments := ro_assignments r @ [(i, a)]\<rparr>"
    and clash: "\<forall>(_, b) \<in> set (ro_assignments r). asg_key b \<noteq> asg_key a
      \<and> (asg_session b = asg_session a \<longrightarrow> asg_state a \<notin> open_states \<or> asg_state b \<notin> open_states)"
    by (auto simp: insert_assignment_def list_ex_iff split: if_split_asm)
  have m: "map_of (ro_assignments r') = (map_of (ro_assignments r))(i \<mapsto> a)" unfolding r' using map_of_append_new [OF new] by simp
  assume ok: "roles_ok r"
  have "att_assignment row \<noteq> i" if "map_of (ro_attempts r) t = Some row" for t row
  proof -
    from ok that have "map_of (ro_assignments r) (att_assignment row) \<noteq> None" unfolding roles_ok_def by blast
    with new show ?thesis by metis
  qed
  with fresh s have "receipt_fits a \<and> attempts_ok (ro_attempts r) i a \<and> session_ok (ro_sessions r) a"
    by (auto simp: receipt_fits_def attempts_ok_def session_ok_def)
  moreover have "keys_ok (ro_assignments r')"
    unfolding keys_ok_def m
  proof (intro conjI allI impI; (elim conjE)?)
    show "distinct (map fst (ro_assignments r'))"
      using ok new by (auto simp: r' roles_ok_def keys_ok_def map_of_eq_None_iff)
    fix j k b c assume "((map_of (ro_assignments r))(i \<mapsto> a)) j = Some b" "((map_of (ro_assignments r))(i \<mapsto> a)) k = Some c" "j \<noteq> k"
    then show "asg_key b \<noteq> asg_key c" "asg_session b = asg_session c \<Longrightarrow> asg_state b \<notin> open_states \<or> asg_state c \<notin> open_states"
      using clash ok by (auto simp: roles_ok_def keys_ok_def split: if_split_asm dest: map_of_SomeD)
  qed
  ultimately show "roles_ok r'" using ok unfolding roles_ok_def m by (simp add: r')
  show "evolves r r'" using new fresh unfolding evolves_def m replaced_def by (auto simp: r')
qed

lemma foldr_max_ge: "x \<in> set xs \<Longrightarrow> (x::nat) \<le> foldr max xs 0"
  by (induction xs) auto

lemma next_index_above:
  assumes "map_of (ro_attempts r) t = Some row" "att_assignment row = i"
  shows "att_index row < next_index r i"
proof -
  have "att_index row \<in> set (map (\<lambda>(_, t). att_index t) (filter (\<lambda>(_, t). att_assignment t = i) (ro_attempts r)))"
    using assms(2) map_of_SomeD [OF assms(1)] by force
  from foldr_max_ge [OF this] show ?thesis by (simp add: next_index_def)
qed

text \<open>The row of an attempt that is there after a claim is old or the new one.\<close>

lemma lawful_claim:
  assumes a: "map_of (ro_assignments r) i = Some a" and new: "map_of (ro_attempts r) t = None" "t \<noteq> []"
    and row: "att_assignment row = i" "att_index row = next_index r i" "att_status row = T_STARTING"
    and queued: "asg_state a \<in> {A_QUEUED, A_RETRY_QUEUED}"
    and r': "ro_sessions r' = ro_sessions r" "ro_attempts r' = ro_attempts r @ [(t, row)]"
      "ro_assignments r' = AList.update i (a\<lparr>asg_state := A_CLAIMED, asg_active := t, asg_error := []\<rparr>) (ro_assignments r)"
  shows "lawful_roles r r'"
  unfolding lawful_roles_def
proof (intro impI conjI)
  let ?a = "a\<lparr>asg_state := A_CLAIMED, asg_active := t, asg_error := []\<rparr>"
  have m: "map_of (ro_attempts r') = (map_of (ro_attempts r))(t \<mapsto> row)"
    unfolding r' using map_of_append_new [OF new(1)] by simp
  have q: "request_of ?a = request_of a" by (simp add: request_of_def)
  assume ok: "roles_ok r"
  have mine: "receipt_fits a" "attempts_ok (ro_attempts r) i a" "session_ok (ro_sessions r) a"
    using ok a by (simp_all add: roles_ok_def)
  have lost: "att_status row' = T_LOST \<and> att_index row' < att_index row"
    if "map_of (ro_attempts r) t' = Some row'" "att_assignment row' = i" for t' row'
  proof -
    have "att_status row' = T_LOST"
      using mine(2) that queued unfolding attempts_ok_def by (cases "t' = asg_active a") (auto split: if_split_asm)
    with next_index_above [OF that] row(2) show ?thesis by simp
  qed
  have own: "attempts_ok (ro_attempts r') i ?a"
    using new row lost unfolding attempts_ok_def m by auto
  have each: "receipt_fits b \<and> attempts_ok (ro_attempts r') j b \<and> session_ok (ro_sessions r') b"
    if b: "map_of (ro_assignments r') j = Some b" for j b
  proof (cases "j = i")
    case True
    with b r' have "b = ?a" by simp
    with own mine queued True r'(1) show ?thesis by (auto simp: receipt_fits_def session_ok_def open_states_def)
  next
    case False
    with b r' have b: "map_of (ro_assignments r) j = Some b" by simp
    with ok have old: "receipt_fits b" "attempts_ok (ro_attempts r) j b" "session_ok (ro_sessions r) b" by (simp_all add: roles_ok_def)
    from old(2) have "attempts_ok (ro_attempts r') j b"
      using False row(1) new(1) unfolding attempts_ok_def m by (auto split: if_split_asm)
    with old show ?thesis by (simp add: r')
  qed
  have keys: "keys_ok (ro_assignments r')"
    unfolding r' by (rule keys_ok_update [OF _ a q]) (use ok queued in \<open>auto simp: roles_ok_def open_states_def\<close>)
  have known: "map_of (ro_assignments r') j \<noteq> None" if "map_of (ro_assignments r) j \<noteq> None" for j
    using that by (simp add: r')
  have "t' \<noteq> [] \<and> map_of (ro_assignments r') (att_assignment row') \<noteq> None" if "map_of (ro_attempts r') t' = Some row'" for t' row'
  proof (cases "t' = t")
    case True
    with that m row(1) new(2) show ?thesis by (simp add: r')
  next
    case False
    with that m have "map_of (ro_attempts r) t' = Some row'" by simp
    with ok known show ?thesis unfolding roles_ok_def by blast
  qed
  moreover have "distinct (map fst (ro_attempts r'))"
    using ok new(1) by (auto simp: r' roles_ok_def map_of_eq_None_iff)
  ultimately show "roles_ok r'"
    using ok each keys unfolding roles_ok_def r'(1) by blast
  have moved: "assignment_evolves a ?a"
  proof -
    have "(asg_state a, A_CLAIMED) \<in> assignment_moves\<^sup>*" by (rule assignment_move [of _ A_CLAIM]) (use queued in simp)
    with q show ?thesis by (simp add: assignment_evolves_def same_result_def)
  qed
  have "replaced r' t2" if "replaced r t2" for t2
  proof -
    from that new(1) have "t2 \<noteq> t" by (auto simp: replaced_def)
    with that a show ?thesis unfolding replaced_def m by (auto simp: r')
  qed
  moreover have "map_of (ro_attempts r') t' = Some row'" if "map_of (ro_attempts r) t' = Some row'" for t' row'
    using that new(1) by (auto simp: m)
  ultimately show "evolves r r'" using moved a unfolding evolves_def by (auto simp: r')
qed

end
