(* ===== verification/Role_Steps.thy ===== *)
theory Role_Steps
  imports Role_Invariant
begin

section \<open>Every operation of the role stores is lawful\<close>

text \<open>
  Each operation that succeeds keeps the tables well-formed and lets every row evolve. Cancellation is proved
  to succeed as well: the invariant gives it a session that can be parked and an attempt that can be closed.
\<close>

lemma lawfulI: "(roles_ok r \<Longrightarrow> lawful_roles r r') \<Longrightarrow> lawful_roles r r'"
  by (simp add: lawful_roles_def)

lemma lawful_ok: "lawful_roles r r' \<Longrightarrow> roles_ok r \<Longrightarrow> roles_ok r'"
  by (simp add: lawful_roles_def)

subsection \<open>Sessions\<close>

lemma lawful_new_session:
  assumes new: "map_of (ro_sessions r) i = None"
  shows "lawful_roles r (put_session i s r)"
  unfolding lawful_roles_def
proof (intro impI conjI)
  assume ok: "roles_ok r"
  have "session_ok (AList.update i s (ro_sessions r)) a" if a: "map_of (ro_assignments r) j = Some a" for j a
  proof -
    from ok a have "session_ok (ro_sessions r) a" by (simp add: roles_ok_def)
    with new show ?thesis by (auto simp: session_ok_def)
  qed
  with ok show "roles_ok (put_session i s r)" by (auto simp: roles_ok_def put_session_def distinct_update)
  show "evolves r (put_session i s r)"
    using new by (auto simp: evolves_def put_session_def replaced_def)
qed

lemma lawful_mode: "map_of (ro_sessions r) i = Some s \<Longrightarrow> lawful_roles r (put_session i (s\<lparr>se_mode := m\<rparr>) r)"
  by (rule lawful_session) (auto simp: session_evolves_def session_identity_def)

lemma ensure_session_lawful:
  assumes "ensure_role_session r q now = Inr (x, r')"
  shows "lawful_roles r r'"
  using assms by (auto simp: ensure_role_session_def Let_def intro: lawful_new_session lawful_mode split: if_split_asm option.splits)

lemma live_transition_lawful:
  "transition_role_session i act r = Inr r' \<Longrightarrow> act \<notin> {S_COMPLETE, S_CANCEL} \<Longrightarrow> lawful_roles r r'"
  by (rule lawful_transition) auto

lemma publish_session_lawful:
  assumes "publish_session_checkpoint r i token d = Inr (x, r')"
  shows "lawful_roles r r'"
proof -
  from assms obtain fs where "transition_role_session i S_INITIALIZE (r\<lparr>ro_checkpoints := fs\<rparr>) = Inr r'"
    unfolding publish_session_checkpoint_def by (auto simp: checkpoint_error_def split: option.splits)
  from live_transition_lawful [OF this] have "lawful_roles (r\<lparr>ro_checkpoints := fs\<rparr>) r'" by simp
  then show ?thesis by (rule lawful_roles_trans [rotated]) (rule lawful_roles_cong; simp)
qed

lemma invocation_lawful: "lawful_roles r (put_invocation i v r)"
  by (rule lawful_roles_cong) (simp_all add: put_invocation_def)

lemma invocation_status_lawful: "lawful_roles r (case map_of (ro_invocations r) i of None \<Rightarrow> r | Some v \<Rightarrow> put_invocation i (f v) r)"
  by (simp add: invocation_lawful split: option.split)

lemma close_session_lawful:
  assumes "close_session w r i target = Inr r'"
  shows "lawful_roles r r'"
proof -
  let ?r1 = "case map_of (ro_invocations r) i of None \<Rightarrow> r
    | Some v \<Rightarrow> put_invocation i (v\<lparr>iv_status := session_state_value target\<rparr>) r"
  have r1: "lawful_roles r ?r1" "ro_assignments ?r1 = ro_assignments r"
    by (rule invocation_status_lawful) (simp add: put_invocation_def split: option.split)
  from assms have closed: "asg_state a \<in> {A_SETTLED, A_CANCELLED}" if "(j, a) \<in> set (ro_assignments r)" "asg_session a = i" for j a
    using that unfolding close_session_def Let_def by (force split: if_split_asm)
  from assms have "r' = ?r1 \<or> transition_role_session i (if target = S_COMPLETED then S_COMPLETE else S_CANCEL) ?r1 = Inr r'"
    unfolding close_session_def Let_def by (auto split: if_split_asm)
  moreover have "lawful_roles ?r1 r'" if "transition_role_session i act ?r1 = Inr r'" for act
    by (rule lawful_transition [OF that]) (use closed r1(2) in \<open>force simp: open_states_def\<close>)
  ultimately show ?thesis using r1(1) lawful_roles_trans by fastforce
qed

lemma delete_checkpoint_lawful: "lawful_roles r (snd (delete_session_checkpoint i r))"
  by (rule lawful_roles_cong) (simp_all add: delete_session_checkpoint_def split: sum.split)

lemma outcome_cases:
  assumes "P r" "P (snd d)" "\<And>z. e = Inr z \<Longrightarrow> P (snd (f z))"
  shows "P (snd (if a then (x, r) else if b then (y, r) else if c then d
    else case e of Inl err \<Rightarrow> (Inl err, r) | Inr z \<Rightarrow> f z))"
  using assms by (cases e) simp_all

lemma complete_session_lawful: "lawful_roles r (snd (complete_role_session w r i status))"
  unfolding complete_role_session_def Let_def
  by (rule outcome_cases)
    (rule lawful_roles_refl delete_checkpoint_lawful lawful_roles_trans [OF close_session_lawful delete_checkpoint_lawful],
      assumption?)+

lemma complete_sessions_lawful: "lawful_roles r (snd (complete_sessions w r is status))"
proof (induction "is" arbitrary: r)
  case (Cons i "is")
  obtain x r' where c: "complete_role_session w r i status = (x, r')" by (cases "complete_role_session w r i status")
  obtain y r'' where d: "complete_sessions w r' is status = (y, r'')" by (cases "complete_sessions w r' is status")
  have "lawful_roles r r'" "lawful_roles r' r''"
    using complete_session_lawful [of r w i status] Cons.IH [of r'] c d by simp_all
  with c d show ?case by (auto split: sum.split intro: lawful_roles_trans)
qed simp

lemma reconcile_lawful: "lawful_roles r (snd (reconcile_checkpoints r))"
  by (rule lawful_roles_cong) (simp_all add: reconcile_checkpoints_def Let_def)

subsection \<open>Creation and claims\<close>

lemma create_lawful:
  assumes "create_role_assignment w r q now at = Inr (x, r')"
  shows "lawful_roles r r'"
proof -
  from assms obtain s where s: "map_of (ro_sessions r) (rr_session q) = Some s" "\<not> session_terminal (se_status s)"
    and "r' = r \<or> insert_assignment (request_id (rw_digest w) q) (assignment_row w q now) r = Inr r'"
    unfolding create_role_assignment_def by (auto simp: Let_def split: option.splits if_split_asm)
  then show ?thesis
    by (elim disjE) (auto intro!: lawful_create [where s = s] simp: assignment_row_def)
qed

lemma attempt_id_nonempty: "attempt_id digest i n = Inr t \<Longrightarrow> t \<noteq> []"
  by (auto simp: attempt_id_def semantic_id_def split: if_split_asm)

lemma record_binding_tables:
  assumes "record_binding r i a t b = Inr r'"
  shows "ro_sessions r' = ro_sessions r" "ro_assignments r' = ro_assignments r" "ro_attempts r' = ro_attempts r"
  using assms unfolding record_binding_def record_business_lease_def
  by (auto simp: Let_def split: pyval.splits option.splits if_split_asm)

lemma update_session_lawful:
  assumes "\<And>s. session_evolves s (f s) \<and> se_status (f s) = se_status s"
  shows "lawful_roles r (update_session i f r)"
  using assms by (auto simp: update_session_def intro!: lawful_session split: option.split)

lemma claim_role_lawful:
  assumes "claim_role_assignment w r i harness generation b now at = Inr (x, r')"
  shows "lawful_roles r r'"
proof -
  let ?f = "\<lambda>se. se\<lparr>se_harness := or_pal harness, se_generation := generation\<rparr>"
  let ?row = "new_attempt i (next_index r i) harness generation now"
  from assms obtain a t rows r1 where a: "map_of (ro_assignments r) i = Some a" "asg_state a \<in> {A_QUEUED, A_RETRY_QUEUED}"
    and t: "attempt_id (rw_digest w) i (int (next_index r i)) = Inr t" "insert_row t ?row (ro_attempts r) = Inr rows"
    and r1: "record_binding (r\<lparr>ro_attempts := rows\<rparr>) i a t (effective_binding (asg_spec a) b) = Inr r1"
    and r': "r' = update_session (asg_session a) ?f
      (put_assignment i (a\<lparr>asg_state := A_CLAIMED, asg_active := t, asg_error := []\<rparr>) r1)"
    unfolding claim_role_assignment_def find_assignment_def by (auto simp: Let_def split: option.splits if_split_asm)
  have new: "map_of (ro_attempts r) t = None" "rows = ro_attempts r @ [(t, ?row)]"
    using t(2) by (auto simp: insert_row_def split: if_split_asm option.splits)
  have "lawful_roles r (put_assignment i (a\<lparr>asg_state := A_CLAIMED, asg_active := t, asg_error := []\<rparr>) r1)"
    by (rule lawful_claim [OF a(1) new(1) attempt_id_nonempty [OF t(1)], where row = ?row])
      (use a(2) new(2) record_binding_tables [OF r1] in \<open>simp_all add: new_attempt_def put_assignment_def\<close>)
  moreover have "lawful_roles r0 (update_session (asg_session a) ?f r0)" for r0
    by (rule update_session_lawful) (simp add: session_evolves_def session_identity_def)
  ultimately show ?thesis unfolding r' by (rule lawful_roles_trans)
qed

subsection \<open>Work on an assignment\<close>

lemma active_attemptD:
  assumes "active_attempt r i t = Inr (a, row)"
  shows "map_of (ro_assignments r) i = Some a" "map_of (ro_attempts r) t = Some row" "att_assignment row = i" "asg_active a = t"
  using assms by (auto simp: active_attempt_def find_assignment_def split: option.splits if_split_asm)

lemma not_recorded: "roles_ok r \<Longrightarrow> map_of (ro_assignments r) i = Some a \<Longrightarrow> asg_state a \<notin> {A_RESULT_RECORDED, A_SETTLED}
    \<Longrightarrow> asg_result_hash a = [] \<and> asg_result_ref a = []"
  unfolding roles_ok_def receipt_fits_def by metis

text \<open>The active attempt moves its assignment; the leases, witnesses and checkpoints do not matter.\<close>

definition same_roles :: "RoleTables \<Rightarrow> RoleTables \<Rightarrow> bool" where
  "same_roles r r' \<longleftrightarrow> ro_sessions r' = ro_sessions r \<and> ro_assignments r' = ro_assignments r \<and> ro_attempts r' = ro_attempts r"

lemma same_roles_refl [simp]: "same_roles r r"
  by (simp add: same_roles_def)

lemma same_roles_lawful: "same_roles r r' \<Longrightarrow> lawful_roles r r'"
  unfolding same_roles_def by (elim conjE, rule lawful_roles_cong)

lemma record_binding_same: "record_binding r i a t b = Inr r' \<Longrightarrow> same_roles r r'"
  using record_binding_tables by (simp add: same_roles_def)

lemma drop_lease_same: "same_roles r (drop_attempt_lease t row r)"
  by (simp add: same_roles_def drop_attempt_lease_def drop_lease_def)

lemma put_commutes [simp]: "put_attempt t x (put_assignment i y r) = put_assignment i y (put_attempt t x r)"
  by (simp add: put_attempt_def put_assignment_def)

lemma work_lawful:
  assumes act: "active_attempt r i t = Inr (a, row)" and r1: "same_roles r r1"
    and q: "request_of a' = request_of a" "asg_active a' = asg_active a"
    and move: "role_assignment_target (asg_state a) m = Inr (asg_state a')" "asg_state a \<in> open_states"
    and row: "attempt_evolves row row'" "att_status row' \<in> fitting (asg_state a')"
    and receipt: "receipt_fits a'" "asg_result_ref a \<noteq> [] \<longrightarrow> same_result a a'"
  shows "lawful_roles r (put_assignment i a' (put_attempt t row' r1))"
  by (rule lawful_work [OF active_attemptD [OF act], where a' = a' and row' = row'])
    (use assms active_attemptD(4) [OF act] assignment_move [OF move(1)] in
      \<open>simp_all add: put_assignment_def put_attempt_def same_roles_def\<close>)

lemma start_lawful:
  assumes "start_role_attempt w r i t resource token prompt b at = Inr (x, r')"
  shows "lawful_roles r r'"
proof (rule lawfulI)
  assume ok: "roles_ok r"
  from assms obtain a row r1 where act: "active_attempt r i t = Inr (a, row)" and s: "asg_state a = A_CLAIMED"
    and r1: "record_binding r i a t (effective_binding (asg_spec a) b) = Inr r1"
    and r': "transition_role_session (asg_session a) S_ACTIVATE (put_assignment i (a\<lparr>asg_state := A_RUNNING\<rparr>) (put_attempt t
      (row\<lparr>att_resource := resource, att_token := token, att_status := T_RUNNING, att_prompt := prompt\<rparr>) r1)) = Inr r'"
    unfolding start_role_attempt_def by (auto simp: Let_def split: if_split_asm)
  have "lawful_roles r (put_assignment i (a\<lparr>asg_state := A_RUNNING\<rparr>) (put_attempt t
      (row\<lparr>att_resource := resource, att_token := token, att_status := T_RUNNING, att_prompt := prompt\<rparr>) r1))"
    by (rule work_lawful [OF act record_binding_same [OF r1], where m = A_START])
      (use s not_recorded [OF ok active_attemptD(1) [OF act]] in
        \<open>simp_all add: request_of_def open_states_def receipt_fits_def attempt_evolves_def\<close>)
  also have "lawful_roles \<dots> r'" using live_transition_lawful [OF r'] by simp
  finally show "lawful_roles r r'" .
qed

lemma initial_checkpoint_lawful:
  "publish_initial_checkpoint r i t token content at = Inr (x, r') \<Longrightarrow> lawful_roles r r'"
  unfolding publish_initial_checkpoint_def
  by (cases content; cases "the content") (auto simp: checkpoint_error_def split: if_split_asm intro: publish_session_lawful)

lemma attempt_lawful:
  assumes "active_attempt r i t = Inr (a, row)" and "attempt_evolves row row'" "att_status row' = att_status row"
  shows "lawful_roles r (put_attempt t row' r)"
  by (rule lawful_attempt [OF active_attemptD [OF assms(1)] assms(2,3)])

lemma harness_lawful: "write_harness_state w r i t token state at = Inr (x, r') \<Longrightarrow> lawful_roles r r'"
  unfolding write_harness_state_def
  by (auto split: if_split_asm intro!: attempt_lawful simp: attempt_evolves_def)

lemma issue_lawful: "issue_access_token w r i t token access at = Inr (x, r') \<Longrightarrow> lawful_roles r r'"
  unfolding issue_access_token_def
  by (auto split: if_split_asm intro!: attempt_lawful simp: attempt_evolves_def)

subsection \<open>Results\<close>

text \<open>The status of the attempt that is active for an assignment of a well-formed table.\<close>

lemma active_fits:
  assumes "roles_ok r" and "active_attempt r i t = Inr (a, row)"
  shows "att_status row \<in> fitting (asg_state a)" "receipt_fits a" "t \<noteq> []"
proof -
  note own = active_attemptD [OF assms(2)]
  show "t \<noteq> []" "receipt_fits a" using assms(1) own by (auto simp: roles_ok_def)
  from assms(1) own(1) have "attempts_ok (ro_attempts r) i a" by (simp add: roles_ok_def)
  with own \<open>t \<noteq> []\<close> show "att_status row \<in> fitting (asg_state a)" by (auto simp: attempts_ok_def split: if_split_asm)
qed

lemma strip_nonempty: "strip h \<noteq> [] \<Longrightarrow> h \<noteq> []"
  by (auto simp: strip_def)

lemma submission_lawful:
  assumes "record_role_submission w r i t token ref hash settlement checks at = Inr (x, r')"
  shows "lawful_roles r r'"
proof (cases "r' = r")
  case False
  with assms obtain a row where act: "active_attempt r i t = Inr (a, row)" and s: "asg_state a = A_RUNNING"
    and h: "strip hash \<noteq> []" and empty: "asg_result_ref a = []"
    and r': "r' = put_attempt t (row\<lparr>att_status := T_SUBMITTED, att_response := ref\<rparr>) (put_assignment i
      (a\<lparr>asg_state := A_RESULT_RECORDED, asg_result_ref := ref, asg_result_hash := hash, asg_settlement := settlement\<rparr>) r)"
    unfolding record_role_submission_def by (auto simp: Let_def split: if_split_asm)
  show ?thesis
    unfolding r' put_commutes
    by (rule work_lawful [OF act same_roles_refl, where m = A_RECORD_RESULT])
      (use s empty strip_nonempty [OF h] in
        \<open>simp_all add: request_of_def open_states_def receipt_fits_def attempt_evolves_def\<close>)
qed simp

lemma retry_role_lawful:
  assumes "queue_role_attempt_retry r i t kind message now = Inr (x, r')"
  shows "lawful_roles r r'"
proof (cases "r' = r")
  case False
  show ?thesis
  proof (rule lawfulI)
    assume ok: "roles_ok r"
    from assms False obtain a row where act: "active_attempt r i t = Inr (a, row)" and s: "asg_state a \<in> {A_CLAIMED, A_RUNNING}"
      and r': "r' = put_assignment i (a\<lparr>asg_state := A_RETRY_QUEUED, asg_error := message\<rparr>) (put_attempt t
        (row\<lparr>att_status := T_LOST, att_error_kind := kind, att_error := message, att_finished := now\<rparr>) r)"
      unfolding queue_role_attempt_retry_def by (auto simp: Let_def split: if_split_asm)
    show "lawful_roles r r'"
      unfolding r'
      by (rule work_lawful [OF act same_roles_refl, where m = A_QUEUE_RETRY])
        (use s not_recorded [OF ok active_attemptD(1) [OF act]] in
          \<open>auto simp: request_of_def open_states_def receipt_fits_def attempt_evolves_def\<close>)
  qed
qed simp

lemma failure_lawful:
  assumes "record_role_failure w r i t kind message ref hash settlement now = Inr (x, r')"
  shows "lawful_roles r r'"
proof (cases "r' = r")
  case False
  let ?row = "\<lambda>row. row\<lparr>att_status := T_FAILED, att_error_kind := kind, att_error := message, att_response := ref,
    att_access := [], att_finished := now\<rparr>"
  let ?a = "\<lambda>a. a\<lparr>asg_state := A_RESULT_RECORDED, asg_result_ref := ref, asg_result_hash := hash,
    asg_settlement := settlement, asg_error := message\<rparr>"
  from assms False obtain a row where act: "active_attempt r i t = Inr (a, row)" and h: "strip hash \<noteq> []"
    and s: "asg_state a \<in> {A_CLAIMED, A_RUNNING, A_RETRY_QUEUED, A_RESULT_RECORDED}" and empty: "asg_result_ref a = []"
    and r': "transition_role_session (asg_session a) S_PARK
      (drop_attempt_lease t row (put_assignment i (?a a) (put_attempt t (?row row) r))) = Inr r'"
    unfolding record_role_failure_def by (auto simp: Let_def split: if_split_asm)
  have "lawful_roles r (put_assignment i (?a a) (put_attempt t (?row row) r))"
    by (rule work_lawful [OF act same_roles_refl, where m = A_RECORD_RESULT])
      (use s empty strip_nonempty [OF h] in
        \<open>auto simp: request_of_def open_states_def receipt_fits_def attempt_evolves_def\<close>)
  also have "lawful_roles \<dots> (drop_attempt_lease t row \<dots>)" by (rule same_roles_lawful [OF drop_lease_same])
  also have "lawful_roles \<dots> r'" using live_transition_lawful [OF r'] by simp
  finally show ?thesis .
qed simp

subsection \<open>Settlement\<close>

lemma transition_assignments: "transition_role_session j act r = Inr r' \<Longrightarrow> ro_assignments r' = ro_assignments r"
  by (auto simp: transition_role_session_def put_session_def split: option.splits)

text \<open>An assignment with a recorded result has an active attempt and a session that can be parked.\<close>

lemma open_session:
  assumes "roles_ok r" and "map_of (ro_assignments r) i = Some a" and "asg_state a \<in> open_states"
    and "same_roles r r1 \<or> ro_sessions r1 = ro_sessions r" and "act \<in> {S_PARK, S_ACTIVATE, S_SUSPEND, S_INITIALIZE}"
  shows "\<exists>r'. transition_role_session (asg_session a) act r1 = Inr r'"
proof -
  from assms(1,2) have "session_ok (ro_sessions r) a" by (simp add: roles_ok_def)
  with assms(3) obtain s where s: "map_of (ro_sessions r) (asg_session a) = Some s" "\<not> session_terminal (se_status s)"
    by (auto simp: session_ok_def)
  from assms(4) s(1) have "map_of (ro_sessions r1) (asg_session a) = Some s" by (auto simp: same_roles_def)
  from transition_total [OF this s(2) assms(5)] show ?thesis .
qed

lemma worked_active:
  assumes "roles_ok r" and "map_of (ro_assignments r) i = Some a" and "asg_active a \<noteq> []"
  obtains row where "active_attempt r i (asg_active a) = Inr (a, row)"
proof -
  from assms have "attempts_ok (ro_attempts r) i a" by (simp add: roles_ok_def)
  with assms that show ?thesis by (auto simp: attempts_ok_def active_attempt_def find_assignment_def)
qed

lemma idle_states:
  "roles_ok r \<Longrightarrow> map_of (ro_assignments r) i = Some a \<Longrightarrow> asg_active a = [] \<Longrightarrow> asg_state a \<in> {A_QUEUED, A_CANCELLED}"
  unfolding roles_ok_def attempts_ok_def by metis

lemma put_assignment_rows [simp]:
  "ro_assignments (put_assignment i a r) = AList.update i a (ro_assignments r)"
  "ro_assignments (put_attempt t row r) = ro_assignments r"
  "ro_assignments (drop_attempt_lease t row r) = ro_assignments r"
  "ro_sessions (put_assignment i a r) = ro_sessions r"
  "ro_sessions (put_attempt t row r) = ro_sessions r"
  "ro_sessions (drop_attempt_lease t row r) = ro_sessions r"
  by (simp_all add: put_assignment_def put_attempt_def drop_attempt_lease_def drop_lease_def)

definition settled_row :: "string \<Rightarrow> RoleAttempt \<Rightarrow> RoleAttempt" where
  "settled_row now row = row\<lparr>att_status := (if att_status row = T_SUBMITTED then T_COMPLETED else att_status row),
     att_access := [], att_finished := now\<rparr>"

lemma finish_release:
  assumes "map_of (ro_attempts r) t = Some row"
  shows "release_attempt t (finish_attempt t now (put_assignment i a r))
    = drop_attempt_lease t (settled_row now row) (put_assignment i a (put_attempt t (settled_row now row) r))"
proof -
  have "finish_attempt t now (put_assignment i a r) = put_assignment i a (put_attempt t (settled_row now row) r)"
    using assms by (simp add: finish_attempt_def update_attempt_def settled_row_def put_assignment_def put_attempt_def)
  then show ?thesis by (simp add: release_attempt_def put_attempt_def put_assignment_def)
qed

lemma settle_total:
  assumes ok: "roles_ok r" and a: "map_of (ro_assignments r) i = Some a" "asg_state a = A_RESULT_RECORDED"
    and target: "flow = [] \<and> ty = [] \<and> agg = [] \<or> (flow, ty, agg) = (asg_workflow a, asg_type a, asg_aggregate a)"
  obtains r' where "settle_assignment r i (asg_result_hash a) flow ty agg now = Inr r'" "lawful_roles r r'"
    "map_of (ro_assignments r') = (map_of (ro_assignments r))(i \<mapsto> a\<lparr>asg_state := A_SETTLED\<rparr>)"
proof -
  have "asg_active a \<noteq> []" using idle_states [OF ok a(1)] a(2) by auto
  then obtain row where act: "active_attempt r i (asg_active a) = Inr (a, row)" by (rule worked_active [OF ok a(1)])
  let ?t = "asg_active a" and ?a = "a\<lparr>asg_state := A_SETTLED\<rparr>" and ?row = "settled_row now row"
  let ?mid = "put_assignment i ?a (put_attempt ?t ?row r)"
  note fits = active_fits [OF ok act]
  have "lawful_roles r ?mid"
    by (rule work_lawful [OF act same_roles_refl, where m = A_SETTLE])
      (use a(2) fits in \<open>auto simp: settled_row_def request_of_def open_states_def receipt_fits_def attempt_evolves_def same_result_def\<close>)
  also have "lawful_roles \<dots> (drop_attempt_lease ?t ?row ?mid)" (is "lawful_roles _ ?released")
    by (rule same_roles_lawful [OF drop_lease_same])
  finally have mid: "lawful_roles r ?released" .
  obtain r' where r': "transition_role_session (asg_session a) (settlement_session_action a) ?released = Inr r'"
  proof -
    have "settlement_session_action a \<in> {S_PARK, S_ACTIVATE, S_SUSPEND, S_INITIALIZE}"
      by (simp add: settlement_session_action_def)
    with open_session [OF ok a(1), of ?released "settlement_session_action a"] a(2) that show ?thesis
      by (auto simp: open_states_def)
  qed
  have "settle_assignment r i (asg_result_hash a) flow ty agg now = Inr r'"
    using a target r' finish_release [OF active_attemptD(2) [OF act], of now i ?a]
    by (auto simp: settle_assignment_def find_assignment_def)
  moreover have "lawful_roles r r'"
    using live_transition_lawful [OF r'] by (intro lawful_roles_trans [OF mid]) (simp add: settlement_session_action_def)
  moreover have "map_of (ro_assignments r') = (map_of (ro_assignments r))(i \<mapsto> ?a)"
    by (simp add: transition_assignments [OF r'])
  ultimately show ?thesis by (rule that)
qed

lemma settle_lawful:
  assumes "settle_assignment r i hash flow ty agg now = Inr r'"
  shows "lawful_roles r r'"
proof (cases "r' = r")
  case False
  show ?thesis
  proof (rule lawfulI)
    assume ok: "roles_ok r"
    from assms False obtain a where a: "map_of (ro_assignments r) i = Some a" "asg_state a = A_RESULT_RECORDED"
      "hash = asg_result_hash a" "flow = [] \<and> ty = [] \<and> agg = [] \<or> (flow, ty, agg) = (asg_workflow a, asg_type a, asg_aggregate a)"
      unfolding settle_assignment_def find_assignment_def by (auto split: option.splits if_split_asm)
    from settle_total [OF ok a(1,2,4), of now] obtain r1 where
      "settle_assignment r i (asg_result_hash a) flow ty agg now = Inr r1" "lawful_roles r r1" .
    with assms a(3) show "lawful_roles r r'" by simp
  qed
qed simp

subsection \<open>Cancellation\<close>

lemma set_error_lawful: 
  assumes "map_of (ro_assignments r) i = Some a" "asg_state a = A_SETTLED"
  shows "lawful_roles r (set_error i reason r)"
proof (rule lawfulI)
  assume ok: "roles_ok r"
  have "asg_active a \<noteq> []" using idle_states [OF ok assms(1)] assms(2) by auto
  then obtain row where act: "active_attempt r i (asg_active a) = Inr (a, row)" by (rule worked_active [OF ok assms(1)])
  have "lawful_roles r (put_assignment i (a\<lparr>asg_error := reason\<rparr>) (put_attempt (asg_active a) row r))"
    using assms(2) active_fits [OF ok act]
    by (intro lawful_work [OF active_attemptD [OF act], where a' = "a\<lparr>asg_error := reason\<rparr>" and row' = row])
      (auto simp: put_assignment_def put_attempt_def request_of_def open_states_def receipt_fits_def same_result_def)
  moreover have "put_attempt (asg_active a) row r = r"
    using active_attemptD(2) [OF act] by (simp add: put_attempt_def update_triv)
  ultimately show "lawful_roles r (set_error i reason r)" using assms(1) by (simp add: set_error_def)
qed

text \<open>Cancelling one open assignment succeeds, closes it and leaves the others alone.\<close>

definition closes :: "string \<Rightarrow> RoleTables \<Rightarrow> RoleTables \<Rightarrow> bool" where
  "closes i r r' \<longleftrightarrow> lawful_roles r r' \<and> (\<forall>j. j \<noteq> i \<longrightarrow> map_of (ro_assignments r') j = map_of (ro_assignments r) j)
     \<and> (\<exists>a'. map_of (ro_assignments r') i = Some a' \<and> asg_state a' \<in> {A_SETTLED, A_CANCELLED})"

lemma cancel_attempt_known:
  "map_of (ro_attempts r) t = Some row \<Longrightarrow> cancel_attempt t reason now r = drop_attempt_lease t row (put_attempt t
     (row\<lparr>att_status := T_CANCELLED, att_access := [], att_error_kind := ''aggregate_control'', att_error := reason,
      att_finished := now\<rparr>) r)"
  by (simp add: cancel_attempt_def)

lemma put_drop: "put_assignment i a (drop_attempt_lease t row r) = drop_attempt_lease t row (put_assignment i a r)"
  by (simp add: put_assignment_def drop_attempt_lease_def drop_lease_def)

lemma cancel_recorded:
  assumes ok: "roles_ok r" and a: "map_of (ro_assignments r) i = Some a" "asg_state a = A_RESULT_RECORDED"
  shows "\<exists>r'. cancel_one reason now (i, a) r = Inr r' \<and> closes i r r'"
proof -
  obtain r1 where r1: "settle_assignment r i (asg_result_hash a) [] [] [] now = Inr r1" "lawful_roles r r1"
    "map_of (ro_assignments r1) = (map_of (ro_assignments r))(i \<mapsto> a\<lparr>asg_state := A_SETTLED\<rparr>)"
    by (rule settle_total [OF ok a, of "[]" "[]" "[]" now]) simp
  have "cancel_one reason now (i, a) r = Inr (set_error i reason r1)" using r1(1) a(2) by (simp add: cancel_one_def)
  moreover have "lawful_roles r (set_error i reason r1)"
    by (rule lawful_roles_trans [OF r1(2) set_error_lawful [where a = "a\<lparr>asg_state := A_SETTLED\<rparr>"]]) (simp_all add: r1(3))
  ultimately show ?thesis using r1(3) by (simp add: closes_def set_error_def)
qed

lemma cancel_open:
  assumes ok: "roles_ok r" and a: "map_of (ro_assignments r) i = Some a" "asg_state a \<in> {A_QUEUED, A_CLAIMED, A_RUNNING, A_RETRY_QUEUED}"
  shows "\<exists>r'. cancel_one reason now (i, a) r = Inr r' \<and> closes i r r'"
proof -
  let ?a = "a\<lparr>asg_state := A_CANCELLED, asg_error := reason\<rparr>"
  let ?mid = "put_assignment i ?a (if asg_active a \<noteq> [] then cancel_attempt (asg_active a) reason now r else r)"
  have mid: "lawful_roles r ?mid \<and> ro_sessions ?mid = ro_sessions r
    \<and> map_of (ro_assignments ?mid) = (map_of (ro_assignments r))(i \<mapsto> ?a)"
  proof (cases "asg_active a = []")
    case True
    with lawful_unclaimed [OF a(1) True, of reason] idle_states [OF ok a(1) True] a(2) show ?thesis by auto
  next
    case False
    then obtain row where act: "active_attempt r i (asg_active a) = Inr (a, row)" by (rule worked_active [OF ok a(1)])
    let ?row = "row\<lparr>att_status := T_CANCELLED, att_access := [], att_error_kind := ''aggregate_control'', att_error := reason,
      att_finished := now\<rparr>"
    have m: "?mid = drop_attempt_lease (asg_active a) row (put_assignment i ?a (put_attempt (asg_active a) ?row r))"
      using False by (simp add: cancel_attempt_known [OF active_attemptD(2) [OF act]] put_drop)
    have "lawful_roles r (put_assignment i ?a (put_attempt (asg_active a) ?row r))"
      by (rule work_lawful [OF act same_roles_refl, where m = A_CANCEL])
        (use a(2) not_recorded [OF ok a(1)] in \<open>auto simp: request_of_def open_states_def receipt_fits_def attempt_evolves_def\<close>)
    from lawful_roles_trans [OF this same_roles_lawful [OF drop_lease_same]] show ?thesis unfolding m by simp
  qed
  have opened: "asg_state a \<in> open_states" using a(2) by (auto simp: open_states_def)
  obtain r' where r': "transition_role_session (asg_session a) S_PARK ?mid = Inr r'"
    using open_session [OF ok a(1) opened, of ?mid S_PARK] mid by blast
  have "lawful_roles ?mid r'" using live_transition_lawful [OF r'] by simp
  with mid have "lawful_roles r r'" using lawful_roles_trans by blast
  moreover have "cancel_one reason now (i, a) r = Inr r'" using a(2) r' by (auto simp: cancel_one_def)
  moreover have "map_of (ro_assignments r') = (map_of (ro_assignments r))(i \<mapsto> ?a)"
    using mid transition_assignments [OF r'] by simp
  ultimately show ?thesis by (simp add: closes_def)
qed

lemma cancel_one_total:
  assumes "roles_ok r" and "map_of (ro_assignments r) i = Some a" and "asg_state a \<in> open_states"
  shows "\<exists>r'. cancel_one reason now (i, a) r = Inr r' \<and> closes i r r'"
  using cancel_recorded [OF assms(1,2)] cancel_open [OF assms(1,2)] assms(3)
  by (auto simp: open_states_def)

end
