(* ===== verification/Role_History.thy ===== *)
theory Role_History
  imports Role_Steps
begin

section \<open>Histories of the role stores\<close>

subsection \<open>Cancelling all open assignments of an aggregate\<close>

lemma cancel_rows_total:
  assumes "roles_ok r" and "distinct (map fst rows)"
    and "\<forall>(i, a) \<in> set rows. map_of (ro_assignments r) i = Some a \<and> asg_state a \<in> open_states"
  shows "\<exists>r'. cancel_rows reason now rows r = Inr r' \<and> lawful_roles r r'
    \<and> (\<forall>j. j \<notin> fst ` set rows \<longrightarrow> map_of (ro_assignments r') j = map_of (ro_assignments r) j)
    \<and> (\<forall>i \<in> fst ` set rows. \<exists>a'. map_of (ro_assignments r') i = Some a' \<and> asg_state a' \<in> {A_SETTLED, A_CANCELLED})"
  using assms
proof (induction rows arbitrary: r)
  case (Cons row rows)
  obtain i a where row: "row = (i, a)" by (cases row)
  with Cons.prems have "map_of (ro_assignments r) i = Some a" "asg_state a \<in> open_states" by auto
  from cancel_one_total [OF Cons.prems(1) this, of reason now] obtain r1 where
    r1: "cancel_one reason now (i, a) r = Inr r1" and c: "closes i r r1" by blast
  have fresh: "i \<notin> fst ` set rows" using Cons.prems(2) row by simp
  have kept: "map_of (ro_assignments r1) j = map_of (ro_assignments r) j" if "j \<noteq> i" for j
    using c that by (simp add: closes_def)
  have "\<forall>(j, b) \<in> set rows. map_of (ro_assignments r1) j = Some b \<and> asg_state b \<in> open_states"
  proof (clarify)
    fix j b assume "(j, b) \<in> set rows"
    with fresh have "j \<noteq> i" by force
    with \<open>(j, b) \<in> set rows\<close> Cons.prems(3) kept show "map_of (ro_assignments r1) j = Some b \<and> asg_state b \<in> open_states"
      by fastforce
  qed
  moreover have "roles_ok r1" using c Cons.prems(1) by (simp add: closes_def lawful_roles_def)
  ultimately obtain r' where r': "cancel_rows reason now rows r1 = Inr r'" "lawful_roles r1 r'"
    and others: "\<forall>j. j \<notin> fst ` set rows \<longrightarrow> map_of (ro_assignments r') j = map_of (ro_assignments r1) j"
    and closed: "\<forall>i \<in> fst ` set rows. \<exists>a'. map_of (ro_assignments r') i = Some a' \<and> asg_state a' \<in> {A_SETTLED, A_CANCELLED}"
    using Cons.IH [of r1] Cons.prems(2) by auto
  have "lawful_roles r r'" using c r'(2) lawful_roles_trans unfolding closes_def by blast
  moreover have "\<exists>a'. map_of (ro_assignments r') i = Some a' \<and> asg_state a' \<in> {A_SETTLED, A_CANCELLED}"
    using others fresh c by (simp add: closes_def)
  ultimately show ?case using r1 r'(1) others closed kept by (auto simp: row)
qed simp

lemma by_creation_set [simp]: "set (by_creation created rows) = set rows"
  by (simp add: by_creation_def)

lemma by_creation_distinct: "distinct (map fst rows) \<Longrightarrow> distinct (map fst (by_creation created rows))"
  by (simp add: by_creation_def distinct_map)

lemma to_cancel_rows:
  assumes ok: "roles_ok r"
  shows "distinct (map fst (to_cancel r flow ty agg exclude ids))"
    and "\<forall>(i, a) \<in> set (to_cancel r flow ty agg exclude ids). map_of (ro_assignments r) i = Some a \<and> asg_state a \<in> open_states"
proof -
  from ok have d: "distinct (map fst (ro_assignments r))" by (simp add: roles_ok_def keys_ok_def)
  then show "distinct (map fst (to_cancel r flow ty agg exclude ids))"
    unfolding to_cancel_def by (intro by_creation_distinct distinct_map_filter)
  show "\<forall>(i, a) \<in> set (to_cancel r flow ty agg exclude ids). map_of (ro_assignments r) i = Some a \<and> asg_state a \<in> open_states"
    using d by (auto simp: to_cancel_def open_states_def)
qed

lemma cancel_total:
  assumes ok: "roles_ok r"
  obtains rows r' where "cancel_role_assignments r flow ty agg reason exclude ids now = Inr (rows, r')"
    "lawful_roles r r'" "\<forall>i a. map_of (ro_assignments r) i = Some a \<and> asg_workflow a = flow \<and> asg_type a = ty \<and> asg_aggregate a = agg
      \<and> i \<noteq> exclude \<and> asg_state a \<in> open_states \<and> (case ids of None \<Rightarrow> True | Some js \<Rightarrow> i \<in> set js) \<longrightarrow>
      (\<exists>a'. map_of (ro_assignments r') i = Some a' \<and> asg_state a' \<in> {A_SETTLED, A_CANCELLED})"
    "\<forall>i. i \<notin> fst ` set (to_cancel r flow ty agg exclude ids) \<longrightarrow> map_of (ro_assignments r') i = map_of (ro_assignments r) i"
proof (cases "ids = Some []")
  case True
  with that [of "[]" r] show ?thesis by (simp add: cancel_role_assignments_def)
next
  case False
  let ?rows = "to_cancel r flow ty agg exclude ids"
  from cancel_rows_total [OF ok to_cancel_rows [OF ok], of reason now flow ty agg exclude ids]
  obtain r' where r': "cancel_rows reason now ?rows r = Inr r'" "lawful_roles r r'"
    and others: "\<forall>i. i \<notin> fst ` set ?rows \<longrightarrow> map_of (ro_assignments r') i = map_of (ro_assignments r) i"
    and closed: "\<forall>i \<in> fst ` set ?rows. \<exists>a'. map_of (ro_assignments r') i = Some a' \<and> asg_state a' \<in> {A_SETTLED, A_CANCELLED}"
    by blast
  have listed: "i \<in> fst ` set ?rows"
    if "map_of (ro_assignments r) i = Some a" "asg_workflow a = flow" "asg_type a = ty" "asg_aggregate a = agg" "i \<noteq> exclude"
      "asg_state a \<in> open_states" "case ids of None \<Rightarrow> True | Some js \<Rightarrow> i \<in> set js" for i a
  proof -
    have "(i, a) \<in> set ?rows" using that map_of_SomeD [OF that(1)] by (simp add: to_cancel_def open_states_def)
    then show ?thesis by force
  qed
  show ?thesis
    by (rule that [OF _ r'(2) _ others], use False r'(1) in \<open>simp add: cancel_role_assignments_def Let_def\<close>)
      (use listed closed in blast)
qed

lemma cancel_lawful:
  "cancel_role_assignments r flow ty agg reason exclude ids now = Inr (x, r') \<Longrightarrow> lawful_roles r r'"
proof (rule lawfulI)
  assume c: "cancel_role_assignments r flow ty agg reason exclude ids now = Inr (x, r')" and ok: "roles_ok r"
  from cancel_total [OF ok, of flow ty agg reason exclude ids now] obtain rows r1 where
    "cancel_role_assignments r flow ty agg reason exclude ids now = Inr (rows, r1)" "lawful_roles r r1" .
  with c show "lawful_roles r r'" by simp
qed

subsection \<open>Invocations\<close>

lemma record_invocation_lawful: "record_role_invocation w r i v prompt at = Inr (x, r') \<Longrightarrow> lawful_roles r r'"
  by (auto simp: record_role_invocation_def invocation_lawful)

lemma suspend_invocation_lawful: "suspend_role_invocation w r i token status at = Inr (x, r') \<Longrightarrow> lawful_roles r r'"
  unfolding suspend_role_invocation_def Let_def
  by (auto split: if_split_asm intro!: lawful_roles_trans [OF invocation_lawful live_transition_lawful])

lemma finish_invocation_lawful: "finish_role_invocation w r i token status at = Inr (x, r') \<Longrightarrow> lawful_roles r r'"
  unfolding finish_role_invocation_def Let_def by (auto simp: invocation_lawful split: if_split_asm)

subsection \<open>Operations\<close>

text \<open>
  One constructor per public operation. An assignment is requested by an object whose constructor has checked
  it. The leases move by their own operations between those of the roles.
\<close>

datatype role_op =
    EnsureSession SessionRequest string
  | PublishCheckpoint string int pydict
  | CompleteSession RoleWorld string string
  | CompleteWorkflow RoleWorld string string
  | ReconcileCheckpoints
  | ReconcileTerminal RoleWorld
  | CreateAssignment RoleWorld RoleAssignmentRequest string int
  | ClaimAssignment RoleWorld string string string "pydict option" string int
  | StartAttempt RoleWorld string string string int pydict "pydict option" int
  | InitialCheckpoint string string int "pyval option" int
  | WriteHarness RoleWorld string string int pydict int
  | IssueToken RoleWorld string string int string int
  | RecordSubmission RoleWorld string string int pydict string pydict "unit res" int
  | SettleRole string string string string string string
  | QueueRetry string string string string string
  | RecordFailure RoleWorld string string string string pydict string pydict string
  | CancelAssignments string string string string string "string list option" string
  | RecordInvocation RoleWorld string RoleInvocation pydict int
  | SuspendInvocation RoleWorld string int string int
  | FinishInvocation RoleWorld string int string int
  | LeaseStep lease_op

definition settled :: "RoleTables \<Rightarrow> RoleTables res \<Rightarrow> RoleTables" where
  "settled r x = (case x of Inl e \<Rightarrow> r | Inr r' \<Rightarrow> r')"

fun role_step :: "RoleTables \<Rightarrow> role_op \<Rightarrow> RoleTables" where
  "role_step r (EnsureSession q now) = after r (ensure_role_session r q now)"
| "role_step r (PublishCheckpoint i token d) = after r (publish_session_checkpoint r i token d)"
| "role_step r (CompleteSession w i status) = snd (complete_role_session w r i status)"
| "role_step r (CompleteWorkflow w flow status) = snd (complete_workflow_sessions w r flow status)"
| "role_step r ReconcileCheckpoints = snd (reconcile_checkpoints r)"
| "role_step r (ReconcileTerminal w) = snd (reconcile_terminal_roles w r)"
| "role_step r (CreateAssignment w q now at) =
     (if request_post_init q = Inr () then after r (create_role_assignment w r q now at) else r)"
| "role_step r (ClaimAssignment w i harness generation b now at) = after r (claim_role_assignment w r i harness generation b now at)"
| "role_step r (StartAttempt w i t resource token prompt b at) = after r (start_role_attempt w r i t resource token prompt b at)"
| "role_step r (InitialCheckpoint i t token content at) = after r (publish_initial_checkpoint r i t token content at)"
| "role_step r (WriteHarness w i t token state at) = after r (write_harness_state w r i t token state at)"
| "role_step r (IssueToken w i t token access at) = after r (issue_access_token w r i t token access at)"
| "role_step r (RecordSubmission w i t token ref hash settlement checks at) =
     after r (record_role_submission w r i t token ref hash settlement checks at)"
| "role_step r (SettleRole i hash flow ty agg now) = settled r (settle_assignment r i hash flow ty agg now)"
| "role_step r (QueueRetry i t kind message now) = after r (queue_role_attempt_retry r i t kind message now)"
| "role_step r (RecordFailure w i t kind message ref hash settlement now) =
     after r (record_role_failure w r i t kind message ref hash settlement now)"
| "role_step r (CancelAssignments flow ty agg reason exclude ids now) =
     after r (cancel_role_assignments r flow ty agg reason exclude ids now)"
| "role_step r (RecordInvocation w i v prompt at) = after r (record_role_invocation w r i v prompt at)"
| "role_step r (SuspendInvocation w i token status at) = after r (suspend_role_invocation w r i token status at)"
| "role_step r (FinishInvocation w i token status at) = after r (finish_role_invocation w r i token status at)"
| "role_step r (LeaseStep op) = r\<lparr>ro_leases := lease_step (ro_leases r) op\<rparr>"

lemma after_role_lawful: "(\<And>x r'. result = Inr (x, r') \<Longrightarrow> lawful_roles r r') \<Longrightarrow> lawful_roles r (after r result)"
  by (cases result) auto

lemma settled_lawful: "(\<And>r'. result = Inr r' \<Longrightarrow> lawful_roles r r') \<Longrightarrow> lawful_roles r (settled r result)"
  by (cases result) (simp_all add: settled_def)

lemma complete_workflow_lawful: "lawful_roles r (snd (complete_workflow_sessions w r flow status))"
  unfolding complete_workflow_sessions_def by (rule complete_sessions_lawful)

lemma complete_workflows_lawful: "lawful_roles r (snd (complete_workflows w r ss))"
proof (induction ss arbitrary: r)
  case (Cons s ss)
  obtain x r' where c: "complete_workflow_sessions w r (snap_id s)
      (if snap_state s = ''CANCELLED'' then ''cancelled'' else ''completed'') = (x, r')"
    by (cases "complete_workflow_sessions w r (snap_id s) (if snap_state s = ''CANCELLED'' then ''cancelled'' else ''completed'')")
  have "lawful_roles r r'" using complete_workflow_lawful [of r w "snap_id s"] c by (metis snd_conv)
  with Cons.IH [of r'] c show ?case by (auto split: sum.split intro: lawful_roles_trans)
qed simp

lemma reconcile_terminal_lawful: "lawful_roles r (snd (reconcile_terminal_roles w r))"
  unfolding reconcile_terminal_roles_def by (rule complete_workflows_lawful)

lemma lease_lawful: "lawful_roles r (r\<lparr>ro_leases := l\<rparr>)"
  by (rule lawful_roles_cong) simp_all

lemmas role_operations_lawful = ensure_session_lawful publish_session_lawful create_lawful claim_role_lawful start_lawful
  initial_checkpoint_lawful harness_lawful issue_lawful submission_lawful retry_role_lawful failure_lawful cancel_lawful
  record_invocation_lawful suspend_invocation_lawful finish_invocation_lawful

lemma role_step_lawful: "lawful_roles r (role_step r op)"
proof (cases op)
  case (CreateAssignment w q now at)
  then show ?thesis by (auto intro: after_role_lawful create_lawful)
qed (simp_all, (rule complete_session_lawful complete_workflow_lawful reconcile_lawful reconcile_terminal_lawful lease_lawful
  after_role_lawful settled_lawful | erule settle_lawful role_operations_lawful)+)

definition roles_from :: "RoleTables \<Rightarrow> RoleTables \<Rightarrow> bool" where
  "roles_from r0 r \<longleftrightarrow> roles_ok r \<and> evolves r0 r"

lemma role_step_from: "roles_from r0 r \<Longrightarrow> roles_from r0 (role_step r op)"
  using role_step_lawful [of r op] evolves_trans unfolding roles_from_def lawful_roles_def by blast

interpretation role_store: store role_step "roles_from r0" for r0
  by unfold_locales (rule role_step_from)

lemma role_history:
  assumes "roles_ok r"
  shows "roles_ok (run_ops role_step r ops)" "evolves r (run_ops role_step r ops)"
  using role_store.run_inv [of r r ops] assms by (simp_all add: roles_from_def)

text \<open>Histories that start with empty tables.\<close>

lemmas role_tables_hold = role_history(1) [OF roles_ok_empty]

end
