(* ===== verification/Role_Properties.thy ===== *)
theory Role_Properties
  imports Role_History Dispatch
begin

section \<open>What the role stores guarantee\<close>

subsection \<open>Helpers\<close>

lemma settled_is_final: "(A_SETTLED, s) \<in> assignment_moves\<^sup>* \<Longrightarrow> s = A_SETTLED"
  by (induction rule: rtrancl_induct) (auto simp: assignment_moves_def role_assignment_target_def ASSIGNMENT_TRANSITIONS_def
      CANCELLABLE_def split: if_split_asm)

lemma evolved_assignment:
  assumes "evolves r r'" and "map_of (ro_assignments r) i = Some a"
  obtains a' where "map_of (ro_assignments r') i = Some a'" "assignment_evolves a a'"
  using assms unfolding evolves_def by meson

lemma replaced_inactive:
  assumes "replaced r t"
  shows "\<exists>e. active_attempt r i t = Inl e"
  using assms by (auto simp: replaced_def active_attempt_def find_assignment_def split: option.splits)

lemma replaced_refused: "replaced r t \<Longrightarrow> \<exists>e. rbind (active_attempt r i t) f = Inl e"
  using replaced_inactive [of r t i] by auto

lemma find_row:
  assumes "find P rows = Some (k, v)" and "distinct (map fst rows)"
  shows "map_of rows k = Some v"
  using assms by (auto simp: find_Some_iff)

lemma replaced_not_authenticated:
  assumes ok: "roles_ok r" and "replaced r t"
  shows "authenticate_role_attempt w r access at \<noteq> Inr (i, a, t, row)"
proof
  assume "authenticate_role_attempt w r access at = Inr (i, a, t, row)"
  then have f: "find (\<lambda>(_, x). att_access x = rw_digest w (strip access) \<and> map_of (ro_assignments r) (att_assignment x) \<noteq> None)
      (ro_attempts r) = Some (t, row)" and a: "map_of (ro_assignments r) (att_assignment row) = Some a" "asg_active a = t"
    unfolding authenticate_role_attempt_def find_assignment_def Let_def by (auto split: if_split_asm option.splits)
  from ok have "distinct (map fst (ro_attempts r))" by (simp add: roles_ok_def)
  from find_row [OF f this] a assms(2) show False by (auto simp: replaced_def)
qed

lemma recorded_answer:
  assumes "map_of (ro_assignments r) i = Some a" and "asg_result_ref a \<noteq> []"
  shows "record_role_submission w r i t token ref hash settlement checks at = Inr (x, r') \<Longrightarrow> r' = r \<and> x = recorded_receipt i a"
    and "record_role_failure w r i t kind message ref hash settlement now = Inr (x, r') \<Longrightarrow> r' = r \<and> x = recorded_receipt i a"
  using assms unfolding record_role_submission_def record_role_failure_def active_attempt_def find_assignment_def
  by (auto simp: Let_def split: if_split_asm option.splits)

subsection \<open>Histories\<close>

text \<open>C8:
  The role tables are well-formed after any history of sessions, assignments, attempts, results, retries,
  cancellations and leases: identifiers and request keys are unique, a session has at most one open assignment
  and is live while it has one, an assignment has a receipt exactly when its result is recorded or settled, the
  status of its active attempt fits its state, and every earlier attempt is lost and has a smaller index.
\<close>

theorem role_tables_stay_well_formed: "roles_ok (run_ops role_step no_roles ops)"
  by (rule role_tables_hold)

text \<open>C15:
  No history moves a role outside its protocol: sessions and assignments go on existing, their state moves only
  along the transition tables of \<open>role_protocol.py\<close>, a new assignment is in a state reached from queued, identities
  and requests never change, an attempt keeps its assignment, index, harness, generation and start time, and a
  replaced attempt stays replaced. A recorded result that has an artifact never changes; one without an artifact
  does not bind, and a later report may replace it.
\<close>

theorem roles_follow_their_protocol:
  "evolves (run_ops role_step no_roles ops) (run_ops role_step (run_ops role_step no_roles ops) later)"
  by (rule role_history(2) [OF role_tables_hold])

text \<open>C9:
  The result of an assignment is recorded once. When a receipt with an artifact is stored, then after any further
  history the assignment still has exactly this artifact, payload hash and settlement action, and a submission
  or a failure that is reported for it can only return this receipt, without changing anything.
\<close>

theorem role_result_recorded_once:
  assumes "r = run_ops role_step no_roles ops" and "map_of (ro_assignments r) i = Some a" and "asg_result_ref a \<noteq> []"
    and "later = run_ops role_step r next_ops"
  shows "(\<exists>a'. map_of (ro_assignments later) i = Some a' \<and> recorded_receipt i a' = recorded_receipt i a)
    \<and> (\<forall>w t token ref hash settlement checks at x r'.
         record_role_submission w later i t token ref hash settlement checks at = Inr (x, r') \<longrightarrow> r' = later \<and> x = recorded_receipt i a)
    \<and> (\<forall>w t kind message ref hash settlement now x r'.
         record_role_failure w later i t kind message ref hash settlement now = Inr (x, r') \<longrightarrow> r' = later \<and> x = recorded_receipt i a)"
proof -
  have "evolves r later" using role_history(2) [OF role_tables_hold] assms(1,4) by simp
  from evolved_assignment [OF this assms(2)] obtain a' where a': "map_of (ro_assignments later) i = Some a'"
    "assignment_evolves a a'" .
  with assms(3) have "asg_result_ref a' \<noteq> []" "recorded_receipt i a' = recorded_receipt i a"
    by (simp_all add: assignment_evolves_def same_result_def recorded_receipt_def)
  with a'(1) recorded_answer [OF a'(1)] show ?thesis by metis
qed

text \<open>C7:
  A replaced attempt is fenced off for good. Once its assignment is active in another attempt, then after any
  further history the replaced attempt cannot start, write harness state, get an access token, submit a result,
  be retried or fail the assignment, whatever fencing token it presents, and no access token authenticates it.
\<close>

theorem replaced_attempt_is_fenced:
  assumes "r = run_ops role_step no_roles ops" and "replaced r t" and "later = run_ops role_step r next_ops"
  shows "(\<forall>i. \<exists>e. active_attempt later i t = Inl e)
    \<and> (\<forall>w i resource token prompt b at. \<exists>e. start_role_attempt w later i t resource token prompt b at = Inl e)
    \<and> (\<forall>w i token state at. \<exists>e. write_harness_state w later i t token state at = Inl e)
    \<and> (\<forall>w i token access at. \<exists>e. issue_access_token w later i t token access at = Inl e)
    \<and> (\<forall>w i token ref hash settlement checks at. \<exists>e. record_role_submission w later i t token ref hash settlement checks at = Inl e)
    \<and> (\<forall>i kind message now. \<exists>e. queue_role_attempt_retry later i t kind message now = Inl e)
    \<and> (\<forall>w i kind message ref hash settlement now. \<exists>e. record_role_failure w later i t kind message ref hash settlement now = Inl e)
    \<and> (\<forall>w access at i a row. authenticate_role_attempt w later access at \<noteq> Inr (i, a, t, row))"
proof -
  have ok: "roles_ok later" and "evolves r later"
    using role_history [OF role_tables_hold] assms(1,3) by simp_all
  with assms(2) have fenced: "replaced later t" by (simp add: evolves_def)
  have inactive: "\<exists>e. active_attempt later i t = Inl e" for i by (rule replaced_inactive [OF fenced])
  show ?thesis
    unfolding start_role_attempt_def write_harness_state_def issue_access_token_def record_role_submission_def
      queue_role_attempt_retry_def record_role_failure_def
    using inactive replaced_not_authenticated [OF ok fenced]
    by (intro conjI allI) (simp add: replaced_refused [OF fenced])+
qed

text \<open>C13:
  Cancelling the role assignments of an aggregate always succeeds, after any history, and leaves none of them
  open: whatever its state, an assignment of the aggregate is settled or cancelled afterwards (except the one
  that is excluded), and assignments of other aggregates are untouched.
\<close>

theorem cancellation_closes_every_assignment:
  assumes "r = run_ops role_step no_roles ops"
  shows "\<exists>rows r'. cancel_role_assignments r flow ty agg reason exclude None now = Inr (rows, r')
    \<and> (\<forall>i a. map_of (ro_assignments r') i = Some a \<and> asg_workflow a = flow \<and> asg_type a = ty \<and> asg_aggregate a = agg
         \<and> i \<noteq> exclude \<longrightarrow> asg_state a \<in> {A_SETTLED, A_CANCELLED})
    \<and> (\<forall>i a. map_of (ro_assignments r) i = Some a \<and> (asg_workflow a, asg_type a, asg_aggregate a) \<noteq> (flow, ty, agg)
         \<longrightarrow> map_of (ro_assignments r') i = Some a)"
proof -
  have ok: "roles_ok r" using role_tables_hold assms by simp
  obtain rows r' where c: "cancel_role_assignments r flow ty agg reason exclude None now = Inr (rows, r')" "lawful_roles r r'"
    and closed: "\<forall>i a. map_of (ro_assignments r) i = Some a \<and> asg_workflow a = flow \<and> asg_type a = ty \<and> asg_aggregate a = agg
      \<and> i \<noteq> exclude \<and> asg_state a \<in> open_states \<and> (case None :: string list option of None \<Rightarrow> True | Some js \<Rightarrow> i \<in> set js) \<longrightarrow>
      (\<exists>a'. map_of (ro_assignments r') i = Some a' \<and> asg_state a' \<in> {A_SETTLED, A_CANCELLED})"
    and others: "\<forall>i. i \<notin> fst ` set (to_cancel r flow ty agg exclude None) \<longrightarrow> map_of (ro_assignments r') i = map_of (ro_assignments r) i"
    by (rule cancel_total [OF ok])
  have listed: "\<exists>a. map_of (ro_assignments r) i = Some a \<and> asg_workflow a = flow \<and> asg_type a = ty \<and> asg_aggregate a = agg
      \<and> i \<noteq> exclude \<and> asg_state a \<in> open_states" if "i \<in> fst ` set (to_cancel r flow ty agg exclude None)" for i
    using that to_cancel_rows(2) [OF ok, of flow ty agg exclude None] by (fastforce simp: to_cancel_def)
  have "asg_state b \<in> {A_SETTLED, A_CANCELLED}"
    if b: "map_of (ro_assignments r') i = Some b" "asg_workflow b = flow" "asg_type b = ty" "asg_aggregate b = agg" "i \<noteq> exclude" for i b
  proof (cases "i \<in> fst ` set (to_cancel r flow ty agg exclude None)")
    case True
    from listed [OF this] closed have "\<exists>a'. map_of (ro_assignments r') i = Some a' \<and> asg_state a' \<in> {A_SETTLED, A_CANCELLED}" by auto
    with b(1) show ?thesis by simp
  next
    case False
    with others b(1) have "map_of (ro_assignments r) i = Some b" by simp
    from map_of_SomeD [OF this] b have "asg_state b \<in> open_states \<Longrightarrow> (i, b) \<in> set (to_cancel r flow ty agg exclude None)"
      by (simp add: to_cancel_def open_states_def)
    with False have "asg_state b \<notin> open_states" by (metis fst_conv image_eqI)
    then show ?thesis by (cases "asg_state b") (simp_all add: open_states_def)
  qed
  moreover have "map_of (ro_assignments r') i = Some a"
    if "map_of (ro_assignments r) i = Some a" "(asg_workflow a, asg_type a, asg_aggregate a) \<noteq> (flow, ty, agg)" for i a
    using that listed [of i] others by fastforce
  ultimately show ?thesis using c(1) by blast
qed

subsection \<open>Settlement inside a dispatch\<close>

text \<open>
  A database whose other tables are the role tables and the projections. The projections never see the role
  tables; a settlement is the one of the role store, in the transaction of the dispatch.
\<close>

definition forget_roles :: "(RoleTables \<times> 'p) Database \<Rightarrow> 'p Database" where
  "forget_roles db = \<lparr>db_snapshots = db_snapshots db, db_events = db_events db, db_dedup = db_dedup db,
     db_outbox = db_outbox db, db_receipts = db_receipts db, db_attempts = db_attempts db,
     db_decisions = db_decisions db, db_artifacts = db_artifacts db, db_rest = snd (db_rest db)\<rparr>"

definition beside_roles :: "(RoleTables \<times> 'p) Database \<Rightarrow> 'p res \<Rightarrow> (RoleTables \<times> 'p) res" where
  "beside_roles db x = rbind x (\<lambda>p. Inr (fst (db_rest db), p))"

definition with_role_store :: "string \<Rightarrow> 'p Ports \<Rightarrow> (RoleTables \<times> 'p) Ports" where
  "with_role_store now p =
     \<lparr>hash_json = hash_json p, hash_text = hash_text p, is_file = is_file p, new_id = new_id p, instant = instant p,
      settle_role = (\<lambda>db i h a. rbind (settle_assignment (fst (db_rest db)) i h (workflow_id a)
        (aggregate_value (aggregate_type a)) (aggregate_id a) now) (\<lambda>r. Inr (r, snd (db_rest db)))),
      project_task = (\<lambda>db s. beside_roles db (project_task p (forget_roles db) s)),
      project_node = (\<lambda>db s. beside_roles db (project_node p (forget_roles db) s)),
      project_workflow = (\<lambda>db w e. beside_roles db (project_workflow p (forget_roles db) w e))\<rparr>"

lemma project_keeps_roles: "project_all (with_role_store now p) a s event db = Inr db' \<Longrightarrow> fst (db_rest db') = fst (db_rest db)"
  by (auto simp: project_all_def with_role_store_def beside_roles_def split: if_split_asm)

lemma stored_rest: "store_outcome ports a current out db = Inr (result, db') \<Longrightarrow> db_rest db' = db_rest db"
  by (auto simp: store_outcome_def Let_def split: if_split_asm)

lemma settle_if_roles:
  assumes "settle_if (with_role_store now p) i h a db = Inr db'"
  shows "if i = [] then db_rest db' = db_rest db
    else settle_assignment (fst (db_rest db)) i h (workflow_id a) (aggregate_value (aggregate_type a)) (aggregate_id a) now
      = Inr (fst (db_rest db'))"
  using assms by (auto simp: settle_if_def with_role_store_def split: if_split_asm)

text \<open>A dispatch does with the role tables what the settlement does, whether the action is new or repeated.\<close>

lemma dispatch_roles:
  assumes "dispatch (with_role_store now p) tbl a i h db = Inr (result, db')" and "i \<noteq> []"
  shows "settle_assignment (fst (db_rest db)) i h (workflow_id a) (aggregate_value (aggregate_type a)) (aggregate_id a) now
    = Inr (fst (db_rest db'))"
proof (cases "map_of (db_dedup db) (dedup_table_key a)")
  case (Some row)
  with assms have "settle_if (with_role_store now p) i h a db = Inr db'" by (auto simp: dispatch_def split: if_split_asm)
  with settle_if_roles assms(2) show ?thesis by fastforce
next
  case None
  with assms obtain ds out db1 db2 event where
    stored: "store_outcome (with_role_store now p) a (read_snapshot db (aggregate_type a) (aggregate_id a)) out
      (db\<lparr>db_decisions := ds\<rparr>) = Inr (result, db1)"
    and settled: "settle_if (with_role_store now p) i h a db1 = Inr db2"
    and projected: "project_all (with_role_store now p) a (out_snapshot out) event db2 = Inr db'"
    by (auto simp: dispatch_def Let_def split: if_split_asm)
  from stored_rest [OF stored] settle_if_roles [OF settled] project_keeps_roles [OF projected] assms(2)
  show ?thesis by simp
qed

lemma settle_result:
  assumes "settle_assignment r i h flow ty agg now = Inr r'"
  shows "\<exists>a a'. map_of (ro_assignments r) i = Some a \<and> map_of (ro_assignments r') i = Some a' \<and> asg_state a \<in> {A_RESULT_RECORDED, A_SETTLED}
    \<and> asg_result_hash a = h \<and> (flow = [] \<and> ty = [] \<and> agg = [] \<or> (flow, ty, agg) = (asg_workflow a, asg_type a, asg_aggregate a))
    \<and> a' = a\<lparr>asg_state := A_SETTLED\<rparr>"
proof -
  from assms obtain a where a: "map_of (ro_assignments r) i = Some a" "asg_result_hash a = h"
    "asg_state a \<in> {A_RESULT_RECORDED, A_SETTLED}"
    "flow = [] \<and> ty = [] \<and> agg = [] \<or> (flow, ty, agg) = (asg_workflow a, asg_type a, asg_aggregate a)"
    unfolding settle_assignment_def find_assignment_def by (auto split: option.splits if_split_asm)
  have "map_of (ro_assignments r') i = Some (a\<lparr>asg_state := A_SETTLED\<rparr>)"
  proof (cases "asg_state a = A_SETTLED")
    case True
    then have "a\<lparr>asg_state := A_SETTLED\<rparr> = a" by (cases a) simp
    with True a assms show ?thesis by (auto simp: settle_assignment_def find_assignment_def split: if_split_asm)
  next
    case False
    then have recorded: "asg_state a = A_RESULT_RECORDED" using a(3) by simp
    have rows: "ro_assignments (release_attempt t (finish_attempt t now r1)) = ro_assignments r1" for t r1
      by (simp add: release_attempt_def finish_attempt_def update_attempt_def put_attempt_def drop_attempt_lease_def
          drop_lease_def split: option.split)
    from assms a recorded have "transition_role_session (asg_session a) (settlement_session_action a)
        (release_attempt (asg_active a) (finish_attempt (asg_active a) now
          (put_assignment i (a\<lparr>asg_state := A_SETTLED\<rparr>) r))) = Inr r'"
      by (auto simp: settle_assignment_def find_assignment_def split: if_split_asm)
    from transition_assignments [OF this] rows show ?thesis by simp
  qed
  with a show ?thesis by blast
qed

text \<open>C14:
  A dispatch that carries a role result settles it in the same transaction. When the dispatch succeeds, the
  assignment had this result recorded (or already settled), for the workflow and aggregate of the action, and it
  is settled in the new database with the same result; a repeated dispatch of the same action leaves it settled.
  When the dispatch fails, the transaction is rolled back and the assignment stays as it was.
\<close>

theorem dispatch_settles_role_result:
  assumes "dispatch (with_role_store now p) tbl act i h db = Inr (result, db')" and "i \<noteq> []"
  shows "\<exists>a. map_of (ro_assignments (fst (db_rest db))) i = Some a \<and> asg_state a \<in> {A_RESULT_RECORDED, A_SETTLED}
    \<and> asg_result_hash a = h \<and> asg_workflow a = workflow_id act \<and> asg_type a = aggregate_value (aggregate_type act)
    \<and> asg_aggregate a = aggregate_id act
    \<and> map_of (ro_assignments (fst (db_rest db'))) i = Some (a\<lparr>asg_state := A_SETTLED\<rparr>)"
proof -
  have "aggregate_value ty \<noteq> []" for ty by (cases ty) simp_all
  with settle_result [OF dispatch_roles [OF assms]] show ?thesis by auto
qed

subsection \<open>Checkpoints\<close>

lemma normalize_same: "normalize_checkpoint d = Inr v \<Longrightarrow> v = d"
  by (auto simp: normalize_checkpoint_def checkpoint_error_def Let_def split: if_split_asm)

text \<open>
  A published checkpoint is read back as it was written, the checkpoints of coroutines with another directory are
  untouched, and a checkpoint that it replaces belonged to the same workflow, stage and runtime specification and
  had a smaller sequence number.
\<close>

theorem published_checkpoint_is_read_back:
  assumes "publish_checkpoint files d i token = Inr files'"
  shows "read_checkpoint files' i = Inr (Some d)
    \<and> (\<forall>j. safe_component j \<noteq> safe_component i \<longrightarrow> read_checkpoint files' j = read_checkpoint files j)
    \<and> (\<forall>c. read_checkpoint files i = Inr (Some c) \<longrightarrow>
         (\<exists>m n. py_int (dget c ''sequence'') = Inr m \<and> py_int (dget d ''sequence'') = Inr n \<and> m < n)
         \<and> (\<forall>name \<in> {''workflow_id'', ''stage_key'', ''runtime_spec_hash''}. py_eq (dget d name) (dget c name)))"
proof -
  from assms obtain v current comp where n: "normalize_checkpoint d = Inr v" and i: "py_str (dget v ''logical_coroutine_id'') = i"
    and old: "read_checkpoint files i = Inr current"
    and ok: "(case current of None \<Rightarrow> Inr () | Some c \<Rightarrow> rbind (keeps_identity v c) (\<lambda>_. advances v c)) = Inr ()"
    and comp: "safe_component i = Inr comp" and files': "files' = AList.update comp (PDict v) files"
    unfolding publish_checkpoint_def by (auto simp: checkpoint_error_def split: if_split_asm)
  have v: "v = d" using n by (rule normalize_same)
  have "read_checkpoint files' i = Inr (Some d)"
    using n i comp unfolding files' v by (simp add: read_checkpoint_def update_conv')
  moreover have "read_checkpoint files' j = read_checkpoint files j" if "safe_component j \<noteq> safe_component i" for j
    using that comp unfolding files' by (cases "safe_component j") (simp_all add: read_checkpoint_def update_conv')
  moreover have "(\<exists>m n. py_int (dget c ''sequence'') = Inr m \<and> py_int (dget d ''sequence'') = Inr n \<and> m < n)
      \<and> (\<forall>name \<in> {''workflow_id'', ''stage_key'', ''runtime_spec_hash''}. py_eq (dget d name) (dget c name))"
    if "read_checkpoint files i = Inr (Some c)" for c
    using that old ok unfolding v by (auto simp: keeps_identity_def advances_def)
  ultimately show ?thesis by blast
qed

end
