(* ===== verification/Role_Examples.thy ===== *)
theory Role_Examples
  imports Role_Properties Store_Examples
begin

section \<open>Concrete roles\<close>

text \<open>
  One session that implements a node run, one assignment of it, and attempts: the hypotheses of the role
  properties are met by histories of real operations, evaluated here. Digests are the texts themselves.
\<close>

definition role_world :: RoleWorld where
  "role_world = \<lparr>rw_hash = (\<lambda>_. ''h''), rw_digest = (\<lambda>s. s), rw_json = (\<lambda>_. ''{}''), rw_is_file = (\<lambda>_. True),
     rw_artifacts = [], rw_snapshots = [((DAG_NODE_RUN, ''agg_1''), node ''PRODUCING'' [])], rw_rebuild = (\<lambda>_. Inr ())\<rparr>"

definition role_session_request :: SessionRequest where
  "role_session_request = \<lparr>sq_id = ''ses'', sq_workflow = ''wf_1'', sq_type = DAG_NODE_RUN, sq_aggregate = ''agg_1'',
     sq_role = ''implementation'', sq_mode = ''produce'', sq_profile = ''coder'', sq_family = ''fam'', sq_harness = [],
     sq_generation = [], sq_scope = ''dag_node_run'', sq_subject = ''agg_1''\<rparr>"

definition role_request :: RoleAssignmentRequest where
  "role_request = \<lparr>rr_key = ''k'', rr_session = ''ses'', rr_workflow = ''wf_1'', rr_type = ''dag_node_run'',
     rr_aggregate = ''agg_1'', rr_role = ''implementation'', rr_mode = ''produce'', rr_profile = ''coder'',
     rr_family = ''fam'', rr_input = ''in'', rr_required = [], rr_refs = [],
     rr_spec = [(''effect_type'', PStr ''run_implementation_role'')], rr_kind = ''candidate''\<rparr>"

definition begin_ops :: "role_op list" where
  "begin_ops = [EnsureSession role_session_request ''t0'', CreateAssignment role_world role_request ''t1'' 1,
     ClaimAssignment role_world ''asg_k'' ''pal'' ''g1'' None ''t2'' 2]"

definition failure_settlement :: pydict where
  "failure_settlement = [(''action_type'', PStr ''ROLE_FAILED'')]"

definition failure_op :: role_op where
  "failure_op = RecordFailure role_world ''asg_k'' ''att_asg_k:1'' ''crash'' ''lost'' [(''note'', PStr ''log'')] ''p1''
     failure_settlement ''t3''"

definition retry_ops :: "role_op list" where
  "retry_ops = [QueueRetry ''asg_k'' ''att_asg_k:1'' ''crash'' ''lost'' ''t3'',
     ClaimAssignment role_world ''asg_k'' ''pal'' ''g2'' None ''t4'' 4]"

definition role_row :: "RoleTables \<Rightarrow> (RoleAssignmentState \<times> string \<times> string \<times> string \<times> string) option" where
  "role_row r = map_option (\<lambda>a. (asg_state a, asg_active a, asg_workflow a, asg_type a, asg_aggregate a))
     (map_of (ro_assignments r) ''asg_k'')"

definition role_receipt :: "RoleTables \<Rightarrow> (pydict \<times> string) option" where
  "role_receipt r = map_option (\<lambda>a. (asg_result_ref a, asg_result_hash a)) (map_of (ro_assignments r) ''asg_k'')"

lemma claimed_role: "role_row (run_ops role_step no_roles begin_ops) =
    Some (A_CLAIMED, ''att_asg_k:1'', ''wf_1'', ''dag_node_run'', ''agg_1'')"
  by code_simp

lemma failed_role:
  "role_row (run_ops role_step no_roles (begin_ops @ [failure_op])) =
     Some (A_RESULT_RECORDED, ''att_asg_k:1'', ''wf_1'', ''dag_node_run'', ''agg_1'')"
  "role_receipt (run_ops role_step no_roles (begin_ops @ [failure_op])) = Some ([(''note'', PStr ''log'')], ''p1'')"
  by code_simp+

lemma retried_role:
  "role_row (run_ops role_step no_roles (begin_ops @ retry_ops)) =
     Some (A_CLAIMED, ''att_asg_k:2'', ''wf_1'', ''dag_node_run'', ''agg_1'')"
  "map_option att_assignment (map_of (ro_attempts (run_ops role_step no_roles (begin_ops @ retry_ops))) ''att_asg_k:1'')
     = Some ''asg_k''"
  by code_simp+

abbreviation failed_tables :: RoleTables where
  "failed_tables \<equiv> run_ops role_step no_roles (begin_ops @ [failure_op])"

abbreviation retried_tables :: RoleTables where
  "retried_tables \<equiv> run_ops role_step no_roles (begin_ops @ retry_ops)"

theorem role_result_recorded_once_witness:
  "\<exists>a. map_of (ro_assignments failed_tables) ''asg_k'' = Some a \<and> asg_result_hash a = ''p1''
     \<and> (\<exists>a'. map_of (ro_assignments (run_ops role_step failed_tables
           [CancelAssignments ''wf_1'' ''dag_node_run'' ''agg_1'' ''stop'' [] None ''t9''])) ''asg_k'' = Some a'
         \<and> recorded_receipt ''asg_k'' a' = recorded_receipt ''asg_k'' a)"
proof -
  from failed_role(2) obtain a where a: "map_of (ro_assignments failed_tables) ''asg_k'' = Some a"
    "asg_result_ref a \<noteq> []" "asg_result_hash a = ''p1''" by (auto simp: role_receipt_def)
  from role_result_recorded_once [OF refl a(1,2) refl,
      of "[CancelAssignments ''wf_1'' ''dag_node_run'' ''agg_1'' ''stop'' [] None ''t9'']", THEN conjunct1] a(1,3)
  show ?thesis by blast
qed

theorem replaced_attempt_is_fenced_witness:
  "\<exists>e. record_role_failure role_world (run_ops role_step retried_tables [failure_op]) ''asg_k'' ''att_asg_k:1'' ''crash''
     ''late'' [(''note'', PStr ''log'')] ''p1'' failure_settlement ''t8'' = Inl e"
proof -
  have "replaced retried_tables ''att_asg_k:1''"
    using retried_role by (auto simp: role_row_def replaced_def)
  from replaced_attempt_is_fenced [OF refl this refl, THEN conjunct2, THEN conjunct2, THEN conjunct2, THEN conjunct2,
      THEN conjunct2, THEN conjunct2, THEN conjunct1]
  show ?thesis by (rule allE [where x = role_world]) blast
qed

theorem cancellation_closes_every_assignment_witness:
  "\<exists>rows r' a. cancel_role_assignments failed_tables ''wf_1'' ''dag_node_run'' ''agg_1'' ''stop'' [] None ''t9'' = Inr (rows, r')
     \<and> map_of (ro_assignments r') ''asg_k'' = Some a \<and> asg_state a \<in> {A_SETTLED, A_CANCELLED}"
proof -
  obtain rows r' where c: "cancel_role_assignments failed_tables ''wf_1'' ''dag_node_run'' ''agg_1'' ''stop'' [] None ''t9'' = Inr (rows, r')"
    and closed: "\<forall>i a. map_of (ro_assignments r') i = Some a \<and> asg_workflow a = ''wf_1'' \<and> asg_type a = ''dag_node_run''
      \<and> asg_aggregate a = ''agg_1'' \<and> i \<noteq> [] \<longrightarrow> asg_state a \<in> {A_SETTLED, A_CANCELLED}"
    using cancellation_closes_every_assignment [OF refl, of "begin_ops @ [failure_op]" "''wf_1''" "''dag_node_run''" "''agg_1''"
      "''stop''" "[]" "''t9''"] by (elim exE conjE) (rule that)
  from failed_role(1) obtain a where a: "map_of (ro_assignments failed_tables) ''asg_k'' = Some a"
    "asg_workflow a = ''wf_1''" "asg_type a = ''dag_node_run''" "asg_aggregate a = ''agg_1''" by (auto simp: role_row_def)
  have "evolves failed_tables r'" using cancel_lawful [OF c] role_tables_hold by (simp add: lawful_roles_def)
  from evolved_assignment [OF this a(1)] obtain a' where a': "map_of (ro_assignments r') ''asg_k'' = Some a'"
    "assignment_evolves a a'" .
  then have "asg_workflow a' = ''wf_1''" "asg_type a' = ''dag_node_run''" "asg_aggregate a' = ''agg_1''"
    using a request_of_fields [of a' a] by (simp_all add: assignment_evolves_def)
  moreover have "''asg_k'' \<noteq> []" by simp
  ultimately have "asg_state a' \<in> {A_SETTLED, A_CANCELLED}" using closed a'(1) by blast
  with c a'(1) show ?thesis by blast
qed

subsection \<open>A dispatch that settles\<close>

text \<open>The failure settles with the repetition of an action whose first dispatch was interrupted after its commit.\<close>

definition repeated_store :: "(RoleTables \<times> unit) Database" where
  "repeated_store =
     \<lparr>db_snapshots = [((DAG_NODE_RUN, ''agg_1''), node ''PRODUCING'' [])], db_events = [],
      db_dedup = [(dedup_table_key pause_action, \<lparr>dd_action_id = action_id pause_action, dd_hash = ''h'',
        dd_result = \<lparr>res_snapshot = node ''PRODUCING'' [], res_events = [], res_effect_ids = [], res_duplicate = False\<rparr>,
        dd_created_at = ''t5''\<rparr>)],
      db_outbox = [], db_receipts = [], db_attempts = [], db_decisions = [], db_artifacts = [], db_rest = (failed_tables, ())\<rparr>"

theorem dispatch_settles_role_result_witness:
  "\<exists>result db'. dispatch (with_role_store ''t6'' sample_ports) default_table pause_action ''asg_k'' ''p1'' repeated_store = Inr (result, db')
     \<and> map_option asg_state (map_of (ro_assignments (fst (db_rest db'))) ''asg_k'') = Some A_SETTLED"
proof -
  from failed_role obtain a where a: "map_of (ro_assignments failed_tables) ''asg_k'' = Some a"
    "asg_state a = A_RESULT_RECORDED" "asg_result_hash a = ''p1''" "asg_workflow a = ''wf_1''" "asg_type a = ''dag_node_run''"
    "asg_aggregate a = ''agg_1''" by (auto simp: role_row_def role_receipt_def)
  have "[] = [] \<and> False \<or> (''wf_1'', ''dag_node_run'', ''agg_1'') = (asg_workflow a, asg_type a, asg_aggregate a)" using a by simp
  then obtain r' where r': "settle_assignment failed_tables ''asg_k'' (asg_result_hash a) ''wf_1'' ''dag_node_run'' ''agg_1'' ''t6'' = Inr r'"
    using settle_total [OF role_tables_hold a(1,2), of "''wf_1''" "''dag_node_run''" "''agg_1''" "''t6''"] by auto
  have "\<exists>result db'. dispatch (with_role_store ''t6'' sample_ports) default_table pause_action ''asg_k'' ''p1'' repeated_store = Inr (result, db')"
    using r' a(3) by (simp add: dispatch_def repeated_store_def settle_if_def with_role_store_def sample_ports_def sample_action_def)
  then obtain result db' where d:
    "dispatch (with_role_store ''t6'' sample_ports) default_table pause_action ''asg_k'' ''p1'' repeated_store = Inr (result, db')" by blast
  have "''asg_k'' \<noteq> []" by simp
  from dispatch_settles_role_result [OF d this] d show ?thesis by auto
qed

subsection \<open>A checkpoint\<close>

definition sample_checkpoint :: "int \<Rightarrow> pydict" where
  "sample_checkpoint n = [(''schema_version'', PInt 8), (''cipher'', PStr ''fernet''), (''logical_coroutine_id'', PStr ''c1''),
     (''workflow_id'', PStr ''wf_1''), (''stage_key'', PStr ''s''), (''sequence'', PInt n), (''producer_fencing_token'', PInt 3),
     (''runtime_spec_hash'', PStr ''h''), (''metrics'', PDict []), (''ciphertext'', PStr ''x'')]"

theorem published_checkpoint_is_read_back_witness:
  "\<exists>files. publish_checkpoint [(''c1'', PDict (sample_checkpoint 1))] (sample_checkpoint 2) ''c1'' 3 = Inr files
     \<and> read_checkpoint files ''c1'' = Inr (Some (sample_checkpoint 2))"
proof -
  have "publish_checkpoint [(''c1'', PDict (sample_checkpoint 1))] (sample_checkpoint 2) ''c1'' 3
      = Inr [(''c1'', PDict (sample_checkpoint 2))]"
    by code_simp
  from published_checkpoint_is_read_back [OF this] this show ?thesis by simp
qed

end
