(* ===== verification/Fd_Lease.thy ===== *)
theory Fd_Lease
  imports Operations
begin

section \<open>Leases of file descriptors\<close>

text \<open>
  \<open>foundation/fd_lease.py\<close>: a slot that owns one fd-backed resource per generation. Callers hold capabilities
  of one generation and use the resource only inside admitted calls; closing is claimed once per generation.
  Every operation below is one section of the code that holds the lock of the lease, and so is atomic. A raise
  inside such a section keeps what was assigned before it: the operations return the error or the result,
  together with the lease that is left. Telemetry (\<open>_trace\<close>, \<open>created_at\<close>, snapshots) is not modelled; a
  resource, its closers and interrupt hooks are opaque, only their presence is recorded.
\<close>

subsection \<open>States and transitions\<close>

datatype FdControlState = FD_OPEN | FD_RETIRING | FD_CLOSING | FD_REVOKING | FD_CLOSED | FD_QUARANTINED

datatype FdCapabilityState = CAP_LIVE | CAP_CANCELLED | CAP_TOMBSTONE | CAP_RELEASED

fun control_value :: "FdControlState \<Rightarrow> string" where
  "control_value FD_OPEN = ''OPEN''"
| "control_value FD_RETIRING = ''RETIRING''"
| "control_value FD_CLOSING = ''CLOSING''"
| "control_value FD_REVOKING = ''REVOKING''"
| "control_value FD_CLOSED = ''CLOSED''"
| "control_value FD_QUARANTINED = ''QUARANTINED''"

fun capability_value :: "FdCapabilityState \<Rightarrow> string" where
  "capability_value CAP_LIVE = ''LIVE''"
| "capability_value CAP_CANCELLED = ''CANCELLED''"
| "capability_value CAP_TOMBSTONE = ''TOMBSTONE''"
| "capability_value CAP_RELEASED = ''RELEASED''"

definition FD_CONTROL_TRANSITIONS :: "((FdControlState \<times> string) \<times> FdControlState) list" where
  "FD_CONTROL_TRANSITIONS =
    [((FD_CLOSED, ''PUBLISH''), FD_OPEN), ((FD_OPEN, ''REQUEST_RETIRE''), FD_RETIRING),
     ((FD_RETIRING, ''CLAIM_GRACEFUL_CLOSE''), FD_CLOSING), ((FD_RETIRING, ''FORCE_REVOKE''), FD_REVOKING),
     ((FD_CLOSING, ''CLOSE_DETACHED''), FD_CLOSED), ((FD_REVOKING, ''CLOSE_DETACHED''), FD_CLOSED),
     ((FD_CLOSING, ''CLOSE_UNCERTAIN''), FD_QUARANTINED), ((FD_REVOKING, ''CLOSE_UNCERTAIN''), FD_QUARANTINED)]"

definition FD_CAPABILITY_TRANSITIONS :: "((FdCapabilityState \<times> string) \<times> FdCapabilityState) list" where
  "FD_CAPABILITY_TRANSITIONS =
    [((CAP_LIVE, ''REQUEST_CANCEL''), CAP_CANCELLED), ((CAP_LIVE, ''RETIRE_CANCEL''), CAP_CANCELLED),
     ((CAP_LIVE, ''FORCE_REVOKE''), CAP_TOMBSTONE), ((CAP_CANCELLED, ''FORCE_REVOKE''), CAP_TOMBSTONE),
     ((CAP_LIVE, ''RELEASE''), CAP_RELEASED), ((CAP_CANCELLED, ''RELEASE''), CAP_RELEASED),
     ((CAP_TOMBSTONE, ''RELEASE''), CAP_RELEASED)]"

datatype FdCloseDisposition = DETACHED | UNCERTAIN

record FdCloseOutcome =
  co_disposition :: FdCloseDisposition
  co_detail :: string

definition detached :: "string \<Rightarrow> FdCloseOutcome" where
  "detached d = \<lparr>co_disposition = DETACHED, co_detail = d\<rparr>"

definition uncertain :: "string \<Rightarrow> FdCloseOutcome" where
  "uncertain d = \<lparr>co_disposition = UNCERTAIN, co_detail = d\<rparr>"

subsection \<open>The lease\<close>

datatype fd_error = FdLeaseInvariantError string | FdLeaseCancelledError string | FdValueError string

record FdCapability =
  cap_generation :: nat
  cap_thread :: nat
  cap_interrupt :: bool
  cap_state :: FdCapabilityState
  cap_reason :: string
  cap_in_call :: bool

record Closers =
  has_sync :: bool
  has_async :: bool
  has_hard_sync :: bool
  has_hard_async :: bool

record 'r FdLease =
  fl_owner :: string
  fl_resource :: "'r option"
  fl_capacity :: "int option"
  fl_closers :: Closers
  fl_state :: FdControlState
  fl_generation :: nat
  fl_retire_reason :: string
  fl_close_error :: string
  fl_outcome :: "FdCloseOutcome option"
  fl_next :: nat
  fl_caps :: "(nat \<times> FdCapability) list"
  fl_claimed :: nat
  fl_attempts :: "(nat \<times> nat) list"

record 'r FdTicket =
  tk_generation :: nat
  tk_resource :: 'r
  tk_forced :: bool
  tk_async :: bool
  tk_closer :: bool

type_synonym ('r, 'a) fd = "'r FdLease \<Rightarrow> (fd_error + 'a) \<times> 'r FdLease"

definition fd_bind :: "('r, 'a) fd \<Rightarrow> ('a \<Rightarrow> ('r, 'b) fd) \<Rightarrow> ('r, 'b) fd" where
  "fd_bind m f = (\<lambda>l. case m l of (Inl e, l') \<Rightarrow> (Inl e, l') | (Inr x, l') \<Rightarrow> f x l')"

definition fd_return :: "'a \<Rightarrow> ('r, 'a) fd" where
  "fd_return x = (\<lambda>l. (Inr x, l))"

definition fd_raise :: "string \<Rightarrow> ('r, 'a) fd" where
  "fd_raise msg = (\<lambda>l. (Inl (FdLeaseInvariantError msg), l))"

definition fd_modify :: "('r FdLease \<Rightarrow> 'r FdLease) \<Rightarrow> ('r, unit) fd" where
  "fd_modify f = (\<lambda>l. (Inr (), f l))"

definition text_or :: "string \<Rightarrow> string \<Rightarrow> string" where
  "text_or a b = (if a = [] then b else a)"

subsection \<open>Helpers under the lock\<close>

definition current_capabilities :: "'r FdLease \<Rightarrow> (nat \<times> FdCapability) list" where
  "current_capabilities l = filter (\<lambda>(_, x). cap_generation x = fl_generation l \<and> cap_state x \<noteq> CAP_RELEASED) (fl_caps l)"

definition capacity_available :: "'r FdLease \<Rightarrow> bool" where
  "capacity_available l = (case fl_capacity l of None \<Rightarrow> True | Some n \<Rightarrow> int (length (current_capabilities l)) < n)"

definition generation_has_inflight_calls :: "nat \<Rightarrow> 'r FdLease \<Rightarrow> bool" where
  "generation_has_inflight_calls g l \<longleftrightarrow> list_ex (\<lambda>(_, x). cap_generation x = g \<and> cap_in_call x) (fl_caps l)"

definition put_cap :: "nat \<Rightarrow> FdCapability \<Rightarrow> 'r FdLease \<Rightarrow> 'r FdLease" where
  "put_cap c x l = l\<lparr>fl_caps := AList.update c x (fl_caps l)\<rparr>"

definition control_transition :: "string \<Rightarrow> ('r, unit) fd" where
  "control_transition act = (\<lambda>l. case map_of FD_CONTROL_TRANSITIONS (fl_state l, act) of
       None \<Rightarrow> (Inl (FdLeaseInvariantError (''illegal fd control transition: '' @ control_value (fl_state l) @ '' + '' @ act)), l)
     | Some s \<Rightarrow> (Inr (), l\<lparr>fl_state := s\<rparr>))"

definition capability_transition :: "nat \<Rightarrow> FdCapability \<Rightarrow> string \<Rightarrow> ('r, FdCapability) fd" where
  "capability_transition c x act = (\<lambda>l. case map_of FD_CAPABILITY_TRANSITIONS (cap_state x, act) of
       None \<Rightarrow> (Inl (FdLeaseInvariantError
         (''illegal fd capability transition: '' @ capability_value (cap_state x) @ '' + '' @ act)), l)
     | Some s \<Rightarrow> (Inr (x\<lparr>cap_state := s\<rparr>), put_cap c (x\<lparr>cap_state := s\<rparr>) l))"

definition require_capability :: "nat \<Rightarrow> ('r, FdCapability) fd" where
  "require_capability c = (\<lambda>l. case map_of (fl_caps l) c of
       None \<Rightarrow> (Inl (FdLeaseInvariantError ''stale or released fd capability''), l) | Some x \<Rightarrow> (Inr x, l))"

definition require_resource :: "('r, 'r) fd" where
  "require_resource = (\<lambda>l. case fl_resource l of
       None \<Rightarrow> (Inl (FdLeaseInvariantError ''fd resource is detached''), l) | Some r \<Rightarrow> (Inr r, l))"

definition require_owner_thread :: "FdCapability \<Rightarrow> nat \<Rightarrow> ('r, unit) fd" where
  "require_owner_thread x thread = (if thread \<noteq> cap_thread x
     then fd_raise (''fd capability operation must run on its owner thread: owner='' @ digits (cap_thread x)
       @ '' actor='' @ digits thread)
     else fd_return ())"

definition validate_close_mode :: "bool \<Rightarrow> bool \<Rightarrow> ('r, unit) fd" where
  "validate_close_mode async forced = (\<lambda>l.
     let k = fl_closers l; sync = (if forced then has_hard_sync k else has_sync k);
         asyn = (if forced then has_hard_async k else has_async k) in
     if async \<and> sync then (Inl (FdLeaseInvariantError ''sync fd closer used from async lifecycle''), l)
     else if \<not> async \<and> asyn then (Inl (FdLeaseInvariantError ''async fd closer used from sync lifecycle''), l)
     else (Inr (), l))"

definition validate_configuration :: "'r option \<Rightarrow> Closers \<Rightarrow> fd_error + unit" where
  "validate_configuration r k =
     (if r = None then Inl (FdValueError ''fd lease requires a root resource'')
      else if has_sync k \<and> has_async k then Inl (FdValueError ''fd lease must use either sync or async close'')
      else if has_hard_sync k \<and> has_hard_async k then
        Inl (FdValueError ''fd lease must use either sync or async hard close'')
      else if has_sync k \<and> has_hard_async k then Inl (FdValueError ''sync fd close cannot use async hard close'')
      else if has_async k \<and> has_hard_sync k then Inl (FdValueError ''async fd close cannot use sync hard close'')
      else Inr ())"

subsection \<open>Construction and publication\<close>

definition new_lease :: "string \<Rightarrow> 'r option \<Rightarrow> int option \<Rightarrow> Closers \<Rightarrow> int \<Rightarrow> fd_error + 'r FdLease" where
  "new_lease owner r capacity k drain =
     (if (case capacity of None \<Rightarrow> False | Some n \<Rightarrow> n \<le> 0) then
        Inl (FdValueError ''fd lease capacity must be positive or None'')
      else if drain < 0 then Inl (FdValueError ''fd close drain timeout must be non-negative'')
      else case validate_configuration r k of
        Inl e \<Rightarrow> Inl e
      | Inr _ \<Rightarrow> Inr \<lparr>fl_owner = owner, fl_resource = r, fl_capacity = capacity, fl_closers = k, fl_state = FD_OPEN,
          fl_generation = 1, fl_retire_reason = [], fl_close_error = [], fl_outcome = None, fl_next = 0, fl_caps = [],
          fl_claimed = 0, fl_attempts = [(1, 0)]\<rparr>)"

definition publish :: "'r option \<Rightarrow> Closers \<Rightarrow> ('r, nat) fd" where
  "publish r k = (\<lambda>l. case validate_configuration r k of
       Inl e \<Rightarrow> (Inl e, l)
     | Inr _ \<Rightarrow>
         if fl_state l \<noteq> FD_CLOSED then
           (Inl (FdLeaseInvariantError (''fd lease '' @ fl_owner l @ '' cannot publish from '' @ control_value (fl_state l))), l)
         else
           fd_bind (control_transition ''PUBLISH'') (\<lambda>_ l. (Inr (fl_generation l),
             l\<lparr>fl_retire_reason := [], fl_close_error := [], fl_outcome := None, fl_claimed := 0,
               fl_attempts := AList.update (fl_generation l) 0 (fl_attempts l)\<rparr>))
             (l\<lparr>fl_generation := Suc (fl_generation l), fl_resource := r, fl_closers := k\<rparr>))"

subsection \<open>Capabilities\<close>

definition acquire :: "nat \<Rightarrow> bool \<Rightarrow> ('r, nat) fd" where
  "acquire thread hook = (\<lambda>l.
     if fl_state l \<noteq> FD_OPEN \<or> \<not> capacity_available l then
       (Inl (FdLeaseInvariantError (''fd lease '' @ fl_owner l @ '' cannot acquire from '' @ control_value (fl_state l))), l)
     else
       let c = Suc (fl_next l) in
       (Inr c, put_cap c \<lparr>cap_generation = fl_generation l, cap_thread = thread, cap_interrupt = hook, cap_state = CAP_LIVE,
          cap_reason = [], cap_in_call = False\<rparr> (l\<lparr>fl_next := c\<rparr>)))"

definition begin_call :: "nat \<Rightarrow> nat \<Rightarrow> ('r, 'r) fd" where
  "begin_call c thread =
     fd_bind (require_capability c) (\<lambda>x.
     fd_bind (require_owner_thread x thread) (\<lambda>_ l.
     if cap_generation x \<noteq> fl_generation l then (Inl (FdLeaseCancelledError ''stale fd capability generation''), l)
     else if fl_state l \<notin> {FD_OPEN, FD_RETIRING} \<or> cap_state x \<noteq> CAP_LIVE then
       (Inl (FdLeaseCancelledError (''fd capability is not admitted: '' @ text_or (cap_reason x) (control_value (fl_state l)))), l)
     else if cap_in_call x then (Inl (FdLeaseInvariantError ''fd capability already has an active call''), l)
     else require_resource (put_cap c (x\<lparr>cap_in_call := True\<rparr>) l)))"

definition end_call :: "nat \<Rightarrow> ('r, unit) fd" where
  "end_call c =
     fd_bind (require_capability c) (\<lambda>x.
     if \<not> cap_in_call x then fd_raise ''fd capability call is not active''
     else fd_modify (put_cap c (x\<lparr>cap_in_call := False\<rparr>)))"

text \<open>The result is the answer and the hooks to call, as capabilities with the reason they are given.\<close>

definition request_cancel :: "nat \<Rightarrow> string \<Rightarrow> ('r, bool \<times> (nat \<times> string) list) fd" where
  "request_cancel c reason = (\<lambda>l. case map_of (fl_caps l) c of
       None \<Rightarrow> (Inr (False, []), l)
     | Some x \<Rightarrow>
         if cap_state x \<in> {CAP_TOMBSTONE, CAP_RELEASED, CAP_CANCELLED} then (Inr (False, []), l)
         else
           let why = text_or reason ''cancelled'' in
           fd_bind (capability_transition c x ''REQUEST_CANCEL'') (\<lambda>y.
           fd_bind (fd_modify (put_cap c (y\<lparr>cap_reason := why\<rparr>))) (\<lambda>_ l.
           if cap_interrupt y \<and> cap_generation y = fl_generation l then
             fd_bind require_resource (\<lambda>_. fd_return (True, [(c, why)])) l
           else (Inr (True, []), l))) l)"

subsection \<open>Retirement and the claim to close\<close>

definition request_retire :: "string \<Rightarrow> ('r, bool) fd" where
  "request_retire reason = (\<lambda>l.
     if fl_state l \<in> {FD_CLOSED, FD_QUARANTINED, FD_CLOSING, FD_REVOKING} then (Inr False, l)
     else
       fd_bind (if fl_state l = FD_OPEN then control_transition ''REQUEST_RETIRE'' else fd_return ()) (\<lambda>_ l.
       (Inr (current_capabilities l = []), l)) (l\<lparr>fl_retire_reason := text_or reason ''retired''\<rparr>))"

definition claim_close_once :: "string \<Rightarrow> ('r, unit) fd" where
  "claim_close_once act = (\<lambda>l.
     if fl_claimed l = fl_generation l then (Inl (FdLeaseInvariantError ''fd close authority was already claimed''), l)
     else
       let attempts = (case map_of (fl_attempts l) (fl_generation l) of None \<Rightarrow> 0 | Some n \<Rightarrow> n) in
       if attempts \<noteq> 0 then (Inl (FdLeaseInvariantError ''fd close may not be retried''), l)
       else control_transition act (l\<lparr>fl_claimed := fl_generation l,
         fl_attempts := AList.update (fl_generation l) (attempts + 1) (fl_attempts l)\<rparr>))"

definition make_ticket :: "bool \<Rightarrow> bool \<Rightarrow> ('r, 'r FdTicket) fd" where
  "make_ticket async forced = (\<lambda>l. fd_bind require_resource (\<lambda>r. fd_return
     \<lparr>tk_generation = fl_generation l, tk_resource = r, tk_forced = forced, tk_async = async,
      tk_closer = (let k = fl_closers l in if async then (if forced then has_hard_async k else has_async k)
        else (if forced then has_hard_sync k else has_sync k))\<rparr>) l)"

definition claim_graceful_locked :: "bool \<Rightarrow> ('r, 'r FdTicket) fd" where
  "claim_graceful_locked async = (\<lambda>l.
     if fl_state l \<noteq> FD_RETIRING then
       (Inl (FdLeaseInvariantError (''fd resource cannot close from '' @ control_value (fl_state l))), l)
     else
       fd_bind (validate_close_mode async False) (\<lambda>_.
       fd_bind (claim_close_once ''CLAIM_GRACEFUL_CLOSE'') (\<lambda>_. make_ticket async False)) l)"

definition claim_graceful_close :: "bool \<Rightarrow> ('r, 'r FdTicket option) fd" where
  "claim_graceful_close async =
     fd_bind (\<lambda>l. if fl_state l = FD_OPEN
       then control_transition ''REQUEST_RETIRE'' (l\<lparr>fl_retire_reason := text_or (fl_retire_reason l) ''explicit close''\<rparr>)
       else (Inr (), l)) (\<lambda>_ l.
     if fl_state l \<in> {FD_CLOSED, FD_QUARANTINED, FD_CLOSING, FD_REVOKING} then (Inr None, l)
     else if current_capabilities l \<noteq> [] then
       (Inl (FdLeaseInvariantError ''fd resource cannot close while capabilities remain''), l)
     else fd_bind (claim_graceful_locked async) (\<lambda>t. fd_return (Some t)) l)"

text \<open>Tombstoning, in the order of the capabilities; the first illegal transition ends it.\<close>

fun revoke_all :: "string \<Rightarrow> (nat \<times> FdCapability) list \<Rightarrow> ('r, (nat \<times> string) list) fd" where
  "revoke_all reason [] = fd_return []"
| "revoke_all reason ((c, x) # xs) =
     fd_bind (capability_transition c x ''FORCE_REVOKE'') (\<lambda>y.
     fd_bind (fd_modify (put_cap c (y\<lparr>cap_reason := text_or reason ''forced revoke''\<rparr>))) (\<lambda>_.
     fd_bind (revoke_all reason xs) (\<lambda>hooks.
     fd_return ((if cap_interrupt y then [(c, text_or reason ''forced revoke'')] else []) @ hooks))))"

definition check_authority :: "nat option \<Rightarrow> ('r, unit) fd" where
  "check_authority authority = (case authority of
       None \<Rightarrow> fd_return ()
     | Some c \<Rightarrow> fd_bind (require_capability c) (\<lambda>x l.
         if cap_generation x \<noteq> fl_generation l then
           (Inl (FdLeaseCancelledError ''stale fd capability cannot revoke a newer generation''), l)
         else (Inr (), l)))"

definition claim_forced_close ::
  "string \<Rightarrow> bool \<Rightarrow> nat option \<Rightarrow> ('r, 'r FdTicket option \<times> (nat \<times> string) list) fd" where
  "claim_forced_close reason async authority =
     fd_bind (check_authority authority) (\<lambda>_.
     fd_bind (\<lambda>l. if fl_state l = FD_OPEN
       then control_transition ''REQUEST_RETIRE'' (l\<lparr>fl_retire_reason := text_or reason ''forced revoke''\<rparr>)
       else (Inr (), l)) (\<lambda>_ l.
     if fl_state l \<in> {FD_CLOSED, FD_QUARANTINED, FD_CLOSING, FD_REVOKING} then (Inr (None, []), l)
     else
       fd_bind (validate_close_mode async True) (\<lambda>_.
       fd_bind require_resource (\<lambda>_ l.
       fd_bind (revoke_all reason (current_capabilities l)) (\<lambda>hooks.
       fd_bind (claim_close_once ''FORCE_REVOKE'') (\<lambda>_.
       fd_bind (make_ticket async True) (\<lambda>t. fd_return (Some t, hooks)))) l)) l))"

subsection \<open>Releasing a capability\<close>

fun cancel_others :: "string \<Rightarrow> (nat \<times> FdCapability) list \<Rightarrow> ('r, (nat \<times> string) list) fd" where
  "cancel_others reason [] = fd_return []"
| "cancel_others reason ((c, x) # xs) =
     fd_bind (if cap_state x = CAP_LIVE then capability_transition c x ''RETIRE_CANCEL'' else fd_return x) (\<lambda>y.
     fd_bind (fd_modify (put_cap c (y\<lparr>cap_reason := reason\<rparr>))) (\<lambda>_.
     fd_bind (cancel_others reason xs) (\<lambda>hooks.
     fd_return ((if cap_interrupt y then [(c, reason)] else []) @ hooks))))"

definition retire_by_release :: "nat \<Rightarrow> FdCapability \<Rightarrow> ('r, (nat \<times> string) list) fd" where
  "retire_by_release c x = (\<lambda>l.
     let why = text_or (cap_reason x) ''capability retired'' in
     fd_bind (control_transition ''REQUEST_RETIRE'') (\<lambda>_.
     fd_bind require_resource (\<lambda>_ l.
     cancel_others why (filter (\<lambda>(c', _). c' \<noteq> c) (current_capabilities l)) l)) (l\<lparr>fl_retire_reason := why\<rparr>))"

definition drop_cap :: "nat \<Rightarrow> 'r FdLease \<Rightarrow> 'r FdLease" where
  "drop_cap c l = l\<lparr>fl_caps := AList.delete c (fl_caps l)\<rparr>"

definition release :: "nat \<Rightarrow> nat \<Rightarrow> bool \<Rightarrow> bool \<Rightarrow> ('r, 'r FdTicket option \<times> (nat \<times> string) list) fd" where
  "release c thread reuse async =
     fd_bind (require_capability c) (\<lambda>x.
     fd_bind (require_owner_thread x thread) (\<lambda>_ l.
     if cap_in_call x then (Inl (FdLeaseInvariantError ''fd capability cannot release during an active call''), l)
     else
       let same = (cap_generation x = fl_generation l); effective = (reuse \<and> cap_state x = CAP_LIVE) in
       fd_bind (if same \<and> \<not> effective \<and> fl_state l = FD_OPEN then retire_by_release c x else fd_return []) (\<lambda>hooks.
       fd_bind (capability_transition c x ''RELEASE'') (\<lambda>_.
       fd_bind (fd_modify (drop_cap c)) (\<lambda>_ l.
       if same \<and> fl_state l = FD_RETIRING \<and> current_capabilities l = [] then
         fd_bind (claim_graceful_locked async) (\<lambda>t. fd_return (Some t, hooks)) l
       else (Inr (None, hooks), l)))) l))"

subsection \<open>Completing a close\<close>

definition finish_close :: "'r FdTicket \<Rightarrow> FdCloseOutcome \<Rightarrow> ('r, FdCloseOutcome) fd" where
  "finish_close t outcome = (\<lambda>l.
     if tk_generation t \<noteq> fl_generation l then (Inl (FdLeaseInvariantError ''fd close completed for a stale generation''), l)
     else if fl_state l \<noteq> (if tk_forced t then FD_REVOKING else FD_CLOSING) then
       (Inl (FdLeaseInvariantError ''fd close completion has no authority''), l)
     else
       let good = (co_disposition outcome = DETACHED) in
       fd_bind (control_transition (if good then ''CLOSE_DETACHED'' else ''CLOSE_UNCERTAIN'')) (\<lambda>_. fd_return outcome)
         (l\<lparr>fl_outcome := Some outcome, fl_close_error := (if good then [] else co_detail outcome),
            fl_resource := (if good then None else fl_resource l)\<rparr>))"

definition observed_outcome :: "'r FdLease \<Rightarrow> FdCloseOutcome" where
  "observed_outcome l = (case fl_outcome l of
       Some x \<Rightarrow> x
     | None \<Rightarrow> if fl_state l = FD_CLOSED then detached []
         else uncertain (''fd close is '' @ map (\<lambda>c. char_of (of_char c + 32 :: nat)) (control_value (fl_state l))))"

text \<open>What a closer did: it returned an outcome or nothing, returned something else, or raised.\<close>

datatype closer_result = Returned "FdCloseOutcome option" | ReturnedOther | Raised string string

fun normalize_close_outcome :: "closer_result \<Rightarrow> FdCloseOutcome" where
  "normalize_close_outcome (Returned (Some x)) = x"
| "normalize_close_outcome (Returned None) = uncertain ''fd closer returned no explicit detachment proof''"
| "normalize_close_outcome ReturnedOther = uncertain ''FdLeaseInvariantError: fd closer returned an invalid outcome''"
| "normalize_close_outcome (Raised kind msg) = uncertain (kind @ '': '' @ msg)"

definition missing_contract :: "'r FdTicket \<Rightarrow> FdCloseOutcome" where
  "missing_contract t = uncertain (''fd resource has no '' @ (if tk_forced t then ''hard-close'' else ''close'') @ '' contract'')"

definition not_drained :: FdCloseOutcome where
  "not_drained = uncertain ''fd capability calls did not quiesce; physical close was not attempted''"

text \<open>
  What \<open>retire_sync\<close> and \<open>retire_async\<close> do when the capabilities have drained or the grace period is over:
  \<open>closable\<close> is the last answer about the capabilities.
\<close>

datatype retire_choice = ObserveOutcome | CloseGracefully | GiveUp FdCloseOutcome | RevokeForced

definition choose_retirement :: "bool \<Rightarrow> bool \<Rightarrow> FdControlState \<Rightarrow> retire_choice" where
  "choose_retirement closable force state =
     (if state \<in> {FD_CLOSED, FD_QUARANTINED} then ObserveOutcome
      else if closable then CloseGracefully
      else if state \<in> {FD_CLOSING, FD_REVOKING} then GiveUp (uncertain ''fd close did not settle before timeout'')
      else if \<not> force then GiveUp (uncertain ''fd capabilities did not drain before timeout'')
      else RevokeForced)"

subsection \<open>Cancellation from another thread\<close>

record CancellationControl =
  cc_cancelled :: bool
  cc_reason :: string
  cc_capability :: "nat option"

definition new_control :: CancellationControl where
  "new_control = \<lparr>cc_cancelled = False, cc_reason = [], cc_capability = None\<rparr>"

text \<open>Both operations answer with the cancellation that the caller requests next, if any.\<close>

definition bind_control :: "nat \<Rightarrow> CancellationControl \<Rightarrow> fd_error + (nat \<times> string) option \<times> CancellationControl" where
  "bind_control c k =
     (if cc_capability k \<noteq> None then Inl (FdLeaseInvariantError ''fd cancellation control is already bound'')
      else Inr (if cc_cancelled k then Some (c, cc_reason k) else None, k\<lparr>cc_capability := Some c\<rparr>))"

definition cancel_control :: "string \<Rightarrow> CancellationControl \<Rightarrow> (nat \<times> string) option \<times> CancellationControl" where
  "cancel_control reason k =
     (let k' = (if cc_cancelled k then k else k\<lparr>cc_cancelled := True, cc_reason := text_or reason ''cancelled''\<rparr>) in
      (map_option (\<lambda>c. (c, cc_reason k')) (cc_capability k), k'))"

definition unbind_control :: "nat \<Rightarrow> CancellationControl \<Rightarrow> CancellationControl" where
  "unbind_control c k = (if cc_capability k = Some c then k\<lparr>cc_capability := None\<rparr> else k)"

text \<open>A cancellation is requested of the capability whichever of the two sections comes first.\<close>

lemma cancel_is_never_lost:
  assumes "cc_capability k = None" "\<not> cc_cancelled k"
  shows "case bind_control c k of Inl e \<Rightarrow> False | Inr (a, k1) \<Rightarrow> fst (cancel_control r k1) = Some (c, text_or r ''cancelled'')"
    and "case bind_control c (snd (cancel_control r k)) of Inl e \<Rightarrow> False | Inr (a, k1) \<Rightarrow> a = Some (c, text_or r ''cancelled'')"
  using assms by (simp_all add: bind_control_def cancel_control_def Let_def)

end
