(* ===== verification/Fd_System.thy ===== *)
theory Fd_System
  imports Fd_Lease
begin

section \<open>Threads on a lease\<close>

text \<open>
  A system is a lease, the closes that threads are in the middle of, and the registry entry of the lease. Between
  two locked sections of one thread every other thread may act, so a history is any sequence of locked sections;
  what a thread still has to do is a pending item: a ticket with its phase, a registration after \<open>publish\<close>, a
  settlement with the registry after a close. \<open>fs_closed\<close> logs the generations whose physical closer was called.
  \<open>AbandonDrain\<close> is the cancellation of a task inside \<open>_wait_for_generation_quiescence_async\<close>, which nothing in
  \<open>force_revoke_async\<close> handles, so that the ticket is lost; a cancellation inside a closer is the result \<open>Raised\<close>,
  as \<open>_execute_close_async\<close> catches it. A registration always succeeds: the registry refuses only a second lease
  with the same owner id, and no code passes an \<open>owner_id\<close>, so each lease has its own \<open>uuid4\<close> default.
\<close>

datatype fd_phase = Draining | Undrained | Ready | Closer_Running

record 'r FdSystem =
  fs_lease :: "'r FdLease"
  fs_tickets :: "('r FdTicket \<times> fd_phase) list"
  fs_closed :: "nat list"
  fs_registered :: bool
  fs_registering :: nat
  fs_settling :: "(nat \<times> FdControlState) list"

datatype 'r fd_op =
    Publish "'r option" Closers
  | Register
  | Acquire nat bool
  | BeginCall nat nat
  | EndCall nat
  | RequestCancel nat string
  | RequestRetire string
  | ReleaseCapability nat nat bool bool
  | ClaimClose bool
  | ClaimRevoke string bool "nat option"
  | SeeDrained "'r FdTicket"
  | DrainTimeout "'r FdTicket"
  | AbandonDrain "'r FdTicket"
  | RunCloser "'r FdTicket"
  | FinishClose "'r FdTicket" closer_result
  | Settle nat FdControlState

definition with_lease :: "'r FdSystem \<Rightarrow> 'r FdLease \<Rightarrow> 'r FdSystem" where
  "with_lease s l = s\<lparr>fs_lease := l\<rparr>"

definition add_ticket :: "fd_phase \<Rightarrow> 'r FdTicket option \<Rightarrow> 'r FdSystem \<Rightarrow> 'r FdSystem" where
  "add_ticket ph t s = (case t of None \<Rightarrow> s | Some x \<Rightarrow> s\<lparr>fs_tickets := fs_tickets s @ [(x, ph)]\<rparr>)"

definition move_ticket :: "'r FdTicket \<Rightarrow> fd_phase \<Rightarrow> fd_phase \<Rightarrow> 'r FdSystem \<Rightarrow> 'r FdSystem" where
  "move_ticket t ph ph' s = s\<lparr>fs_tickets := (t, ph') # remove1 (t, ph) (fs_tickets s)\<rparr>"

text \<open>
  One look of the waiting thread at the calls of its generation: none is left, or the drain timeout is over. With
  calls left and time left it looks again later, which changes nothing.
\<close>

definition wait_for_quiescence :: "bool \<Rightarrow> 'r FdTicket \<Rightarrow> 'r FdSystem \<Rightarrow> 'r FdSystem" where
  "wait_for_quiescence over t s =
     (if generation_has_inflight_calls (tk_generation t) (fs_lease s)
      then (if over then move_ticket t Draining Undrained s else s)
      else move_ticket t Draining Ready s)"

definition call_closer :: "'r FdTicket \<Rightarrow> 'r FdSystem \<Rightarrow> 'r FdSystem" where
  "call_closer t s = (move_ticket t Ready Closer_Running s)\<lparr>fs_closed := fs_closed s @ [tk_generation t]\<rparr>"

text \<open>The outcome with which a thread completes the close, if it is at that point.\<close>

definition close_outcome :: "'r FdSystem \<Rightarrow> 'r FdTicket \<Rightarrow> closer_result \<Rightarrow> (fd_phase \<times> FdCloseOutcome) option" where
  "close_outcome s t result =
     (if (t, Closer_Running) \<in> set (fs_tickets s) then Some (Closer_Running, normalize_close_outcome result)
      else if (t, Undrained) \<in> set (fs_tickets s) then Some (Undrained, not_drained)
      else if (t, Ready) \<in> set (fs_tickets s) \<and> \<not> tk_closer t then Some (Ready, missing_contract t)
      else None)"

text \<open>\<open>FdLeaseRegistry.terminal\<close> and \<open>register\<close>, for the entry of this lease.\<close>

definition registry_terminal :: "nat \<Rightarrow> FdControlState \<Rightarrow> 'r FdSystem \<Rightarrow> 'r FdSystem" where
  "registry_terminal g st s =
     (if st = FD_QUARANTINED then s\<lparr>fs_registered := True\<rparr>
      else if fl_generation (fs_lease s) = g then s\<lparr>fs_registered := False\<rparr> else s)"

fun fd_step :: "'r FdSystem \<Rightarrow> 'r fd_op \<Rightarrow> 'r FdSystem" where
  "fd_step s (Publish r k) = (case publish r k (fs_lease s) of
     (Inl e, l) \<Rightarrow> with_lease s l | (Inr g, l) \<Rightarrow> (with_lease s l)\<lparr>fs_registering := Suc (fs_registering s)\<rparr>)"
| "fd_step s Register = (if fs_registering s = 0 then s
     else s\<lparr>fs_registering := fs_registering s - 1, fs_registered := True\<rparr>)"
| "fd_step s (Acquire thread hook) = with_lease s (snd (acquire thread hook (fs_lease s)))"
| "fd_step s (BeginCall c thread) = with_lease s (snd (begin_call c thread (fs_lease s)))"
| "fd_step s (EndCall c) = with_lease s (snd (end_call c (fs_lease s)))"
| "fd_step s (RequestCancel c reason) = with_lease s (snd (request_cancel c reason (fs_lease s)))"
| "fd_step s (RequestRetire reason) = with_lease s (snd (request_retire reason (fs_lease s)))"
| "fd_step s (ReleaseCapability c thread reuse async) = (case release c thread reuse async (fs_lease s) of
     (Inl e, l) \<Rightarrow> with_lease s l | (Inr (t, _), l) \<Rightarrow> add_ticket Ready t (with_lease s l))"
| "fd_step s (ClaimClose async) = (case claim_graceful_close async (fs_lease s) of
     (Inl e, l) \<Rightarrow> with_lease s l | (Inr t, l) \<Rightarrow> add_ticket Ready t (with_lease s l))"
| "fd_step s (ClaimRevoke reason async authority) = (case claim_forced_close reason async authority (fs_lease s) of
     (Inl e, l) \<Rightarrow> with_lease s l | (Inr (t, _), l) \<Rightarrow> add_ticket Draining t (with_lease s l))"
| "fd_step s (SeeDrained t) =
     (if (t, Draining) \<in> set (fs_tickets s) then wait_for_quiescence False t s else s)"
| "fd_step s (DrainTimeout t) =
     (if (t, Draining) \<in> set (fs_tickets s) then wait_for_quiescence True t s else s)"
| "fd_step s (AbandonDrain t) =
     (if (t, Draining) \<in> set (fs_tickets s) \<and> tk_async t
      then s\<lparr>fs_tickets := remove1 (t, Draining) (fs_tickets s)\<rparr> else s)"
| "fd_step s (RunCloser t) =
     (if (t, Ready) \<in> set (fs_tickets s) \<and> tk_closer t then call_closer t s else s)"
| "fd_step s (FinishClose t result) = (case close_outcome s t result of
     None \<Rightarrow> s
   | Some (ph, outcome) \<Rightarrow>
       let (x, l) = finish_close t outcome (fs_lease s);
           s' = (with_lease s l)\<lparr>fs_tickets := remove1 (t, ph) (fs_tickets s)\<rparr> in
       (case x of Inl e \<Rightarrow> s' | Inr _ \<Rightarrow> s'\<lparr>fs_settling := fs_settling s @ [(fl_generation l, fl_state l)]\<rparr>))"
| "fd_step s (Settle g st) =
     (if (g, st) \<in> set (fs_settling s)
      then registry_terminal g st (s\<lparr>fs_settling := remove1 (g, st) (fs_settling s)\<rparr>) else s)"

text \<open>A lease that was just constructed and registered.\<close>

definition start_system :: "'r FdLease \<Rightarrow> 'r FdSystem" where
  "start_system l = \<lparr>fs_lease = l, fs_tickets = [], fs_closed = [], fs_registered = True, fs_registering = 0, fs_settling = []\<rparr>"

subsection \<open>The invariant of a lease\<close>

fun cap_fits :: "FdControlState \<Rightarrow> FdCapabilityState set" where
  "cap_fits FD_OPEN = {CAP_LIVE, CAP_CANCELLED}"
| "cap_fits FD_RETIRING = {CAP_LIVE, CAP_CANCELLED}"
| "cap_fits FD_CLOSING = {}"
| "cap_fits _ = {CAP_TOMBSTONE}"

definition cap_ok :: "nat \<Rightarrow> FdControlState \<Rightarrow> nat \<Rightarrow> nat \<Rightarrow> FdCapability \<Rightarrow> bool" where
  "cap_ok g st n c x \<longleftrightarrow> c \<le> n \<and> cap_generation x \<le> g
     \<and> (if cap_generation x = g then cap_state x \<in> cap_fits st else cap_state x = CAP_TOMBSTONE \<and> \<not> cap_in_call x)
     \<and> (cap_in_call x \<longrightarrow> st \<noteq> FD_CLOSED)"

definition caps_ok :: "'r FdLease \<Rightarrow> bool" where
  "caps_ok l \<longleftrightarrow> distinct (map fst (fl_caps l))
     \<and> (\<forall>(c, x) \<in> set (fl_caps l). cap_ok (fl_generation l) (fl_state l) (fl_next l) c x)"

definition unclaimed :: "FdControlState \<Rightarrow> bool" where
  "unclaimed st \<longleftrightarrow> st \<in> {FD_OPEN, FD_RETIRING}"

definition claims_ok :: "'r FdLease \<Rightarrow> bool" where
  "claims_ok l \<longleftrightarrow> 1 \<le> fl_generation l \<and> (fl_resource l = None \<longleftrightarrow> fl_state l = FD_CLOSED)
     \<and> (fl_claimed l = fl_generation l \<longleftrightarrow> \<not> unclaimed (fl_state l)) \<and> fl_claimed l \<le> fl_generation l
     \<and> (\<forall>g > fl_generation l. map_of (fl_attempts l) g = None)
     \<and> map_of (fl_attempts l) (fl_generation l) = Some (if unclaimed (fl_state l) then 0 else 1)"

definition lease_ok :: "'r FdLease \<Rightarrow> bool" where
  "lease_ok l \<longleftrightarrow> caps_ok l \<and> claims_ok l"

lemma new_lease_ok: "new_lease owner r capacity k drain = Inr l \<Longrightarrow> lease_ok l \<and> fl_state l = FD_OPEN"
  by (auto simp: new_lease_def validate_configuration_def lease_ok_def caps_ok_def claims_ok_def unclaimed_def
      split: if_split_asm option.splits sum.splits)

end
