(* ===== verification/Fd_Steps.thy ===== *)
theory Fd_Steps
  imports Fd_System
begin

section \<open>What the operations of a lease do\<close>

lemma fd_simps [simp]:
  "fd_bind (fd_return x) f l = f x l"
  "fd_return x l = (Inr x, l)"
  "fd_raise msg l = (Inl (FdLeaseInvariantError msg), l)"
  "fd_modify g l = (Inr (), g l)"
  by (simp_all add: fd_bind_def fd_return_def fd_raise_def fd_modify_def)

lemma fd_bind_cases [simp]:
  "m l = (Inl e, l') \<Longrightarrow> fd_bind m f l = (Inl e, l')"
  "m l = (Inr x, l') \<Longrightarrow> fd_bind m f l = f x l'"
  by (simp_all add: fd_bind_def)

lemma control_transitions [simp]:
  "map_of FD_CONTROL_TRANSITIONS (st, ''PUBLISH'') = (if st = FD_CLOSED then Some FD_OPEN else None)"
  "map_of FD_CONTROL_TRANSITIONS (st, ''REQUEST_RETIRE'') = (if st = FD_OPEN then Some FD_RETIRING else None)"
  "map_of FD_CONTROL_TRANSITIONS (st, ''CLAIM_GRACEFUL_CLOSE'') = (if st = FD_RETIRING then Some FD_CLOSING else None)"
  "map_of FD_CONTROL_TRANSITIONS (st, ''FORCE_REVOKE'') = (if st = FD_RETIRING then Some FD_REVOKING else None)"
  "map_of FD_CONTROL_TRANSITIONS (st, ''CLOSE_DETACHED'') = (if st \<in> {FD_CLOSING, FD_REVOKING} then Some FD_CLOSED else None)"
  "map_of FD_CONTROL_TRANSITIONS (st, ''CLOSE_UNCERTAIN'') = (if st \<in> {FD_CLOSING, FD_REVOKING} then Some FD_QUARANTINED else None)"
  by (cases st; simp add: FD_CONTROL_TRANSITIONS_def)+

lemma capability_transitions [simp]:
  "map_of FD_CAPABILITY_TRANSITIONS (st, ''REQUEST_CANCEL'') = (if st = CAP_LIVE then Some CAP_CANCELLED else None)"
  "map_of FD_CAPABILITY_TRANSITIONS (st, ''RETIRE_CANCEL'') = (if st = CAP_LIVE then Some CAP_CANCELLED else None)"
  "map_of FD_CAPABILITY_TRANSITIONS (st, ''FORCE_REVOKE'') = (if st \<in> {CAP_LIVE, CAP_CANCELLED} then Some CAP_TOMBSTONE else None)"
  "map_of FD_CAPABILITY_TRANSITIONS (st, ''RELEASE'') = (if st \<noteq> CAP_RELEASED then Some CAP_RELEASED else None)"
  by (cases st; simp add: FD_CAPABILITY_TRANSITIONS_def)+

subsection \<open>Capabilities\<close>

lemma caps_ok_iff: "caps_ok l \<longleftrightarrow> distinct (map fst (fl_caps l))
    \<and> (\<forall>c x. map_of (fl_caps l) c = Some x \<longrightarrow> cap_ok (fl_generation l) (fl_state l) (fl_next l) c x)"
  by (auto simp: caps_ok_def)

lemma cap_ok_next: "cap_ok g st n c x \<Longrightarrow> cap_ok g st (Suc n) c x"
  by (simp add: cap_ok_def)

lemma caps_okD: "caps_ok l \<Longrightarrow> map_of (fl_caps l) c = Some x \<Longrightarrow> cap_ok (fl_generation l) (fl_state l) (fl_next l) c x"
  by (simp add: caps_ok_iff)

lemma put_cap_fields [simp]:
  "fl_state (put_cap c x l) = fl_state l" "fl_generation (put_cap c x l) = fl_generation l"
  "fl_resource (put_cap c x l) = fl_resource l" "fl_next (put_cap c x l) = fl_next l"
  "fl_claimed (put_cap c x l) = fl_claimed l" "fl_attempts (put_cap c x l) = fl_attempts l"
  "fl_closers (put_cap c x l) = fl_closers l"
  "map_of (fl_caps (put_cap c x l)) = (map_of (fl_caps l))(c \<mapsto> x)"
  by (simp_all add: put_cap_def update_conv')

lemma put_cap_ok:
  assumes "caps_ok l" and "cap_ok (fl_generation l) (fl_state l) (fl_next l) c x"
  shows "caps_ok (put_cap c x l)"
proof -
  have "distinct (map fst (fl_caps (put_cap c x l)))"
    using assms(1) by (simp add: caps_ok_def put_cap_def distinct_update)
  with assms show ?thesis by (auto simp: caps_ok_iff)
qed

lemma inflight_iff:
  "caps_ok l \<Longrightarrow> generation_has_inflight_calls g l \<longleftrightarrow> (\<exists>c x. map_of (fl_caps l) c = Some x \<and> cap_generation x = g \<and> cap_in_call x)"
  by (auto simp: caps_ok_def generation_has_inflight_calls_def list_ex_iff)

lemma current_iff:
  "caps_ok l \<Longrightarrow> (c, x) \<in> set (current_capabilities l) \<longleftrightarrow> map_of (fl_caps l) c = Some x \<and> cap_generation x = fl_generation l"
  by (auto simp: caps_ok_def current_capabilities_def cap_ok_def)
    (cases "fl_state l"; fastforce)

lemma current_distinct: "caps_ok l \<Longrightarrow> distinct (map fst (current_capabilities l))"
  unfolding current_capabilities_def by (intro distinct_map_filter) (simp add: caps_ok_def)

text \<open>The rows after each of a list of capabilities has been rewritten.\<close>

definition rewritten :: "(FdCapability \<Rightarrow> FdCapability) \<Rightarrow> (nat \<times> FdCapability) list \<Rightarrow> 'r FdLease \<Rightarrow> 'r FdLease \<Rightarrow> bool" where
  "rewritten f xs l l' \<longleftrightarrow> (\<exists>rows. l' = l\<lparr>fl_caps := rows\<rparr> \<and> map fst rows = map fst (fl_caps l)
     \<and> (\<forall>c. map_of rows c = (case map_of xs c of None \<Rightarrow> map_of (fl_caps l) c | Some x \<Rightarrow> Some (f x))))"

lemma rewritten_Nil: "rewritten f [] l l"
  unfolding rewritten_def by (rule exI [of _ "fl_caps l"]) simp

lemma rewritten_Cons:
  assumes "map_of (fl_caps l) c = Some x" and "c \<notin> fst ` set xs" and "rewritten f xs (put_cap c (f x) l) l'"
  shows "rewritten f ((c, x) # xs) l l'"
proof -
  have keys: "map fst (fl_caps (put_cap c (f x) l)) = map fst (fl_caps l)"
    using map_of_SomeD [OF assms(1)] by (force simp: put_cap_def update_keys)
  from assms(3) obtain rows where r: "l' = (put_cap c (f x) l)\<lparr>fl_caps := rows\<rparr>"
    "map fst rows = map fst (fl_caps (put_cap c (f x) l))"
    "\<forall>d. map_of rows d = (case map_of xs d of None \<Rightarrow> map_of (fl_caps (put_cap c (f x) l)) d | Some y \<Rightarrow> Some (f y))"
    unfolding rewritten_def by blast
  have "l' = l\<lparr>fl_caps := rows\<rparr>" using r(1) by (simp add: put_cap_def)
  moreover have "map_of xs c = None" using assms(2) by (simp add: map_of_eq_None_iff)
  ultimately show ?thesis using r(2,3) keys unfolding rewritten_def by (intro exI [of _ rows]) (auto split: option.split)
qed

definition revoked :: "string \<Rightarrow> FdCapability \<Rightarrow> FdCapability" where
  "revoked why x = x\<lparr>cap_state := CAP_TOMBSTONE, cap_reason := why\<rparr>"

definition cancelled_cap :: "string \<Rightarrow> FdCapability \<Rightarrow> FdCapability" where
  "cancelled_cap why x = x\<lparr>cap_state := (if cap_state x = CAP_LIVE then CAP_CANCELLED else cap_state x), cap_reason := why\<rparr>"

lemma put_put [simp]: "put_cap c y (put_cap c x l) = put_cap c y l"
  by (simp add: put_cap_def)


lemma revoke_all_result:
  assumes "\<forall>(c, x) \<in> set xs. map_of (fl_caps l) c = Some x \<and> cap_state x \<in> {CAP_LIVE, CAP_CANCELLED}"
    and "distinct (map fst xs)"
  shows "\<exists>hooks l'. revoke_all why xs l = (Inr hooks, l') \<and> rewritten (revoked (text_or why ''forced revoke'')) xs l l'"
  using assms
proof (induction xs arbitrary: l)
  case Nil
  then show ?case by (simp add: rewritten_Nil)
next
  case (Cons p xs)
  obtain c x where p: "p = (c, x)" by (cases p)
  let ?l = "put_cap c (revoked (text_or why ''forced revoke'') x) l"
  have x: "map_of (fl_caps l) c = Some x" "cap_state x \<in> {CAP_LIVE, CAP_CANCELLED}" using Cons.prems(1) p by auto
  have fresh: "c \<notin> fst ` set xs" using Cons.prems(2) p by simp
  have "\<forall>(d, y) \<in> set xs. map_of (fl_caps ?l) d = Some y \<and> cap_state y \<in> {CAP_LIVE, CAP_CANCELLED}"
    using Cons.prems(1) fresh by force
  from Cons.IH [OF this] Cons.prems(2) p obtain hooks l' where
    "revoke_all why xs ?l = (Inr hooks, l')" "rewritten (revoked (text_or why ''forced revoke'')) xs ?l l'" by auto
  moreover have "capability_transition c x ''FORCE_REVOKE'' l = (Inr (x\<lparr>cap_state := CAP_TOMBSTONE\<rparr>), put_cap c (x\<lparr>cap_state := CAP_TOMBSTONE\<rparr>) l)"
    using x(2) by (simp add: capability_transition_def)
  ultimately have "revoke_all why (p # xs) l = (Inr ((if cap_interrupt x then [(c, text_or why ''forced revoke'')] else []) @ hooks), l')"
    by (simp add: p revoked_def)
  with rewritten_Cons [OF x(1) fresh \<open>rewritten (revoked (text_or why ''forced revoke'')) xs ?l l'\<close>] show ?case
    unfolding p by blast
qed

lemma cancel_others_result:
  assumes "\<forall>(c, x) \<in> set xs. map_of (fl_caps l) c = Some x"
    and "distinct (map fst xs)"
  shows "\<exists>hooks l'. cancel_others why xs l = (Inr hooks, l') \<and> rewritten (cancelled_cap why) xs l l'"
  using assms
proof (induction xs arbitrary: l)
  case Nil
  then show ?case by (simp add: rewritten_Nil)
next
  case (Cons p xs)
  obtain c x where p: "p = (c, x)" by (cases p)
  let ?l = "put_cap c (cancelled_cap why x) l"
  have x: "map_of (fl_caps l) c = Some x" using Cons.prems(1) p by auto
  have fresh: "c \<notin> fst ` set xs" using Cons.prems(2) p by simp
  have "\<forall>(d, y) \<in> set xs. map_of (fl_caps ?l) d = Some y"
    using Cons.prems(1) fresh by force
  from Cons.IH [OF this] Cons.prems(2) p obtain hooks l' where
    "cancel_others why xs ?l = (Inr hooks, l')" "rewritten (cancelled_cap why) xs ?l l'" by auto
  moreover have "\<exists>y. (if cap_state x = CAP_LIVE then capability_transition c x ''RETIRE_CANCEL'' else fd_return x) l = (Inr y, put_cap c y l)
      \<and> y\<lparr>cap_reason := why\<rparr> = cancelled_cap why x \<and> cap_interrupt y = cap_interrupt x"
    using x by (auto simp: capability_transition_def cancelled_cap_def put_cap_def update_triv)
  ultimately have "cancel_others why (p # xs) l = (Inr ((if cap_interrupt x then [(c, why)] else []) @ hooks), l')"
    by (auto simp: p)
  with rewritten_Cons [OF x fresh \<open>rewritten (cancelled_cap why) xs ?l l'\<close>] show ?case
    unfolding p by blast
qed

text \<open>Rewriting the current capabilities keeps the table of capabilities in order.\<close>

lemma rewritten_ok:
  assumes r: "rewritten f xs l l'" and ok: "caps_ok l"
    and each: "\<And>c x. map_of xs c = Some x \<Longrightarrow> cap_ok (fl_generation l) st (fl_next l) c (f x)"
    and rest: "\<And>c x. map_of xs c = None \<Longrightarrow> map_of (fl_caps l) c = Some x \<Longrightarrow> cap_ok (fl_generation l) st (fl_next l) c x"
  shows "caps_ok (l'\<lparr>fl_state := st\<rparr>)"
proof -
  from r obtain rows where l': "l' = l\<lparr>fl_caps := rows\<rparr>" and keys: "map fst rows = map fst (fl_caps l)"
    and rows: "\<forall>c. map_of rows c = (case map_of xs c of None \<Rightarrow> map_of (fl_caps l) c | Some x \<Rightarrow> Some (f x))"
    unfolding rewritten_def by blast
  have "cap_ok (fl_generation l) st (fl_next l) c y" if "map_of rows c = Some y" for c y
  proof (cases "map_of xs c")
    case None
    with that rows have "map_of (fl_caps l) c = Some y" by simp
    with rest [OF None] show ?thesis .
  next
    case (Some x)
    with that rows have "y = f x" by simp
    with each [OF Some] show ?thesis by simp
  qed
  moreover have "distinct (map fst rows)" unfolding keys using ok by (simp add: caps_ok_def)
  ultimately show ?thesis unfolding caps_ok_iff l' by simp
qed

subsection \<open>Quiet operations\<close>

text \<open>What rows may become: an identifier already given out keeps its generation and is never live again.\<close>

definition caps_descend :: "'r FdLease \<Rightarrow> 'r FdLease \<Rightarrow> bool" where
  "caps_descend l l' \<longleftrightarrow> fl_next l \<le> fl_next l' \<and> (\<forall>c x'. c \<le> fl_next l \<longrightarrow> map_of (fl_caps l') c = Some x' \<longrightarrow>
     (\<exists>x. map_of (fl_caps l) c = Some x \<and> cap_generation x' = cap_generation x \<and> (cap_state x' = CAP_LIVE \<longrightarrow> cap_state x = CAP_LIVE)))"

lemma caps_descend_same [simp]: "fl_caps l' = fl_caps l \<Longrightarrow> fl_next l' = fl_next l \<Longrightarrow> caps_descend l l'"
  by (simp add: caps_descend_def)

lemma caps_descend_trans: "caps_descend l l1 \<Longrightarrow> caps_descend l1 l2 \<Longrightarrow> caps_descend l l2"
  unfolding caps_descend_def by (elim conjE, intro conjI allI impI) (linarith, metis le_trans)

lemma caps_descend_put:
  "map_of (fl_caps l) c = Some x \<Longrightarrow> cap_generation y = cap_generation x \<Longrightarrow> (cap_state y = CAP_LIVE \<longrightarrow> cap_state x = CAP_LIVE)
     \<Longrightarrow> caps_descend l (put_cap c y l)"
  by (auto simp: caps_descend_def)

lemma caps_descend_rewritten:
  assumes "rewritten f xs l l'" and "\<forall>(c, x) \<in> set xs. map_of (fl_caps l) c = Some x"
    and "\<And>x. cap_generation (f x) = cap_generation x" and "\<And>x. cap_state (f x) = CAP_LIVE \<Longrightarrow> cap_state x = CAP_LIVE"
  shows "caps_descend l l'"
proof -
  from assms(1) obtain rows where l': "l' = l\<lparr>fl_caps := rows\<rparr>"
    and rows: "\<forall>c. map_of rows c = (case map_of xs c of None \<Rightarrow> map_of (fl_caps l) c | Some x \<Rightarrow> Some (f x))"
    unfolding rewritten_def by blast
  have "\<exists>x. map_of (fl_caps l) c = Some x \<and> cap_generation x' = cap_generation x \<and> (cap_state x' = CAP_LIVE \<longrightarrow> cap_state x = CAP_LIVE)"
    if x': "map_of rows c = Some x'" for c x'
  proof (cases "map_of xs c")
    case None
    with x' rows show ?thesis by simp
  next
    case (Some x)
    with x' rows have "x' = f x" by simp
    moreover have "map_of (fl_caps l) c = Some x" using map_of_SomeD [OF Some] assms(2) by blast
    ultimately show ?thesis using assms(3,4) by blast
  qed
  then show ?thesis unfolding caps_descend_def l' by simp
qed

text \<open>
  A quiet operation keeps the generation and the resource, may retire an open lease and nothing else, lets no
  call begin on a lease whose close is claimed, and neither recreates nor revives a capability.
\<close>

definition quiet :: "'r FdLease \<Rightarrow> 'r FdLease \<Rightarrow> bool" where
  "quiet l l' \<longleftrightarrow> fl_generation l' = fl_generation l \<and> fl_resource l' = fl_resource l
     \<and> (fl_state l' = fl_state l \<or> fl_state l = FD_OPEN \<and> fl_state l' = FD_RETIRING) \<and> caps_descend l l'
     \<and> (lease_ok l \<longrightarrow> lease_ok l' \<and> (\<not> unclaimed (fl_state l) \<longrightarrow>
          (\<forall>g. generation_has_inflight_calls g l' \<longrightarrow> generation_has_inflight_calls g l)))"

lemma quiet_refl [simp]: "quiet l l"
  by (simp add: quiet_def)

lemma claims_ok_cong:
  assumes "claims_ok l" "fl_generation l' = fl_generation l" "fl_resource l' = fl_resource l" "fl_claimed l' = fl_claimed l"
    "fl_attempts l' = fl_attempts l" "unclaimed (fl_state l') = unclaimed (fl_state l)" "(fl_state l' = FD_CLOSED) = (fl_state l = FD_CLOSED)"
  shows "claims_ok l'"
  using assms by (simp add: claims_ok_def)

text \<open>Changing one capability is quiet if the new row fits and begins no call on a claimed lease.\<close>

lemma quiet_put:
  assumes "map_of (fl_caps l) c = Some x"
    and "cap_ok (fl_generation l) (fl_state l) (fl_next l) c x \<Longrightarrow> cap_ok (fl_generation l) (fl_state l) (fl_next l) c y"
    and "cap_generation y = cap_generation x" and "cap_in_call y \<longrightarrow> cap_in_call x \<or> unclaimed (fl_state l)"
    and live: "cap_state y = CAP_LIVE \<longrightarrow> cap_state x = CAP_LIVE"
  shows "quiet l (put_cap c y l)"
proof -
  have "lease_ok (put_cap c y l) \<and> (\<not> unclaimed (fl_state l) \<longrightarrow>
      (\<forall>g. generation_has_inflight_calls g (put_cap c y l) \<longrightarrow> generation_has_inflight_calls g l))" if ok: "lease_ok l"
  proof -
    have caps: "caps_ok l" using ok by (simp add: lease_ok_def)
    have new: "caps_ok (put_cap c y l)" using put_cap_ok [OF caps assms(2)] caps_okD [OF caps assms(1)] by simp
    moreover have "claims_ok (put_cap c y l)" by (rule claims_ok_cong [of l]) (use ok in \<open>simp_all add: lease_ok_def\<close>)
    moreover have "generation_has_inflight_calls g l" if "\<not> unclaimed (fl_state l)" "generation_has_inflight_calls g (put_cap c y l)" for g
      using that assms(1,3,4) unfolding inflight_iff [OF new] inflight_iff [OF caps] by (auto split: if_split_asm)
    ultimately show ?thesis by (simp add: lease_ok_def)
  qed
  with caps_descend_put [OF assms(1,3) live] show ?thesis by (simp add: quiet_def)
qed

lemma acquire_quiet: "quiet l (snd (acquire thread hook l))"
proof (cases "fl_state l = FD_OPEN \<and> capacity_available l")
  case True
  let ?x = "\<lparr>cap_generation = fl_generation l, cap_thread = thread, cap_interrupt = hook, cap_state = CAP_LIVE,
    cap_reason = [], cap_in_call = False\<rparr>"
  have "lease_ok (put_cap (Suc (fl_next l)) ?x (l\<lparr>fl_next := Suc (fl_next l)\<rparr>))" if ok: "lease_ok l"
  proof -
    have "caps_ok (l\<lparr>fl_next := Suc (fl_next l)\<rparr>)"
      using ok unfolding lease_ok_def caps_ok_def by (auto intro: cap_ok_next)
    then have "caps_ok (put_cap (Suc (fl_next l)) ?x (l\<lparr>fl_next := Suc (fl_next l)\<rparr>))"
      by (rule put_cap_ok) (use True in \<open>simp add: cap_ok_def\<close>)
    moreover have "claims_ok (put_cap (Suc (fl_next l)) ?x (l\<lparr>fl_next := Suc (fl_next l)\<rparr>))"
      by (rule claims_ok_cong [of l]) (use ok in \<open>simp_all add: lease_ok_def\<close>)
    ultimately show ?thesis by (simp add: lease_ok_def)
  qed
  moreover have "caps_descend l (put_cap (Suc (fl_next l)) ?x (l\<lparr>fl_next := Suc (fl_next l)\<rparr>))" by (simp add: caps_descend_def)
  ultimately show ?thesis using True by (simp add: acquire_def Let_def quiet_def unclaimed_def)
qed (auto simp: acquire_def)

lemma begin_quiet: "quiet l (snd (begin_call c thread l))"
proof (cases "\<exists>r l'. begin_call c thread l = (Inr r, l')")
  case True
  then obtain r l' where "begin_call c thread l = (Inr r, l')" by blast
  then obtain x where x: "map_of (fl_caps l) c = Some x" "cap_state x = CAP_LIVE" "fl_state l \<in> {FD_OPEN, FD_RETIRING}"
    "cap_generation x = fl_generation l" and l': "snd (begin_call c thread l) = put_cap c (x\<lparr>cap_in_call := True\<rparr>) l"
    by (auto simp: begin_call_def fd_bind_def require_capability_def require_owner_thread_def require_resource_def
        split: option.splits if_split_asm)
  show ?thesis unfolding l' by (rule quiet_put [OF x(1)]) (use x in \<open>auto simp: cap_ok_def unclaimed_def\<close>)
next
  case False
  then have "snd (begin_call c thread l) = l \<or> (\<exists>x. map_of (fl_caps l) c = Some x \<and> fl_resource l = None
      \<and> fl_state l \<in> {FD_OPEN, FD_RETIRING} \<and> cap_state x = CAP_LIVE \<and> cap_generation x = fl_generation l
      \<and> snd (begin_call c thread l) = put_cap c (x\<lparr>cap_in_call := True\<rparr>) l)"
    by (auto simp: begin_call_def fd_bind_def require_capability_def require_owner_thread_def require_resource_def
        split: option.splits if_split)
  then show ?thesis
  proof (elim disjE exE conjE)
    fix x assume x: "map_of (fl_caps l) c = Some x" "cap_state x = CAP_LIVE" "fl_state l \<in> {FD_OPEN, FD_RETIRING}"
      "cap_generation x = fl_generation l" and l': "snd (begin_call c thread l) = put_cap c (x\<lparr>cap_in_call := True\<rparr>) l"
    show ?thesis unfolding l' by (rule quiet_put [OF x(1)]) (use x in \<open>auto simp: cap_ok_def unclaimed_def\<close>)
  qed simp
qed

lemma end_quiet: "quiet l (snd (end_call c l))"
proof (cases "map_of (fl_caps l) c")
  case (Some x)
  have "quiet l (put_cap c (x\<lparr>cap_in_call := False\<rparr>) l)" by (rule quiet_put [OF Some]) (auto simp: cap_ok_def)
  with Some show ?thesis by (simp add: end_call_def fd_bind_def require_capability_def)
qed (simp add: end_call_def fd_bind_def require_capability_def)

lemma cancel_quiet: "quiet l (snd (request_cancel c reason l))"
proof (cases "\<exists>x. map_of (fl_caps l) c = Some x \<and> cap_state x = CAP_LIVE")
  case True
  then obtain x where x: "map_of (fl_caps l) c = Some x" "cap_state x = CAP_LIVE" by blast
  let ?y = "x\<lparr>cap_state := CAP_CANCELLED, cap_reason := text_or reason ''cancelled''\<rparr>"
  have "quiet l (put_cap c ?y l)"
    by (rule quiet_put [OF x(1)]) (use x(2) in \<open>(cases "fl_state l"; auto simp: cap_ok_def split: if_split_asm)[1]\<close>, simp_all)
  moreover have "snd (request_cancel c reason l) = put_cap c ?y l"
    using x by (simp add: request_cancel_def capability_transition_def Let_def fd_bind_def require_resource_def split: option.split)
  ultimately show ?thesis by simp
next
  case False
  then show ?thesis by (auto simp: request_cancel_def split: option.split) (metis FdCapabilityState.exhaust)+
qed

lemma caps_ok_retire: "caps_ok l \<Longrightarrow> fl_state l = FD_OPEN \<Longrightarrow> caps_ok (l\<lparr>fl_retire_reason := r, fl_state := FD_RETIRING\<rparr>)"
proof -
  have "cap_ok g FD_OPEN n c x \<Longrightarrow> cap_ok g FD_RETIRING n c x" for g n c x
    by (auto simp: cap_ok_def split: if_split_asm)
  then show "caps_ok l \<Longrightarrow> fl_state l = FD_OPEN \<Longrightarrow> caps_ok (l\<lparr>fl_retire_reason := r, fl_state := FD_RETIRING\<rparr>)"
    unfolding caps_ok_def by auto
qed

lemma quiet_retire:
  assumes "fl_state l = FD_OPEN"
  shows "quiet l (l\<lparr>fl_retire_reason := r, fl_state := FD_RETIRING\<rparr>)"
proof -
  have "claims_ok (l\<lparr>fl_retire_reason := r, fl_state := FD_RETIRING\<rparr>)" if "lease_ok l"
    by (rule claims_ok_cong [of l]) (use that assms in \<open>simp_all add: lease_ok_def unclaimed_def\<close>)
  with caps_ok_retire [OF _ assms] assms show ?thesis by (simp add: quiet_def lease_ok_def unclaimed_def)
qed

lemma quiet_reason: "quiet l (l\<lparr>fl_retire_reason := r\<rparr>)"
  by (simp add: quiet_def lease_ok_def caps_ok_def claims_ok_def generation_has_inflight_calls_def)

lemma retire_quiet: "quiet l (snd (request_retire reason l))"
  using quiet_retire [of l] quiet_reason [of l]
  by (simp add: request_retire_def control_transition_def fd_bind_def)

subsection \<open>Claiming the close\<close>

definition claimed_lease :: "FdControlState \<Rightarrow> 'r FdLease \<Rightarrow> 'r FdLease" where
  "claimed_lease st l = l\<lparr>fl_claimed := fl_generation l, fl_attempts := AList.update (fl_generation l) 1 (fl_attempts l), fl_state := st\<rparr>"

lemma claimed_fields [simp]:
  "fl_generation (claimed_lease st l) = fl_generation l" "fl_resource (claimed_lease st l) = fl_resource l"
  "fl_state (claimed_lease st l) = st" "fl_caps (claimed_lease st l) = fl_caps l" "fl_next (claimed_lease st l) = fl_next l"
  "fl_closers (claimed_lease st l) = fl_closers l"
  by (simp_all add: claimed_lease_def)

lemma claim_once_result:
  assumes "claims_ok l" "fl_state l = FD_RETIRING"
  shows "claim_close_once ''CLAIM_GRACEFUL_CLOSE'' l = (Inr (), claimed_lease FD_CLOSING l)"
    and "claim_close_once ''FORCE_REVOKE'' l = (Inr (), claimed_lease FD_REVOKING l)"
  using assms by (simp_all add: claim_close_once_def claims_ok_def unclaimed_def control_transition_def claimed_lease_def Let_def)

lemma claimed_claims_ok: "claims_ok l \<Longrightarrow> fl_state l = FD_RETIRING \<Longrightarrow> st \<in> {FD_CLOSING, FD_REVOKING} \<Longrightarrow> claims_ok (claimed_lease st l)"
  by (auto simp: claims_ok_def unclaimed_def claimed_lease_def update_conv')

text \<open>A claim moves the lease into the state of its ticket and keeps generation and resource.\<close>

definition claims :: "bool \<Rightarrow> 'r FdLease \<Rightarrow> 'r FdLease \<Rightarrow> 'r FdTicket \<Rightarrow> bool" where
  "claims forced l l' t \<longleftrightarrow> unclaimed (fl_state l) \<and> lease_ok l' \<and> fl_generation l' = fl_generation l
     \<and> fl_resource l' = fl_resource l \<and> caps_descend l l' \<and> fl_state l' = (if forced then FD_REVOKING else FD_CLOSING)
     \<and> tk_generation t = fl_generation l \<and> fl_resource l = Some (tk_resource t) \<and> tk_forced t = forced"

lemma claims_after_quiet: "quiet l l1 \<Longrightarrow> claims forced l1 l' t \<Longrightarrow> claims forced l l' t"
  unfolding claims_def quiet_def unclaimed_def using caps_descend_trans [of l l1 l'] by auto

lemma ticket_made:
  assumes "claims_ok l" "fl_state l \<noteq> FD_CLOSED"
  obtains t where "make_ticket async forced l = (Inr t, l)" "tk_generation t = fl_generation l"
    "fl_resource l = Some (tk_resource t)" "tk_forced t = forced"
proof -
  from assms obtain r where "fl_resource l = Some r" by (auto simp: claims_ok_def)
  then show ?thesis
    by (intro that [of "\<lparr>tk_generation = fl_generation l, tk_resource = r, tk_forced = forced, tk_async = async,
        tk_closer = (let k = fl_closers l in if async then (if forced then has_hard_async k else has_async k)
          else (if forced then has_hard_sync k else has_sync k))\<rparr>"])
      (simp_all add: make_ticket_def require_resource_def fd_bind_def)
qed

lemma mode_cases: "(\<exists>e. validate_close_mode async forced l = (Inl e, l)) \<or> validate_close_mode async forced l = (Inr (), l)"
  by (auto simp: validate_close_mode_def Let_def)

lemma graceful_locked_cases:
  assumes ok: "lease_ok l" and st: "fl_state l = FD_RETIRING" and idle: "current_capabilities l = []"
  shows "(\<exists>e. claim_graceful_locked async l = (Inl e, l)) \<or> (\<exists>t l'. claim_graceful_locked async l = (Inr t, l') \<and> claims False l l' t)"
proof -
  have c: "claims_ok l" "caps_ok l" using ok by (simp_all add: lease_ok_def)
  let ?l = "claimed_lease FD_CLOSING l"
  have c': "claims_ok ?l" by (rule claimed_claims_ok [OF c(1) st]) simp
  have "cap_generation x \<noteq> fl_generation l" if "map_of (fl_caps l) k = Some x" for k x
    using current_iff [OF c(2), of k x] idle that by auto
  then have "caps_ok ?l" using c(2) by (auto simp: caps_ok_iff cap_ok_def)
  with c' have ok': "lease_ok ?l" by (simp add: lease_ok_def)
  obtain t where "make_ticket async False ?l = (Inr t, ?l)" "tk_generation t = fl_generation l"
    "fl_resource l = Some (tk_resource t)" "\<not> tk_forced t"
    using ticket_made [OF c'] by (metis claimed_fields(1-3) FdControlState.distinct)
  with ok' st claim_once_result(1) [OF c(1) st] mode_cases [of async False l] show ?thesis
    by (auto simp: claim_graceful_locked_def claims_def unclaimed_def fd_bind_def)
qed

lemma graceful_cases:
  assumes ok: "lease_ok l"
  shows "(\<exists>e l'. claim_graceful_close async l = (Inl e, l') \<and> quiet l l') \<or> (\<exists>l'. claim_graceful_close async l = (Inr None, l') \<and> quiet l l')
    \<or> (\<exists>t l'. claim_graceful_close async l = (Inr (Some t), l') \<and> claims False l l' t)"
proof -
  let ?l1 = "if fl_state l = FD_OPEN then l\<lparr>fl_retire_reason := text_or (fl_retire_reason l) ''explicit close'', fl_state := FD_RETIRING\<rparr> else l"
  have q: "quiet l ?l1" using quiet_retire [of l] by simp
  then have ok1: "lease_ok ?l1" using ok by (simp add: quiet_def)
  have run: "claim_graceful_close async l = (if fl_state ?l1 \<in> {FD_CLOSED, FD_QUARANTINED, FD_CLOSING, FD_REVOKING} then (Inr None, ?l1)
    else if current_capabilities ?l1 \<noteq> [] then (Inl (FdLeaseInvariantError ''fd resource cannot close while capabilities remain''), ?l1)
    else fd_bind (claim_graceful_locked async) (\<lambda>t. fd_return (Some t)) ?l1)"
    by (simp add: claim_graceful_close_def control_transition_def fd_bind_def)
  show ?thesis
  proof (cases "fl_state ?l1 \<in> {FD_CLOSED, FD_QUARANTINED, FD_CLOSING, FD_REVOKING} \<or> current_capabilities ?l1 \<noteq> []")
    case True
    with q show ?thesis unfolding run by auto
  next
    case False
    then have st: "fl_state ?l1 = FD_RETIRING" and idle: "current_capabilities ?l1 = []"
      by (cases "fl_state l"; simp)+
    have eq: "claim_graceful_close async l = fd_bind (claim_graceful_locked async) (\<lambda>t. fd_return (Some t)) ?l1"
      unfolding run using False by simp
    from graceful_locked_cases [OF ok1 st idle, of async] show ?thesis
    proof (elim disjE exE conjE)
      fix e assume "claim_graceful_locked async ?l1 = (Inl e, ?l1)"
      with eq q show ?thesis by (simp add: fd_bind_def)
    next
      fix t l' assume "claim_graceful_locked async ?l1 = (Inr t, l')" and "claims False ?l1 l' t"
      with eq claims_after_quiet [OF q] show ?thesis by (simp add: fd_bind_def)
    qed
  qed
qed

end
