(* ===== verification/Fd_Claims.thy ===== *)
theory Fd_Claims
  imports Fd_Steps
begin

section \<open>Claims, releases, completion and publication\<close>

text \<open>What each operation that can end or replace a generation leaves, on every branch.\<close>

lemma quiet_trans: "quiet l l1 \<Longrightarrow> quiet l1 l2 \<Longrightarrow> quiet l l2"
  unfolding quiet_def unclaimed_def using caps_descend_trans [of l l1 l2] by auto

lemma caps_ok_cong:
  "caps_ok l \<Longrightarrow> fl_caps l' = fl_caps l \<Longrightarrow> fl_generation l' = fl_generation l \<Longrightarrow> fl_state l' = fl_state l \<Longrightarrow> fl_next l' = fl_next l \<Longrightarrow> caps_ok l'"
  by (simp add: caps_ok_def)

lemma rewritten_keeps:
  "rewritten f xs l l' \<Longrightarrow> fl_generation l' = fl_generation l \<and> fl_state l' = fl_state l \<and> fl_resource l' = fl_resource l
     \<and> fl_claimed l' = fl_claimed l \<and> fl_attempts l' = fl_attempts l \<and> fl_next l' = fl_next l \<and> fl_closers l' = fl_closers l"
  unfolding rewritten_def by (elim exE conjE) simp

lemma rewritten_claims_ok: "rewritten f xs l l' \<Longrightarrow> claims_ok l \<Longrightarrow> claims_ok l'"
  by (drule rewritten_keeps, rule claims_ok_cong [of l]) simp_all

lemma map_of_current:
  "caps_ok l \<Longrightarrow> map_of (current_capabilities l) c = (case map_of (fl_caps l) c of
     None \<Rightarrow> None | Some x \<Rightarrow> if cap_generation x = fl_generation l then Some x else None)"
proof (cases "map_of (current_capabilities l) c")
  case None
  assume ok: "caps_ok l"
  have "(c, x) \<notin> set (current_capabilities l)" for x using None by (force simp: map_of_eq_None_iff)
  then show ?thesis using current_iff [OF ok, of c] None by (auto split: option.split)
next
  case (Some x)
  assume ok: "caps_ok l"
  then show ?thesis using current_iff [OF ok, of c x] map_of_SomeD [OF Some] Some by simp
qed

subsection \<open>Forced revocation\<close>

lemma check_authority_cases: "(\<exists>e. check_authority a l = (Inl e, l)) \<or> check_authority a l = (Inr (), l)"
  by (auto simp: check_authority_def require_capability_def fd_bind_def split: option.split)

lemma revoke_claims:
  assumes ok: "lease_ok l" and st: "fl_state l = FD_RETIRING"
  shows "\<exists>t hooks l'. (fd_bind require_resource (\<lambda>_ l. fd_bind (revoke_all reason (current_capabilities l)) (\<lambda>hooks.
      fd_bind (claim_close_once ''FORCE_REVOKE'') (\<lambda>_. fd_bind (make_ticket async True) (\<lambda>t. fd_return (Some t, hooks)))) l)) l
      = (Inr (Some t, hooks), l') \<and> claims True l l' t"
proof -
  have c: "claims_ok l" "caps_ok l" using ok by (simp_all add: lease_ok_def)
  obtain r where r: "fl_resource l = Some r" using c(1) st by (auto simp: claims_ok_def)
  let ?xs = "current_capabilities l"
  have xs: "\<forall>(k, x) \<in> set ?xs. map_of (fl_caps l) k = Some x \<and> cap_state x \<in> {CAP_LIVE, CAP_CANCELLED}"
    using caps_okD [OF c(2)] st by (fastforce simp: current_iff [OF c(2)] cap_ok_def)
  from revoke_all_result [OF xs current_distinct [OF c(2)], of reason] obtain hooks l1 where
    run: "revoke_all reason ?xs l = (Inr hooks, l1)" and rw: "rewritten (revoked (text_or reason ''forced revoke'')) ?xs l l1"
    by blast
  note keep = rewritten_keeps [OF rw]
  have c1: "claims_ok l1" by (rule rewritten_claims_ok [OF rw c(1)])
  have st1: "fl_state l1 = FD_RETIRING" using keep st by simp
  let ?l = "claimed_lease FD_REVOKING l1"
  have caps: "caps_ok (l1\<lparr>fl_state := FD_REVOKING\<rparr>)"
  proof (rule rewritten_ok [OF rw c(2)])
    show "cap_ok (fl_generation l) FD_REVOKING (fl_next l) k (revoked (text_or reason ''forced revoke'') x)"
      if "map_of ?xs k = Some x" for k x
      using that caps_okD [OF c(2), of k x] by (auto simp: map_of_current [OF c(2)] cap_ok_def revoked_def split: option.split_asm if_split_asm)
    show "cap_ok (fl_generation l) FD_REVOKING (fl_next l) k x" if "map_of ?xs k = None" "map_of (fl_caps l) k = Some x" for k x
      using that caps_okD [OF c(2), of k x] by (auto simp: map_of_current [OF c(2)] cap_ok_def split: if_split_asm)
  qed
  have c': "claims_ok ?l" by (rule claimed_claims_ok [OF c1 st1]) simp
  moreover have "caps_ok ?l" by (rule caps_ok_cong [OF caps]) simp_all
  ultimately have ok': "lease_ok ?l" by (simp add: lease_ok_def)
  have "fl_state ?l \<noteq> FD_CLOSED" by simp
  from ticket_made [OF c' this, of async True] obtain t where t: "make_ticket async True ?l = (Inr t, ?l)"
    "tk_generation t = fl_generation ?l" "fl_resource ?l = Some (tk_resource t)" "tk_forced t = True" .
  have "caps_descend l l1"
    by (rule caps_descend_rewritten [OF rw]) (use xs in \<open>auto simp: revoked_def\<close>)
  then have "caps_descend l ?l" by (rule caps_descend_trans) simp
  with ok' t st keep have "claims True l ?l t" by (simp add: claims_def unclaimed_def)
  moreover have "require_resource l = (Inr r, l)" by (simp add: require_resource_def r)
  ultimately show ?thesis using run claim_once_result(2) [OF c1 st1] t(1) by simp
qed

lemma forced_cases:
  assumes ok: "lease_ok l"
  shows "(\<exists>e l'. claim_forced_close reason async a l = (Inl e, l') \<and> quiet l l')
    \<or> (\<exists>l'. claim_forced_close reason async a l = (Inr (None, []), l') \<and> quiet l l')
    \<or> (\<exists>t hooks l'. claim_forced_close reason async a l = (Inr (Some t, hooks), l') \<and> claims True l l' t)"
proof (cases "\<exists>e. check_authority a l = (Inl e, l)")
  case True
  then show ?thesis by (auto simp: claim_forced_close_def)
next
  case False
  with check_authority_cases have au: "check_authority a l = (Inr (), l)" by blast
  let ?l1 = "if fl_state l = FD_OPEN then l\<lparr>fl_retire_reason := text_or reason ''forced revoke'', fl_state := FD_RETIRING\<rparr> else l"
  have q: "quiet l ?l1" using quiet_retire [of l] by simp
  then have ok1: "lease_ok ?l1" using ok by (simp add: quiet_def)
  have run: "claim_forced_close reason async a l = (if fl_state ?l1 \<in> {FD_CLOSED, FD_QUARANTINED, FD_CLOSING, FD_REVOKING}
      then (Inr (None, []), ?l1)
    else fd_bind (validate_close_mode async True) (\<lambda>_. fd_bind require_resource (\<lambda>_ l.
       fd_bind (revoke_all reason (current_capabilities l)) (\<lambda>hooks. fd_bind (claim_close_once ''FORCE_REVOKE'') (\<lambda>_.
       fd_bind (make_ticket async True) (\<lambda>t. fd_return (Some t, hooks)))) l)) ?l1)"
    unfolding claim_forced_close_def fd_bind_cases(2) [of "check_authority a", OF au]
    by (subst fd_bind_def) (cases "fl_state l = FD_OPEN"; simp add: control_transition_def)
  show ?thesis
  proof (cases "fl_state ?l1 \<in> {FD_CLOSED, FD_QUARANTINED, FD_CLOSING, FD_REVOKING}")
    case True
    with q show ?thesis unfolding run by auto
  next
    case False
    then have st: "fl_state ?l1 = FD_RETIRING" by (cases "fl_state l"; simp)
    let ?rest = "\<lambda>_ :: unit. fd_bind require_resource (\<lambda>_ l. fd_bind (revoke_all reason (current_capabilities l)) (\<lambda>hooks.
       fd_bind (claim_close_once ''FORCE_REVOKE'') (\<lambda>_. fd_bind (make_ticket async True) (\<lambda>t. fd_return (Some t, hooks)))) l)"
    have eq: "claim_forced_close reason async a l = fd_bind (validate_close_mode async True) ?rest ?l1"
      unfolding run using False by (simp only: if_False)
    from mode_cases [of async True ?l1] show ?thesis
    proof (elim disjE exE)
      fix e assume "validate_close_mode async True ?l1 = (Inl e, ?l1)"
      then have "claim_forced_close reason async a l = (Inl e, ?l1)" unfolding eq by (rule fd_bind_cases(1))
      with q show ?thesis by blast
    next
      assume "validate_close_mode async True ?l1 = (Inr (), ?l1)"
      then have "claim_forced_close reason async a l = ?rest () ?l1" unfolding eq by (rule fd_bind_cases(2))
      moreover from revoke_claims [OF ok1 st, of reason async] obtain t hooks l'
        where "?rest () ?l1 = (Inr (Some t, hooks), l')" "claims True ?l1 l' t" by blast
      ultimately show ?thesis using claims_after_quiet [OF q] by simp
    qed
  qed
qed

subsection \<open>Release\<close>

lemma drop_cap_fields [simp]:
  "fl_state (drop_cap c l) = fl_state l" "fl_generation (drop_cap c l) = fl_generation l"
  "fl_resource (drop_cap c l) = fl_resource l" "fl_next (drop_cap c l) = fl_next l"
  "fl_claimed (drop_cap c l) = fl_claimed l" "fl_attempts (drop_cap c l) = fl_attempts l"
  "map_of (fl_caps (drop_cap c l)) = (map_of (fl_caps l))(c := None)"
  by (simp_all add: drop_cap_def delete_conv')

lemma drop_put [simp]: "drop_cap c (put_cap c x l) = drop_cap c l"
  by (simp add: drop_cap_def put_cap_def delete_update_same)

lemma drop_quiet: "quiet l (drop_cap c l)"
proof -
  have new: "caps_ok (drop_cap c l)" if "caps_ok l"
  proof -
    have "distinct (map fst (fl_caps (drop_cap c l)))" using that by (simp add: caps_ok_def drop_cap_def distinct_delete)
    with that show ?thesis by (auto simp: caps_ok_iff)
  qed
  moreover have "claims_ok (drop_cap c l)" if "claims_ok l" by (rule claims_ok_cong [OF that]) simp_all
  moreover have "generation_has_inflight_calls g l" if "caps_ok l" "generation_has_inflight_calls g (drop_cap c l)" for g
    using that(2) unfolding inflight_iff [OF new [OF that(1)]] inflight_iff [OF that(1)] by (auto split: if_split_asm)
  ultimately show ?thesis by (simp add: quiet_def lease_ok_def caps_descend_def)
qed

text \<open>Releasing a capability that is not reused retires the lease and cancels the other capabilities.\<close>

lemma retire_by_release_result:
  assumes ok: "lease_ok l" and st: "fl_state l = FD_OPEN" and x: "map_of (fl_caps l) c = Some x"
  shows "\<exists>hooks l'. retire_by_release c x l = (Inr hooks, l') \<and> quiet l l' \<and> fl_state l' = FD_RETIRING \<and> map_of (fl_caps l') c = Some x"
proof -
  let ?why = "text_or (cap_reason x) ''capability retired''"
  let ?l1 = "l\<lparr>fl_retire_reason := ?why, fl_state := FD_RETIRING\<rparr>"
  let ?xs = "filter (\<lambda>(c', _). c' \<noteq> c) (current_capabilities ?l1)"
  have q: "quiet l ?l1" by (rule quiet_retire [OF st])
  with ok have ok1: "lease_ok ?l1" by (simp add: quiet_def)
  then have c: "caps_ok ?l1" by (simp add: lease_ok_def)
  from ok st obtain r where r: "fl_resource l = Some r" by (auto simp: lease_ok_def claims_ok_def)
  have xs: "\<forall>(k, y) \<in> set ?xs. map_of (fl_caps ?l1) k = Some y" using current_iff [OF c] by auto
  have d: "distinct (map fst ?xs)" using current_distinct [OF c] by (rule distinct_map_filter)
  from cancel_others_result [OF xs d, of ?why] obtain hooks l2 where run: "cancel_others ?why ?xs ?l1 = (Inr hooks, l2)"
    and rw: "rewritten (cancelled_cap ?why) ?xs ?l1 l2" by blast
  note keep = rewritten_keeps [OF rw]
  have "caps_ok (l2\<lparr>fl_state := FD_RETIRING\<rparr>)"
  proof (rule rewritten_ok [OF rw c])
    show "cap_ok (fl_generation ?l1) FD_RETIRING (fl_next ?l1) k (cancelled_cap ?why y)" if "map_of ?xs k = Some y" for k y
      using xs map_of_SomeD [OF that] caps_okD [OF c, of k y] by (auto simp: cap_ok_def cancelled_cap_def split: if_split_asm)
    show "cap_ok (fl_generation ?l1) FD_RETIRING (fl_next ?l1) k y" if "map_of (fl_caps ?l1) k = Some y" for k y
      using caps_okD [OF c that] by simp
  qed
  then have "caps_ok l2" by (rule caps_ok_cong) (simp_all add: keep)
  moreover have "claims_ok l2" by (rule rewritten_claims_ok [OF rw]) (use ok1 in \<open>simp add: lease_ok_def\<close>)
  moreover have "caps_descend ?l1 l2"
    by (rule caps_descend_rewritten [OF rw xs]) (auto simp: cancelled_cap_def split: if_split_asm)
  ultimately have "quiet ?l1 l2" using keep by (simp add: quiet_def lease_ok_def unclaimed_def)
  moreover have "map_of (fl_caps l2) c = Some x"
  proof -
    have "map_of ?xs c = None" by (auto simp: map_of_eq_None_iff)
    with rw x show ?thesis by (auto simp: rewritten_def)
  qed
  moreover have "retire_by_release c x l = (Inr hooks, l2)"
    using st r run by (simp add: retire_by_release_def control_transition_def require_resource_def Let_def fd_bind_def)
  ultimately show ?thesis using quiet_trans [OF q] keep by auto
qed

definition release_first :: "nat \<Rightarrow> bool \<Rightarrow> FdCapability \<Rightarrow> ('r, (nat \<times> string) list) fd" where
  "release_first c reuse x = (\<lambda>l. (if cap_generation x = fl_generation l \<and> \<not> (reuse \<and> cap_state x = CAP_LIVE) \<and> fl_state l = FD_OPEN
     then retire_by_release c x else fd_return []) l)"

lemma release_first_result:
  assumes "lease_ok l" "map_of (fl_caps l) c = Some x"
  shows "\<exists>hooks l'. release_first c reuse x l = (Inr hooks, l') \<and> quiet l l' \<and> map_of (fl_caps l') c = Some x"
  using retire_by_release_result [OF assms(1) _ assms(2)] assms(2) by (auto simp: release_first_def)

lemma release_cases:
  assumes ok: "lease_ok l"
  shows "(\<exists>e l'. release c thread reuse async l = (Inl e, l') \<and> quiet l l')
    \<or> (\<exists>hooks l'. release c thread reuse async l = (Inr (None, hooks), l') \<and> quiet l l')
    \<or> (\<exists>t hooks l'. release c thread reuse async l = (Inr (Some t, hooks), l') \<and> claims False l l' t)"
proof (cases "\<exists>x. map_of (fl_caps l) c = Some x \<and> thread = cap_thread x \<and> \<not> cap_in_call x")
  case False
  then show ?thesis
    by (cases "map_of (fl_caps l) c") (auto simp: release_def require_capability_def require_owner_thread_def fd_bind_def)
next
  case True
  then obtain x where x: "map_of (fl_caps l) c = Some x" "thread = cap_thread x" "\<not> cap_in_call x" by blast
  from release_first_result [OF ok x(1)] obtain hooks l1 where first: "release_first c reuse x l = (Inr hooks, l1)"
    "quiet l l1" "map_of (fl_caps l1) c = Some x" by blast
  let ?l2 = "drop_cap c l1"
  have q: "quiet l ?l2" by (rule quiet_trans [OF first(2) drop_quiet])
  with ok have ok2: "lease_ok ?l2" by (simp add: quiet_def)
  have "cap_state x \<noteq> CAP_RELEASED"
    using caps_okD [of l c x] ok x(1) by (cases "fl_state l") (auto simp: lease_ok_def cap_ok_def split: if_split_asm)
  then have rel: "capability_transition c x ''RELEASE'' l1 = (Inr (x\<lparr>cap_state := CAP_RELEASED\<rparr>), put_cap c (x\<lparr>cap_state := CAP_RELEASED\<rparr>) l1)"
    by (simp add: capability_transition_def)
  have run: "release c thread reuse async l = (if cap_generation x = fl_generation l \<and> fl_state ?l2 = FD_RETIRING \<and> current_capabilities ?l2 = []
    then fd_bind (claim_graceful_locked async) (\<lambda>t. fd_return (Some t, hooks)) ?l2 else (Inr (None, hooks), ?l2))"
    using x first(1) rel
    by (simp add: release_def require_capability_def require_owner_thread_def fd_bind_def release_first_def Let_def split del: if_split cong: if_cong)
  show ?thesis
  proof (cases "cap_generation x = fl_generation l \<and> fl_state ?l2 = FD_RETIRING \<and> current_capabilities ?l2 = []")
    case False
    with q show ?thesis unfolding run by auto
  next
    case True
    then have eq: "release c thread reuse async l = fd_bind (claim_graceful_locked async) (\<lambda>t. fd_return (Some t, hooks)) ?l2"
      unfolding run by simp
    from True graceful_locked_cases [OF ok2, of async] have
      "(\<exists>e. claim_graceful_locked async ?l2 = (Inl e, ?l2)) \<or> (\<exists>t l'. claim_graceful_locked async ?l2 = (Inr t, l') \<and> claims False ?l2 l' t)"
      by blast
    then show ?thesis
    proof (elim disjE exE conjE)
      fix e assume "claim_graceful_locked async ?l2 = (Inl e, ?l2)"
      with eq q show ?thesis by (simp add: fd_bind_def)
    next
      fix t l' assume "claim_graceful_locked async ?l2 = (Inr t, l')" and "claims False ?l2 l' t"
      with eq claims_after_quiet [OF q] show ?thesis by (simp add: fd_bind_def)
    qed
  qed
qed

subsection \<open>Publication and completion\<close>

lemma publish_cases:
  assumes ok: "lease_ok l"
  shows "(\<exists>e. publish r k l = (Inl e, l)) \<or> (\<exists>l'. publish r k l = (Inr (Suc (fl_generation l)), l') \<and> fl_state l = FD_CLOSED
    \<and> lease_ok l' \<and> fl_generation l' = Suc (fl_generation l) \<and> fl_state l' = FD_OPEN \<and> caps_descend l l')"
proof (cases "validate_configuration r k = Inr () \<and> fl_state l = FD_CLOSED")
  case False
  then show ?thesis by (cases "validate_configuration r k") (auto simp: publish_def)
next
  case True
  then obtain y where r: "r = Some y" by (cases r) (auto simp: validate_configuration_def)
  let ?l = "l\<lparr>fl_generation := Suc (fl_generation l), fl_resource := r, fl_closers := k, fl_state := FD_OPEN,
    fl_retire_reason := [], fl_close_error := [], fl_outcome := None, fl_claimed := 0,
    fl_attempts := AList.update (Suc (fl_generation l)) 0 (fl_attempts l)\<rparr>"
  have run: "publish r k l = (Inr (Suc (fl_generation l)), ?l)"
    using True by (simp add: publish_def control_transition_def fd_bind_def)
  have "cap_ok (Suc (fl_generation l)) FD_OPEN (fl_next l) c x" if "cap_ok (fl_generation l) FD_CLOSED (fl_next l) c x" for c x
    using that by (auto simp: cap_ok_def split: if_split_asm)
  then have "caps_ok ?l" using ok True by (auto simp: lease_ok_def caps_ok_def)
  moreover have "claims_ok ?l"
    using ok r by (auto simp: lease_ok_def claims_ok_def unclaimed_def update_conv')
  ultimately show ?thesis using True run by (simp add: lease_ok_def)
qed

definition finished :: "FdCloseOutcome \<Rightarrow> 'r FdLease \<Rightarrow> 'r FdLease" where
  "finished x l = l\<lparr>fl_outcome := Some x, fl_close_error := (if co_disposition x = DETACHED then [] else co_detail x),
     fl_resource := (if co_disposition x = DETACHED then None else fl_resource l),
     fl_state := (if co_disposition x = DETACHED then FD_CLOSED else FD_QUARANTINED)\<rparr>"

lemma finish_result:
  assumes "tk_generation t = fl_generation l" "fl_state l = (if tk_forced t then FD_REVOKING else FD_CLOSING)"
  shows "finish_close t x l = (Inr x, finished x l)"
  using assms by (simp add: finish_close_def control_transition_def fd_bind_def finished_def Let_def)

lemma finished_fields [simp]:
  "fl_generation (finished x l) = fl_generation l" "fl_caps (finished x l) = fl_caps l" "fl_next (finished x l) = fl_next l"
  "fl_state (finished x l) = (if co_disposition x = DETACHED then FD_CLOSED else FD_QUARANTINED)"
  "fl_resource (finished x l) = (if co_disposition x = DETACHED then None else fl_resource l)"
  by (simp_all add: finished_def)

lemma finished_ok:
  assumes ok: "lease_ok l" and st: "fl_state l \<in> {FD_CLOSING, FD_REVOKING}"
    and drained: "co_disposition x = DETACHED \<Longrightarrow> \<not> generation_has_inflight_calls (fl_generation l) l"
  shows "lease_ok (finished x l)"
proof -
  have c: "caps_ok l" using ok by (simp add: lease_ok_def)
  have "cap_ok (fl_generation l) (fl_state (finished x l)) (fl_next l) k y" if k: "map_of (fl_caps l) k = Some y" for k y
  proof -
    have "\<not> cap_in_call y" if "co_disposition x = DETACHED" "cap_generation y = fl_generation l"
      using drained [OF that(1)] that(2) k unfolding inflight_iff [OF c] by blast
    with caps_okD [OF c k] st show ?thesis by (auto simp: cap_ok_def split: if_split_asm)
  qed
  with c have "caps_ok (finished x l)" by (simp add: caps_ok_iff finished_def del: map_of_eq_Some_iff)
  moreover have "claims_ok (finished x l)"
    using ok st by (auto simp: lease_ok_def claims_ok_def unclaimed_def finished_def)
  ultimately show ?thesis by (simp add: lease_ok_def)
qed

end
