(* ===== verification/Fd_Invariant.thy ===== *)
theory Fd_Invariant
  imports Fd_Claims "HOL-Library.Sublist"
begin

section \<open>The invariant of threads on a lease\<close>

text \<open>
  The invariant ties the control state to what threads are in the middle of: a claimed close is in the hands of
  exactly one thread (or was lost with a cancelled task), a closer runs only after the calls of its generation
  have ended, and the log holds each closed generation once.
\<close>

fun tickets_ok :: "'r FdLease \<Rightarrow> ('r FdTicket \<times> fd_phase) list \<Rightarrow> bool" where
  "tickets_ok l [] \<longleftrightarrow> fl_state l \<noteq> FD_CLOSING"
| "tickets_ok l [(t, ph)] \<longleftrightarrow> fl_state l = (if tk_forced t then FD_REVOKING else FD_CLOSING)
     \<and> tk_generation t = fl_generation l \<and> fl_resource l = Some (tk_resource t)
     \<and> (if ph \<in> {Ready, Closer_Running} then \<not> generation_has_inflight_calls (fl_generation l) l else tk_forced t)"
| "tickets_ok l (_ # _ # _) \<longleftrightarrow> False"

definition running :: "('r FdTicket \<times> fd_phase) list \<Rightarrow> bool" where
  "running ts \<longleftrightarrow> Closer_Running \<in> snd ` set ts"

definition log_ok :: "'r FdLease \<Rightarrow> ('r FdTicket \<times> fd_phase) list \<Rightarrow> nat list \<Rightarrow> bool" where
  "log_ok l ts gs \<longleftrightarrow> distinct gs \<and> (\<forall>g \<in> set gs. 1 \<le> g \<and> g \<le> fl_generation l) \<and> (\<forall>g \<in> {1..<fl_generation l}. g \<in> set gs)
     \<and> (if fl_generation l \<in> set gs then fl_state l \<in> {FD_CLOSED, FD_QUARANTINED} \<or> running ts
        else fl_state l \<noteq> FD_CLOSED \<and> \<not> running ts)"

definition registry_ok :: "'r FdSystem \<Rightarrow> bool" where
  "registry_ok s \<longleftrightarrow> (fl_state (fs_lease s) \<noteq> FD_CLOSED \<longrightarrow> fs_registered s \<or> 0 < fs_registering s)
     \<and> (\<forall>(g, st) \<in> set (fs_settling s). st \<in> {FD_CLOSED, FD_QUARANTINED} \<and> g \<le> fl_generation (fs_lease s)
          \<and> (st = FD_CLOSED \<and> g = fl_generation (fs_lease s) \<longrightarrow> fl_state (fs_lease s) = FD_CLOSED))"

definition fd_inv :: "'r FdSystem \<Rightarrow> bool" where
  "fd_inv s \<longleftrightarrow> lease_ok (fs_lease s) \<and> tickets_ok (fs_lease s) (fs_tickets s)
     \<and> log_ok (fs_lease s) (fs_tickets s) (fs_closed s) \<and> registry_ok s"

lemma start_inv: "new_lease owner r capacity k drain = Inr l \<Longrightarrow> fd_inv (start_system l)"
  using new_lease_ok [of owner r capacity k drain l]
  by (auto simp: fd_inv_def start_system_def log_ok_def registry_ok_def running_def new_lease_def validate_configuration_def
      split: if_split_asm option.split_asm sum.split_asm)

subsection \<open>The order of evolution\<close>

text \<open>
  What no later operation can undo. A frozen system never moves again: a quarantine, or a forced close whose
  ticket was lost.
\<close>

definition frozen :: "'r FdSystem \<Rightarrow> bool" where
  "frozen s \<longleftrightarrow> fl_state (fs_lease s) = FD_QUARANTINED \<or> fl_state (fs_lease s) = FD_REVOKING \<and> fs_tickets s = []"

definition fd_later :: "'r FdSystem \<Rightarrow> 'r FdSystem \<Rightarrow> bool" where
  "fd_later s s' \<longleftrightarrow> fl_generation (fs_lease s) \<le> fl_generation (fs_lease s') \<and> caps_descend (fs_lease s) (fs_lease s')
     \<and> (fl_generation (fs_lease s') = fl_generation (fs_lease s) \<longrightarrow> \<not> unclaimed (fl_state (fs_lease s)) \<longrightarrow> \<not> unclaimed (fl_state (fs_lease s')))
     \<and> (fl_generation (fs_lease s') = fl_generation (fs_lease s) \<longrightarrow> fl_state (fs_lease s) = FD_CLOSED \<longrightarrow> fl_state (fs_lease s') = FD_CLOSED)
     \<and> (frozen s \<longrightarrow> fl_generation (fs_lease s') = fl_generation (fs_lease s) \<and> fl_state (fs_lease s') = fl_state (fs_lease s)
          \<and> fl_resource (fs_lease s') = fl_resource (fs_lease s) \<and> fs_tickets s' = fs_tickets s \<and> fs_closed s' = fs_closed s)
     \<and> prefix (fs_closed s) (fs_closed s')"

lemma fd_later_refl: "fd_later s s"
  by (simp add: fd_later_def)

lemma fd_later_trans:
  assumes "fd_later s s1" "fd_later s1 s2"
  shows "fd_later s s2"
proof -
  note one = assms(1) [unfolded fd_later_def] and two = assms(2) [unfolded fd_later_def]
  have generations: "fl_generation (fs_lease s) \<le> fl_generation (fs_lease s1)" "fl_generation (fs_lease s1) \<le> fl_generation (fs_lease s2)"
    using one two by simp_all
  have same: "fl_generation (fs_lease s1) = fl_generation (fs_lease s)" if "fl_generation (fs_lease s2) = fl_generation (fs_lease s)"
    using generations that by simp
  have claims: "\<not> unclaimed (fl_state (fs_lease s2))"
    if "fl_generation (fs_lease s2) = fl_generation (fs_lease s)" "\<not> unclaimed (fl_state (fs_lease s))"
    using one two same [OF that(1)] that by simp
  have closed: "fl_state (fs_lease s2) = FD_CLOSED"
    if "fl_generation (fs_lease s2) = fl_generation (fs_lease s)" "fl_state (fs_lease s) = FD_CLOSED"
    using one two same [OF that(1)] that by simp
  have still: "fl_generation (fs_lease s2) = fl_generation (fs_lease s) \<and> fl_state (fs_lease s2) = fl_state (fs_lease s)
      \<and> fl_resource (fs_lease s2) = fl_resource (fs_lease s) \<and> fs_tickets s2 = fs_tickets s \<and> fs_closed s2 = fs_closed s" if "frozen s"
  proof -
    have "frozen s1" using one that by (auto simp: frozen_def)
    then show ?thesis using one two that by simp
  qed
  have "caps_descend (fs_lease s) (fs_lease s2)" by (rule caps_descend_trans [of _ "fs_lease s1"]) (use one two in simp_all)
  moreover have "prefix (fs_closed s) (fs_closed s2)" by (rule prefix_order.trans [of _ "fs_closed s1"]) (use one two in simp_all)
  ultimately show ?thesis
    unfolding fd_later_def using generations claims closed still order.trans [OF generations] by blast
qed

lemma fd_later_rtranclp: "fd_later\<^sup>*\<^sup>* s s' \<Longrightarrow> fd_later s s'"
  by (induction rule: rtranclp_induct) (auto intro: fd_later_refl fd_later_trans)

text \<open>The obligation of one operation.\<close>

definition fd_keeps :: "'r FdSystem \<Rightarrow> 'r FdSystem \<Rightarrow> bool" where
  "fd_keeps s s' \<longleftrightarrow> fd_inv s' \<and> fd_later s s'"

lemma with_lease_fields [simp]:
  "fs_lease (with_lease s l) = l" "fs_tickets (with_lease s l) = fs_tickets s" "fs_closed (with_lease s l) = fs_closed s"
  "fs_registered (with_lease s l) = fs_registered s" "fs_registering (with_lease s l) = fs_registering s"
  "fs_settling (with_lease s l) = fs_settling s"
  by (simp_all add: with_lease_def)

lemma tickets_cases:
  assumes "tickets_ok l ts"
  obtains "ts = []" "fl_state l \<noteq> FD_CLOSING"
  | t ph where "ts = [(t, ph)]" "fl_state l = (if tk_forced t then FD_REVOKING else FD_CLOSING)"
      "tk_generation t = fl_generation l" "fl_resource l = Some (tk_resource t)"
      "if ph \<in> {Ready, Closer_Running} then \<not> generation_has_inflight_calls (fl_generation l) l else tk_forced t"
  using assms by (cases "(l, ts)" rule: tickets_ok.cases) auto

lemma no_tickets_when_unclaimed: "tickets_ok l ts \<Longrightarrow> unclaimed (fl_state l) \<or> fl_state l \<in> {FD_CLOSED, FD_QUARANTINED} \<Longrightarrow> ts = []"
  by (erule tickets_cases) (auto simp: unclaimed_def split: if_split_asm)

lemma quiet_keeps:
  assumes inv: "fd_inv s" and q: "quiet (fs_lease s) l"
  shows "fd_keeps s (with_lease s l)"
proof -
  have ok: "lease_ok l" and ifl: "\<not> unclaimed (fl_state (fs_lease s)) \<Longrightarrow>
      generation_has_inflight_calls g l \<Longrightarrow> generation_has_inflight_calls g (fs_lease s)" for g
    using inv q by (auto simp: fd_inv_def quiet_def)
  have st: "fl_state l = fl_state (fs_lease s) \<or> fl_state (fs_lease s) = FD_OPEN \<and> fl_state l = FD_RETIRING"
    and keep: "fl_generation l = fl_generation (fs_lease s)" "fl_resource l = fl_resource (fs_lease s)" "caps_descend (fs_lease s) l"
    using q by (auto simp: quiet_def)
  from inv have t: "tickets_ok (fs_lease s) (fs_tickets s)" by (simp add: fd_inv_def)
  then have "tickets_ok l (fs_tickets s)"
  proof (cases rule: tickets_cases)
    case 1
    with st show ?thesis by auto
  next
    case (2 t ph)
    with st keep ifl [of "fl_generation (fs_lease s)"] show ?thesis by (auto simp: unclaimed_def split: if_split_asm)
  qed
  moreover have "log_ok l (fs_tickets s) (fs_closed s)"
    using inv st unfolding fd_inv_def log_ok_def keep by auto
  moreover have "registry_ok (with_lease s l)" using inv st unfolding fd_inv_def registry_ok_def by (auto simp: keep)
  moreover have "fd_later s (with_lease s l)"
    using keep st no_tickets_when_unclaimed [OF t] by (auto simp: fd_later_def frozen_def unclaimed_def)
  ultimately show ?thesis using ok by (simp add: fd_keeps_def fd_inv_def)
qed

lemma idle_when_closing: "caps_ok l \<Longrightarrow> fl_state l = FD_CLOSING \<Longrightarrow> \<not> generation_has_inflight_calls (fl_generation l) l"
  using caps_okD [of l] by (auto simp: inflight_iff cap_ok_def) fastforce

lemma claims_keeps:
  assumes inv: "fd_inv s" and c: "claims forced (fs_lease s) l t"
  shows "fd_keeps s (add_ticket (if forced then Draining else Ready) (Some t) (with_lease s l))"
proof -
  have ok: "lease_ok l" and u: "unclaimed (fl_state (fs_lease s))" and keep: "fl_generation l = fl_generation (fs_lease s)"
    "fl_resource l = fl_resource (fs_lease s)" "caps_descend (fs_lease s) l"
    and st: "fl_state l = (if forced then FD_REVOKING else FD_CLOSING)"
    and t: "tk_generation t = fl_generation (fs_lease s)" "fl_resource (fs_lease s) = Some (tk_resource t)" "tk_forced t = forced"
    using c by (auto simp: claims_def)
  have none: "fs_tickets s = []" using inv u no_tickets_when_unclaimed by (auto simp: fd_inv_def)
  have "tickets_ok l [(t, if forced then Draining else Ready)]"
    using t st keep idle_when_closing [of l] ok by (auto simp: lease_ok_def)
  moreover have "log_ok l [(t, if forced then Draining else Ready)] (fs_closed s)"
    using inv u st none unfolding fd_inv_def log_ok_def keep by (auto simp: unclaimed_def running_def)
  moreover have "registry_ok (add_ticket (if forced then Draining else Ready) (Some t) (with_lease s l))"
    using inv u st unfolding fd_inv_def registry_ok_def by (auto simp: keep add_ticket_def unclaimed_def)
  moreover have "fd_later s (add_ticket (if forced then Draining else Ready) (Some t) (with_lease s l))"
    using keep u st by (auto simp: fd_later_def frozen_def unclaimed_def add_ticket_def)
  ultimately show ?thesis using ok none by (simp add: fd_keeps_def fd_inv_def add_ticket_def)
qed

end
