(* ===== verification/Fd_History.thy ===== *)
theory Fd_History
  imports Fd_Invariant
begin

section \<open>Every operation keeps the invariant\<close>

text \<open>The remaining operations of the system, then the step as a store and what every history keeps.\<close>

lemma publish_keeps:
  assumes inv: "fd_inv s"
  shows "fd_keeps s (fd_step s (Publish r k))"
proof -
  from inv have ok: "lease_ok (fs_lease s)" by (simp add: fd_inv_def)
  from publish_cases [OF ok, of r k] show ?thesis
  proof (elim disjE exE conjE)
    fix e assume "publish r k (fs_lease s) = (Inl e, fs_lease s)"
    then have "fd_step s (Publish r k) = with_lease s (fs_lease s)" by simp
    with quiet_keeps [OF inv quiet_refl] show ?thesis by simp
  next
    fix l assume run: "publish r k (fs_lease s) = (Inr (Suc (fl_generation (fs_lease s))), l)" and st: "fl_state (fs_lease s) = FD_CLOSED"
      and l: "lease_ok l" "fl_generation l = Suc (fl_generation (fs_lease s))" "fl_state l = FD_OPEN" "caps_descend (fs_lease s) l"
    have none: "fs_tickets s = []" using inv st no_tickets_when_unclaimed by (auto simp: fd_inv_def)
    have "log_ok (fs_lease s) [] (fs_closed s)" using inv none by (simp add: fd_inv_def)
    then have "log_ok l [] (fs_closed s)"
      using st unfolding log_ok_def l by (force simp: running_def less_Suc_eq split: if_split_asm)
    moreover have "registry_ok (fd_step s (Publish r k))"
      using inv run l unfolding fd_inv_def registry_ok_def by auto
    moreover have "fd_later s (fd_step s (Publish r k))" using run l st by (simp add: fd_later_def frozen_def)
    ultimately show ?thesis using run l none by (simp add: fd_keeps_def fd_inv_def)
  qed
qed

lemma register_keeps: "fd_inv s \<Longrightarrow> fd_keeps s (fd_step s Register)"
  by (auto simp: fd_keeps_def fd_inv_def fd_later_def registry_ok_def frozen_def)

lemma settle_keeps: "fd_inv s \<Longrightarrow> fd_keeps s (fd_step s (Settle g st))"
  by (auto simp: fd_keeps_def fd_inv_def fd_later_def registry_ok_def frozen_def registry_terminal_def dest: notin_set_remove1)

text \<open>Only the thread in charge of the close is at a ticket.\<close>

lemma ticket_alone:
  assumes "fd_inv s" "(t, ph) \<in> set (fs_tickets s)"
  shows "fs_tickets s = [(t, ph)]" "fl_state (fs_lease s) = (if tk_forced t then FD_REVOKING else FD_CLOSING)"
    "tk_generation t = fl_generation (fs_lease s)" "fl_resource (fs_lease s) = Some (tk_resource t)"
    "if ph \<in> {Ready, Closer_Running} then \<not> generation_has_inflight_calls (fl_generation (fs_lease s)) (fs_lease s) else tk_forced t"
proof -
  from assms(1) have "tickets_ok (fs_lease s) (fs_tickets s)" by (simp add: fd_inv_def)
  then show "fs_tickets s = [(t, ph)]" "fl_state (fs_lease s) = (if tk_forced t then FD_REVOKING else FD_CLOSING)"
    "tk_generation t = fl_generation (fs_lease s)" "fl_resource (fs_lease s) = Some (tk_resource t)"
    "if ph \<in> {Ready, Closer_Running} then \<not> generation_has_inflight_calls (fl_generation (fs_lease s)) (fs_lease s) else tk_forced t"
    using assms(2) by (auto elim!: tickets_cases)
qed

text \<open>A step that only moves the ticket and perhaps logs the call of the closer.\<close>

lemma tickets_keeps:
  assumes inv: "fd_inv s" and t: "(t, ph) \<in> set (fs_tickets s)"
    and lease: "fs_lease s' = fs_lease s" and tickets: "tickets_ok (fs_lease s) (fs_tickets s')"
    and log: "log_ok (fs_lease s) (fs_tickets s') (fs_closed s')" "prefix (fs_closed s) (fs_closed s')"
    and registry: "fs_registered s' = fs_registered s" "fs_registering s' = fs_registering s" "fs_settling s' = fs_settling s"
  shows "fd_keeps s s'"
proof -
  have "\<not> frozen s" using ticket_alone(1,2) [OF inv t] by (simp add: frozen_def)
  then have "fd_later s s'" using lease log(2) by (simp add: fd_later_def)
  moreover have "registry_ok s'" using inv registry by (simp add: fd_inv_def registry_ok_def lease)
  ultimately show ?thesis using inv lease tickets log(1) by (simp add: fd_keeps_def fd_inv_def)
qed

lemma log_of: "fd_inv s \<Longrightarrow> (t, ph) \<in> set (fs_tickets s) \<Longrightarrow> log_ok (fs_lease s) [(t, ph)] (fs_closed s)"
  using ticket_alone(1) [of s t ph] by (simp add: fd_inv_def)

lemma log_ok_moved: "log_ok l [(t, ph)] gs \<Longrightarrow> ph \<noteq> Closer_Running \<Longrightarrow> ph' \<noteq> Closer_Running \<Longrightarrow> log_ok l [(t, ph')] gs"
  by (auto simp: log_ok_def running_def split: if_split_asm)

lemma wait_keeps:
  assumes inv: "fd_inv s" and t: "(t, Draining) \<in> set (fs_tickets s)"
  shows "fd_keeps s (wait_for_quiescence over t s)"
proof -
  note a = ticket_alone [OF inv t]
  have "fd_keeps s (move_ticket t Draining ph s)"
    if "ph = Undrained \<or> ph = Ready \<and> \<not> generation_has_inflight_calls (tk_generation t) (fs_lease s)" for ph
    by (rule tickets_keeps [OF inv t])
      (use that a log_ok_moved [OF log_of [OF inv t], of ph] in \<open>auto simp: move_ticket_def\<close>)
  then show ?thesis using inv by (simp add: wait_for_quiescence_def fd_keeps_def fd_later_refl)
qed

lemma drained_keeps: "fd_inv s \<Longrightarrow> fd_keeps s (fd_step s (SeeDrained t))"
  using wait_keeps by (auto simp: fd_keeps_def fd_later_refl)

lemma timeout_keeps: "fd_inv s \<Longrightarrow> fd_keeps s (fd_step s (DrainTimeout t))"
  using wait_keeps by (auto simp: fd_keeps_def fd_later_refl)

lemma abandon_keeps: "fd_inv s \<Longrightarrow> fd_keeps s (fd_step s (AbandonDrain t))"
proof (cases "(t, Draining) \<in> set (fs_tickets s) \<and> tk_async t")
  case True
  assume inv: "fd_inv s"
  from True have t: "(t, Draining) \<in> set (fs_tickets s)" by simp
  note a = ticket_alone [OF inv t]
  have "log_ok (fs_lease s) [] (fs_closed s)"
    using log_of [OF inv t] a(2,5) by (auto simp: log_ok_def running_def split: if_split_asm)
  then show ?thesis
    by (intro tickets_keeps [OF inv t]) (use True a in simp_all)
qed (auto simp: fd_keeps_def fd_later_refl)

lemma closer_keeps: "fd_inv s \<Longrightarrow> fd_keeps s (fd_step s (RunCloser t))"
proof (cases "(t, Ready) \<in> set (fs_tickets s) \<and> tk_closer t")
  case True
  assume inv: "fd_inv s"
  from True have t: "(t, Ready) \<in> set (fs_tickets s)" by simp
  note a = ticket_alone [OF inv t]
  have "1 \<le> fl_generation (fs_lease s)" using inv by (simp add: fd_inv_def lease_ok_def claims_ok_def)
  then have "log_ok (fs_lease s) [(t, Closer_Running)] (fs_closed s @ [tk_generation t])"
    using log_of [OF inv t] a(2,3) by (auto simp: log_ok_def running_def split: if_split_asm)
  then show ?thesis
    by (intro tickets_keeps [OF inv t]) (use True a in \<open>simp_all add: move_ticket_def call_closer_def\<close>)
qed (auto simp: fd_keeps_def fd_later_refl)

text \<open>A close detaches the resource only when its closer says so.\<close>

lemma close_outcome_cases:
  assumes "close_outcome s t result = Some (ph, x)"
  shows "(t, ph) \<in> set (fs_tickets s)" "co_disposition x = DETACHED \<Longrightarrow> ph = Closer_Running"
  using assms by (auto simp: close_outcome_def not_drained_def missing_contract_def uncertain_def split: if_split_asm)

lemma finish_step:
  assumes inv: "fd_inv s" and out: "close_outcome s t result = Some (ph, x)"
  shows "fd_step s (FinishClose t result) = (with_lease s (finished x (fs_lease s)))\<lparr>fs_tickets := [],
    fs_settling := fs_settling s @ [(fl_generation (fs_lease s), if co_disposition x = DETACHED then FD_CLOSED else FD_QUARANTINED)]\<rparr>"
proof -
  have t: "(t, ph) \<in> set (fs_tickets s)" by (rule close_outcome_cases [OF out])
  note a = ticket_alone [OF inv t]
  have "finish_close t x (fs_lease s) = (Inr x, finished x (fs_lease s))" by (rule finish_result) (use a in simp_all)
  then show ?thesis using out a(1) by simp
qed

lemma finish_keeps: "fd_inv s \<Longrightarrow> fd_keeps s (fd_step s (FinishClose t result))"
proof (cases "close_outcome s t result")
  case (Some p)
  assume inv: "fd_inv s"
  obtain ph x where out: "close_outcome s t result = Some (ph, x)" using Some by (cases p) simp
  have t: "(t, ph) \<in> set (fs_tickets s)" by (rule close_outcome_cases [OF out])
  note a = ticket_alone [OF inv t] and step = finish_step [OF inv out]
  have st: "fl_state (fs_lease s) \<in> {FD_CLOSING, FD_REVOKING}" using a(2) by (auto split: if_split_asm)
  have "lease_ok (finished x (fs_lease s))"
    by (rule finished_ok) (use inv st a(5) close_outcome_cases(2) [OF out] in \<open>auto simp: fd_inv_def\<close>)
  moreover have "log_ok (finished x (fs_lease s)) [] (fs_closed s)"
    using log_of [OF inv t] close_outcome_cases(2) [OF out] st by (auto simp: log_ok_def running_def split: if_split_asm)
  moreover have "registry_ok (fd_step s (FinishClose t result))"
    using inv st unfolding fd_inv_def registry_ok_def step by auto
  moreover have "fd_later s (fd_step s (FinishClose t result))"
    using st a(1) unfolding fd_later_def step by (auto simp: frozen_def unclaimed_def)
  ultimately show ?thesis unfolding fd_keeps_def fd_inv_def step by simp
qed (auto simp: fd_keeps_def fd_later_refl)

lemma release_keeps:
  assumes inv: "fd_inv s"
  shows "fd_keeps s (fd_step s (ReleaseCapability c thread reuse async))"
proof -
  from inv have "lease_ok (fs_lease s)" by (simp add: fd_inv_def)
  from release_cases [OF this, of c thread reuse async] show ?thesis
    using quiet_keeps [OF inv] claims_keeps [OF inv, of False]
    by (elim disjE exE conjE) (simp_all add: add_ticket_def)
qed

lemma claim_keeps:
  assumes inv: "fd_inv s"
  shows "fd_keeps s (fd_step s (ClaimClose async))"
proof -
  from inv have "lease_ok (fs_lease s)" by (simp add: fd_inv_def)
  from graceful_cases [OF this, of async] show ?thesis
    using quiet_keeps [OF inv] claims_keeps [OF inv, of False]
    by (elim disjE exE conjE) (simp_all add: add_ticket_def)
qed

lemma revoke_keeps:
  assumes inv: "fd_inv s"
  shows "fd_keeps s (fd_step s (ClaimRevoke reason async authority))"
proof -
  from inv have "lease_ok (fs_lease s)" by (simp add: fd_inv_def)
  from forced_cases [OF this, of reason async authority] show ?thesis
    using quiet_keeps [OF inv] claims_keeps [OF inv, of True]
    by (elim disjE exE conjE) (simp_all add: add_ticket_def)
qed

lemma fd_step_keeps: "fd_inv s \<Longrightarrow> fd_keeps s (fd_step s op)"
proof (cases op)
  case (Publish r k) then show "fd_inv s \<Longrightarrow> ?thesis" using publish_keeps by (simp only:)
next
  case Register then show "fd_inv s \<Longrightarrow> ?thesis" using register_keeps by (simp only:)
next
  case (Acquire th h) then show "fd_inv s \<Longrightarrow> ?thesis" using quiet_keeps [OF _ acquire_quiet] by simp
next
  case (BeginCall c th) then show "fd_inv s \<Longrightarrow> ?thesis" using quiet_keeps [OF _ begin_quiet] by simp
next
  case (EndCall c) then show "fd_inv s \<Longrightarrow> ?thesis" using quiet_keeps [OF _ end_quiet] by simp
next
  case (RequestCancel c r) then show "fd_inv s \<Longrightarrow> ?thesis" using quiet_keeps [OF _ cancel_quiet] by simp
next
  case (RequestRetire r) then show "fd_inv s \<Longrightarrow> ?thesis" using quiet_keeps [OF _ retire_quiet] by simp
next
  case (ReleaseCapability c th r a) then show "fd_inv s \<Longrightarrow> ?thesis" using release_keeps by (simp only:)
next
  case (ClaimClose a) then show "fd_inv s \<Longrightarrow> ?thesis" using claim_keeps by (simp only:)
next
  case (ClaimRevoke r a au) then show "fd_inv s \<Longrightarrow> ?thesis" using revoke_keeps by (simp only:)
next
  case (SeeDrained t) then show "fd_inv s \<Longrightarrow> ?thesis" using drained_keeps by (simp only:)
next
  case (DrainTimeout t) then show "fd_inv s \<Longrightarrow> ?thesis" using timeout_keeps by (simp only:)
next
  case (AbandonDrain t) then show "fd_inv s \<Longrightarrow> ?thesis" using abandon_keeps by (simp only:)
next
  case (RunCloser t) then show "fd_inv s \<Longrightarrow> ?thesis" using closer_keeps by (simp only:)
next
  case (FinishClose t r) then show "fd_inv s \<Longrightarrow> ?thesis" using finish_keeps by (simp only:)
next
  case (Settle g st) then show "fd_inv s \<Longrightarrow> ?thesis" using settle_keeps by (simp only:)
qed

interpretation fd_store: refined_store fd_step fd_inv "\<lambda>s. s" fd_later
  by unfold_locales (use fd_step_keeps in \<open>auto simp: fd_keeps_def\<close>)

lemma fd_history: "fd_inv s \<Longrightarrow> fd_inv (run_ops fd_step s ops) \<and> fd_later s (run_ops fd_step s ops)"
  using fd_store.run_inv [of s ops] fd_later_rtranclp [OF fd_store.run_moves [of s ops]] by blast

end
