(* ===== verification/Fd_Properties.thy ===== *)
theory Fd_Properties
  imports Fd_History
begin

section \<open>Properties of leased file descriptors\<close>

text \<open>
  Each property speaks of a lease that was constructed without an error and of any sequence of locked sections
  of any threads on it.
\<close>

lemma reached_inv: "new_lease owner r capacity k drain = Inr l \<Longrightarrow> fd_inv (run_ops fd_step (start_system l) ops)"
  using fd_history [OF start_inv] by blast

text \<open>A call is admitted only on a live capability of the current, unclaimed generation.\<close>

lemma begin_admits:
  assumes "begin_call c thread l = (Inr r, l')"
  shows "\<exists>x. map_of (fl_caps l) c = Some x \<and> cap_thread x = thread \<and> cap_state x = CAP_LIVE \<and> cap_generation x = fl_generation l
    \<and> \<not> cap_in_call x \<and> unclaimed (fl_state l) \<and> fl_resource l = Some r"
  using assms by (auto simp: begin_call_def fd_bind_def require_capability_def require_owner_thread_def require_resource_def
      unclaimed_def split: option.splits if_split_asm)

lemma begin_refused: "\<not> (\<exists>r l'. begin_call c thread l = (Inr r, l')) \<Longrightarrow> \<exists>e. fst (begin_call c thread l) = Inl e"
  by (cases "begin_call c thread l"; cases "fst (begin_call c thread l)") auto

subsection \<open>The closer\<close>

lemma closer_alone:
  assumes "fd_inv s" "(t, Closer_Running) \<in> set (fs_tickets s)"
  shows "\<not> generation_has_inflight_calls (tk_generation t) (fs_lease s) \<and> fl_resource (fs_lease s) = Some (tk_resource t)
    \<and> (\<forall>c thread. \<exists>e. fst (begin_call c thread (fs_lease s)) = Inl e) \<and> fs_tickets s = [(t, Closer_Running)]"
proof -
  note a = ticket_alone [OF assms]
  have "\<not> unclaimed (fl_state (fs_lease s))" using a(2) by (simp add: unclaimed_def)
  then have "\<exists>e. fst (begin_call c thread (fs_lease s)) = Inl e" for c thread
    by (intro begin_refused) (auto dest: begin_admits)
  with a show ?thesis by simp
qed

text \<open>C10: While the physical closer of a generation runs, whatever threads did before: no admitted call of that
  generation is still running, no call can begin, no second thread is closing, and the lease still holds exactly
  the resource that is being closed.\<close>

theorem closer_never_overlaps_call:
  assumes "new_lease owner r capacity k drain = Inr l"
    and "(t, Closer_Running) \<in> set (fs_tickets (run_ops fd_step (start_system l) ops))"
  shows "let s = run_ops fd_step (start_system l) ops in
    \<not> generation_has_inflight_calls (tk_generation t) (fs_lease s) \<and> fl_resource (fs_lease s) = Some (tk_resource t)
    \<and> (\<forall>c thread. \<exists>e. fst (begin_call c thread (fs_lease s)) = Inl e) \<and> fs_tickets s = [(t, Closer_Running)]"
  unfolding Let_def by (rule closer_alone [OF reached_inv [OF assms(1)] assms(2)])

text \<open>C12: The physical closer is called at most once per generation and for no other. A lease is closed, and so
  open to a replacement, only after the closer of its generation was called and the resource was let go, so every
  generation before the current one has been closed by its own closer.\<close>

theorem each_generation_closed_once:
  assumes "new_lease owner r capacity k drain = Inr l"
  shows "let s = run_ops fd_step (start_system l) ops in
    distinct (fs_closed s) \<and> (\<forall>g \<in> set (fs_closed s). 1 \<le> g \<and> g \<le> fl_generation (fs_lease s))
    \<and> (\<forall>g \<in> {1..<fl_generation (fs_lease s)}. g \<in> set (fs_closed s))
    \<and> (fl_state (fs_lease s) = FD_CLOSED \<longrightarrow> fl_generation (fs_lease s) \<in> set (fs_closed s) \<and> fl_resource (fs_lease s) = None)
    \<and> (unclaimed (fl_state (fs_lease s)) \<longrightarrow> fl_generation (fs_lease s) \<notin> set (fs_closed s) \<and> fl_resource (fs_lease s) \<noteq> None)"
proof -
  let ?s = "run_ops fd_step (start_system l) ops"
  from reached_inv [OF assms] have inv: "log_ok (fs_lease ?s) (fs_tickets ?s) (fs_closed ?s)" "claims_ok (fs_lease ?s)"
    "tickets_ok (fs_lease ?s) (fs_tickets ?s)" by (simp_all add: fd_inv_def lease_ok_def)
  have "unclaimed (fl_state (fs_lease ?s)) \<Longrightarrow> \<not> running (fs_tickets ?s)"
    using no_tickets_when_unclaimed [OF inv(3)] by (simp add: running_def)
  with inv(1,2) show ?thesis unfolding Let_def log_ok_def claims_ok_def
    by (auto simp: unclaimed_def split: if_split_asm)
qed

subsection \<open>Fenced capabilities\<close>

definition fenced :: "nat \<Rightarrow> 'r FdLease \<Rightarrow> bool" where
  "fenced c l \<longleftrightarrow> c \<le> fl_next l \<and> (case map_of (fl_caps l) c of None \<Rightarrow> True
     | Some x \<Rightarrow> cap_state x \<noteq> CAP_LIVE \<or> cap_generation x \<noteq> fl_generation l \<or> \<not> unclaimed (fl_state l))"

lemma fenced_stays:
  assumes inv: "fd_inv s" and later: "fd_later s s'" and f: "fenced c (fs_lease s)"
  shows "fenced c (fs_lease s')"
proof -
  from later have d: "caps_descend (fs_lease s) (fs_lease s')" and g: "fl_generation (fs_lease s) \<le> fl_generation (fs_lease s')"
    and st: "fl_generation (fs_lease s') = fl_generation (fs_lease s) \<Longrightarrow> \<not> unclaimed (fl_state (fs_lease s)) \<Longrightarrow> \<not> unclaimed (fl_state (fs_lease s'))"
    by (auto simp: fd_later_def)
  have "cap_state x' \<noteq> CAP_LIVE \<or> cap_generation x' \<noteq> fl_generation (fs_lease s') \<or> \<not> unclaimed (fl_state (fs_lease s'))"
    if "map_of (fl_caps (fs_lease s')) c = Some x'" for x'
  proof -
    from d f that obtain x where x: "map_of (fl_caps (fs_lease s)) c = Some x" "cap_generation x' = cap_generation x"
      "cap_state x' = CAP_LIVE \<longrightarrow> cap_state x = CAP_LIVE" unfolding caps_descend_def fenced_def by blast
    have "cap_generation x \<le> fl_generation (fs_lease s)"
      using inv caps_okD [OF _ x(1)] by (simp add: fd_inv_def lease_ok_def cap_ok_def)
    with f x g st show ?thesis by (cases "fl_generation (fs_lease s') = fl_generation (fs_lease s)") (auto simp: fenced_def)
  qed
  with d f show ?thesis by (auto simp: fenced_def caps_descend_def split: option.split)
qed

text \<open>C11: A capability that was handed out and has been cancelled, revoked or released, belongs to an earlier
  generation, or belongs to a generation whose close is claimed, is never admitted again: whatever happens later,
  publication of a new generation included, a call on it is refused and changes nothing.\<close>

theorem fenced_capability_never_runs_again:
  assumes "new_lease owner r capacity k drain = Inr l"
    and "fenced c (fs_lease (run_ops fd_step (start_system l) ops))"
  shows "let later = fs_lease (run_ops fd_step (start_system l) (ops @ ops')) in
    fenced c later \<and> (\<exists>e. begin_call c thread later = (Inl e, later))"
proof -
  let ?s = "run_ops fd_step (start_system l) ops" and ?s' = "run_ops fd_step (start_system l) (ops @ ops')"
  have inv: "fd_inv ?s" by (rule reached_inv [OF assms(1)])
  have f: "fenced c (fs_lease ?s')"
    unfolding run_ops_append using fenced_stays [OF inv _ assms(2)] fd_history [OF inv] by blast
  then have "(\<exists>e. begin_call c thread (fs_lease ?s') = (Inl e, fs_lease ?s'))"
    by (auto simp: fenced_def begin_call_def fd_bind_def require_capability_def require_owner_thread_def unclaimed_def
        split: option.splits)
  with f show ?thesis by (simp add: Let_def)
qed

subsection \<open>Ends of a lease\<close>

text \<open>C25: A quarantine is final. Whatever is tried afterwards the lease stays quarantined in its generation, keeps
  the uncertain resource bound, never calls a closer again, refuses every publication and stays in the registry
  (or is about to be entered again by a registration under way).\<close>

theorem quarantine_is_terminal:
  assumes "new_lease owner r capacity k drain = Inr l"
    and "fl_state (fs_lease (run_ops fd_step (start_system l) ops)) = FD_QUARANTINED"
  shows "let s = run_ops fd_step (start_system l) ops; s' = run_ops fd_step (start_system l) (ops @ ops') in
    fl_state (fs_lease s') = FD_QUARANTINED \<and> fl_generation (fs_lease s') = fl_generation (fs_lease s)
    \<and> fl_resource (fs_lease s') = fl_resource (fs_lease s) \<and> fl_resource (fs_lease s) \<noteq> None
    \<and> fs_closed s' = fs_closed s \<and> fs_tickets s' = [] \<and> (\<forall>r' k'. \<exists>e. publish r' k' (fs_lease s') = (Inl e, fs_lease s'))
    \<and> (fs_registered s' \<or> 0 < fs_registering s')"
proof -
  let ?s = "run_ops fd_step (start_system l) ops" and ?s' = "run_ops fd_step (start_system l) (ops @ ops')"
  have inv: "fd_inv ?s" "fd_inv ?s'" by (rule reached_inv [OF assms(1)])+
  have "fd_later ?s ?s'" unfolding run_ops_append using fd_history [OF inv(1)] by blast
  moreover have "frozen ?s" using assms(2) by (simp add: frozen_def)
  ultimately have same: "fl_generation (fs_lease ?s') = fl_generation (fs_lease ?s)" "fl_state (fs_lease ?s') = FD_QUARANTINED"
    "fl_resource (fs_lease ?s') = fl_resource (fs_lease ?s)" "fs_tickets ?s' = fs_tickets ?s" "fs_closed ?s' = fs_closed ?s"
    using assms(2) by (simp_all add: fd_later_def)
  have "fl_resource (fs_lease ?s) \<noteq> None" using inv(1) assms(2) by (simp add: fd_inv_def lease_ok_def claims_ok_def)
  moreover have "fs_tickets ?s' = []" using inv(2) same(2) no_tickets_when_unclaimed by (auto simp: fd_inv_def)
  moreover have "fs_registered ?s' \<or> 0 < fs_registering ?s'" using inv(2) same(2) by (simp add: fd_inv_def registry_ok_def)
  moreover have "\<exists>e. publish r' k' (fs_lease ?s') = (Inl e, fs_lease ?s')" for r' k'
    using same(2) by (simp add: publish_def split: sum.split)
  ultimately show ?thesis using same by (simp add: Let_def)
qed

text \<open>
  The same holds of a forced close whose ticket is lost: when the task that awaits the drain is cancelled, the
  lease stays in \<open>REVOKING\<close> for ever and its closer is never called.
\<close>

lemma cancelled_drain_strands_lease:
  assumes start: "new_lease owner r capacity k drain = Inr l"
    and t: "(t, Draining) \<in> set (fs_tickets (run_ops fd_step (start_system l) ops))" "tk_async t"
  shows "let s' = run_ops fd_step (start_system l) (ops @ [AbandonDrain t] @ ops') in
    fl_state (fs_lease s') = FD_REVOKING \<and> tk_generation t \<notin> set (fs_closed s') \<and> fl_resource (fs_lease s') = Some (tk_resource t)"
proof -
  let ?s = "run_ops fd_step (start_system l) ops" let ?a = "fd_step ?s (AbandonDrain t)"
  have inv: "fd_inv ?s" by (rule reached_inv [OF start])
  note a = ticket_alone [OF inv t(1)]
  have inv': "fd_inv ?a" using abandon_keeps [OF inv] by (simp add: fd_keeps_def)
  have after: "fs_lease ?a = fs_lease ?s" "fs_tickets ?a = []" using t a(1) by simp_all
  have st: "fl_state (fs_lease ?a) = FD_REVOKING" using a(2,5) after(1) by simp
  have closed: "tk_generation t \<notin> set (fs_closed ?a)"
    using inv' st after a(3) by (auto simp: fd_inv_def log_ok_def running_def split: if_split_asm)
  have "frozen ?a" using st after(2) by (simp add: frozen_def)
  moreover have "fd_later ?a (run_ops fd_step ?a ops')" using fd_history [OF inv'] by blast
  ultimately show ?thesis using st closed a(4) after(1) by (simp add: run_ops_append Let_def fd_later_def)
qed

text \<open>
  A thread that has claimed a close goes on to end it. Until then the other threads can only wait: nothing but the
  thread's own steps, or the loss of its ticket, moves the ticket.
\<close>

lemma claim_needs_unclaimed: "claims forced l l' t \<Longrightarrow> unclaimed (fl_state l)"
  by (simp add: claims_def)

lemma ticket_step:
  assumes inv: "fd_inv s" and t: "(t, ph) \<in> set (fs_tickets s)" and op: "op \<noteq> AbandonDrain t"
  shows "(\<exists>ph'. (t, ph') \<in> set (fs_tickets (fd_step s op)))
    \<or> fl_generation (fs_lease (fd_step s op)) = tk_generation t \<and> fl_state (fs_lease (fd_step s op)) \<in> {FD_CLOSED, FD_QUARANTINED}"
proof -
  note a = ticket_alone [OF inv t]
  have ok: "lease_ok (fs_lease s)" using inv by (simp add: fd_inv_def)
  have claimed: "\<not> unclaimed (fl_state (fs_lease s))" "fl_state (fs_lease s) \<noteq> FD_CLOSED" using a(2) by (simp_all add: unclaimed_def)
  show ?thesis
  proof (cases op)
    case (Publish r k)
    have "\<exists>e. publish r k (fs_lease s) = (Inl e, fs_lease s)" using publish_cases [OF ok, of r k] claimed(2) by auto
    with t Publish show ?thesis by auto
  next
    case (ReleaseCapability c thread reuse async)
    with release_cases [OF ok, of c thread reuse async] claimed(1) claim_needs_unclaimed t show ?thesis
      by (elim disjE exE conjE) (auto simp: add_ticket_def)
  next
    case (ClaimClose async)
    with graceful_cases [OF ok, of async] claimed(1) claim_needs_unclaimed t show ?thesis
      by (elim disjE exE conjE) (auto simp: add_ticket_def)
  next
    case (ClaimRevoke reason async authority)
    with forced_cases [OF ok, of reason async authority] claimed(1) claim_needs_unclaimed t show ?thesis
      by (elim disjE exE conjE) (auto simp: add_ticket_def)
  next
    case (FinishClose t' result)
    show ?thesis
    proof (cases "close_outcome s t' result")
      case None
      with t FinishClose show ?thesis by auto
    next
      case (Some p)
      obtain ph' x where out: "close_outcome s t' result = Some (ph', x)" using Some by (cases p) simp
      show ?thesis unfolding FinishClose finish_step [OF inv out] using a(3) by simp
    qed
  qed (use t a(1) op in \<open>auto simp: move_ticket_def wait_for_quiescence_def call_closer_def registry_terminal_def\<close>)
qed

text \<open>A generation is settled when it is closed, quarantined or replaced; it stays settled.\<close>

definition settled_generation :: "nat \<Rightarrow> 'r FdSystem \<Rightarrow> bool" where
  "settled_generation g s \<longleftrightarrow> g < fl_generation (fs_lease s)
     \<or> g = fl_generation (fs_lease s) \<and> fl_state (fs_lease s) \<in> {FD_CLOSED, FD_QUARANTINED}"

lemma settled_stays: "settled_generation g s \<Longrightarrow> fd_later s s' \<Longrightarrow> settled_generation g s'"
  unfolding settled_generation_def fd_later_def frozen_def by (cases "fl_state (fs_lease s)") auto

lemma ticket_run:
  assumes "fd_inv s" and "(t, ph) \<in> set (fs_tickets s)" and "AbandonDrain t \<notin> set ops"
  shows "(\<exists>ph'. (t, ph') \<in> set (fs_tickets (run_ops fd_step s ops))) \<or> settled_generation (tk_generation t) (run_ops fd_step s ops)"
  using assms
proof (induction ops arbitrary: s ph)
  case (Cons op ops)
  have inv': "fd_inv (fd_step s op)" using fd_step_keeps [OF Cons.prems(1)] by (simp add: fd_keeps_def)
  from Cons.prems(3) have "op \<noteq> AbandonDrain t" by auto
  from ticket_step [OF Cons.prems(1,2) this] show ?case
  proof
    assume "\<exists>ph'. (t, ph') \<in> set (fs_tickets (fd_step s op))"
    with Cons.IH [OF inv'] Cons.prems(3) show ?thesis by auto
  next
    assume "fl_generation (fs_lease (fd_step s op)) = tk_generation t \<and> fl_state (fs_lease (fd_step s op)) \<in> {FD_CLOSED, FD_QUARANTINED}"
    then have "settled_generation (tk_generation t) (fd_step s op)" by (auto simp: settled_generation_def)
    with settled_stays fd_history [OF inv'] show ?thesis unfolding run_ops_simps by blast
  qed
qed auto

text \<open>The steps that are left to the thread, from whatever point it is at.\<close>

definition closing_steps :: "'r FdTicket \<Rightarrow> closer_result \<Rightarrow> 'r fd_op list" where
  "closing_steps t result = [SeeDrained t, DrainTimeout t, RunCloser t, FinishClose t result]"

definition closer_due :: "'r FdSystem \<Rightarrow> 'r FdTicket \<Rightarrow> fd_phase \<Rightarrow> bool" where
  "closer_due s t ph \<longleftrightarrow> ph = Closer_Running
     \<or> tk_closer t \<and> (ph = Ready \<or> ph = Draining \<and> \<not> generation_has_inflight_calls (tk_generation t) (fs_lease s))"

lemma closing_steps_settle:
  assumes inv: "fd_inv s" and t: "(t, ph) \<in> set (fs_tickets s)" and s': "s' = run_ops fd_step s (closing_steps t result)"
  shows "fs_tickets s' = [] \<and> fl_generation (fs_lease s') = tk_generation t
    \<and> fl_state (fs_lease s') = (if closer_due s t ph \<and> co_disposition (normalize_close_outcome result) = DETACHED then FD_CLOSED else FD_QUARANTINED)"
proof -
  note a = ticket_alone [OF inv t]
  let ?idle = "\<not> generation_has_inflight_calls (tk_generation t) (fs_lease s)"
  let ?ph2 = "if ph = Draining then if ?idle then Ready else Undrained else ph"
  let ?ph3 = "if ?ph2 = Ready \<and> tk_closer t then Closer_Running else ?ph2"
  let ?x = "if ?ph3 = Closer_Running then normalize_close_outcome result else if ?ph3 = Undrained then not_drained else missing_contract t"
  let ?s2 = "fd_step (fd_step s (SeeDrained t)) (DrainTimeout t)" and ?s3 = "run_ops fd_step s [SeeDrained t, DrainTimeout t, RunCloser t]"
  have two: "fs_tickets ?s2 = [(t, ?ph2)]" "fs_lease ?s2 = fs_lease s"
    using a(1) by (cases ph; simp add: wait_for_quiescence_def move_ticket_def)+
  have three: "fs_tickets ?s3 = [(t, ?ph3)]" "fs_lease ?s3 = fs_lease s"
    using two by (cases ph; simp add: call_closer_def move_ticket_def)+
  have inv3: "fd_inv ?s3" using fd_history [OF inv] by blast
  have out: "close_outcome ?s3 t result = Some (?ph3, ?x)"
    unfolding close_outcome_def three by (cases ph) auto
  have "s' = (with_lease ?s3 (finished ?x (fs_lease ?s3)))\<lparr>fs_tickets := [], fs_settling := fs_settling ?s3
      @ [(fl_generation (fs_lease ?s3), if co_disposition ?x = DETACHED then FD_CLOSED else FD_QUARANTINED)]\<rparr>"
    using finish_step [OF inv3 out] unfolding s' closing_steps_def run_ops_simps .
  then have "fs_tickets s' = [] \<and> fl_generation (fs_lease s') = tk_generation t
      \<and> fl_state (fs_lease s') = (if co_disposition ?x = DETACHED then FD_CLOSED else FD_QUARANTINED)"
    using a(3) three(2) by simp
  moreover have "co_disposition ?x = DETACHED \<longleftrightarrow> closer_due s t ph \<and> co_disposition (normalize_close_outcome result) = DETACHED"
    by (cases ph) (auto simp: closer_due_def not_drained_def missing_contract_def uncertain_def)
  ultimately show ?thesis by simp
qed

text \<open>C24: A claimed close settles. Take a thread that has claimed the close of a generation, gracefully or by force,
  and is anywhere on its way, and let all threads go on in any order, only the thread's task must not be cancelled
  while it awaits the drain. Then at every point either the generation is settled or the thread still has its
  ticket, and its own remaining steps, at most four, end the close. The lease is then closed if the closer is due
  (it exists and the calls have drained, or it runs already) and vouches for the detachment, and quarantined in
  every other case, a drain timeout and a missing closer included.\<close>

theorem claimed_close_settles:
  assumes "new_lease owner r capacity k drain = Inr l"
    and "(t, ph) \<in> set (fs_tickets (run_ops fd_step (start_system l) ops))" and "AbandonDrain t \<notin> set ops'"
  shows "let s = run_ops fd_step (start_system l) (ops @ ops'); s' = run_ops fd_step s (closing_steps t result) in
    settled_generation (tk_generation t) s'
    \<and> ((\<exists>ph'. (t, ph') \<in> set (fs_tickets s)) \<or> settled_generation (tk_generation t) s)
    \<and> (\<forall>ph'. (t, ph') \<in> set (fs_tickets s) \<longrightarrow> fs_tickets s' = [] \<and> fl_generation (fs_lease s') = tk_generation t
        \<and> fl_state (fs_lease s') = (if closer_due s t ph' \<and> co_disposition (normalize_close_outcome result) = DETACHED
            then FD_CLOSED else FD_QUARANTINED))"
proof -
  let ?s = "run_ops fd_step (start_system l) (ops @ ops')" let ?s' = "run_ops fd_step ?s (closing_steps t result)"
  have inv: "fd_inv ?s" by (rule reached_inv [OF assms(1)])
  have either: "(\<exists>ph'. (t, ph') \<in> set (fs_tickets ?s)) \<or> settled_generation (tk_generation t) ?s"
    unfolding run_ops_append using ticket_run [OF reached_inv [OF assms(1)] assms(2,3)] .
  have mine: "fs_tickets ?s' = [] \<and> fl_generation (fs_lease ?s') = tk_generation t \<and> fl_state (fs_lease ?s')
      = (if closer_due ?s t ph' \<and> co_disposition (normalize_close_outcome result) = DETACHED then FD_CLOSED else FD_QUARANTINED)"
    if "(t, ph') \<in> set (fs_tickets ?s)" for ph'
    by (rule closing_steps_settle [OF inv that refl])
  have "settled_generation (tk_generation t) ?s'"
    using either
  proof
    assume "\<exists>ph'. (t, ph') \<in> set (fs_tickets ?s)"
    then obtain ph' where there: "(t, ph') \<in> set (fs_tickets ?s)" ..
    show ?thesis using mine [OF there] unfolding settled_generation_def by (cases "closer_due ?s t ph' \<and> co_disposition (normalize_close_outcome result) = DETACHED") (simp_all only: if_True if_False, simp_all)
  next
    assume "settled_generation (tk_generation t) ?s"
    with settled_stays fd_history [OF inv] show ?thesis by blast
  qed
  then show ?thesis unfolding Let_def using either mine by blast
qed

end
