(* ===== verification/Fd_Values.thy ===== *)
theory Fd_Values
  imports Fd_Lease
begin

section \<open>Results of calls are detached values\<close>

text \<open>
  \<open>_require_detached_value\<close> walks the object graph of the result of a call: it must consist of plain values and
  containers and must not contain the leased resource. Objects have an identity, so the graph may share and may
  be cyclic; a heap gives each identity its object. The recursion of the code is a worklist here: that Python ends a
  very deep one with a \<open>RecursionError\<close> is not modelled.
\<close>

datatype py_object =
    AtomObject
  | DictObject "(nat \<times> nat) list"
  | SequenceObject "nat list"
  | DataclassObject "nat list"
  | is_other: OtherObject (type_name: string)

type_synonym heap = "(nat \<times> py_object) list"

text \<open>The parts in the order in which they are visited: keys before their items.\<close>

fun parts :: "py_object \<Rightarrow> nat list" where
  "parts (DictObject items) = concat (map (\<lambda>(k, v). [k, v]) items)"
| "parts (SequenceObject xs) = xs"
| "parts (DataclassObject fs) = fs"
| "parts _ = []"

definition parts_of :: "heap \<Rightarrow> nat \<Rightarrow> nat list" where
  "parts_of h v = (case map_of h v of None \<Rightarrow> [] | Some x \<Rightarrow> parts x)"

definition not_detached :: "string \<Rightarrow> fd_error" where
  "not_detached detail = FdLeaseInvariantError (''fd capability operations may return detached value data only'' @ detail)"

lemma fewer_unseen:
  "v \<in> dom (map_of h) \<Longrightarrow> v \<notin> set seen \<Longrightarrow> card (dom (map_of h) - insert v (set seen)) < card (dom (map_of h) - set seen)"
  by (rule psubset_card_mono) (auto simp: finite_dom_map_of)

text \<open>
  The recursion with its shared set of identities seen, with the pending calls as a list: a call on a container
  is replaced by the calls on its parts. An identity outside the heap has no object and counts as a plain value.
\<close>

function require_detached_values :: "heap \<Rightarrow> nat list \<Rightarrow> nat list \<Rightarrow> nat list \<Rightarrow> fd_error + nat list" where
  "require_detached_values h forbidden seen [] = Inr seen"
| "require_detached_values h forbidden seen (v # vs) =
     (if v \<in> set forbidden then Inl (not_detached [])
      else case map_of h v of
        None \<Rightarrow> require_detached_values h forbidden seen vs
      | Some x \<Rightarrow>
          if x = AtomObject \<or> v \<in> set seen then require_detached_values h forbidden seen vs
          else if is_other x then Inl (not_detached (''; got '' @ type_name x))
          else require_detached_values h forbidden (v # seen) (parts x @ vs))"
  by pat_completeness auto

termination
proof (relation "measures [\<lambda>(h, _, seen, _). card (dom (map_of h) - set seen), \<lambda>(_, _, _, vs). length vs]")
  fix h :: heap and forbidden seen vs v x
  assume "map_of h v = Some x" "\<not> (x = AtomObject \<or> v \<in> set seen)"
  then have "card (dom (map_of h) - insert v (set seen)) < card (dom (map_of h) - set seen)"
    by (intro fewer_unseen) (auto simp: domI)
  then show "((h, forbidden, v # seen, parts x @ vs), h, forbidden, seen, v # vs)
      \<in> measures [\<lambda>(h, _, seen, _). card (dom (map_of h) - set seen), \<lambda>(_, _, _, vs). length vs]"
    by (simp del: Diff_insert card_Diff_insert)
qed simp_all

text \<open>\<open>call_sync\<close> and \<open>call_async\<close>: what the caller gets of the result of the operation.\<close>

definition admit_result :: "heap \<Rightarrow> nat \<Rightarrow> nat \<Rightarrow> fd_error + nat" where
  "admit_result h resource result =
     (if result = resource then Inl (not_detached [])
      else case require_detached_values h [resource] [] [result] of Inl e \<Rightarrow> Inl e | Inr _ \<Rightarrow> Inr result)"

text \<open>The calls pending after a value do not matter for it, so the list of calls is the recursion of the code.\<close>

lemma require_append:
  "require_detached_values h forbidden seen (xs @ ys) = (case require_detached_values h forbidden seen xs of
     Inl e \<Rightarrow> Inl e | Inr seen' \<Rightarrow> require_detached_values h forbidden seen' ys)"
  by (induction h forbidden seen xs rule: require_detached_values.induct) (simp_all split: option.split)

subsection \<open>What is accepted\<close>

inductive holds :: "heap \<Rightarrow> nat \<Rightarrow> nat \<Rightarrow> bool" for h where
  dict_key: "map_of h v = Some (DictObject items) \<Longrightarrow> (k, w) \<in> set items \<Longrightarrow> holds h v k"
| dict_value: "map_of h v = Some (DictObject items) \<Longrightarrow> (k, w) \<in> set items \<Longrightarrow> holds h v w"
| sequence_item: "map_of h v = Some (SequenceObject xs) \<Longrightarrow> w \<in> set xs \<Longrightarrow> holds h v w"
| dataclass_field: "map_of h v = Some (DataclassObject fs) \<Longrightarrow> w \<in> set fs \<Longrightarrow> holds h v w"

lemma holds_iff: "holds h v w \<longleftrightarrow> w \<in> set (parts_of h v)"
  by (cases "map_of h v"; cases "the (map_of h v)") (auto simp: parts_of_def holds.simps)

definition plain :: "heap \<Rightarrow> nat list \<Rightarrow> nat \<Rightarrow> bool" where
  "plain h forbidden v \<longleftrightarrow> v \<notin> set forbidden \<and> (\<forall>x. map_of h v = Some x \<longrightarrow> \<not> is_other x)"

definition settled :: "heap \<Rightarrow> nat list \<Rightarrow> nat list \<Rightarrow> nat \<Rightarrow> bool" where
  "settled h forbidden seen v \<longleftrightarrow> plain h forbidden v \<and> (parts_of h v = [] \<or> v \<in> set seen)"

lemma settled_mono: "settled h forbidden seen v \<Longrightarrow> set seen \<subseteq> set seen' \<Longrightarrow> settled h forbidden seen' v"
  by (auto simp: settled_def)

text \<open>An accepted list is settled, and so are the parts of everything seen on the way.\<close>

lemma require_sound:
  assumes "require_detached_values h forbidden seen vs = Inr seen'" and "\<forall>v \<in> set seen. plain h forbidden v"
  shows "set seen \<subseteq> set seen' \<and> (\<forall>v \<in> set seen'. plain h forbidden v) \<and> (\<forall>v \<in> set vs. settled h forbidden seen' v)
    \<and> (\<forall>v \<in> set seen' - set seen. \<forall>w \<in> set (parts_of h v). settled h forbidden seen' w)"
  using assms
proof (induction h forbidden seen vs rule: require_detached_values.induct)
  case (2 h forbidden seen v vs)
  from "2.prems"(1) have ok: "v \<notin> set forbidden" by (auto split: if_split_asm)
  consider "map_of h v = None" | x where "map_of h v = Some x" "x = AtomObject \<or> v \<in> set seen"
    | x where "map_of h v = Some x" "\<not> (x = AtomObject \<or> v \<in> set seen)" by (cases "map_of h v") auto
  then show ?case
  proof cases
    case 1
    with ok "2.prems" "2.IH"(1) show ?thesis by (auto simp: settled_def plain_def parts_of_def)
  next
    case (2 x)
    with ok "2.prems" "2.IH"(2) [OF ok] show ?thesis by (auto simp: settled_def plain_def parts_of_def)
  next
    case (3 x)
    then have pl: "\<not> is_other x" "plain h forbidden v" and run: "require_detached_values h forbidden (v # seen) (parts x @ vs) = Inr seen'"
      using ok "2.prems"(1) by (auto simp: plain_def split: if_split_asm)
    have ih: "set (v # seen) \<subseteq> set seen' \<and> (\<forall>v \<in> set seen'. plain h forbidden v) \<and> (\<forall>u \<in> set (parts x @ vs). settled h forbidden seen' u)
      \<and> (\<forall>u \<in> set seen' - set (v # seen). \<forall>w \<in> set (parts_of h u). settled h forbidden seen' w)"
      by (rule "2.IH"(3) [OF ok 3 pl(1) run]) (use pl(2) "2.prems"(2) in simp)
    have ps: "parts_of h v = parts x" using 3 by (simp add: parts_of_def)
    have "settled h forbidden seen' w" if "u \<in> set seen' - set seen" "w \<in> set (parts_of h u)" for u w
      using ih that ps by (cases "u = v") auto
    with ih pl(2) show ?thesis by (auto simp: settled_def)
  qed
qed simp

definition good_from :: "heap \<Rightarrow> nat list \<Rightarrow> nat \<Rightarrow> bool" where
  "good_from h forbidden v \<longleftrightarrow> (\<forall>w. (holds h)\<^sup>*\<^sup>* v w \<longrightarrow> plain h forbidden w)"

lemma good_from_parts: "good_from h forbidden v \<Longrightarrow> map_of h v = Some x \<Longrightarrow> u \<in> set (parts x) \<Longrightarrow> good_from h forbidden u"
proof -
  assume "good_from h forbidden v" "map_of h v = Some x" "u \<in> set (parts x)"
  moreover from this have "holds h v u" by (simp add: holds_iff parts_of_def)
  ultimately show ?thesis unfolding good_from_def by (blast intro: converse_rtranclp_into_rtranclp)
qed

lemma require_complete:
  assumes "\<forall>v \<in> set vs. good_from h forbidden v"
  shows "\<exists>seen'. require_detached_values h forbidden seen vs = Inr seen'"
  using assms
proof (induction h forbidden seen vs rule: require_detached_values.induct)
  case (2 h forbidden seen v vs)
  have g: "good_from h forbidden v" and rest: "\<forall>v \<in> set vs. good_from h forbidden v" using "2.prems" by simp_all
  have pl: "plain h forbidden v" using g by (simp add: good_from_def)
  then have ok: "v \<notin> set forbidden" by (simp add: plain_def)
  show ?case
  proof (cases "map_of h v")
    case None
    with ok "2.IH"(1) rest show ?thesis by simp
  next
    case (Some x)
    have good: "\<forall>u \<in> set (parts x @ vs). good_from h forbidden u" using good_from_parts [OF g Some] rest by auto
    have "\<not> is_other x" using pl Some by (simp add: plain_def)
    with ok Some "2.IH"(2) [OF ok Some _ rest] "2.IH"(3) [OF ok Some _ _ good] show ?thesis by simp
  qed
qed simp

text \<open>C26: The check of a call's result always ends, on shared and cyclic object graphs too, and lets a result
  through exactly if nothing reachable from it, itself included, is the leased resource or an object that is
  neither a plain value nor a container of the allowed types.\<close>

theorem admitted_results_are_detached:
  "admit_result h resource result = Inr result \<longleftrightarrow>
     (\<forall>v. (holds h)\<^sup>*\<^sup>* result v \<longrightarrow> v \<noteq> resource \<and> (\<forall>x. map_of h v = Some x \<longrightarrow> \<not> is_other x))"
proof
  assume "admit_result h resource result = Inr result"
  then obtain seen where run: "require_detached_values h [resource] [] [result] = Inr seen"
    by (auto simp: admit_result_def split: if_split_asm sum.split_asm)
  note s = require_sound [OF run]
  show "\<forall>v. (holds h)\<^sup>*\<^sup>* result v \<longrightarrow> v \<noteq> resource \<and> (\<forall>x. map_of h v = Some x \<longrightarrow> \<not> is_other x)"
  proof (intro allI impI)
    fix v assume "(holds h)\<^sup>*\<^sup>* result v"
    then have "settled h [resource] seen v"
    proof (induction rule: rtranclp_induct)
      case base
      with s show ?case by simp
    next
      case (step v w)
      then have "v \<in> set seen" by (auto simp: settled_def holds_iff)
      with step.hyps(2) s show ?case by (simp add: holds_iff)
    qed
    then show "v \<noteq> resource \<and> (\<forall>x. map_of h v = Some x \<longrightarrow> \<not> is_other x)" by (simp add: settled_def plain_def)
  qed
next
  assume a: "\<forall>v. (holds h)\<^sup>*\<^sup>* result v \<longrightarrow> v \<noteq> resource \<and> (\<forall>x. map_of h v = Some x \<longrightarrow> \<not> is_other x)"
  then have "\<exists>seen. require_detached_values h [resource] [] [result] = Inr seen"
    by (intro require_complete) (simp add: good_from_def plain_def)
  with a show "admit_result h resource result = Inr result" by (auto simp: admit_result_def)
qed

end
