(* ===== verification/Fd_Examples.thy ===== *)
theory Fd_Examples
  imports Fd_Properties Fd_Values
begin

section \<open>Runs of a lease\<close>

text \<open>A lease on the resource 7 with capacity two, closers for both ways of closing and an asynchronous life.\<close>

definition ex_closers :: Closers where
  "ex_closers = \<lparr>has_sync = False, has_async = True, has_hard_sync = False, has_hard_async = True\<rparr>"

definition ex_lease :: "nat FdLease" where
  "ex_lease = \<lparr>fl_owner = ''fd'', fl_resource = Some 7, fl_capacity = Some 2, fl_closers = ex_closers, fl_state = FD_OPEN,
     fl_generation = 1, fl_retire_reason = [], fl_close_error = [], fl_outcome = None, fl_next = 0, fl_caps = [],
     fl_claimed = 0, fl_attempts = [(1, 0)]\<rparr>"

lemma ex_new: "new_lease ''fd'' (Some 7) (Some 2) ex_closers 1 = Inr ex_lease"
  by (simp add: new_lease_def validate_configuration_def ex_closers_def ex_lease_def)

text \<open>A list that holds itself is a detached value; one that holds the resource somewhere is not.\<close>

lemma admitted_examples:
  "admit_result [(1, SequenceObject [2, 1]), (2, AtomObject)] 7 1 = Inr 1"
  "admit_result [(1, DictObject [(2, 3)]), (2, AtomObject), (3, DataclassObject [7]), (7, OtherObject ''socket'')] 7 1 = Inl (not_detached [])"
  by code_simp+

definition ex_heap :: heap where
  "ex_heap = [(1, SequenceObject [2, 1]), (2, AtomObject)]"

text \<open>Accepting the list shows that the resource is out of its reach, although its own item is not.\<close>

theorem admitted_results_are_detached_witness:
  "admit_result ex_heap 7 1 = Inr 1 \<and> (holds ex_heap)\<^sup>*\<^sup>* 1 2 \<and> \<not> (holds ex_heap)\<^sup>*\<^sup>* 1 7"
proof -
  have ok: "admit_result ex_heap 7 1 = Inr 1" unfolding ex_heap_def by (rule admitted_examples(1))
  have "holds ex_heap 1 2" by (rule sequence_item [of _ _ "[2, 1]"]) (simp_all add: ex_heap_def)
  then have "(holds ex_heap)\<^sup>*\<^sup>* 1 2" by (rule r_into_rtranclp)
  with ok iffD1 [OF admitted_results_are_detached ok] show ?thesis by blast
qed

text \<open>One call in flight when the lease is revoked.\<close>

definition ex_revoke :: "nat fd_op list" where
  "ex_revoke = [Acquire 1 True, BeginCall 1 1, ClaimRevoke ''stop'' True None]"

definition ex_ticket :: "nat FdTicket" where
  "ex_ticket = \<lparr>tk_generation = 1, tk_resource = 7, tk_forced = True, tk_async = True, tk_closer = True\<rparr>"

definition ex_run :: "nat fd_op list \<Rightarrow> nat FdSystem" where
  "ex_run ops = run_ops fd_step (start_system ex_lease) ops"

definition ex_closing :: "nat fd_op list" where
  "ex_closing = ex_revoke @ [EndCall 1, SeeDrained ex_ticket, RunCloser ex_ticket]"

definition ex_quarantine :: "nat fd_op list" where
  "ex_quarantine = ex_closing @ [FinishClose ex_ticket (Raised ''OSError'' ''busy'')]"

lemma ex_revoke_draining: "(ex_ticket, Draining) \<in> set (fs_tickets (ex_run ex_revoke))"
  by code_simp

lemma ex_closing_running: "(ex_ticket, Closer_Running) \<in> set (fs_tickets (ex_run ex_closing))"
  by code_simp

lemma ex_quarantined: "fl_state (fs_lease (ex_run ex_quarantine)) = FD_QUARANTINED"
  by code_simp

lemma ex_fenced: "fenced 1 (fs_lease (ex_run ex_revoke))"
  by code_simp

theorem closer_never_overlaps_call_witness:
  "\<not> generation_has_inflight_calls 1 (fs_lease (ex_run ex_closing)) \<and> fl_resource (fs_lease (ex_run ex_closing)) = Some 7"
  using closer_never_overlaps_call [OF ex_new ex_closing_running [unfolded ex_run_def]]
  by (simp add: Let_def ex_run_def ex_ticket_def)

theorem each_generation_closed_once_witness: "distinct (fs_closed (ex_run (ex_closing @ ex_closing)))"
  using each_generation_closed_once [OF ex_new, of "ex_closing @ ex_closing"] by (simp add: Let_def ex_run_def)

theorem fenced_capability_never_runs_again_witness:
  "\<exists>e. fst (begin_call 1 1 (fs_lease (ex_run (ex_revoke @ [EndCall 1])))) = Inl e"
  using fenced_capability_never_runs_again [OF ex_new ex_fenced [unfolded ex_run_def], of "[EndCall 1]" 1]
  by (auto simp: Let_def ex_run_def)

theorem quarantine_is_terminal_witness:
  "fl_state (fs_lease (ex_run (ex_quarantine @ [Publish (Some 8) ex_closers]))) = FD_QUARANTINED"
  using quarantine_is_terminal [OF ex_new ex_quarantined [unfolded ex_run_def], of "[Publish (Some 8) ex_closers]"]
  by (simp add: Let_def ex_run_def)

theorem claimed_close_settles_witness:
  "fl_state (fs_lease (run_ops fd_step (ex_run (ex_revoke @ [RequestCancel 1 ''x'', EndCall 1]))
     (closing_steps ex_ticket (Returned (Some (detached [])))))) = FD_CLOSED"
proof -
  have "AbandonDrain ex_ticket \<notin> set [RequestCancel 1 ''x'', EndCall 1]" by simp
  note settles = claimed_close_settles [OF ex_new ex_revoke_draining [unfolded ex_run_def] this, of "Returned (Some (detached []))"]
  have "(ex_ticket, Draining) \<in> set (fs_tickets (ex_run (ex_revoke @ [RequestCancel 1 ''x'', EndCall 1])))"
    "closer_due (ex_run (ex_revoke @ [RequestCancel 1 ''x'', EndCall 1])) ex_ticket Draining"
    "co_disposition (normalize_close_outcome (Returned (Some (detached [])))) = DETACHED" by code_simp+
  with settles show ?thesis unfolding Let_def ex_run_def by metis
qed

text \<open>The cancelled drain, seen on the run: later revocations and closes find the lease claimed.\<close>

lemma cancelled_drain_example:
  "fl_state (fs_lease (ex_run (ex_revoke @ [AbandonDrain ex_ticket] @ [EndCall 1, SeeDrained ex_ticket, ClaimRevoke ''again'' True None]))) = FD_REVOKING"
  using cancelled_drain_strands_lease [OF ex_new ex_revoke_draining [unfolded ex_run_def],
      of "[EndCall 1, SeeDrained ex_ticket, ClaimRevoke ''again'' True None]"]
  by (simp add: Let_def ex_run_def ex_ticket_def)

text \<open>
  \<open>publish\<close> registers the lease after it has released the lock. When the new generation is closed and settled in
  between, the late registration enters a closed lease, which nothing removes.
\<close>

definition ex_second :: "nat FdTicket" where
  "ex_second = \<lparr>tk_generation = 2, tk_resource = 8, tk_forced = False, tk_async = True, tk_closer = True\<rparr>"

definition ex_race :: "nat fd_op list" where
  "ex_race = ex_closing @ [FinishClose ex_ticket (Returned (Some (detached []))), Settle 1 FD_CLOSED, Publish (Some 8) ex_closers,
     ClaimClose True, RunCloser ex_second, FinishClose ex_second (Returned (Some (detached []))), Settle 2 FD_CLOSED, Register]"

lemma late_registration_keeps_closed_lease:
  "let s = ex_run ex_race in fl_state (fs_lease s) = FD_CLOSED \<and> fs_registered s \<and> fs_registering s = 0 \<and> fs_settling s = [] \<and> fs_tickets s = []"
  by code_simp

end
