(* ===== verification/Spec2Isabelle.thy ===== *)
theory Spec2Isabelle
  imports Leases Store_Examples Graph_Examples Role_Examples Fd_Examples
begin

text \<open>
  A verification library for the durable kernel of Bunshin, the part of Pal that runs long tasks as
  workflows (\<open>src/src/pal/bunshin/\<close>), and for the leases of file descriptors that the whole program shares
  (\<open>src/src/pal/foundation/fd_lease.py\<close>). It models the kernel's state machines, its task graphs, its
  transactional store and the leases as HOL functions and proves what the rest of the program relies on.

  How the parts interact: a workflow is planned by a plan cycle (a producer writes a plan, a checker judges
  it), the accepted plan is compiled into a graph of modules, and a graph execution runs one node cycle per
  module. The coordinator is the only writer of plan cycles and executions. Next to it every durable object
  (task, workflow, architecture revision, execution epoch, node run, review) is an aggregate moved by the
  transition engine; a dispatch stores the new snapshot, its events and its effects in one transaction, and
  workers take the effects from the outbox under leases. An effect that needs a role creates an assignment of a
  durable role session; processes attempt it, one of them records a result, and the dispatch that acts on the
  result settles the assignment in its transaction.

  \<^bold>\<open>Values\<close>

  \<^item> \<open>Prelude\<close>: results with the Python exceptions the kernel raises, JSON values and dictionaries with the
    Python operations on them (\<open>get\<close>, \<open>update\<close>, \<open>pop\<close>, truthiness, \<open>str\<close>, \<open>int\<close>, \<open>dict\<close>), worklists.
    \<open>Ordered_Dict\<close>: dictionaries with other values, in insertion order.
  \<^item> \<open>Contracts\<close>, \<open>Role_Contracts\<close>: \<open>contracts.py\<close> and the activations of \<open>role_contracts.py\<close>.

  \<^bold>\<open>Aggregates\<close>

  \<^item> \<open>Machine_Dsl\<close>, \<open>Engine\<close>: \<open>machine_dsl.py\<close> (specifications and their validation) and \<open>engine.py\<close> (the
    transition function). The locales \<open>versioned_step\<close> and \<open>declared_step\<close> state what a store may assume of
    an engine; they are interpreted on \<open>transition\<close>.
  \<^item> \<open>Machine_Rules\<close>, \<open>Machine_Build\<close>, \<open>Workflow_Machine\<close>, \<open>Architecture_Machine\<close>, \<open>Execution_Machine\<close>,
    \<open>Node_Machine\<close>, \<open>Review_Machine\<close>, \<open>Machines\<close>: \<open>machines.py\<close>, its guards, reducers, resolvers and effect
    builders, its six tables, and the default engine.
  \<^item> \<open>Machine_Facts\<close>, \<open>Machine_Properties\<close>, \<open>Machine_Scenarios\<close>, \<open>Machine_Evidence\<close>, \<open>Machine_Control\<close>: what
    holds of the six machines; \<open>Machine_Examples\<close> runs them on concrete snapshots.

  \<^bold>\<open>Plans, graphs and executions\<close>

  \<^item> \<open>Cycle_Protocol\<close>, \<open>Cycle_Properties\<close>: \<open>cycle_protocol.py\<close>, the produce-check cycles of plans and nodes
    with their invariant, and their JSON form in \<open>storage/serialization.py\<close>.
  \<^item> \<open>Graph_Protocol\<close>: \<open>graph_protocol.py\<close>, the graph of modules with its constructor, predecessors, repair
    closure and JSON form. \<open>Graph_Compiler\<close>, \<open>Graph_Compilation\<close>: \<open>graph_compiler.py\<close>; the first has the
    topological sort and the search for the sink, the second the compilation of a document.
  \<^item> \<open>Dependency_Repair\<close>, \<open>Dependency_Repair_Json\<close>: \<open>dependency_repair_protocol.py\<close>, the durable ledger of
    dependency repairs (intents, frozen incarnations, captured receipts, closure proofs) and its JSON form.
  \<^item> \<open>Graph_Executor\<close>: \<open>GraphExecution\<close> of \<open>graph_executor.py\<close>: readiness, finding routes, verdicts,
    invalidation and dependency repairs. \<open>Graph_Facts\<close> has the well-formedness of an execution, the readiness
    loop and progress; \<open>Graph_Invariants\<close> that every operation keeps an execution sound.
  \<^item> \<open>Graph_Diff\<close>: \<open>diff_graphs\<close>, and the execution of the next generation built from the previous one.
  \<^item> \<open>Cycle_Store\<close>: \<open>storage/cycles.py\<close> over tables of rows. \<open>Workflow_Runtime\<close>: \<open>workflow_runtime.py\<close>, every
    method of the coordinator as one transaction.
  \<^item> \<open>Workflow_Tables\<close>: the invariant of the tables (\<open>tables_ok\<close>) and the order \<open>keeps_evidence\<close> in which
    ledgers grow. \<open>Workflow_History\<close>: the coordinator's methods and the repair transactions of
    \<open>semantic_orchestration/\<close> as one datatype \<open>workflow_op\<close>; the interpretation of \<open>store\<close> on its steps.
    \<open>Repair_Facts\<close>, \<open>Workflow_Properties\<close>: what holds after any history. \<open>Graph_Examples\<close> runs a graph of two
    modules.

  \<^bold>\<open>Stores\<close>

  \<^item> \<open>Operations\<close>, \<open>Database\<close>, \<open>Leases\<close>, \<open>Human_Decisions\<close>, \<open>Dispatch\<close>, \<open>Outbox\<close>: the stores under
    \<open>storage/\<close>. Every operation is one write transaction: it returns an error, or its result and the new
    tables. The locales \<open>store\<close>, \<open>monotone_store\<close> and \<open>refined_store\<close> lift laws about one operation to any
    sequence: an invariant, a rank that never falls, and the moves of an abstract machine.
  \<^item> \<open>Dispatch_Facts\<close>, \<open>Store_Invariant\<close>, \<open>Store_Steps\<close>, \<open>Store_History\<close>, \<open>Store_Properties\<close>: the dispatch
    and outbox operations as one datatype \<open>db_op\<close>, the invariant \<open>db_ok\<close> of the whole store, what each
    operation does to one effect (\<open>effect_change\<close>), and the interpretations of \<open>store\<close> and \<open>refined_store\<close>.
  \<^item> \<open>Outbox_Lifecycle\<close>, \<open>Store_Guarantees\<close>: the life cycle of an effect as an abstract machine that the
    store refines, and what holds after any history: effects are completed once, a live claim is exclusive,
    a lost claim stays lost, dispatching is idempotent and atomic. \<open>Store_Examples\<close> has concrete stores.

  \<^bold>\<open>Roles\<close>

  \<^item> \<open>Role_Protocol\<close>: \<open>role_protocol.py\<close>, the transition tables of sessions and assignments, requests, receipts
    and identifiers. \<open>Checkpoints\<close>: \<open>checkpoint.py\<close>, the public header of a checkpoint and the store of one
    checkpoint per coroutine.
  \<^item> \<open>Role_Tables\<close>: the rows of the role tables, the scope checks (\<open>storage/role_session_checks.py\<close>), admission
    (\<open>storage/role_assignments.py\<close>) and the ownership witness (\<open>storage/role_business_leases.py\<close>). \<open>Role_Store\<close>:
    every write operation of the other \<open>storage/role_*.py\<close> stores as one transaction, and their queries.
  \<^item> \<open>Role_Invariant\<close>: the invariant \<open>roles_ok\<close> and the order \<open>evolves\<close>, for each kind of change the operations
    are made of. \<open>Role_Steps\<close>: every operation is lawful (keeps \<open>roles_ok\<close>, respects \<open>evolves\<close>), and cancellation
    succeeds. \<open>Role_History\<close>: the operations as one datatype \<open>role_op\<close> and the interpretation of \<open>store\<close> on its
    steps. \<open>Role_Properties\<close>: what holds after any history, and the settlement inside a dispatch
    (\<open>with_role_store\<close> puts the role store behind the dispatch). \<open>Role_Examples\<close> runs concrete histories.

  \<^bold>\<open>Leased resources\<close>

  \<^item> \<open>Fd_Lease\<close>: \<open>src/src/pal/foundation/fd_lease.py\<close>, outside Bunshin: the slot that owns an fd-backed resource
    per generation, its capabilities and the cancellation control. A section under the lock of the lease is one
    function, which returns its error or result and the lease that is left. \<open>Fd_System\<close>: threads on one lease as
    any sequence of such sections (\<open>fd_op\<close>, \<open>fd_step\<close>), with what a thread is in the middle of: the ticket of a
    close with its phase, a registration after \<open>publish\<close>, a settlement with the registry. \<open>AbandonDrain\<close> is the
    cancellation of a task that awaits the drain.
  \<^item> \<open>Fd_Steps\<close>, \<open>Fd_Claims\<close>: what each section does on every branch; \<open>quiet\<close> sections end no generation,
    \<open>claims\<close> hand the close to one thread. \<open>Fd_Invariant\<close>: the invariant \<open>fd_inv\<close> and the order \<open>fd_later\<close>.
    \<open>Fd_History\<close>: every step keeps both (an interpretation of \<open>refined_store\<close>). \<open>Fd_Properties\<close>: the closer
    runs alone and once, fenced capabilities stay fenced, claimed closes settle, quarantine is final. \<open>Fd_Values\<close>:
    the check that the result of a call is detached from the resource, over a heap of objects that may be cyclic.
    (Python's recursion limit on very deep results is not modelled.) \<open>Fd_Examples\<close> runs a lease, and shows a late
    registration.

  \<^bold>\<open>Fuel\<close>

  \<open>worklist\<close> counts iterations; the bounds in \<open>reachable_states\<close> (declared targets plus initial states plus
  one), \<open>repair_descendants\<close> (nodes plus edges plus two) and \<open>reachable_from\<close> (edges plus two) are proved sufficient. \<open>topological_loop\<close>
  gets one iteration per node and one more; \<open>withdraw_loop\<close> one pass per node and one more; \<open>refresh_loop\<close> two
  passes, because a module that becomes ready never makes another one ready. None of them runs out.

  \<^bold>\<open>Outside the model\<close>

  Hashing (one function from JSON values to digests is a parameter; equal digests are compared, as in the
  code), fresh identifiers, the file system, the clock (readings are arguments), SQLite itself and the JSON
  texts in its columns (a column is the value it decodes to), and the collaborators of a dispatch that only
  touch their own tables (arguments of the record \<open>Ports\<close>). The family's projector and the workspace
  authority rules of the compiler are parameters, its YAML source map is not modelled. A repair transaction
  is any sequence of repair steps on the stored execution: the leases, worktrees, artifacts and aggregate
  actions behind them are not modelled, so the histories cover more than the program does. Stored
  objects are compared with the order of their keys, which Python ignores, so a store of a known generation may be
  refused where the code accepts it. Texts are
  sequences of 8-bit characters; floats do not occur in the modelled payloads. The asynchronous services
  around the kernel (orchestration, git worktrees, LLM calls) and the rest of Pal (turns, channels, memory,
  skills) are not modelled. Of the roles the journal of events and turns, the sweep of runtime directories,
  the encryption of checkpoints and the check of submission drafts (an argument of the submission) are outside,
  and of a row only the time columns that an operation reads are kept. Whether rebuilding the workflow
  projection succeeds is a field of \<open>RoleWorld\<close>, which every role operation takes as it finds it. Of the leased
  resources the trace, the snapshots and the recent entries of the registry are outside; closers and interrupt hooks are opaque, so a closer is only the result it returns
  or raises, and the registry is its entry
  for one lease, which no other lease can hold because owner ids are unique.
\<close>

end
